(* ===== verification/Prelude.thy ===== *)
theory Prelude
  imports Complex_Main "HOL-Library.Sublist"
begin

text \<open>
  Shared ground of the development: Go's time and duration values, the string functions of
  the standard library the sources call, formatted text, the named collections of simplification
  rules, and the generic lemmas the component theories use.

  Modelling decisions made here once:
  \<^item> \<open>time.Time\<close> is an instant, counted in nanoseconds from Go's zero time (0001-01-01 UTC), so
    \<open>t.IsZero()\<close> is \<open>t = 0\<close>, \<open>Before\<close>/\<open>After\<close> are \<open><\<close>/\<open>>\<close>, \<open>Add\<close> is \<open>+\<close>, and \<open>Sub\<close> saturates at
    the bounds of \<open>time.Duration\<close> as the Go library documents. Monotonic readings are not told
    apart from wall readings.
  \<^item> \<open>time.Duration\<close> and \<open>int\<close> are 64 bit in the source. They are \<open>int\<close> here; where the source
    multiplies without a preceding bound, the wrap-around is written out with \<open>wrap64\<close>.
  \<^item> a Go string is a list of bytes; case folding is that of ASCII letters.
  \<^item> a formatted message keeps its format string and its arguments (\<open>Sprintf fmt args\<close>), so
    nothing of what is reported is lost and no number formatting has to be modelled.
\<close>

named_theorems time_simps \<open>time and duration arithmetic\<close>
named_theorems go_simps \<open>Go library functions on strings and integers\<close>

type_synonym time = int
type_synonym dur = int

definition max_dur :: dur where
  "max_dur = 2 ^ 63 - 1"

definition min_dur :: dur where
  "min_dur = - (2 ^ 63)"

definition t_sub :: "time \<Rightarrow> time \<Rightarrow> dur" where
  "t_sub a b = max min_dur (min max_dur (a - b))"

definition wrap64 :: "int \<Rightarrow> int" where
  "wrap64 x = (x + 2 ^ 63) mod 2 ^ 64 - 2 ^ 63"

abbreviation (input) nanosecond :: dur where "nanosecond \<equiv> 1"
abbreviation millisecond :: dur where "millisecond \<equiv> 1000000"
abbreviation second :: dur where "second \<equiv> 1000000000"
abbreviation minute :: dur where "minute \<equiv> 60000000000"
abbreviation hour :: dur where "hour \<equiv> 3600000000000"

text \<open>Go's \<open>/\<close> on integers truncates towards zero.\<close>

definition go_div :: "int \<Rightarrow> int \<Rightarrow> int" where
  "go_div a b = sgn a * sgn b * (\<bar>a\<bar> div \<bar>b\<bar>)"

text \<open>Formatted text: a format string with its arguments.\<close>

datatype gotext = Sprintf string "farg list"
  and farg = FStr string | FInt int | FFlt string rat | FDur dur | FClock time | FText gotext

abbreviation lit :: "string \<Rightarrow> gotext" where
  "lit s \<equiv> Sprintf s []"

text \<open>The functions of package \<open>strings\<close> the sources call.\<close>

definition has_prefix :: "string \<Rightarrow> string \<Rightarrow> bool" where
  "has_prefix s p = prefix p s"

definition has_suffix :: "string \<Rightarrow> string \<Rightarrow> bool" where
  "has_suffix s p = suffix p s"

definition lower_char :: "char \<Rightarrow> char" where
  "lower_char c = (if 65 \<le> (of_char c :: nat) \<and> (of_char c :: nat) \<le> 90
     then char_of ((of_char c :: nat) + 32) else c)"

definition to_lower :: "string \<Rightarrow> string" where
  "to_lower s = map lower_char s"

definition replace_char :: "char \<Rightarrow> char \<Rightarrow> string \<Rightarrow> string" where
  "replace_char a b s = map (\<lambda>c. if c = a then b else c) s"

definition equal_fold :: "string \<Rightarrow> string \<Rightarrow> bool" where
  "equal_fold a b = (to_lower a = to_lower b)"

text \<open>Decimal rendering of an integer, as \<open>%d\<close> and \<open>strconv.Itoa\<close> print it.\<close>

fun utoa :: "nat \<Rightarrow> string" where
  "utoa n = (if n < 10 then [char_of (48 + n)] else utoa (n div 10) @ [char_of (48 + n mod 10)])"

declare utoa.simps [simp del]

definition itoa :: "int \<Rightarrow> string" where
  "itoa k = (if k < 0 then CHR ''-'' # utoa (nat (- k)) else utoa (nat k))"

text \<open>\<open>strings.Cut\<close> at a one-byte separator: before, after, found.\<close>

fun cut_char :: "char \<Rightarrow> string \<Rightarrow> string \<times> string \<times> bool" where
  "cut_char c [] = ([], [], False)"
| "cut_char c (x # xs) =
     (if x = c then ([], xs, True)
      else (case cut_char c xs of (b, a, f) \<Rightarrow> (x # b, a, f)))"

text \<open>\<open>strings.Join\<close>.\<close>

fun join_with :: "string \<Rightarrow> string list \<Rightarrow> string" where
  "join_with sep [] = ''''"
| "join_with sep [x] = x"
| "join_with sep (x # y # xs) = x @ sep @ join_with sep (y # xs)"

subsection \<open>Time and integers\<close>

lemma t_sub_self [simp]: "t_sub a a = 0"
  by (simp add: t_sub_def max_dur_def min_dur_def)

lemma t_sub_bounds [time_simps]: "min_dur \<le> t_sub a b" "t_sub a b \<le> max_dur"
  by (auto simp: t_sub_def max_dur_def min_dur_def)

lemma t_sub_nonneg: "b \<le> a \<Longrightarrow> 0 \<le> t_sub a b"
  by (simp add: t_sub_def max_dur_def min_dur_def)

lemma t_sub_le_iff: "min_dur \<le> d \<Longrightarrow> d < max_dur \<Longrightarrow> t_sub a b \<le> d \<longleftrightarrow> a - b \<le> d"
  by (auto simp: t_sub_def max_dur_def min_dur_def)

lemma t_sub_less_iff: "min_dur < d \<Longrightarrow> d \<le> max_dur \<Longrightarrow> t_sub a b < d \<longleftrightarrow> a - b < d"
  by (auto simp: t_sub_def max_dur_def min_dur_def)

lemma t_sub_mono: "a \<le> a' \<Longrightarrow> t_sub a b \<le> t_sub a' b"
  by (auto simp: t_sub_def max_dur_def min_dur_def)

lemma wrap64_id: "- (2 ^ 63) \<le> x \<Longrightarrow> x < 2 ^ 63 \<Longrightarrow> wrap64 x = x"
  by (simp add: wrap64_def)

lemma wrap64_range: "- (2 ^ 63) \<le> wrap64 x \<and> wrap64 x < 2 ^ 63"
proof -
  have "0 \<le> (x + 2 ^ 63) mod 2 ^ 64" "(x + 2 ^ 63) mod 2 ^ 64 < (2 ^ 64 :: int)"
    by (rule pos_mod_sign, simp) (rule pos_mod_bound, simp)
  then show ?thesis by (simp add: wrap64_def)
qed

subsection \<open>Strings\<close>

lemma lower_char_idem [simp]: "lower_char (lower_char c) = lower_char c"
proof -
  have "lower_char c = char_of ((of_char c :: nat) + 32)"
    if "65 \<le> (of_char c :: nat)" "(of_char c :: nat) \<le> 90"
    using that by (simp add: lower_char_def)
  then show ?thesis
    by (auto simp: lower_char_def of_char_of)
qed

lemma to_lower_idem [simp]: "to_lower (to_lower s) = to_lower s"
  by (simp add: to_lower_def comp_def)

lemma to_lower_append [simp]: "to_lower (a @ b) = to_lower a @ to_lower b"
  by (simp add: to_lower_def)

lemma length_to_lower [simp]: "length (to_lower s) = length s"
  by (simp add: to_lower_def)

lemma cut_char_found:
  "cut_char c s = (b, a, True) \<Longrightarrow> s = b @ c # a \<and> c \<notin> set b"
  by (induction s arbitrary: a b) (auto split: if_splits prod.splits)

lemma cut_char_not_found:
  "cut_char c s = (b, a, False) \<Longrightarrow> b = s \<and> a = [] \<and> c \<notin> set s"
  by (induction s arbitrary: a b) (auto split: if_splits prod.splits)

lemma cut_char_append:
  "c \<notin> set b \<Longrightarrow> cut_char c (b @ c # a) = (b, a, True)"
  by (induction b) auto

lemma cut_char_absent:
  "c \<notin> set b \<Longrightarrow> cut_char c b = (b, [], False)"
  by (induction b) auto

end
