(* ===== verification/Float64.thy ===== *)
theory Float64
  imports Prelude "HOL-Library.Log_Nat"
begin

text \<open>
  Go's \<open>float64\<close>. A finite float is the rational number it denotes (\<open>flt\<close>); every arithmetic
  operation computes the exact result and rounds it to the nearest binary64 number, ties to even
  (\<open>fl64\<close>). NaN and the infinities are not represented: a configuration document cannot hold
  them, and the telemetry code discards a NaN reading before it computes with it.

  The laws of rounding the components use (zero is exact, rounding is monotone and does not move
  a number that is a float) are the assumptions of the locale \<open>float_rounding\<close>, which is
  interpreted on \<open>fl64\<close>.
\<close>

type_synonym flt = rat

subsection \<open>Rounding to binary64\<close>

definition rhe :: "rat \<Rightarrow> int" where
  "rhe x = (let k = \<lfloor>x\<rfloor>; f = x - of_int k in
     if f < 1 / 2 then k else if 1 / 2 < f then k + 1 else if even k then k else k + 1)"

text \<open>The binary exponent of a positive rational: \<open>2 ^ e \<le> x < 2 ^ (e + 1)\<close>.\<close>

definition bin_exp :: "rat \<Rightarrow> int" where
  "bin_exp x = (let e = bitlen (fst (quotient_of x)) - bitlen (snd (quotient_of x)) in
     if 2 powi e \<le> x then e else e - 1)"

definition quantum :: "rat \<Rightarrow> rat" where
  "quantum x = 2 powi (max (bin_exp x - 52) (- 1074))"

definition fl64_pos :: "rat \<Rightarrow> rat" where
  "fl64_pos x = quantum x * of_int (rhe (x / quantum x))"

definition fl64 :: "rat \<Rightarrow> flt" where
  "fl64 x = (if x = 0 then 0 else if 0 < x then fl64_pos x else - fl64_pos (- x))"

definition fadd :: "flt \<Rightarrow> flt \<Rightarrow> flt" where
  "fadd a b = fl64 (a + b)"

definition fsub :: "flt \<Rightarrow> flt \<Rightarrow> flt" where
  "fsub a b = fl64 (a - b)"

definition fmul :: "flt \<Rightarrow> flt \<Rightarrow> flt" where
  "fmul a b = fl64 (a * b)"

definition fdiv :: "flt \<Rightarrow> flt \<Rightarrow> flt" where
  "fdiv a b = fl64 (a / b)"

definition of_int_f :: "int \<Rightarrow> flt" where
  "of_int_f k = fl64 (of_int k)"

text \<open>Go's conversion \<open>int(x)\<close> truncates towards zero.\<close>

definition trunc_f :: "flt \<Rightarrow> int" where
  "trunc_f x = (if 0 \<le> x then \<lfloor>x\<rfloor> else \<lceil>x\<rceil>)"

lemmas float_defs = fadd_def fsub_def fmul_def fdiv_def of_int_f_def trunc_f_def

subsection \<open>The laws the components use\<close>

locale float_rounding =
  fixes rnd :: "rat \<Rightarrow> rat"
  assumes rnd_zero: "rnd 0 = 0"
    and rnd_mono: "0 \<le> x \<Longrightarrow> x \<le> y \<Longrightarrow> rnd x \<le> rnd y"
    and rnd_int: "0 \<le> k \<Longrightarrow> k \<le> 2 ^ 53 \<Longrightarrow> rnd (of_int k) = of_int k"
begin

lemma rnd_nonneg: "0 \<le> x \<Longrightarrow> 0 \<le> rnd x"
  using rnd_mono [of 0 x] by (simp add: rnd_zero)

lemma rnd_le_int: "0 \<le> x \<Longrightarrow> x \<le> of_int k \<Longrightarrow> k \<le> 2 ^ 53 \<Longrightarrow> rnd x \<le> of_int k"
proof -
  assume x: "0 \<le> x" "x \<le> of_int k" and k: "k \<le> 2 ^ 53"
  from x have "0 \<le> (of_int k :: rat)" by linarith
  then have "0 \<le> k" by simp
  then have "rnd (of_int k) = of_int k" using k by (rule rnd_int)
  moreover from x have "rnd x \<le> rnd (of_int k)" by (rule rnd_mono)
  ultimately show ?thesis by simp
qed

text \<open>The complement of a percentage, computed as \<open>1 - float64(m)/100\<close>, is a fraction.\<close>

lemma rnd_complement:
  assumes "0 \<le> m" "m \<le> 100"
  shows "0 \<le> rnd (1 - rnd (rnd (of_int m) / 100)) \<and> rnd (1 - rnd (rnd (of_int m) / 100)) \<le> 1"
proof -
  have m: "rnd (of_int m) = of_int m"
    using assms by (intro rnd_int) auto
  have "rnd (of_int m / 100) \<le> of_int 1"
    using assms by (intro rnd_le_int) auto
  moreover have "0 \<le> rnd (of_int m / 100)"
    using assms by (intro rnd_nonneg) auto
  ultimately have "0 \<le> 1 - rnd (of_int m / 100)" "1 - rnd (of_int m / 100) \<le> of_int 1"
    by auto
  then show ?thesis
    using rnd_nonneg rnd_le_int [of _ 1] by (simp add: m)
qed

text \<open>Scaling a float by a fraction does not raise it.\<close>

lemma rnd_scale:
  assumes "0 \<le> x" "rnd x = x" "0 \<le> f" "f \<le> 1"
  shows "0 \<le> rnd (x * f) \<and> rnd (x * f) \<le> x"
proof -
  have "0 \<le> x * f" "x * f \<le> x"
    using assms by (auto simp: mult_left_le)
  then show ?thesis
    using rnd_nonneg [of "x * f"] rnd_mono [of "x * f" x] assms(2) by simp
qed

end

subsection \<open>Rounding to nearest is monotone\<close>

lemma rhe_le: "rhe x \<le> \<lfloor>x\<rfloor> + 1" and rhe_ge: "\<lfloor>x\<rfloor> \<le> rhe x"
  by (auto simp: rhe_def Let_def)

lemma rhe_int [simp]: "rhe (of_int k) = k"
  by (simp add: rhe_def)

lemma rhe_numeral [simp]: "rhe (numeral n) = numeral n"
  using rhe_int [of "numeral n"] by simp

lemma rhe_mono: "x \<le> y \<Longrightarrow> rhe x \<le> rhe y"
proof -
  assume le: "x \<le> y"
  then have fl: "\<lfloor>x\<rfloor> \<le> \<lfloor>y\<rfloor>" by (rule floor_mono)
  show ?thesis
  proof (cases "\<lfloor>x\<rfloor> = \<lfloor>y\<rfloor>")
    case True
    then show ?thesis using le by (auto simp: rhe_def Let_def)
  next
    case False
    with fl have "\<lfloor>x\<rfloor> + 1 \<le> \<lfloor>y\<rfloor>" by simp
    with rhe_le [of x] rhe_ge [of y] show ?thesis by linarith
  qed
qed

lemma powi_nat: "0 \<le> k \<Longrightarrow> (2 :: rat) powi k = 2 ^ nat k"
  by (simp add: power_int_def)

lemma bitlen_rat: "0 < n \<Longrightarrow> 2 powi (bitlen n - 1) \<le> (of_int n :: rat) \<and> (of_int n :: rat) < 2 powi bitlen n"
proof -
  assume n: "0 < n"
  have "2 ^ nat (bitlen n - 1) \<le> n" "n < 2 ^ nat (bitlen n)"
    using bitlen_bounds [OF n] by auto
  then have "(of_int (2 ^ nat (bitlen n - 1)) :: rat) \<le> of_int n"
    "(of_int n :: rat) < of_int (2 ^ nat (bitlen n))"
    by (simp_all only: of_int_le_iff of_int_less_iff)
  moreover have "1 \<le> bitlen n" using n by (simp add: bitlen_ge_iff_power)
  ultimately show ?thesis by (simp add: powi_nat)
qed

lemma bin_exp_bounds:
  assumes "0 < x"
  shows "2 powi (bin_exp x) \<le> x \<and> x < 2 powi (bin_exp x + 1)"
proof -
  obtain n d where q: "quotient_of x = (n, d)" by (cases "quotient_of x")
  have d: "0 < d" and x: "x = of_int n / of_int d"
    using q by (auto intro: quotient_of_denom_pos quotient_of_div)
  with assms have n: "0 < n" by (simp add: zero_less_divide_iff)
  let ?e = "bitlen n - bitlen d"
  note bn = bitlen_rat [OF n] and bd = bitlen_rat [OF d]
  have pos: "0 < (of_int d :: rat)" using d by simp
  have "x < 2 powi bitlen n / 2 powi (bitlen d - 1)"
    unfolding x using bn bd pos
    by (intro frac_less) (auto simp: n less_imp_le)
  also have "\<dots> = 2 powi (?e + 1)"
    by (simp flip: power_int_diff add: algebra_simps)
  finally have up: "x < 2 powi (?e + 1)" .
  have "2 powi (?e - 1) = (2 powi (bitlen n - 1) / 2 powi bitlen d :: rat)"
    by (simp flip: power_int_diff add: algebra_simps)
  also have "\<dots> \<le> x"
    unfolding x using n bn bd pos by (intro frac_le) (auto simp: less_imp_le)
  finally have lo: "2 powi (?e - 1) \<le> x" .
  show ?thesis
    using up lo by (auto simp: bin_exp_def q Let_def)
qed

lemma bin_exp_mono: "0 < x \<Longrightarrow> x \<le> y \<Longrightarrow> bin_exp x \<le> bin_exp y"
proof (rule ccontr)
  assume x: "0 < x" and le: "x \<le> y" and "\<not> bin_exp x \<le> bin_exp y"
  then have "(2 :: rat) powi (bin_exp y + 1) \<le> 2 powi (bin_exp x)"
    by (intro power_int_increasing) auto
  with bin_exp_bounds [of x] bin_exp_bounds [of y] x le show False by auto
qed

lemma quantum_pos: "0 < quantum x"
  by (simp add: quantum_def)

text \<open>A power of two not below the exponent is a multiple of the quantum.\<close>

lemma quantum_power:
  assumes "bin_exp x \<le> e" "- 1074 \<le> e"
  shows "\<exists>k. 2 powi e / quantum x = of_int k"
proof -
  let ?q = "max (bin_exp x - 52) (- 1074)"
  have "?q \<le> e" using assms by simp
  then have "2 powi e / quantum x = (of_int (2 ^ nat (e - ?q)) :: rat)"
    by (simp add: quantum_def power_int_diff [symmetric] powi_nat)
  then show ?thesis by blast
qed

lemma fl64_pos_le_power:
  assumes "0 < x" "x \<le> 2 powi e" "bin_exp x \<le> e" "- 1074 \<le> e"
  shows "fl64_pos x \<le> 2 powi e"
proof -
  obtain k where k: "2 powi e / quantum x = of_int k"
    using quantum_power assms(3,4) by blast
  have "x / quantum x \<le> of_int k"
    using assms(2) quantum_pos [of x] by (simp add: k [symmetric] divide_right_mono less_imp_le)
  then have "rhe (x / quantum x) \<le> k"
    using rhe_mono [of "x / quantum x" "of_int k"] by simp
  then have "quantum x * of_int (rhe (x / quantum x)) \<le> quantum x * of_int k"
    using quantum_pos [of x] by (simp add: mult_left_mono less_imp_le)
  also have "\<dots> = 2 powi e"
    using quantum_pos [of x] by (simp add: k [symmetric])
  finally show ?thesis by (simp add: fl64_pos_def)
qed

lemma power_le_fl64_pos:
  assumes "0 < x" "- 1074 \<le> bin_exp x"
  shows "2 powi (bin_exp x) \<le> fl64_pos x"
proof -
  obtain k where k: "2 powi (bin_exp x) / quantum x = of_int k"
    using quantum_power assms(2) by blast
  have "of_int k \<le> x / quantum x"
    using bin_exp_bounds [OF assms(1)] quantum_pos [of x]
    by (simp add: k [symmetric] divide_right_mono less_imp_le)
  then have "k \<le> rhe (x / quantum x)"
    using rhe_mono [of "of_int k" "x / quantum x"] by simp
  then have "quantum x * of_int k \<le> quantum x * of_int (rhe (x / quantum x))"
    using quantum_pos [of x] by (simp add: mult_left_mono less_imp_le)
  moreover have "quantum x * of_int k = 2 powi (bin_exp x)"
    using quantum_pos [of x] by (simp add: k [symmetric])
  ultimately show ?thesis by (simp add: fl64_pos_def)
qed

lemma fl64_pos_mono_same:
  assumes "0 < x" "x \<le> y" "quantum x = quantum y"
  shows "fl64_pos x \<le> fl64_pos y"
  using assms quantum_pos [of y]
  by (simp add: fl64_pos_def rhe_mono divide_right_mono less_imp_le mult_left_mono)

lemma fl64_pos_mono:
  assumes x: "0 < x" and le: "x \<le> y"
  shows "fl64_pos x \<le> fl64_pos y"
proof (cases "quantum x = quantum y")
  case True
  with x le show ?thesis by (rule fl64_pos_mono_same)
next
  case False
  have e: "bin_exp x \<le> bin_exp y" using x le by (rule bin_exp_mono)
  moreover from False have "bin_exp x \<noteq> bin_exp y" by (auto simp: quantum_def)
  ultimately have lt: "bin_exp x < bin_exp y" by simp
  from False lt have sub: "- 1074 \<le> bin_exp y - 52"
    by (auto simp: quantum_def max_def split: if_splits)
  have "x \<le> 2 powi (bin_exp y)"
  proof -
    have "x < 2 powi (bin_exp x + 1)" using bin_exp_bounds [OF x] by simp
    also have "\<dots> \<le> 2 powi (bin_exp y)" using lt by (intro power_int_increasing) auto
    finally show ?thesis by simp
  qed
  with x lt sub have "fl64_pos x \<le> 2 powi (bin_exp y)"
    by (intro fl64_pos_le_power) auto
  also have "\<dots> \<le> fl64_pos y"
    using x le sub by (intro power_le_fl64_pos) auto
  finally show ?thesis .
qed

lemma fl64_pos_nonneg: "0 < x \<Longrightarrow> 0 \<le> fl64_pos x"
  using quantum_pos [of x] rhe_mono [of 0 "x / quantum x"] rhe_int [of 0]
  by (simp add: fl64_pos_def)

lemma fl64_nat:
  assumes "0 \<le> k" "k \<le> 2 ^ 53"
  shows "fl64 (of_int k) = of_int k"
proof (cases "k = 0")
  case True
  then show ?thesis by (simp add: fl64_def)
next
  case False
  with assms have k: "0 < k" by simp
  let ?e = "max (bin_exp (of_int k) - 52) (- 1074)"
  have "2 powi (bin_exp (of_int k)) \<le> (of_int k :: rat)"
    using k by (simp add: bin_exp_bounds)
  also have "\<dots> \<le> 2 powi 53"
  proof -
    have "(of_int k :: rat) \<le> of_int (2 ^ 53)" using assms by (simp only: of_int_le_iff)
    then show ?thesis by simp
  qed
  finally have "bin_exp (of_int k :: rat) \<le> 53"
    by (rule power_int_le_imp_le_exp [rotated]) auto
  consider "?e \<le> 0" | "bin_exp (of_int k :: rat) = 53"
    using \<open>bin_exp (of_int k :: rat) \<le> 53\<close> by linarith
  then show ?thesis
  proof cases
    case 1
    then have "of_int k / quantum (of_int k) = (of_int (k * 2 ^ nat (- ?e)) :: rat)"
      by (simp add: quantum_def power_int_def power_divide)
    then have "fl64_pos (of_int k) = quantum (of_int k) * (of_int k / quantum (of_int k))"
      by (simp only: fl64_pos_def rhe_int)
    with k quantum_pos [of "of_int k"] show ?thesis by (simp add: fl64_def)
  next
    case 2
    have "(2 :: rat) powi 53 \<le> of_int k" using bin_exp_bounds [of "of_int k"] k 2 by simp
    then have "(of_int (2 ^ 53) :: rat) \<le> of_int k" by simp
    then have "k = 2 ^ 53" using assms by (simp only: of_int_le_iff)
    with 2 have "quantum (of_int k) = 2" "fl64_pos (of_int k) = 2 * of_int (rhe (of_int (2 ^ 52)))"
      by (simp_all add: quantum_def fl64_pos_def)
    with \<open>k = 2 ^ 53\<close> show ?thesis by (simp add: fl64_def del: of_int_power)
  qed
qed

interpretation fl64: float_rounding fl64
proof unfold_locales
  show "fl64 0 = 0" by (simp add: fl64_def)
  show "fl64 x \<le> fl64 y" if "0 \<le> x" "x \<le> y" for x y
    using that fl64_pos_mono [of x y] fl64_pos_nonneg [of y] by (auto simp: fl64_def)
  show "fl64 (of_int k) = of_int k" if "0 \<le> k" "k \<le> 2 ^ 53" for k
    using that by (rule fl64_nat)
qed

end
