(* ===== verification/Config.thy ===== *)
theory Config
  imports Float64
begin

text \<open>
  Package \<open>internal/config\<close>, the schema: every section of \<open>config.Config\<close> as a record, and the
  parsers of schedule fields. A Go map from profile names to profiles is an association list with
  distinct keys (\<open>profiles_ok\<close>); reading a key that is absent gives the zero value, as Go does.
\<close>

record runtime_cfg =
  rt_executable :: string
  rt_model_path :: string
  rt_args :: "string list"
  rt_context_size :: int
  rt_gpu_layers :: int
  rt_run_as :: string
  rt_host :: string
  rt_port :: int
  rt_stop_mode :: string
  rt_graceful_stop_timeout :: dur
  rt_load_timeout :: dur
  rt_required_free_vram_mib :: int
  rt_kill_verify_timeout :: dur
  rt_vram_release_timeout :: dur
  rt_vram_release_tolerance_mib :: int
  rt_max_request_duration :: dur
  rt_diagnostics_tail_bytes :: int

record tls_cfg =
  tls_enabled :: bool
  tls_cert_file :: string
  tls_key_file :: string
  tls_legacy_pfx_password_file :: string
  tls_store_thumbprint :: string
  tls_store_subject :: string
  tls_self_signed :: bool
  tls_self_signed_hosts :: "string list"

record listen_cfg =
  ls_inference :: string
  ls_management :: string
  ls_inference_tls :: tls_cfg

record telemetry_cfg =
  tel_adapter :: string
  tel_sample_interval :: dur
  tel_loss_grace :: dur
  tel_degraded_margin_pct :: int

record safety_cfg =
  sf_gpu_temp_critical_c :: flt
  sf_gpu_temp_resume_c :: flt

record contention_cfg =
  ct_vram_free_critical_mib :: int
  ct_external_vram_critical_mib :: int
  ct_external_util_critical_pct :: flt
  ct_critical_window :: dur
  ct_clear_window :: dur

record profile =
  pf_description :: string
  pf_grace :: dur
  pf_grace_under_pressure :: dur
  pf_cooldown :: dur
  pf_external_util_soft_pct :: flt
  pf_soft_window :: dur
  pf_external_vram_soft_mib :: int
  pf_drain_on_game_process :: bool
  pf_drain_on_ambiguous :: bool
  pf_drain_on_soft_contention :: bool
  pf_game_confirm_util_pct :: flt
  pf_game_confirm_vram_mib :: int

record schedule =
  sc_name :: string
  sc_profile :: string
  sc_days :: "string list"
  sc_start :: string
  sc_end :: string
  sc_enabled :: bool

text \<open>App classes are open strings in the source (\<open>ClassGame\<close>, \dots); an absent class is the
  empty string.\<close>

datatype app_class = ClassGame | ClassLauncher | ClassIgnore | ClassOrdinary | OtherClass string

abbreviation no_class :: app_class where
  "no_class \<equiv> OtherClass ''''"

record app_rule =
  ar_id :: string
  ar_name :: string
  ar_exe :: string
  ar_path :: string
  ar_path_prefix :: string
  ar_glob :: string
  ar_class :: app_class

record anti_thrash_cfg =
  at_window :: dur
  at_max_preemptions :: int
  at_suppress_for :: dur

record recovery_cfg =
  rc_startup_cooldown :: dur
  rc_resume_cooldown :: dur
  rc_crash_backoff_initial :: dur
  rc_crash_backoff_max :: dur
  rc_telemetry_recovery_cooldown :: dur
  rc_device_lost_cooldown :: dur
  rc_crash_reset_after :: dur

record modes_cfg =
  md_pause_durations :: "dur list"
  md_ai_priority_durations :: "dur list"
  md_max_ai_priority :: dur

record signals_cfg =
  sg_session_stale_after :: dur
  sg_process_interval :: dur

record security_cfg =
  se_loopback_trust :: bool
  se_management_token_file :: string
  se_inference_token_file :: string
  se_agent_token_file :: string
  se_require_inference_token :: bool

record retention_cfg =
  re_events_days :: int
  re_events_max :: int
  re_log_max_mb :: int
  re_log_files :: int

record logging_cfg =
  lg_level :: string
  lg_dir :: string

record config =
  cf_schema_version :: int
  cf_runtime :: runtime_cfg
  cf_listen :: listen_cfg
  cf_telemetry :: telemetry_cfg
  cf_safety :: safety_cfg
  cf_contention :: contention_cfg
  cf_profiles :: "(string \<times> profile) list"
  cf_default_profile :: string
  cf_ai_priority_profile :: string
  cf_schedules :: "schedule list"
  cf_timezone :: string
  cf_applications :: "app_rule list"
  cf_builtin_rules_seen :: "string list"
  cf_anti_thrash :: anti_thrash_cfg
  cf_recovery :: recovery_cfg
  cf_modes :: modes_cfg
  cf_signals :: signals_cfg
  cf_security :: security_cfg
  cf_retention :: retention_cfg
  cf_metrics_enabled :: bool
  cf_logging :: logging_cfg

definition zero_profile :: profile where
  "zero_profile = \<lparr>pf_description = '''', pf_grace = 0, pf_grace_under_pressure = 0,
     pf_cooldown = 0, pf_external_util_soft_pct = 0, pf_soft_window = 0,
     pf_external_vram_soft_mib = 0, pf_drain_on_game_process = False,
     pf_drain_on_ambiguous = False, pf_drain_on_soft_contention = False,
     pf_game_confirm_util_pct = 0, pf_game_confirm_vram_mib = 0\<rparr>"

text \<open>One validation failure (\<open>FieldError\<close>).\<close>

record field_error =
  fe_field :: string
  fe_message :: gotext

text \<open>A decoded JSON value, and one change of the configuration as the history reports it. A duration,
  rendered by \<open>String()\<close>, is kept as the duration.\<close>

datatype json = JNull | JBool bool | JNum flt | JStr string | JDur dur | JArr "json list"
  | JObj "(string \<times> json) list"

record history_change =
  hc_path :: string
  hc_before :: json
  hc_after :: json

text \<open>\<open>p, ok := c.Profiles[n]\<close> and \<open>c.Profiles[n]\<close>.\<close>

definition profile_find :: "config \<Rightarrow> string \<Rightarrow> profile option" where
  "profile_find c n = map_of (cf_profiles c) n"

definition profile_get :: "config \<Rightarrow> string \<Rightarrow> profile" where
  "profile_get c n = (case profile_find c n of Some p \<Rightarrow> p | None \<Rightarrow> zero_profile)"

definition profiles_ok :: "config \<Rightarrow> bool" where
  "profiles_ok c = distinct (map fst (cf_profiles c))"

subsection \<open>Schedule fields\<close>

text \<open>\<open>time.Weekday\<close>: Sunday is 0.\<close>

definition weekday :: "string \<Rightarrow> int option" where
  "weekday s = map_of [(''sun'', 0), (''mon'', 1), (''tue'', 2), (''wed'', 3), (''thu'', 4),
     (''fri'', 5), (''sat'', 6)] (to_lower s)"

definition digit_val :: "char \<Rightarrow> int option" where
  "digit_val c = (let n = (of_char c :: nat) in if 48 \<le> n \<and> n \<le> 57 then Some (int n - 48) else None)"

text \<open>
  \<open>time.Parse("15:04", s)\<close>: the layout \<open>15\<close> reads one or two digits (two when the second byte is
  a digit), \<open>04\<close> reads exactly two, and nothing may follow. Hours of 24 and more and minutes of 60
  and more are range errors.
\<close>

definition get_hour :: "string \<Rightarrow> (int \<times> string) option" where
  "get_hour s = (case s of
      [] \<Rightarrow> None
    | a # r \<Rightarrow> (case digit_val a of
        None \<Rightarrow> None
      | Some x \<Rightarrow> (case r of
          [] \<Rightarrow> Some (x, r)
        | b # r' \<Rightarrow> (case digit_val b of None \<Rightarrow> Some (x, r) | Some y \<Rightarrow> Some (10 * x + y, r')))))"

definition get_minute :: "string \<Rightarrow> (int \<times> string) option" where
  "get_minute s = (case s of
      a # b # r \<Rightarrow> (case digit_val a of
        None \<Rightarrow> None
      | Some x \<Rightarrow> (case digit_val b of None \<Rightarrow> None | Some y \<Rightarrow> Some (10 * x + y, r)))
    | _ \<Rightarrow> None)"

definition clock_minutes :: "string \<Rightarrow> int option" where
  "clock_minutes s = (case get_hour s of
      None \<Rightarrow> None
    | Some (h, r) \<Rightarrow> (if h < 0 \<or> 24 \<le> h then None else
        (case r of
          [] \<Rightarrow> None
        | c # r' \<Rightarrow> (if c \<noteq> CHR '':'' then None else
            (case get_minute r' of
              None \<Rightarrow> None
            | Some (m, r'') \<Rightarrow> (if m < 0 \<or> 60 \<le> m \<or> r'' \<noteq> [] then None else Some (h * 60 + m)))))))"

lemma clock_minutes_bounds: "clock_minutes s = Some m \<Longrightarrow> 0 \<le> m \<and> m < 24 * 60"
  by (auto simp: clock_minutes_def split: option.splits prod.splits if_splits list.splits)

lemma weekday_bounds: "weekday s = Some d \<Longrightarrow> 0 \<le> d \<and> d < 7"
  by (auto simp: weekday_def split: if_splits)

end
