(* ===== verification/Classify.thy ===== *)
theory Classify
  imports Config
begin

text \<open>
  Package \<open>internal/classify\<close>: the ordered application rules, normalised once, and the matching of
  a process's executable name and path against them. The wildcard matcher \<open>globMatch\<close> is an
  iterative loop with one backtracking point; it is shown to decide the usual recursive meaning
  of \<open>*\<close> and \<open>?\<close> for every subject without a literal \<open>*\<close>, which no Windows path has. Strings are
  lists of one-byte characters, so \<open>?\<close> stands for one byte here and one rune in the source.
\<close>

definition norm_str :: "string \<Rightarrow> string" where
  "norm_str s = to_lower (replace_char (CHR 0x5C) (CHR ''/'') s)"

record crule =
  cr_name :: string
  cr_class :: app_class
  cr_exe :: string
  cr_path :: string
  cr_prefix :: string
  cr_glob :: string

record classifier =
  cl_rules :: "crule list"
  cl_src :: "app_rule list"

definition rule_name :: "app_rule \<Rightarrow> string" where
  "rule_name r =
     (if ar_name r \<noteq> '''' then ar_name r
      else if ar_exe r \<noteq> '''' then ''exe:'' @ ar_exe r
      else if ar_path r \<noteq> '''' then ''path:'' @ ar_path r
      else if ar_path_prefix r \<noteq> '''' then ''path_prefix:'' @ ar_path_prefix r
      else ''glob:'' @ ar_glob r)"

definition crule_of :: "app_rule \<Rightarrow> crule" where
  "crule_of r = \<lparr>cr_name = rule_name r, cr_class = ar_class r, cr_exe = norm_str (ar_exe r),
     cr_path = norm_str (ar_path r), cr_prefix = norm_str (ar_path_prefix r), cr_glob = norm_str (ar_glob r)\<rparr>"

definition new_classifier :: "app_rule list \<Rightarrow> classifier" where
  "new_classifier rs = \<lparr>cl_rules = map crule_of rs, cl_src = rs\<rparr>"

subsection \<open>Wildcards\<close>

abbreviation star_char :: char where "star_char \<equiv> CHR ''*''"
abbreviation any_char :: char where "any_char \<equiv> CHR ''?''"

text \<open>The loop of \<open>globMatch\<close>. \<open>star\<close> is the position of the last \<open>*\<close> (\<open>None\<close> for -1), \<open>mark\<close> the
  subject position it was met at. The result is the pattern position after the loop, or \<open>None\<close>
  for the early \<open>return false\<close>.\<close>

function glob_loop :: "string \<Rightarrow> string \<Rightarrow> nat \<Rightarrow> nat \<Rightarrow> nat option \<Rightarrow> nat \<Rightarrow> nat option" where
  "glob_loop p r pt si star mark =
     (if si < length r then
        (if pt < length p \<and> (p ! pt = any_char \<or> p ! pt = r ! si)
         then glob_loop p r (Suc pt) (Suc si) star mark
         else if pt < length p \<and> p ! pt = star_char
         then glob_loop p r (Suc pt) si (Some pt) si
         else (case star of
             Some k \<Rightarrow> glob_loop p r (Suc k) (Suc mark) star (Suc mark)
           | None \<Rightarrow> None))
      else Some pt)"
  by pat_completeness auto
termination
  by (relation "measures [\<lambda>(p, r, pt, si, star, mark). if si < mark then 1 else 0,
        \<lambda>(p, r, pt, si, star, mark). length r - mark, \<lambda>(p, r, pt, si, star, mark). length r - si,
        \<lambda>(p, r, pt, si, star, mark). length p - pt]") auto

declare glob_loop.simps [simp del]

function skip_stars :: "string \<Rightarrow> nat \<Rightarrow> nat" where
  "skip_stars p pt = (if pt < length p \<and> p ! pt = star_char then skip_stars p (Suc pt) else pt)"
  by pat_completeness auto
termination
  by (relation "measure (\<lambda>(p, pt). length p - pt)") auto

declare skip_stars.simps [simp del]

definition glob_match :: "string \<Rightarrow> string \<Rightarrow> bool" where
  "glob_match p s = (case glob_loop p s 0 0 None 0 of
      None \<Rightarrow> False | Some pt \<Rightarrow> skip_stars p pt = length p)"

subsection \<open>Matching a process\<close>

definition base_name :: "string \<Rightarrow> string" where
  "base_name s = rev (takeWhile (\<lambda>c. c \<noteq> CHR ''/'') (rev s))"

definition crule_matches :: "string \<Rightarrow> string \<Rightarrow> crule \<Rightarrow> bool" where
  "crule_matches base np r =
     (if cr_exe r \<noteq> '''' then base \<noteq> '''' \<and> base = cr_exe r
      else if np = '''' then False
      else if cr_path r \<noteq> '''' then np = cr_path r
      else if cr_prefix r \<noteq> '''' then has_prefix np (cr_prefix r)
      else if cr_glob r \<noteq> '''' then glob_match (cr_glob r) np
      else False)"

fun match_first :: "crule list \<Rightarrow> string \<Rightarrow> string \<Rightarrow> (app_class \<times> string) option" where
  "match_first [] base np = None"
| "match_first (r # rs) base np =
     (if crule_matches base np r then Some (cr_class r, cr_name r) else match_first rs base np)"

definition match_proc :: "classifier \<Rightarrow> string \<Rightarrow> string \<Rightarrow> (app_class \<times> string) option" where
  "match_proc c name path =
     (let np = norm_str path; base = base_name (if np = '''' then norm_str name else np)
      in match_first (cl_rules c) base np)"

subsection \<open>The meaning of wildcards\<close>

fun glob :: "string \<Rightarrow> string \<Rightarrow> bool" where
  "glob [] s = (s = [])"
| "glob (p # ps) [] = (p = star_char \<and> glob ps [])"
| "glob (p # ps) (c # cs) =
     (if p = star_char then glob ps (c # cs) \<or> glob (p # ps) cs
      else (p = any_char \<or> p = c) \<and> glob ps cs)"

lemma glob_star: "glob (star_char # ps) s \<longleftrightarrow> (\<exists>j \<le> length s. glob ps (drop j s))"
proof (induction s)
  case (Cons c cs)
  have "(\<exists>j \<le> length (c # cs). glob ps (drop j (c # cs))) \<longleftrightarrow>
      glob ps (c # cs) \<or> (\<exists>j \<le> length cs. glob ps (drop j cs))"
    by (metis drop0 drop_Suc_Cons le0 length_Cons not0_implies_Suc Suc_le_mono)
  with Cons show ?case by simp
qed simp

lemma glob_seg:
  "star_char \<notin> set seg \<Longrightarrow> glob (seg @ ps) s \<Longrightarrow>
     length seg \<le> length s \<and> glob ps (drop (length seg) s)"
proof (induction seg arbitrary: s)
  case (Cons p seg)
  then show ?case by (cases s) auto
qed simp

lemma skip_stars_spec:
  "pt \<le> length p \<Longrightarrow> skip_stars p pt = length p \<longleftrightarrow> glob (drop pt p) []"
proof (induction p pt rule: skip_stars.induct)
  case (1 p pt)
  show ?case
  proof (cases "pt < length p")
    case True
    then have "drop pt p = p ! pt # drop (Suc pt) p" by (rule Cons_nth_drop_Suc [symmetric])
    with 1 True show ?thesis by (subst skip_stars.simps) auto
  next
    case False
    with 1 show ?thesis by (subst skip_stars.simps) auto
  qed
qed

text \<open>The state of the loop: the pattern between the last star and \<open>pt\<close> has no star and has been
  matched against the subject between \<open>mark\<close> and \<open>si\<close>.\<close>

definition loop_ok :: "string \<Rightarrow> string \<Rightarrow> nat \<Rightarrow> nat \<Rightarrow> nat option \<Rightarrow> nat \<Rightarrow> bool" where
  "loop_ok p r pt si star mark \<longleftrightarrow> pt \<le> length p \<and> si \<le> length r \<and>
     (case star of None \<Rightarrow> True
      | Some k \<Rightarrow> k < pt \<and> mark \<le> si \<and> pt - Suc k = si - mark
          \<and> star_char \<notin> set (take (pt - Suc k) (drop (Suc k) p)))"

definition retry :: "string \<Rightarrow> string \<Rightarrow> nat option \<Rightarrow> nat \<Rightarrow> bool" where
  "retry p r star mark \<longleftrightarrow> (\<exists>k j. star = Some k \<and> mark < j \<and> j \<le> length r
     \<and> glob (drop (Suc k) p) (drop j r))"

lemma retry_after_seg:
  assumes ok: "loop_ok p r pt si star mark" and re: "retry p r star mark"
  shows "\<exists>j. si < j \<and> j \<le> length r \<and> glob (drop pt p) (drop j r)"
proof -
  from re obtain k j where k: "star = Some k" and j: "mark < j" "j \<le> length r"
    and g: "glob (drop (Suc k) p) (drop j r)" by (auto simp: retry_def)
  let ?n = "pt - Suc k" and ?seg = "take (pt - Suc k) (drop (Suc k) p)"
  from ok k have lt: "k < pt" "pt \<le> length p" "si = mark + ?n" and ns: "star_char \<notin> set ?seg"
    by (auto simp: loop_ok_def)
  have "drop (Suc k) p = ?seg @ drop pt p"
    using lt append_take_drop_id [of ?n "drop (Suc k) p"] by simp
  with g have "glob (?seg @ drop pt p) (drop j r)" by simp
  from glob_seg [OF ns this] have "?n \<le> length r - j" "glob (drop pt p) (drop (?n + j) r)"
    using lt by simp_all
  with j lt show ?thesis by (intro exI [of _ "?n + j"]) auto
qed

lemma take_seg_Suc:
  "k < pt \<Longrightarrow> pt < length p \<Longrightarrow>
     take (pt - k) (drop (Suc k) p) = take (pt - Suc k) (drop (Suc k) p) @ [p ! pt]"
  using take_Suc_conv_app_nth [of "pt - Suc k" "drop (Suc k) p"] by (simp add: Suc_diff_Suc)

lemma glob_star_at:
  assumes "si \<le> length r"
  shows "glob (star_char # drop (Suc pt) p) (drop si r) \<longleftrightarrow>
     glob (drop (Suc pt) p) (drop si r) \<or> retry p r (Some pt) si"
proof -
  have "glob (star_char # drop (Suc pt) p) (drop si r) \<longleftrightarrow>
      (\<exists>j \<le> length r - si. glob (drop (Suc pt) p) (drop (j + si) r))"
    by (simp add: glob_star)
  also have "\<dots> \<longleftrightarrow> (\<exists>j. si \<le> j \<and> j \<le> length r \<and> glob (drop (Suc pt) p) (drop j r))"
    using assms by (metis le_add2 le_add_diff_inverse2 le_diff_conv2 diff_le_mono)
  also have "\<dots> \<longleftrightarrow> glob (drop (Suc pt) p) (drop si r) \<or> retry p r (Some pt) si"
    using assms by (auto simp: retry_def le_less)
  finally show ?thesis .
qed

lemma glob_star_later:
  "si < j \<Longrightarrow> j \<le> length r \<Longrightarrow> glob (star_char # ps) (drop j r) \<Longrightarrow>
     glob (star_char # ps) (drop si r)"
proof -
  assume j: "si < j" "j \<le> length r" "glob (star_char # ps) (drop j r)"
  then obtain i where "i \<le> length r - j" "glob ps (drop (i + j) r)" by (auto simp: glob_star)
  with j have "(i + j - si) \<le> length (drop si r)" "glob ps (drop (i + j - si) (drop si r))" by auto
  then show ?thesis unfolding glob_star by blast
qed

lemma retry_step:
  assumes "star = Some k" "mark < length r"
  shows "retry p r star mark \<longleftrightarrow>
     glob (drop (Suc k) p) (drop (Suc mark) r) \<or> retry p r star (Suc mark)"
proof -
  have gt: "mark < j \<longleftrightarrow> j = Suc mark \<or> Suc mark < j" for j by auto
  show ?thesis
    unfolding retry_def gt using assms by (auto simp: Suc_le_eq)
qed

lemma glob_loop_spec:
  "star_char \<notin> set r \<Longrightarrow> loop_ok p r pt si star mark \<Longrightarrow>
     (case glob_loop p r pt si star mark of None \<Rightarrow> False | Some q \<Rightarrow> skip_stars p q = length p)
     \<longleftrightarrow> glob (drop pt p) (drop si r) \<or> retry p r star mark"
proof (induction p r pt si star mark rule: glob_loop.induct)
  case (1 p r pt si star mark)
  note ok = \<open>loop_ok p r pt si star mark\<close>
  have pt: "pt \<le> length p" and si: "si \<le> length r" using ok by (auto simp: loop_ok_def)
  show ?case
  proof (cases "si < length r")
    case False
    then have "\<not> retry p r star mark" using retry_after_seg [OF ok] by auto
    with False pt show ?thesis by (subst glob_loop.simps) (simp add: skip_stars_spec)
  next
    case lt: True
    then have r: "drop si r = r ! si # drop (Suc si) r" by (rule Cons_nth_drop_Suc [symmetric])
    have ns: "r ! si \<noteq> star_char" using "1.prems"(1) lt by (metis nth_mem)
    consider (char) "pt < length p" "p ! pt = any_char \<or> p ! pt = r ! si"
      | (star) "pt < length p" "p ! pt = star_char"
      | (fail) "\<not> (pt < length p \<and> (p ! pt = any_char \<or> p ! pt = r ! si \<or> p ! pt = star_char))"
      by blast
    then show ?thesis
    proof cases
      case char
      then have p: "drop pt p = p ! pt # drop (Suc pt) p" by (simp add: Cons_nth_drop_Suc)
      have pn: "p ! pt \<noteq> star_char" using char ns by auto
      have "loop_ok p r (Suc pt) (Suc si) star mark"
        using ok char lt pn
        by (cases star) (auto simp: loop_ok_def Suc_diff_le take_seg_Suc)
      with "1.IH"(1) [OF lt] char "1.prems"(1) show ?thesis
        using pn by (subst glob_loop.simps) (simp add: lt p r)
    next
      case star
      then have p: "drop pt p = star_char # drop (Suc pt) p" by (metis Cons_nth_drop_Suc)
      have nchar: "\<not> (pt < length p \<and> (p ! pt = any_char \<or> p ! pt = r ! si))" using star ns by auto
      have "loop_ok p r (Suc pt) si (Some pt) si" using star si by (simp add: loop_ok_def)
      with "1.IH"(2) [OF lt nchar] star "1.prems"(1)
      have IH: "(case glob_loop p r (Suc pt) si (Some pt) si of None \<Rightarrow> False
            | Some q \<Rightarrow> skip_stars p q = length p) \<longleftrightarrow>
          glob (drop (Suc pt) p) (drop si r) \<or> retry p r (Some pt) si" by simp
      have now: "glob (drop pt p) (drop si r) \<longleftrightarrow>
          glob (drop (Suc pt) p) (drop si r) \<or> retry p r (Some pt) si"
        unfolding p by (rule glob_star_at [OF si])
      moreover have "retry p r star mark \<Longrightarrow> glob (drop pt p) (drop si r)"
        using retry_after_seg [OF ok] glob_star_later [of si] unfolding p by blast
      ultimately show ?thesis using IH star nchar by (subst glob_loop.simps) (auto simp: lt)
    next
      case fail
      have no: "\<not> glob (drop pt p) (drop si r)"
      proof (cases "pt < length p")
        case True
        then have "drop pt p = p ! pt # drop (Suc pt) p" by (simp add: Cons_nth_drop_Suc)
        with fail True show ?thesis by (simp add: r)
      qed (simp add: r)
      show ?thesis
      proof (cases star)
        case None
        with fail no lt show ?thesis by (subst glob_loop.simps) (auto simp: retry_def)
      next
        case (Some k)
        with ok lt have "loop_ok p r (Suc k) (Suc mark) star (Suc mark)"
          by (auto simp: loop_ok_def)
        then have "(case glob_loop p r (Suc k) (Suc mark) star (Suc mark) of None \<Rightarrow> False
              | Some q \<Rightarrow> skip_stars p q = length p) \<longleftrightarrow>
            glob (drop (Suc k) p) (drop (Suc mark) r) \<or> retry p r star (Suc mark)"
          using "1.IH"(3) [OF lt _ _ Some] fail "1.prems"(1) by blast
        moreover have "retry p r star mark \<longleftrightarrow>
            glob (drop (Suc k) p) (drop (Suc mark) r) \<or> retry p r star (Suc mark)"
          using ok lt Some by (intro retry_step) (auto simp: loop_ok_def)
        ultimately show ?thesis
          using fail no Some by (subst glob_loop.simps) (auto simp: lt)
      qed
    qed
  qed
qed

lemma glob_match_iff: "star_char \<notin> set s \<Longrightarrow> glob_match p s \<longleftrightarrow> glob p s"
  using glob_loop_spec [of s p 0 0 None 0]
  by (auto simp: glob_match_def loop_ok_def retry_def split: option.splits)

text \<open>\<open>globMatch\<close> decides the wildcard language: for a subject without a literal \<open>*\<close> the
  single-star backtracking loop returns true exactly when the pattern matches, \<open>*\<close> standing for
  any run of characters and \<open>?\<close> for exactly one.\<close>

theorem glob_match_correct:
  assumes "star_char \<notin> set s"
  shows "glob_match p s \<longleftrightarrow> glob p s"
  using assms by (rule glob_match_iff)

theorem glob_match_correct_witness:
  "glob_match ''*/steamapps/*.exe'' ''d:/steamapps/common/x.exe''"
proof -
  have "glob ''*/steamapps/*.exe'' ''d:/steamapps/common/x.exe''" by code_simp
  then show ?thesis by (subst glob_match_correct) simp_all
qed

text \<open>A literal \<open>*\<close> in the subject is compared before it is recognised as a wildcard, so the
  pattern \<open>*\<close>, which is documented to match any run of characters, rejects a subject that starts
  with one.\<close>

theorem glob_match_literal_star: "\<not> glob_match ''*'' ''*a'' \<and> glob ''*'' ''*a''"
  by code_simp

subsection \<open>Rules are tried in order\<close>

lemma lower_char_fixes:
  assumes c': "(of_char c' :: nat) < 97 \<or> 122 < (of_char c' :: nat)" "lower_char c' = c'"
  shows "lower_char c = c' \<longleftrightarrow> c = c'"
proof
  assume l: "lower_char c = c'"
  show "c = c'"
  proof (cases "65 \<le> (of_char c :: nat) \<and> (of_char c :: nat) \<le> 90")
    case True
    with l have "c' = char_of ((of_char c :: nat) + 32)" by (simp add: lower_char_def)
    then have "(of_char c' :: nat) = of_char c + 32" using True by (simp add: of_char_of)
    with True c' show ?thesis by linarith
  next
    case False
    with l show ?thesis by (simp only: lower_char_def if_False)
  qed
qed (use c' in simp)

lemma lower_char_sep: "lower_char c = CHR 0x5C \<longleftrightarrow> c = CHR 0x5C"
  by (rule lower_char_fixes) (simp_all add: lower_char_def)

lemma lower_char_star: "lower_char c = star_char \<longleftrightarrow> c = star_char"
  by (rule lower_char_fixes) (simp_all add: lower_char_def)

lemma norm_idem [simp]: "norm_str (norm_str s) = norm_str s"
  by (auto simp: norm_str_def to_lower_def replace_char_def comp_def lower_char_sep)

lemma norm_empty [simp]: "norm_str s = [] \<longleftrightarrow> s = []" "[] = norm_str s \<longleftrightarrow> s = []"
  by (auto simp: norm_str_def to_lower_def replace_char_def)

lemma norm_star: "star_char \<in> set (norm_str s) \<longleftrightarrow> star_char \<in> set s"
proof (induction s)
  case (Cons c s)
  then show ?case
    using lower_char_star [of c] lower_char_star [of "CHR ''/''"]
    by (auto simp: norm_str_def to_lower_def replace_char_def)
qed (simp add: norm_str_def to_lower_def replace_char_def)

text \<open>Which rule of the configuration applies to a name and a path.\<close>

definition rule_applies :: "string \<Rightarrow> string \<Rightarrow> app_rule \<Rightarrow> bool" where
  "rule_applies name path r =
     (let np = norm_str path; base = base_name (if path = '''' then norm_str name else np) in
      if ar_exe r \<noteq> '''' then base = norm_str (ar_exe r)
      else path \<noteq> '''' \<and>
        (if ar_path r \<noteq> '''' then np = norm_str (ar_path r)
         else if ar_path_prefix r \<noteq> '''' then prefix (norm_str (ar_path_prefix r)) np
         else ar_glob r \<noteq> '''' \<and> glob (norm_str (ar_glob r)) np))"

lemma crule_matches_applies:
  assumes "star_char \<notin> set path"
  shows "crule_matches (base_name (if norm_str path = '''' then norm_str name else norm_str path)) (norm_str path)
      (crule_of r) \<longleftrightarrow> rule_applies name path r"
  using glob_match_iff [of "norm_str path" "norm_str (ar_glob r)"] assms norm_star [of path]
  by (simp add: crule_matches_def crule_of_def rule_applies_def Let_def has_prefix_def) fastforce

lemma match_first_find:
  "match_first rs base np = map_option (\<lambda>r. (cr_class r, cr_name r)) (find (crule_matches base np) rs)"
  by (induction rs) auto

text \<open>Classification takes the first rule of the configured order that applies, where a rule
  names an executable, a path, a path prefix or a wildcard pattern in any letter case and with
  either separator; a process with no readable path can only match by executable name.\<close>

theorem match_first_rule:
  assumes "star_char \<notin> set path"
  shows "match_proc (new_classifier rs) name path =
    map_option (\<lambda>r. (ar_class r, rule_name r)) (find (rule_applies name path) rs)"
proof -
  let ?base = "base_name (if norm_str path = '''' then norm_str name else norm_str path)"
  have "find (crule_matches ?base (norm_str path)) (map crule_of rs) =
      map_option crule_of (find (rule_applies name path) rs)"
    using crule_matches_applies [OF assms] by (induction rs) auto
  then show ?thesis
    by (simp add: match_proc_def new_classifier_def Let_def match_first_find option.map_comp
        comp_def crule_of_def)
qed

theorem match_first_rule_witness:
  "match_proc (new_classifier
     [\<lparr>ar_id = '''', ar_name = ''steam'', ar_exe = '''', ar_path = '''', ar_path_prefix = '''',
       ar_glob = ''*/SteamApps/*'', ar_class = ClassGame\<rparr>]) ''X.exe''
     ''D:/steamapps/x.exe'' = Some (ClassGame, ''steam'')"
  by (subst match_first_rule) (simp, code_simp)

end
