(* ===== verification/Lifecycle.thy ===== *)
theory Lifecycle
  imports Prelude
begin

text \<open>
  Package \<open>internal/state\<close>: the ten lifecycle states, the user-visible conditions, and the
  relation of legal transitions, with the facts the controller relies on: a drain never re-opens
  admission, and a runtime is only ever started from \<open>Stopped\<close>.
\<close>

text \<open>\<open>OtherState s\<close> is any value of the Go string type that is not one of the ten constants; the
  zero value of the type is \<open>OtherState ''''\<close>.\<close>

datatype state =
    Stopped | Cooldown | Loading | Ready | Busy | Draining | Preempting | Suppressed | Disabled
  | Error | OtherState string

abbreviation no_state :: state where
  "no_state \<equiv> OtherState ''''"

datatype condition = Available | Yielding | Unavailable | NoCondition

definition all_states :: "state list" where
  "all_states = [Stopped, Cooldown, Loading, Ready, Busy, Draining, Preempting, Suppressed,
     Disabled, Error]"

definition condition_of :: "state \<Rightarrow> condition" where
  "condition_of s = (case s of
       Loading \<Rightarrow> Available | Ready \<Rightarrow> Available | Busy \<Rightarrow> Available
     | Draining \<Rightarrow> Yielding | Preempting \<Rightarrow> Yielding
     | _ \<Rightarrow> Unavailable)"

definition runtime_running :: "state \<Rightarrow> bool" where
  "runtime_running s = (case s of
       Loading \<Rightarrow> True | Ready \<Rightarrow> True | Busy \<Rightarrow> True | Draining \<Rightarrow> True | Preempting \<Rightarrow> True
     | _ \<Rightarrow> False)"

definition admitting :: "state \<Rightarrow> bool" where
  "admitting s = (s = Ready \<or> s = Busy)"

definition valid_state :: "state \<Rightarrow> bool" where
  "valid_state s = (s \<in> set all_states)"

definition idle_states :: "state list" where
  "idle_states = [Stopped, Cooldown, Suppressed, Disabled, Error]"

text \<open>The transition table: \<open>allow from to\<dots>\<close> adds rows; a row that was never added is empty.\<close>

definition transitions :: "state \<Rightarrow> state list" where
  "transitions s = (case s of
       Stopped \<Rightarrow> idle_states @ [Loading]
     | Cooldown \<Rightarrow> idle_states | Suppressed \<Rightarrow> idle_states | Disabled \<Rightarrow> idle_states
     | Error \<Rightarrow> idle_states
     | Loading \<Rightarrow> [Ready, Preempting, Error]
     | Ready \<Rightarrow> [Busy, Draining, Preempting, Error]
     | Busy \<Rightarrow> [Ready, Draining, Preempting, Error]
     | Draining \<Rightarrow> [Preempting, Error]
     | Preempting \<Rightarrow> idle_states
     | OtherState _ \<Rightarrow> [])"

definition can_transition :: "state \<Rightarrow> state \<Rightarrow> bool" where
  "can_transition s t = (t \<in> set (transitions s))"

lemmas lifecycle_defs = condition_of_def runtime_running_def admitting_def valid_state_def
  all_states_def idle_states_def transitions_def can_transition_def

text \<open>A sequence of states a controller can show: every step is a legal transition.\<close>

fun legal_path :: "state list \<Rightarrow> bool" where
  "legal_path (s # t # ts) = (can_transition s t \<and> legal_path (t # ts))"
| "legal_path _ = True"

lemma to_loading: "can_transition s Loading \<longleftrightarrow> s = Stopped"
  by (cases s) (auto simp: lifecycle_defs)

lemma to_admitting: "can_transition s t \<Longrightarrow> admitting t \<Longrightarrow> s = Loading \<or> admitting s"
  by (cases s) (auto simp: lifecycle_defs)

lemma path_to_admitting:
  "legal_path (s # ps) \<Longrightarrow> \<not> admitting s \<Longrightarrow> s \<noteq> Loading \<Longrightarrow> t \<in> set ps \<Longrightarrow> admitting t \<Longrightarrow>
     \<exists>a b. s # ps = a @ Stopped # Loading # b \<and> list_all (\<lambda>x. \<not> admitting x) a"
proof (induction ps arbitrary: s)
  case (Cons p ps)
  show ?case
  proof (cases "p = Loading")
    case True
    with Cons.prems have "s # p # ps = [] @ Stopped # Loading # ps" by (simp add: to_loading)
    moreover have "list_all (\<lambda>x. \<not> admitting x) []" by simp
    ultimately show ?thesis by blast
  next
    case False
    moreover have "\<not> admitting p" using Cons.prems to_admitting [of s p] by auto
    ultimately obtain a b where "p # ps = a @ Stopped # Loading # b" "list_all (\<lambda>x. \<not> admitting x) a"
      using Cons.IH [of p] Cons.prems by auto
    then have "s # p # ps = (s # a) @ Stopped # Loading # b" "list_all (\<lambda>x. \<not> admitting x) (s # a)"
      using Cons.prems(2) by simp_all
    then show ?thesis by blast
  qed
qed simp

text \<open>Once a drain or a preemption has begun, admission does not come back in the same run:
  on every legal sequence of states from there to a state that admits requests, the runtime has
  been stopped and loaded anew first, and nothing was admitted before that.\<close>

theorem drain_never_readmits:
  assumes "legal_path (s # ps)" and "s = Draining \<or> s = Preempting"
    and "t \<in> set ps" and "admitting t"
  shows "\<exists>a b. ps = a @ Stopped # Loading # b \<and> list_all (\<lambda>x. \<not> admitting x) a"
proof -
  obtain a b where ab: "s # ps = a @ Stopped # Loading # b" "list_all (\<lambda>x. \<not> admitting x) a"
    using path_to_admitting [OF assms(1) _ _ assms(3,4)] assms(2) by (auto simp: admitting_def)
  then obtain a' where "a = s # a'" using assms(2) by (cases a) auto
  with ab show ?thesis by auto
qed

theorem drain_never_readmits_witness:
  "\<exists>a b. [Preempting, Cooldown, Stopped, Loading, Ready] = a @ Stopped # Loading # b
     \<and> list_all (\<lambda>x. \<not> admitting x) a"
  using drain_never_readmits [of Draining "[Preempting, Cooldown, Stopped, Loading, Ready]" Ready]
  by (simp add: lifecycle_defs)

text \<open>The transition table is closed on the ten states, leads out of every one of them, starts
  a runtime only from \<open>Stopped\<close>, and lets a running runtime rest only after a preemption or an
  error; the states that admit requests are among those in which it is available.\<close>

theorem transitions_closed:
  "can_transition s t \<longrightarrow>
     valid_state s \<and> valid_state t \<and> (\<exists>u. can_transition t u)
     \<and> (\<not> runtime_running s \<and> runtime_running t \<longrightarrow> s = Stopped \<and> t = Loading)
     \<and> (runtime_running s \<and> \<not> runtime_running t \<longrightarrow> s = Preempting \<or> t = Error)
     \<and> (admitting t \<longrightarrow> condition_of t = Available \<and> runtime_running t)"
proof
  assume st: "can_transition s t"
  then have "\<exists>u. can_transition t u"
    by (cases s) (auto simp: lifecycle_defs)
  with st show "valid_state s \<and> valid_state t \<and> (\<exists>u. can_transition t u)
     \<and> (\<not> runtime_running s \<and> runtime_running t \<longrightarrow> s = Stopped \<and> t = Loading)
     \<and> (runtime_running s \<and> \<not> runtime_running t \<longrightarrow> s = Preempting \<or> t = Error)
     \<and> (admitting t \<longrightarrow> condition_of t = Available \<and> runtime_running t)"
    by (cases s) (auto simp: lifecycle_defs)
qed

theorem transitions_closed_witness: "valid_state Loading \<and> (\<exists>u. can_transition Loading u)"
  using transitions_closed [of Stopped Loading] by (simp add: to_loading)

end
