(* ===== verification/Defaults.thy ===== *)
theory Defaults
  imports Config
begin

text \<open>
  Package \<open>internal/config\<close>, the shipped configuration: the application rules with their ids,
  \<open>Default()\<close>, and \<open>mergeBuiltinRules\<close>, which brings the rules of an existing file up to the
  shipped list.
\<close>

subsection \<open>Rule identifiers\<close>

definition norm_matcher :: "string \<Rightarrow> string" where
  "norm_matcher s = to_lower (replace_char (CHR 0x5C) (CHR ''/'') s)"

definition builtin_id :: "app_rule \<Rightarrow> string" where
  "builtin_id r =
     (if ar_exe r \<noteq> '''' then ''exe:'' @ norm_matcher (ar_exe r)
      else if ar_path r \<noteq> '''' then ''path:'' @ norm_matcher (ar_path r)
      else if ar_path_prefix r \<noteq> '''' then ''path_prefix:'' @ norm_matcher (ar_path_prefix r)
      else if ar_glob r \<noteq> '''' then ''glob:'' @ norm_matcher (ar_glob r)
      else '''')"

text \<open>The shipped list, in evaluation order. \<open>win\<close> writes the backslashes of a Windows path.\<close>

definition win :: "string \<Rightarrow> string" where
  "win s = replace_char (CHR ''/'') (CHR 0x5C) s"

definition exe_rule :: "string \<Rightarrow> string \<Rightarrow> app_class \<Rightarrow> app_rule" where
  "exe_rule n e k = \<lparr>ar_id = '''', ar_name = n, ar_exe = e, ar_path = '''', ar_path_prefix = '''',
     ar_glob = '''', ar_class = k\<rparr>"

definition prefix_rule :: "string \<Rightarrow> string \<Rightarrow> app_class \<Rightarrow> app_rule" where
  "prefix_rule n p k = \<lparr>ar_id = '''', ar_name = n, ar_exe = '''', ar_path = '''',
     ar_path_prefix = win p, ar_glob = '''', ar_class = k\<rparr>"

definition glob_rule :: "string \<Rightarrow> string \<Rightarrow> app_class \<Rightarrow> app_rule" where
  "glob_rule n g k = \<lparr>ar_id = '''', ar_name = n, ar_exe = '''', ar_path = '''',
     ar_path_prefix = '''', ar_glob = win g, ar_class = k\<rparr>"

definition shipped_applications :: "app_rule list" where
  "shipped_applications = [
     exe_rule ''Steam'' ''steam.exe'' ClassLauncher,
     exe_rule ''Steam web helper'' ''steamwebhelper.exe'' ClassLauncher,
     exe_rule ''Epic Games Launcher'' ''EpicGamesLauncher.exe'' ClassLauncher,
     exe_rule ''Epic web helper'' ''EpicWebHelper.exe'' ClassLauncher,
     exe_rule ''Battle.net'' ''Battle.net.exe'' ClassLauncher,
     exe_rule ''EA app'' ''EADesktop.exe'' ClassLauncher,
     exe_rule ''Ubisoft Connect'' ''upc.exe'' ClassLauncher,
     exe_rule ''GOG Galaxy'' ''GalaxyClient.exe'' ClassLauncher,
     exe_rule ''Riot Client'' ''RiotClientServices.exe'' ClassLauncher,
     exe_rule ''Xbox app'' ''XboxPcApp.exe'' ClassLauncher,
     exe_rule ''EA app web engine'' ''QtWebEngineProcess.exe'' ClassLauncher,
     exe_rule ''EA background service'' ''EABackgroundService.exe'' ClassLauncher,
     exe_rule ''Ubisoft web core'' ''UplayWebCore.exe'' ClassLauncher,
     exe_rule ''Ubisoft Connect'' ''UbisoftConnect.exe'' ClassLauncher,
     exe_rule ''GOG Galaxy helper'' ''GalaxyClient Helper.exe'' ClassLauncher,
     exe_rule ''Riot Client UI'' ''RiotClientUx.exe'' ClassLauncher,
     exe_rule ''Riot Client UI render'' ''RiotClientUxRender.exe'' ClassLauncher,
     exe_rule ''Battle.net helper'' ''Agent.exe'' ClassLauncher,
     exe_rule ''Epic Online Services'' ''EpicOnlineServicesUserHelper.exe'' ClassLauncher,
     exe_rule ''Steam client service'' ''steamservice.exe'' ClassLauncher,
     glob_rule ''Steam redistributables'' ''*/steamapps/common/Steamworks Shared/*'' ClassIgnore,
     glob_rule ''Steam library'' ''*/steamapps/common/*'' ClassGame,
     prefix_rule ''Epic library'' ''C:/Program Files/Epic Games/'' ClassGame,
     prefix_rule ''Xbox / Game Pass'' ''C:/XboxGames/'' ClassGame,
     exe_rule ''OBS Studio'' ''obs64.exe'' ClassOrdinary,
     exe_rule ''Discord'' ''Discord.exe'' ClassOrdinary,
     exe_rule ''Chrome'' ''chrome.exe'' ClassOrdinary,
     exe_rule ''Edge'' ''msedge.exe'' ClassOrdinary,
     exe_rule ''Firefox'' ''firefox.exe'' ClassOrdinary,
     exe_rule ''Windows lock screen'' ''LockApp.exe'' ClassIgnore,
     exe_rule ''Windows sign-in'' ''LogonUI.exe'' ClassIgnore,
     exe_rule ''Desktop Window Manager'' ''dwm.exe'' ClassIgnore,
     exe_rule ''Explorer'' ''explorer.exe'' ClassIgnore,
     exe_rule ''Shell'' ''ShellExperienceHost.exe'' ClassIgnore,
     exe_rule ''Start menu'' ''StartMenuExperienceHost.exe'' ClassIgnore,
     exe_rule ''Search'' ''SearchHost.exe'' ClassIgnore,
     exe_rule ''Text input'' ''TextInputHost.exe'' ClassIgnore,
     exe_rule ''Widgets'' ''Widgets.exe'' ClassIgnore]"

definition default_applications :: "app_rule list" where
  "default_applications = map (\<lambda>r. r\<lparr>ar_id := builtin_id r\<rparr>) shipped_applications"

definition default_rule_ids :: "string list" where
  "default_rule_ids = map ar_id default_applications"

subsection \<open>The shipped configuration\<close>

definition default_runtime :: runtime_cfg where
  "default_runtime = \<lparr>
     rt_executable = win ''C:/Program Files/Benchwarmer/runtime/vulkan/llama-server.exe'',
     rt_model_path = win ''C:/ProgramData/Benchwarmer/models/model.gguf'',
     rt_args = [], rt_context_size = 8192, rt_gpu_layers = 999, rt_run_as = ''localservice'',
     rt_host = ''127.0.0.1'', rt_port = 18481, rt_stop_mode = ''graceful'',
     rt_graceful_stop_timeout = 5 * second, rt_load_timeout = 180 * second,
     rt_required_free_vram_mib = 13312, rt_kill_verify_timeout = 10 * second,
     rt_vram_release_timeout = 15 * second, rt_vram_release_tolerance_mib = 256,
     rt_max_request_duration = 10 * minute, rt_diagnostics_tail_bytes = 16384\<rparr>"

definition default_tls :: tls_cfg where
  "default_tls = \<lparr>tls_enabled = False, tls_cert_file = '''', tls_key_file = '''',
     tls_legacy_pfx_password_file = '''', tls_store_thumbprint = '''', tls_store_subject = '''',
     tls_self_signed = False, tls_self_signed_hosts = []\<rparr>"

definition normal_profile :: profile where
  "normal_profile = \<lparr>
     pf_description = ''Deferential whenever the owner may be using the computer.'',
     pf_grace = 15 * second, pf_grace_under_pressure = 5 * second, pf_cooldown = 5 * minute,
     pf_external_util_soft_pct = 25, pf_soft_window = 10 * second,
     pf_external_vram_soft_mib = 2048, pf_drain_on_game_process = True,
     pf_drain_on_ambiguous = True, pf_drain_on_soft_contention = True,
     pf_game_confirm_util_pct = 10, pf_game_confirm_vram_mib = 512\<rparr>"

definition school_hours_profile :: profile where
  "school_hours_profile = \<lparr>
     pf_description = ''Weekday school hours: tolerant of ambiguous signals; real contention still wins.'',
     pf_grace = 60 * second, pf_grace_under_pressure = 15 * second, pf_cooldown = 2 * minute,
     pf_external_util_soft_pct = 40, pf_soft_window = 20 * second,
     pf_external_vram_soft_mib = 2560, pf_drain_on_game_process = True,
     pf_drain_on_ambiguous = False, pf_drain_on_soft_contention = True,
     pf_game_confirm_util_pct = 15, pf_game_confirm_vram_mib = 768\<rparr>"

definition ai_priority_profile :: profile where
  "ai_priority_profile = \<lparr>
     pf_description = ''Manual AI Priority: permissive, but never overrides safety, critical contention, or confirmed gaming.'',
     pf_grace = 120 * second, pf_grace_under_pressure = 20 * second, pf_cooldown = minute,
     pf_external_util_soft_pct = 50, pf_soft_window = 30 * second,
     pf_external_vram_soft_mib = 2560, pf_drain_on_game_process = False,
     pf_drain_on_ambiguous = False, pf_drain_on_soft_contention = False,
     pf_game_confirm_util_pct = 20, pf_game_confirm_vram_mib = 1024\<rparr>"

definition shipped_config :: "app_rule list \<Rightarrow> string list \<Rightarrow> config" where
  "shipped_config apps seen = \<lparr>
     cf_schema_version = 1,
     cf_runtime = default_runtime,
     cf_listen = \<lparr>ls_inference = ''127.0.0.1:8480'', ls_management = ''127.0.0.1:8481'',
       ls_inference_tls = default_tls\<rparr>,
     cf_telemetry = \<lparr>tel_adapter = '''', tel_sample_interval = second, tel_loss_grace = 10 * second,
       tel_degraded_margin_pct = 20\<rparr>,
     cf_safety = \<lparr>sf_gpu_temp_critical_c = 90, sf_gpu_temp_resume_c = 80\<rparr>,
     cf_contention = \<lparr>ct_vram_free_critical_mib = 512, ct_external_vram_critical_mib = 3072,
       ct_external_util_critical_pct = 60, ct_critical_window = 3 * second,
       ct_clear_window = 30 * second\<rparr>,
     cf_profiles = [(''normal'', normal_profile), (''school_hours'', school_hours_profile),
       (''ai_priority'', ai_priority_profile)],
     cf_default_profile = ''normal'',
     cf_ai_priority_profile = ''ai_priority'',
     cf_schedules = [\<lparr>sc_name = ''school-hours'', sc_profile = ''school_hours'',
       sc_days = [''mon'', ''tue'', ''wed'', ''thu'', ''fri''], sc_start = ''07:00'',
       sc_end = ''17:00'', sc_enabled = True\<rparr>],
     cf_timezone = ''America/Chicago'',
     cf_applications = apps,
     cf_builtin_rules_seen = seen,
     cf_anti_thrash = \<lparr>at_window = 10 * minute, at_max_preemptions = 2, at_suppress_for = 30 * minute\<rparr>,
     cf_recovery = \<lparr>rc_startup_cooldown = 2 * minute, rc_resume_cooldown = 3 * minute,
       rc_crash_backoff_initial = 30 * second, rc_crash_backoff_max = 30 * minute,
       rc_telemetry_recovery_cooldown = 2 * minute, rc_device_lost_cooldown = 30 * minute,
       rc_crash_reset_after = 30 * minute\<rparr>,
     cf_modes = \<lparr>md_pause_durations = [30 * minute, hour, 2 * hour, 4 * hour],
       md_ai_priority_durations = [30 * minute, hour, 2 * hour], md_max_ai_priority = 12 * hour\<rparr>,
     cf_signals = \<lparr>sg_session_stale_after = 15 * second, sg_process_interval = 2 * second\<rparr>,
     cf_security = \<lparr>se_loopback_trust = True,
       se_management_token_file = win ''secrets/management.token'',
       se_inference_token_file = win ''secrets/inference.token'',
       se_agent_token_file = win ''secrets/agent.token'', se_require_inference_token = False\<rparr>,
     cf_retention = \<lparr>re_events_days = 30, re_events_max = 50000, re_log_max_mb = 20, re_log_files = 5\<rparr>,
     cf_metrics_enabled = True,
     cf_logging = \<lparr>lg_level = ''info'', lg_dir = ''''\<rparr>\<rparr>"

definition default_config :: config where
  "default_config = shipped_config default_applications default_rule_ids"

text \<open>The shipped configuration without application rules, for concrete runs.\<close>

definition bare_config :: config where
  "bare_config = shipped_config [] []"

subsection \<open>Merging the shipped rules into an existing file\<close>

text \<open>The first loop: an id-less rule whose matcher is a shipped rule's takes that rule's id, unless
  the id is already in the file or was taken by an earlier rule. \<open>have_ids\<close> are the ids held.\<close>

fun adopt_ids :: "string list \<Rightarrow> string list \<Rightarrow> app_rule list \<Rightarrow> app_rule list \<times> string list \<times> bool" where
  "adopt_ids shipped_ids have_ids [] = ([], have_ids, False)"
| "adopt_ids shipped_ids have_ids (r # rs) =
     (if ar_id r \<noteq> '''' then
        (case adopt_ids shipped_ids have_ids rs of (rs', h, ch) \<Rightarrow> (r # rs', h, ch))
      else if builtin_id r \<in> set shipped_ids \<and> builtin_id r \<notin> set have_ids then
        (case adopt_ids shipped_ids (builtin_id r # have_ids) rs of
           (rs', h, ch) \<Rightarrow> (r\<lparr>ar_id := builtin_id r\<rparr> # rs', h, True))
      else (case adopt_ids shipped_ids have_ids rs of (rs', h, ch) \<Rightarrow> (r # rs', h, ch)))"

fun index_of_rule :: "app_rule list \<Rightarrow> string \<Rightarrow> nat option" where
  "index_of_rule [] i = None"
| "index_of_rule (r # rs) i =
     (if ar_id r = i then Some 0 else map_option Suc (index_of_rule rs i))"

text \<open>Where a shipped rule goes: after the closest preceding shipped rule that is present;
  \<open>preceding\<close> holds the shipped rules before it, closest first.\<close>

fun insert_position :: "app_rule list \<Rightarrow> app_rule list \<Rightarrow> nat" where
  "insert_position apps [] = 0"
| "insert_position apps (d # ds) =
     (case index_of_rule apps (ar_id d) of Some k \<Rightarrow> k + 1 | None \<Rightarrow> insert_position apps ds)"

definition insert_at :: "nat \<Rightarrow> 'a \<Rightarrow> 'a list \<Rightarrow> 'a list" where
  "insert_at k x xs = take k xs @ x # drop k xs"

fun insert_shipped ::
  "string list \<Rightarrow> app_rule list \<Rightarrow> app_rule list \<Rightarrow> string list \<Rightarrow> app_rule list \<Rightarrow>
     app_rule list \<times> bool" where
  "insert_shipped seen preceding [] have_ids apps = (apps, False)"
| "insert_shipped seen preceding (d # ds) have_ids apps =
     (if ar_id d \<in> set have_ids \<or> ar_id d \<in> set seen then
        insert_shipped seen (d # preceding) ds have_ids apps
      else (case insert_shipped seen (d # preceding) ds (ar_id d # have_ids)
              (insert_at (insert_position apps preceding) d apps) of
         (apps', ch) \<Rightarrow> (apps', True)))"

definition merge_rules :: "app_rule list \<Rightarrow> app_rule list \<Rightarrow> string list \<Rightarrow>
    app_rule list \<times> string list \<times> bool" where
  "merge_rules shipped apps seen =
     (let have0 = filter (\<lambda>i. i \<noteq> '''') (map ar_id apps);
          (apps1, have1, ch1) = adopt_ids (map ar_id shipped) have0 apps;
          (apps2, ch2) = insert_shipped seen [] shipped have1 apps1;
          new_seen = filter (\<lambda>i. i \<notin> set seen) (map ar_id shipped)
      in (apps2, seen @ new_seen, ch1 \<or> ch2 \<or> new_seen \<noteq> []))"

definition merge_builtin_rules :: "config \<Rightarrow> config \<times> bool" where
  "merge_builtin_rules c =
     (case merge_rules default_applications (cf_applications c) (cf_builtin_rules_seen c) of
        (apps, seen, changed) \<Rightarrow>
          (c\<lparr>cf_applications := apps, cf_builtin_rules_seen := seen\<rparr>, changed))"

end
