(* ===== verification/Schedule.thy ===== *)
theory Schedule
  imports Defaults
begin

text \<open>
  Package \<open>internal/schedule\<close>: which policy profile is in force at an instant, and when that next
  changes. The IANA zone database (\<open>time.LoadLocation\<close>) is a parameter: \<open>tz\<close> maps a zone name to
  its conversion from instants to civil time, or to nothing when the zone is unknown.
\<close>

record civil =
  cv_year :: int
  cv_yday :: int
  cv_weekday :: int
  cv_hour :: int
  cv_minute :: int

type_synonym zone = "time \<Rightarrow> civil"
type_synonym tzdb = "string \<Rightarrow> zone option"

text \<open>What the Go library documents of a civil time.\<close>

definition civil_ok :: "civil \<Rightarrow> bool" where
  "civil_ok l \<longleftrightarrow> 0 \<le> cv_weekday l \<and> cv_weekday l < 7 \<and> 0 \<le> cv_hour l \<and> cv_hour l < 24
     \<and> 0 \<le> cv_minute l \<and> cv_minute l < 60"

fun has_day :: "string list \<Rightarrow> int \<Rightarrow> bool" where
  "has_day [] d = False"
| "has_day (x # xs) d = (if weekday x = Some d then True else has_day xs d)"

definition in_window :: "schedule \<Rightarrow> civil \<Rightarrow> bool" where
  "in_window s l = (case (clock_minutes (sc_start s), clock_minutes (sc_end s)) of
      (Some start, Some stop) \<Rightarrow>
        (let m = cv_hour l * 60 + cv_minute l; today = cv_weekday l in
         if start < stop then has_day (sc_days s) today \<and> start \<le> m \<and> m < stop
         else if start \<le> m \<and> has_day (sc_days s) today then True
         else m < stop \<and> has_day (sc_days s) ((today + 6) mod 7))
    | _ \<Rightarrow> False)"

datatype profile_source = SrcDefault | SrcSchedule string | SrcAIPriority | NoSource

fun active_scan :: "schedule list \<Rightarrow> civil \<Rightarrow> (string \<times> profile_source) option" where
  "active_scan [] l = None"
| "active_scan (s # ss) l =
     (if sc_enabled s \<and> in_window s l then Some (sc_profile s, SrcSchedule (sc_name s))
      else active_scan ss l)"

definition active_in :: "config \<Rightarrow> time \<Rightarrow> zone \<Rightarrow> string \<times> profile_source" where
  "active_in c now loc = (case active_scan (cf_schedules c) (loc now) of
      Some r \<Rightarrow> r | None \<Rightarrow> (cf_default_profile c, SrcDefault))"

definition active :: "tzdb \<Rightarrow> config \<Rightarrow> time \<Rightarrow> string \<times> profile_source" where
  "active tz c now = (case tz (cf_timezone c) of
      None \<Rightarrow> (cf_default_profile c, SrcDefault)
    | Some loc \<Rightarrow> active_in c now loc)"

text \<open>\<open>t.Truncate(d)\<close> rounds down to a multiple of \<open>d\<close> since the zero time.\<close>

definition truncate_t :: "time \<Rightarrow> dur \<Rightarrow> time" where
  "truncate_t t d = t - t mod d"

function next_change_from ::
  "config \<Rightarrow> zone \<Rightarrow> string \<times> profile_source \<Rightarrow> time \<Rightarrow> time \<Rightarrow> time" where
  "next_change_from c loc cur stop t =
     (if t < stop then
        (if active_in c t loc \<noteq> cur then t else next_change_from c loc cur stop (t + minute))
      else 0)"
  by pat_completeness auto
termination
  by (relation "measure (\<lambda>(c, loc, cur, stop, t). nat (stop - t))") auto

declare next_change_from.simps [simp del]

definition next_change :: "tzdb \<Rightarrow> config \<Rightarrow> time \<Rightarrow> time" where
  "next_change tz c now = (case tz (cf_timezone c) of
      None \<Rightarrow> 0
    | Some loc \<Rightarrow>
        (if \<not> list_ex sc_enabled (cf_schedules c) then 0
         else next_change_from c loc (active_in c now loc) (now + 8 * 24 * hour)
                (truncate_t now minute + minute)))"

subsection \<open>Windows as intervals of the week\<close>

lemma has_day_iff: "has_day ds d \<longleftrightarrow> (\<exists>x \<in> set ds. weekday x = Some d)"
  by (induction ds) auto

definition minute_of_week :: "civil \<Rightarrow> int" where
  "minute_of_week l = cv_weekday l * 1440 + cv_hour l * 60 + cv_minute l"

definition window_length :: "int \<Rightarrow> int \<Rightarrow> int" where
  "window_length start stop = (if start < stop then stop - start else stop - start + 1440)"

text \<open>Arithmetic of one window on one day: the offset from its start, modulo a week.\<close>

lemma week_offset:
  fixes w d m start :: int
  assumes "0 \<le> w" "w < 7" "0 \<le> d" "d < 7" "0 \<le> m" "m < 1440" "0 \<le> start" "start < 1440"
  shows "(w * 1440 + m - (d * 1440 + start)) mod 10080 =
    (if d < w \<or> d = w \<and> start \<le> m then (w - d) * 1440 + m - start
     else (w - d) * 1440 + m - start + 10080)"
proof (cases "d < w \<or> d = w \<and> start \<le> m")
  case True
  with assms show ?thesis by (auto simp: algebra_simps intro!: mod_pos_pos_trivial)
next
  case False
  have "(w * 1440 + m - (d * 1440 + start)) mod 10080 =
      (w * 1440 + m - (d * 1440 + start) + 10080) mod 10080" by simp
  also have "\<dots> = w * 1440 + m - (d * 1440 + start) + 10080"
    using assms False by (intro mod_pos_pos_trivial) auto
  finally show ?thesis unfolding if_not_P [OF False] by (simp add: algebra_simps)
qed

lemma day_in_window:
  fixes w d m start stop :: int
  assumes "0 \<le> w" "w < 7" "0 \<le> d" "d < 7" "0 \<le> m" "m < 1440" "0 \<le> start" "start < 1440"
    "0 \<le> stop" "stop < 1440"
  shows "(w * 1440 + m - (d * 1440 + start)) mod 10080 < window_length start stop \<longleftrightarrow>
    d = w \<and> start \<le> m \<and> (start < stop \<longrightarrow> m < stop) \<or>
    d = (w + 6) mod 7 \<and> \<not> start < stop \<and> m < stop"
proof -
  have y: "(w + 6) mod 7 = (if w = 0 then 6 else w - 1)"
    using assms by presburger
  show ?thesis
    using assms by (auto simp: week_offset window_length_def y)
qed

text \<open>C26. A schedule's window, with its start inclusive, its end exclusive and windows that span
  midnight, is exactly the interval of the week that begins at the start minute of one of its
  days and lasts until the end minute: an overnight window belongs to the day it starts on.\<close>

theorem in_window_week:
  assumes l: "civil_ok l"
    and start: "clock_minutes (sc_start s) = Some start"
    and stop: "clock_minutes (sc_end s) = Some stop"
  shows "in_window s l \<longleftrightarrow>
    (\<exists>x d. x \<in> set (sc_days s) \<and> weekday x = Some d \<and>
       (minute_of_week l - (d * 1440 + start)) mod 10080 < window_length start stop)"
proof -
  let ?m = "cv_hour l * 60 + cv_minute l" and ?w = "cv_weekday l"
  have m: "0 \<le> ?m" "?m < 1440" and w: "0 \<le> ?w" "?w < 7"
    using l by (auto simp: civil_ok_def)
  have st: "0 \<le> start" "start < 1440" "0 \<le> stop" "stop < 1440"
    using clock_minutes_bounds start stop by auto
  have day: "(minute_of_week l - (d * 1440 + start)) mod 10080 < window_length start stop \<longleftrightarrow>
      d = ?w \<and> start \<le> ?m \<and> (start < stop \<longrightarrow> ?m < stop) \<or>
      d = (?w + 6) mod 7 \<and> \<not> start < stop \<and> ?m < stop"
    if "weekday x = Some d" for x d
    using day_in_window [of ?w d ?m start stop] weekday_bounds [OF that] m w st
    by (simp add: minute_of_week_def add.assoc)
  show ?thesis
    using day by (auto simp: in_window_def start stop Let_def has_day_iff)
qed

definition school_hours :: schedule where
  "school_hours = \<lparr>sc_name = ''school'', sc_profile = ''school'', sc_days = [''mon'', ''Tue''],
     sc_start = ''22:00'', sc_end = ''6:30'', sc_enabled = True\<rparr>"

theorem in_window_week_witness:
  "in_window school_hours \<lparr>cv_year = 2026, cv_yday = 1, cv_weekday = 3, cv_hour = 6, cv_minute = 29\<rparr>"
proof -
  let ?l = "\<lparr>cv_year = 2026, cv_yday = 1, cv_weekday = 3, cv_hour = 6, cv_minute = 29\<rparr>"
  have "civil_ok ?l" by (simp add: civil_ok_def)
  moreover have "clock_minutes (sc_start school_hours) = Some 1320"
    "clock_minutes (sc_end school_hours) = Some 390" by code_simp+
  moreover have "weekday ''Tue'' = Some 2" by code_simp
  ultimately show ?thesis
    by (subst in_window_week) (auto simp: school_hours_def minute_of_week_def window_length_def)
qed

subsection \<open>The scan for the next change\<close>

lemma next_change_from_zero:
  "0 < t \<Longrightarrow> next_change_from c loc cur stop t = 0 \<Longrightarrow>
     t + int k * minute < stop \<Longrightarrow> active_in c (t + int k * minute) loc = cur"
proof (induction c loc cur stop t arbitrary: k rule: next_change_from.induct)
  case (1 c loc cur stop t)
  have lt: "t < stop" using "1.prems"(3) by simp
  with "1.prems"(1,2) have cur: "active_in c t loc = cur"
    and rest: "next_change_from c loc cur stop (t + minute) = 0"
    by (auto simp: next_change_from.simps [of c loc cur stop t] split: if_splits)
  show ?case
  proof (cases k)
    case 0
    with cur show ?thesis by simp
  next
    case (Suc j)
    with "1.IH" [OF lt, of j] cur rest "1.prems" show ?thesis
      by (simp add: algebra_simps)
  qed
qed

lemma next_change_from_found:
  "0 < t \<Longrightarrow> r = next_change_from c loc cur stop t \<Longrightarrow> r \<noteq> 0 \<Longrightarrow>
     (\<exists>n. r = t + int n * minute \<and> r < stop \<and> active_in c r loc \<noteq> cur \<and>
        (\<forall>k < n. active_in c (t + int k * minute) loc = cur))"
proof (induction c loc cur stop t rule: next_change_from.induct)
  case (1 c loc cur stop t)
  have lt: "t < stop"
    using "1.prems" by (auto simp: next_change_from.simps [of c loc cur stop t] split: if_splits)
  show ?case
  proof (cases "active_in c t loc = cur")
    case False
    with lt "1.prems" show ?thesis
      by (intro exI [of _ 0]) (simp add: next_change_from.simps [of c loc cur stop t])
  next
    case True
    with lt "1.prems" have "r = next_change_from c loc cur stop (t + minute)"
      by (simp add: next_change_from.simps [of c loc cur stop t])
    with "1.IH" lt True "1.prems" obtain n where n: "r = t + minute + int n * minute" "r < stop"
      "active_in c r loc \<noteq> cur" "\<forall>k < n. active_in c (t + minute + int k * minute) loc = cur"
      by auto
    have "active_in c (t + int k * minute) loc = cur" if "k < Suc n" for k
      using that True n(4) by (cases k) (auto simp: algebra_simps)
    with n show ?thesis by (intro exI [of _ "Suc n"]) (auto simp: algebra_simps)
  qed
qed

text \<open>The whole minutes after an instant.\<close>

lemma minute_grid:
  fixes now t :: int
  assumes lt: "now < t" and t: "t mod minute = 0"
  shows "\<exists>k. t = now - now mod minute + minute + int k * minute"
proof -
  obtain q where q: "t = minute * q" using t by (metis mod_0_imp_dvd dvdE)
  have n: "now = minute * (now div minute) + now mod minute" by simp
  have "0 \<le> now mod minute" "now mod minute < minute" by simp_all
  with lt q n have "now div minute < q" by linarith
  moreover have "now - now mod minute = minute * (now div minute)" by (rule minus_mod_eq_mult_div)
  ultimately show ?thesis
    using q by (intro exI [of _ "nat (q - now div minute - 1)"]) (simp add: algebra_simps)
qed

text \<open>\<open>NextChange\<close>: a returned instant is a whole minute after \<open>now\<close>, within eight days, at
  which the active profile or its source differs from the one at \<open>now\<close>, and it is the first such
  minute; the zero time is returned only when the active profile stays the same at every whole
  minute of the eight days.\<close>

theorem next_change_correct:
  assumes now: "0 \<le> now"
    and loc: "tz (cf_timezone c) = Some loc"
    and en: "list_ex sc_enabled (cf_schedules c)"
    and r: "r = next_change tz c now"
  shows "(r \<noteq> 0 \<longrightarrow> now < r \<and> r < now + 8 * 24 * hour \<and> r mod minute = 0 \<and>
      active tz c r \<noteq> active tz c now) \<and>
    (\<forall>t. now < t \<and> t mod minute = 0 \<and> t < (if r = 0 then now + 8 * 24 * hour else r) \<longrightarrow>
      active tz c t = active tz c now)"
proof -
  let ?t0 = "truncate_t now minute + minute" and ?cur = "active_in c now loc"
  have t0: "now < ?t0" "?t0 \<le> now + minute" "?t0 mod minute = 0"
    by (simp_all add: truncate_t_def minus_mod_eq_mult_div)
  have grid: "\<exists>k. t = ?t0 + int k * minute" if "now < t" "t mod minute = 0" for t
    using minute_grid [of now t] that by (simp add: truncate_t_def)
  have r': "r = next_change_from c loc ?cur (now + 8 * 24 * hour) ?t0"
    using r loc en by (simp add: next_change_def)
  have pos: "0 < ?t0" using now t0 by simp
  have act: "active tz c t = active_in c t loc" for t by (simp add: active_def loc)
  show ?thesis
  proof (cases "r = 0")
    case True
    then show ?thesis
      using next_change_from_zero [OF pos, of c loc ?cur "now + 8 * 24 * hour"] r' grid
      by (fastforce simp: act)
  next
    case False
    then obtain n where n: "r = ?t0 + int n * minute" "r < now + 8 * 24 * hour"
      "active_in c r loc \<noteq> ?cur" "\<forall>k < n. active_in c (?t0 + int k * minute) loc = ?cur"
      using next_change_from_found [OF pos r'] by blast
    moreover have "r mod minute = 0" using n(1) t0(3) by (simp add: mod_add_eq)
    moreover have "active_in c t loc = ?cur" if t: "now < t" "t mod minute = 0" "t < r" for t
    proof -
      obtain k where k: "t = ?t0 + int k * minute" using grid [OF t(1,2)] by (rule exE)
      with t(3) n(1) have "k < n" by simp
      with n(4) k show ?thesis by simp
    qed
    ultimately show ?thesis using t0 False by (auto simp: act)
  qed
qed

definition utc_clock :: zone where
  "utc_clock t = \<lparr>cv_year = 1, cv_yday = t div (24 * hour) + 1, cv_weekday = (t div (24 * hour) + 1) mod 7,
     cv_hour = t div hour mod 24, cv_minute = t div minute mod 60\<rparr>"

definition night_config :: config where
  "night_config = bare_config\<lparr>cf_schedules := [school_hours]\<rparr>"

text \<open>Day 1 of the era is a Monday: the overnight window opens at 22:00 and, as \<open>NextChange\<close> runs
  a minute before that, the change is at the next minute.\<close>

theorem next_change_correct_witness:
  "active (\<lambda>_. Some utc_clock) night_config (22 * hour)
     \<noteq> active (\<lambda>_. Some utc_clock) night_config (22 * hour - 5)"
proof -
  have n: "next_change (\<lambda>_. Some utc_clock) night_config (22 * hour - 5) = 22 * hour"
    by code_simp
  have "list_ex sc_enabled (cf_schedules night_config)" by code_simp
  then show ?thesis
    using next_change_correct [where now = "22 * hour - 5" and c = night_config
        and tz = "\<lambda>_. Some utc_clock", OF _ refl _ n [symmetric]] by simp
qed

end
