(* ===== verification/Policy_Types.thy ===== *)
theory Policy_Types
  imports Lifecycle Schedule
begin

text \<open>
  Package \<open>internal/policy\<close>, the types: the snapshot of facts policy evaluates, and the decision
  it returns. Go's open string types become datatypes with one constructor per constant and an
  \<open>Other\<dots>\<close> constructor for every other string; optional pointers become options; \<open>fmt.Sprint\<close> of
  a value becomes the value itself (\<open>farg\<close>).
\<close>

datatype mode = ModeAuto | ModePause | ModeAIPriority | OtherMode string

datatype confidence = ConfidenceHigh | ConfidenceDegraded | ConfidenceNone | OtherConfidence string

datatype action = ActionRun | ActionHold | ActionDrain | ActionPreempt | NoAction

definition yields :: "action \<Rightarrow> bool" where
  "yields a = (a = ActionDrain \<or> a = ActionPreempt)"

datatype severity = SeverityInfo | SeverityNotice | SeverityWarning | SeverityCritical | NoSeverity

text \<open>Rule identifiers. \<open>OtherRule\<close> is a string that is no identifier, for instance one read back
  from a state file written by another version.\<close>

datatype rule =
    RuleShutdown | RuleSuspend | RuleDeviceLost | RuleTemperature | RuleTelemetryLost | RulePause
  | RuleCriticalVRAMFree | RuleCriticalVRAMExt | RuleCriticalUtil | RuleGameConfirmed
  | RuleLauncherChildGPU | RuleFullscreenGPU | RuleGameProcess | RuleAmbiguous
  | RuleSoftContention | RuleRecovery | RuleSuppressed | RuleCooldown | RuleNoTelemetry
  | RuleNoProcessList | RuleVRAMInsufficient | RuleSetupRequired | RuleRun | RuleAIPriorityRun
  | OtherRule string

abbreviation no_rule :: rule where
  "no_rule \<equiv> OtherRule ''''"

primrec rule_id :: "rule \<Rightarrow> string" where
  "rule_id RuleShutdown = ''safety.shutdown''"
| "rule_id RuleSuspend = ''safety.suspend''"
| "rule_id RuleDeviceLost = ''safety.device_lost''"
| "rule_id RuleTemperature = ''safety.temperature''"
| "rule_id RuleTelemetryLost = ''safety.telemetry_lost''"
| "rule_id RulePause = ''manual.pause''"
| "rule_id RuleCriticalVRAMFree = ''contention.critical_vram_free''"
| "rule_id RuleCriticalVRAMExt = ''contention.critical_external_vram''"
| "rule_id RuleCriticalUtil = ''contention.critical_external_util''"
| "rule_id RuleGameConfirmed = ''gaming.confirmed''"
| "rule_id RuleLauncherChildGPU = ''gaming.launcher_child''"
| "rule_id RuleFullscreenGPU = ''interactive.fullscreen_gpu''"
| "rule_id RuleGameProcess = ''profile.game_process''"
| "rule_id RuleAmbiguous = ''profile.ambiguous_interactive''"
| "rule_id RuleSoftContention = ''profile.soft_contention''"
| "rule_id RuleRecovery = ''eligibility.recovery''"
| "rule_id RuleSuppressed = ''eligibility.suppressed''"
| "rule_id RuleCooldown = ''eligibility.cooldown''"
| "rule_id RuleNoTelemetry = ''eligibility.telemetry_unavailable''"
| "rule_id RuleNoProcessList = ''eligibility.process_list_unavailable''"
| "rule_id RuleVRAMInsufficient = ''eligibility.vram_insufficient''"
| "rule_id RuleSetupRequired = ''eligibility.setup_required''"
| "rule_id RuleRun = ''profile.run''"
| "rule_id RuleAIPriorityRun = ''mode.ai_priority''"
| "rule_id (OtherRule s) = s"

text \<open>Precedence tiers, 1 the highest.\<close>

type_synonym tier = nat

abbreviation TierSafety :: tier where "TierSafety \<equiv> 1"
abbreviation TierPause :: tier where "TierPause \<equiv> 2"
abbreviation TierCritical :: tier where "TierCritical \<equiv> 3"
abbreviation TierGaming :: tier where "TierGaming \<equiv> 4"
abbreviation TierAIPriority :: tier where "TierAIPriority \<equiv> 5"
abbreviation TierSchedule :: tier where "TierSchedule \<equiv> 6"
abbreviation TierDefault :: tier where "TierDefault \<equiv> 7"
abbreviation TierEligibility :: tier where "TierEligibility \<equiv> 8"

record mode_facts =
  mf_mode :: mode
  mf_until :: "time option"
  mf_set_by :: string

record runtime_facts =
  rf_state :: state
  rf_pid :: int
  rf_active_requests :: int
  rf_oldest_request_age :: dur
  rf_draining_since :: time
  rf_footprint_mib :: int
  rf_setup_problem :: string

record gpu_facts =
  gf_confidence :: confidence
  gf_attribution_reasons :: "string list"
  gf_none_for :: dur
  gf_healthy_for :: dur
  gf_total_util_pct :: flt
  gf_own_util_pct :: flt
  gf_external_util_pct :: flt
  gf_external_util_trusted :: bool
  gf_above_critical_for :: dur
  gf_above_soft_for :: dur
  gf_below_soft_for :: dur
  gf_vram_total_mib :: int
  gf_vram_used_mib :: int
  gf_vram_free_mib :: int
  gf_own_vram_mib :: int
  gf_external_vram_mib :: int
  gf_external_vram_growth_mib :: int
  gf_temperature_c :: "flt option"

record app_match =
  am_pid :: int
  am_name :: string
  am_path :: string
  am_class :: app_class
  am_rule :: string
  am_gpu_util_pct :: flt
  am_vram_mib :: int
  am_foreground :: bool
  am_fullscreen :: bool
  am_running_for :: dur
  am_parent_name :: string

record app_facts =
  af_observed_gpu_users :: "app_match list"
  af_games :: "app_match list"
  af_launchers :: "app_match list"
  af_ordinary :: "app_match list"
  af_launcher_children :: "app_match list"
  af_process_list_ok :: bool

record session_facts =
  sn_known :: bool
  sn_user_logged_on :: bool
  sn_locked :: bool
  sn_foreground_name :: string
  sn_foreground_path :: string
  sn_foreground_pid :: int
  sn_foreground_class :: app_class
  sn_fullscreen :: bool
  sn_idle_for :: dur

record power_facts =
  pw_suspending :: bool
  pw_shutting_down :: bool
  pw_device_lost :: bool

record timer_facts =
  tm_last_competing_at :: time
  tm_last_competing_rule :: rule
  tm_preemptions :: "time list"
  tm_suppressed_at :: time
  tm_recovery_until :: time
  tm_recovery_reason :: string

record snapshot =
  ss_now :: time
  ss_mode :: mode_facts
  ss_runtime :: runtime_facts
  ss_gpu :: gpu_facts
  ss_apps :: app_facts
  ss_session :: session_facts
  ss_power :: power_facts
  ss_timers :: timer_facts

record evidence =
  ev_name :: string
  ev_value :: farg
  ev_threshold :: "farg option"
  ev_source :: string

record decision =
  de_action :: action
  de_rule :: rule
  de_tier :: tier
  de_severity :: severity
  de_reason :: gotext
  de_evidence :: "evidence list"
  de_profile :: string
  de_profile_source :: profile_source
  de_mode :: mode
  de_grace :: dur
  de_competing :: bool
  de_counts_as_preemption :: bool
  de_suppress :: bool
  de_idle_state :: state
  de_next_load_at :: time
  de_also_matched :: "rule list"

text \<open>The zero values the controller starts from.\<close>

definition zero_gpu :: gpu_facts where
  "zero_gpu = \<lparr>gf_confidence = OtherConfidence '''', gf_attribution_reasons = [],
     gf_none_for = 0, gf_healthy_for = 0, gf_total_util_pct = 0, gf_own_util_pct = 0,
     gf_external_util_pct = 0, gf_external_util_trusted = False, gf_above_critical_for = 0,
     gf_above_soft_for = 0, gf_below_soft_for = 0, gf_vram_total_mib = 0, gf_vram_used_mib = 0,
     gf_vram_free_mib = 0, gf_own_vram_mib = 0, gf_external_vram_mib = 0,
     gf_external_vram_growth_mib = 0, gf_temperature_c = None\<rparr>"

definition zero_apps :: app_facts where
  "zero_apps = \<lparr>af_observed_gpu_users = [], af_games = [], af_launchers = [], af_ordinary = [],
     af_launcher_children = [], af_process_list_ok = False\<rparr>"

definition zero_session :: session_facts where
  "zero_session = \<lparr>sn_known = False, sn_user_logged_on = False, sn_locked = False,
     sn_foreground_name = '''', sn_foreground_path = '''', sn_foreground_pid = 0,
     sn_foreground_class = no_class, sn_fullscreen = False, sn_idle_for = 0\<rparr>"

definition zero_timers :: timer_facts where
  "zero_timers = \<lparr>tm_last_competing_at = 0, tm_last_competing_rule = no_rule,
     tm_preemptions = [], tm_suppressed_at = 0, tm_recovery_until = 0, tm_recovery_reason = ''''\<rparr>"

end
