(* ===== verification/Policy.thy ===== *)
theory Policy
  imports Policy_Types
begin

text \<open>
  Package \<open>internal/policy\<close>, the evaluator (\<open>evaluate.go\<close>). \<open>Evaluate\<close> is a pure function of a
  snapshot and a configuration; here it takes the zone database as well, which \<open>schedule.Active\<close>
  consults. The yield rules are a list in precedence order, one definition per tier group.

  The lemmas show the precedence (the winner is the first of the highest tier that matched), that
  hard safety conditions always preempt, what holds when policy lets an idle worker load, that
  the decision fits the lifecycle state it was made for, and the bounds of grace, thresholds and
  the promised next load time.
\<close>

record rmatch =
  mt_action :: action
  mt_rule :: rule
  mt_tier :: tier
  mt_severity :: severity
  mt_reason :: gotext
  mt_evidence :: "evidence list"
  mt_competing :: bool
  mt_preempt :: bool
  mt_idle :: state

record eval_ctx =
  el_s :: snapshot
  el_c :: config
  el_p :: profile
  el_profile_name :: string
  el_profile_source :: profile_source
  el_profile_tier :: tier
  el_mode :: mode
  el_running :: bool
  el_soft_util :: flt
  el_soft_vram :: int

definition is_schedule :: "profile_source \<Rightarrow> bool" where
  "is_schedule p = (case p of SrcSchedule _ \<Rightarrow> True | _ \<Rightarrow> False)"

text \<open>Without attribution the soft thresholds are scaled down, so that the worker reacts earlier.\<close>

definition degraded_factor :: "config \<Rightarrow> flt" where
  "degraded_factor c = fsub 1 (fdiv (of_int_f (tel_degraded_margin_pct (cf_telemetry c))) 100)"

definition new_eval :: "tzdb \<Rightarrow> snapshot \<Rightarrow> config \<Rightarrow> eval_ctx" where
  "new_eval tz s c =
     (let m = (if mf_mode (ss_mode s) = OtherMode '''' then ModeAuto else mf_mode (ss_mode s));
          (name, source) = (if m = ModeAIPriority then (cf_ai_priority_profile c, SrcAIPriority)
                            else active tz c (ss_now s));
          pt = (if m = ModeAIPriority then TierAIPriority
                else if is_schedule source then TierSchedule else TierDefault);
          p = (case profile_find c name of Some p \<Rightarrow> p | None \<Rightarrow> profile_get c (cf_default_profile c));
          degraded = (gf_confidence (ss_gpu s) = ConfidenceDegraded)
      in \<lparr>el_s = s, el_c = c, el_p = p, el_profile_name = name, el_profile_source = source,
          el_profile_tier = pt, el_mode = m, el_running = runtime_running (rf_state (ss_runtime s)),
          el_soft_util = (if degraded then fmul (pf_external_util_soft_pct p) (degraded_factor c)
                          else pf_external_util_soft_pct p),
          el_soft_vram = (if degraded then trunc_f (fmul (of_int_f (pf_external_vram_soft_mib p)) (degraded_factor c))
                          else pf_external_vram_soft_mib p)\<rparr>)"

definition ev :: "string \<Rightarrow> farg \<Rightarrow> farg option \<Rightarrow> string \<Rightarrow> evidence" where
  "ev n v t src = \<lparr>ev_name = n, ev_value = v, ev_threshold = t, ev_source = src\<rparr>"

text \<open>\<open>dur\<close> rounds to a tenth of a second, halves away from zero, and prints.\<close>

definition dur_arg :: "dur \<Rightarrow> farg" where
  "dur_arg d = FDur (sgn d * ((\<bar>d\<bar> + 50 * millisecond) div (100 * millisecond)) * (100 * millisecond))"

definition mode_name :: "mode \<Rightarrow> string" where
  "mode_name m = (case m of ModeAuto \<Rightarrow> ''auto'' | ModePause \<Rightarrow> ''pause''
     | ModeAIPriority \<Rightarrow> ''ai_priority'' | OtherMode s \<Rightarrow> s)"

definition class_name :: "app_class \<Rightarrow> string" where
  "class_name k = (case k of ClassGame \<Rightarrow> ''game'' | ClassLauncher \<Rightarrow> ''launcher''
     | ClassIgnore \<Rightarrow> ''ignore'' | ClassOrdinary \<Rightarrow> ''ordinary'' | OtherClass s \<Rightarrow> s)"

definition telemetry_usable :: "eval_ctx \<Rightarrow> bool" where
  "telemetry_usable e = (gf_confidence (ss_gpu (el_s e)) \<noteq> ConfidenceNone)"

definition app_evidence :: "app_match \<Rightarrow> evidence list" where
  "app_evidence a =
     [ev ''process'' (FStr (am_name a)) None ''process-list'',
      ev ''class'' (FStr (class_name (am_class a))) None (am_rule a)]
     @ (if am_path a \<noteq> '''' then [ev ''path'' (FStr (am_path a)) None ''process-list''] else [])
     @ (if 0 < am_gpu_util_pct a
        then [ev ''process_gpu_util_pct'' (FFlt ''%.0f'' (am_gpu_util_pct a)) None ''pdh''] else [])
     @ (if 0 < am_vram_mib a then [ev ''process_vram_mib'' (FInt (am_vram_mib a)) None ''pdh''] else [])
     @ (if am_foreground a then [ev ''foreground'' (FStr ''true'') None ''agent''] else [])"

definition heavier :: "app_match \<Rightarrow> app_match \<Rightarrow> bool" where
  "heavier a b = (am_gpu_util_pct b < am_gpu_util_pct a \<or>
     am_gpu_util_pct a = am_gpu_util_pct b \<and> am_vram_mib b < am_vram_mib a)"

fun best_app :: "app_match list \<Rightarrow> app_match option \<Rightarrow> app_match option" where
  "best_app [] best = best"
| "best_app (a # as) None = best_app as (Some a)"
| "best_app (a # as) (Some b) = best_app as (Some (if heavier a b then a else b))"

definition top_apps :: "eval_ctx \<Rightarrow> evidence list" where
  "top_apps e = (let p = ss_apps (el_s e) in
     case best_app (af_games p @ af_launcher_children p @ af_ordinary p) None of
       None \<Rightarrow> []
     | Some b \<Rightarrow> (if am_gpu_util_pct b = 0 \<and> am_vram_mib b = 0 then []
         else [ev ''top_external_process''
           (FText (Sprintf ''%s (%.0f%%, %d MiB)''
              [FStr (am_name b), FFlt ''%.0f'' (am_gpu_util_pct b), FInt (am_vram_mib b)]))
           None ''pdh'']))"

subsection \<open>Tier 1: hard safety\<close>

definition temp_match :: "action \<Rightarrow> severity \<Rightarrow> string \<Rightarrow> flt \<Rightarrow> flt \<Rightarrow> rmatch" where
  "temp_match a sev fmt t limit =
     \<lparr>mt_action = a, mt_rule = RuleTemperature, mt_tier = TierSafety, mt_severity = sev,
      mt_reason = Sprintf fmt [FFlt ''%.0f'' t, FFlt ''%.0f'' limit],
      mt_evidence = [ev ''gpu_temperature_c'' (FFlt ''%.1f'' t) (Some (FFlt ''%v'' limit)) ''d3dkmt''],
      mt_competing = False, mt_preempt = False, mt_idle = Cooldown\<rparr>"

definition safety_rules :: "eval_ctx \<Rightarrow> rmatch list" where
  "safety_rules e =
     (let s = el_s e; c = el_c e; g = ss_gpu s;
          safe = (\<lambda>r sev reason evd idle.
            \<lparr>mt_action = ActionPreempt, mt_rule = r, mt_tier = TierSafety, mt_severity = sev,
             mt_reason = reason, mt_evidence = evd, mt_competing = False, mt_preempt = False,
             mt_idle = idle\<rparr>)
      in (if pw_shutting_down (ss_power s)
          then [safe RuleShutdown SeverityNotice (lit ''Service is stopping'') [] Stopped] else [])
       @ (if pw_suspending (ss_power s)
          then [safe RuleSuspend SeverityNotice (lit ''System is going to sleep'') [] Stopped] else [])
       @ (if pw_device_lost (ss_power s)
          then [safe RuleDeviceLost SeverityCritical (lit ''GPU device lost or reset'') [] Error] else [])
       @ (case gf_temperature_c g of
            None \<Rightarrow> []
          | Some t \<Rightarrow>
              (if sf_gpu_temp_critical_c (cf_safety c) \<le> t
               then [temp_match ActionPreempt SeverityCritical
                       ''GPU temperature %.0f C is at or above the %.0f C limit''
                       t (sf_gpu_temp_critical_c (cf_safety c))]
               else if \<not> el_running e \<and> sf_gpu_temp_resume_c (cf_safety c) \<le> t
               then [temp_match ActionHold SeverityWarning
                       ''GPU temperature %.0f C must fall below %.0f C before loading''
                       t (sf_gpu_temp_resume_c (cf_safety c))]
               else []))
       @ (if gf_confidence g = ConfidenceNone \<and> tel_loss_grace (cf_telemetry c) \<le> gf_none_for g
             \<and> (el_running e \<or> rf_setup_problem (ss_runtime s) = '''')
          then [safe RuleTelemetryLost SeverityWarning
                 (lit ''GPU telemetry unavailable; releasing the GPU until it recovers'')
                 [ev ''telemetry_unavailable_for'' (dur_arg (gf_none_for g))
                    (Some (dur_arg (tel_loss_grace (cf_telemetry c)))) ''telemetry''] Error]
          else []))"

subsection \<open>Tier 2: manual pause\<close>

definition pause_rules :: "eval_ctx \<Rightarrow> rmatch list" where
  "pause_rules e = (let s = el_s e in
     if el_mode e = ModePause
     then [\<lparr>mt_action = ActionDrain, mt_rule = RulePause, mt_tier = TierPause,
            mt_severity = SeverityNotice,
            mt_reason = (case mf_until (ss_mode s) of
                None \<Rightarrow> lit ''Paused manually indefinitely''
              | Some u \<Rightarrow> Sprintf ''Paused manually until %s'' [FClock u]),
            mt_evidence = [ev ''mode'' (FStr (mode_name (el_mode e))) None (mf_set_by (ss_mode s))],
            mt_competing = False, mt_preempt = False, mt_idle = Disabled\<rparr>]
     else [])"

subsection \<open>Tier 3: critical external contention\<close>

text \<open>Every rule from here to the profile rules describes a competing workload, counts towards
  anti-thrashing and leaves the worker in \<open>Cooldown\<close>.\<close>

definition competing_match ::
  "action \<Rightarrow> rule \<Rightarrow> tier \<Rightarrow> severity \<Rightarrow> gotext \<Rightarrow> evidence list \<Rightarrow> rmatch" where
  "competing_match a r t sev reason evd =
     \<lparr>mt_action = a, mt_rule = r, mt_tier = t, mt_severity = sev, mt_reason = reason,
      mt_evidence = evd, mt_competing = True, mt_preempt = True, mt_idle = Cooldown\<rparr>"

definition critical_rules :: "eval_ctx \<Rightarrow> rmatch list" where
  "critical_rules e =
     (let g = ss_gpu (el_s e); k = cf_contention (el_c e) in
      if \<not> telemetry_usable e then []
      else
        (if el_running e \<and> 0 < gf_vram_total_mib g
            \<and> gf_vram_free_mib g < ct_vram_free_critical_mib k \<and> 0 < gf_external_vram_growth_mib g
         then [competing_match ActionPreempt RuleCriticalVRAMFree TierCritical SeverityCritical
                (Sprintf ''Free VRAM %d MiB is below %d MiB and another process is allocating''
                   [FInt (gf_vram_free_mib g), FInt (ct_vram_free_critical_mib k)])
                [ev ''vram_free_mib'' (FInt (gf_vram_free_mib g))
                   (Some (FInt (ct_vram_free_critical_mib k))) ''pdh'',
                 ev ''external_vram_growth_mib'' (FInt (gf_external_vram_growth_mib g))
                   (Some (FStr ''> 0'')) ''pdh'']]
         else [])
      @ (if ct_external_vram_critical_mib k \<le> gf_external_vram_mib g
         then [competing_match ActionPreempt RuleCriticalVRAMExt TierCritical SeverityCritical
                (Sprintf ''Other processes are using %d MiB of VRAM (limit %d MiB)''
                   [FInt (gf_external_vram_mib g), FInt (ct_external_vram_critical_mib k)])
                (ev ''external_vram_mib'' (FInt (gf_external_vram_mib g))
                   (Some (FInt (ct_external_vram_critical_mib k))) ''pdh'' # top_apps e)]
         else [])
      @ (if gf_external_util_trusted g \<and> 0 < ct_external_util_critical_pct k
            \<and> 0 < gf_above_critical_for g \<and> ct_critical_window k \<le> gf_above_critical_for g
         then [competing_match ActionPreempt RuleCriticalUtil TierCritical SeverityCritical
                (Sprintf ''External GPU use %.0f%% has exceeded %.0f%% for %s''
                   [FFlt ''%.0f'' (gf_external_util_pct g),
                    FFlt ''%.0f'' (ct_external_util_critical_pct k),
                    dur_arg (gf_above_critical_for g)])
                ([ev ''external_util_pct'' (FFlt ''%.0f'' (gf_external_util_pct g))
                    (Some (FFlt ''%v'' (ct_external_util_critical_pct k))) ''pdh'',
                  ev ''above_critical_for'' (dur_arg (gf_above_critical_for g))
                    (Some (dur_arg (ct_critical_window k))) ''pdh''] @ top_apps e)]
         else []))"

subsection \<open>Tier 4: confirmed gaming or strong interactive demand\<close>

definition game_confirmation :: "eval_ctx \<Rightarrow> app_match \<Rightarrow> gotext option" where
  "game_confirmation e a =
     (if am_foreground a \<and> sn_fullscreen (ss_session (el_s e))
      then Some (lit ''fullscreen in the foreground'')
      else if am_foreground a then Some (lit ''in the foreground'')
      else if am_fullscreen a then Some (lit ''fullscreen'')
      else if pf_game_confirm_util_pct (el_p e) \<le> am_gpu_util_pct a
      then Some (Sprintf ''GPU use %.0f%%'' [FFlt ''%.0f'' (am_gpu_util_pct a)])
      else if pf_game_confirm_vram_mib (el_p e) \<le> am_vram_mib a
      then Some (Sprintf ''%d MiB VRAM'' [FInt (am_vram_mib a)])
      else if gf_confidence (ss_gpu (el_s e)) \<noteq> ConfidenceHigh
      then Some (lit ''GPU attribution unavailable'')
      else None)"

fun game_rules :: "eval_ctx \<Rightarrow> app_match list \<Rightarrow> rmatch list" where
  "game_rules e [] = []"
| "game_rules e (a # as) = (case game_confirmation e a of
      None \<Rightarrow> game_rules e as
    | Some why \<Rightarrow> [competing_match ActionDrain RuleGameConfirmed TierGaming SeverityWarning
        (Sprintf ''Game %s is running (%s)'' [FStr (am_name a), FText why]) (app_evidence a)])"

fun launcher_child_rules :: "eval_ctx \<Rightarrow> app_match list \<Rightarrow> rmatch list" where
  "launcher_child_rules e [] = []"
| "launcher_child_rules e (a # as) =
     (if am_foreground a \<or> am_fullscreen a \<or> pf_game_confirm_vram_mib (el_p e) \<le> am_vram_mib a
      then [competing_match ActionDrain RuleLauncherChildGPU TierGaming SeverityWarning
        (Sprintf ''%s was started by launcher %s and is using the GPU''
           [FStr (am_name a), FStr (am_parent_name a)]) (app_evidence a)]
      else launcher_child_rules e as)"

definition unclassified_fullscreen :: "session_facts \<Rightarrow> bool" where
  "unclassified_fullscreen n =
     (sn_known n \<and> \<not> sn_locked n \<and> sn_fullscreen n \<and> sn_foreground_class n = no_class)"

definition fullscreen_rules :: "eval_ctx \<Rightarrow> rmatch list" where
  "fullscreen_rules e = (let n = ss_session (el_s e); g = ss_gpu (el_s e) in
     if unclassified_fullscreen n \<and> gf_external_util_trusted g
        \<and> el_soft_util e \<le> gf_external_util_pct g
     then [competing_match ActionDrain RuleFullscreenGPU TierGaming SeverityWarning
        (Sprintf ''Unclassified fullscreen app %s with external GPU use %.0f%%''
           [FStr (sn_foreground_name n), FFlt ''%.0f'' (gf_external_util_pct g)])
        [ev ''foreground'' (FStr (sn_foreground_name n)) None ''agent'',
         ev ''fullscreen'' (FStr ''true'') None ''agent'',
         ev ''external_util_pct'' (FFlt ''%.0f'' (gf_external_util_pct g))
           (Some (FFlt ''%v'' (el_soft_util e))) ''pdh'']]
     else [])"

definition gaming_rules :: "eval_ctx \<Rightarrow> rmatch list" where
  "gaming_rules e = (let p = ss_apps (el_s e) in
     game_rules e (af_games p) @ launcher_child_rules e (af_launcher_children p)
     @ fullscreen_rules e)"

subsection \<open>Tiers 5 to 7: the active profile's rules\<close>

definition util_was_competing :: "eval_ctx \<Rightarrow> bool" where
  "util_was_competing e = (case tm_last_competing_rule (ss_timers (el_s e)) of
      RuleSoftContention \<Rightarrow> True | RuleCriticalUtil \<Rightarrow> True | RuleFullscreenGPU \<Rightarrow> True
    | _ \<Rightarrow> False)"

text \<open>The reasons of a soft contention match, joined with ''; '', are the arguments of its text.\<close>

definition soft_contention :: "eval_ctx \<Rightarrow> rmatch option" where
  "soft_contention e =
     (let g = ss_gpu (el_s e); p = el_p e; cw = ct_clear_window (cf_contention (el_c e));
          (why1, evd1) =
            (if gf_external_util_trusted g \<and> 0 < gf_above_soft_for g
                \<and> pf_soft_window p \<le> gf_above_soft_for g
             then ([FText (Sprintf ''external GPU use %.0f%% above %.0f%% for %s''
                      [FFlt ''%.0f'' (gf_external_util_pct g), FFlt ''%.0f'' (el_soft_util e),
                       dur_arg (gf_above_soft_for g)])],
                   [ev ''external_util_pct'' (FFlt ''%.0f'' (gf_external_util_pct g))
                      (Some (FFlt ''%.0f'' (el_soft_util e))) ''pdh'',
                    ev ''above_soft_for'' (dur_arg (gf_above_soft_for g))
                      (Some (dur_arg (pf_soft_window p))) ''pdh''])
             else if \<not> el_running e \<and> gf_external_util_trusted g \<and> gf_below_soft_for g < cw
                \<and> util_was_competing e
             then ([FText (Sprintf ''external GPU use below %.0f%% for only %s''
                      [FFlt ''%.0f'' (el_soft_util e), dur_arg (gf_below_soft_for g)])],
                   [ev ''below_soft_for'' (dur_arg (gf_below_soft_for g)) (Some (dur_arg cw)) ''pdh''])
             else ([], []));
          (why2, evd2) =
            (if el_soft_vram e \<le> gf_external_vram_mib g
             then ([FText (Sprintf ''external VRAM %d MiB at or above %d MiB''
                      [FInt (gf_external_vram_mib g), FInt (el_soft_vram e)])],
                   [ev ''external_vram_mib'' (FInt (gf_external_vram_mib g))
                      (Some (FInt (el_soft_vram e))) ''pdh''])
             else ([], []));
          why = why1 @ why2;
          evd3 = (if gf_confidence g = ConfidenceDegraded
                  then [ev ''telemetry_confidence'' (FStr ''degraded'') None ''telemetry''] else [])
      in if why = [] then None
         else Some (competing_match ActionDrain RuleSoftContention 0 SeverityNotice
           (Sprintf ''Competing GPU workload: '' why) (evd1 @ evd2 @ evd3 @ top_apps e)))"

definition profile_rules :: "eval_ctx \<Rightarrow> rmatch list" where
  "profile_rules e =
     (let p = el_p e; apps = ss_apps (el_s e); n = ss_session (el_s e); pt = el_profile_tier e;
          drain = (\<lambda>r. competing_match ActionDrain r pt SeverityNotice)
      in (case af_games apps of
            a # _ \<Rightarrow> (if pf_drain_on_game_process p
              then [drain RuleGameProcess
                     (Sprintf ''Game %s started (early warning)'' [FStr (am_name a)]) (app_evidence a)]
              else [])
          | [] \<Rightarrow> [])
       @ (if pf_drain_on_ambiguous p then
            (if unclassified_fullscreen n
             then [drain RuleAmbiguous
                    (Sprintf ''Unclassified fullscreen app %s in the foreground''
                       [FStr (sn_foreground_name n)])
                    [ev ''foreground'' (FStr (sn_foreground_name n)) None ''agent'',
                     ev ''fullscreen'' (FStr ''true'') None ''agent'']]
             else (case af_launcher_children apps of
                 a # _ \<Rightarrow> [drain RuleAmbiguous
                    (Sprintf ''%s started by launcher %s is using the GPU''
                       [FStr (am_name a), FStr (am_parent_name a)]) (app_evidence a)]
               | [] \<Rightarrow> []))
          else [])
       @ (if pf_drain_on_soft_contention p \<and> telemetry_usable e
          then (case soft_contention e of Some m \<Rightarrow> [m\<lparr>mt_tier := pt\<rparr>] | None \<Rightarrow> [])
          else []))"

definition yield_rules :: "eval_ctx \<Rightarrow> rmatch list" where
  "yield_rules e =
     safety_rules e @ pause_rules e @ critical_rules e @ gaming_rules e @ profile_rules e"

subsection \<open>Load eligibility and timers\<close>

definition cooldown_end :: "eval_ctx \<Rightarrow> time" where
  "cooldown_end e = (let t = tm_last_competing_at (ss_timers (el_s e)) in
     if t = 0 then 0 else t + pf_cooldown (el_p e))"

definition suppress_end :: "eval_ctx \<Rightarrow> time" where
  "suppress_end e = (let t = tm_suppressed_at (ss_timers (el_s e)) in
     if t = 0 then 0 else t + at_suppress_for (cf_anti_thrash (el_c e)))"

definition recovery_idle :: "string \<Rightarrow> state" where
  "recovery_idle r =
     (if list_ex (has_prefix r) [''crash'', ''device'', ''telemetry'', ''kill'', ''GPU'']
      then Error else Cooldown)"

definition hold_match ::
  "rule \<Rightarrow> severity \<Rightarrow> gotext \<Rightarrow> evidence list \<Rightarrow> state \<Rightarrow> rmatch" where
  "hold_match r sev reason evd idle =
     \<lparr>mt_action = ActionHold, mt_rule = r, mt_tier = TierEligibility, mt_severity = sev,
      mt_reason = reason, mt_evidence = evd, mt_competing = False, mt_preempt = False,
      mt_idle = idle\<rparr>"

definition eligibility :: "eval_ctx \<Rightarrow> rmatch option" where
  "eligibility e =
     (let s = el_s e; c = el_c e; now = ss_now s; t = ss_timers s;
          setup = rf_setup_problem (ss_runtime s); need = rt_required_free_vram_mib (cf_runtime c);
          free = gf_vram_free_mib (ss_gpu s)
      in
      if setup \<noteq> '''' then
        Some (hold_match RuleSetupRequired SeverityWarning
          (Sprintf ''Setup required: %s'' [FStr setup])
          [ev ''setup_problem'' (FStr setup) None ''runtime''] Stopped)
      else if tm_recovery_until t \<noteq> 0 \<and> now < tm_recovery_until t then
        Some (hold_match RuleRecovery SeverityInfo
          (Sprintf ''Recovery wait (%s) until %s''
             [FStr (tm_recovery_reason t), FClock (tm_recovery_until t)])
          [ev ''recovery_reason'' (FStr (tm_recovery_reason t)) None ''timer'',
           ev ''recovery_until'' (FClock (tm_recovery_until t)) None ''timer'']
          (recovery_idle (tm_recovery_reason t)))
      else if suppress_end e \<noteq> 0 \<and> now < suppress_end e then
        Some (hold_match RuleSuppressed SeverityNotice
          (Sprintf ''Reload suppressed after %d preemptions within %s, until %s''
             [FInt (at_max_preemptions (cf_anti_thrash c)), FDur (at_window (cf_anti_thrash c)),
              FClock (suppress_end e)])
          [ev ''suppressed_at'' (FClock (tm_suppressed_at t)) None ''timer'',
           ev ''suppressed_until'' (FClock (suppress_end e)) None ''timer''] Suppressed)
      else if cooldown_end e \<noteq> 0 \<and> now < cooldown_end e then
        Some (hold_match RuleCooldown SeverityInfo
          (Sprintf ''Cooling down after %s; %s cooldown (%s profile) ends %s''
             [FStr (rule_id (tm_last_competing_rule t)), FDur (pf_cooldown (el_p e)),
              FStr (el_profile_name e), FClock (cooldown_end e)])
          [ev ''last_competing_at'' (FClock (tm_last_competing_at t)) None ''timer'',
           ev ''last_competing_rule'' (FStr (rule_id (tm_last_competing_rule t))) None ''timer'',
           ev ''cooldown'' (FDur (pf_cooldown (el_p e))) None (''profile:'' @ el_profile_name e)]
          Cooldown)
      else if \<not> telemetry_usable e then
        Some (hold_match RuleNoTelemetry SeverityWarning
          (lit ''Waiting for GPU telemetry before loading'') [] Stopped)
      else if \<not> af_process_list_ok (ss_apps s) then
        Some (hold_match RuleNoProcessList SeverityWarning
          (lit ''Process list unavailable; cannot rule out a running game'') [] Stopped)
      else if 0 < need \<and> free < need then
        Some (hold_match RuleVRAMInsufficient SeverityInfo
          (Sprintf ''Free VRAM %d MiB is below the %d MiB the model needs'' [FInt free, FInt need])
          (ev ''vram_free_mib'' (FInt free) (Some (FInt need)) ''pdh'' # top_apps e) Stopped)
      else None)"

definition run_match :: "eval_ctx \<Rightarrow> rmatch" where
  "run_match e =
     \<lparr>mt_action = ActionRun,
      mt_rule = (if el_mode e = ModeAIPriority then RuleAIPriorityRun else RuleRun),
      mt_tier = el_profile_tier e, mt_severity = SeverityInfo,
      mt_reason = (if el_mode e = ModeAIPriority
        then (case mf_until (ss_mode (el_s e)) of
            None \<Rightarrow> lit ''AI Priority: GPU available under the permissive profile''
          | Some u \<Rightarrow> Sprintf ''AI Priority: GPU available under the permissive profile until %s''
              [FClock u])
        else Sprintf ''GPU available (%s profile)'' [FStr (el_profile_name e)]),
      mt_evidence = [], mt_competing = False, mt_preempt = False, mt_idle = Stopped\<rparr>"

fun latest_after :: "time \<Rightarrow> time list \<Rightarrow> time \<Rightarrow> time" where
  "latest_after now [] next_t = next_t"
| "latest_after now (t # ts) next_t =
     latest_after now ts (if now < t \<and> next_t < t then t else next_t)"

definition next_load_at :: "eval_ctx \<Rightarrow> rmatch \<Rightarrow> time" where
  "next_load_at e w =
     (if mt_competing w then 0
      else let timers = [tm_recovery_until (ss_timers (el_s e)), suppress_end e, cooldown_end e] in
        if mt_rule w = RulePause
        then (case mf_until (ss_mode (el_s e)) of
            None \<Rightarrow> 0
          | Some u \<Rightarrow> latest_after (ss_now (el_s e)) (timers @ [u]) 0)
        else latest_after (ss_now (el_s e)) timers 0)"

definition pressure :: "eval_ctx \<Rightarrow> bool" where
  "pressure e = (let g = ss_gpu (el_s e) in
     telemetry_usable e \<and> (gf_external_util_trusted g \<and> el_soft_util e \<le> gf_external_util_pct g
        \<or> el_soft_vram e \<le> gf_external_vram_mib g))"

definition grace :: "eval_ctx \<Rightarrow> dur" where
  "grace e = (if pressure e then pf_grace_under_pressure (el_p e) else pf_grace (el_p e))"

fun count_recent :: "time \<Rightarrow> dur \<Rightarrow> time list \<Rightarrow> int \<Rightarrow> int" where
  "count_recent now w [] n = n"
| "count_recent now w (t # ts) n =
     count_recent now w ts (if \<not> now < t \<and> t_sub now t \<le> w then n + 1 else n)"

definition would_suppress :: "eval_ctx \<Rightarrow> bool" where
  "would_suppress e = (let a = cf_anti_thrash (el_c e) in
     at_max_preemptions a \<le>
       count_recent (ss_now (el_s e)) (at_window a) (tm_preemptions (ss_timers (el_s e))) 1)"

subsection \<open>Evaluate\<close>

definition winner :: "eval_ctx \<Rightarrow> rmatch" where
  "winner e = (case yield_rules e of
      m # _ \<Rightarrow> m
    | [] \<Rightarrow> (if el_running e then run_match e
            else (case eligibility e of Some g \<Rightarrow> g | None \<Rightarrow> run_match e)))"

definition evaluate :: "tzdb \<Rightarrow> snapshot \<Rightarrow> config \<Rightarrow> decision" where
  "evaluate tz s c =
     (let e = new_eval tz s c; matches = yield_rules e; w = winner e;
          act = (if \<not> el_running e \<and> yields (mt_action w) then ActionHold else mt_action w);
          counts = (el_running e \<and> yields act \<and> mt_preempt w);
          idle = (if mt_idle w = no_state then Stopped else mt_idle w)
      in \<lparr>de_action = act, de_rule = mt_rule w, de_tier = mt_tier w, de_severity = mt_severity w,
          de_reason = mt_reason w, de_evidence = mt_evidence w, de_profile = el_profile_name e,
          de_profile_source = el_profile_source e, de_mode = el_mode e,
          de_grace = (if act = ActionDrain then grace e else 0),
          de_competing = mt_competing w, de_counts_as_preemption = counts,
          de_suppress = (counts \<and> would_suppress e),
          de_idle_state = (if suppress_end e \<noteq> 0 \<and> ss_now s < suppress_end e \<and> idle = Cooldown
                           then Suppressed else idle),
          de_next_load_at = next_load_at e w,
          de_also_matched = map mt_rule (filter (\<lambda>m. mt_rule m \<noteq> mt_rule w) matches)\<rparr>)"

lemmas rule_list_defs = safety_rules_def pause_rules_def critical_rules_def gaming_rules_def
  fullscreen_rules_def profile_rules_def temp_match_def competing_match_def Let_def

subsection \<open>Conditions of the rule groups\<close>

text \<open>What each group of rules looks for, without the messages and evidence it reports.\<close>

definition overheated :: "eval_ctx \<Rightarrow> bool" where
  "overheated e = (case gf_temperature_c (ss_gpu (el_s e)) of
      None \<Rightarrow> False | Some t \<Rightarrow> sf_gpu_temp_critical_c (cf_safety (el_c e)) \<le> t)"

definition too_warm_to_load :: "eval_ctx \<Rightarrow> bool" where
  "too_warm_to_load e = (case gf_temperature_c (ss_gpu (el_s e)) of
      None \<Rightarrow> False
    | Some t \<Rightarrow> sf_gpu_temp_critical_c (cf_safety (el_c e)) \<le> t
        \<or> sf_gpu_temp_resume_c (cf_safety (el_c e)) \<le> t)"

definition telemetry_lost :: "eval_ctx \<Rightarrow> bool" where
  "telemetry_lost e = (gf_confidence (ss_gpu (el_s e)) = ConfidenceNone \<and>
     tel_loss_grace (cf_telemetry (el_c e)) \<le> gf_none_for (ss_gpu (el_s e)) \<and>
     (el_running e \<or> rf_setup_problem (ss_runtime (el_s e)) = ''''))"

definition power_event :: "power_facts \<Rightarrow> bool" where
  "power_event p = (pw_shutting_down p \<or> pw_suspending p \<or> pw_device_lost p)"

definition safety_fault :: "eval_ctx \<Rightarrow> bool" where
  "safety_fault e = (power_event (ss_power (el_s e)) \<or> overheated e \<or> telemetry_lost e)"

definition critical_contention :: "eval_ctx \<Rightarrow> bool" where
  "critical_contention e = (let g = ss_gpu (el_s e); k = cf_contention (el_c e) in
     telemetry_usable e \<and>
     (el_running e \<and> 0 < gf_vram_total_mib g \<and> gf_vram_free_mib g < ct_vram_free_critical_mib k
        \<and> 0 < gf_external_vram_growth_mib g
      \<or> ct_external_vram_critical_mib k \<le> gf_external_vram_mib g
      \<or> gf_external_util_trusted g \<and> 0 < ct_external_util_critical_pct k
        \<and> 0 < gf_above_critical_for g \<and> ct_critical_window k \<le> gf_above_critical_for g))"

definition confirmed_game :: "eval_ctx \<Rightarrow> app_match \<Rightarrow> bool" where
  "confirmed_game e a = (am_foreground a \<or> am_fullscreen a
     \<or> pf_game_confirm_util_pct (el_p e) \<le> am_gpu_util_pct a
     \<or> pf_game_confirm_vram_mib (el_p e) \<le> am_vram_mib a
     \<or> gf_confidence (ss_gpu (el_s e)) \<noteq> ConfidenceHigh)"

definition likely_game :: "eval_ctx \<Rightarrow> app_match \<Rightarrow> bool" where
  "likely_game e a = (am_foreground a \<or> am_fullscreen a
     \<or> pf_game_confirm_vram_mib (el_p e) \<le> am_vram_mib a)"

definition gaming :: "eval_ctx \<Rightarrow> bool" where
  "gaming e = (list_ex (confirmed_game e) (af_games (ss_apps (el_s e)))
     \<or> list_ex (likely_game e) (af_launcher_children (ss_apps (el_s e)))
     \<or> unclassified_fullscreen (ss_session (el_s e)) \<and> gf_external_util_trusted (ss_gpu (el_s e))
       \<and> el_soft_util e \<le> gf_external_util_pct (ss_gpu (el_s e)))"

definition soft_pressure :: "eval_ctx \<Rightarrow> bool" where
  "soft_pressure e = (let g = ss_gpu (el_s e) in
     gf_external_util_trusted g \<and> 0 < gf_above_soft_for g
        \<and> pf_soft_window (el_p e) \<le> gf_above_soft_for g
     \<or> \<not> el_running e \<and> gf_external_util_trusted g
        \<and> gf_below_soft_for g < ct_clear_window (cf_contention (el_c e)) \<and> util_was_competing e
     \<or> el_soft_vram e \<le> gf_external_vram_mib g)"

definition profile_demand :: "eval_ctx \<Rightarrow> bool" where
  "profile_demand e = (let p = el_p e; apps = ss_apps (el_s e) in
     pf_drain_on_game_process p \<and> af_games apps \<noteq> []
     \<or> pf_drain_on_ambiguous p
       \<and> (unclassified_fullscreen (ss_session (el_s e)) \<or> af_launcher_children apps \<noteq> [])
     \<or> pf_drain_on_soft_contention p \<and> telemetry_usable e \<and> soft_pressure e)"

text \<open>The abstract verdict: which of the four actions the conditions call for.\<close>

definition spec_running :: "eval_ctx \<Rightarrow> action" where
  "spec_running e =
     (if safety_fault e then ActionPreempt
      else if el_mode e = ModePause then ActionDrain
      else if critical_contention e then ActionPreempt
      else if gaming e \<or> profile_demand e then ActionDrain
      else ActionRun)"

definition timers_clear :: "eval_ctx \<Rightarrow> time \<Rightarrow> bool" where
  "timers_clear e now = (tm_recovery_until (ss_timers (el_s e)) \<le> now \<and> suppress_end e \<le> now
     \<and> cooldown_end e \<le> now)"

definition may_load :: "eval_ctx \<Rightarrow> bool" where
  "may_load e = (let s = el_s e; need = rt_required_free_vram_mib (cf_runtime (el_c e)) in
     \<not> power_event (ss_power s) \<and> \<not> too_warm_to_load e \<and> el_mode e \<noteq> ModePause
     \<and> \<not> critical_contention e \<and> \<not> gaming e \<and> \<not> profile_demand e
     \<and> rf_setup_problem (ss_runtime s) = '''' \<and> timers_clear e (ss_now s)
     \<and> telemetry_usable e \<and> af_process_list_ok (ss_apps s)
     \<and> (0 < need \<longrightarrow> need \<le> gf_vram_free_mib (ss_gpu s)))"

subsection \<open>The rule groups implement their conditions\<close>

lemma new_eval_simps [simp]:
  "el_s (new_eval tz s c) = s" "el_c (new_eval tz s c) = c"
  "el_running (new_eval tz s c) = runtime_running (rf_state (ss_runtime s))"
  by (auto simp: new_eval_def Let_def split: prod.splits)

lemma safety_rules_empty:
  "safety_rules e = [] \<longleftrightarrow> \<not> safety_fault e \<and> (el_running e \<or> \<not> too_warm_to_load e)"
  by (auto simp: safety_rules_def Let_def safety_fault_def power_event_def overheated_def
      too_warm_to_load_def telemetry_lost_def split: option.splits)

lemma safety_rules_running:
  "el_running e \<Longrightarrow> m \<in> set (safety_rules e) \<Longrightarrow> mt_action m = ActionPreempt"
  by (auto simp: rule_list_defs split: option.splits if_splits)

lemma critical_rules_empty: "critical_rules e = [] \<longleftrightarrow> \<not> critical_contention e"
  by (auto simp: critical_rules_def critical_contention_def Let_def)

lemma game_confirmation_None: "game_confirmation e a = None \<longleftrightarrow> \<not> confirmed_game e a"
  by (auto simp: game_confirmation_def confirmed_game_def)

lemma game_rules_empty: "game_rules e as = [] \<longleftrightarrow> \<not> list_ex (confirmed_game e) as"
proof (induction as)
  case (Cons a as)
  then show ?case
    using game_confirmation_None [of e a] by (cases "game_confirmation e a") auto
qed simp

lemma launcher_child_rules_empty:
  "launcher_child_rules e as = [] \<longleftrightarrow> \<not> list_ex (likely_game e) as"
  by (induction as) (auto simp: likely_game_def)

lemma gaming_rules_empty: "gaming_rules e = [] \<longleftrightarrow> \<not> gaming e"
  by (auto simp: gaming_rules_def gaming_def Let_def game_rules_empty launcher_child_rules_empty
      fullscreen_rules_def)

lemma soft_contention_None: "soft_contention e = None \<longleftrightarrow> \<not> soft_pressure e"
  by (auto simp: soft_contention_def soft_pressure_def Let_def)

lemma profile_rules_empty: "profile_rules e = [] \<longleftrightarrow> \<not> profile_demand e"
  using soft_contention_None [of e]
  by (auto simp: profile_rules_def profile_demand_def Let_def split: list.splits option.splits)

lemmas rules_empty = safety_rules_empty critical_rules_empty gaming_rules_empty profile_rules_empty

text \<open>Every match of a group has the group's tier, and the groups past the pause drain or preempt
  for a competing workload.\<close>

lemma game_rules_form: "m \<in> set (game_rules e as) \<Longrightarrow>
    \<exists>r ev. m = competing_match ActionDrain RuleGameConfirmed TierGaming SeverityWarning r ev"
  by (induction as) (auto split: option.splits)

lemma launcher_child_rules_form: "m \<in> set (launcher_child_rules e as) \<Longrightarrow>
    \<exists>r ev. m = competing_match ActionDrain RuleLauncherChildGPU TierGaming SeverityWarning r ev"
  by (induction as) (auto split: if_splits)

lemma safety_rules_form: "m \<in> set (safety_rules e) \<Longrightarrow>
    mt_tier m = TierSafety \<and> \<not> mt_competing m \<and> \<not> mt_preempt m \<and> mt_idle m \<in> set idle_states
    \<and> mt_rule m \<noteq> RulePause \<and> mt_idle m \<noteq> Disabled
    \<and> mt_action m \<in> {ActionHold, ActionPreempt}"
  by (auto simp: rule_list_defs idle_states_def split: option.splits if_splits)

lemma pause_rules_form: "m \<in> set (pause_rules e) \<Longrightarrow>
    mt_tier m = TierPause \<and> \<not> mt_competing m \<and> \<not> mt_preempt m \<and> mt_idle m = Disabled
    \<and> mt_rule m = RulePause \<and> mt_action m = ActionDrain \<and> el_mode e = ModePause"
  by (auto simp: pause_rules_def Let_def split: if_splits)

definition competing_form :: "rmatch \<Rightarrow> bool" where
  "competing_form m = (mt_competing m \<and> mt_preempt m \<and> mt_idle m = Cooldown
     \<and> mt_rule m \<noteq> RulePause)"

lemma critical_rules_form: "m \<in> set (critical_rules e) \<Longrightarrow>
    mt_tier m = TierCritical \<and> competing_form m \<and> mt_action m = ActionPreempt"
  by (auto simp: rule_list_defs competing_form_def split: if_splits)

lemma gaming_rules_form: "m \<in> set (gaming_rules e) \<Longrightarrow>
    mt_tier m = TierGaming \<and> competing_form m \<and> mt_action m = ActionDrain"
  by (auto simp: gaming_rules_def Let_def fullscreen_rules_def competing_match_def
      competing_form_def split: if_splits dest!: game_rules_form launcher_child_rules_form)

lemma soft_contention_form: "soft_contention e = Some m \<Longrightarrow>
    competing_form m \<and> mt_action m = ActionDrain"
  by (auto simp: soft_contention_def Let_def competing_match_def competing_form_def
      split: if_splits)



lemma set_retiered: "m \<in> set (if b then case opt of Some z \<Rightarrow> [z\<lparr>mt_tier := x\<rparr>] | None \<Rightarrow> [] else []) \<Longrightarrow>
    \<exists>m'. opt = Some m' \<and> m = m'\<lparr>mt_tier := x\<rparr>"
  by (cases opt; cases b) simp_all

lemma profile_rules_form: "m \<in> set (profile_rules e) \<Longrightarrow>
    mt_tier m = el_profile_tier e \<and> competing_form m \<and> mt_action m = ActionDrain"
  unfolding profile_rules_def Let_def set_append Un_iff
proof (elim disjE, goal_cases)
  case 1
  then show ?case by (auto simp: competing_match_def competing_form_def split: if_splits list.splits)
next
  case 2
  then show ?case by (auto simp: competing_match_def competing_form_def split: if_splits list.splits)
next
  case 3
  then obtain m' where "soft_contention e = Some m'" "m = m'\<lparr>mt_tier := el_profile_tier e\<rparr>"
    using set_retiered by blast
  then show ?case
    using soft_contention_form [of e m'] by (simp add: competing_form_def)
qed
lemmas rules_form = safety_rules_form pause_rules_form critical_rules_form gaming_rules_form
  profile_rules_form

lemma pause_rules_empty: "pause_rules e = [] \<longleftrightarrow> el_mode e \<noteq> ModePause"
  by (simp add: pause_rules_def Let_def)

lemma yield_rules_empty:
  "yield_rules e = [] \<longleftrightarrow> \<not> safety_fault e \<and> (el_running e \<or> \<not> too_warm_to_load e)
     \<and> el_mode e \<noteq> ModePause \<and> \<not> critical_contention e \<and> \<not> gaming e \<and> \<not> profile_demand e"
  by (auto simp: yield_rules_def rules_empty pause_rules_empty)

lemma profile_tier_ge: "TierGaming < el_profile_tier (new_eval tz s c)"
  by (simp add: new_eval_def Let_def split: prod.splits)

lemma sorted_const: "(\<And>m. m \<in> set ms \<Longrightarrow> f m = (k :: nat)) \<Longrightarrow> sorted (map f ms)"
  by (induction ms) auto

lemma yield_rules_sorted: "sorted (map mt_tier (yield_rules (new_eval tz s c)))"
proof -
  let ?e = "new_eval tz s c"
  have 1: "sorted (map mt_tier (safety_rules ?e))" using safety_rules_form by (intro sorted_const) auto
  have 2: "sorted (map mt_tier (pause_rules ?e))" using pause_rules_form by (intro sorted_const) auto
  have 3: "sorted (map mt_tier (critical_rules ?e))" using critical_rules_form by (intro sorted_const) auto
  have 4: "sorted (map mt_tier (gaming_rules ?e))" using gaming_rules_form by (intro sorted_const) auto
  have 5: "sorted (map mt_tier (profile_rules ?e))" using profile_rules_form by (intro sorted_const) auto
  show ?thesis
    unfolding yield_rules_def map_append sorted_append
    using 1 2 3 4 5 profile_tier_ge [of tz s c]
    by (auto dest!: rules_form)
qed

lemma hd_yield_rules: "yield_rules e = m # ms \<Longrightarrow>
   m \<in> set (safety_rules e) \<or>
   safety_rules e = [] \<and> m \<in> set (pause_rules e) \<or>
   safety_rules e = [] \<and> pause_rules e = [] \<and> m \<in> set (critical_rules e) \<or>
   safety_rules e = [] \<and> pause_rules e = [] \<and> critical_rules e = [] \<and> m \<in> set (gaming_rules e) \<or>
   safety_rules e = [] \<and> pause_rules e = [] \<and> critical_rules e = [] \<and> gaming_rules e = []
     \<and> m \<in> set (profile_rules e)"
  unfolding yield_rules_def append_eq_Cons_conv by auto

subsection \<open>Concrete snapshots\<close>

text \<open>A quiet machine: nothing competes, telemetry is trusted, no timer runs.\<close>

definition quiet_snapshot :: "time \<Rightarrow> state \<Rightarrow> snapshot" where
  "quiet_snapshot now st =
     \<lparr>ss_now = now, ss_mode = \<lparr>mf_mode = ModeAuto, mf_until = None, mf_set_by = ''''\<rparr>,
      ss_runtime = \<lparr>rf_state = st, rf_pid = 0, rf_active_requests = 0, rf_oldest_request_age = 0,
        rf_draining_since = 0, rf_footprint_mib = 0, rf_setup_problem = ''''\<rparr>,
      ss_gpu = zero_gpu\<lparr>gf_confidence := ConfidenceHigh, gf_vram_total_mib := 16384,
        gf_vram_free_mib := 15000, gf_external_util_trusted := True\<rparr>,
      ss_apps = zero_apps\<lparr>af_process_list_ok := True\<rparr>, ss_session = zero_session,
      ss_power = \<lparr>pw_suspending = False, pw_shutting_down = False, pw_device_lost = False\<rparr>,
      ss_timers = zero_timers\<rparr>"

definition no_zones :: tzdb where
  "no_zones n = None"

subsection \<open>Precedence\<close>

text \<open>Precedence: the rule a decision names is a match of the highest precedence (lowest tier
  number), and every other rule that matched is listed as also matched.\<close>

theorem evaluate_precedence:
  assumes d: "d = evaluate tz s c" and m: "m \<in> set (yield_rules (new_eval tz s c))"
  shows "de_tier d \<le> mt_tier m \<and>
    (mt_rule m = de_rule d \<or> mt_rule m \<in> set (de_also_matched d)) \<and>
    (\<exists>w \<in> set (yield_rules (new_eval tz s c)). de_rule d = mt_rule w \<and> de_tier d = mt_tier w)"
proof -
  let ?e = "new_eval tz s c"
  obtain w ms where y: "yield_rules ?e = w # ms" using m by (cases "yield_rules ?e") auto
  then have w: "winner ?e = w" by (simp add: winner_def)
  have "mt_tier w \<le> mt_tier m"
    using yield_rules_sorted [of tz s c] m y by auto
  then show ?thesis
    using m y by (auto simp: d evaluate_def Let_def w)
qed

definition two_faults :: snapshot where
  "two_faults = (let s = quiet_snapshot 5 Busy in
     s\<lparr>ss_mode := \<lparr>mf_mode = ModePause, mf_until = Some 9, mf_set_by = ''tray''\<rparr>,
       ss_power := \<lparr>pw_suspending = True, pw_shutting_down = False, pw_device_lost = True\<rparr>\<rparr>)"

theorem evaluate_precedence_witness:
  "de_tier (evaluate no_zones two_faults bare_config)
     \<le> mt_tier (last (yield_rules (new_eval no_zones two_faults bare_config)))"
proof -
  have "yield_rules (new_eval no_zones two_faults bare_config) \<noteq> []" by code_simp
  then have "last (yield_rules (new_eval no_zones two_faults bare_config))
      \<in> set (yield_rules (new_eval no_zones two_faults bare_config))" by (rule last_in_set)
  from evaluate_precedence [OF refl this] show ?thesis by blast
qed

subsection \<open>The verdict\<close>

lemma in_rules_nonempty: "m \<in> set (safety_rules e) \<Longrightarrow> el_running e \<Longrightarrow> safety_fault e"
  "m \<in> set (critical_rules e) \<Longrightarrow> critical_contention e"
  "m \<in> set (gaming_rules e) \<Longrightarrow> gaming e"
  "m \<in> set (profile_rules e) \<Longrightarrow> profile_demand e"
  using safety_rules_empty [of e] critical_rules_empty [of e] gaming_rules_empty [of e]
    profile_rules_empty [of e] by force+

lemma winner_Nil: "yield_rules e = [] \<Longrightarrow> winner e = (if el_running e then run_match e
     else (case eligibility e of Some g \<Rightarrow> g | None \<Rightarrow> run_match e))"
  by (simp add: winner_def)

lemma winner_Cons: "yield_rules e = m # ms \<Longrightarrow> winner e = m"
  by (simp add: winner_def)

lemma winner_running:
  assumes run: "el_running e"
  shows "mt_action (winner e) = spec_running e"
proof (cases "yield_rules e")
  case Nil
  with run show ?thesis
    using yield_rules_empty [of e] by (simp add: winner_Nil run_match_def spec_running_def)
next
  case (Cons m ms)
  note w = winner_Cons [OF Cons]
  from hd_yield_rules [OF Cons] show ?thesis
  proof (elim disjE conjE)
    assume "m \<in> set (safety_rules e)"
    then show ?thesis
      using run safety_rules_running [of e m] in_rules_nonempty(1)
      by (simp add: w spec_running_def)
  qed (use run rules_form(2-) [of m e] in_rules_nonempty(2-) [of m e] in
      \<open>simp_all add: w spec_running_def rules_empty pause_rules_empty\<close>)
qed

lemma run_match_simps [simp]:
  "mt_action (run_match e) = ActionRun" "mt_competing (run_match e) = False"
  "mt_preempt (run_match e) = False" "mt_idle (run_match e) = Stopped"
  "mt_rule (run_match e) \<noteq> RulePause"
  by (simp_all add: run_match_def)

lemma eligibility_form: "eligibility e = Some g \<Longrightarrow>
    mt_action g = ActionHold \<and> \<not> mt_competing g \<and> \<not> mt_preempt g \<and> mt_idle g \<in> set idle_states
    \<and> mt_rule g \<noteq> RulePause \<and> mt_idle g \<noteq> Disabled"
  by (auto simp: eligibility_def Let_def hold_match_def idle_states_def recovery_idle_def
      split: if_splits)

lemma eligibility_None:
  "0 \<le> ss_now (el_s e) \<Longrightarrow> eligibility e = None \<longleftrightarrow>
     rf_setup_problem (ss_runtime (el_s e)) = '''' \<and> timers_clear e (ss_now (el_s e))
     \<and> telemetry_usable e \<and> af_process_list_ok (ss_apps (el_s e))
     \<and> (0 < rt_required_free_vram_mib (cf_runtime (el_c e)) \<longrightarrow>
        rt_required_free_vram_mib (cf_runtime (el_c e)) \<le> gf_vram_free_mib (ss_gpu (el_s e)))"
  by (auto simp: eligibility_def Let_def timers_clear_def)

lemma winner_idle:
  assumes idle: "\<not> el_running e" and now: "0 \<le> ss_now (el_s e)"
  shows "mt_action (winner e) = ActionRun \<longleftrightarrow> may_load e"
proof (cases "yield_rules e")
  case Nil
  have w: "winner e = (case eligibility e of Some g \<Rightarrow> g | None \<Rightarrow> run_match e)"
    using idle by (simp add: winner_Nil [OF Nil])
  have m: "may_load e \<longleftrightarrow> eligibility e = None"
    using Nil idle yield_rules_empty [of e] eligibility_None [OF now]
    unfolding may_load_def Let_def safety_fault_def by blast
  show ?thesis
  proof (cases "eligibility e")
    case None
    then show ?thesis using w m by simp
  next
    case (Some g)
    then show ?thesis using w m eligibility_form [OF Some] by simp
  qed
next
  case (Cons m ms)
  have "mt_action m \<noteq> ActionRun"
    using hd_yield_rules [OF Cons]
    by (auto dest!: rules_form)
  moreover have "\<not> may_load e"
    using yield_rules_empty [of e] Cons
    by (auto simp: may_load_def Let_def safety_fault_def overheated_def too_warm_to_load_def
        telemetry_lost_def telemetry_usable_def split: option.splits)
  ultimately show ?thesis by (simp add: winner_Cons [OF Cons])
qed

lemma winner_wf:
  "mt_action (winner e) \<noteq> NoAction \<and> mt_idle (winner e) \<in> set idle_states
   \<and> (mt_preempt (winner e) \<longleftrightarrow> mt_competing (winner e))
   \<and> (mt_rule (winner e) = RulePause \<longleftrightarrow> mt_idle (winner e) = Disabled)
   \<and> (mt_rule (winner e) = RulePause \<longrightarrow> el_mode e = ModePause)"
proof (cases "yield_rules e")
  case Nil
  then show ?thesis
    using eligibility_form [of e]
    by (auto simp: winner_Nil idle_states_def split: option.splits)
next
  case (Cons m ms)
  from hd_yield_rules [OF Cons] show ?thesis
    unfolding winner_Cons [OF Cons]
    by (elim disjE conjE)
      (drule rules_form, simp add: competing_form_def idle_states_def, fastforce?)+
qed

lemma evaluate_simps:
  "de_action (evaluate tz s c) = (let w = winner (new_eval tz s c) in
     if \<not> runtime_running (rf_state (ss_runtime s)) \<and> yields (mt_action w) then ActionHold
     else mt_action w)"
  "de_rule (evaluate tz s c) = mt_rule (winner (new_eval tz s c))"
  "de_competing (evaluate tz s c) = mt_competing (winner (new_eval tz s c))"
  "de_next_load_at (evaluate tz s c) = next_load_at (new_eval tz s c) (winner (new_eval tz s c))"
  by (simp_all add: evaluate_def Let_def)

text \<open>C2. While the runtime runs, the decision is the abstract verdict: a hard safety fault
  preempts in every mode, a manual pause outranks contention and drains, critical contention
  preempts, gaming and the profile's rules drain, and otherwise the runtime keeps running.\<close>

theorem evaluate_running_refines:
  assumes run: "runtime_running (rf_state (ss_runtime s))"
  shows "de_action (evaluate tz s c) = spec_running (new_eval tz s c)"
  using winner_running [of "new_eval tz s c"] run by (simp add: evaluate_simps Let_def)

theorem evaluate_running_refines_witness:
  "de_action (evaluate no_zones (quiet_snapshot 5 Busy) bare_config) = ActionRun \<and>
   de_action (evaluate no_zones ((quiet_snapshot 5 Busy)
     \<lparr>ss_power := \<lparr>pw_suspending = True, pw_shutting_down = False, pw_device_lost = False\<rparr>\<rparr>)
       bare_config) = ActionPreempt"
proof (rule conjI)
  have "spec_running (new_eval no_zones (quiet_snapshot 5 Busy) bare_config) = ActionRun"
    by code_simp
  then show "de_action (evaluate no_zones (quiet_snapshot 5 Busy) bare_config) = ActionRun"
    by (subst evaluate_running_refines) (simp_all add: quiet_snapshot_def runtime_running_def)
  show "de_action (evaluate no_zones ((quiet_snapshot 5 Busy)
     \<lparr>ss_power := \<lparr>pw_suspending = True, pw_shutting_down = False, pw_device_lost = False\<rparr>\<rparr>)
       bare_config) = ActionPreempt"
    by (subst evaluate_running_refines)
      (simp_all add: quiet_snapshot_def runtime_running_def spec_running_def safety_fault_def
        power_event_def)
qed

lemma evaluate_idle_action:
  assumes idle: "\<not> runtime_running (rf_state (ss_runtime s))" and now: "0 \<le> ss_now s"
  shows "de_action (evaluate tz s c) =
    (if may_load (new_eval tz s c) then ActionRun else ActionHold)"
proof -
  have "mt_action (winner (new_eval tz s c)) \<noteq> NoAction" using winner_wf by blast
  then show ?thesis
    using winner_idle [of "new_eval tz s c"] idle now
    by (cases "mt_action (winner (new_eval tz s c))") (auto simp: evaluate_simps Let_def yields_def)
qed

text \<open>C11. While nothing runs, the worker is told to load exactly when no power event, temperature,
  pause, contention, gaming or profile rule speaks against it, setup is complete, recovery,
  suppression and cooldown are over, telemetry and the process list are available and the model
  fits the free VRAM; in every other case it is told to hold, never to drain or preempt.\<close>

theorem evaluate_idle_refines:
  assumes idle: "\<not> runtime_running (rf_state (ss_runtime s))" and now: "0 \<le> ss_now s"
  shows "de_action (evaluate tz s c) =
    (if may_load (new_eval tz s c) then ActionRun else ActionHold)"
  using assms by (rule evaluate_idle_action)

theorem evaluate_idle_refines_witness:
  "de_action (evaluate no_zones (quiet_snapshot 5 Stopped) bare_config) = ActionRun \<and>
   de_action (evaluate no_zones ((quiet_snapshot 5 Stopped)\<lparr>ss_apps := zero_apps\<rparr>) bare_config)
     = ActionHold"
proof (rule conjI)
  have "may_load (new_eval no_zones (quiet_snapshot 5 Stopped) bare_config)" by code_simp
  then show "de_action (evaluate no_zones (quiet_snapshot 5 Stopped) bare_config) = ActionRun"
    by (subst evaluate_idle_refines) (simp_all add: quiet_snapshot_def runtime_running_def)
  have "\<not> may_load (new_eval no_zones ((quiet_snapshot 5 Stopped)\<lparr>ss_apps := zero_apps\<rparr>) bare_config)"
    by code_simp
  then show "de_action (evaluate no_zones ((quiet_snapshot 5 Stopped)\<lparr>ss_apps := zero_apps\<rparr>)
      bare_config) = ActionHold"
    by (subst evaluate_idle_refines) (simp_all add: quiet_snapshot_def runtime_running_def)
qed

subsection \<open>Well-formed decisions\<close>

lemma idle_states_not_empty: "s \<in> set idle_states \<Longrightarrow> s \<noteq> no_state"
  by (auto simp: idle_states_def)

text \<open>Every decision fits the lifecycle: the state it names for an idle worker is one the
  controller may rest in, a grace period is only given to a drain, only a competing workload that
  makes a running worker yield counts as a preemption, and a suppression starts only with one.\<close>

theorem evaluate_wf:
  "let d = evaluate tz s c; run = runtime_running (rf_state (ss_runtime s)) in
   de_idle_state d \<in> set idle_states \<and> \<not> runtime_running (de_idle_state d)
   \<and> (de_action d = ActionDrain \<or> de_grace d = 0)
   \<and> (de_counts_as_preemption d \<longleftrightarrow> run \<and> yields (de_action d) \<and> de_competing d)
   \<and> (de_suppress d \<longleftrightarrow> de_counts_as_preemption d \<and> would_suppress (new_eval tz s c))
   \<and> (de_idle_state d = Disabled \<longleftrightarrow> de_rule d = RulePause)"
  using winner_wf [of "new_eval tz s c"]
  by (auto simp: evaluate_def Let_def idle_states_def runtime_running_def)

subsection \<open>The promised load time\<close>

lemma latest_after_ge: "n \<le> latest_after now ts n"
  by (induction now ts n rule: latest_after.induct) auto

lemma latest_after_spec:
  "0 \<le> now \<Longrightarrow> n = 0 \<or> now < n \<Longrightarrow>
   (latest_after now ts n = n \<or> latest_after now ts n \<in> set ts \<and> now < latest_after now ts n)
   \<and> (\<forall>t \<in> set ts. now < t \<longrightarrow> t \<le> latest_after now ts n)"
proof (induction now ts n rule: latest_after.induct)
  case (2 now t ts n)
  have "n \<le> latest_after now (t # ts) n" by (rule latest_after_ge)
  moreover have "now < t \<Longrightarrow> t \<le> latest_after now (t # ts) n"
    using "2.prems" latest_after_ge [of t now ts] latest_after_ge [of n now ts] by auto
  ultimately show ?case using 2 by auto
qed simp

definition hold_timers :: "eval_ctx \<Rightarrow> time list" where
  "hold_timers e = [tm_recovery_until (ss_timers (el_s e)), suppress_end e, cooldown_end e]"

lemma timers_clear_iff: "timers_clear e t \<longleftrightarrow> (\<forall>x \<in> set (hold_timers e). x \<le> t)"
  by (auto simp: timers_clear_def hold_timers_def)

definition pause_end :: "eval_ctx \<Rightarrow> rmatch \<Rightarrow> time list" where
  "pause_end e w = (if mt_rule w = RulePause
     then (case mf_until (ss_mode (el_s e)) of None \<Rightarrow> [] | Some u \<Rightarrow> [u]) else [])"

lemma next_load_at_eq:
  "next_load_at e w =
     (if mt_competing w \<or> mt_rule w = RulePause \<and> mf_until (ss_mode (el_s e)) = None then 0
      else latest_after (ss_now (el_s e)) (hold_timers e @ pause_end e w) 0)"
  by (auto simp: next_load_at_def hold_timers_def pause_end_def Let_def
      simp del: latest_after.simps split: option.splits)

lemma next_load_at_pos:
  assumes now: "0 \<le> ss_now (el_s e)" and n: "next_load_at e w \<noteq> 0"
  shows "ss_now (el_s e) < next_load_at e w \<and> timers_clear e (next_load_at e w) \<and>
      (next_load_at e w \<in> set (hold_timers e) \<or>
       mt_rule w = RulePause \<and> mf_until (ss_mode (el_s e)) = Some (next_load_at e w))"
proof -
  let ?ts = "hold_timers e @ pause_end e w" and ?now = "ss_now (el_s e)"
  let ?n = "latest_after ?now ?ts 0"
  have eq: "next_load_at e w = ?n" using n by (auto simp: next_load_at_eq split: if_splits)
  have spec: "?n \<in> set ?ts \<and> ?now < ?n" "\<forall>t \<in> set ?ts. ?now < t \<longrightarrow> t \<le> ?n"
    using latest_after_spec [OF now, of 0 ?ts] n eq by auto
  have "\<forall>t \<in> set ?ts. t \<le> ?n" using spec by (meson linorder_not_less order.trans less_imp_le)
  moreover have "x \<in> set (pause_end e w) \<Longrightarrow>
      mt_rule w = RulePause \<and> mf_until (ss_mode (el_s e)) = Some x" for x
    by (cases "mf_until (ss_mode (el_s e))"; cases "mt_rule w = RulePause") (simp_all add: pause_end_def)
  ultimately show ?thesis
    using spec(1) unfolding eq timers_clear_iff set_append by blast
qed

lemma next_load_at_zero:
  assumes now: "0 \<le> ss_now (el_s e)" and n: "next_load_at e w = 0"
  shows "mt_competing w \<or> mt_rule w = RulePause \<and> mf_until (ss_mode (el_s e)) = None
      \<or> timers_clear e (ss_now (el_s e))"
proof (rule ccontr)
  let ?ts = "hold_timers e @ pause_end e w" and ?now = "ss_now (el_s e)"
  assume neg: "\<not> ?thesis"
  then have "latest_after ?now ?ts 0 = 0" using n unfolding next_load_at_eq by (metis (full_types))
  then have "\<forall>t \<in> set ?ts. ?now < t \<longrightarrow> t \<le> 0"
    using latest_after_spec [OF now, of 0 ?ts] by auto
  then have "timers_clear e ?now"
    unfolding timers_clear_iff set_append using now by (meson UnI1 linorder_not_less order.trans)
  with neg show False by blast
qed

lemma new_eval_cong:
  assumes "ss_mode s' = ss_mode s" "active tz c (ss_now s') = active tz c (ss_now s)"
  shows "el_p (new_eval tz s' c) = el_p (new_eval tz s c)"
    "el_mode (new_eval tz s' c) = el_mode (new_eval tz s c)"
  using assms by (simp_all add: new_eval_def Let_def split: prod.splits)

lemma hold_timers_cong:
  assumes "ss_mode s' = ss_mode s" "active tz c (ss_now s') = active tz c (ss_now s)"
    "ss_timers s' = ss_timers s"
  shows "hold_timers (new_eval tz s' c) = hold_timers (new_eval tz s c)"
  using assms new_eval_cong [OF assms(1,2)]
  by (simp add: hold_timers_def suppress_end_def cooldown_end_def Let_def)

text \<open>A promised load time is honoured: it lies in the future, and at every later instant
  before it, whatever else has changed on the machine, an idle worker with the same timers, mode
  and active profile is not told to load; when it comes, no timer holds the load any more.\<close>

theorem next_load_at_sound:
  assumes n: "n = de_next_load_at (evaluate tz s c)" "n \<noteq> 0" and now: "0 \<le> ss_now s"
    and same: "ss_mode s' = ss_mode s" "ss_timers s' = ss_timers s"
      "active tz c (ss_now s') = active tz c (ss_now s)"
    and later: "ss_now s \<le> ss_now s'" "ss_now s' < n"
    and idle: "\<not> runtime_running (rf_state (ss_runtime s'))"
  shows "ss_now s < n \<and> de_action (evaluate tz s' c) = ActionHold \<and>
    timers_clear (new_eval tz s c) n"
proof -
  let ?e = "new_eval tz s c" and ?e' = "new_eval tz s' c"
  have n': "n = next_load_at ?e (winner ?e)" by (simp add: n(1) evaluate_simps)
  have "0 \<le> ss_now (el_s ?e)" using now by simp
  moreover have "next_load_at ?e (winner ?e) \<noteq> 0" using n(2) n' by metis
  ultimately have P: "ss_now s < n \<and> timers_clear ?e n \<and> (n \<in> set (hold_timers ?e) \<or> mt_rule (winner ?e) = RulePause)"
    using next_load_at_pos [of ?e "winner ?e"] unfolding n' [symmetric] new_eval_simps by blast
  then have pos: "ss_now s < n" "timers_clear ?e n"
    and cs: "n \<in> set (hold_timers ?e) \<or> mt_rule (winner ?e) = RulePause" by blast+
  have "\<not> may_load ?e'"
    using cs
  proof
    assume "n \<in> set (hold_timers ?e)"
    then have "\<not> timers_clear ?e' (ss_now s')"
      using later(2) hold_timers_cong [OF same(1,3,2)] by (force simp: timers_clear_iff)
    then show ?thesis by (simp add: may_load_def Let_def)
  next
    assume "mt_rule (winner ?e) = RulePause"
    then have "el_mode ?e' = ModePause"
      using winner_wf [of ?e] new_eval_cong(2) [OF same(1,3)] by simp
    then show ?thesis by (simp add: may_load_def Let_def)
  qed
  then show ?thesis
    using pos idle now later(1) by (simp add: evaluate_idle_action)
qed

definition cooling :: snapshot where
  "cooling = (quiet_snapshot (100 * hour) Cooldown)
     \<lparr>ss_timers := zero_timers\<lparr>tm_last_competing_at := 100 * hour - 1,
        tm_last_competing_rule := RuleGameConfirmed\<rparr>\<rparr>"

theorem next_load_at_sound_witness:
  "de_action (evaluate no_zones (cooling\<lparr>ss_now := 100 * hour + 7\<rparr>) bare_config) = ActionHold"
proof -
  have n: "de_next_load_at (evaluate no_zones cooling bare_config) = 100 * hour - 1 + 5 * minute"
    by code_simp
  let ?s = "cooling\<lparr>ss_now := 100 * hour + 7\<rparr>"
  have "ss_now cooling = 100 * hour" "\<not> runtime_running (rf_state (ss_runtime ?s))"
    "active no_zones bare_config (ss_now ?s) = active no_zones bare_config (ss_now cooling)"
    by (simp_all add: active_def no_zones_def cooling_def quiet_snapshot_def runtime_running_def)
  then show ?thesis
    using next_load_at_sound [OF n [symmetric], of ?s] by simp
qed

text \<open>When no time is promised, that is because a competing workload is present, because the
  pause has no end, or because no timer holds the load at all.\<close>

theorem next_load_at_complete:
  assumes now: "0 \<le> ss_now s" and z: "de_next_load_at (evaluate tz s c) = 0"
  shows "de_competing (evaluate tz s c)
    \<or> de_rule (evaluate tz s c) = RulePause \<and> mf_until (ss_mode s) = None
    \<or> timers_clear (new_eval tz s c) (ss_now s)"
  using next_load_at_zero [of "new_eval tz s c" "winner (new_eval tz s c)"] now z
  by (simp add: evaluate_simps)

theorem next_load_at_complete_witness:
  "timers_clear (new_eval no_zones (quiet_snapshot 5 Stopped) bare_config) 5"
proof -
  have e: "de_next_load_at (evaluate no_zones (quiet_snapshot 5 Stopped) bare_config) = 0"
    "\<not> de_competing (evaluate no_zones (quiet_snapshot 5 Stopped) bare_config)"
    "de_rule (evaluate no_zones (quiet_snapshot 5 Stopped) bare_config) \<noteq> RulePause"
    by code_simp+
  show ?thesis
    using next_load_at_complete [OF _ e(1)] e(2,3) by (simp add: quiet_snapshot_def)
qed

subsection \<open>Degraded telemetry\<close>

lemma soft_thresholds_le:
  assumes m: "0 \<le> tel_degraded_margin_pct (cf_telemetry c)"
      "tel_degraded_margin_pct (cf_telemetry c) \<le> 100"
    and e: "e = new_eval tz s c"
    and u: "0 \<le> pf_external_util_soft_pct (el_p e)"
      "fl64 (pf_external_util_soft_pct (el_p e)) = pf_external_util_soft_pct (el_p e)"
    and v: "0 \<le> pf_external_vram_soft_mib (el_p e)" "pf_external_vram_soft_mib (el_p e) \<le> 2 ^ 53"
  shows "el_soft_util e \<le> pf_external_util_soft_pct (el_p e)"
    "el_soft_vram e \<le> pf_external_vram_soft_mib (el_p e)"
proof -
  let ?p = "el_p e"
  define f where "f = fsub 1 (fdiv (of_int_f (tel_degraded_margin_pct (cf_telemetry c))) 100)"
  have f: "0 \<le> f" "f \<le> 1"
    using fl64.rnd_complement [OF m] by (auto simp: f_def float_defs)
  have vr: "fl64 (of_int (pf_external_vram_soft_mib ?p)) = of_int (pf_external_vram_soft_mib ?p)"
    using v by (rule fl64_nat)
  have util: "fmul (pf_external_util_soft_pct ?p) f \<le> pf_external_util_soft_pct ?p"
    using fl64.rnd_scale [OF u f] by (simp add: fmul_def)
  have "0 \<le> fl64 (of_int (pf_external_vram_soft_mib ?p) * f)"
    "fl64 (of_int (pf_external_vram_soft_mib ?p) * f) \<le> of_int (pf_external_vram_soft_mib ?p)"
    using fl64.rnd_scale [OF _ vr f] v by auto
  then have vram: "trunc_f (fmul (of_int_f (pf_external_vram_soft_mib ?p)) f) \<le> pf_external_vram_soft_mib ?p"
    by (simp add: float_defs vr floor_le_iff le_less_trans)
  show "el_soft_util e \<le> pf_external_util_soft_pct ?p"
    using util by (auto simp: e f_def degraded_factor_def new_eval_def Let_def split: prod.splits)
  show "el_soft_vram e \<le> pf_external_vram_soft_mib ?p"
    using vram by (auto simp: e f_def degraded_factor_def new_eval_def Let_def split: prod.splits)
qed

lemma new_eval_degrade:
  assumes "gf_confidence (ss_gpu s) = ConfidenceHigh"
    and "s' = s\<lparr>ss_gpu := (ss_gpu s)\<lparr>gf_confidence := ConfidenceDegraded\<rparr>\<rparr>"
  shows "el_p (new_eval tz s' c) = el_p (new_eval tz s c)"
    "el_mode (new_eval tz s' c) = el_mode (new_eval tz s c)"
    "el_soft_util (new_eval tz s c) = pf_external_util_soft_pct (el_p (new_eval tz s c))"
    "el_soft_vram (new_eval tz s c) = pf_external_vram_soft_mib (el_p (new_eval tz s c))"
  using assms by (simp_all add: new_eval_def Let_def split: prod.splits)

text \<open>Degraded telemetry never makes the worker less willing to yield: with the same facts
  but an attribution that cannot be trusted, a running worker is told to do the same, or to drain
  where it would have kept running.\<close>

theorem degraded_yields_earlier:
  assumes run: "runtime_running (rf_state (ss_runtime s))"
    and high: "gf_confidence (ss_gpu s) = ConfidenceHigh"
    and s': "s' = s\<lparr>ss_gpu := (ss_gpu s)\<lparr>gf_confidence := ConfidenceDegraded\<rparr>\<rparr>"
    and m: "0 \<le> tel_degraded_margin_pct (cf_telemetry c)"
      "tel_degraded_margin_pct (cf_telemetry c) \<le> 100"
    and p: "p = el_p (new_eval tz s c)"
    and u: "0 \<le> pf_external_util_soft_pct p"
      "fl64 (pf_external_util_soft_pct p) = pf_external_util_soft_pct p"
    and v: "0 \<le> pf_external_vram_soft_mib p" "pf_external_vram_soft_mib p \<le> 2 ^ 53"
  shows "de_action (evaluate tz s' c) = de_action (evaluate tz s c) \<or>
    de_action (evaluate tz s c) = ActionRun \<and> de_action (evaluate tz s' c) = ActionDrain"
proof -
  let ?e = "new_eval tz s c" and ?e' = "new_eval tz s' c"
  note d = new_eval_degrade [OF high s', of tz c]
  have gpu: "ss_gpu s' = (ss_gpu s)\<lparr>gf_confidence := ConfidenceDegraded\<rparr>" "ss_power s' = ss_power s"
    "ss_apps s' = ss_apps s" "ss_session s' = ss_session s" "ss_runtime s' = ss_runtime s"
    by (simp_all add: s')
  have le: "el_soft_util ?e' \<le> el_soft_util ?e" "el_soft_vram ?e' \<le> el_soft_vram ?e"
    using soft_thresholds_le [OF m refl, of tz s'] u v by (simp_all add: d p)
  have use: "telemetry_usable ?e" "telemetry_usable ?e'"
    by (simp_all add: telemetry_usable_def gpu high)
  have safety: "safety_fault ?e' = safety_fault ?e"
    by (simp add: safety_fault_def overheated_def telemetry_lost_def gpu high split: option.split)
  have crit: "critical_contention ?e' = critical_contention ?e"
    using use by (simp add: critical_contention_def Let_def gpu)
  have gaming: "gaming ?e \<Longrightarrow> gaming ?e'"
    using le(1) by (auto simp: gaming_def gpu d confirmed_game_def likely_game_def list_ex_iff high)
  have demand: "profile_demand ?e \<Longrightarrow> profile_demand ?e'"
    using use le(2) run by (auto simp: profile_demand_def soft_pressure_def Let_def gpu d)
  have "de_action (evaluate tz x c) = spec_running (new_eval tz x c)"
    if "runtime_running (rf_state (ss_runtime x))" for x
    using winner_running [of "new_eval tz x c"] that by (simp add: evaluate_simps Let_def)
  then show ?thesis
    using safety crit gaming demand run by (auto simp: spec_running_def gpu d)
qed

theorem degraded_yields_earlier_witness:
  "de_action (evaluate no_zones ((quiet_snapshot 5 Busy)\<lparr>ss_gpu := (ss_gpu (quiet_snapshot 5 Busy))
     \<lparr>gf_confidence := ConfidenceDegraded\<rparr>\<rparr>) bare_config) \<in> {ActionRun, ActionDrain}"
proof -
  let ?s = "quiet_snapshot 5 Busy"
  let ?p = "el_p (new_eval no_zones ?s bare_config)"
  have p: "pf_external_util_soft_pct ?p = 25" "pf_external_vram_soft_mib ?p = 2048" by code_simp+
  have "fl64 25 = 25" using fl64_nat [of 25] by simp
  moreover have "de_action (evaluate no_zones ?s bare_config) = ActionRun" by code_simp
  moreover have "tel_degraded_margin_pct (cf_telemetry bare_config) = 20" by code_simp
  moreover have "runtime_running (rf_state (ss_runtime ?s))" "gf_confidence (ss_gpu ?s) = ConfidenceHigh"
    by code_simp+
  ultimately show ?thesis
    using degraded_yields_earlier [OF _ _ refl _ _ refl, of ?s bare_config no_zones] by (simp add: p)
qed

lemma count_recent_spec:
  "count_recent now w ts n = n + int (length (filter (\<lambda>t. t \<le> now \<and> t_sub now t \<le> w) ts))"
  by (induction now w ts n rule: count_recent.induct) (auto simp: not_less)

text \<open>Anti-thrashing: a decision starts a suppression exactly when it makes a running worker
  yield to a competing workload and that preemption, with the earlier ones inside the window,
  reaches the configured number.\<close>

theorem suppress_counts_window:
  "de_suppress (evaluate tz s c) \<longleftrightarrow>
     runtime_running (rf_state (ss_runtime s)) \<and> yields (de_action (evaluate tz s c))
     \<and> de_competing (evaluate tz s c)
     \<and> at_max_preemptions (cf_anti_thrash c) \<le> 1 + int (length (filter
         (\<lambda>t. t \<le> ss_now s \<and> t_sub (ss_now s) t \<le> at_window (cf_anti_thrash c))
         (tm_preemptions (ss_timers s))))"
  using winner_wf [of "new_eval tz s c"]
  by (simp add: evaluate_def Let_def would_suppress_def count_recent_spec)

end
