(* ===== verification/Events.thy ===== *)
theory Events
  imports Policy_Types
begin

text \<open>
  Package \<open>internal/events\<close>: the audit records of the controller. The event sink is outside the
  controller; an emitted event is appended to a log. The free-form data of an event is an
  association list of typed values.
\<close>

datatype event_type =
    ServiceStarted | ServiceStopping | StateChanged | DecisionChanged | LoadStarted | LoadCompleted
  | LoadFailed | DrainStarted | DrainCompleted | GraceShortened | Preempted | RuntimeStopped
  | RuntimeCrashed | KillFailed | VRAMReleased | VRAMNotReleased | OrphanKilled | CooldownStarted
  | CooldownReset | SuppressionStarted | RecoveryScheduled | ModeChanged | ModeExpired
  | ConfigChanged | ConfigRejected | ConfigRecovered | TelemetryLost | TelemetryRecovered
  | TelemetryDegraded | PowerSuspend | PowerSuspendStop | PowerResume | SessionChange
  | AgentConnected | AgentDisconnected | DeviceLost | ServiceMisconfigured | ProvisioningProblem
  | TLSCertificateLoaded | TLSCertificateReloaded | TLSCertificateProblem | RequestsRejected
  | RequestForceClosed

datatype edata =
    DInt int | DStr string | DBool bool | DTime time | DDur dur | DStrs "string list"
  | DInts "int list" | DState state | DMode mode | DChanges "history_change list"

record etelemetry =
  et_confidence :: confidence
  et_total_util_pct :: flt
  et_own_util_pct :: flt
  et_external_util_pct :: flt
  et_vram_used_mib :: int
  et_vram_free_mib :: int
  et_own_vram_mib :: int
  et_external_vram_mib :: int
  et_temperature_c :: "flt option"

definition telemetry_from :: "gpu_facts \<Rightarrow> etelemetry" where
  "telemetry_from g = \<lparr>et_confidence = gf_confidence g, et_total_util_pct = gf_total_util_pct g,
     et_own_util_pct = gf_own_util_pct g, et_external_util_pct = gf_external_util_pct g,
     et_vram_used_mib = gf_vram_used_mib g, et_vram_free_mib = gf_vram_free_mib g,
     et_own_vram_mib = gf_own_vram_mib g, et_external_vram_mib = gf_external_vram_mib g,
     et_temperature_c = gf_temperature_c g\<rparr>"

record event =
  ee_time :: time
  ee_type :: event_type
  ee_prev_state :: state
  ee_state :: state
  ee_condition :: condition
  ee_profile :: string
  ee_mode :: mode
  ee_rule :: rule
  ee_severity :: severity
  ee_evidence :: "evidence list"
  ee_telemetry :: "etelemetry option"
  ee_runtime_pid :: int
  ee_message :: gotext
  ee_data :: "(string \<times> edata) list"

text \<open>An event literal: the fields that are not named have their zero value.\<close>

definition mk_event :: "time \<Rightarrow> event_type \<Rightarrow> severity \<Rightarrow> gotext \<Rightarrow> (string \<times> edata) list \<Rightarrow> event" where
  "mk_event t ty sev msg dat = \<lparr>ee_time = t, ee_type = ty, ee_prev_state = no_state,
     ee_state = no_state, ee_condition = NoCondition, ee_profile = '''', ee_mode = OtherMode '''',
     ee_rule = no_rule, ee_severity = sev, ee_evidence = [], ee_telemetry = None,
     ee_runtime_pid = 0, ee_message = msg, ee_data = dat\<rparr>"

definition from_decision :: "event_type \<Rightarrow> time \<Rightarrow> decision \<Rightarrow> gpu_facts \<Rightarrow> event" where
  "from_decision ty now d g = (mk_event now ty (de_severity d) (de_reason d) [])
     \<lparr>ee_profile := de_profile d, ee_mode := de_mode d, ee_rule := de_rule d,
      ee_evidence := de_evidence d, ee_telemetry := Some (telemetry_from g)\<rparr>"

definition with_data :: "event \<Rightarrow> (string \<times> edata) list \<Rightarrow> event" where
  "with_data e dat = e\<lparr>ee_data := dat\<rparr>"

end
