(* ===== verification/Gate.thy ===== *)
theory Gate
  imports Lifecycle "HOL-Library.Word"
begin

text \<open>
  Package \<open>internal/proxy\<close>, the admission gate (\<open>gate.go\<close>). Every admission decision is made under
  one mutex, so an operation of the gate is one atomic step on its state and the interleavings of
  the goroutines that use it are the sequences of such steps. The active requests are a Go map,
  modelled as an association list with distinct keys; a request's context is the cause it was
  cancelled with, if any; the notification channel of capacity one is a flag.

  The locale \<open>admission\<close> states what the controller relies on when it closes the gate before it
  drains or preempts; it is interpreted on the gate's operations.
\<close>

record closed =
  cd_condition :: condition
  cd_reason :: gotext
  cd_retry_after :: time

datatype cancel_cause = CauseNil | ErrPreempted | ErrMaxDuration

record ticket =
  tk_id :: string
  tk_started :: time
  tk_upstream :: string
  tk_cause :: "cancel_cause option"

record gate =
  gt_open :: bool
  gt_upstream :: string
  gt_closed :: closed
  gt_active :: "(string \<times> ticket) list"
  gt_seq :: "64 word"
  gt_notify :: bool
  gt_rejected :: "64 word"

definition zero_closed :: closed where
  "zero_closed = \<lparr>cd_condition = NoCondition, cd_reason = lit '''', cd_retry_after = 0\<rparr>"

definition new_gate :: gate where
  "new_gate = \<lparr>gt_open = False, gt_upstream = '''',
     gt_closed = \<lparr>cd_condition = Unavailable, cd_reason = lit ''starting'', cd_retry_after = 0\<rparr>,
     gt_active = [], gt_seq = 0, gt_notify = False, gt_rejected = 0\<rparr>"

definition signal_gate :: "gate \<Rightarrow> gate" where
  "signal_gate g = g\<lparr>gt_notify := True\<rparr>"

definition open_gate :: "string \<Rightarrow> gate \<Rightarrow> gate" where
  "open_gate u g = signal_gate (g\<lparr>gt_open := True, gt_upstream := u\<rparr>)"

definition close_gate :: "closed \<Rightarrow> gate \<Rightarrow> gate \<times> nat" where
  "close_gate c g = (g\<lparr>gt_open := False, gt_closed := c\<rparr>, length (gt_active g))"

definition update_closed :: "closed \<Rightarrow> gate \<Rightarrow> gate" where
  "update_closed c g = (if gt_open g then g else g\<lparr>gt_closed := c\<rparr>)"

text \<open>\<open>strconv.FormatInt\<close> and \<open>FormatUint\<close> in base 36, and the milliseconds since 1970.\<close>

definition digit36 :: "nat \<Rightarrow> char" where
  "digit36 d = char_of (if d < 10 then 48 + d else 87 + d)"

fun format36 :: "nat \<Rightarrow> string" where
  "format36 n = (if n < 36 then [digit36 n] else format36 (n div 36) @ [digit36 (n mod 36)])"

declare format36.simps [simp del]

definition format_int36 :: "int \<Rightarrow> string" where
  "format_int36 k = (if k < 0 then CHR ''-'' # format36 (nat (- k)) else format36 (nat k))"

definition unix_milli :: "time \<Rightarrow> int" where
  "unix_milli t = (t - 62135596800 * second) div millisecond"

definition new_id :: "time \<Rightarrow> gate \<Rightarrow> string \<times> gate" where
  "new_id now g = (let n = gt_seq g + 1 in
     (''bw-'' @ format_int36 (unix_milli now) @ ''-'' @ format36 (unat n), g\<lparr>gt_seq := n\<rparr>))"

definition put_active :: "string \<Rightarrow> ticket \<Rightarrow> (string \<times> ticket) list \<Rightarrow> (string \<times> ticket) list" where
  "put_active i t as = filter (\<lambda>(j, _). j \<noteq> i) as @ [(i, t)]"

definition admit :: "time \<Rightarrow> gate \<Rightarrow> (closed + ticket) \<times> gate" where
  "admit now g =
     (if \<not> gt_open g then (Inl (gt_closed g), g\<lparr>gt_rejected := gt_rejected g + 1\<rparr>)
      else (let (i, g1) = new_id now g;
                t = \<lparr>tk_id = i, tk_started = now, tk_upstream = gt_upstream g1, tk_cause = None\<rparr>
            in (Inr t, g1\<lparr>gt_active := put_active i t (gt_active g1)\<rparr>)))"

definition release :: "string \<Rightarrow> gate \<Rightarrow> gate" where
  "release i g = signal_gate (g\<lparr>gt_active := filter (\<lambda>(j, _). j \<noteq> i) (gt_active g)\<rparr>)"

definition active_requests :: "time \<Rightarrow> gate \<Rightarrow> nat \<times> dur" where
  "active_requests now g =
     (length (gt_active g),
      fold (\<lambda>(_, t) oldest. let a = t_sub now (tk_started t) in if oldest < a then a else oldest)
        (gt_active g) 0)"

definition active_ids :: "gate \<Rightarrow> string list" where
  "active_ids g = map fst (gt_active g)"

text \<open>A context keeps the first cause it is cancelled with.\<close>

definition cancel :: "cancel_cause \<Rightarrow> ticket \<Rightarrow> ticket" where
  "cancel c t = (case tk_cause t of None \<Rightarrow> t\<lparr>tk_cause := Some c\<rparr> | Some _ \<Rightarrow> t)"

definition force_close_all :: "gate \<Rightarrow> string list \<times> gate" where
  "force_close_all g =
     (map (\<lambda>(_, t). tk_id t) (gt_active g),
      g\<lparr>gt_active := map (\<lambda>(i, t). (i, cancel ErrPreempted t)) (gt_active g)\<rparr>)"

subsection \<open>Steps\<close>

datatype gate_op =
    OpOpen string | OpClose closed | OpUpdate closed | OpAdmit time | OpRelease string | OpForce

definition gate_step :: "gate_op \<Rightarrow> gate \<Rightarrow> gate \<times> ticket option" where
  "gate_step op g = (case op of
      OpOpen u \<Rightarrow> (open_gate u g, None)
    | OpClose c \<Rightarrow> (fst (close_gate c g), None)
    | OpUpdate c \<Rightarrow> (update_closed c g, None)
    | OpAdmit now \<Rightarrow> (case admit now g of (Inr t, g') \<Rightarrow> (g', Some t) | (Inl _, g') \<Rightarrow> (g', None))
    | OpRelease i \<Rightarrow> (release i g, None)
    | OpForce \<Rightarrow> (snd (force_close_all g), None))"

fun gate_run :: "gate_op list \<Rightarrow> gate \<Rightarrow> gate \<times> ticket list" where
  "gate_run [] g = (g, [])"
| "gate_run (op # ops) g = (let (g1, r) = gate_step op g; (g2, ts) = gate_run ops g1
     in (g2, (case r of None \<Rightarrow> ts | Some t \<Rightarrow> t # ts)))"

lemmas gate_defs = gate_step_def open_gate_def close_gate_def update_closed_def admit_def
  release_def force_close_all_def signal_gate_def new_id_def

subsection \<open>The contract of an admission gate\<close>

locale admission =
  fixes is_open :: "'g \<Rightarrow> bool"
    and step :: "'op \<Rightarrow> 'g \<Rightarrow> 'g \<times> 'r option"
    and opens closes :: "'op \<Rightarrow> bool"
  assumes closes_step: "closes op \<Longrightarrow> \<not> is_open (fst (step op g))"
    and closed_refuses: "\<not> is_open g \<Longrightarrow> snd (step op g) = None"
    and closed_stays: "\<not> is_open g \<Longrightarrow> \<not> opens op \<Longrightarrow> \<not> is_open (fst (step op g))"
begin

fun run :: "'op list \<Rightarrow> 'g \<Rightarrow> 'g \<times> 'r list" where
  "run [] g = (g, [])"
| "run (op # ops) g = (let (g1, r) = step op g; (g2, rs) = run ops g1
     in (g2, (case r of None \<Rightarrow> rs | Some x \<Rightarrow> x # rs)))"

lemma run_closed:
  "\<not> is_open g \<Longrightarrow> list_all (\<lambda>op. \<not> opens op) ops \<Longrightarrow>
     \<not> is_open (fst (run ops g)) \<and> snd (run ops g) = []"
proof (induction ops arbitrary: g)
  case (Cons op ops)
  then have "\<not> is_open (fst (step op g))" "snd (step op g) = None"
    using closed_refuses closed_stays by auto
  with Cons show ?case
    by (cases "step op g") (fastforce split: prod.splits)
qed simp

lemma run_after_close:
  "closes op \<Longrightarrow> list_all (\<lambda>op. \<not> opens op) ops \<Longrightarrow>
     \<not> is_open (fst (run ops (fst (step op g)))) \<and> snd (run ops (fst (step op g))) = []"
  using closes_step by (rule run_closed)

end

definition is_open_op :: "gate_op \<Rightarrow> bool" where
  "is_open_op op = (case op of OpOpen _ \<Rightarrow> True | _ \<Rightarrow> False)"

definition is_close_op :: "gate_op \<Rightarrow> bool" where
  "is_close_op op = (case op of OpClose _ \<Rightarrow> True | _ \<Rightarrow> False)"

interpretation adm: admission gt_open gate_step is_open_op is_close_op
proof unfold_locales
  show "\<not> gt_open (fst (gate_step op g))" if "is_close_op op" for op g
    using that by (cases op) (simp_all add: is_close_op_def gate_defs)
  show "snd (gate_step op g) = None" if "\<not> gt_open g" for op g
    using that by (cases op) (simp_all add: gate_defs)
  show "\<not> gt_open (fst (gate_step op g))" if "\<not> gt_open g" "\<not> is_open_op op" for op g
    using that by (cases op) (simp_all add: is_open_op_def gate_defs)
qed

lemma gate_run_eq: "gate_run ops g = adm.run ops g"
  by (induction ops arbitrary: g) (simp_all split: prod.splits)

text \<open>No request is admitted after the gate has been closed: whatever requests arrive, finish or
  are cut off afterwards, in any order, none of them is admitted until the gate is opened again,
  and only \<open>Open\<close> opens it.\<close>

theorem no_admission_after_close:
  assumes "list_all (\<lambda>op. \<not> is_open_op op) ops"
  shows "snd (gate_run ops (fst (close_gate c g))) = [] \<and>
    \<not> gt_open (fst (gate_run ops (fst (close_gate c g))))"
  using adm.run_after_close [of "OpClose c" ops g] assms
  by (simp add: gate_run_eq is_close_op_def gate_step_def)

theorem no_admission_after_close_witness:
  "snd (gate_run [OpAdmit 7, OpUpdate zero_closed, OpRelease ''x'', OpAdmit 9]
     (fst (close_gate zero_closed (open_gate ''http://127.0.0.1:1'' new_gate)))) = []"
  by (rule conjunct1, rule no_admission_after_close) (simp add: is_open_op_def)

subsection \<open>Request identifiers\<close>

lemma of_char_digit36: "d < 36 \<Longrightarrow> (of_char (digit36 d) :: nat) = (if d < 10 then 48 + d else 87 + d)"
  by (simp add: digit36_def of_char_of)

lemma digit36_inj: "d < 36 \<Longrightarrow> e < 36 \<Longrightarrow> digit36 d = digit36 e \<Longrightarrow> d = e"
proof -
  assume d: "d < 36" "e < 36" and eq: "digit36 d = digit36 e"
  have "(if d < 10 then 48 + d else 87 + d) = (if e < 10 then 48 + e else 87 + e)"
    using of_char_digit36 [OF d(1)] of_char_digit36 [OF d(2)] eq by simp
  with d show ?thesis by (simp split: if_splits)
qed

lemma digit36_dash: "d < 36 \<Longrightarrow> CHR ''-'' \<noteq> digit36 d"
proof
  assume d: "d < 36" and "CHR ''-'' = digit36 d"
  then have "(of_char (CHR ''-'') :: nat) = (if d < 10 then 48 + d else 87 + d)"
    using of_char_digit36 [OF d] by simp
  then show False by (simp split: if_splits)
qed

lemma format36_dash: "CHR ''-'' \<notin> set (format36 n)"
proof (induction n rule: format36.induct)
  case (1 n)
  then show ?case by (subst format36.simps) (auto simp: digit36_dash)
qed

lemma format36_nonempty: "format36 n \<noteq> []"
  by (subst format36.simps) simp

lemma format36_single: "format36 n = [c] \<Longrightarrow> n < 36"
  using format36_nonempty [of "n div 36"] by (subst (asm) format36.simps) (auto split: if_splits)

lemma format36_inj: "format36 m = format36 n \<Longrightarrow> m = n"
proof (induction m arbitrary: n rule: format36.induct)
  case (1 m)
  show ?case
  proof (cases "m < 36")
    case True
    then have "format36 n = [digit36 m]" using "1.prems" by (simp add: format36.simps [of m])
    moreover from this have "n < 36" by (rule format36_single)
    ultimately show ?thesis using True digit36_inj [of m n] by (simp add: format36.simps [of n])
  next
    case False
    then have m: "format36 m = format36 (m div 36) @ [digit36 (m mod 36)]"
      by (simp add: format36.simps [of m])
    have "\<not> n < 36"
      using "1.prems" m format36_nonempty [of "m div 36"] by (auto simp: format36.simps [of n])
    then have "format36 n = format36 (n div 36) @ [digit36 (n mod 36)]"
      by (simp add: format36.simps [of n])
    with m "1.prems" have "format36 (m div 36) = format36 (n div 36)" "digit36 (m mod 36) = digit36 (n mod 36)"
      by simp_all
    then have "m div 36 = n div 36" "m mod 36 = n mod 36"
      using "1.IH" [OF False] digit36_inj by auto
    then show ?thesis by (metis div_mult_mod_eq)
  qed
qed

definition request_id :: "int \<Rightarrow> nat \<Rightarrow> string" where
  "request_id ms n = ''bw-'' @ format_int36 ms @ ''-'' @ format36 n"

lemma dash_suffix_eq:
  "CHR ''-'' \<notin> set b \<Longrightarrow> CHR ''-'' \<notin> set b' \<Longrightarrow> a @ CHR ''-'' # b = a' @ CHR ''-'' # b' \<Longrightarrow> b = b'"
proof (induction b arbitrary: b' rule: rev_induct)
  case Nil
  then show ?case by (cases b' rule: rev_cases) auto
next
  case (snoc x b)
  then show ?case by (cases b' rule: rev_cases) (auto simp flip: append_assoc append_Cons)
qed

lemma request_id_inj: "request_id ms m = request_id ms' n \<Longrightarrow> m = n"
  using dash_suffix_eq [of "format36 m" "format36 n" "''bw-'' @ format_int36 ms" "''bw-'' @ format_int36 ms'"]
    format36_dash format36_inj by (simp add: request_id_def)

subsection \<open>The active requests\<close>

definition gate_ok :: "gate \<Rightarrow> bool" where
  "gate_ok g \<longleftrightarrow> distinct (active_ids g) \<and>
     list_all (\<lambda>(i, t). tk_id t = i) (gt_active g) \<and>
     (\<forall>i \<in> set (active_ids g). \<exists>ms n. i = request_id ms n \<and> n \<le> unat (gt_seq g))"

lemma gate_ok_new: "gate_ok new_gate"
  by (simp add: gate_ok_def new_gate_def active_ids_def)

lemma seq_next: "unat (s :: 64 word) + 1 < 2 ^ 64 \<Longrightarrow> unat (s + 1) = unat s + 1"
  by (simp add: unat_word_ariths(1))

lemma fresh_id:
  assumes ok: "gate_ok g" and room: "unat (gt_seq g) + 1 < 2 ^ 64"
  shows "request_id ms (unat (gt_seq g + 1)) \<notin> set (active_ids g)"
proof
  assume "request_id ms (unat (gt_seq g + 1)) \<in> set (active_ids g)"
  then obtain ms' n where "request_id ms (unat (gt_seq g + 1)) = request_id ms' n" "n \<le> unat (gt_seq g)"
    using ok by (auto simp: gate_ok_def)
  then have "unat (gt_seq g + 1) \<le> unat (gt_seq g)" using request_id_inj by blast
  with seq_next [OF room] show False by simp
qed

lemma put_active_fresh: "i \<notin> fst ` set as \<Longrightarrow> put_active i t as = as @ [(i, t)]"
  by (force simp: put_active_def filter_id_conv)

lemma admit_open:
  assumes ok: "gate_ok g" and room: "unat (gt_seq g) + 1 < 2 ^ 64" and opn: "gt_open g"
  shows "\<exists>t g'. admit now g = (Inr t, g') \<and> gt_active g' = gt_active g @ [(tk_id t, t)]
     \<and> tk_id t = request_id (unix_milli now) (unat (gt_seq g')) \<and> gt_seq g' = gt_seq g + 1
     \<and> tk_upstream t = gt_upstream g \<and> tk_started t = now \<and> tk_cause t = None \<and> gt_open g'"
  using fresh_id [OF ok room, of "unix_milli now"] opn
  by (simp add: admit_def new_id_def Let_def active_ids_def request_id_def put_active_fresh)

lemma gate_ok_admitted:
  assumes ok: "gate_ok g" and room: "unat (gt_seq g) + 1 < 2 ^ 64"
    and a: "gt_active g' = gt_active g @ [(tk_id t, t)]" "gt_seq g' = gt_seq g + 1"
      "tk_id t = request_id ms (unat (gt_seq g'))"
  shows "gate_ok g'"
proof -
  have "tk_id t \<notin> set (active_ids g)" using fresh_id [OF ok room, of ms] a by simp
  then show ?thesis
    using ok a seq_next [OF room] by (fastforce simp: gate_ok_def active_ids_def)
qed

definition after_op :: "gate_op \<Rightarrow> string list \<Rightarrow> string list" where
  "after_op op is = (case op of OpRelease i \<Rightarrow> filter (\<lambda>j. j \<noteq> i) is | _ \<Rightarrow> is)"

lemma gate_step_silent:
  assumes "gate_ok g" "gate_step op g = (g', None)"
  shows "gate_ok g' \<and> gt_seq g' = gt_seq g \<and> active_ids g' = after_op op (active_ids g)"
proof -
  have r: "active_ids (release i g) = filter (\<lambda>j. j \<noteq> i) (active_ids g)" for i
    by (simp add: active_ids_def release_def signal_gate_def filter_map comp_def case_prod_unfold)
  have silent: "gate_ok g' \<and> gt_seq g' = gt_seq g \<and> active_ids g' = after_op op (active_ids g)"
    if "gt_active g' = gt_active g \<and> gt_seq g' = gt_seq g \<and> after_op op (active_ids g) = active_ids g"
    using that assms(1) by (simp add: gate_ok_def active_ids_def)
  have c: "tk_id (cancel ErrPreempted t) = tk_id t" for t
    by (simp add: cancel_def split: option.splits)
  have f: "active_ids (snd (force_close_all g)) = active_ids g"
    by (simp add: active_ids_def force_close_all_def case_prod_unfold comp_def)
  show ?thesis
  proof (cases op)
    case (OpRelease i)
    with assms r [of i] show ?thesis
      by (auto simp: gate_step_def gate_ok_def after_op_def list_all_iff release_def signal_gate_def)
  next
    case OpForce
    with assms f show ?thesis
      by (fastforce simp: gate_step_def gate_ok_def after_op_def list_all_iff force_close_all_def c)
  qed (use assms(2) in \<open>intro silent; auto simp: gate_defs after_op_def Let_def
      split: if_splits prod.splits sum.splits\<close>)+
qed

lemma gate_step_admits:
  assumes ok: "gate_ok g" and room: "unat (gt_seq g) + 1 < 2 ^ 64"
    and st: "gate_step op g = (g', Some t)"
  shows "gate_ok g' \<and> unat (gt_seq g') = unat (gt_seq g) + 1 \<and> active_ids g' = active_ids g @ [tk_id t]
    \<and> (\<exists>ms. tk_id t = request_id ms (unat (gt_seq g'))) \<and> gt_open g"
proof -
  obtain now where op: "op = OpAdmit now" using st by (cases op) (simp_all add: gate_step_def)
  have opn: "gt_open g"
    using st by (rule_tac ccontr) (simp add: op gate_step_def admit_def)
  from admit_open [OF ok room opn, of now] obtain t' g'' where
    "admit now g = (Inr t', g'')" "gt_active g'' = gt_active g @ [(tk_id t', t')]"
    "tk_id t' = request_id (unix_milli now) (unat (gt_seq g''))" "gt_seq g'' = gt_seq g + 1" by blast
  with st opn gate_ok_admitted [OF ok room, of g'' t'] seq_next [OF room] show ?thesis
    by (auto simp: op gate_step_def active_ids_def)
qed

definition admitted_ids :: "gate \<Rightarrow> ticket list \<Rightarrow> string set" where
  "admitted_ids g ts = set (active_ids g) \<union> tk_id ` set ts"

lemma gate_run_ids:
  assumes "gate_ok g" "unat (gt_seq g) + length ops < 2 ^ 64" "gate_run ops g = (g', ts)"
  shows "gate_ok g' \<and> (\<forall>t \<in> set ts. \<exists>ms n. tk_id t = request_id ms n \<and> unat (gt_seq g) < n)
     \<and> distinct (map tk_id ts) \<and> set (active_ids g') \<subseteq> admitted_ids g ts
     \<and> (\<forall>i \<in> admitted_ids g ts. i \<in> set (active_ids g') \<or> OpRelease i \<in> set ops)"
  using assms
proof (induction ops arbitrary: g ts)
  case Nil
  then show ?case by (simp add: admitted_ids_def)
next
  case (Cons op ops)
  obtain g1 r where s: "gate_step op g = (g1, r)" by fastforce
  obtain us where u: "gate_run ops g1 = (g', us)" and ts: "ts = (case r of None \<Rightarrow> us | Some t \<Rightarrow> t # us)"
    using Cons.prems(3) s by (auto split: prod.splits)
  have room: "unat (gt_seq g) + 1 < 2 ^ 64" using Cons.prems(2) by simp
  show ?case
  proof (cases r)
    case None
    with s Cons.prems(1) have g1: "gate_ok g1" "gt_seq g1 = gt_seq g" "active_ids g1 = after_op op (active_ids g)"
      using gate_step_silent by auto
    then have sub: "set (active_ids g1) \<subseteq> set (active_ids g)"
      "\<forall>i \<in> set (active_ids g). i \<in> set (active_ids g1) \<or> OpRelease i = op"
      by (auto simp: after_op_def split: gate_op.splits)
    show ?thesis
      using Cons.IH [OF g1(1) _ u] Cons.prems(2) g1(2) ts None sub by (auto simp: admitted_ids_def)
  next
    case (Some t)
    with s have g1: "gate_ok g1" "unat (gt_seq g1) = unat (gt_seq g) + 1" "active_ids g1 = active_ids g @ [tk_id t]"
      and t: "\<exists>ms. tk_id t = request_id ms (unat (gt_seq g1))"
      using gate_step_admits [OF Cons.prems(1) room, of op g1 t] by blast+
    note IH = Cons.IH [OF g1(1) _ u]
    have ids: "admitted_ids g ts = admitted_ids g1 us" using g1(3) ts Some by (auto simp: admitted_ids_def)
    from IH Cons.prems(2) g1(2) have lt: "\<forall>t \<in> set us. \<exists>ms n. tk_id t = request_id ms n \<and> unat (gt_seq g1) < n"
      by simp
    have "tk_id t \<notin> tk_id ` set us"
    proof
      assume "tk_id t \<in> tk_id ` set us"
      then obtain ms n where "tk_id t = request_id ms n" "unat (gt_seq g1) < n" using lt by auto
      with t show False using request_id_inj by auto
    qed
    then show ?thesis
      using IH Cons.prems(2) g1(2) t ids lt ts Some by (fastforce simp: less_Suc_eq)
  qed
qed

text \<open>Requests are accounted for: over any sequence of operations of a gate (fewer than \<open>2 ^ 64\<close>
  of them, so that the 64-bit counter does not wrap) every admitted request has an identifier of
  its own, the active requests are admitted ones, and an admitted request stays active until it
  is released.\<close>

theorem gate_accounting:
  assumes "length ops < 2 ^ 64" and "gate_run ops new_gate = (g, ts)"
  shows "distinct (map tk_id ts) \<and> distinct (active_ids g)
    \<and> set (active_ids g) \<subseteq> tk_id ` set ts
    \<and> (\<forall>t \<in> set ts. tk_id t \<in> set (active_ids g) \<or> OpRelease (tk_id t) \<in> set ops)"
  using gate_run_ids [OF gate_ok_new, of ops g ts] assms
  by (auto simp: new_gate_def admitted_ids_def active_ids_def gate_ok_def)

theorem gate_accounting_witness:
  "distinct (map tk_id (snd (gate_run [OpOpen ''u'', OpAdmit 5, OpAdmit 5, OpForce] new_gate)))"
proof -
  obtain g ts where "gate_run [OpOpen ''u'', OpAdmit 5, OpAdmit 5, OpForce] new_gate = (g, ts)"
    by fastforce
  with gate_accounting [OF _ this] show ?thesis by simp
qed

text \<open>A request admitted through an open gate is new, starts now, goes to the upstream the gate was
  opened with, and leaves the other active requests alone; through a closed gate it is refused
  with the reason the gate was closed with, is counted, and changes nothing else.\<close>

theorem admit_correct:
  assumes ok: "gate_ok g" and room: "unat (gt_seq g) + 1 < 2 ^ 64"
  shows "case admit now g of
      (Inr t, g') \<Rightarrow> gt_open g \<and> tk_id t \<notin> set (active_ids g)
        \<and> gt_active g' = gt_active g @ [(tk_id t, t)] \<and> tk_upstream t = gt_upstream g
        \<and> tk_started t = now \<and> tk_cause t = None \<and> gate_ok g'
    | (Inl c, g') \<Rightarrow> \<not> gt_open g \<and> c = gt_closed g
        \<and> g' = g\<lparr>gt_rejected := gt_rejected g + 1\<rparr>"
proof (cases "gt_open g")
  case True
  from admit_open [OF ok room True, of now] obtain t g' where
    "admit now g = (Inr t, g')" "gt_active g' = gt_active g @ [(tk_id t, t)]"
    "tk_id t = request_id (unix_milli now) (unat (gt_seq g'))" "gt_seq g' = gt_seq g + 1"
    "tk_upstream t = gt_upstream g" "tk_started t = now" "tk_cause t = None" by blast
  with True gate_ok_admitted [OF ok room, of g' t] fresh_id [OF ok room, of "unix_milli now"]
  show ?thesis by simp
qed (simp add: admit_def)

theorem admit_correct_witness:
  "case admit 9 (open_gate ''u'' new_gate) of
     (Inr t, g') \<Rightarrow> tk_upstream t = ''u'' \<and> active_ids g' = [tk_id t] | (Inl c, g') \<Rightarrow> False"
proof -
  have "gate_ok (open_gate ''u'' new_gate)" "unat (gt_seq (open_gate ''u'' new_gate)) + 1 < 2 ^ 64"
    by (simp_all add: gate_ok_def open_gate_def signal_gate_def new_gate_def active_ids_def)
  from admit_correct [OF this, of 9] show ?thesis
    by (auto simp: open_gate_def signal_gate_def new_gate_def active_ids_def split: prod.splits sum.splits)
qed

subsection \<open>Cutting requests off, and their age\<close>

text \<open>\<open>ForceCloseAll\<close> cancels every active request and reports exactly their identifiers; a
  request that was already cancelled keeps its cause, and none is removed before its handler
  releases it.\<close>

theorem force_close_all_complete:
  assumes ok: "gate_ok g" and f: "force_close_all g = (ids, g')"
  shows "ids = active_ids g \<and> active_ids g' = active_ids g \<and> gt_open g' = gt_open g
    \<and> list_all (\<lambda>(i, t). tk_cause t \<noteq> None) (gt_active g')
    \<and> (\<forall>i t. (i, t) \<in> set (gt_active g) \<and> tk_cause t = None \<longrightarrow>
          (i, t\<lparr>tk_cause := Some ErrPreempted\<rparr>) \<in> set (gt_active g'))"
  using assms
  by (force simp: force_close_all_def active_ids_def gate_ok_def list_all_iff cancel_def
      split: option.splits)

theorem force_close_all_complete_witness:
  "fst (force_close_all (snd (admit 9 (open_gate ''u'' new_gate)))) =
     active_ids (snd (admit 9 (open_gate ''u'' new_gate)))"
proof -
  let ?g = "snd (admit 9 (open_gate ''u'' new_gate))"
  have "gate_ok ?g"
    by (simp add: gate_ok_def open_gate_def signal_gate_def new_gate_def active_ids_def admit_def
        new_id_def Let_def put_active_def request_id_def) blast
  from force_close_all_complete [OF this, of "fst (force_close_all ?g)" "snd (force_close_all ?g)"]
  show ?thesis by simp
qed

end
