(* ===== verification/Telemetry.thy ===== *)
theory Telemetry
  imports Float64
begin

text \<open>
  Package \<open>internal/telemetry\<close> (\<open>sample.go\<close>): one observation of the adapter, and its split into the
  managed runtime's share and everything else. Byte counts are \<open>uint64\<close> in the source; they are
  natural numbers here and every addition wraps (\<open>u64\<close>). A Go map of readings is an association
  list with distinct keys. The split combines the engines with \<open>max\<close>, so the iteration order of
  the map does not matter. \<open>sort.Slice\<close> leaves the order of equal elements open; the model sorts
  stably.
\<close>

definition u64 :: "nat \<Rightarrow> nat" where
  "u64 n = n mod 2 ^ 64"

record engine =
  en_key :: string
  en_type :: string
  en_util_pct :: flt

record proc_gpu =
  pg_pid :: int
  pg_name :: string
  pg_engine_util :: "(string \<times> flt) list"
  pg_engine_by_key :: "(string \<times> flt) list"
  pg_dedicated_bytes :: nat
  pg_shared_bytes :: nat

record sample =
  sm_time :: time
  sm_adapter_luid :: string
  sm_adapter_name :: string
  sm_dedicated_total_bytes :: nat
  sm_dedicated_used_bytes :: nat
  sm_shared_used_bytes :: nat
  sm_has_adapter_instances :: bool
  sm_temperature_c :: "flt option"
  sm_power_pct :: "flt option"
  sm_fan_rpm :: "int option"
  sm_engines :: "engine list"
  sm_processes :: "proc_gpu list"
  sm_invalid_readings :: int
  sm_collect_duration :: dur
  sm_complete :: bool
  sm_errors :: "string list"

definition max_util :: "proc_gpu \<Rightarrow> flt" where
  "max_util p = fold (\<lambda>(_, v) m. if m < v then v else m) (pg_engine_util p) 0"

record demand =
  dm_total_util_pct :: flt
  dm_own_util_pct :: flt
  dm_external_util_pct :: flt
  dm_external_util_by_type :: "(string \<times> flt) list"
  dm_own_dedicated_bytes :: nat
  dm_external_dedicated_bytes :: nat
  dm_free_dedicated_bytes :: nat
  dm_attributed :: bool
  dm_top_external :: "proc_gpu list"

definition clamp_pct :: "flt \<Rightarrow> flt" where
  "clamp_pct v = (if v < 0 then 0 else if 100 < v then 100 else v)"

text \<open>The accumulator of one engine: total and own utilization.\<close>

type_synonym eng_acc = "(string \<times> flt \<times> flt) list"

fun acc_add :: "string \<Rightarrow> flt \<Rightarrow> bool \<Rightarrow> eng_acc \<Rightarrow> eng_acc" where
  "acc_add k v own [] = [(k, fadd 0 v, if own then fadd 0 v else 0)]"
| "acc_add k v own ((k', t, o') # as) =
     (if k = k' then (k', fadd t v, if own then fadd o' v else o') # as
      else (k', t, o') # acc_add k v own as)"

definition acc_proc :: "(int \<Rightarrow> bool) \<Rightarrow> proc_gpu \<Rightarrow> eng_acc \<Rightarrow> eng_acc" where
  "acc_proc own p as = fold (\<lambda>(k, v). acc_add k v (own (pg_pid p))) (pg_engine_by_key p) as"

fun acc_init :: "engine list \<Rightarrow> eng_acc \<Rightarrow> eng_acc" where
  "acc_init [] as = as"
| "acc_init (e # es) as =
     acc_init es (if en_key e \<in> fst ` set as
       then map (\<lambda>(k, x). if k = en_key e then (k, 0, 0) else (k, x)) as
       else as @ [(en_key e, 0, 0)])"

fun eng_type :: "engine list \<Rightarrow> string \<Rightarrow> string" where
  "eng_type [] k = ''''"
| "eng_type (e # es) k = (let t = eng_type es k in
     if k \<in> en_key ` set es then t else if en_key e = k then en_type e else '''')"

text \<open>The engine total of an unattributed sample: the last engine with the key wins.\<close>

fun engine_total :: "engine list \<Rightarrow> string \<Rightarrow> flt \<Rightarrow> flt" where
  "engine_total [] k t = t"
| "engine_total (e # es) k t =
     engine_total es k (if en_key e = k then clamp_pct (en_util_pct e) else t)"

definition engine_split :: "sample \<Rightarrow> bool \<Rightarrow> string \<times> flt \<times> flt \<Rightarrow> flt \<times> flt \<times> flt" where
  "engine_split s attributed = (\<lambda>(k, t, o').
     (let total = (if attributed then clamp_pct t else engine_total (sm_engines s) k (clamp_pct t))
      in (total, clamp_pct o', if attributed then clamp_pct (fsub t o') else total)))"

fun by_type_max :: "string \<Rightarrow> flt \<Rightarrow> (string \<times> flt) list \<Rightarrow> (string \<times> flt) list" where
  "by_type_max t v [] = [(t, max 0 v)]"
| "by_type_max t v ((t', v') # xs) =
     (if t = t' then (t', max v' v) # xs else (t', v') # by_type_max t v xs)"

definition more_demanding :: "proc_gpu \<Rightarrow> proc_gpu \<Rightarrow> bool" where
  "more_demanding a b = (if max_util a \<noteq> max_util b then max_util b < max_util a
     else pg_dedicated_bytes b < pg_dedicated_bytes a)"

fun insert_demand :: "proc_gpu \<Rightarrow> proc_gpu list \<Rightarrow> proc_gpu list" where
  "insert_demand p [] = [p]"
| "insert_demand p (q # qs) = (if more_demanding q p then q # insert_demand p qs else p # q # qs)"

definition sort_demand :: "proc_gpu list \<Rightarrow> proc_gpu list" where
  "sort_demand ps = foldr insert_demand ps []"

definition split_sample :: "sample \<Rightarrow> (int \<Rightarrow> bool) \<Rightarrow> demand" where
  "split_sample s own =
     (let procs = sm_processes s;
          attributed = (procs \<noteq> []);
          accs = fold (acc_proc own) procs (acc_init (sm_engines s) []);
          own_bytes = fold (\<lambda>p b. if own (pg_pid p) then u64 (b + pg_dedicated_bytes p) else b) procs 0;
          ext_bytes = fold (\<lambda>p b. if own (pg_pid p) then b else u64 (b + pg_dedicated_bytes p)) procs 0;
          ext = filter (\<lambda>p. \<not> own (pg_pid p) \<and> (0 < pg_dedicated_bytes p \<or> 0 < max_util p)) procs;
          parts = map (engine_split s attributed) accs;
          types = map (\<lambda>(k, _). let t = eng_type (sm_engines s) k in if t = '''' then ''Unknown'' else t) accs;
          used = sm_dedicated_used_bytes s
      in \<lparr>dm_total_util_pct = fold (\<lambda>(t, _, _) m. max m t) parts 0,
          dm_own_util_pct = fold (\<lambda>(_, o', _) m. max m o') parts 0,
          dm_external_util_pct = fold (\<lambda>(_, _, x) m. max m x) parts 0,
          dm_external_util_by_type =
            fold (\<lambda>(t, (_, _, x)). by_type_max t x) (zip types parts) [],
          dm_own_dedicated_bytes = own_bytes,
          dm_external_dedicated_bytes =
            (if \<not> attributed then used
             else if own_bytes < used then max ext_bytes (used - own_bytes) else ext_bytes),
          dm_free_dedicated_bytes =
            (if used < sm_dedicated_total_bytes s then sm_dedicated_total_bytes s - used else 0),
          dm_attributed = attributed,
          dm_top_external = take 5 (sort_demand ext)\<rparr>)"

lemma clamp_pct_bounds: "0 \<le> clamp_pct v" "clamp_pct v \<le> 100"
  by (auto simp: clamp_pct_def)

lemma engine_total_bounds: "0 \<le> t \<Longrightarrow> t \<le> 100 \<Longrightarrow> 0 \<le> engine_total es k t \<and> engine_total es k t \<le> 100"
  by (induction es k t rule: engine_total.induct) (auto simp: clamp_pct_bounds)

lemma fold_max_bounds:
  "0 \<le> m \<Longrightarrow> m \<le> (100 :: flt) \<Longrightarrow> (\<And>x. x \<in> set xs \<Longrightarrow> f x \<le> 100) \<Longrightarrow>
     0 \<le> fold (\<lambda>x m. max m (f x)) xs m \<and> fold (\<lambda>x m. max m (f x)) xs m \<le> 100"
  by (induction xs arbitrary: m) auto

lemma fold_max_ge: "(m :: flt) \<le> fold (\<lambda>x m. max m (f x)) xs m"
  by (induction xs arbitrary: m) (auto intro: order.trans [OF max.cobounded1])

lemma fold_max_ge_in: "x \<in> set xs \<Longrightarrow> (f x :: flt) \<le> fold (\<lambda>x m. max m (f x)) xs m"
  by (induction xs arbitrary: m) (auto intro: order.trans [OF max.cobounded2 fold_max_ge])

lemma engine_split_bounds:
  assumes "(t, o', x) = engine_split s a acc"
  shows "0 \<le> t \<and> t \<le> 100 \<and> 0 \<le> o' \<and> o' \<le> 100 \<and> 0 \<le> x \<and> x \<le> 100"
  using assms engine_total_bounds [OF clamp_pct_bounds]
  by (auto simp: engine_split_def Let_def clamp_pct_bounds split: prod.splits if_splits)

lemma length_insert_demand [simp]: "length (insert_demand p qs) = Suc (length qs)"
  by (induction p qs rule: insert_demand.induct) auto

lemma set_insert_demand [simp]: "set (insert_demand p qs) = insert p (set qs)"
  by (induction p qs rule: insert_demand.induct) auto

lemma set_sort_demand [simp]: "set (sort_demand ps) = set ps"
  by (induction ps) (auto simp: sort_demand_def)

lemma split_sel:
  "dm_total_util_pct (split_sample s own) = fold (\<lambda>x m. max m (fst x))
     (map (engine_split s (sm_processes s \<noteq> [])) (fold (acc_proc own) (sm_processes s) (acc_init (sm_engines s) []))) 0"
  "dm_own_util_pct (split_sample s own) = fold (\<lambda>x m. max m (fst (snd x)))
     (map (engine_split s (sm_processes s \<noteq> [])) (fold (acc_proc own) (sm_processes s) (acc_init (sm_engines s) []))) 0"
  "dm_external_util_pct (split_sample s own) = fold (\<lambda>x m. max m (snd (snd x)))
     (map (engine_split s (sm_processes s \<noteq> [])) (fold (acc_proc own) (sm_processes s) (acc_init (sm_engines s) []))) 0"
  by (simp_all add: split_sample_def Let_def case_prod_unfold)

text \<open>The split of a sample: every utilization figure is a percentage; nothing the adapter
  reports as used is lost (what is not the runtime's own memory counts as external); at most five
  external processes are listed and none of them belongs to the runtime.\<close>

theorem split_sound:
  "let d = split_sample s own in
   0 \<le> dm_total_util_pct d \<and> dm_total_util_pct d \<le> 100
   \<and> 0 \<le> dm_own_util_pct d \<and> dm_own_util_pct d \<le> 100
   \<and> 0 \<le> dm_external_util_pct d \<and> dm_external_util_pct d \<le> 100
   \<and> sm_dedicated_used_bytes s \<le> dm_own_dedicated_bytes d + dm_external_dedicated_bytes d
   \<and> length (dm_top_external d) \<le> 5
   \<and> set (dm_top_external d) \<subseteq> {p \<in> set (sm_processes s). \<not> own (pg_pid p)}"
proof -
  let ?parts = "map (engine_split s (sm_processes s \<noteq> []))
    (fold (acc_proc own) (sm_processes s) (acc_init (sm_engines s) []))"
  have b: "fst x \<le> 100" "fst (snd x) \<le> 100" "snd (snd x) \<le> 100" if x: "x \<in> set ?parts" for x
  proof -
    obtain a where "x = engine_split s (sm_processes s \<noteq> []) a"
      using x unfolding set_map by blast
    then show "fst x \<le> 100" "fst (snd x) \<le> 100" "snd (snd x) \<le> 100"
      using engine_split_bounds [of "fst x" "fst (snd x)" "snd (snd x)" s "sm_processes s \<noteq> []" a]
      by simp_all
  qed
  have mem: "sm_dedicated_used_bytes s \<le> dm_own_dedicated_bytes (split_sample s own) + dm_external_dedicated_bytes (split_sample s own)"
    by (auto simp: split_sample_def Let_def)
  have top: "set (dm_top_external (split_sample s own)) \<subseteq> {p \<in> set (sm_processes s). \<not> own (pg_pid p)}"
    by (auto simp: split_sample_def Let_def dest!: in_set_takeD)
  have len: "length (dm_top_external (split_sample s own)) \<le> 5" by (simp add: split_sample_def Let_def)
  show ?thesis
    unfolding Let_def split_sel
    using fold_max_bounds [of 0 ?parts fst] fold_max_bounds [of 0 ?parts "\<lambda>x. fst (snd x)"]
      fold_max_bounds [of 0 ?parts "\<lambda>x. snd (snd x)"] b mem top len by auto
qed

end
