(* ===== verification/Controller_State.thy ===== *)
theory Controller_State
  imports Policy Events Gate Telemetry
begin

text \<open>
  Package \<open>internal/controller\<close>, its state. The controller is the single writer of the lifecycle
  state and every method runs under its mutex, so a method is a function from state to state.

  \<^item> Collaborators that other code provides (the runtime adapter, the telemetry source, the fact
    builder, the process list, the stores) are inputs: what they answer during one step is the
    record \<open>env\<close>, and which of the optional ones are configured is the record \<open>deps\<close>. The
    admission gate is part of the state, because the controller shares it with the proxy.
  \<^item> A goroutine the controller starts (waiting for a load, stopping a runtime) is an entry of
    \<open>cs_jobs\<close>; when it ends, its result is put into the channel the source uses. The channels are
    queues, \<open>wake\<close> a flag.
  \<^item> Emitted events, metric updates and calls of collaborators are appended to logs.
\<close>

record rt_instance =
  in_id :: nat
  in_pid :: int
  in_base_url :: string

record stop_info =
  sr_already_exited :: bool
  sr_graceful :: bool
  sr_kill_fallback :: bool
  sr_interrupt_err :: string
  sr_root_exit :: dur
  sr_tree_empty :: dur

record orphan =
  or_pid :: int
  or_path :: string
  or_killed :: bool
  or_err :: string

record process =
  pr_pid :: int
  pr_ppid :: int
  pr_name :: string
  pr_path :: string
  pr_session_id :: int
  pr_create_time :: time

record gpu_reset =
  gr_file :: string
  gr_time :: time

record load_result =
  lr_inst :: rt_instance
  lr_err :: "string option"

record stop_result =
  sp_res :: stop_info
  sp_err :: "string option"
  sp_cleanup :: bool

datatype job = WaitReady rt_instance dur | StopJob rt_instance dur bool

record vram_check =
  vc_active :: bool
  vc_since :: time
  vc_used_before :: int
  vc_footprint :: int

text \<open>The signature of an attribution episode is the triple whose rendering the source compares.\<close>

record attribution_episode =
  ae_pid :: int
  ae_since :: time
  ae_signature :: "(string list \<times> int list \<times> string list) option"
  ae_detail :: gotext
  ae_identity_only :: bool

record persisted =
  pd_mode :: mode_facts
  pd_mode_set_at :: time
  pd_until_reboot :: bool
  pd_boot_time :: time
  pd_telemetry_losses :: int
  pd_gpu_resets :: int
  pd_last_gpu_check :: time
  pd_timers :: timer_facts
  pd_crash_count :: int
  pd_footprint_mib :: int
  pd_last_load_seconds :: flt

datatype metric =
    SetState state | IncTransition state state | IncLoad string | ObserveLoadSeconds flt
  | SetActiveRequests nat | IncDrain string | IncPreemption rule bool | IncCooldown
  | IncSuppression | IncRuntimeCrash | IncTelemetryFailure | ObserveVRAMReleaseSeconds flt
  | SetNextLoadSeconds flt | IncOrphansKilled nat | SetGPU gpu_facts

datatype call =
    CallStart runtime_cfg | CallReconcile runtime_cfg | CallRebuild | CallSave persisted
  | CallResetsSince time

record fact_input =
  fi_sample :: "sample option"
  fi_procs :: "process list option"
  fi_runtime_pid :: int
  fi_own_pids :: "int list"
  fi_runtime_busy :: bool
  fi_footprint_mib :: int
  fi_profile :: profile
  fi_config :: config

text \<open>The collaborators that are configured.\<close>

record deps =
  dp_adapter :: bool
  dp_telemetry :: bool
  dp_processes :: bool
  dp_facts :: bool
  dp_persist :: bool
  dp_metrics :: bool
  dp_gpu_resets :: bool
  dp_gpu_resets_since :: bool
  dp_boot_time :: bool
  dp_load_blocked :: string
  dp_version :: string

text \<open>What the collaborators answer during one step.\<close>

record env =
  ev_now :: time
  ev_tz :: tzdb
  ev_sample :: sample
  ev_procs :: "process list option"
  ev_build :: "time \<Rightarrow> fact_input \<Rightarrow> gpu_facts \<times> app_facts \<times> session_facts"
  ev_members :: "rt_instance \<Rightarrow> int list"
  ev_exited :: "rt_instance \<Rightarrow> bool"
  ev_exit_err :: "rt_instance \<Rightarrow> string option"
  ev_diag :: "rt_instance \<Rightarrow> string"
  ev_start :: "string + rt_instance"
  ev_orphans :: "orphan list"
  ev_resets :: "gpu_reset list"
  ev_setup :: "string option"
  ev_boot :: "time option"
  ev_save_ok :: bool

record ctl =
  cs_cfg :: config
  cs_cfg_source :: string
  cs_cfg_problem :: string
  cs_cfg_problem_fields :: "field_error list"
  cs_config_revision :: string
  cs_restart_needed :: bool
  cs_st :: state
  cs_inst :: "rt_instance option"
  cs_load_start :: time
  cs_loaded_at :: time
  cs_last_load_s :: flt
  cs_footprint :: int
  cs_crash_count :: int
  cs_baseline :: int
  cs_ready_ch :: "load_result list"
  cs_stop_ch :: "stop_result list"
  cs_wake :: bool
  cs_jobs :: "job list"
  cs_drain_start :: time
  cs_drain_deadline :: time
  cs_yield :: decision
  cs_yield_manual :: string
  cs_vram :: vram_check
  cs_timers :: timer_facts
  cs_mode :: mode_facts
  cs_mode_set_at :: time
  cs_until_reboot :: bool
  cs_power :: power_facts
  cs_gpu :: gpu_facts
  cs_apps :: app_facts
  cs_session :: session_facts
  cs_sample :: sample
  cs_procs :: "process list"
  cs_procs_ok :: bool
  cs_last_proc_scan :: time
  cs_decision :: decision
  cs_last_evaluated :: time
  cs_setup_problem :: string
  cs_last_setup_check :: time
  cs_setup_pending :: bool
  cs_attribution :: attribution_episode
  cs_telemetry_lost :: bool
  cs_telemetry_losses :: int
  cs_gpu_resets :: int
  cs_last_gpu_check :: time
  cs_last_gpu_reset :: time
  cs_manual_pending :: string
  cs_persisted :: "persisted option"
  cs_recent_errors :: "event list"
  cs_zombie :: "rt_instance option"
  cs_zombie_stopping :: bool
  cs_zombie_retry_at :: time
  cs_zombie_attempts :: int
  cs_sched_cache :: time
  cs_sched_cache_at :: time
  cs_sched_cache_valid :: bool
  cs_cond :: condition
  cs_gate :: gate
  cs_events :: "event list"
  cs_metrics :: "metric list"
  cs_calls :: "call list"

definition zero_decision :: decision where
  "zero_decision = \<lparr>de_action = NoAction, de_rule = no_rule, de_tier = 0, de_severity = NoSeverity,
     de_reason = lit '''', de_evidence = [], de_profile = '''', de_profile_source = NoSource,
     de_mode = OtherMode '''', de_grace = 0, de_competing = False, de_counts_as_preemption = False,
     de_suppress = False, de_idle_state = no_state, de_next_load_at = 0, de_also_matched = []\<rparr>"

definition zero_vram :: vram_check where
  "zero_vram = \<lparr>vc_active = False, vc_since = 0, vc_used_before = 0, vc_footprint = 0\<rparr>"

definition zero_attribution :: attribution_episode where
  "zero_attribution = \<lparr>ae_pid = 0, ae_since = 0, ae_signature = None, ae_detail = lit '''',
     ae_identity_only = False\<rparr>"

definition zero_sample :: sample where
  "zero_sample = \<lparr>sm_time = 0, sm_adapter_luid = '''', sm_adapter_name = '''',
     sm_dedicated_total_bytes = 0, sm_dedicated_used_bytes = 0, sm_shared_used_bytes = 0,
     sm_has_adapter_instances = False, sm_temperature_c = None, sm_power_pct = None,
     sm_fan_rpm = None, sm_engines = [], sm_processes = [], sm_invalid_readings = 0,
     sm_collect_duration = 0, sm_complete = False, sm_errors = []\<rparr>"

definition no_power :: power_facts where
  "no_power = \<lparr>pw_suspending = False, pw_shutting_down = False, pw_device_lost = False\<rparr>"

definition auto_mode :: mode_facts where
  "auto_mode = \<lparr>mf_mode = ModeAuto, mf_until = None, mf_set_by = ''''\<rparr>"

text \<open>\<open>New\<close>.\<close>

definition new_controller :: "config \<Rightarrow> string \<Rightarrow> string \<Rightarrow> field_error list \<Rightarrow> ctl" where
  "new_controller cfg src prob fes = \<lparr>cs_cfg = cfg, cs_cfg_source = src, cs_cfg_problem = prob,
     cs_cfg_problem_fields = fes, cs_config_revision = '''', cs_restart_needed = False,
     cs_st = Stopped, cs_inst = None,
     cs_load_start = 0, cs_loaded_at = 0, cs_last_load_s = 0, cs_footprint = 0, cs_crash_count = 0,
     cs_baseline = 0, cs_ready_ch = [], cs_stop_ch = [], cs_wake = False, cs_jobs = [],
     cs_drain_start = 0, cs_drain_deadline = 0, cs_yield = zero_decision, cs_yield_manual = '''',
     cs_vram = zero_vram, cs_timers = zero_timers, cs_mode = auto_mode, cs_mode_set_at = 0,
     cs_until_reboot = False, cs_power = no_power, cs_gpu = zero_gpu, cs_apps = zero_apps,
     cs_session = zero_session, cs_sample = zero_sample, cs_procs = [], cs_procs_ok = False,
     cs_last_proc_scan = 0, cs_decision = zero_decision, cs_last_evaluated = 0,
     cs_setup_problem = '''', cs_last_setup_check = 0, cs_setup_pending = False,
     cs_attribution = zero_attribution, cs_telemetry_lost = False, cs_telemetry_losses = 0,
     cs_gpu_resets = 0, cs_last_gpu_check = 0, cs_last_gpu_reset = 0, cs_manual_pending = '''',
     cs_persisted = None, cs_recent_errors = [], cs_zombie = None, cs_zombie_stopping = False,
     cs_zombie_retry_at = 0, cs_zombie_attempts = 0, cs_sched_cache = 0, cs_sched_cache_at = 0,
     cs_sched_cache_valid = False, cs_cond = Unavailable, cs_gate = new_gate,
     cs_events = [], cs_metrics = [], cs_calls = []\<rparr>"

end
