(* ===== verification/Controller.thy ===== *)
theory Controller
  imports Controller_State
begin

text \<open>
  Package \<open>internal/controller\<close> (\<open>controller.go\<close>, \<open>step.go\<close>, \<open>attribution.go\<close>): one definition per
  method, composed as the source composes them. \<open>D\<close> says which collaborators are configured and
  \<open>E\<close> what they answer during the step. Log lines are not modelled.
\<close>

subsection \<open>Shared helpers\<close>

definition metric :: "deps \<Rightarrow> metric \<Rightarrow> ctl \<Rightarrow> ctl" where
  "metric D m c = (if dp_metrics D then c\<lparr>cs_metrics := cs_metrics c @ [m]\<rparr> else c)"

definition log_call :: "call \<Rightarrow> ctl \<Rightarrow> ctl" where
  "log_call k c = c\<lparr>cs_calls := cs_calls c @ [k]\<rparr>"

definition round_dur :: "dur \<Rightarrow> dur \<Rightarrow> dur" where
  "round_dur u d = sgn d * ((\<bar>d\<bar> + u div 2) div u) * u"

definition milliseconds :: "dur \<Rightarrow> int" where
  "milliseconds d = go_div d millisecond"

definition dur_seconds :: "dur \<Rightarrow> flt" where
  "dur_seconds d = (let s = go_div d second in
     fadd (of_int_f s) (fdiv (of_int_f (d - s * second)) (of_int 1000000000)))"

text \<open>\<open>for i := 1; i < n && d < limit; i++ { d *= 2 }; min(d, limit)\<close>: the bounded doubling that
  crash backoff, telemetry recovery, driver resets and termination retries share.\<close>

function double_loop :: "int \<Rightarrow> int \<Rightarrow> dur \<Rightarrow> dur \<Rightarrow> dur" where
  "double_loop i n d limit =
     (if i < n \<and> d < limit then double_loop (i + 1) n (wrap64 (d * 2)) limit else d)"
  by pat_completeness auto
termination
  by (relation "measure (\<lambda>(i, n, d, limit). nat (n - i))") auto

declare double_loop.simps [simp del]

definition escalate :: "int \<Rightarrow> dur \<Rightarrow> dur \<Rightarrow> dur" where
  "escalate n d limit = min (double_loop 1 n d limit) limit"

definition is_error_event :: "event \<Rightarrow> bool" where
  "is_error_event e = (ee_severity e = SeverityCritical \<or> ee_type e = RuntimeCrashed
     \<or> ee_type e = KillFailed \<or> ee_type e = LoadFailed)"

definition last_n :: "nat \<Rightarrow> 'a list \<Rightarrow> 'a list" where
  "last_n n xs = drop (length xs - n) xs"

definition emit :: "env \<Rightarrow> event \<Rightarrow> ctl \<Rightarrow> ctl" where
  "emit E e c =
     (let e1 = (if ee_time e = 0 then e\<lparr>ee_time := ev_now E\<rparr> else e);
          e2 = (if ee_state e1 = no_state
                then e1\<lparr>ee_state := cs_st c, ee_condition := condition_of (cs_st c)\<rparr> else e1);
          e3 = (if ee_profile e2 = '''' then e2\<lparr>ee_profile := de_profile (cs_decision c)\<rparr> else e2);
          e4 = (if ee_mode e3 = OtherMode '''' then e3\<lparr>ee_mode := mf_mode (cs_mode c)\<rparr> else e3);
          e5 = (case cs_inst c of
                  Some i \<Rightarrow> (if ee_runtime_pid e4 = 0 then e4\<lparr>ee_runtime_pid := in_pid i\<rparr> else e4)
                | None \<Rightarrow> e4)
      in c\<lparr>cs_recent_errors := (if is_error_event e5 then last_n 5 (cs_recent_errors c @ [e5])
                               else cs_recent_errors c),
           cs_events := cs_events c @ [e5]\<rparr>)"

definition transition ::
  "deps \<Rightarrow> env \<Rightarrow> time \<Rightarrow> state \<Rightarrow> decision \<Rightarrow> gotext \<Rightarrow> (string \<times> edata) list \<Rightarrow> ctl \<Rightarrow> bool \<times> ctl" where
  "transition D E now to d msg dat c =
     (let from = cs_st c in
      if from = to then (True, c)
      else if \<not> can_transition from to then (False, c)
      else
        (let c1 = c\<lparr>cs_st := to, cs_cond := condition_of to\<rparr>;
             c2 = metric D (SetState to) (metric D (IncTransition from to) c1)
         in if from = Ready \<and> to = Busy \<or> from = Busy \<and> to = Ready then (True, c2)
            else (True, emit E ((from_decision StateChanged now d (cs_gpu c2))
                   \<lparr>ee_prev_state := from, ee_state := to, ee_condition := condition_of to,
                    ee_message := (if msg = lit '''' then de_reason d else msg), ee_data := dat\<rparr>) c2)))"

definition set_recovery :: "env \<Rightarrow> time \<Rightarrow> dur \<Rightarrow> string \<Rightarrow> ctl \<Rightarrow> ctl" where
  "set_recovery E now d reason c =
     (let until = now + d in
      if tm_recovery_until (cs_timers c) < until then
        (let c1 = c\<lparr>cs_timers := (cs_timers c)\<lparr>tm_recovery_until := until,
                      tm_recovery_reason := reason\<rparr>\<rparr>
         in if 0 < d
            then emit E (mk_event now RecoveryScheduled NoSeverity
                   (Sprintf ''Next load not before %s (%s)'' [FClock until, FStr reason])
                   [(''until'', DTime until), (''reason'', DStr reason)]) c1
            else c1)
      else c)"

definition persist :: "deps \<Rightarrow> env \<Rightarrow> ctl \<Rightarrow> ctl" where
  "persist D E c =
     (if \<not> dp_persist D then c
      else
        (let p = \<lparr>pd_mode = cs_mode c, pd_mode_set_at = cs_mode_set_at c,
                  pd_until_reboot = cs_until_reboot c,
                  pd_boot_time = (if dp_boot_time D then (case ev_boot E of Some t \<Rightarrow> t | None \<Rightarrow> 0) else 0),
                  pd_telemetry_losses = cs_telemetry_losses c, pd_gpu_resets = cs_gpu_resets c,
                  pd_last_gpu_check = cs_last_gpu_check c, pd_timers = cs_timers c,
                  pd_crash_count = cs_crash_count c, pd_footprint_mib = cs_footprint c,
                  pd_last_load_seconds = cs_last_load_s c\<rparr>
         in if cs_persisted c = Some p then c
            else let c1 = log_call (CallSave p) c in
              if ev_save_ok E then c1\<lparr>cs_persisted := Some p\<rparr> else c1))"

fun emit_orphans :: "env \<Rightarrow> time \<Rightarrow> orphan list \<Rightarrow> ctl \<Rightarrow> ctl" where
  "emit_orphans E now [] c = c"
| "emit_orphans E now (o' # os) c = emit_orphans E now os
     (emit E (mk_event now OrphanKilled SeverityWarning
        (Sprintf ''Found runtime process %d not owned by this worker; killed=%v''
           [FInt (or_pid o'), FStr (if or_killed o' then ''true'' else ''false'')])
        [(''pid'', DInt (or_pid o')), (''path'', DStr (or_path o')), (''killed'', DBool (or_killed o')),
         (''error'', DStr (or_err o'))]) c)"

definition reconcile :: "deps \<Rightarrow> env \<Rightarrow> time \<Rightarrow> ctl \<Rightarrow> ctl" where
  "reconcile D E now c =
     (if \<not> dp_adapter D then c
      else
        (let c1 = emit_orphans E now (ev_orphans E) (log_call (CallReconcile (cf_runtime (cs_cfg c))) c);
             killed = length (filter or_killed (ev_orphans E))
         in if 0 < killed then metric D (IncOrphansKilled killed) c1 else c1))"

definition fault_recovery :: "string \<Rightarrow> bool" where
  "fault_recovery r = list_ex (\<lambda>p. has_prefix r p) [''GPU'', ''kill'', ''crash'', ''telemetry'', ''device'']"

definition manual_kind :: "rule \<Rightarrow> string" where
  "manual_kind r = (if r = OtherRule ''manual.drain'' then ''drain''
     else if r = OtherRule ''manual.reload'' then ''reload'' else '''')"

definition mode_title :: "mode \<Rightarrow> string" where
  "mode_title m = (case m of ModePause \<Rightarrow> ''Pause AI'' | ModeAIPriority \<Rightarrow> ''AI Priority'' | _ \<Rightarrow> ''Auto'')"

definition upper_first :: "string \<Rightarrow> string" where
  "upper_first s = (case s of [] \<Rightarrow> [] | ch # r \<Rightarrow>
     (if 97 \<le> (of_char ch :: nat) \<and> (of_char ch :: nat) \<le> 122 then char_of ((of_char ch :: nat) - 32) else ch) # r)"

definition join_msg :: "gotext \<Rightarrow> string \<Rightarrow> gotext" where
  "join_msg a b = (if b = '''' then a else Sprintf ''%s. %s'' [FText a, FStr (upper_first b)])"

definition tail_str :: "string \<Rightarrow> nat \<Rightarrow> string" where
  "tail_str s n = last_n n s"

definition is_game_rule :: "rule \<Rightarrow> bool" where
  "is_game_rule r = (r = RuleGameProcess \<or> r = RuleGameConfirmed \<or> r = RuleLauncherChildGPU)"

definition prune_times :: "time list \<Rightarrow> time \<Rightarrow> dur \<Rightarrow> time list" where
  "prune_times ts now w = filter (\<lambda>t. t_sub now t \<le> w) ts"

subsection \<open>The gate and the end of a run\<close>

definition close_gate_for :: "decision \<Rightarrow> ctl \<Rightarrow> nat \<times> ctl" where
  "close_gate_for d c =
     (let cond = (if admitting (cs_st c) then Yielding else Unavailable);
          (g, n) = close_gate \<lparr>cd_condition = cond, cd_reason = de_reason d,
                     cd_retry_after = de_next_load_at d\<rparr> (cs_gate c)
      in (n, c\<lparr>cs_gate := g\<rparr>))"

definition force_close :: "deps \<Rightarrow> env \<Rightarrow> time \<Rightarrow> decision \<Rightarrow> string \<Rightarrow> ctl \<Rightarrow> ctl" where
  "force_close D E now d why c =
     (let (ids, g) = force_close_all (cs_gate c); c1 = c\<lparr>cs_gate := g\<rparr> in
      if ids = [] then c1
      else
        (let c2 = metric D (IncPreemption (de_rule d) True) c1 in
         emit E ((from_decision Preempted now d (cs_gpu c2))
           \<lparr>ee_message := Sprintf ''Force-terminating %d active request(s): %s (%s)''
               [FInt (int (length ids)), FStr why, FText (de_reason d)],
            ee_data := [(''request_ids'', DStrs ids), (''why'', DStr why)]
              @ (if cs_drain_start c2 \<noteq> 0
                 then [(''drain_ms'', DInt (milliseconds (t_sub now (cs_drain_start c2))))] else [])\<rparr>) c2))"

definition begin_stop :: "deps \<Rightarrow> env \<Rightarrow> time \<Rightarrow> decision \<Rightarrow> string \<Rightarrow> ctl \<Rightarrow> ctl" where
  "begin_stop D E now d msg c =
     (let c1 = (if de_rule (cs_yield c) = no_rule \<or> cs_st c \<noteq> Draining
                then c\<lparr>cs_yield := d, cs_yield_manual := manual_kind (de_rule d)\<rparr> else c);
          (_, c2) = close_gate_for d c1;
          (ok, c3) = transition D E now Preempting d (join_msg (de_reason d) msg) [] c2
      in if \<not> ok then c3
         else
           (let c4 = c3\<lparr>cs_vram := \<lparr>vc_active = False, vc_since = 0,
                          vc_used_before = gf_vram_used_mib (cs_gpu c3), vc_footprint = cs_footprint c3\<rparr>\<rparr>
            in case cs_inst c4 of
                 None \<Rightarrow> c4\<lparr>cs_stop_ch := cs_stop_ch c4 @
                     [\<lparr>sp_res = \<lparr>sr_already_exited = True, sr_graceful = False, sr_kill_fallback = False,
                         sr_interrupt_err = '''', sr_root_exit = 0, sr_tree_empty = 0\<rparr>,
                       sp_err = None, sp_cleanup = False\<rparr>]\<rparr>
               | Some i \<Rightarrow> c4\<lparr>cs_jobs := cs_jobs c4 @
                     [StopJob i (rt_kill_verify_timeout (cf_runtime (cs_cfg c4))) False]\<rparr>))"

definition zombie_backoff :: "ctl \<Rightarrow> dur" where
  "zombie_backoff c = escalate (cs_zombie_attempts c) (10 * second) (5 * minute)"

definition backoff :: "env \<Rightarrow> time \<Rightarrow> ctl \<Rightarrow> ctl" where
  "backoff E now c =
     (let c1 = c\<lparr>cs_crash_count := cs_crash_count c + 1\<rparr>; r = cf_recovery (cs_cfg c1);
          d = escalate (cs_crash_count c1) (rc_crash_backoff_initial r) (rc_crash_backoff_max r)
      in set_recovery E now d (''crash backoff (attempt '' @ itoa (cs_crash_count c1) @ '')'') c1)"

definition retry_zombie :: "time \<Rightarrow> ctl \<Rightarrow> ctl" where
  "retry_zombie now c = (case cs_zombie c of
      None \<Rightarrow> c
    | Some z \<Rightarrow> (if cs_zombie_stopping c \<or> now < cs_zombie_retry_at c then c
        else c\<lparr>cs_zombie_stopping := True,
               cs_jobs := cs_jobs c @ [StopJob z (rt_kill_verify_timeout (cf_runtime (cs_cfg c))) True]\<rparr>))"

definition on_zombie_stopped :: "env \<Rightarrow> time \<Rightarrow> stop_result \<Rightarrow> ctl \<Rightarrow> ctl" where
  "on_zombie_stopped E now r c =
     (let c1 = c\<lparr>cs_zombie_stopping := False\<rparr> in
      case cs_zombie c1 of
        None \<Rightarrow> c1
      | Some z \<Rightarrow>
          (case sp_err r of
             Some err \<Rightarrow>
               (let c2 = c1\<lparr>cs_zombie_attempts := cs_zombie_attempts c1 + 1\<rparr>;
                    c3 = c2\<lparr>cs_zombie_retry_at := now + zombie_backoff c2\<rparr>
                in emit E ((mk_event now KillFailed SeverityCritical
                     (Sprintf ''Runtime termination still not verified (attempt %d): %v''
                        [FInt (cs_zombie_attempts c3), FStr err]) [])\<lparr>ee_runtime_pid := in_pid z\<rparr>) c3)
           | None \<Rightarrow>
               emit E ((mk_event now RuntimeStopped NoSeverity
                 (lit ''Previous runtime process tree verified terminated'')
                 [(''root_exit_ms'', DInt (milliseconds (sr_root_exit (sp_res r)))),
                  (''tree_empty_ms'', DInt (milliseconds (sr_tree_empty (sp_res r)))),
                  (''already_exited'', DBool (sr_already_exited (sp_res r)))])
                 \<lparr>ee_runtime_pid := in_pid z\<rparr>) (c1\<lparr>cs_zombie := None\<rparr>)))"

definition inst_pid :: "rt_instance option \<Rightarrow> int" where
  "inst_pid i = (case i of Some x \<Rightarrow> in_pid x | None \<Rightarrow> 0)"

text \<open>The bookkeeping of a verified stop: anti-thrash count, suppression, cooldown or the wait after
  a manual drain. The idle state to rest in is returned with the new state.\<close>

definition account_yield :: "deps \<Rightarrow> env \<Rightarrow> time \<Rightarrow> decision \<Rightarrow> string \<Rightarrow> ctl \<Rightarrow> state \<times> ctl" where
  "account_yield D E now y manual c =
     (let cfg = cs_cfg c;
          c1 = (if de_counts_as_preemption y
                then metric D (IncPreemption (de_rule y) False)
                  (c\<lparr>cs_timers := (cs_timers c)\<lparr>tm_preemptions :=
                       prune_times (tm_preemptions (cs_timers c)) now (at_window (cf_anti_thrash cfg)) @ [now]\<rparr>\<rparr>)
                else c)
      in if de_suppress y then
           (let c2 = metric D IncSuppression (c1\<lparr>cs_timers := (cs_timers c1)\<lparr>tm_suppressed_at := now\<rparr>\<rparr>)
            in (Suppressed, emit E (with_data (from_decision SuppressionStarted now y (cs_gpu c2))
                 [(''suppressed_until'', DTime (now + at_suppress_for (cf_anti_thrash cfg))),
                  (''preemptions_in_window'', DInt (int (length (tm_preemptions (cs_timers c2)))))]) c2))
         else if de_competing y then
           (de_idle_state y, emit E (with_data (from_decision CooldownStarted now y (cs_gpu c1))
              [(''cooldown'', DDur (pf_cooldown (profile_get cfg (de_profile y))))]) (metric D IncCooldown c1))
         else if manual = ''drain'' then
           (de_idle_state y,
            set_recovery E now (pf_cooldown (profile_get cfg (de_profile y))) ''manual drain'' c1)
         else (de_idle_state y, c1))"

text \<open>\<open>onStopped\<close>: the run is over; a stop that could not be verified leaves a runtime behind whose
  termination is retried.\<close>

definition clear_run :: "ctl \<Rightarrow> ctl" where
  "clear_run c = c\<lparr>cs_inst := None, cs_drain_start := 0, cs_drain_deadline := 0,
     cs_yield := zero_decision, cs_yield_manual := '''', cs_manual_pending := ''''\<rparr>"

definition keep_zombie :: "time \<Rightarrow> rt_instance option \<Rightarrow> ctl \<Rightarrow> ctl" where
  "keep_zombie now i c = (let c1 = c\<lparr>cs_zombie := i, cs_zombie_attempts := 1\<rparr>
     in c1\<lparr>cs_zombie_retry_at := now + zombie_backoff c1\<rparr>)"

definition report_kill_fallback :: "env \<Rightarrow> time \<Rightarrow> stop_info \<Rightarrow> int \<Rightarrow> ctl \<Rightarrow> ctl" where
  "report_kill_fallback E now res pid c =
     (if sr_kill_fallback res
      then emit E ((mk_event now KillFailed SeverityWarning
         (if sr_interrupt_err res \<noteq> ''''
          then Sprintf ''Ctrl+C could not be delivered (%s); the runtime was hard-killed (risk of a GPU driver hang on AMD, ADR 0011)'' [FStr (sr_interrupt_err res)]
          else lit ''Runtime did not exit on Ctrl+C within the graceful timeout; it was hard-killed (risk of a GPU driver hang on AMD, ADR 0011)'')
         [])\<lparr>ee_runtime_pid := pid\<rparr>) c
      else c)"

definition report_stopped :: "env \<Rightarrow> time \<Rightarrow> stop_info \<Rightarrow> int \<Rightarrow> rule \<Rightarrow> ctl \<Rightarrow> ctl" where
  "report_stopped E now res pid rl c =
     emit E ((mk_event now RuntimeStopped NoSeverity
       (lit ''Runtime process tree terminated and verified empty'')
       [(''root_exit_ms'', DInt (milliseconds (sr_root_exit res))),
        (''tree_empty_ms'', DInt (milliseconds (sr_tree_empty res))),
        (''already_exited'', DBool (sr_already_exited res)),
        (''graceful'', DBool (sr_graceful res)),
        (''kill_fallback'', DBool (sr_kill_fallback res))])
       \<lparr>ee_runtime_pid := pid, ee_rule := rl\<rparr>) c"

definition watch_vram :: "time \<Rightarrow> ctl \<Rightarrow> ctl" where
  "watch_vram now c = c\<lparr>cs_vram := (cs_vram c)\<lparr>vc_active := True, vc_since := now\<rparr>\<rparr>"

definition rest_state :: "state \<Rightarrow> state" where
  "rest_state i = (if i = no_state \<or> runtime_running i then Stopped else i)"

definition on_stopped :: "deps \<Rightarrow> env \<Rightarrow> time \<Rightarrow> stop_result \<Rightarrow> ctl \<Rightarrow> ctl" where
  "on_stopped D E now r c =
     (let pid = inst_pid (cs_inst c); i = cs_inst c; y = cs_yield c; manual = cs_yield_manual c in
      case sp_err r of
        Some err \<Rightarrow>
          snd (transition D E now Error y (lit ''Runtime termination could not be verified'') []
            (set_recovery E now (rc_device_lost_cooldown (cf_recovery (cs_cfg c))) ''kill failure''
              (keep_zombie now i
                (emit E ((mk_event now KillFailed SeverityCritical
                   (Sprintf ''Runtime termination could not be verified: %s; retrying'' [FStr err]) [])
                   \<lparr>ee_runtime_pid := pid\<rparr>) (clear_run c)))))
      | None \<Rightarrow>
          (let (idle, c1) = account_yield D E now y manual
                 (watch_vram now (report_kill_fallback E now (sp_res r) pid
                   (report_stopped E now (sp_res r) pid (de_rule y) (clear_run c))))
           in snd (transition D E now (rest_state idle) y (lit ''Runtime unloaded'') [] c1)))"

subsection \<open>Loading\<close>

definition load_failed :: "deps \<Rightarrow> env \<Rightarrow> time \<Rightarrow> decision \<Rightarrow> string \<Rightarrow> string \<Rightarrow> ctl \<Rightarrow> ctl" where
  "load_failed D E now d err diag c =
     (let c1 = emit E (mk_event now LoadFailed SeverityWarning
                 (Sprintf ''Model load failed: %s'' [FStr err])
                 [(''diagnostics_tail'', DStr (tail_str diag 2048))]) (metric D (IncLoad ''failed'') c);
          c2 = backoff E now c1
      in snd (transition D E now Error d (lit ''Model load failed'') [] c2))"

definition set_baseline :: "ctl \<Rightarrow> ctl" where
  "set_baseline c = c\<lparr>cs_baseline := gf_vram_used_mib (cs_gpu c)\<rparr>"

definition launched :: "deps \<Rightarrow> env \<Rightarrow> time \<Rightarrow> decision \<Rightarrow> rt_instance \<Rightarrow> ctl \<Rightarrow> ctl" where
  "launched D E now d i c =
     (let c1 = snd (transition D E now Loading d (lit ''Loading model'') [(''pid'', DInt (in_pid i))]
                 (c\<lparr>cs_inst := Some i, cs_load_start := now\<rparr>));
          c2 = emit E ((mk_event now LoadStarted NoSeverity
                 (lit ''Starting runtime and loading model'') [(''vram_baseline_mib'', DInt (cs_baseline c1))])
                 \<lparr>ee_rule := de_rule d, ee_runtime_pid := in_pid i\<rparr>) c1
      in c2\<lparr>cs_jobs := cs_jobs c2 @ [WaitReady i (rt_load_timeout (cf_runtime (cs_cfg c2)))]\<rparr>)"

definition start_load :: "deps \<Rightarrow> env \<Rightarrow> time \<Rightarrow> decision \<Rightarrow> ctl \<Rightarrow> ctl" where
  "start_load D E now d c =
     (let (ok, c1) = (if cs_st c \<noteq> Stopped
                      then transition D E now Stopped d (lit ''Eligible to load'') [] c else (True, c))
      in if \<not> ok \<or> \<not> dp_adapter D then c1
         else
           (let c2 = log_call (CallStart (cf_runtime (cs_cfg c1))) (set_baseline (reconcile D E now c1))
            in case ev_start E of
                 Inl err \<Rightarrow> load_failed D E now d err '''' c2
               | Inr i \<Rightarrow> launched D E now d i c2))"

definition zombify :: "time \<Rightarrow> rt_instance \<Rightarrow> ctl \<Rightarrow> ctl" where
  "zombify now i c = retry_zombie now (c\<lparr>cs_inst := None, cs_zombie := Some i, cs_zombie_attempts := 0,
     cs_zombie_retry_at := now\<rparr>)"

definition load_ready :: "deps \<Rightarrow> env \<Rightarrow> time \<Rightarrow> ctl \<Rightarrow> ctl" where
  "load_ready D E now c =
     (let took = t_sub now (cs_load_start c);
          c1 = metric D (ObserveLoadSeconds (dur_seconds took)) (metric D (IncLoad ''ok'')
                 (c\<lparr>cs_last_load_s := dur_seconds took, cs_loaded_at := now\<rparr>));
          c2 = snd (transition D E now Ready (cs_decision c1)
             (Sprintf ''Model ready after %.1f s'' [FFlt ''%.1f'' (dur_seconds took)])
             [(''load_ms'', DInt (milliseconds took))] c1)
      in emit E (mk_event now LoadCompleted NoSeverity
           (Sprintf ''Model loaded in %.1f s'' [FFlt ''%.1f'' (dur_seconds took)])
           [(''load_ms'', DInt (milliseconds took))]) c2)"

definition on_load_result :: "deps \<Rightarrow> env \<Rightarrow> time \<Rightarrow> load_result \<Rightarrow> ctl \<Rightarrow> ctl" where
  "on_load_result D E now r c =
     (if cs_inst c \<noteq> Some (lr_inst r) \<or> cs_st c \<noteq> Loading then c
      else case lr_err r of
        Some err \<Rightarrow>
          load_failed D E now (cs_decision c) err (ev_diag E (lr_inst r))
            (snd (close_gate_for (cs_decision c) (zombify now (lr_inst r) c)))
      | None \<Rightarrow> load_ready D E now c)"

definition report_crash :: "deps \<Rightarrow> env \<Rightarrow> time \<Rightarrow> rt_instance \<Rightarrow> ctl \<Rightarrow> ctl" where
  "report_crash D E now i c =
     (let exit_s = (case ev_exit_err E i of Some err \<Rightarrow> err | None \<Rightarrow> ''unknown'') in
      emit E ((mk_event now RuntimeCrashed SeverityWarning
         (Sprintf ''Runtime exited unexpectedly: %s'' [FStr exit_s])
         [(''exit'', DStr exit_s), (''diagnostics_tail'', DStr (tail_str (ev_diag E i) 2048)),
          (''state'', DState (cs_st c))])\<lparr>ee_runtime_pid := in_pid i\<rparr>)
         (metric D IncRuntimeCrash c))"

definition cut_requests :: "ctl \<Rightarrow> ctl" where
  "cut_requests c = c\<lparr>cs_gate := snd (force_close_all (cs_gate c))\<rparr>"

definition forget_drain :: "ctl \<Rightarrow> ctl" where
  "forget_drain c = c\<lparr>cs_drain_start := 0, cs_drain_deadline := 0, cs_yield := zero_decision\<rparr>"

definition on_crash :: "deps \<Rightarrow> env \<Rightarrow> time \<Rightarrow> rt_instance \<Rightarrow> ctl \<Rightarrow> ctl" where
  "on_crash D E now i c =
     (let c1 = cut_requests (snd (close_gate_for
                 (zero_decision\<lparr>de_reason := lit ''runtime exited unexpectedly''\<rparr>) (c\<lparr>cs_inst := None\<rparr>)));
          c2 = backoff E now (forget_drain (zombify now i (report_crash D E now i c1)))
      in snd (transition D E now Error (cs_decision c2) (lit ''Runtime crashed'') [] c2))"

subsection \<open>Results of goroutines\<close>

fun absorb_stops :: "deps \<Rightarrow> env \<Rightarrow> time \<Rightarrow> stop_result list \<Rightarrow> ctl \<Rightarrow> ctl" where
  "absorb_stops D E now [] c = c"
| "absorb_stops D E now (r # rs) c = absorb_stops D E now rs
     (if sp_cleanup r then on_zombie_stopped E now r c else on_stopped D E now r c)"

definition absorb_async :: "deps \<Rightarrow> env \<Rightarrow> time \<Rightarrow> ctl \<Rightarrow> ctl" where
  "absorb_async D E now c =
     (let c1 = (case cs_ready_ch c of
                  r # rs \<Rightarrow> on_load_result D E now r (c\<lparr>cs_ready_ch := rs\<rparr>)
                | [] \<Rightarrow> c);
          c2 = absorb_stops D E now (cs_stop_ch c1) (c1\<lparr>cs_stop_ch := []\<rparr>);
          c3 = retry_zombie now c2
      in case cs_inst c3 of
           Some i \<Rightarrow> (if cs_st c3 \<noteq> Preempting \<and> ev_exited E i then on_crash D E now i c3 else c3)
         | None \<Rightarrow> c3)"

definition last_reset_time :: "time \<Rightarrow> gpu_reset list \<Rightarrow> time" where
  "last_reset_time now rs = fold (\<lambda>r t. if t < gr_time r then gr_time r else t) rs now"

definition move_watermark :: "time \<Rightarrow> gpu_reset list \<Rightarrow> ctl \<Rightarrow> ctl" where
  "move_watermark now resets c =
     (if resets \<noteq> [] then c\<lparr>cs_last_gpu_check := last_reset_time now resets\<rparr>
      else if 30 * second \<le> t_sub now (cs_last_gpu_check c) then c\<lparr>cs_last_gpu_check := now\<rparr>
      else c)"

definition count_reset :: "env \<Rightarrow> time \<Rightarrow> gpu_reset list \<Rightarrow> ctl \<Rightarrow> ctl" where
  "count_reset E now resets c =
     (let n = cs_gpu_resets c + 1;
          d = escalate n (rc_device_lost_cooldown (cf_recovery (cs_cfg c))) (24 * hour)
      in set_recovery E now d (''GPU driver reset ('' @ itoa n @ '')'')
           (emit E (mk_event now DeviceLost SeverityCritical
              (Sprintf ''GPU driver reset detected (%d since the last stable run); stopping the runtime and waiting %s''
                 [FInt n, FDur d])
              [(''watchdog_dumps'', DStrs (map gr_file resets)), (''resets'', DInt n), (''cooldown'', DDur d)])
             (c\<lparr>cs_last_gpu_reset := now, cs_gpu_resets := n,
                cs_power := (cs_power c)\<lparr>pw_device_lost := True\<rparr>\<rparr>)))"

definition poll_resets :: "env \<Rightarrow> time \<Rightarrow> gpu_reset list \<Rightarrow> ctl \<Rightarrow> ctl" where
  "poll_resets E now resets c =
     (if resets = [] then c
      else if cs_last_gpu_reset c \<noteq> 0 \<and> t_sub now (cs_last_gpu_reset c) < 2 * minute
      then c\<lparr>cs_power := (cs_power c)\<lparr>pw_device_lost :=
               pw_device_lost (cs_power c) \<or> runtime_running (cs_st c)\<rparr>\<rparr>
      else count_reset E now resets c)"

definition clear_device_lost :: "ctl \<Rightarrow> ctl" where
  "clear_device_lost c =
     (if pw_device_lost (cs_power c) \<and> \<not> runtime_running (cs_st c) \<and> cs_inst c = None \<and> cs_zombie c = None
      then c\<lparr>cs_power := (cs_power c)\<lparr>pw_device_lost := False\<rparr>\<rparr>
      else c)"

definition check_gpu_resets :: "deps \<Rightarrow> env \<Rightarrow> time \<Rightarrow> ctl \<Rightarrow> ctl" where
  "check_gpu_resets D E now c = clear_device_lost
     (if dp_gpu_resets D then poll_resets E now (ev_resets E) (move_watermark now (ev_resets E) c) else c)"

definition expire_mode :: "env \<Rightarrow> time \<Rightarrow> ctl \<Rightarrow> ctl" where
  "expire_mode E now c = (case mf_until (cs_mode c) of
      None \<Rightarrow> c
    | Some u \<Rightarrow> (if now < u then c
        else emit E ((mk_event now ModeExpired NoSeverity
               (Sprintf ''%s expired; back to Auto'' [FStr (mode_title (mf_mode (cs_mode c)))])
               [(''previous'', DMode (mf_mode (cs_mode c)))])\<lparr>ee_mode := ModeAuto\<rparr>)
               (c\<lparr>cs_mode := auto_mode, cs_until_reboot := False\<rparr>)))"

subsection \<open>Observations\<close>

definition active_profile :: "env \<Rightarrow> time \<Rightarrow> ctl \<Rightarrow> string \<times> profile_source" where
  "active_profile E now c =
     (if mf_mode (cs_mode c) = ModeAIPriority then (cf_ai_priority_profile (cs_cfg c), SrcAIPriority)
      else active (ev_tz E) (cs_cfg c) now)"

text \<open>\<open>strings.Cut(reason, '': adapter='')\<close>: the part before the first occurrence.\<close>

fun before_sub :: "string \<Rightarrow> string \<Rightarrow> string" where
  "before_sub sep [] = []"
| "before_sub sep (x # xs) = (if prefix sep (x # xs) then [] else x # before_sub sep xs)"

definition confidence_name :: "confidence \<Rightarrow> string" where
  "confidence_name k = (case k of ConfidenceHigh \<Rightarrow> ''high'' | ConfidenceDegraded \<Rightarrow> ''degraded''
     | ConfidenceNone \<Rightarrow> ''none'' | OtherConfidence s \<Rightarrow> s)"

definition end_episode :: "env \<Rightarrow> time \<Rightarrow> int \<Rightarrow> bool \<Rightarrow> bool \<Rightarrow> ctl \<Rightarrow> ctl" where
  "end_episode E now pid degraded identity_only c =
     (let old = cs_attribution c in
      if ae_pid old \<noteq> 0 \<and> (ae_pid old \<noteq> pid \<or> \<not> degraded \<or> ae_identity_only old \<noteq> identity_only)
      then
        (let status = (if ae_pid old \<noteq> pid then ''runtime_ended''
                       else if degraded \<and> \<not> identity_only then ''attribution_changed'' else ''recovered'')
         in (emit E ((mk_event now TelemetryDegraded NoSeverity
               (Sprintf ''Runtime GPU attribution %s after %s (pid %d); previous: %s''
                  [FStr status, FDur (t_sub now (ae_since old)), FInt (ae_pid old), FText (ae_detail old)])
               [(''status'', DStr status), (''duration_ms'', DInt (milliseconds (t_sub now (ae_since old)))),
                (''since'', DTime (ae_since old)), (''identity_only'', DBool (ae_identity_only old))])
               \<lparr>ee_runtime_pid := ae_pid old\<rparr>) c)\<lparr>cs_attribution := zero_attribution\<rparr>)
      else c)"

definition attribution_reasons :: "bool \<Rightarrow> gpu_facts \<Rightarrow> string list" where
  "attribution_reasons root_in g =
     gf_attribution_reasons g
     @ (if root_in then [] else [''runtime root absent from job membership; retaining root identity''])
     @ (if gf_confidence g \<noteq> ConfidenceHigh \<and> gf_attribution_reasons g = []
        then [''GPU confidence '' @ confidence_name (gf_confidence g)] else [])"

definition missing_pids :: "fact_input \<Rightarrow> sample \<Rightarrow> int list" where
  "missing_pids inp s = filter (\<lambda>x. x \<notin> set (map pg_pid (sm_processes s)))
     (remdups_adj (sort (fi_own_pids inp @ [fi_runtime_pid inp])))"

definition degraded_event ::
  "time \<Rightarrow> time \<Rightarrow> fact_input \<Rightarrow> sample \<Rightarrow> gpu_facts \<Rightarrow> string list \<Rightarrow> gotext \<Rightarrow> event" where
  "degraded_event now since inp s g reasons sig_text =
     (let pid = fi_runtime_pid inp; duration = t_sub now since in
      (mk_event now TelemetryDegraded SeverityWarning
         (Sprintf ''Runtime GPU attribution incomplete for %s (pid %d): %s''
            [FDur duration, FInt pid, FText sig_text])
         [(''status'', DStr ''degraded''), (''duration_ms'', DInt (milliseconds duration)),
          (''since'', DTime since), (''identity_only'', DBool (gf_confidence g = ConfidenceHigh)),
          (''reasons'', DStrs reasons), (''missing_gpu_pids'', DInts (missing_pids inp s)),
          (''reported_member_pids'', DInts (fi_own_pids inp)),
          (''root_in_members'', DBool (pid \<in> set (fi_own_pids inp))),
          (''root_in_sample'', DBool (pid \<in> set (map pg_pid (sm_processes s)))),
          (''root_dedicated_bytes'', DInt (int (fold
             (\<lambda>p b. if pg_pid p = pid then u64 (b + pg_dedicated_bytes p) else b) (sm_processes s) 0))),
          (''sample_process_count'', DInt (int (length (sm_processes s)))),
          (''sample_complete'', DBool (sm_complete s)), (''sample_errors'', DStrs (sm_errors s)),
          (''adapter_instances_present'', DBool (sm_has_adapter_instances s)),
          (''invalid_engine_readings'', DInt (sm_invalid_readings s)),
          (''adapter_dedicated_bytes'', DInt (int (sm_dedicated_used_bytes s))),
          (''process_dedicated_bytes'', DInt (int (fold
             (\<lambda>p b. u64 (b + pg_dedicated_bytes p)) (sm_processes s) 0))),
          (''footprint_mib'', DInt (fi_footprint_mib inp))])
       \<lparr>ee_runtime_pid := pid, ee_telemetry := Some (telemetry_from g)\<rparr>)"

definition open_episode :: "time \<Rightarrow> int \<Rightarrow> ctl \<Rightarrow> ctl" where
  "open_episode now pid c =
     (if ae_pid (cs_attribution c) = 0
      then c\<lparr>cs_attribution := zero_attribution\<lparr>ae_pid := pid, ae_since := now\<rparr>\<rparr> else c)"

definition record_episode :: "env \<Rightarrow> time \<Rightarrow> fact_input \<Rightarrow> ctl \<Rightarrow> ctl" where
  "record_episode E now inp c =
     (let s = cs_sample c; g = cs_gpu c;
          reasons = attribution_reasons (fi_runtime_pid inp \<in> set (fi_own_pids inp)) g;
          sig_text = Sprintf ''%s; missing GPU process PIDs=%v; counter errors=%v''
            (map FStr reasons @ map FInt (missing_pids inp s) @ map FStr (sm_errors s));
          key = (map (before_sub '': adapter='') reasons, missing_pids inp s, sm_errors s)
      in if ae_signature (cs_attribution c) = Some key then c
         else emit E (degraded_event now (ae_since (cs_attribution c)) inp s g reasons sig_text)
                (c\<lparr>cs_attribution := (cs_attribution c)\<lparr>ae_signature := Some key, ae_detail := sig_text,
                     ae_identity_only := (gf_confidence g = ConfidenceHigh)\<rparr>\<rparr>))"

definition track_attribution :: "env \<Rightarrow> time \<Rightarrow> fact_input \<Rightarrow> ctl \<Rightarrow> ctl" where
  "track_attribution E now inp c =
     (let pid = fi_runtime_pid inp; identity_only = (gf_confidence (cs_gpu c) = ConfidenceHigh);
          degraded = (0 < pid \<and> (pid \<notin> set (fi_own_pids inp) \<or> \<not> identity_only))
      in if degraded
         then record_episode E now inp (open_episode now pid (end_episode E now pid degraded identity_only c))
         else end_episode E now pid degraded identity_only c)"

definition scan :: "deps \<Rightarrow> env \<Rightarrow> time \<Rightarrow> ctl \<Rightarrow> ctl" where
  "scan D E now c =
     (if dp_processes D \<and> (cs_last_proc_scan c = 0 \<or>
          sg_process_interval (cf_signals (cs_cfg c)) \<le> t_sub now (cs_last_proc_scan c))
      then c\<lparr>cs_procs := (case ev_procs E of Some ps \<Rightarrow> ps | None \<Rightarrow> []),
             cs_procs_ok := (ev_procs E \<noteq> None), cs_last_proc_scan := now\<rparr>
      else c)"

definition sampled :: "deps \<Rightarrow> env \<Rightarrow> ctl \<Rightarrow> ctl" where
  "sampled D E c = (if dp_telemetry D then c\<lparr>cs_sample := ev_sample E\<rparr> else c)"

definition fact_input_of :: "deps \<Rightarrow> env \<Rightarrow> time \<Rightarrow> ctl \<Rightarrow> fact_input" where
  "fact_input_of D E now c =
     \<lparr>fi_sample = (if dp_telemetry D then Some (ev_sample E) else None),
      fi_procs = (if cs_procs_ok c then Some (cs_procs c) else None),
      fi_runtime_pid = inst_pid (cs_inst c),
      fi_own_pids = (case cs_inst c of Some i \<Rightarrow> ev_members E i | None \<Rightarrow> []),
      fi_runtime_busy = (cs_st c = Loading \<or> cs_st c = Draining \<or> cs_st c = Preempting
         \<or> 0 < fst (active_requests now (cs_gate c))),
      fi_footprint_mib = cs_footprint c,
      fi_profile = profile_get (cs_cfg c) (fst (active_profile E now c)),
      fi_config = cs_cfg c\<rparr>"

definition build_facts :: "deps \<Rightarrow> env \<Rightarrow> time \<Rightarrow> fact_input \<Rightarrow> ctl \<Rightarrow> ctl" where
  "build_facts D E now inp c =
     (if dp_facts D
      then c\<lparr>cs_gpu := fst (ev_build E now inp), cs_apps := fst (snd (ev_build E now inp)),
             cs_session := snd (snd (ev_build E now inp))\<rparr>
      else c)"

definition discount_vram :: "ctl \<Rightarrow> ctl" where
  "discount_vram c =
     (if vc_active (cs_vram c) \<and> 0 < vc_footprint (cs_vram c) \<and> \<not> runtime_running (cs_st c)
      then c\<lparr>cs_gpu := (cs_gpu c)\<lparr>
             gf_external_vram_mib := max 0 (gf_external_vram_mib (cs_gpu c) - vc_footprint (cs_vram c)),
             gf_external_vram_growth_mib := 0\<rparr>\<rparr>
      else c)"

definition publish_gpu :: "deps \<Rightarrow> ctl \<Rightarrow> ctl" where
  "publish_gpu D c = metric D (SetGPU (cs_gpu c)) c"

definition observe :: "deps \<Rightarrow> env \<Rightarrow> time \<Rightarrow> ctl \<Rightarrow> ctl" where
  "observe D E now c =
     (let c1 = scan D E now (sampled D E c); inp = fact_input_of D E now c1
      in publish_gpu D (discount_vram (track_attribution E now inp (build_facts D E now inp c1))))"

definition note_loss :: "deps \<Rightarrow> env \<Rightarrow> time \<Rightarrow> ctl \<Rightarrow> ctl" where
  "note_loss D E now c =
     (let g = cs_gpu c in
      if gf_confidence g = ConfidenceNone \<and> tel_loss_grace (cf_telemetry (cs_cfg c)) \<le> gf_none_for g
         \<and> \<not> cs_telemetry_lost c
      then
        (let c0 = emit E (mk_event now TelemetryLost SeverityWarning
               (Sprintf ''GPU telemetry lost for %s'' [FDur (round_dur second (gf_none_for g))])
               [(''errors'', DStrs (sm_errors (cs_sample c)))])
               (metric D IncTelemetryFailure (c\<lparr>cs_telemetry_lost := True\<rparr>))
         in if dp_telemetry D then log_call CallRebuild c0 else c0)
      else c)"

definition note_recovery :: "env \<Rightarrow> time \<Rightarrow> ctl \<Rightarrow> ctl" where
  "note_recovery E now c =
     (let g = cs_gpu c in
      if cs_telemetry_lost c \<and> gf_confidence g \<noteq> ConfidenceNone
      then
        (let n = cs_telemetry_losses c + 1; r = cf_recovery (cs_cfg c);
             d = escalate n (rc_telemetry_recovery_cooldown r) (rc_crash_backoff_max r)
         in set_recovery E now d (''telemetry recovery (loss '' @ itoa n @ '')'')
              (emit E (mk_event now TelemetryRecovered NoSeverity
                 (Sprintf ''GPU telemetry recovered (confidence %s); waiting %s before loading (loss %d)''
                    [FStr (confidence_name (gf_confidence g)), FDur d, FInt n]) [])
                (c\<lparr>cs_telemetry_lost := False, cs_telemetry_losses := n\<rparr>)))
      else c)"

definition track_telemetry_health :: "deps \<Rightarrow> env \<Rightarrow> time \<Rightarrow> ctl \<Rightarrow> ctl" where
  "track_telemetry_health D E now c = note_recovery E now (note_loss D E now c)"

definition check_setup :: "deps \<Rightarrow> env \<Rightarrow> time \<Rightarrow> ctl \<Rightarrow> ctl" where
  "check_setup D E now c =
     (if runtime_running (cs_st c) \<or> \<not> dp_adapter D then c
      else if \<not> cs_setup_pending c \<and> cs_last_setup_check c \<noteq> 0 \<and> t_sub now (cs_last_setup_check c) < 5 * second then c
      else
        (let c1 = (if cs_setup_pending c then c else c\<lparr>cs_last_setup_check := now, cs_setup_pending := True\<rparr>)
         in case ev_setup E of
              Some p \<Rightarrow> c1\<lparr>cs_setup_problem := p, cs_setup_pending := False\<rparr>
            | None \<Rightarrow> c1))"

definition snapshot_of :: "time \<Rightarrow> ctl \<Rightarrow> snapshot" where
  "snapshot_of now c =
     (let (n, oldest) = active_requests now (cs_gate c) in
      \<lparr>ss_now = now, ss_mode = cs_mode c,
       ss_runtime = \<lparr>rf_state = cs_st c, rf_pid = inst_pid (cs_inst c), rf_active_requests = int n,
         rf_oldest_request_age = oldest, rf_draining_since = cs_drain_start c,
         rf_footprint_mib = cs_footprint c, rf_setup_problem = cs_setup_problem c\<rparr>,
       ss_gpu = cs_gpu c, ss_apps = cs_apps c, ss_session = cs_session c, ss_power = cs_power c,
       ss_timers = cs_timers c\<rparr>)"

subsection \<open>Adjusting the decision\<close>

definition apply_manual :: "decision \<Rightarrow> ctl \<Rightarrow> decision \<times> ctl" where
  "apply_manual d c =
     (if cs_manual_pending c = '''' \<or> yields (de_action d)
         \<or> de_action d = ActionHold \<and> \<not> runtime_running (cs_st c) then (d, c)
      else if \<not> runtime_running (cs_st c) then (d, c\<lparr>cs_manual_pending := ''''\<rparr>)
      else
        (let reload = (cs_manual_pending c = ''reload'') in
         (d\<lparr>de_action := ActionDrain, de_competing := False, de_counts_as_preemption := False,
            de_suppress := False, de_severity := SeverityNotice, de_tier := TierPause,
            de_rule := OtherRule (if reload then ''manual.reload'' else ''manual.drain''),
            de_reason := lit (if reload then ''Reload requested: restarting the runtime''
                              else ''Drain requested: unloading the model''),
            de_idle_state := (if reload then Stopped else Cooldown),
            de_grace := pf_grace (profile_get (cs_cfg c) (de_profile d))\<rparr>, c)))"

definition apply_zombie :: "ctl \<Rightarrow> decision \<Rightarrow> decision" where
  "apply_zombie c d = (case cs_zombie c of
      None \<Rightarrow> d
    | Some z \<Rightarrow> (if runtime_running (cs_st c) then d
        else if de_action d \<noteq> ActionRun then d\<lparr>de_idle_state := Error\<rparr>
        else d\<lparr>de_action := ActionHold, de_rule := OtherRule ''safety.runtime_unverified'',
               de_tier := TierSafety, de_severity := SeverityWarning,
               de_reason := Sprintf ''Previous runtime (pid %d) not yet confirmed terminated; retrying'' [FInt (in_pid z)],
               de_idle_state := Error\<rparr>))"

definition apply_load_blocked :: "deps \<Rightarrow> ctl \<Rightarrow> decision \<Rightarrow> decision" where
  "apply_load_blocked D c d =
     (if dp_load_blocked D = '''' \<or> runtime_running (cs_st c) then d
      else zero_decision\<lparr>de_action := ActionHold, de_rule := OtherRule ''safety.secrets_unprotected'',
        de_tier := TierSafety, de_severity := SeverityCritical, de_reason := lit (dp_load_blocked D),
        de_profile := de_profile d, de_profile_source := de_profile_source d, de_mode := de_mode d,
        de_idle_state := Error\<rparr>)"

subsection \<open>Acting on the decision\<close>

definition maybe_grace_expired :: "deps \<Rightarrow> env \<Rightarrow> time \<Rightarrow> ctl \<Rightarrow> ctl" where
  "maybe_grace_expired D E now c =
     (if now < cs_drain_deadline c then c
      else
        (let c1 = metric D (IncDrain ''grace_expired'') c;
             why = (cs_yield c1)\<lparr>de_reason := Sprintf ''Grace of %s expired''
                      [FDur (round_dur second (t_sub (cs_drain_deadline c1) (cs_drain_start c1)))]\<rparr>;
             c2 = force_close D E now why ''grace expired'' c1
         in begin_stop D E now (cs_yield c2) '''' c2))"

definition act_idle :: "deps \<Rightarrow> env \<Rightarrow> time \<Rightarrow> decision \<Rightarrow> ctl \<Rightarrow> ctl" where
  "act_idle D E now d c =
     (if de_action d = ActionRun then start_load D E now d c
      else snd (transition D E now (de_idle_state d) d (lit '''') [] c))"

definition act_loading :: "deps \<Rightarrow> env \<Rightarrow> time \<Rightarrow> decision \<Rightarrow> ctl \<Rightarrow> ctl" where
  "act_loading D E now d c =
     (if yields (de_action d)
      then begin_stop D E now d ''stopping model load'' (snd (close_gate_for d c)) else c)"

definition start_drain :: "deps \<Rightarrow> env \<Rightarrow> time \<Rightarrow> decision \<Rightarrow> nat \<Rightarrow> ctl \<Rightarrow> ctl" where
  "start_drain D E now d n c =
     (let c1 = c\<lparr>cs_yield := d, cs_yield_manual := manual_kind (de_rule d), cs_drain_start := now,
                 cs_drain_deadline := now + de_grace d\<rparr>;
          (_, c2) = transition D E now Draining d
             (Sprintf ''%s. Stopped admitting; %d active request(s) get up to %s''
                [FText (de_reason d), FInt (int n), FDur (de_grace d)])
             [(''grace_ms'', DInt (milliseconds (de_grace d))), (''active_requests'', DInt (int n)),
              (''grace_until'', DTime (cs_drain_deadline c1))] c1
      in emit E (with_data (from_decision DrainStarted now d (cs_gpu c2))
           [(''grace_ms'', DInt (milliseconds (de_grace d))), (''active_requests'', DInt (int n)),
            (''request_ids'', DStrs (active_ids (cs_gate c2)))]) c2)"

text \<open>The gate of a loaded runtime: closed, with the count taken under its lock, when the decision
  yields; opened when it is not open yet otherwise.\<close>

definition admit_gate :: "time \<Rightarrow> decision \<Rightarrow> ctl \<Rightarrow> nat \<times> ctl" where
  "admit_gate now d c =
     (if yields (de_action d) then close_gate_for d c
      else
        (let c0 = (case cs_inst c of
                     Some i \<Rightarrow> (if gt_open (cs_gate c) then c
                                else c\<lparr>cs_gate := open_gate (in_base_url i) (cs_gate c)\<rparr>)
                   | None \<Rightarrow> c)
         in (fst (active_requests now (cs_gate c0)), c0)))"

definition act_admitting :: "deps \<Rightarrow> env \<Rightarrow> time \<Rightarrow> decision \<Rightarrow> ctl \<Rightarrow> ctl" where
  "act_admitting D E now d c =
     (let (n, c1) = admit_gate now d c in
      case de_action d of
        ActionPreempt \<Rightarrow>
          begin_stop D E now d '''' (if 0 < n then force_close D E now d ''hard contention'' c1 else c1)
      | ActionDrain \<Rightarrow>
          (if n = 0 then begin_stop D E now d ''no request active; unloading now'' c1
           else start_drain D E now d n c1)
      | _ \<Rightarrow> snd (transition D E now (if 0 < n then Busy else Ready) d (lit '''') [] c1))"

definition act_draining :: "deps \<Rightarrow> env \<Rightarrow> time \<Rightarrow> decision \<Rightarrow> ctl \<Rightarrow> ctl" where
  "act_draining D E now d c =
     (if fst (active_requests now (cs_gate c)) = 0 then
        (let c1 = metric D (IncDrain ''completed'') c;
             c2 = emit E (with_data (from_decision DrainCompleted now (cs_yield c1) (cs_gpu c1))
               [(''drain_ms'', DInt (milliseconds (t_sub now (cs_drain_start c1))))]) c1
         in begin_stop D E now (cs_yield c2) ''active requests finished within grace'' c2)
      else if de_action d = ActionPreempt then
        begin_stop D E now d '''' (force_close D E now d ''hard contention during grace'' c)
      else if de_action d = ActionDrain \<and> cs_drain_start c + de_grace d < cs_drain_deadline c then
        (let c1 = c\<lparr>cs_drain_deadline := cs_drain_start c + de_grace d\<rparr>;
             c2 = emit E (with_data (from_decision GraceShortened now d (cs_gpu c1))
               [(''previous_until'', DTime (cs_drain_deadline c)), (''grace_until'', DTime (cs_drain_deadline c1))]) c1
         in maybe_grace_expired D E now c2)
      else maybe_grace_expired D E now c)"

definition act :: "deps \<Rightarrow> env \<Rightarrow> time \<Rightarrow> decision \<Rightarrow> ctl \<Rightarrow> ctl" where
  "act D E now d c = (case cs_st c of
      Loading \<Rightarrow> act_loading D E now d c
    | Ready \<Rightarrow> act_admitting D E now d c
    | Busy \<Rightarrow> act_admitting D E now d c
    | Draining \<Rightarrow> act_draining D E now d c
    | Preempting \<Rightarrow> c
    | OtherState _ \<Rightarrow> c
    | _ \<Rightarrow> act_idle D E now d c)"

subsection \<open>After the action\<close>

definition check_vram_release :: "deps \<Rightarrow> env \<Rightarrow> time \<Rightarrow> ctl \<Rightarrow> ctl" where
  "check_vram_release D E now c =
     (let v = cs_vram c; timeout = rt_vram_release_timeout (cf_runtime (cs_cfg c));
          off = c\<lparr>cs_vram := v\<lparr>vc_active := False\<rparr>\<rparr>
      in
      if \<not> vc_active v \<or> gf_confidence (cs_gpu c) = ConfidenceNone then
        (if vc_active v \<and> timeout < t_sub now (vc_since v)
         then emit E (mk_event now VRAMNotReleased SeverityWarning
                (lit ''Could not confirm VRAM release: telemetry unavailable'') []) off
         else c)
      else
        (let tol = rt_vram_release_tolerance_mib (cf_runtime (cs_cfg c)); used = gf_vram_used_mib (cs_gpu c);
             released = (used \<le> cs_baseline c + tol \<or>
               0 < vc_footprint v \<and> used \<le> vc_used_before v - go_div (vc_footprint v * 9) 10)
         in if released then
              (let ms = milliseconds (t_sub now (vc_since v)) in
               emit E (mk_event now VRAMReleased NoSeverity
                 (Sprintf ''VRAM released: %d MiB in use (was %d MiB before stop)'' [FInt used, FInt (vc_used_before v)])
                 [(''release_ms'', DInt ms), (''vram_used_mib'', DInt used),
                  (''vram_before_stop_mib'', DInt (vc_used_before v)), (''baseline_mib'', DInt (cs_baseline c))])
                 (metric D (ObserveVRAMReleaseSeconds (fdiv (of_int_f ms) 1000)) off))
            else if timeout < t_sub now (vc_since v) then
              emit E (mk_event now VRAMNotReleased SeverityWarning
                (Sprintf ''VRAM not confirmed released after %s: %d MiB in use, baseline %d MiB''
                   [FDur timeout, FInt used, FInt (cs_baseline c)])
                [(''vram_used_mib'', DInt used), (''baseline_mib'', DInt (cs_baseline c))]) off
            else c))"

definition check_crash_reset :: "time \<Rightarrow> ctl \<Rightarrow> ctl" where
  "check_crash_reset now c =
     (let c1 = (if admitting (cs_st c) \<and> cs_loaded_at c \<noteq> 0
                   \<and> rc_crash_reset_after (cf_recovery (cs_cfg c)) \<le> t_sub now (cs_loaded_at c)
                then c\<lparr>cs_crash_count := 0, cs_telemetry_losses := 0, cs_gpu_resets := 0\<rparr> else c)
      in if admitting (cs_st c1) \<and> t_sub now (cs_loaded_at c1) < 30 * second
         then
           (let candidate = (case gf_confidence (cs_gpu c1) of
                  ConfidenceHigh \<Rightarrow> gf_own_vram_mib (cs_gpu c1)
                | ConfidenceDegraded \<Rightarrow> gf_vram_used_mib (cs_gpu c1) - cs_baseline c1
                | _ \<Rightarrow> 0)
            in if cs_footprint c1 < candidate then c1\<lparr>cs_footprint := candidate\<rparr> else c1)
         else c1)"

definition publish :: "deps \<Rightarrow> time \<Rightarrow> ctl \<Rightarrow> ctl" where
  "publish D now c =
     (let c1 = (if admitting (cs_st c) then c
                else c\<lparr>cs_gate := update_closed \<lparr>cd_condition = condition_of (cs_st c),
                       cd_reason = de_reason (cs_decision c),
                       cd_retry_after = de_next_load_at (cs_decision c)\<rparr> (cs_gate c)\<rparr>);
          next_t = de_next_load_at (cs_decision c1)
      in metric D (SetNextLoadSeconds (if next_t \<noteq> 0 then dur_seconds (t_sub next_t now) else 0))
           (metric D (SetActiveRequests (fst (active_requests now (cs_gate c1)))) c1))"

subsection \<open>One step\<close>

definition note_decision :: "env \<Rightarrow> time \<Rightarrow> decision \<Rightarrow> ctl \<Rightarrow> ctl" where
  "note_decision E now d c =
     (let c1 = (if de_competing d
                then
                  (let c0 = (if cs_st c = Cooldown \<and> de_rule (cs_decision c) = RuleCooldown
                             then emit E (from_decision CooldownReset now d (cs_gpu c)) c else c)
                   in c0\<lparr>cs_timers := (cs_timers c0)\<lparr>tm_last_competing_at := now,
                           tm_last_competing_rule := de_rule d\<rparr>\<rparr>)
                else c);
          c2 = (if de_rule d \<noteq> de_rule (cs_decision c1) \<and> \<not> runtime_running (cs_st c1)
                   \<and> de_idle_state d = cs_st c1
                   \<and> \<not> (is_game_rule (de_rule d) \<and> is_game_rule (de_rule (cs_decision c1)))
                then emit E (from_decision DecisionChanged now d (cs_gpu c1)) c1 else c1)
      in c2\<lparr>cs_decision := d, cs_last_evaluated := now\<rparr>)"

text \<open>Everything before the decision, the decision, and everything after it.\<close>

definition prepare :: "deps \<Rightarrow> env \<Rightarrow> time \<Rightarrow> bool \<Rightarrow> ctl \<Rightarrow> ctl" where
  "prepare D E now collect c =
     (let c1 = expire_mode E now (check_gpu_resets D E now (absorb_async D E now c));
          c2 = (if collect \<or> cs_last_evaluated c1 = 0 then observe D E now c1 else c1)
      in check_setup D E now (track_telemetry_health D E now c2))"

definition decide :: "deps \<Rightarrow> env \<Rightarrow> time \<Rightarrow> ctl \<Rightarrow> decision \<times> ctl" where
  "decide D E now c =
     (let (d, c1) = apply_manual (evaluate (ev_tz E) (snapshot_of now c) (cs_cfg c)) c
      in (apply_load_blocked D c1 (apply_zombie c1 d), c1))"

definition step :: "deps \<Rightarrow> env \<Rightarrow> bool \<Rightarrow> ctl \<Rightarrow> ctl" where
  "step D E collect c =
     (let now = ev_now E;
          (d, c1) = decide D E now (prepare D E now collect c);
          c2 = act D E now d (note_decision E now d c1)
      in persist D E (publish D now (check_crash_reset now (check_vram_release D E now c2))))"

end
