(* ===== verification/Controller_Frame.thy ===== *)
theory Controller_Frame
  imports Controller
begin

text \<open>
  What each method of the controller leaves alone. The fields that make up the lifecycle (state,
  instances, channels and goroutines, gate, current yield) are changed by a handful of methods
  only; for all the others these rules, which the simplifier applies, say so.
\<close>

lemma metric_frame [simp]:
  "cs_st (metric D m c) = cs_st c"
  "cs_inst (metric D m c) = cs_inst c"
  "cs_zombie (metric D m c) = cs_zombie c"
  "cs_zombie_stopping (metric D m c) = cs_zombie_stopping c"
  "cs_ready_ch (metric D m c) = cs_ready_ch c"
  "cs_stop_ch (metric D m c) = cs_stop_ch c"
  "cs_jobs (metric D m c) = cs_jobs c"
  "cs_gate (metric D m c) = cs_gate c"
  "cs_yield (metric D m c) = cs_yield c"
  "cs_drain_start (metric D m c) = cs_drain_start c"
  "cs_drain_deadline (metric D m c) = cs_drain_deadline c"
  "cs_cond (metric D m c) = cs_cond c"
  "cs_cfg (metric D m c) = cs_cfg c"
  by (simp_all add: metric_def)

lemma log_call_frame [simp]:
  "cs_st (log_call k c) = cs_st c"
  "cs_inst (log_call k c) = cs_inst c"
  "cs_zombie (log_call k c) = cs_zombie c"
  "cs_zombie_stopping (log_call k c) = cs_zombie_stopping c"
  "cs_ready_ch (log_call k c) = cs_ready_ch c"
  "cs_stop_ch (log_call k c) = cs_stop_ch c"
  "cs_jobs (log_call k c) = cs_jobs c"
  "cs_gate (log_call k c) = cs_gate c"
  "cs_yield (log_call k c) = cs_yield c"
  "cs_drain_start (log_call k c) = cs_drain_start c"
  "cs_drain_deadline (log_call k c) = cs_drain_deadline c"
  "cs_cond (log_call k c) = cs_cond c"
  "cs_cfg (log_call k c) = cs_cfg c"
  by (simp_all add: log_call_def)

lemma emit_frame [simp]:
  "cs_st (emit E e c) = cs_st c"
  "cs_inst (emit E e c) = cs_inst c"
  "cs_zombie (emit E e c) = cs_zombie c"
  "cs_zombie_stopping (emit E e c) = cs_zombie_stopping c"
  "cs_ready_ch (emit E e c) = cs_ready_ch c"
  "cs_stop_ch (emit E e c) = cs_stop_ch c"
  "cs_jobs (emit E e c) = cs_jobs c"
  "cs_gate (emit E e c) = cs_gate c"
  "cs_yield (emit E e c) = cs_yield c"
  "cs_drain_start (emit E e c) = cs_drain_start c"
  "cs_drain_deadline (emit E e c) = cs_drain_deadline c"
  "cs_cond (emit E e c) = cs_cond c"
  "cs_cfg (emit E e c) = cs_cfg c"
  by (simp_all add: emit_def Let_def)

lemma set_recovery_frame [simp]:
  "cs_st (set_recovery E now d r c) = cs_st c"
  "cs_inst (set_recovery E now d r c) = cs_inst c"
  "cs_zombie (set_recovery E now d r c) = cs_zombie c"
  "cs_zombie_stopping (set_recovery E now d r c) = cs_zombie_stopping c"
  "cs_ready_ch (set_recovery E now d r c) = cs_ready_ch c"
  "cs_stop_ch (set_recovery E now d r c) = cs_stop_ch c"
  "cs_jobs (set_recovery E now d r c) = cs_jobs c"
  "cs_gate (set_recovery E now d r c) = cs_gate c"
  "cs_yield (set_recovery E now d r c) = cs_yield c"
  "cs_drain_start (set_recovery E now d r c) = cs_drain_start c"
  "cs_drain_deadline (set_recovery E now d r c) = cs_drain_deadline c"
  "cs_cond (set_recovery E now d r c) = cs_cond c"
  "cs_cfg (set_recovery E now d r c) = cs_cfg c"
  by (simp_all add: set_recovery_def Let_def)

lemma persist_frame [simp]:
  "cs_st (persist D E c) = cs_st c"
  "cs_inst (persist D E c) = cs_inst c"
  "cs_zombie (persist D E c) = cs_zombie c"
  "cs_zombie_stopping (persist D E c) = cs_zombie_stopping c"
  "cs_ready_ch (persist D E c) = cs_ready_ch c"
  "cs_stop_ch (persist D E c) = cs_stop_ch c"
  "cs_jobs (persist D E c) = cs_jobs c"
  "cs_gate (persist D E c) = cs_gate c"
  "cs_yield (persist D E c) = cs_yield c"
  "cs_drain_start (persist D E c) = cs_drain_start c"
  "cs_drain_deadline (persist D E c) = cs_drain_deadline c"
  "cs_cond (persist D E c) = cs_cond c"
  "cs_cfg (persist D E c) = cs_cfg c"
  by (simp_all add: persist_def Let_def)

lemma emit_orphans_frame [simp]:
  "cs_st (emit_orphans E now os c) = cs_st c"
  "cs_inst (emit_orphans E now os c) = cs_inst c"
  "cs_zombie (emit_orphans E now os c) = cs_zombie c"
  "cs_zombie_stopping (emit_orphans E now os c) = cs_zombie_stopping c"
  "cs_ready_ch (emit_orphans E now os c) = cs_ready_ch c"
  "cs_stop_ch (emit_orphans E now os c) = cs_stop_ch c"
  "cs_jobs (emit_orphans E now os c) = cs_jobs c"
  "cs_gate (emit_orphans E now os c) = cs_gate c"
  "cs_yield (emit_orphans E now os c) = cs_yield c"
  "cs_drain_start (emit_orphans E now os c) = cs_drain_start c"
  "cs_drain_deadline (emit_orphans E now os c) = cs_drain_deadline c"
  "cs_cond (emit_orphans E now os c) = cs_cond c"
  "cs_cfg (emit_orphans E now os c) = cs_cfg c"
  by (induction os arbitrary: c) simp_all

lemma reconcile_frame [simp]:
  "cs_st (reconcile D E now c) = cs_st c"
  "cs_inst (reconcile D E now c) = cs_inst c"
  "cs_zombie (reconcile D E now c) = cs_zombie c"
  "cs_zombie_stopping (reconcile D E now c) = cs_zombie_stopping c"
  "cs_ready_ch (reconcile D E now c) = cs_ready_ch c"
  "cs_stop_ch (reconcile D E now c) = cs_stop_ch c"
  "cs_jobs (reconcile D E now c) = cs_jobs c"
  "cs_gate (reconcile D E now c) = cs_gate c"
  "cs_yield (reconcile D E now c) = cs_yield c"
  "cs_drain_start (reconcile D E now c) = cs_drain_start c"
  "cs_drain_deadline (reconcile D E now c) = cs_drain_deadline c"
  "cs_cond (reconcile D E now c) = cs_cond c"
  "cs_cfg (reconcile D E now c) = cs_cfg c"
  by (simp_all add: reconcile_def Let_def)

lemma backoff_frame [simp]:
  "cs_st (backoff E now c) = cs_st c"
  "cs_inst (backoff E now c) = cs_inst c"
  "cs_zombie (backoff E now c) = cs_zombie c"
  "cs_zombie_stopping (backoff E now c) = cs_zombie_stopping c"
  "cs_ready_ch (backoff E now c) = cs_ready_ch c"
  "cs_stop_ch (backoff E now c) = cs_stop_ch c"
  "cs_jobs (backoff E now c) = cs_jobs c"
  "cs_gate (backoff E now c) = cs_gate c"
  "cs_yield (backoff E now c) = cs_yield c"
  "cs_drain_start (backoff E now c) = cs_drain_start c"
  "cs_drain_deadline (backoff E now c) = cs_drain_deadline c"
  "cs_cond (backoff E now c) = cs_cond c"
  "cs_cfg (backoff E now c) = cs_cfg c"
  by (simp_all add: backoff_def Let_def)

lemma transition_frame [simp]:
  "cs_inst (snd (transition D E now to d msg dat c)) = cs_inst c"
  "cs_zombie (snd (transition D E now to d msg dat c)) = cs_zombie c"
  "cs_zombie_stopping (snd (transition D E now to d msg dat c)) = cs_zombie_stopping c"
  "cs_ready_ch (snd (transition D E now to d msg dat c)) = cs_ready_ch c"
  "cs_stop_ch (snd (transition D E now to d msg dat c)) = cs_stop_ch c"
  "cs_jobs (snd (transition D E now to d msg dat c)) = cs_jobs c"
  "cs_gate (snd (transition D E now to d msg dat c)) = cs_gate c"
  "cs_yield (snd (transition D E now to d msg dat c)) = cs_yield c"
  "cs_drain_start (snd (transition D E now to d msg dat c)) = cs_drain_start c"
  "cs_drain_deadline (snd (transition D E now to d msg dat c)) = cs_drain_deadline c"
  "cs_cfg (snd (transition D E now to d msg dat c)) = cs_cfg c"
  by (simp_all add: transition_def Let_def)

lemma close_gate_for_frame [simp]:
  "cs_st (snd (close_gate_for d c)) = cs_st c"
  "cs_inst (snd (close_gate_for d c)) = cs_inst c"
  "cs_zombie (snd (close_gate_for d c)) = cs_zombie c"
  "cs_zombie_stopping (snd (close_gate_for d c)) = cs_zombie_stopping c"
  "cs_ready_ch (snd (close_gate_for d c)) = cs_ready_ch c"
  "cs_stop_ch (snd (close_gate_for d c)) = cs_stop_ch c"
  "cs_jobs (snd (close_gate_for d c)) = cs_jobs c"
  "cs_yield (snd (close_gate_for d c)) = cs_yield c"
  "cs_drain_start (snd (close_gate_for d c)) = cs_drain_start c"
  "cs_drain_deadline (snd (close_gate_for d c)) = cs_drain_deadline c"
  "cs_cond (snd (close_gate_for d c)) = cs_cond c"
  "cs_cfg (snd (close_gate_for d c)) = cs_cfg c"
  by (simp_all add: close_gate_for_def close_gate_def Let_def)

lemma force_close_frame [simp]:
  "cs_st (force_close D E now d why c) = cs_st c"
  "cs_inst (force_close D E now d why c) = cs_inst c"
  "cs_zombie (force_close D E now d why c) = cs_zombie c"
  "cs_zombie_stopping (force_close D E now d why c) = cs_zombie_stopping c"
  "cs_ready_ch (force_close D E now d why c) = cs_ready_ch c"
  "cs_stop_ch (force_close D E now d why c) = cs_stop_ch c"
  "cs_jobs (force_close D E now d why c) = cs_jobs c"
  "cs_yield (force_close D E now d why c) = cs_yield c"
  "cs_drain_start (force_close D E now d why c) = cs_drain_start c"
  "cs_drain_deadline (force_close D E now d why c) = cs_drain_deadline c"
  "cs_cond (force_close D E now d why c) = cs_cond c"
  "cs_cfg (force_close D E now d why c) = cs_cfg c"
  by (simp_all add: force_close_def Let_def case_prod_unfold)

lemma retry_zombie_frame [simp]:
  "cs_st (retry_zombie now c) = cs_st c"
  "cs_inst (retry_zombie now c) = cs_inst c"
  "cs_zombie (retry_zombie now c) = cs_zombie c"
  "cs_ready_ch (retry_zombie now c) = cs_ready_ch c"
  "cs_stop_ch (retry_zombie now c) = cs_stop_ch c"
  "cs_gate (retry_zombie now c) = cs_gate c"
  "cs_yield (retry_zombie now c) = cs_yield c"
  "cs_drain_start (retry_zombie now c) = cs_drain_start c"
  "cs_drain_deadline (retry_zombie now c) = cs_drain_deadline c"
  "cs_cond (retry_zombie now c) = cs_cond c"
  "cs_cfg (retry_zombie now c) = cs_cfg c"
  by (simp_all add: retry_zombie_def split: option.split)

lemma account_yield_frame [simp]:
  "cs_st (snd (account_yield D E now y man c)) = cs_st c"
  "cs_inst (snd (account_yield D E now y man c)) = cs_inst c"
  "cs_zombie (snd (account_yield D E now y man c)) = cs_zombie c"
  "cs_zombie_stopping (snd (account_yield D E now y man c)) = cs_zombie_stopping c"
  "cs_ready_ch (snd (account_yield D E now y man c)) = cs_ready_ch c"
  "cs_stop_ch (snd (account_yield D E now y man c)) = cs_stop_ch c"
  "cs_jobs (snd (account_yield D E now y man c)) = cs_jobs c"
  "cs_gate (snd (account_yield D E now y man c)) = cs_gate c"
  "cs_yield (snd (account_yield D E now y man c)) = cs_yield c"
  "cs_drain_start (snd (account_yield D E now y man c)) = cs_drain_start c"
  "cs_drain_deadline (snd (account_yield D E now y man c)) = cs_drain_deadline c"
  "cs_cond (snd (account_yield D E now y man c)) = cs_cond c"
  "cs_cfg (snd (account_yield D E now y man c)) = cs_cfg c"
  by (simp_all add: account_yield_def Let_def)

lemma clear_run_frame [simp]:
  "cs_st (clear_run c) = cs_st c"
  "cs_zombie (clear_run c) = cs_zombie c"
  "cs_zombie_stopping (clear_run c) = cs_zombie_stopping c"
  "cs_ready_ch (clear_run c) = cs_ready_ch c"
  "cs_stop_ch (clear_run c) = cs_stop_ch c"
  "cs_jobs (clear_run c) = cs_jobs c"
  "cs_gate (clear_run c) = cs_gate c"
  "cs_cond (clear_run c) = cs_cond c"
  "cs_cfg (clear_run c) = cs_cfg c"
  by (simp_all add: clear_run_def)

lemma keep_zombie_frame [simp]:
  "cs_st (keep_zombie now i c) = cs_st c"
  "cs_inst (keep_zombie now i c) = cs_inst c"
  "cs_zombie_stopping (keep_zombie now i c) = cs_zombie_stopping c"
  "cs_ready_ch (keep_zombie now i c) = cs_ready_ch c"
  "cs_stop_ch (keep_zombie now i c) = cs_stop_ch c"
  "cs_jobs (keep_zombie now i c) = cs_jobs c"
  "cs_gate (keep_zombie now i c) = cs_gate c"
  "cs_yield (keep_zombie now i c) = cs_yield c"
  "cs_drain_start (keep_zombie now i c) = cs_drain_start c"
  "cs_drain_deadline (keep_zombie now i c) = cs_drain_deadline c"
  "cs_cond (keep_zombie now i c) = cs_cond c"
  "cs_cfg (keep_zombie now i c) = cs_cfg c"
  by (simp_all add: keep_zombie_def Let_def)

lemma report_kill_fallback_frame [simp]:
  "cs_st (report_kill_fallback E now res pid c) = cs_st c"
  "cs_inst (report_kill_fallback E now res pid c) = cs_inst c"
  "cs_zombie (report_kill_fallback E now res pid c) = cs_zombie c"
  "cs_zombie_stopping (report_kill_fallback E now res pid c) = cs_zombie_stopping c"
  "cs_ready_ch (report_kill_fallback E now res pid c) = cs_ready_ch c"
  "cs_stop_ch (report_kill_fallback E now res pid c) = cs_stop_ch c"
  "cs_jobs (report_kill_fallback E now res pid c) = cs_jobs c"
  "cs_gate (report_kill_fallback E now res pid c) = cs_gate c"
  "cs_yield (report_kill_fallback E now res pid c) = cs_yield c"
  "cs_drain_start (report_kill_fallback E now res pid c) = cs_drain_start c"
  "cs_drain_deadline (report_kill_fallback E now res pid c) = cs_drain_deadline c"
  "cs_cond (report_kill_fallback E now res pid c) = cs_cond c"
  "cs_cfg (report_kill_fallback E now res pid c) = cs_cfg c"
  by (simp_all add: report_kill_fallback_def)

lemma report_stopped_frame [simp]:
  "cs_st (report_stopped E now res pid rl c) = cs_st c"
  "cs_inst (report_stopped E now res pid rl c) = cs_inst c"
  "cs_zombie (report_stopped E now res pid rl c) = cs_zombie c"
  "cs_zombie_stopping (report_stopped E now res pid rl c) = cs_zombie_stopping c"
  "cs_ready_ch (report_stopped E now res pid rl c) = cs_ready_ch c"
  "cs_stop_ch (report_stopped E now res pid rl c) = cs_stop_ch c"
  "cs_jobs (report_stopped E now res pid rl c) = cs_jobs c"
  "cs_gate (report_stopped E now res pid rl c) = cs_gate c"
  "cs_yield (report_stopped E now res pid rl c) = cs_yield c"
  "cs_drain_start (report_stopped E now res pid rl c) = cs_drain_start c"
  "cs_drain_deadline (report_stopped E now res pid rl c) = cs_drain_deadline c"
  "cs_cond (report_stopped E now res pid rl c) = cs_cond c"
  "cs_cfg (report_stopped E now res pid rl c) = cs_cfg c"
  by (simp_all add: report_stopped_def)

lemma watch_vram_frame [simp]:
  "cs_st (watch_vram now c) = cs_st c"
  "cs_inst (watch_vram now c) = cs_inst c"
  "cs_zombie (watch_vram now c) = cs_zombie c"
  "cs_zombie_stopping (watch_vram now c) = cs_zombie_stopping c"
  "cs_ready_ch (watch_vram now c) = cs_ready_ch c"
  "cs_stop_ch (watch_vram now c) = cs_stop_ch c"
  "cs_jobs (watch_vram now c) = cs_jobs c"
  "cs_gate (watch_vram now c) = cs_gate c"
  "cs_yield (watch_vram now c) = cs_yield c"
  "cs_drain_start (watch_vram now c) = cs_drain_start c"
  "cs_drain_deadline (watch_vram now c) = cs_drain_deadline c"
  "cs_cond (watch_vram now c) = cs_cond c"
  "cs_cfg (watch_vram now c) = cs_cfg c"
  by (simp_all add: watch_vram_def)

lemma load_failed_frame [simp]:
  "cs_inst (load_failed D E now d err diag c) = cs_inst c"
  "cs_zombie (load_failed D E now d err diag c) = cs_zombie c"
  "cs_zombie_stopping (load_failed D E now d err diag c) = cs_zombie_stopping c"
  "cs_ready_ch (load_failed D E now d err diag c) = cs_ready_ch c"
  "cs_stop_ch (load_failed D E now d err diag c) = cs_stop_ch c"
  "cs_jobs (load_failed D E now d err diag c) = cs_jobs c"
  "cs_gate (load_failed D E now d err diag c) = cs_gate c"
  "cs_yield (load_failed D E now d err diag c) = cs_yield c"
  "cs_drain_start (load_failed D E now d err diag c) = cs_drain_start c"
  "cs_drain_deadline (load_failed D E now d err diag c) = cs_drain_deadline c"
  "cs_cfg (load_failed D E now d err diag c) = cs_cfg c"
  by (simp_all add: load_failed_def Let_def)

lemma move_watermark_frame [simp]:
  "cs_st (move_watermark now rs c) = cs_st c"
  "cs_inst (move_watermark now rs c) = cs_inst c"
  "cs_zombie (move_watermark now rs c) = cs_zombie c"
  "cs_zombie_stopping (move_watermark now rs c) = cs_zombie_stopping c"
  "cs_ready_ch (move_watermark now rs c) = cs_ready_ch c"
  "cs_stop_ch (move_watermark now rs c) = cs_stop_ch c"
  "cs_jobs (move_watermark now rs c) = cs_jobs c"
  "cs_gate (move_watermark now rs c) = cs_gate c"
  "cs_yield (move_watermark now rs c) = cs_yield c"
  "cs_drain_start (move_watermark now rs c) = cs_drain_start c"
  "cs_drain_deadline (move_watermark now rs c) = cs_drain_deadline c"
  "cs_cond (move_watermark now rs c) = cs_cond c"
  "cs_cfg (move_watermark now rs c) = cs_cfg c"
  by (simp_all add: move_watermark_def)

lemma count_reset_frame [simp]:
  "cs_st (count_reset E now rs c) = cs_st c"
  "cs_inst (count_reset E now rs c) = cs_inst c"
  "cs_zombie (count_reset E now rs c) = cs_zombie c"
  "cs_zombie_stopping (count_reset E now rs c) = cs_zombie_stopping c"
  "cs_ready_ch (count_reset E now rs c) = cs_ready_ch c"
  "cs_stop_ch (count_reset E now rs c) = cs_stop_ch c"
  "cs_jobs (count_reset E now rs c) = cs_jobs c"
  "cs_gate (count_reset E now rs c) = cs_gate c"
  "cs_yield (count_reset E now rs c) = cs_yield c"
  "cs_drain_start (count_reset E now rs c) = cs_drain_start c"
  "cs_drain_deadline (count_reset E now rs c) = cs_drain_deadline c"
  "cs_cond (count_reset E now rs c) = cs_cond c"
  "cs_cfg (count_reset E now rs c) = cs_cfg c"
  by (simp_all add: count_reset_def Let_def)

lemma poll_resets_frame [simp]:
  "cs_st (poll_resets E now rs c) = cs_st c"
  "cs_inst (poll_resets E now rs c) = cs_inst c"
  "cs_zombie (poll_resets E now rs c) = cs_zombie c"
  "cs_zombie_stopping (poll_resets E now rs c) = cs_zombie_stopping c"
  "cs_ready_ch (poll_resets E now rs c) = cs_ready_ch c"
  "cs_stop_ch (poll_resets E now rs c) = cs_stop_ch c"
  "cs_jobs (poll_resets E now rs c) = cs_jobs c"
  "cs_gate (poll_resets E now rs c) = cs_gate c"
  "cs_yield (poll_resets E now rs c) = cs_yield c"
  "cs_drain_start (poll_resets E now rs c) = cs_drain_start c"
  "cs_drain_deadline (poll_resets E now rs c) = cs_drain_deadline c"
  "cs_cond (poll_resets E now rs c) = cs_cond c"
  "cs_cfg (poll_resets E now rs c) = cs_cfg c"
  by (simp_all add: poll_resets_def)

lemma clear_device_lost_frame [simp]:
  "cs_st (clear_device_lost c) = cs_st c"
  "cs_inst (clear_device_lost c) = cs_inst c"
  "cs_zombie (clear_device_lost c) = cs_zombie c"
  "cs_zombie_stopping (clear_device_lost c) = cs_zombie_stopping c"
  "cs_ready_ch (clear_device_lost c) = cs_ready_ch c"
  "cs_stop_ch (clear_device_lost c) = cs_stop_ch c"
  "cs_jobs (clear_device_lost c) = cs_jobs c"
  "cs_gate (clear_device_lost c) = cs_gate c"
  "cs_yield (clear_device_lost c) = cs_yield c"
  "cs_drain_start (clear_device_lost c) = cs_drain_start c"
  "cs_drain_deadline (clear_device_lost c) = cs_drain_deadline c"
  "cs_cond (clear_device_lost c) = cs_cond c"
  "cs_cfg (clear_device_lost c) = cs_cfg c"
  by (simp_all add: clear_device_lost_def)

lemma check_gpu_resets_frame [simp]:
  "cs_st (check_gpu_resets D E now c) = cs_st c"
  "cs_inst (check_gpu_resets D E now c) = cs_inst c"
  "cs_zombie (check_gpu_resets D E now c) = cs_zombie c"
  "cs_zombie_stopping (check_gpu_resets D E now c) = cs_zombie_stopping c"
  "cs_ready_ch (check_gpu_resets D E now c) = cs_ready_ch c"
  "cs_stop_ch (check_gpu_resets D E now c) = cs_stop_ch c"
  "cs_jobs (check_gpu_resets D E now c) = cs_jobs c"
  "cs_gate (check_gpu_resets D E now c) = cs_gate c"
  "cs_yield (check_gpu_resets D E now c) = cs_yield c"
  "cs_drain_start (check_gpu_resets D E now c) = cs_drain_start c"
  "cs_drain_deadline (check_gpu_resets D E now c) = cs_drain_deadline c"
  "cs_cond (check_gpu_resets D E now c) = cs_cond c"
  "cs_cfg (check_gpu_resets D E now c) = cs_cfg c"
  by (simp_all add: check_gpu_resets_def)

lemma expire_mode_frame [simp]:
  "cs_st (expire_mode E now c) = cs_st c"
  "cs_inst (expire_mode E now c) = cs_inst c"
  "cs_zombie (expire_mode E now c) = cs_zombie c"
  "cs_zombie_stopping (expire_mode E now c) = cs_zombie_stopping c"
  "cs_ready_ch (expire_mode E now c) = cs_ready_ch c"
  "cs_stop_ch (expire_mode E now c) = cs_stop_ch c"
  "cs_jobs (expire_mode E now c) = cs_jobs c"
  "cs_gate (expire_mode E now c) = cs_gate c"
  "cs_yield (expire_mode E now c) = cs_yield c"
  "cs_drain_start (expire_mode E now c) = cs_drain_start c"
  "cs_drain_deadline (expire_mode E now c) = cs_drain_deadline c"
  "cs_cond (expire_mode E now c) = cs_cond c"
  "cs_cfg (expire_mode E now c) = cs_cfg c"
  by (simp_all add: expire_mode_def split: option.split)

lemma end_episode_frame [simp]:
  "cs_st (end_episode E now pid dg io c) = cs_st c"
  "cs_inst (end_episode E now pid dg io c) = cs_inst c"
  "cs_zombie (end_episode E now pid dg io c) = cs_zombie c"
  "cs_zombie_stopping (end_episode E now pid dg io c) = cs_zombie_stopping c"
  "cs_ready_ch (end_episode E now pid dg io c) = cs_ready_ch c"
  "cs_stop_ch (end_episode E now pid dg io c) = cs_stop_ch c"
  "cs_jobs (end_episode E now pid dg io c) = cs_jobs c"
  "cs_gate (end_episode E now pid dg io c) = cs_gate c"
  "cs_yield (end_episode E now pid dg io c) = cs_yield c"
  "cs_drain_start (end_episode E now pid dg io c) = cs_drain_start c"
  "cs_drain_deadline (end_episode E now pid dg io c) = cs_drain_deadline c"
  "cs_cond (end_episode E now pid dg io c) = cs_cond c"
  "cs_cfg (end_episode E now pid dg io c) = cs_cfg c"
  by (simp_all add: end_episode_def Let_def)

lemma open_episode_frame [simp]:
  "cs_st (open_episode now pid c) = cs_st c"
  "cs_inst (open_episode now pid c) = cs_inst c"
  "cs_zombie (open_episode now pid c) = cs_zombie c"
  "cs_zombie_stopping (open_episode now pid c) = cs_zombie_stopping c"
  "cs_ready_ch (open_episode now pid c) = cs_ready_ch c"
  "cs_stop_ch (open_episode now pid c) = cs_stop_ch c"
  "cs_jobs (open_episode now pid c) = cs_jobs c"
  "cs_gate (open_episode now pid c) = cs_gate c"
  "cs_yield (open_episode now pid c) = cs_yield c"
  "cs_drain_start (open_episode now pid c) = cs_drain_start c"
  "cs_drain_deadline (open_episode now pid c) = cs_drain_deadline c"
  "cs_cond (open_episode now pid c) = cs_cond c"
  "cs_cfg (open_episode now pid c) = cs_cfg c"
  by (simp_all add: open_episode_def)

lemma record_episode_frame [simp]:
  "cs_st (record_episode E now inp c) = cs_st c"
  "cs_inst (record_episode E now inp c) = cs_inst c"
  "cs_zombie (record_episode E now inp c) = cs_zombie c"
  "cs_zombie_stopping (record_episode E now inp c) = cs_zombie_stopping c"
  "cs_ready_ch (record_episode E now inp c) = cs_ready_ch c"
  "cs_stop_ch (record_episode E now inp c) = cs_stop_ch c"
  "cs_jobs (record_episode E now inp c) = cs_jobs c"
  "cs_gate (record_episode E now inp c) = cs_gate c"
  "cs_yield (record_episode E now inp c) = cs_yield c"
  "cs_drain_start (record_episode E now inp c) = cs_drain_start c"
  "cs_drain_deadline (record_episode E now inp c) = cs_drain_deadline c"
  "cs_cond (record_episode E now inp c) = cs_cond c"
  "cs_cfg (record_episode E now inp c) = cs_cfg c"
  by (simp_all add: record_episode_def Let_def)

lemma track_attribution_frame [simp]:
  "cs_st (track_attribution E now inp c) = cs_st c"
  "cs_inst (track_attribution E now inp c) = cs_inst c"
  "cs_zombie (track_attribution E now inp c) = cs_zombie c"
  "cs_zombie_stopping (track_attribution E now inp c) = cs_zombie_stopping c"
  "cs_ready_ch (track_attribution E now inp c) = cs_ready_ch c"
  "cs_stop_ch (track_attribution E now inp c) = cs_stop_ch c"
  "cs_jobs (track_attribution E now inp c) = cs_jobs c"
  "cs_gate (track_attribution E now inp c) = cs_gate c"
  "cs_yield (track_attribution E now inp c) = cs_yield c"
  "cs_drain_start (track_attribution E now inp c) = cs_drain_start c"
  "cs_drain_deadline (track_attribution E now inp c) = cs_drain_deadline c"
  "cs_cond (track_attribution E now inp c) = cs_cond c"
  "cs_cfg (track_attribution E now inp c) = cs_cfg c"
  by (simp_all add: track_attribution_def Let_def)

lemma scan_frame [simp]:
  "cs_st (scan D E now c) = cs_st c"
  "cs_inst (scan D E now c) = cs_inst c"
  "cs_zombie (scan D E now c) = cs_zombie c"
  "cs_zombie_stopping (scan D E now c) = cs_zombie_stopping c"
  "cs_ready_ch (scan D E now c) = cs_ready_ch c"
  "cs_stop_ch (scan D E now c) = cs_stop_ch c"
  "cs_jobs (scan D E now c) = cs_jobs c"
  "cs_gate (scan D E now c) = cs_gate c"
  "cs_yield (scan D E now c) = cs_yield c"
  "cs_drain_start (scan D E now c) = cs_drain_start c"
  "cs_drain_deadline (scan D E now c) = cs_drain_deadline c"
  "cs_cond (scan D E now c) = cs_cond c"
  "cs_cfg (scan D E now c) = cs_cfg c"
  by (simp_all add: scan_def)

lemma sampled_frame [simp]:
  "cs_st (sampled D E c) = cs_st c"
  "cs_inst (sampled D E c) = cs_inst c"
  "cs_zombie (sampled D E c) = cs_zombie c"
  "cs_zombie_stopping (sampled D E c) = cs_zombie_stopping c"
  "cs_ready_ch (sampled D E c) = cs_ready_ch c"
  "cs_stop_ch (sampled D E c) = cs_stop_ch c"
  "cs_jobs (sampled D E c) = cs_jobs c"
  "cs_gate (sampled D E c) = cs_gate c"
  "cs_yield (sampled D E c) = cs_yield c"
  "cs_drain_start (sampled D E c) = cs_drain_start c"
  "cs_drain_deadline (sampled D E c) = cs_drain_deadline c"
  "cs_cond (sampled D E c) = cs_cond c"
  "cs_cfg (sampled D E c) = cs_cfg c"
  by (simp_all add: sampled_def)

lemma build_facts_frame [simp]:
  "cs_st (build_facts D E now inp c) = cs_st c"
  "cs_inst (build_facts D E now inp c) = cs_inst c"
  "cs_zombie (build_facts D E now inp c) = cs_zombie c"
  "cs_zombie_stopping (build_facts D E now inp c) = cs_zombie_stopping c"
  "cs_ready_ch (build_facts D E now inp c) = cs_ready_ch c"
  "cs_stop_ch (build_facts D E now inp c) = cs_stop_ch c"
  "cs_jobs (build_facts D E now inp c) = cs_jobs c"
  "cs_gate (build_facts D E now inp c) = cs_gate c"
  "cs_yield (build_facts D E now inp c) = cs_yield c"
  "cs_drain_start (build_facts D E now inp c) = cs_drain_start c"
  "cs_drain_deadline (build_facts D E now inp c) = cs_drain_deadline c"
  "cs_cond (build_facts D E now inp c) = cs_cond c"
  "cs_cfg (build_facts D E now inp c) = cs_cfg c"
  by (simp_all add: build_facts_def)

lemma discount_vram_frame [simp]:
  "cs_st (discount_vram c) = cs_st c"
  "cs_inst (discount_vram c) = cs_inst c"
  "cs_zombie (discount_vram c) = cs_zombie c"
  "cs_zombie_stopping (discount_vram c) = cs_zombie_stopping c"
  "cs_ready_ch (discount_vram c) = cs_ready_ch c"
  "cs_stop_ch (discount_vram c) = cs_stop_ch c"
  "cs_jobs (discount_vram c) = cs_jobs c"
  "cs_gate (discount_vram c) = cs_gate c"
  "cs_yield (discount_vram c) = cs_yield c"
  "cs_drain_start (discount_vram c) = cs_drain_start c"
  "cs_drain_deadline (discount_vram c) = cs_drain_deadline c"
  "cs_cond (discount_vram c) = cs_cond c"
  "cs_cfg (discount_vram c) = cs_cfg c"
  by (simp_all add: discount_vram_def)

lemma publish_gpu_frame [simp]:
  "cs_st (publish_gpu D c) = cs_st c"
  "cs_inst (publish_gpu D c) = cs_inst c"
  "cs_zombie (publish_gpu D c) = cs_zombie c"
  "cs_zombie_stopping (publish_gpu D c) = cs_zombie_stopping c"
  "cs_ready_ch (publish_gpu D c) = cs_ready_ch c"
  "cs_stop_ch (publish_gpu D c) = cs_stop_ch c"
  "cs_jobs (publish_gpu D c) = cs_jobs c"
  "cs_gate (publish_gpu D c) = cs_gate c"
  "cs_yield (publish_gpu D c) = cs_yield c"
  "cs_drain_start (publish_gpu D c) = cs_drain_start c"
  "cs_drain_deadline (publish_gpu D c) = cs_drain_deadline c"
  "cs_cond (publish_gpu D c) = cs_cond c"
  "cs_cfg (publish_gpu D c) = cs_cfg c"
  by (simp_all add: publish_gpu_def)

lemma observe_frame [simp]:
  "cs_st (observe D E now c) = cs_st c"
  "cs_inst (observe D E now c) = cs_inst c"
  "cs_zombie (observe D E now c) = cs_zombie c"
  "cs_zombie_stopping (observe D E now c) = cs_zombie_stopping c"
  "cs_ready_ch (observe D E now c) = cs_ready_ch c"
  "cs_stop_ch (observe D E now c) = cs_stop_ch c"
  "cs_jobs (observe D E now c) = cs_jobs c"
  "cs_gate (observe D E now c) = cs_gate c"
  "cs_yield (observe D E now c) = cs_yield c"
  "cs_drain_start (observe D E now c) = cs_drain_start c"
  "cs_drain_deadline (observe D E now c) = cs_drain_deadline c"
  "cs_cond (observe D E now c) = cs_cond c"
  "cs_cfg (observe D E now c) = cs_cfg c"
  by (simp_all add: observe_def Let_def)

lemma note_loss_frame [simp]:
  "cs_st (note_loss D E now c) = cs_st c"
  "cs_inst (note_loss D E now c) = cs_inst c"
  "cs_zombie (note_loss D E now c) = cs_zombie c"
  "cs_zombie_stopping (note_loss D E now c) = cs_zombie_stopping c"
  "cs_ready_ch (note_loss D E now c) = cs_ready_ch c"
  "cs_stop_ch (note_loss D E now c) = cs_stop_ch c"
  "cs_jobs (note_loss D E now c) = cs_jobs c"
  "cs_gate (note_loss D E now c) = cs_gate c"
  "cs_yield (note_loss D E now c) = cs_yield c"
  "cs_drain_start (note_loss D E now c) = cs_drain_start c"
  "cs_drain_deadline (note_loss D E now c) = cs_drain_deadline c"
  "cs_cond (note_loss D E now c) = cs_cond c"
  "cs_cfg (note_loss D E now c) = cs_cfg c"
  by (simp_all add: note_loss_def Let_def)

lemma note_recovery_frame [simp]:
  "cs_st (note_recovery E now c) = cs_st c"
  "cs_inst (note_recovery E now c) = cs_inst c"
  "cs_zombie (note_recovery E now c) = cs_zombie c"
  "cs_zombie_stopping (note_recovery E now c) = cs_zombie_stopping c"
  "cs_ready_ch (note_recovery E now c) = cs_ready_ch c"
  "cs_stop_ch (note_recovery E now c) = cs_stop_ch c"
  "cs_jobs (note_recovery E now c) = cs_jobs c"
  "cs_gate (note_recovery E now c) = cs_gate c"
  "cs_yield (note_recovery E now c) = cs_yield c"
  "cs_drain_start (note_recovery E now c) = cs_drain_start c"
  "cs_drain_deadline (note_recovery E now c) = cs_drain_deadline c"
  "cs_cond (note_recovery E now c) = cs_cond c"
  "cs_cfg (note_recovery E now c) = cs_cfg c"
  by (simp_all add: note_recovery_def Let_def)

lemma track_telemetry_health_frame [simp]:
  "cs_st (track_telemetry_health D E now c) = cs_st c"
  "cs_inst (track_telemetry_health D E now c) = cs_inst c"
  "cs_zombie (track_telemetry_health D E now c) = cs_zombie c"
  "cs_zombie_stopping (track_telemetry_health D E now c) = cs_zombie_stopping c"
  "cs_ready_ch (track_telemetry_health D E now c) = cs_ready_ch c"
  "cs_stop_ch (track_telemetry_health D E now c) = cs_stop_ch c"
  "cs_jobs (track_telemetry_health D E now c) = cs_jobs c"
  "cs_gate (track_telemetry_health D E now c) = cs_gate c"
  "cs_yield (track_telemetry_health D E now c) = cs_yield c"
  "cs_drain_start (track_telemetry_health D E now c) = cs_drain_start c"
  "cs_drain_deadline (track_telemetry_health D E now c) = cs_drain_deadline c"
  "cs_cond (track_telemetry_health D E now c) = cs_cond c"
  "cs_cfg (track_telemetry_health D E now c) = cs_cfg c"
  by (simp_all add: track_telemetry_health_def)

lemma set_baseline_frame [simp]:
  "cs_st (set_baseline c) = cs_st c"
  "cs_inst (set_baseline c) = cs_inst c"
  "cs_zombie (set_baseline c) = cs_zombie c"
  "cs_zombie_stopping (set_baseline c) = cs_zombie_stopping c"
  "cs_ready_ch (set_baseline c) = cs_ready_ch c"
  "cs_stop_ch (set_baseline c) = cs_stop_ch c"
  "cs_jobs (set_baseline c) = cs_jobs c"
  "cs_gate (set_baseline c) = cs_gate c"
  "cs_yield (set_baseline c) = cs_yield c"
  "cs_drain_start (set_baseline c) = cs_drain_start c"
  "cs_drain_deadline (set_baseline c) = cs_drain_deadline c"
  "cs_cond (set_baseline c) = cs_cond c"
  "cs_cfg (set_baseline c) = cs_cfg c"
  by (simp_all add: set_baseline_def)

lemma report_crash_frame [simp]:
  "cs_st (report_crash D E now i c) = cs_st c"
  "cs_inst (report_crash D E now i c) = cs_inst c"
  "cs_zombie (report_crash D E now i c) = cs_zombie c"
  "cs_zombie_stopping (report_crash D E now i c) = cs_zombie_stopping c"
  "cs_ready_ch (report_crash D E now i c) = cs_ready_ch c"
  "cs_stop_ch (report_crash D E now i c) = cs_stop_ch c"
  "cs_jobs (report_crash D E now i c) = cs_jobs c"
  "cs_gate (report_crash D E now i c) = cs_gate c"
  "cs_yield (report_crash D E now i c) = cs_yield c"
  "cs_drain_start (report_crash D E now i c) = cs_drain_start c"
  "cs_drain_deadline (report_crash D E now i c) = cs_drain_deadline c"
  "cs_cond (report_crash D E now i c) = cs_cond c"
  "cs_cfg (report_crash D E now i c) = cs_cfg c"
  by (simp_all add: report_crash_def Let_def)

lemma cut_requests_frame [simp]:
  "cs_st (cut_requests c) = cs_st c"
  "cs_inst (cut_requests c) = cs_inst c"
  "cs_zombie (cut_requests c) = cs_zombie c"
  "cs_zombie_stopping (cut_requests c) = cs_zombie_stopping c"
  "cs_ready_ch (cut_requests c) = cs_ready_ch c"
  "cs_stop_ch (cut_requests c) = cs_stop_ch c"
  "cs_jobs (cut_requests c) = cs_jobs c"
  "cs_yield (cut_requests c) = cs_yield c"
  "cs_drain_start (cut_requests c) = cs_drain_start c"
  "cs_drain_deadline (cut_requests c) = cs_drain_deadline c"
  "cs_cond (cut_requests c) = cs_cond c"
  "cs_cfg (cut_requests c) = cs_cfg c"
  by (simp_all add: cut_requests_def)

lemma forget_drain_frame [simp]:
  "cs_st (forget_drain c) = cs_st c"
  "cs_inst (forget_drain c) = cs_inst c"
  "cs_zombie (forget_drain c) = cs_zombie c"
  "cs_zombie_stopping (forget_drain c) = cs_zombie_stopping c"
  "cs_ready_ch (forget_drain c) = cs_ready_ch c"
  "cs_stop_ch (forget_drain c) = cs_stop_ch c"
  "cs_jobs (forget_drain c) = cs_jobs c"
  "cs_gate (forget_drain c) = cs_gate c"
  "cs_cond (forget_drain c) = cs_cond c"
  "cs_cfg (forget_drain c) = cs_cfg c"
  by (simp_all add: forget_drain_def)

lemma check_setup_frame [simp]:
  "cs_st (check_setup D E now c) = cs_st c"
  "cs_inst (check_setup D E now c) = cs_inst c"
  "cs_zombie (check_setup D E now c) = cs_zombie c"
  "cs_zombie_stopping (check_setup D E now c) = cs_zombie_stopping c"
  "cs_ready_ch (check_setup D E now c) = cs_ready_ch c"
  "cs_stop_ch (check_setup D E now c) = cs_stop_ch c"
  "cs_jobs (check_setup D E now c) = cs_jobs c"
  "cs_gate (check_setup D E now c) = cs_gate c"
  "cs_yield (check_setup D E now c) = cs_yield c"
  "cs_drain_start (check_setup D E now c) = cs_drain_start c"
  "cs_drain_deadline (check_setup D E now c) = cs_drain_deadline c"
  "cs_cond (check_setup D E now c) = cs_cond c"
  "cs_cfg (check_setup D E now c) = cs_cfg c"
  by (simp_all add: check_setup_def Let_def split: option.split)

lemma apply_manual_frame [simp]:
  "cs_st (snd (apply_manual d c)) = cs_st c"
  "cs_inst (snd (apply_manual d c)) = cs_inst c"
  "cs_zombie (snd (apply_manual d c)) = cs_zombie c"
  "cs_zombie_stopping (snd (apply_manual d c)) = cs_zombie_stopping c"
  "cs_ready_ch (snd (apply_manual d c)) = cs_ready_ch c"
  "cs_stop_ch (snd (apply_manual d c)) = cs_stop_ch c"
  "cs_jobs (snd (apply_manual d c)) = cs_jobs c"
  "cs_gate (snd (apply_manual d c)) = cs_gate c"
  "cs_yield (snd (apply_manual d c)) = cs_yield c"
  "cs_drain_start (snd (apply_manual d c)) = cs_drain_start c"
  "cs_drain_deadline (snd (apply_manual d c)) = cs_drain_deadline c"
  "cs_cond (snd (apply_manual d c)) = cs_cond c"
  "cs_cfg (snd (apply_manual d c)) = cs_cfg c"
  by (simp_all add: apply_manual_def Let_def)

lemma note_decision_frame [simp]:
  "cs_st (note_decision E now d c) = cs_st c"
  "cs_inst (note_decision E now d c) = cs_inst c"
  "cs_zombie (note_decision E now d c) = cs_zombie c"
  "cs_zombie_stopping (note_decision E now d c) = cs_zombie_stopping c"
  "cs_ready_ch (note_decision E now d c) = cs_ready_ch c"
  "cs_stop_ch (note_decision E now d c) = cs_stop_ch c"
  "cs_jobs (note_decision E now d c) = cs_jobs c"
  "cs_gate (note_decision E now d c) = cs_gate c"
  "cs_yield (note_decision E now d c) = cs_yield c"
  "cs_drain_start (note_decision E now d c) = cs_drain_start c"
  "cs_drain_deadline (note_decision E now d c) = cs_drain_deadline c"
  "cs_cond (note_decision E now d c) = cs_cond c"
  "cs_cfg (note_decision E now d c) = cs_cfg c"
  by (simp_all add: note_decision_def Let_def)

lemma check_vram_release_frame [simp]:
  "cs_st (check_vram_release D E now c) = cs_st c"
  "cs_inst (check_vram_release D E now c) = cs_inst c"
  "cs_zombie (check_vram_release D E now c) = cs_zombie c"
  "cs_zombie_stopping (check_vram_release D E now c) = cs_zombie_stopping c"
  "cs_ready_ch (check_vram_release D E now c) = cs_ready_ch c"
  "cs_stop_ch (check_vram_release D E now c) = cs_stop_ch c"
  "cs_jobs (check_vram_release D E now c) = cs_jobs c"
  "cs_gate (check_vram_release D E now c) = cs_gate c"
  "cs_yield (check_vram_release D E now c) = cs_yield c"
  "cs_drain_start (check_vram_release D E now c) = cs_drain_start c"
  "cs_drain_deadline (check_vram_release D E now c) = cs_drain_deadline c"
  "cs_cond (check_vram_release D E now c) = cs_cond c"
  "cs_cfg (check_vram_release D E now c) = cs_cfg c"
  by (simp_all add: check_vram_release_def Let_def)

lemma check_crash_reset_frame [simp]:
  "cs_st (check_crash_reset now c) = cs_st c"
  "cs_inst (check_crash_reset now c) = cs_inst c"
  "cs_zombie (check_crash_reset now c) = cs_zombie c"
  "cs_zombie_stopping (check_crash_reset now c) = cs_zombie_stopping c"
  "cs_ready_ch (check_crash_reset now c) = cs_ready_ch c"
  "cs_stop_ch (check_crash_reset now c) = cs_stop_ch c"
  "cs_jobs (check_crash_reset now c) = cs_jobs c"
  "cs_gate (check_crash_reset now c) = cs_gate c"
  "cs_yield (check_crash_reset now c) = cs_yield c"
  "cs_drain_start (check_crash_reset now c) = cs_drain_start c"
  "cs_drain_deadline (check_crash_reset now c) = cs_drain_deadline c"
  "cs_cond (check_crash_reset now c) = cs_cond c"
  "cs_cfg (check_crash_reset now c) = cs_cfg c"
  by (simp_all add: check_crash_reset_def Let_def)

lemma publish_frame [simp]:
  "cs_st (publish D now c) = cs_st c"
  "cs_inst (publish D now c) = cs_inst c"
  "cs_zombie (publish D now c) = cs_zombie c"
  "cs_zombie_stopping (publish D now c) = cs_zombie_stopping c"
  "cs_ready_ch (publish D now c) = cs_ready_ch c"
  "cs_stop_ch (publish D now c) = cs_stop_ch c"
  "cs_jobs (publish D now c) = cs_jobs c"
  "cs_yield (publish D now c) = cs_yield c"
  "cs_drain_start (publish D now c) = cs_drain_start c"
  "cs_drain_deadline (publish D now c) = cs_drain_deadline c"
  "cs_cond (publish D now c) = cs_cond c"
  "cs_cfg (publish D now c) = cs_cfg c"
  by (simp_all add: publish_def Let_def)

lemma decide_frame [simp]:
  "cs_st (snd (decide D E now c)) = cs_st c"
  "cs_inst (snd (decide D E now c)) = cs_inst c"
  "cs_zombie (snd (decide D E now c)) = cs_zombie c"
  "cs_zombie_stopping (snd (decide D E now c)) = cs_zombie_stopping c"
  "cs_ready_ch (snd (decide D E now c)) = cs_ready_ch c"
  "cs_stop_ch (snd (decide D E now c)) = cs_stop_ch c"
  "cs_jobs (snd (decide D E now c)) = cs_jobs c"
  "cs_gate (snd (decide D E now c)) = cs_gate c"
  "cs_yield (snd (decide D E now c)) = cs_yield c"
  "cs_drain_start (snd (decide D E now c)) = cs_drain_start c"
  "cs_drain_deadline (snd (decide D E now c)) = cs_drain_deadline c"
  "cs_cond (snd (decide D E now c)) = cs_cond c"
  "cs_cfg (snd (decide D E now c)) = cs_cfg c"
  by (simp_all add: decide_def case_prod_unfold Let_def)

end
