(* ===== verification/Controller_Inv.thy ===== *)
theory Controller_Inv
  imports Controller_Frame
begin

text \<open>
  The invariant of the controller and its preservation by every method: at most one runtime is
  alive (running, being stopped, or not yet verified as terminated), the admission gate is open
  only in a state that admits requests, and every stop that was begun is answered exactly once.
\<close>

subsection \<open>Transitions\<close>

lemma transition_ok: "fst (transition D E now to d msg dat c) \<longleftrightarrow> cs_st c = to \<or> can_transition (cs_st c) to"
  by (simp add: transition_def Let_def)

lemma transition_st: "cs_st (snd (transition D E now to d msg dat c)) =
    (if can_transition (cs_st c) to then to else cs_st c)"
  by (simp add: transition_def Let_def)

lemma transition_cond: "cs_cond c = condition_of (cs_st c) \<Longrightarrow>
    cs_cond (snd (transition D E now to d msg dat c)) =
      condition_of (cs_st (snd (transition D E now to d msg dat c)))"
  by (simp add: transition_def Let_def)

lemmas transition_simps = transition_ok transition_st

lemma to_idle: "t \<in> set idle_states \<Longrightarrow> s \<in> set idle_states \<or> s = Preempting \<Longrightarrow> can_transition s t"
  by (cases s; simp add: lifecycle_defs; auto)

lemma to_error: "valid_state s \<Longrightarrow> can_transition s Error"
  by (auto simp: lifecycle_defs)

lemma to_preempting: "can_transition s Preempting \<longleftrightarrow> s \<in> {Loading, Ready, Busy, Draining}"
  by (cases s) (auto simp: lifecycle_defs)

lemma to_loading_iff: "can_transition s Loading \<longleftrightarrow> s = Stopped"
  by (cases s) (auto simp: lifecycle_defs)

lemma idle_not_running: "s \<in> set idle_states \<Longrightarrow> \<not> runtime_running s \<and> valid_state s \<and> \<not> admitting s \<and> s \<noteq> Preempting"
  by (auto simp: lifecycle_defs)

lemma valid_cases: "valid_state s \<longleftrightarrow> s \<in> set idle_states \<or> s \<in> {Loading, Ready, Busy, Draining, Preempting}"
  by (auto simp: lifecycle_defs)

lemma running_iff: "runtime_running s \<longleftrightarrow> s \<in> {Loading, Ready, Busy, Draining, Preempting}"
  by (cases s) (auto simp: lifecycle_defs)

lemma admitting_iff: "admitting s \<longleftrightarrow> s \<in> {Ready, Busy}"
  by (auto simp: lifecycle_defs)

subsection \<open>The gate\<close>

lemma close_gate_for_gate [simp]:
  "gt_open (cs_gate (snd (close_gate_for d c))) = False"
  "gt_active (cs_gate (snd (close_gate_for d c))) = gt_active (cs_gate c)"
  "fst (close_gate_for d c) = length (gt_active (cs_gate c))"
  by (simp_all add: close_gate_for_def close_gate_def Let_def)

lemma force_close_gate [simp]:
  "gt_open (cs_gate (force_close D E now d why c)) = gt_open (cs_gate c)"
  "cs_gate (force_close D E now d why c) = snd (force_close_all (cs_gate c))"
  by (simp_all add: force_close_def force_close_all_def Let_def)

lemma publish_open [simp]: "gt_open (cs_gate (publish D now c)) = gt_open (cs_gate c)"
  by (simp add: publish_def Let_def update_closed_def)

subsection \<open>The invariant\<close>

fun is_policy_stop :: "job \<Rightarrow> bool" where
  "is_policy_stop (StopJob _ _ cleanup) = (\<not> cleanup)"
| "is_policy_stop _ = False"

fun is_cleanup_stop :: "job \<Rightarrow> bool" where
  "is_cleanup_stop (StopJob _ _ cleanup) = cleanup"
| "is_cleanup_stop _ = False"

text \<open>The stops under way or finished but not yet handled; \<open>rs\<close> are results already taken from the
  channel.\<close>

definition policy_stops :: "stop_result list \<Rightarrow> ctl \<Rightarrow> nat" where
  "policy_stops rs c = length (filter is_policy_stop (cs_jobs c))
     + length (filter (\<lambda>r. \<not> sp_cleanup r) (rs @ cs_stop_ch c))"

definition cleanup_stops :: "stop_result list \<Rightarrow> ctl \<Rightarrow> nat" where
  "cleanup_stops rs c = length (filter is_cleanup_stop (cs_jobs c))
     + length (filter sp_cleanup (rs @ cs_stop_ch c))"

definition inv_lifecycle :: "ctl \<Rightarrow> bool" where
  "inv_lifecycle c \<longleftrightarrow> valid_state (cs_st c) \<and> cs_cond c = condition_of (cs_st c)"

definition inv_instance :: "ctl \<Rightarrow> bool" where
  "inv_instance c \<longleftrightarrow> (cs_inst c \<noteq> None \<longrightarrow> runtime_running (cs_st c))
     \<and> (runtime_running (cs_st c) \<and> cs_st c \<noteq> Preempting \<longrightarrow> cs_inst c \<noteq> None)
     \<and> (runtime_running (cs_st c) \<longrightarrow> cs_zombie c = None)
     \<and> (cs_zombie_stopping c \<longrightarrow> cs_zombie c \<noteq> None)"

definition inv_stops :: "stop_result list \<Rightarrow> ctl \<Rightarrow> bool" where
  "inv_stops rs c \<longleftrightarrow> policy_stops rs c = (if cs_st c = Preempting then 1 else 0)
     \<and> cleanup_stops rs c = (if cs_zombie_stopping c then 1 else 0)"

definition inv_gate :: "ctl \<Rightarrow> bool" where
  "inv_gate c \<longleftrightarrow> (gt_open (cs_gate c) \<longrightarrow> admitting (cs_st c))"

definition inv_yield :: "ctl \<Rightarrow> bool" where
  "inv_yield c \<longleftrightarrow> de_idle_state (cs_yield c) \<in> insert no_state (set idle_states)"

definition ctl_inv_with :: "stop_result list \<Rightarrow> ctl \<Rightarrow> bool" where
  "ctl_inv_with rs c \<longleftrightarrow> inv_lifecycle c \<and> inv_instance c \<and> inv_stops rs c \<and> inv_gate c \<and> inv_yield c"

abbreviation ctl_inv :: "ctl \<Rightarrow> bool" where
  "ctl_inv \<equiv> ctl_inv_with []"

lemmas inv_defs = ctl_inv_with_def inv_lifecycle_def inv_instance_def inv_stops_def inv_gate_def
  inv_yield_def policy_stops_def cleanup_stops_def

text \<open>The invariant only looks at the fields of the lifecycle.\<close>

lemma ctl_inv_cong:
  assumes "cs_st c' = cs_st c" "cs_inst c' = cs_inst c" "cs_zombie c' = cs_zombie c"
    "cs_zombie_stopping c' = cs_zombie_stopping c" "cs_stop_ch c' = cs_stop_ch c" "cs_jobs c' = cs_jobs c"
    "gt_open (cs_gate c') = gt_open (cs_gate c)" "cs_yield c' = cs_yield c" "cs_cond c' = cs_cond c"
  shows "ctl_inv_with rs c' = ctl_inv_with rs c"
  using assms by (simp add: inv_defs)

lemma new_controller_inv: "ctl_inv (new_controller cfg src prob fes)"
  by (simp add: inv_defs new_controller_def new_gate_def lifecycle_defs zero_decision_def)

subsection \<open>Ending a run\<close>

lemma zero_yield [simp]: "de_idle_state zero_decision = no_state" "de_rule zero_decision = no_rule"
  by (simp_all add: zero_decision_def)

definition stoppable :: "state \<Rightarrow> bool" where
  "stoppable s \<longleftrightarrow> s \<in> {Loading, Ready, Busy, Draining}"

lemma begin_stop_fields:
  assumes "stoppable (cs_st c)" and "cs_inst c = Some i"
  shows "cs_st (begin_stop D E now d msg c) = Preempting"
    "cs_inst (begin_stop D E now d msg c) = Some i"
    "cs_zombie (begin_stop D E now d msg c) = cs_zombie c"
    "cs_zombie_stopping (begin_stop D E now d msg c) = cs_zombie_stopping c"
    "cs_stop_ch (begin_stop D E now d msg c) = cs_stop_ch c"
    "cs_jobs (begin_stop D E now d msg c) =
       cs_jobs c @ [StopJob i (rt_kill_verify_timeout (cf_runtime (cs_cfg c))) False]"
    "gt_open (cs_gate (begin_stop D E now d msg c)) = False"
    "cs_yield (begin_stop D E now d msg c) \<in> {d, cs_yield c}"
    "cs_cond c = condition_of (cs_st c) \<Longrightarrow>
       cs_cond (begin_stop D E now d msg c) = condition_of (cs_st (begin_stop D E now d msg c))"
  using assms
  by (simp_all add: begin_stop_def Let_def case_prod_unfold transition_simps transition_cond
      stoppable_def to_preempting)

lemma stops_cong:
  assumes "cs_jobs c' = cs_jobs c @ js" "cs_stop_ch c' = cs_stop_ch c"
  shows "policy_stops rs c' = policy_stops rs c + length (filter is_policy_stop js)"
    "cleanup_stops rs c' = cleanup_stops rs c + length (filter is_cleanup_stop js)"
  using assms by (simp_all add: policy_stops_def cleanup_stops_def)

lemma stops_Cons [simp]:
  "policy_stops (r # rs) c = policy_stops rs c + (if sp_cleanup r then 0 else 1)"
  "cleanup_stops (r # rs) c = cleanup_stops rs c + (if sp_cleanup r then 1 else 0)"
  by (simp_all add: policy_stops_def cleanup_stops_def)

text \<open>Introduction and elimination of the invariant, by kind of state.\<close>

lemma inv_idleI:
  assumes "cs_st c \<in> set idle_states" "cs_cond c = condition_of (cs_st c)" "cs_inst c = None"
    "cs_zombie_stopping c \<longrightarrow> cs_zombie c \<noteq> None" "policy_stops rs c = 0"
    "cleanup_stops rs c = (if cs_zombie_stopping c then 1 else 0)" "\<not> gt_open (cs_gate c)" "inv_yield c"
  shows "ctl_inv_with rs c"
  using assms idle_not_running [OF assms(1)]
  by (simp add: ctl_inv_with_def inv_lifecycle_def inv_instance_def inv_stops_def inv_gate_def)

lemma inv_runI:
  assumes "stoppable (cs_st c)" "cs_cond c = condition_of (cs_st c)" "cs_inst c \<noteq> None" "cs_zombie c = None"
    "\<not> cs_zombie_stopping c" "policy_stops rs c = 0" "cleanup_stops rs c = 0"
    "gt_open (cs_gate c) \<longrightarrow> admitting (cs_st c)" "inv_yield c"
  shows "ctl_inv_with rs c"
  using assms
  by (auto simp: ctl_inv_with_def inv_lifecycle_def inv_instance_def inv_stops_def inv_gate_def stoppable_def
      running_iff valid_cases)

lemma inv_stopI:
  assumes "cs_st c = Preempting" "cs_cond c = condition_of (cs_st c)" "cs_zombie c = None"
    "\<not> cs_zombie_stopping c" "policy_stops rs c = 1" "cleanup_stops rs c = 0" "\<not> gt_open (cs_gate c)" "inv_yield c"
  shows "ctl_inv_with rs c"
  using assms
  by (auto simp: ctl_inv_with_def inv_lifecycle_def inv_instance_def inv_stops_def inv_gate_def
      running_iff valid_cases)

lemma inv_idleD:
  assumes "ctl_inv_with rs c" "cs_st c \<in> set idle_states"
  shows "cs_cond c = condition_of (cs_st c)" "cs_inst c = None" "cs_zombie_stopping c \<longrightarrow> cs_zombie c \<noteq> None"
    "policy_stops rs c = 0" "cleanup_stops rs c = (if cs_zombie_stopping c then 1 else 0)"
    "\<not> gt_open (cs_gate c)" "inv_yield c"
  using assms idle_not_running [OF assms(2)]
  by (auto simp: ctl_inv_with_def inv_lifecycle_def inv_instance_def inv_stops_def inv_gate_def)

lemma inv_runD:
  assumes "ctl_inv_with rs c" "stoppable (cs_st c)"
  shows "cs_cond c = condition_of (cs_st c)" "\<exists>i. cs_inst c = Some i" "cs_zombie c = None"
    "\<not> cs_zombie_stopping c" "policy_stops rs c = 0" "cleanup_stops rs c = 0"
    "gt_open (cs_gate c) \<longrightarrow> admitting (cs_st c)" "inv_yield c"
proof -
  have r: "runtime_running (cs_st c)" "cs_st c \<noteq> Preempting"
    using assms(2) by (auto simp: stoppable_def running_iff)
  have i: "inv_lifecycle c" "inv_instance c" "inv_stops rs c" "inv_gate c" "inv_yield c"
    using assms(1) by (simp_all add: ctl_inv_with_def)
  show "cs_cond c = condition_of (cs_st c)" "gt_open (cs_gate c) \<longrightarrow> admitting (cs_st c)" "inv_yield c"
    using i by (simp_all add: inv_lifecycle_def inv_gate_def)
  show z: "cs_zombie c = None" "\<not> cs_zombie_stopping c" and "\<exists>i. cs_inst c = Some i"
    using i(2) r by (auto simp: inv_instance_def)
  show "policy_stops rs c = 0" "cleanup_stops rs c = 0"
    using i(3) r z by (auto simp: inv_stops_def)
qed

lemma inv_stopD:
  assumes "ctl_inv_with rs c" "cs_st c = Preempting"
  shows "cs_cond c = condition_of (cs_st c)" "cs_zombie c = None"
    "\<not> cs_zombie_stopping c" "policy_stops rs c = 1" "cleanup_stops rs c = 0"
    "\<not> gt_open (cs_gate c)" "inv_yield c"
  using assms
  by (auto simp: ctl_inv_with_def inv_lifecycle_def inv_instance_def inv_stops_def inv_gate_def
      running_iff admitting_iff)

lemma inv_valid: "ctl_inv_with rs c \<Longrightarrow> valid_state (cs_st c)"
  by (simp add: ctl_inv_with_def inv_lifecycle_def)

lemma begin_stop_inv:
  assumes inv: "ctl_inv_with rs c" and st: "stoppable (cs_st c)"
    and d: "de_idle_state d \<in> insert no_state (set idle_states)"
  shows "ctl_inv_with rs (begin_stop D E now d msg c)"
proof -
  note r = inv_runD [OF inv st]
  from r(2) obtain i where i: "cs_inst c = Some i" by blast
  note f = begin_stop_fields [OF st i, of D E now d msg]
  have y: "inv_yield (begin_stop D E now d msg c)"
    using f(8) d r(8) by (auto simp: inv_yield_def)
  show ?thesis
    using f(1-7) f(9) [OF r(1)] r y stops_cong [OF f(6) f(5), of rs] by (intro inv_stopI) simp_all
qed

lemma retry_zombie_inv:
  assumes "ctl_inv_with rs c"
  shows "ctl_inv_with rs (retry_zombie now c)"
proof (cases "cs_zombie c = None \<or> cs_zombie_stopping c \<or> now < cs_zombie_retry_at c")
  case True
  then show ?thesis using assms by (auto simp: retry_zombie_def split: option.splits)
next
  case False
  then obtain z where z: "cs_zombie c = Some z" "\<not> cs_zombie_stopping c" "\<not> now < cs_zombie_retry_at c" by auto
  with assms have idle: "cs_st c \<in> set idle_states"
    by (auto simp: ctl_inv_with_def inv_instance_def inv_lifecycle_def valid_cases running_iff)
  have j: "cs_jobs (retry_zombie now c) =
      cs_jobs c @ [StopJob z (rt_kill_verify_timeout (cf_runtime (cs_cfg c))) True]"
    "cs_zombie_stopping (retry_zombie now c)"
    using z by (simp_all add: retry_zombie_def)
  show ?thesis
    using inv_idleD [OF assms idle] stops_cong [OF j(1), of rs] j(2) idle z
    by (intro inv_idleI) (simp_all add: inv_yield_def)
qed

lemma on_zombie_stopped_fields:
  "cs_st (on_zombie_stopped E now r c) = cs_st c" "cs_inst (on_zombie_stopped E now r c) = cs_inst c"
  "cs_zombie_stopping (on_zombie_stopped E now r c) = False"
  "cs_stop_ch (on_zombie_stopped E now r c) = cs_stop_ch c" "cs_jobs (on_zombie_stopped E now r c) = cs_jobs c"
  "cs_gate (on_zombie_stopped E now r c) = cs_gate c" "cs_yield (on_zombie_stopped E now r c) = cs_yield c"
  "cs_cond (on_zombie_stopped E now r c) = cs_cond c" "cs_cfg (on_zombie_stopped E now r c) = cs_cfg c"
  "cs_zombie (on_zombie_stopped E now r c) = (if sp_err r = None then None else cs_zombie c)"
  by (simp_all add: on_zombie_stopped_def Let_def split: option.split)

lemma on_zombie_stopped_inv:
  assumes inv: "ctl_inv_with (r # rs) c" and r: "sp_cleanup r"
  shows "ctl_inv_with rs (on_zombie_stopped E now r c)"
proof -
  note f = on_zombie_stopped_fields [of E now r c]
  have st: "inv_stops (r # rs) c" and i: "inv_instance c" using inv by (simp_all add: ctl_inv_with_def)
  then have z: "cs_zombie_stopping c" "cs_zombie c \<noteq> None"
    using r by (auto simp: inv_stops_def inv_instance_def split: if_splits)
  with inv have idle: "cs_st c \<in> set idle_states"
    by (auto simp: ctl_inv_with_def inv_instance_def inv_lifecycle_def valid_cases running_iff)
  have s: "policy_stops rs (on_zombie_stopped E now r c) = policy_stops rs c"
    "cleanup_stops rs (on_zombie_stopped E now r c) = cleanup_stops rs c"
    using stops_cong [of "on_zombie_stopped E now r c" c "[]" rs] f by simp_all
  show ?thesis
    using inv_idleD [OF inv idle] idle z r f s
    by (intro inv_idleI) (simp_all add: inv_yield_def)
qed

lemma rest_state_idle: "i \<in> insert no_state (set idle_states) \<Longrightarrow> rest_state i \<in> set idle_states"
  by (auto simp: rest_state_def idle_states_def)

lemma account_yield_idle: "fst (account_yield D E now y man c) \<in> {Suppressed, de_idle_state y}"
  by (simp add: account_yield_def Let_def)

lemma clear_run_fields [simp]:
  "cs_inst (clear_run c) = None" "cs_yield (clear_run c) = zero_decision"
  "cs_drain_start (clear_run c) = 0" "cs_drain_deadline (clear_run c) = 0"
  by (simp_all add: clear_run_def)

lemma keep_zombie_zombie [simp]: "cs_zombie (keep_zombie now i c) = i"
  by (simp add: keep_zombie_def Let_def)

lemma on_stopped_fields:
  "cs_inst (on_stopped D E now r c) = None" "cs_zombie_stopping (on_stopped D E now r c) = cs_zombie_stopping c"
  "cs_stop_ch (on_stopped D E now r c) = cs_stop_ch c" "cs_jobs (on_stopped D E now r c) = cs_jobs c"
  "cs_gate (on_stopped D E now r c) = cs_gate c" "cs_yield (on_stopped D E now r c) = zero_decision"
  "cs_zombie (on_stopped D E now r c) = (if sp_err r = None then cs_zombie c else cs_inst c)"
  "cs_cfg (on_stopped D E now r c) = cs_cfg c"
  by (simp_all add: on_stopped_def Let_def case_prod_unfold split: option.split)

lemma on_stopped_cond:
  "cs_cond c = condition_of (cs_st c) \<Longrightarrow>
     cs_cond (on_stopped D E now r c) = condition_of (cs_st (on_stopped D E now r c))"
  by (simp add: on_stopped_def Let_def case_prod_unfold transition_cond split: option.split)

lemma on_stopped_st:
  assumes "cs_st c = Preempting" "inv_yield c"
  shows "cs_st (on_stopped D E now r c) \<in> set idle_states"
proof (cases "sp_err r")
  case (Some e)
  then show ?thesis
    using assms to_idle [of Error Preempting]
    by (simp add: on_stopped_def Let_def transition_st idle_states_def)
next
  case None
  define c' where "c' = watch_vram now (report_kill_fallback E now (sp_res r) (inst_pid (cs_inst c))
    (report_stopped E now (sp_res r) (inst_pid (cs_inst c)) (de_rule (cs_yield c)) (clear_run c)))"
  let ?i = "fst (account_yield D E now (cs_yield c) (cs_yield_manual c) c')"
  have i: "rest_state ?i \<in> set idle_states"
    using account_yield_idle [of D E now "cs_yield c" "cs_yield_manual c" c'] assms(2)
    by (intro rest_state_idle) (auto simp: inv_yield_def idle_states_def)
  have "cs_st c' = Preempting" using assms(1) by (simp add: c'_def)
  with None i to_idle [OF i, of Preempting] show ?thesis
    by (simp add: on_stopped_def Let_def case_prod_unfold transition_st flip: c'_def)
qed

lemma on_stopped_inv:
  assumes inv: "ctl_inv_with (r # rs) c" and r: "\<not> sp_cleanup r"
  shows "ctl_inv_with rs (on_stopped D E now r c)"
proof -
  note f = on_stopped_fields [of D E now r c]
  have "inv_stops (r # rs) c" using inv by (simp add: ctl_inv_with_def)
  then have st: "cs_st c = Preempting" using r by (auto simp: inv_stops_def split: if_splits)
  note p = inv_stopD [OF inv st]
  have s: "policy_stops rs (on_stopped D E now r c) = policy_stops rs c"
    "cleanup_stops rs (on_stopped D E now r c) = cleanup_stops rs c"
    using stops_cong [of "on_stopped D E now r c" c "[]" rs] f by simp_all
  show ?thesis
    using p f on_stopped_cond [OF p(1)] s r on_stopped_st [OF st p(7)]
    by (intro inv_idleI) (simp_all add: inv_yield_def)
qed

subsection \<open>Loads and crashes\<close>

lemma load_failed_fields:
  "valid_state (cs_st c) \<Longrightarrow> cs_st (load_failed D E now d err diag c) = Error"
  "cs_cond c = condition_of (cs_st c) \<Longrightarrow>
     cs_cond (load_failed D E now d err diag c) = condition_of (cs_st (load_failed D E now d err diag c))"
  by (simp_all add: load_failed_def Let_def transition_st transition_cond to_error)

lemma load_failed_inv:
  assumes "valid_state (cs_st c)" "cs_cond c = condition_of (cs_st c)" "cs_inst c = None"
    "cs_zombie_stopping c \<longrightarrow> cs_zombie c \<noteq> None"
    "policy_stops rs c = 0" "cleanup_stops rs c = (if cs_zombie_stopping c then 1 else 0)"
    "\<not> gt_open (cs_gate c)" "inv_yield c"
  shows "ctl_inv_with rs (load_failed D E now d err diag c)"
  using assms load_failed_fields [of c D E now d err diag]
    stops_cong [of "load_failed D E now d err diag c" c "[]" rs]
  by (intro inv_idleI) (simp_all add: inv_yield_def idle_states_def)

lemma launched_fields:
  assumes "cs_st c = Stopped"
  shows "cs_st (launched D E now d i c) = Loading" "cs_inst (launched D E now d i c) = Some i"
    "cs_zombie (launched D E now d i c) = cs_zombie c" "cs_zombie_stopping (launched D E now d i c) = cs_zombie_stopping c"
    "cs_stop_ch (launched D E now d i c) = cs_stop_ch c" "cs_gate (launched D E now d i c) = cs_gate c"
    "cs_yield (launched D E now d i c) = cs_yield c"
    "cs_jobs (launched D E now d i c) = cs_jobs c @ [WaitReady i (rt_load_timeout (cf_runtime (cs_cfg c)))]"
    "cs_cond c = condition_of (cs_st c) \<Longrightarrow> cs_cond (launched D E now d i c) = condition_of Loading"
  using assms
  by (simp_all add: launched_def Let_def transition_st to_loading_iff transition_cond [simplified transition_st])

lemma launched_inv:
  assumes inv: "ctl_inv_with rs c" and st: "cs_st c = Stopped" and z: "cs_zombie c = None"
  shows "ctl_inv_with rs (launched D E now d i c)"
proof -
  have idle: "cs_st c \<in> set idle_states" using st by (simp add: idle_states_def)
  note p = inv_idleD [OF inv idle] and f = launched_fields [OF st, of D E now d i]
  show ?thesis
    using p z f(1-8) f(9) [OF p(1)] stops_cong [OF f(8) f(5), of rs]
    by (intro inv_runI) (simp_all add: inv_yield_def stoppable_def)
qed

lemma start_load_cases:
  assumes "cs_st c \<in> set idle_states" "ctl_inv_with rs c"
  obtains c1 where "cs_st c1 = Stopped" "ctl_inv_with rs c1" "cs_zombie c1 = cs_zombie c" "cs_inst c1 = cs_inst c"
    "start_load D E now d c = (if dp_adapter D then
        (case ev_start E of Inl err \<Rightarrow> load_failed D E now d err '''' c1 | Inr i \<Rightarrow> launched D E now d i c1)
      else c1)"
proof -
  have stop: "can_transition (cs_st c) Stopped" using assms(1) by (intro to_idle) (auto simp: idle_states_def)
  define c1 where "c1 = (if cs_st c \<noteq> Stopped
    then snd (transition D E now Stopped d (lit ''Eligible to load'') [] c) else c)"
  define c2 where "c2 = (if dp_adapter D then log_call (CallStart (cf_runtime (cs_cfg c1)))
    (set_baseline (reconcile D E now c1)) else c1)"
  note p = inv_idleD [OF assms(2,1)]
  have st: "cs_st c2 = Stopped" "cs_cond c2 = condition_of (cs_st c2)"
    using stop p by (simp_all add: c2_def c1_def transition_st transition_cond)
  have f: "cs_inst c2 = cs_inst c" "cs_zombie c2 = cs_zombie c" "cs_zombie_stopping c2 = cs_zombie_stopping c"
    "cs_stop_ch c2 = cs_stop_ch c" "cs_jobs c2 = cs_jobs c" "cs_gate c2 = cs_gate c" "cs_yield c2 = cs_yield c"
    by (simp_all add: c2_def c1_def)
  have "ctl_inv_with rs c2"
    using p f st stops_cong [of c2 c "[]" rs] by (intro inv_idleI) (simp_all add: inv_yield_def idle_states_def)
  moreover have "start_load D E now d c = (if dp_adapter D then
      (case ev_start E of Inl err \<Rightarrow> load_failed D E now d err '''' c2 | Inr i \<Rightarrow> launched D E now d i c2) else c2)"
    using stop by (simp add: start_load_def c2_def c1_def Let_def transition_ok case_prod_unfold split: sum.split)
  ultimately show ?thesis using that st(1) f by blast
qed

lemma start_load_inv:
  assumes inv: "ctl_inv_with rs c" and idle: "cs_st c \<in> set idle_states" and z: "cs_zombie c = None"
  shows "ctl_inv_with rs (start_load D E now d c)"
proof -
  obtain c1 where c1: "cs_st c1 = Stopped" "ctl_inv_with rs c1" "cs_zombie c1 = None"
    and eq: "start_load D E now d c = (if dp_adapter D then
        (case ev_start E of Inl err \<Rightarrow> load_failed D E now d err '''' c1 | Inr i \<Rightarrow> launched D E now d i c1)
      else c1)"
    using start_load_cases [OF idle inv, of D E now d] z by metis
  have "cs_st c1 \<in> set idle_states" using c1 by (simp add: idle_states_def)
  note p = inv_idleD [OF c1(2) this]
  have "ctl_inv_with rs (load_failed D E now d err '''' c1)" for err
    using p c1 inv_valid [OF c1(2)] by (intro load_failed_inv) simp_all
  with launched_inv [OF c1(2,1,3)] c1(2) show ?thesis unfolding eq by (simp split: sum.split)
qed

lemma zombify_fields:
  assumes "\<not> cs_zombie_stopping c"
  shows "cs_zombie (zombify now i c) = Some i" "cs_zombie_stopping (zombify now i c)" "cs_inst (zombify now i c) = None"
    "cs_st (zombify now i c) = cs_st c" "cs_cond (zombify now i c) = cs_cond c" "cs_stop_ch (zombify now i c) = cs_stop_ch c"
    "cs_gate (zombify now i c) = cs_gate c" "cs_yield (zombify now i c) = cs_yield c"
    "cs_jobs (zombify now i c) = cs_jobs c @ [StopJob i (rt_kill_verify_timeout (cf_runtime (cs_cfg c))) True]"
    "cs_drain_start (zombify now i c) = cs_drain_start c" "cs_drain_deadline (zombify now i c) = cs_drain_deadline c"
  using assms by (simp_all add: zombify_def retry_zombie_def)

lemma load_ready_fields:
  "cs_inst (load_ready D E now c) = cs_inst c" "cs_zombie (load_ready D E now c) = cs_zombie c"
  "cs_zombie_stopping (load_ready D E now c) = cs_zombie_stopping c" "cs_stop_ch (load_ready D E now c) = cs_stop_ch c"
  "cs_jobs (load_ready D E now c) = cs_jobs c" "cs_gate (load_ready D E now c) = cs_gate c"
  "cs_yield (load_ready D E now c) = cs_yield c"
  "cs_st c = Loading \<Longrightarrow> cs_st (load_ready D E now c) = Ready"
  "cs_cond c = condition_of (cs_st c) \<Longrightarrow> cs_cond (load_ready D E now c) = condition_of (cs_st (load_ready D E now c))"
proof -
  have "can_transition Loading Ready" by (simp add: lifecycle_defs)
  then show "cs_st c = Loading \<Longrightarrow> cs_st (load_ready D E now c) = Ready"
    by (simp add: load_ready_def Let_def transition_st)
qed (simp_all add: load_ready_def Let_def transition_cond)

lemma on_load_result_inv:
  assumes inv: "ctl_inv_with rs c"
  shows "ctl_inv_with rs (on_load_result D E now r c)"
proof (cases "cs_inst c \<noteq> Some (lr_inst r) \<or> cs_st c \<noteq> Loading")
  case True
  then show ?thesis using inv by (auto simp: on_load_result_def)
next
  case False
  then have st: "cs_inst c = Some (lr_inst r)" "cs_st c = Loading" by auto
  then have "stoppable (cs_st c)" by (simp add: stoppable_def)
  note p = inv_runD [OF inv this]
  show ?thesis
  proof (cases "lr_err r")
    case None
    have "ctl_inv_with rs (load_ready D E now c)"
      using p st stops_cong [of "load_ready D E now c" c "[]" rs]
      by (intro inv_runI) (simp_all add: inv_yield_def stoppable_def admitting_iff load_ready_fields)
    with False None show ?thesis by (simp add: on_load_result_def)
  next
    case (Some err)
    note f = zombify_fields [OF p(4), of now "lr_inst r"]
    define c1 where "c1 = snd (close_gate_for (cs_decision c) (zombify now (lr_inst r) c))"
    have "ctl_inv_with rs (load_failed D E now (cs_decision c) err (ev_diag E (lr_inst r)) c1)"
      using p st f stops_cong [of c1 c "[StopJob (lr_inst r) (rt_kill_verify_timeout (cf_runtime (cs_cfg c))) True]" rs]
      by (intro load_failed_inv) (simp_all add: c1_def inv_yield_def valid_cases)
    with False Some show ?thesis by (simp add: on_load_result_def c1_def)
  qed
qed

lemma on_crash_inv:
  assumes inv: "ctl_inv_with rs c" and st: "stoppable (cs_st c)"
  shows "ctl_inv_with rs (on_crash D E now i c)"
proof -
  note p = inv_runD [OF inv st]
  define c1 where "c1 = report_crash D E now i (cut_requests (snd (close_gate_for
     (zero_decision\<lparr>de_reason := lit ''runtime exited unexpectedly''\<rparr>) (c\<lparr>cs_inst := None\<rparr>))))"
  have c1: "cs_st c1 = cs_st c" "cs_cond c1 = cs_cond c" "cs_zombie_stopping c1 = cs_zombie_stopping c"
    "cs_stop_ch c1 = cs_stop_ch c" "cs_jobs c1 = cs_jobs c" "gt_open (cs_gate c1) = False" "cs_cfg c1 = cs_cfg c"
    by (simp_all add: c1_def cut_requests_def force_close_all_def)
  define c2 where "c2 = backoff E now (forget_drain (zombify now i c1))"
  have z: "\<not> cs_zombie_stopping c1" using p c1 by simp
  note f = zombify_fields [OF z, of now i]
  have c2: "cs_st c2 = cs_st c" "cs_cond c2 = cs_cond c" "cs_inst c2 = None" "cs_zombie c2 = Some i"
    "cs_zombie_stopping c2" "cs_stop_ch c2 = cs_stop_ch c" "gt_open (cs_gate c2) = False"
    "cs_jobs c2 = cs_jobs c @ [StopJob i (rt_kill_verify_timeout (cf_runtime (cs_cfg c))) True]"
    "cs_yield c2 = zero_decision"
    by (simp_all add: c2_def f c1 forget_drain_def)
  define c3 where "c3 = snd (transition D E now Error (cs_decision c2) (lit ''Runtime crashed'') [] c2)"
  have "can_transition (cs_st c2) Error"
    using st c2 by (intro to_error) (auto simp: stoppable_def valid_cases)
  then have c3: "cs_st c3 = Error" "cs_cond c3 = condition_of (cs_st c3)"
    using p c2 by (simp_all add: c3_def transition_st transition_cond)
  have "ctl_inv_with rs c3"
    using p c2 c3 stops_cong [of c3 c "[StopJob i (rt_kill_verify_timeout (cf_runtime (cs_cfg c))) True]" rs]
    by (intro inv_idleI) (simp_all add: c3_def inv_yield_def idle_states_def)
  then show ?thesis by (simp add: on_crash_def Let_def c3_def c2_def c1_def)
qed

subsection \<open>Results of goroutines\<close>

lemma absorb_stops_inv: "ctl_inv_with rs c \<Longrightarrow> ctl_inv (absorb_stops D E now rs c)"
proof (induction rs arbitrary: c)
  case (Cons r rs)
  then show ?case by (simp add: on_zombie_stopped_inv on_stopped_inv)
qed simp

lemma inv_take_results: "ctl_inv c \<Longrightarrow> ctl_inv_with (cs_stop_ch c) (c\<lparr>cs_stop_ch := []\<rparr>)"
  by (simp add: ctl_inv_with_def inv_lifecycle_def inv_instance_def inv_stops_def inv_gate_def inv_yield_def
      policy_stops_def cleanup_stops_def)

lemma absorb_async_inv:
  assumes inv: "ctl_inv c"
  shows "ctl_inv (absorb_async D E now c)"
proof -
  define c1 where "c1 = (case cs_ready_ch c of r # rs \<Rightarrow> on_load_result D E now r (c\<lparr>cs_ready_ch := rs\<rparr>) | [] \<Rightarrow> c)"
  have "ctl_inv c1"
    unfolding c1_def using inv ctl_inv_cong [of "c\<lparr>cs_ready_ch := _\<rparr>" c]
    by (auto intro!: on_load_result_inv split: list.split)
  then have c3: "ctl_inv (retry_zombie now (absorb_stops D E now (cs_stop_ch c1) (c1\<lparr>cs_stop_ch := []\<rparr>)))"
    (is "ctl_inv ?c3")
    by (intro retry_zombie_inv absorb_stops_inv inv_take_results)
  have "stoppable (cs_st ?c3)" if "cs_inst ?c3 = Some i" "cs_st ?c3 \<noteq> Preempting" for i
    using c3 that by (auto simp: ctl_inv_with_def inv_instance_def running_iff stoppable_def)
  with c3 show ?thesis
    by (auto simp: absorb_async_def Let_def on_crash_inv split: option.split simp flip: c1_def)
qed

lemma prepare_inv:
  assumes "ctl_inv c"
  shows "ctl_inv (prepare D E now collect c)"
  using absorb_async_inv [OF assms, of D E now]
  by (subst ctl_inv_cong [of _ "absorb_async D E now c"]) (simp_all add: prepare_def Let_def)

subsection \<open>The decision\<close>

lemma evaluate_idle_states: "de_idle_state (evaluate tz s cfg) \<in> set idle_states"
  using winner_wf [of "new_eval tz s cfg"] by (auto simp: evaluate_def Let_def idle_states_def)

lemma decide_idle_states: "de_idle_state (fst (decide D E now c)) \<in> set idle_states"
  using evaluate_idle_states [of "ev_tz E" "snapshot_of now c" "cs_cfg c"]
  by (simp add: decide_def case_prod_unfold Let_def apply_load_blocked_def apply_zombie_def
      apply_manual_def idle_states_def split: option.split)

lemma decide_zombie:
  assumes "\<not> runtime_running (cs_st c)" "de_action (fst (decide D E now c)) = ActionRun"
  shows "cs_zombie c = None"
  using assms
  by (cases "cs_zombie c")
    (auto simp: decide_def case_prod_unfold Let_def apply_load_blocked_def apply_zombie_def split: if_splits)

subsection \<open>Acting\<close>

lemma transition_idle_inv:
  assumes inv: "ctl_inv_with rs c" and idle: "cs_st c \<in> set idle_states" and to: "t \<in> set idle_states"
  shows "ctl_inv_with rs (snd (transition D E now t d msg dat c))"
proof -
  note p = inv_idleD [OF inv idle]
  have "can_transition (cs_st c) t" using to idle by (intro to_idle) auto
  then show ?thesis
    using p to transition_cond [OF p(1), of D E now t d msg dat]
      stops_cong [of "snd (transition D E now t d msg dat c)" c "[]" rs]
    by (intro inv_idleI) (simp_all add: inv_yield_def transition_st)
qed

lemma run_cong_inv:
  assumes inv: "ctl_inv_with rs c" and st: "stoppable (cs_st c)"
    and f: "cs_st c' = cs_st c" "cs_cond c' = cs_cond c" "cs_inst c' = cs_inst c" "cs_zombie c' = cs_zombie c"
      "cs_zombie_stopping c' = cs_zombie_stopping c" "cs_stop_ch c' = cs_stop_ch c" "cs_jobs c' = cs_jobs c"
    and g: "gt_open (cs_gate c') \<longrightarrow> admitting (cs_st c)"
    and y: "inv_yield c'"
  shows "ctl_inv_with rs c'"
  using inv_runD [OF inv st] st f g y stops_cong [of c' c "[]" rs]
  by (intro inv_runI) simp_all

lemma close_gate_for_inv: "ctl_inv_with rs c \<Longrightarrow> ctl_inv_with rs (snd (close_gate_for d c))"
  by (simp add: ctl_inv_with_def inv_lifecycle_def inv_instance_def inv_stops_def inv_gate_def inv_yield_def
      policy_stops_def cleanup_stops_def)

lemma force_close_inv: "ctl_inv_with rs c \<Longrightarrow> ctl_inv_with rs (force_close D E now d why c)"
  by (subst ctl_inv_cong [of _ c]) (simp_all add: force_close_all_def)

lemma act_idle_inv:
  assumes "ctl_inv c" "cs_st c \<in> set idle_states" "de_idle_state d \<in> set idle_states"
    "de_action d = ActionRun \<Longrightarrow> cs_zombie c = None"
  shows "ctl_inv (act_idle D E now d c)"
  using assms by (simp add: act_idle_def start_load_inv transition_idle_inv)

lemma act_loading_inv:
  assumes "ctl_inv c" "cs_st c = Loading" "de_idle_state d \<in> set idle_states"
  shows "ctl_inv (act_loading D E now d c)"
  using assms
  by (auto simp: act_loading_def stoppable_def intro!: begin_stop_inv close_gate_for_inv)

lemma start_drain_fields:
  assumes "admitting (cs_st c)"
  shows "cs_st (start_drain D E now d n c) = Draining" "cs_inst (start_drain D E now d n c) = cs_inst c"
    "cs_zombie (start_drain D E now d n c) = cs_zombie c"
    "cs_zombie_stopping (start_drain D E now d n c) = cs_zombie_stopping c"
    "cs_stop_ch (start_drain D E now d n c) = cs_stop_ch c" "cs_jobs (start_drain D E now d n c) = cs_jobs c"
    "cs_gate (start_drain D E now d n c) = cs_gate c" "cs_yield (start_drain D E now d n c) = d"
    "cs_drain_start (start_drain D E now d n c) = now"
    "cs_drain_deadline (start_drain D E now d n c) = now + de_grace d"
    "cs_cond c = condition_of (cs_st c) \<Longrightarrow> cs_cond (start_drain D E now d n c) = condition_of Draining"
proof -
  have "can_transition (cs_st c) Draining" "cs_st c \<noteq> Draining"
    using assms by (auto simp: admitting_iff) (auto simp: lifecycle_defs)
  then show "cs_st (start_drain D E now d n c) = Draining"
    "cs_cond c = condition_of (cs_st c) \<Longrightarrow> cs_cond (start_drain D E now d n c) = condition_of Draining"
    by (simp_all add: start_drain_def Let_def case_prod_unfold transition_st transition_def)
qed (simp_all add: start_drain_def Let_def case_prod_unfold)

lemma start_drain_inv:
  assumes inv: "ctl_inv c" and st: "admitting (cs_st c)" and g: "\<not> gt_open (cs_gate c)"
    and d: "de_idle_state d \<in> set idle_states"
  shows "ctl_inv (start_drain D E now d n c)"
proof -
  have "stoppable (cs_st c)" using st by (auto simp: admitting_iff stoppable_def)
  note p = inv_runD [OF inv this] and f = start_drain_fields [OF st, of D E now d n]
  show ?thesis
    using p f(1-10) f(11) [OF p(1)] g d stops_cong [of "start_drain D E now d n c" c "[]" "[]"]
    by (intro inv_runI) (simp_all add: stoppable_def inv_yield_def)
qed

lemma ready_busy_inv:
  assumes inv: "ctl_inv c" and st: "admitting (cs_st c)" and t: "t = Busy \<or> t = Ready"
  shows "ctl_inv (snd (transition D E now t d msg dat c))"
proof -
  have s: "stoppable (cs_st c)" using st by (auto simp: admitting_iff stoppable_def)
  note p = inv_runD [OF inv s]
  have "cs_st (snd (transition D E now t d msg dat c)) \<in> {Ready, Busy}"
    using st t by (auto simp: transition_st admitting_iff)
  then show ?thesis
    using p transition_cond [OF p(1), of D E now t d msg dat]
      stops_cong [of "snd (transition D E now t d msg dat c)" c "[]" "[]"]
    by (intro inv_runI) (auto simp: inv_yield_def stoppable_def admitting_iff)
qed

lemma active_count [simp]: "fst (active_requests now g) = length (gt_active g)"
  by (simp add: active_requests_def)

lemma admit_gate_fields [simp]:
  "cs_st (snd (admit_gate now d c)) = cs_st c" "cs_inst (snd (admit_gate now d c)) = cs_inst c"
  "cs_zombie (snd (admit_gate now d c)) = cs_zombie c" "cs_jobs (snd (admit_gate now d c)) = cs_jobs c"
  "cs_zombie_stopping (snd (admit_gate now d c)) = cs_zombie_stopping c"
  "cs_stop_ch (snd (admit_gate now d c)) = cs_stop_ch c" "cs_yield (snd (admit_gate now d c)) = cs_yield c"
  "cs_cond (snd (admit_gate now d c)) = cs_cond c" "cs_cfg (snd (admit_gate now d c)) = cs_cfg c"
  "cs_drain_start (snd (admit_gate now d c)) = cs_drain_start c"
  "yields (de_action d) \<Longrightarrow> \<not> gt_open (cs_gate (snd (admit_gate now d c)))"
  "gt_active (cs_gate (snd (admit_gate now d c))) = gt_active (cs_gate c)"
  "fst (admit_gate now d c) = length (gt_active (cs_gate c))"
  by (auto simp: admit_gate_def Let_def open_gate_def signal_gate_def split: option.split)

lemma admit_gate_inv:
  assumes inv: "ctl_inv c" and st: "admitting (cs_st c)"
  shows "ctl_inv (snd (admit_gate now d c))"
proof -
  have s: "stoppable (cs_st c)" using st by (auto simp: admitting_iff stoppable_def)
  show ?thesis
    using inv_runD(8) [OF inv s] st by (intro run_cong_inv [OF inv s]) (simp_all add: inv_yield_def)
qed

lemma act_admitting_inv:
  assumes inv: "ctl_inv c" and st: "admitting (cs_st c)" and d: "de_idle_state d \<in> set idle_states"
  shows "ctl_inv (act_admitting D E now d c)"
proof -
  have s: "stoppable (cs_st c)" using st by (auto simp: admitting_iff stoppable_def)
  note g = admit_gate_inv [OF inv st, of now d]
  let ?c1 = "snd (admit_gate now d c)"
  have d': "de_idle_state d \<in> insert no_state (set idle_states)" using d by blast
  have stop: "ctl_inv (begin_stop D E now d msg c')" if "ctl_inv c'" "cs_st c' = cs_st c" for c' msg
    using that s d' by (intro begin_stop_inv) simp_all
  have drain: "ctl_inv (start_drain D E now d n ?c1)" if "de_action d = ActionDrain" for n
    using that g st d by (intro start_drain_inv) (simp_all add: yields_def)
  have run: "ctl_inv (snd (transition D E now (if b then Busy else Ready) d (lit '''') [] ?c1))" for b
    using g st by (intro ready_busy_inv) simp_all
  show ?thesis
    unfolding act_admitting_def Let_def case_prod_unfold
    using stop [OF g] stop [OF force_close_inv [OF g]] drain run
    by (cases "de_action d") simp_all
qed

lemma maybe_grace_expired_inv:
  assumes inv: "ctl_inv c" and st: "cs_st c = Draining"
  shows "ctl_inv (maybe_grace_expired D E now c)"
proof -
  have y: "de_idle_state (cs_yield c) \<in> insert no_state (set idle_states)"
    using inv by (simp add: ctl_inv_with_def inv_yield_def)
  have "ctl_inv (metric D m c)" for m using inv by (subst ctl_inv_cong [of _ c]) simp_all
  then show ?thesis
    using inv st y by (simp add: maybe_grace_expired_def Let_def begin_stop_inv force_close_inv stoppable_def)
qed

lemma act_draining_inv:
  assumes inv: "ctl_inv c" and st: "cs_st c = Draining" and d: "de_idle_state d \<in> set idle_states"
  shows "ctl_inv (act_draining D E now d c)"
proof -
  have y: "de_idle_state (cs_yield c) \<in> insert no_state (set idle_states)"
    using inv by (simp add: ctl_inv_with_def inv_yield_def)
  have m: "ctl_inv (emit E e (metric D m c))" for e m using inv by (subst ctl_inv_cong [of _ c]) simp_all
  have s: "ctl_inv (emit E e (c\<lparr>cs_drain_deadline := t\<rparr>))" for e t using inv by (subst ctl_inv_cong [of _ c]) simp_all
  show ?thesis
    unfolding act_draining_def Let_def using inv st y d m s
    by (auto simp: stoppable_def intro!: begin_stop_inv force_close_inv maybe_grace_expired_inv)
qed

lemma act_inv:
  assumes inv: "ctl_inv c" and d: "de_idle_state d \<in> set idle_states"
    and z: "\<not> runtime_running (cs_st c) \<Longrightarrow> de_action d = ActionRun \<Longrightarrow> cs_zombie c = None"
  shows "ctl_inv (act D E now d c)"
  using assms
  by (auto simp: act_def act_loading_inv act_admitting_inv act_draining_inv admitting_iff running_iff
      idle_states_def intro!: act_idle_inv split: state.split)

subsection \<open>A step keeps the invariant\<close>

lemma step_inv:
  assumes "ctl_inv c"
  shows "ctl_inv (step D E collect c)"
proof -
  define p where "p = prepare D E (ev_now E) collect c"
  define d where "d = fst (decide D E (ev_now E) p)"
  define n where "n = note_decision E (ev_now E) d (snd (decide D E (ev_now E) p))"
  have "ctl_inv p" unfolding p_def using assms by (rule prepare_inv)
  then have n: "ctl_inv n" by (subst ctl_inv_cong [of _ p]) (simp_all add: n_def)
  have "ctl_inv (act D E (ev_now E) d n)"
    using n decide_idle_states decide_zombie [of p D E "ev_now E"]
    by (intro act_inv) (simp_all add: d_def n_def)
  then show ?thesis
    by (simp add: step_def Let_def case_prod_unfold flip: p_def d_def n_def)
      (subst ctl_inv_cong; simp)
qed

end
