(* ===== verification/Controller_Trace.thy ===== *)
theory Controller_Trace
  imports Controller_Inv
begin

text \<open>
  What the controller's logs say about its runs: the transitions counted in the metrics are the
  moves of the state machine, in order and without gaps, and a runtime is started only by a step
  that found none left.
\<close>

subsection \<open>Two readings of the logs\<close>

text \<open>How many runtimes were started, and the transitions that were counted.\<close>

definition starts :: "ctl \<Rightarrow> nat" where
  "starts c = length (filter (\<lambda>k. case k of CallStart _ \<Rightarrow> True | _ \<Rightarrow> False) (cs_calls c))"

fun move_of :: "metric \<Rightarrow> (state \<times> state) list" where
  "move_of (IncTransition s t) = [(s, t)]"
| "move_of _ = []"

definition moves :: "ctl \<Rightarrow> (state \<times> state) list" where
  "moves c = concat (map move_of (cs_metrics c))"

lemma starts_update [simp]:
  "starts (cs_cfg_update f0 c) = starts c"
  "starts (cs_cfg_source_update f1 c) = starts c"
  "starts (cs_cfg_problem_update f2 c) = starts c"
  "starts (cs_cfg_problem_fields_update f3 c) = starts c"
  "starts (cs_config_revision_update f4 c) = starts c"
  "starts (cs_restart_needed_update f5 c) = starts c"
  "starts (cs_st_update f6 c) = starts c"
  "starts (cs_inst_update f7 c) = starts c"
  "starts (cs_load_start_update f8 c) = starts c"
  "starts (cs_loaded_at_update f9 c) = starts c"
  "starts (cs_last_load_s_update f10 c) = starts c"
  "starts (cs_footprint_update f11 c) = starts c"
  "starts (cs_crash_count_update f12 c) = starts c"
  "starts (cs_baseline_update f13 c) = starts c"
  "starts (cs_ready_ch_update f14 c) = starts c"
  "starts (cs_stop_ch_update f15 c) = starts c"
  "starts (cs_wake_update f16 c) = starts c"
  "starts (cs_jobs_update f17 c) = starts c"
  "starts (cs_drain_start_update f18 c) = starts c"
  "starts (cs_drain_deadline_update f19 c) = starts c"
  "starts (cs_yield_update f20 c) = starts c"
  "starts (cs_yield_manual_update f21 c) = starts c"
  "starts (cs_vram_update f22 c) = starts c"
  "starts (cs_timers_update f23 c) = starts c"
  "starts (cs_mode_update f24 c) = starts c"
  "starts (cs_mode_set_at_update f25 c) = starts c"
  "starts (cs_until_reboot_update f26 c) = starts c"
  "starts (cs_power_update f27 c) = starts c"
  "starts (cs_gpu_update f28 c) = starts c"
  "starts (cs_apps_update f29 c) = starts c"
  "starts (cs_session_update f30 c) = starts c"
  "starts (cs_sample_update f31 c) = starts c"
  "starts (cs_procs_update f32 c) = starts c"
  "starts (cs_procs_ok_update f33 c) = starts c"
  "starts (cs_last_proc_scan_update f34 c) = starts c"
  "starts (cs_decision_update f35 c) = starts c"
  "starts (cs_last_evaluated_update f36 c) = starts c"
  "starts (cs_setup_problem_update f37 c) = starts c"
  "starts (cs_last_setup_check_update f38 c) = starts c"
  "starts (cs_setup_pending_update f39 c) = starts c"
  "starts (cs_attribution_update f40 c) = starts c"
  "starts (cs_telemetry_lost_update f41 c) = starts c"
  "starts (cs_telemetry_losses_update f42 c) = starts c"
  "starts (cs_gpu_resets_update f43 c) = starts c"
  "starts (cs_last_gpu_check_update f44 c) = starts c"
  "starts (cs_last_gpu_reset_update f45 c) = starts c"
  "starts (cs_manual_pending_update f46 c) = starts c"
  "starts (cs_persisted_update f47 c) = starts c"
  "starts (cs_recent_errors_update f48 c) = starts c"
  "starts (cs_zombie_update f49 c) = starts c"
  "starts (cs_zombie_stopping_update f50 c) = starts c"
  "starts (cs_zombie_retry_at_update f51 c) = starts c"
  "starts (cs_zombie_attempts_update f52 c) = starts c"
  "starts (cs_sched_cache_update f53 c) = starts c"
  "starts (cs_sched_cache_at_update f54 c) = starts c"
  "starts (cs_sched_cache_valid_update f55 c) = starts c"
  "starts (cs_cond_update f56 c) = starts c"
  "starts (cs_gate_update f57 c) = starts c"
  "starts (cs_events_update f58 c) = starts c"
  "starts (cs_metrics_update f59 c) = starts c"
  by (simp_all add: starts_def)

lemma moves_update [simp]:
  "moves (cs_cfg_update f0 c) = moves c"
  "moves (cs_cfg_source_update f1 c) = moves c"
  "moves (cs_cfg_problem_update f2 c) = moves c"
  "moves (cs_cfg_problem_fields_update f3 c) = moves c"
  "moves (cs_config_revision_update f4 c) = moves c"
  "moves (cs_restart_needed_update f5 c) = moves c"
  "moves (cs_st_update f6 c) = moves c"
  "moves (cs_inst_update f7 c) = moves c"
  "moves (cs_load_start_update f8 c) = moves c"
  "moves (cs_loaded_at_update f9 c) = moves c"
  "moves (cs_last_load_s_update f10 c) = moves c"
  "moves (cs_footprint_update f11 c) = moves c"
  "moves (cs_crash_count_update f12 c) = moves c"
  "moves (cs_baseline_update f13 c) = moves c"
  "moves (cs_ready_ch_update f14 c) = moves c"
  "moves (cs_stop_ch_update f15 c) = moves c"
  "moves (cs_wake_update f16 c) = moves c"
  "moves (cs_jobs_update f17 c) = moves c"
  "moves (cs_drain_start_update f18 c) = moves c"
  "moves (cs_drain_deadline_update f19 c) = moves c"
  "moves (cs_yield_update f20 c) = moves c"
  "moves (cs_yield_manual_update f21 c) = moves c"
  "moves (cs_vram_update f22 c) = moves c"
  "moves (cs_timers_update f23 c) = moves c"
  "moves (cs_mode_update f24 c) = moves c"
  "moves (cs_mode_set_at_update f25 c) = moves c"
  "moves (cs_until_reboot_update f26 c) = moves c"
  "moves (cs_power_update f27 c) = moves c"
  "moves (cs_gpu_update f28 c) = moves c"
  "moves (cs_apps_update f29 c) = moves c"
  "moves (cs_session_update f30 c) = moves c"
  "moves (cs_sample_update f31 c) = moves c"
  "moves (cs_procs_update f32 c) = moves c"
  "moves (cs_procs_ok_update f33 c) = moves c"
  "moves (cs_last_proc_scan_update f34 c) = moves c"
  "moves (cs_decision_update f35 c) = moves c"
  "moves (cs_last_evaluated_update f36 c) = moves c"
  "moves (cs_setup_problem_update f37 c) = moves c"
  "moves (cs_last_setup_check_update f38 c) = moves c"
  "moves (cs_setup_pending_update f39 c) = moves c"
  "moves (cs_attribution_update f40 c) = moves c"
  "moves (cs_telemetry_lost_update f41 c) = moves c"
  "moves (cs_telemetry_losses_update f42 c) = moves c"
  "moves (cs_gpu_resets_update f43 c) = moves c"
  "moves (cs_last_gpu_check_update f44 c) = moves c"
  "moves (cs_last_gpu_reset_update f45 c) = moves c"
  "moves (cs_manual_pending_update f46 c) = moves c"
  "moves (cs_persisted_update f47 c) = moves c"
  "moves (cs_recent_errors_update f48 c) = moves c"
  "moves (cs_zombie_update f49 c) = moves c"
  "moves (cs_zombie_stopping_update f50 c) = moves c"
  "moves (cs_zombie_retry_at_update f51 c) = moves c"
  "moves (cs_zombie_attempts_update f52 c) = moves c"
  "moves (cs_sched_cache_update f53 c) = moves c"
  "moves (cs_sched_cache_at_update f54 c) = moves c"
  "moves (cs_sched_cache_valid_update f55 c) = moves c"
  "moves (cs_cond_update f56 c) = moves c"
  "moves (cs_gate_update f57 c) = moves c"
  "moves (cs_events_update f58 c) = moves c"
  "moves (cs_calls_update f60 c) = moves c"
  by (simp_all add: moves_def)

lemma log_trace [simp]:
  "starts (metric D m c) = starts c"
  "moves (metric D m c) = moves c @ (if dp_metrics D then move_of m else [])"
  "starts (log_call k c) = starts c + (case k of CallStart _ \<Rightarrow> 1 | _ \<Rightarrow> 0)"
  "moves (log_call k c) = moves c"
  by (simp_all add: metric_def log_call_def starts_def moves_def split: call.split)

lemma emit_trace [simp]:
  "starts (emit E e c) = starts c"
  "moves (emit E e c) = moves c"
  by (simp_all add: emit_def Let_def)

lemma set_recovery_trace [simp]:
  "starts (set_recovery E now d r c) = starts c"
  "moves (set_recovery E now d r c) = moves c"
  by (simp_all add: set_recovery_def Let_def)

lemma persist_trace [simp]:
  "starts (persist D E c) = starts c"
  "moves (persist D E c) = moves c"
  by (simp_all add: persist_def Let_def)

lemma emit_orphans_trace [simp]:
  "starts (emit_orphans E now os c) = starts c"
  "moves (emit_orphans E now os c) = moves c"
  by (induction os arbitrary: c) simp_all

lemma reconcile_trace [simp]:
  "starts (reconcile D E now c) = starts c"
  "moves (reconcile D E now c) = moves c"
  by (simp_all add: reconcile_def Let_def)

lemma backoff_trace [simp]:
  "starts (backoff E now c) = starts c"
  "moves (backoff E now c) = moves c"
  by (simp_all add: backoff_def Let_def)

lemma transition_trace [simp]:
  "starts (snd (transition D E now to d msg dat c)) = starts c"
  by (simp_all add: transition_def Let_def)

lemma close_gate_for_trace [simp]:
  "starts (snd (close_gate_for d c)) = starts c"
  "moves (snd (close_gate_for d c)) = moves c"
  by (simp_all add: close_gate_for_def close_gate_def Let_def)

lemma force_close_trace [simp]:
  "starts (force_close D E now d why c) = starts c"
  "moves (force_close D E now d why c) = moves c"
  by (simp_all add: force_close_def Let_def case_prod_unfold)

lemma retry_zombie_trace [simp]:
  "starts (retry_zombie now c) = starts c"
  "moves (retry_zombie now c) = moves c"
  by (simp_all add: retry_zombie_def split: option.split)

lemma account_yield_trace [simp]:
  "starts (snd (account_yield D E now y man c)) = starts c"
  "moves (snd (account_yield D E now y man c)) = moves c"
  by (simp_all add: account_yield_def Let_def)

lemma clear_run_trace [simp]:
  "starts (clear_run c) = starts c"
  "moves (clear_run c) = moves c"
  by (simp_all add: clear_run_def)

lemma keep_zombie_trace [simp]:
  "starts (keep_zombie now i c) = starts c"
  "moves (keep_zombie now i c) = moves c"
  by (simp_all add: keep_zombie_def Let_def)

lemma report_kill_fallback_trace [simp]:
  "starts (report_kill_fallback E now res pid c) = starts c"
  "moves (report_kill_fallback E now res pid c) = moves c"
  by (simp_all add: report_kill_fallback_def)

lemma report_stopped_trace [simp]:
  "starts (report_stopped E now res pid rl c) = starts c"
  "moves (report_stopped E now res pid rl c) = moves c"
  by (simp_all add: report_stopped_def)

lemma watch_vram_trace [simp]:
  "starts (watch_vram now c) = starts c"
  "moves (watch_vram now c) = moves c"
  by (simp_all add: watch_vram_def)

lemma load_failed_trace [simp]:
  "starts (load_failed D E now d err diag c) = starts c"
  by (simp_all add: load_failed_def Let_def)

lemma move_watermark_trace [simp]:
  "starts (move_watermark now rs c) = starts c"
  "moves (move_watermark now rs c) = moves c"
  by (simp_all add: move_watermark_def)

lemma count_reset_trace [simp]:
  "starts (count_reset E now rs c) = starts c"
  "moves (count_reset E now rs c) = moves c"
  by (simp_all add: count_reset_def Let_def)

lemma poll_resets_trace [simp]:
  "starts (poll_resets E now rs c) = starts c"
  "moves (poll_resets E now rs c) = moves c"
  by (simp_all add: poll_resets_def)

lemma clear_device_lost_trace [simp]:
  "starts (clear_device_lost c) = starts c"
  "moves (clear_device_lost c) = moves c"
  by (simp_all add: clear_device_lost_def)

lemma check_gpu_resets_trace [simp]:
  "starts (check_gpu_resets D E now c) = starts c"
  "moves (check_gpu_resets D E now c) = moves c"
  by (simp_all add: check_gpu_resets_def)

lemma expire_mode_trace [simp]:
  "starts (expire_mode E now c) = starts c"
  "moves (expire_mode E now c) = moves c"
  by (simp_all add: expire_mode_def split: option.split)

lemma end_episode_trace [simp]:
  "starts (end_episode E now pid dg io c) = starts c"
  "moves (end_episode E now pid dg io c) = moves c"
  by (simp_all add: end_episode_def Let_def)

lemma open_episode_trace [simp]:
  "starts (open_episode now pid c) = starts c"
  "moves (open_episode now pid c) = moves c"
  by (simp_all add: open_episode_def)

lemma record_episode_trace [simp]:
  "starts (record_episode E now inp c) = starts c"
  "moves (record_episode E now inp c) = moves c"
  by (simp_all add: record_episode_def Let_def)

lemma track_attribution_trace [simp]:
  "starts (track_attribution E now inp c) = starts c"
  "moves (track_attribution E now inp c) = moves c"
  by (simp_all add: track_attribution_def Let_def)

lemma scan_trace [simp]:
  "starts (scan D E now c) = starts c"
  "moves (scan D E now c) = moves c"
  by (simp_all add: scan_def)

lemma sampled_trace [simp]:
  "starts (sampled D E c) = starts c"
  "moves (sampled D E c) = moves c"
  by (simp_all add: sampled_def)

lemma build_facts_trace [simp]:
  "starts (build_facts D E now inp c) = starts c"
  "moves (build_facts D E now inp c) = moves c"
  by (simp_all add: build_facts_def)

lemma discount_vram_trace [simp]:
  "starts (discount_vram c) = starts c"
  "moves (discount_vram c) = moves c"
  by (simp_all add: discount_vram_def)

lemma publish_gpu_trace [simp]:
  "starts (publish_gpu D c) = starts c"
  "moves (publish_gpu D c) = moves c"
  by (simp_all add: publish_gpu_def)

lemma observe_trace [simp]:
  "starts (observe D E now c) = starts c"
  "moves (observe D E now c) = moves c"
  by (simp_all add: observe_def Let_def)

lemma note_loss_trace [simp]:
  "starts (note_loss D E now c) = starts c"
  "moves (note_loss D E now c) = moves c"
  by (simp_all add: note_loss_def Let_def)

lemma note_recovery_trace [simp]:
  "starts (note_recovery E now c) = starts c"
  "moves (note_recovery E now c) = moves c"
  by (simp_all add: note_recovery_def Let_def)

lemma track_telemetry_health_trace [simp]:
  "starts (track_telemetry_health D E now c) = starts c"
  "moves (track_telemetry_health D E now c) = moves c"
  by (simp_all add: track_telemetry_health_def)

lemma set_baseline_trace [simp]:
  "starts (set_baseline c) = starts c"
  "moves (set_baseline c) = moves c"
  by (simp_all add: set_baseline_def)

lemma report_crash_trace [simp]:
  "starts (report_crash D E now i c) = starts c"
  "moves (report_crash D E now i c) = moves c"
  by (simp_all add: report_crash_def Let_def)

lemma cut_requests_trace [simp]:
  "starts (cut_requests c) = starts c"
  "moves (cut_requests c) = moves c"
  by (simp_all add: cut_requests_def)

lemma forget_drain_trace [simp]:
  "starts (forget_drain c) = starts c"
  "moves (forget_drain c) = moves c"
  by (simp_all add: forget_drain_def)

lemma check_setup_trace [simp]:
  "starts (check_setup D E now c) = starts c"
  "moves (check_setup D E now c) = moves c"
  by (simp_all add: check_setup_def Let_def split: option.split)

lemma apply_manual_trace [simp]:
  "starts (snd (apply_manual d c)) = starts c"
  "moves (snd (apply_manual d c)) = moves c"
  by (simp_all add: apply_manual_def Let_def)

lemma note_decision_trace [simp]:
  "starts (note_decision E now d c) = starts c"
  "moves (note_decision E now d c) = moves c"
  by (simp_all add: note_decision_def Let_def)

lemma check_vram_release_trace [simp]:
  "starts (check_vram_release D E now c) = starts c"
  "moves (check_vram_release D E now c) = moves c"
  by (simp_all add: check_vram_release_def Let_def)

lemma check_crash_reset_trace [simp]:
  "starts (check_crash_reset now c) = starts c"
  "moves (check_crash_reset now c) = moves c"
  by (simp_all add: check_crash_reset_def Let_def)

lemma publish_trace [simp]:
  "starts (publish D now c) = starts c"
  "moves (publish D now c) = moves c"
  by (simp_all add: publish_def Let_def)

lemma decide_trace [simp]:
  "starts (snd (decide D E now c)) = starts c"
  "moves (snd (decide D E now c)) = moves c"
  by (simp_all add: decide_def case_prod_unfold Let_def)


subsection \<open>Moves of the state machine\<close>

fun walk :: "state \<Rightarrow> (state \<times> state) list \<Rightarrow> state \<Rightarrow> bool" where
  "walk s [] t \<longleftrightarrow> s = t"
| "walk s ((a, b) # ps) t \<longleftrightarrow> a = s \<and> can_transition a b \<and> walk b ps t"

lemma walk_append: "walk s (ps @ qs) t \<longleftrightarrow> (\<exists>u. walk s ps u \<and> walk u qs t)"
  by (induction s ps t rule: walk.induct) auto

lemma walk_legal: "walk s ps t \<Longrightarrow> legal_path (s # map snd ps) \<and> last (s # map snd ps) = t"
  by (induction s ps t rule: walk.induct) auto

text \<open>A method that takes state \<open>c\<close> to \<open>c'\<close> went along counted transitions.\<close>

definition walked :: "ctl \<Rightarrow> ctl \<Rightarrow> bool" where
  "walked c c' \<longleftrightarrow> (\<exists>ps. moves c' = moves c @ ps \<and> walk (cs_st c) ps (cs_st c'))"

lemma walked_refl [simp]: "walked c c"
  by (simp add: walked_def)

lemma walked_trans: "walked a b \<Longrightarrow> walked b c \<Longrightarrow> walked a c"
  by (auto simp: walked_def walk_append)

lemma walked_cong: "moves c' = moves c \<Longrightarrow> cs_st c' = cs_st c \<Longrightarrow> walked a c' = walked a c"
  by (simp add: walked_def)

lemma walked_from: "moves b = moves a \<Longrightarrow> cs_st b = cs_st a \<Longrightarrow> walked b c = walked a c"
  by (simp add: walked_def)

named_theorems walk_intros

lemma walked_update [simp]:
  "walked a (cs_cfg_update f0 c) = walked a c"
  "walked a (cs_cfg_source_update f1 c) = walked a c"
  "walked a (cs_cfg_problem_update f2 c) = walked a c"
  "walked a (cs_cfg_problem_fields_update f3 c) = walked a c"
  "walked a (cs_config_revision_update f4 c) = walked a c"
  "walked a (cs_restart_needed_update f5 c) = walked a c"
  "walked a (cs_inst_update f7 c) = walked a c"
  "walked a (cs_load_start_update f8 c) = walked a c"
  "walked a (cs_loaded_at_update f9 c) = walked a c"
  "walked a (cs_last_load_s_update f10 c) = walked a c"
  "walked a (cs_footprint_update f11 c) = walked a c"
  "walked a (cs_crash_count_update f12 c) = walked a c"
  "walked a (cs_baseline_update f13 c) = walked a c"
  "walked a (cs_ready_ch_update f14 c) = walked a c"
  "walked a (cs_stop_ch_update f15 c) = walked a c"
  "walked a (cs_wake_update f16 c) = walked a c"
  "walked a (cs_jobs_update f17 c) = walked a c"
  "walked a (cs_drain_start_update f18 c) = walked a c"
  "walked a (cs_drain_deadline_update f19 c) = walked a c"
  "walked a (cs_yield_update f20 c) = walked a c"
  "walked a (cs_yield_manual_update f21 c) = walked a c"
  "walked a (cs_vram_update f22 c) = walked a c"
  "walked a (cs_timers_update f23 c) = walked a c"
  "walked a (cs_mode_update f24 c) = walked a c"
  "walked a (cs_mode_set_at_update f25 c) = walked a c"
  "walked a (cs_until_reboot_update f26 c) = walked a c"
  "walked a (cs_power_update f27 c) = walked a c"
  "walked a (cs_gpu_update f28 c) = walked a c"
  "walked a (cs_apps_update f29 c) = walked a c"
  "walked a (cs_session_update f30 c) = walked a c"
  "walked a (cs_sample_update f31 c) = walked a c"
  "walked a (cs_procs_update f32 c) = walked a c"
  "walked a (cs_procs_ok_update f33 c) = walked a c"
  "walked a (cs_last_proc_scan_update f34 c) = walked a c"
  "walked a (cs_decision_update f35 c) = walked a c"
  "walked a (cs_last_evaluated_update f36 c) = walked a c"
  "walked a (cs_setup_problem_update f37 c) = walked a c"
  "walked a (cs_last_setup_check_update f38 c) = walked a c"
  "walked a (cs_setup_pending_update f39 c) = walked a c"
  "walked a (cs_attribution_update f40 c) = walked a c"
  "walked a (cs_telemetry_lost_update f41 c) = walked a c"
  "walked a (cs_telemetry_losses_update f42 c) = walked a c"
  "walked a (cs_gpu_resets_update f43 c) = walked a c"
  "walked a (cs_last_gpu_check_update f44 c) = walked a c"
  "walked a (cs_last_gpu_reset_update f45 c) = walked a c"
  "walked a (cs_manual_pending_update f46 c) = walked a c"
  "walked a (cs_persisted_update f47 c) = walked a c"
  "walked a (cs_recent_errors_update f48 c) = walked a c"
  "walked a (cs_zombie_update f49 c) = walked a c"
  "walked a (cs_zombie_stopping_update f50 c) = walked a c"
  "walked a (cs_zombie_retry_at_update f51 c) = walked a c"
  "walked a (cs_zombie_attempts_update f52 c) = walked a c"
  "walked a (cs_sched_cache_update f53 c) = walked a c"
  "walked a (cs_sched_cache_at_update f54 c) = walked a c"
  "walked a (cs_sched_cache_valid_update f55 c) = walked a c"
  "walked a (cs_cond_update f56 c) = walked a c"
  "walked a (cs_gate_update f57 c) = walked a c"
  "walked a (cs_events_update f58 c) = walked a c"
  "walked a (cs_calls_update f60 c) = walked a c"
  by (simp_all add: walked_def)

lemma log_call_walked [simp]: "walked a (log_call k c) = walked a c"
  by (simp add: walked_def)

lemma emit_walked [simp]: "walked a (emit E e c) = walked a c"
  by (simp add: walked_def)

lemma set_recovery_walked [simp]: "walked a (set_recovery E now d r c) = walked a c"
  by (simp add: walked_def)

lemma persist_walked [simp]: "walked a (persist D E c) = walked a c"
  by (simp add: walked_def)

lemma emit_orphans_walked [simp]: "walked a (emit_orphans E now os c) = walked a c"
  by (simp add: walked_def)

lemma reconcile_walked [simp]: "walked a (reconcile D E now c) = walked a c"
  by (simp add: walked_def)

lemma backoff_walked [simp]: "walked a (backoff E now c) = walked a c"
  by (simp add: walked_def)

lemma close_gate_for_walked [simp]: "walked a (snd (close_gate_for d c)) = walked a c"
  by (simp add: walked_def)

lemma force_close_walked [simp]: "walked a (force_close D E now d why c) = walked a c"
  by (simp add: walked_def)

lemma retry_zombie_walked [simp]: "walked a (retry_zombie now c) = walked a c"
  by (simp add: walked_def)

lemma account_yield_walked [simp]: "walked a (snd (account_yield D E now y man c)) = walked a c"
  by (simp add: walked_def)

lemma clear_run_walked [simp]: "walked a (clear_run c) = walked a c"
  by (simp add: walked_def)

lemma keep_zombie_walked [simp]: "walked a (keep_zombie now i c) = walked a c"
  by (simp add: walked_def)

lemma report_kill_fallback_walked [simp]: "walked a (report_kill_fallback E now res pid c) = walked a c"
  by (simp add: walked_def)

lemma report_stopped_walked [simp]: "walked a (report_stopped E now res pid rl c) = walked a c"
  by (simp add: walked_def)

lemma watch_vram_walked [simp]: "walked a (watch_vram now c) = walked a c"
  by (simp add: walked_def)

lemma move_watermark_walked [simp]: "walked a (move_watermark now rs c) = walked a c"
  by (simp add: walked_def)

lemma count_reset_walked [simp]: "walked a (count_reset E now rs c) = walked a c"
  by (simp add: walked_def)

lemma poll_resets_walked [simp]: "walked a (poll_resets E now rs c) = walked a c"
  by (simp add: walked_def)

lemma clear_device_lost_walked [simp]: "walked a (clear_device_lost c) = walked a c"
  by (simp add: walked_def)

lemma check_gpu_resets_walked [simp]: "walked a (check_gpu_resets D E now c) = walked a c"
  by (simp add: walked_def)

lemma expire_mode_walked [simp]: "walked a (expire_mode E now c) = walked a c"
  by (simp add: walked_def)

lemma end_episode_walked [simp]: "walked a (end_episode E now pid dg io c) = walked a c"
  by (simp add: walked_def)

lemma open_episode_walked [simp]: "walked a (open_episode now pid c) = walked a c"
  by (simp add: walked_def)

lemma record_episode_walked [simp]: "walked a (record_episode E now inp c) = walked a c"
  by (simp add: walked_def)

lemma track_attribution_walked [simp]: "walked a (track_attribution E now inp c) = walked a c"
  by (simp add: walked_def)

lemma scan_walked [simp]: "walked a (scan D E now c) = walked a c"
  by (simp add: walked_def)

lemma sampled_walked [simp]: "walked a (sampled D E c) = walked a c"
  by (simp add: walked_def)

lemma build_facts_walked [simp]: "walked a (build_facts D E now inp c) = walked a c"
  by (simp add: walked_def)

lemma discount_vram_walked [simp]: "walked a (discount_vram c) = walked a c"
  by (simp add: walked_def)

lemma publish_gpu_walked [simp]: "walked a (publish_gpu D c) = walked a c"
  by (simp add: walked_def)

lemma observe_walked [simp]: "walked a (observe D E now c) = walked a c"
  by (simp add: walked_def)

lemma note_loss_walked [simp]: "walked a (note_loss D E now c) = walked a c"
  by (simp add: walked_def)

lemma note_recovery_walked [simp]: "walked a (note_recovery E now c) = walked a c"
  by (simp add: walked_def)

lemma track_telemetry_health_walked [simp]: "walked a (track_telemetry_health D E now c) = walked a c"
  by (simp add: walked_def)

lemma set_baseline_walked [simp]: "walked a (set_baseline c) = walked a c"
  by (simp add: walked_def)

lemma report_crash_walked [simp]: "walked a (report_crash D E now i c) = walked a c"
  by (simp add: walked_def)

lemma cut_requests_walked [simp]: "walked a (cut_requests c) = walked a c"
  by (simp add: walked_def)

lemma forget_drain_walked [simp]: "walked a (forget_drain c) = walked a c"
  by (simp add: walked_def)

lemma check_setup_walked [simp]: "walked a (check_setup D E now c) = walked a c"
  by (simp add: walked_def)

lemma apply_manual_walked [simp]: "walked a (snd (apply_manual d c)) = walked a c"
  by (simp add: walked_def)

lemma note_decision_walked [simp]: "walked a (note_decision E now d c) = walked a c"
  by (simp add: walked_def)

lemma check_vram_release_walked [simp]: "walked a (check_vram_release D E now c) = walked a c"
  by (simp add: walked_def)

lemma check_crash_reset_walked [simp]: "walked a (check_crash_reset now c) = walked a c"
  by (simp add: walked_def)

lemma publish_walked [simp]: "walked a (publish D now c) = walked a c"
  by (simp add: walked_def)

lemma decide_walked [simp]: "walked a (snd (decide D E now c)) = walked a c"
  by (simp add: walked_def)

lemma metric_walked [simp]: "move_of m = [] \<Longrightarrow> walked a (metric D m c) = walked a c"
  by (simp add: walked_def)

lemma transition_walked [walk_intros]:
  assumes "walked a c" and "dp_metrics D"
  shows "walked a (snd (transition D E now to d msg dat c))"
proof -
  have "walked c (snd (transition D E now to d msg dat c))"
    using assms(2) by (simp add: walked_def transition_def Let_def)
  with assms(1) show ?thesis by (rule walked_trans)
qed

lemma begin_stop_walked [walk_intros]:
  "walked a c \<Longrightarrow> dp_metrics D \<Longrightarrow> walked a (begin_stop D E now d msg c)"
  by (auto simp: begin_stop_def Let_def case_prod_unfold split: option.split intro!: walk_intros)

lemma on_stopped_walked [walk_intros]:
  "walked a c \<Longrightarrow> dp_metrics D \<Longrightarrow> walked a (on_stopped D E now r c)"
  by (auto simp: on_stopped_def Let_def case_prod_unfold split: option.split intro!: walk_intros)

lemma on_zombie_stopped_walked [simp]: "walked a (on_zombie_stopped E now r c) = walked a c"
  by (auto simp: on_zombie_stopped_def Let_def split: option.split)

lemma load_failed_walked [walk_intros]:
  "walked a c \<Longrightarrow> dp_metrics D \<Longrightarrow> walked a (load_failed D E now d err diag c)"
  by (auto simp: load_failed_def Let_def intro!: walk_intros)

lemma launched_walked [walk_intros]:
  "walked a c \<Longrightarrow> dp_metrics D \<Longrightarrow> walked a (launched D E now d i c)"
  by (auto simp: launched_def Let_def intro!: walk_intros)

lemma start_load_walked [walk_intros]:
  "walked a c \<Longrightarrow> dp_metrics D \<Longrightarrow> walked a (start_load D E now d c)"
  by (auto simp: start_load_def Let_def case_prod_unfold split: sum.split intro!: walk_intros)

lemma load_ready_walked [walk_intros]:
  "walked a c \<Longrightarrow> dp_metrics D \<Longrightarrow> walked a (load_ready D E now c)"
  by (auto simp: load_ready_def Let_def intro!: walk_intros)

lemma zombify_walked [simp]: "walked a (zombify now i c) = walked a c"
  by (simp add: zombify_def)

lemma on_load_result_walked [walk_intros]:
  "walked a c \<Longrightarrow> dp_metrics D \<Longrightarrow> walked a (on_load_result D E now r c)"
  by (auto simp: on_load_result_def split: option.split intro!: walk_intros)

lemma on_crash_walked [walk_intros]:
  "walked a c \<Longrightarrow> dp_metrics D \<Longrightarrow> walked a (on_crash D E now i c)"
  by (auto simp: on_crash_def Let_def intro!: walk_intros)

lemma absorb_stops_walked [walk_intros]:
  "walked a c \<Longrightarrow> dp_metrics D \<Longrightarrow> walked a (absorb_stops D E now rs c)"
  by (induction rs arbitrary: c) (auto intro!: walk_intros)

lemma absorb_async_walked [walk_intros]:
  "walked a c \<Longrightarrow> dp_metrics D \<Longrightarrow> walked a (absorb_async D E now c)"
  by (auto simp: absorb_async_def Let_def split: option.split list.split intro!: walk_intros)

lemma prepare_walked [walk_intros]:
  "walked a c \<Longrightarrow> dp_metrics D \<Longrightarrow> walked a (prepare D E now collect c)"
  by (auto simp: prepare_def Let_def intro!: walk_intros)

lemma maybe_grace_expired_walked [walk_intros]:
  "walked a c \<Longrightarrow> dp_metrics D \<Longrightarrow> walked a (maybe_grace_expired D E now c)"
  by (auto simp: maybe_grace_expired_def Let_def intro!: walk_intros)

lemma start_drain_walked [walk_intros]:
  "walked a c \<Longrightarrow> dp_metrics D \<Longrightarrow> walked a (start_drain D E now d n c)"
  by (auto simp: start_drain_def Let_def case_prod_unfold intro!: walk_intros)

lemma admit_gate_walked [simp]: "walked a (snd (admit_gate now d c)) = walked a c"
  by (auto simp: admit_gate_def Let_def split: option.split)

lemma act_walked [walk_intros]:
  "walked a c \<Longrightarrow> dp_metrics D \<Longrightarrow> walked a (act D E now d c)"
  by (auto simp: act_def act_idle_def act_loading_def act_admitting_def act_draining_def Let_def
      case_prod_unfold split: state.split action.split intro!: walk_intros)

lemma step_walked:
  "dp_metrics D \<Longrightarrow> walked c (step D E collect c)"
  by (simp add: step_def Let_def case_prod_unfold walk_intros)

subsection \<open>Starting a runtime\<close>

lemma starts_quiet [simp]:
  "starts (begin_stop D E now d msg c) = starts c"
  "starts (on_stopped D E now r c) = starts c"
  "starts (on_zombie_stopped E now r c) = starts c"
  "starts (launched D E now d i c) = starts c"
  "starts (zombify now i c) = starts c"
  "starts (load_ready D E now c) = starts c"
  "starts (start_drain D E now d n c) = starts c"
  "starts (snd (admit_gate now d c)) = starts c"
  by (auto simp: begin_stop_def on_stopped_def on_zombie_stopped_def launched_def zombify_def
      load_ready_def start_drain_def admit_gate_def Let_def case_prod_unfold split: option.split)

lemma starts_results [simp]:
  "starts (on_load_result D E now lr c) = starts c"
  "starts (on_crash D E now i c) = starts c"
  "starts (maybe_grace_expired D E now c) = starts c"
  "starts (act_loading D E now d c) = starts c"
  "starts (act_admitting D E now d c) = starts c"
  by (auto simp: on_load_result_def on_crash_def maybe_grace_expired_def act_loading_def
      act_admitting_def Let_def case_prod_unfold split: option.split action.split)

lemma starts_absorb_stops [simp]: "starts (absorb_stops D E now rs c) = starts c"
  by (induction rs arbitrary: c) simp_all

lemma starts_prepare [simp]:
  "starts (act_draining D E now d c) = starts c"
  "starts (absorb_async D E now c) = starts c"
  "starts (prepare D E now collect c) = starts c"
  by (auto simp: act_draining_def absorb_async_def prepare_def Let_def split: option.split list.split)

lemma starts_start_load: "starts (start_load D E now d c) \<in> {starts c, starts c + 1}"
  by (simp add: start_load_def Let_def case_prod_unfold split: sum.split)

lemma starts_act:
  "starts (act D E now d c) = starts c \<or>
   starts (act D E now d c) = starts c + 1 \<and> de_action d = ActionRun \<and> cs_st c \<in> set idle_states"
  using starts_start_load [of D E now d c]
  by (auto simp: act_def act_idle_def idle_states_def split: state.split)

lemma starts_step:
  assumes "starts (step D E collect c) \<noteq> starts c" and "p = prepare D E (ev_now E) collect c"
  shows "starts (step D E collect c) = starts c + 1"
    "de_action (fst (decide D E (ev_now E) p)) = ActionRun" "cs_st p \<in> set idle_states"
  using assms starts_act [of D E "ev_now E" "fst (decide D E (ev_now E) p)"
      "note_decision E (ev_now E) (fst (decide D E (ev_now E) p)) (snd (decide D E (ev_now E) p))"]
  by (auto simp: step_def Let_def case_prod_unfold)

lemma decide_run_idle:
  assumes "de_action (fst (decide D E now p)) = ActionRun" and "\<not> runtime_running (cs_st p)"
  shows "de_action (evaluate (ev_tz E) (snapshot_of now p) (cs_cfg p)) = ActionRun"
    "cs_zombie p = None" "dp_load_blocked D = ''''"
  using assms
  by (auto simp: decide_def Let_def case_prod_unfold apply_load_blocked_def apply_zombie_def
      apply_manual_def split: if_splits option.splits)

lemma decide_running:
  assumes "runtime_running (cs_st p)" and "yields (de_action (evaluate (ev_tz E) (snapshot_of now p) (cs_cfg p)))"
  shows "fst (decide D E now p) = evaluate (ev_tz E) (snapshot_of now p) (cs_cfg p)"
  using assms
  by (auto simp: decide_def Let_def case_prod_unfold apply_load_blocked_def apply_zombie_def
      apply_manual_def split: option.splits)

end
