(* ===== verification/Backend.thy ===== *)
theory Backend
  imports Controller
begin

text \<open>
  Package \<open>internal/controller\<close>, the operations other goroutines call (\<open>backend.go\<close>, and \<open>Start\<close> of
  \<open>controller.go\<close>): restoring persisted state, the manual mode, manual drains and reloads, suspend,
  resume and shutdown. \<open>time.ParseDuration\<close> and the calendar arithmetic of \<open>time.Date\<close> are
  parameters of the definitions that use them.
\<close>

subsection \<open>Start\<close>

definition restore_mode :: "deps \<Rightarrow> env \<Rightarrow> time \<Rightarrow> persisted \<Rightarrow> ctl \<Rightarrow> ctl" where
  "restore_mode D E now p c =
     (let same_boot = (pd_until_reboot p \<and> dp_boot_time D \<and> pd_boot_time p \<noteq> 0 \<and>
            (case ev_boot E of
               Some bt \<Rightarrow> (let d = t_sub bt (pd_boot_time p) in - (2 * minute) < d \<and> d < 2 * minute)
             | None \<Rightarrow> False))
      in if (\<not> pd_until_reboot p \<or> same_boot)
            \<and> (case mf_until (pd_mode p) of None \<Rightarrow> True | Some u \<Rightarrow> now < u)
            \<and> mf_mode (pd_mode p) \<noteq> OtherMode ''''
         then c\<lparr>cs_mode := pd_mode p, cs_mode_set_at := pd_mode_set_at p, cs_until_reboot := pd_until_reboot p\<rparr>
         else c)"

definition restore :: "deps \<Rightarrow> env \<Rightarrow> time \<Rightarrow> persisted \<Rightarrow> ctl \<Rightarrow> ctl" where
  "restore D E now p c =
     (let c1 = c\<lparr>cs_timers := pd_timers p\<rparr>;
          c2 = (if \<not> fault_recovery (tm_recovery_reason (pd_timers p)) \<or> \<not> now < tm_recovery_until (pd_timers p)
                then c1\<lparr>cs_timers := (cs_timers c1)\<lparr>tm_recovery_until := 0, tm_recovery_reason := ''''\<rparr>\<rparr>
                else c1);
          c3 = (if dp_gpu_resets_since D \<and> pd_last_gpu_check p \<noteq> 0
                then log_call (CallResetsSince (pd_last_gpu_check p)) c2 else c2);
          c4 = c3\<lparr>cs_crash_count := pd_crash_count p, cs_footprint := pd_footprint_mib p,
                  cs_last_load_s := pd_last_load_seconds p\<rparr>;
          c5 = restore_mode D E now p c4
      in c5\<lparr>cs_telemetry_losses := pd_telemetry_losses p, cs_gpu_resets := pd_gpu_resets p\<rparr>)"

definition announce :: "deps \<Rightarrow> env \<Rightarrow> time \<Rightarrow> ctl \<Rightarrow> ctl" where
  "announce D E now c =
     (let c1 = emit E ((mk_event now ServiceStarted NoSeverity (lit ''Benchwarmer service started'')
                 [(''version'', DStr (dp_version D)), (''config_source'', DStr (cs_cfg_source c))])
                 \<lparr>ee_state := cs_st c, ee_condition := condition_of (cs_st c)\<rparr>) c
      in if cs_cfg_source c \<noteq> '''' \<and> cs_cfg_source c \<noteq> ''primary''
         then emit E (mk_event now ConfigRecovered SeverityWarning
                (Sprintf ''Configuration file was unusable; running on the %s configuration''
                   [FStr (cs_cfg_source c)]) []) c1
         else c1)"

text \<open>\<open>loaded\<close> is the answer of \<open>LoadControllerState\<close>: nothing stored, or an error, is \<open>None\<close>.\<close>

definition start :: "deps \<Rightarrow> env \<Rightarrow> persisted option \<Rightarrow> ctl \<Rightarrow> ctl" where
  "start D E loaded c =
     (let now = ev_now E;
          c1 = (if dp_persist D then (case loaded of Some p \<Rightarrow> restore D E now p c | None \<Rightarrow> c) else c);
          c2 = reconcile D E now (announce D E now c1)
      in persist D E (set_recovery E now (rc_startup_cooldown (cf_recovery (cs_cfg c2))) ''startup'' c2))"

subsection \<open>Manual mode\<close>

record mode_request =
  mr_mode :: mode
  mr_duration :: string
  mr_set_by :: string
  mr_principal :: string

text \<open>\<open>parse\<close> is \<open>time.ParseDuration\<close>; \<open>next_day now tz h\<close> is hour \<open>h\<close> of the next calendar day in the
  zone.\<close>

definition requested_until ::
  "(string \<Rightarrow> dur option) \<Rightarrow> (time \<Rightarrow> string \<Rightarrow> int \<Rightarrow> time) \<Rightarrow> time \<Rightarrow> mode_request \<Rightarrow> config
     \<Rightarrow> string + (time option \<times> bool)" where
  "requested_until parse next_day now req cfg =
     (let max_u = now + md_max_ai_priority (cf_modes cfg); ai = (mr_mode req = ModeAIPriority);
          cap = (\<lambda>u. if ai \<and> md_max_ai_priority (cf_modes cfg) < t_sub u now then max_u else u)
      in case mr_mode req of
           ModeAuto \<Rightarrow> Inr (None, False)
         | OtherMode _ \<Rightarrow> Inl ''unknown mode''
         | _ \<Rightarrow>
             (if mr_duration req = '''' then Inr (if ai then Some (cap max_u) else None, False)
              else if mr_duration req = ''until_reboot''
              then Inr (if ai then Some (cap max_u) else None, True)
              else if mr_duration req = ''until_tomorrow''
              then Inr (Some (cap (next_day now (cf_timezone cfg) (if ai then 0 else 8))), False)
              else (case parse (mr_duration req) of
                  None \<Rightarrow> Inl ''invalid duration''
                | Some d \<Rightarrow> (if d \<le> 0 then Inl ''invalid duration'' else Inr (Some (cap (now + d)), False)))))"

definition set_mode ::
  "(string \<Rightarrow> dur option) \<Rightarrow> (time \<Rightarrow> string \<Rightarrow> int \<Rightarrow> time) \<Rightarrow> deps \<Rightarrow> env \<Rightarrow> mode_request \<Rightarrow> ctl
     \<Rightarrow> (string + mode_facts) \<times> ctl" where
  "set_mode parse next_day D E req c =
     (let now = ev_now E in
      case requested_until parse next_day now req (cs_cfg c) of
        Inl err \<Rightarrow> (Inl err, c)
      | Inr (until, until_reboot) \<Rightarrow>
          (let m = \<lparr>mf_mode = mr_mode req, mf_until = until, mf_set_by = mr_set_by req\<rparr>;
               prev = mf_mode (cs_mode c);
               c1 = c\<lparr>cs_mode := m, cs_mode_set_at := now, cs_until_reboot := until_reboot\<rparr>;
               names = [FStr (mode_title prev), FStr (mode_title (mf_mode m))];
               msg = (case until of
                   Some u \<Rightarrow> Sprintf ''Mode changed from %s to %s until %s'' (names @ [FClock u])
                 | None \<Rightarrow> (if until_reboot then Sprintf ''Mode changed from %s to %s until reboot'' names
                           else Sprintf ''Mode changed from %s to %s'' names));
               dat = [(''previous'', DMode prev), (''set_by'', DStr (mr_set_by req))]
                 @ (if mr_principal req \<noteq> '''' then [(''principal'', DStr (mr_principal req))] else [])
                 @ (case until of Some u \<Rightarrow> [(''until'', DTime u)] | None \<Rightarrow> []);
               c2 = emit E ((mk_event now ModeChanged NoSeverity msg dat)\<lparr>ee_mode := mf_mode m\<rparr>) c1;
               c3 = persist D E c2
           in (Inr m, c3\<lparr>cs_wake := True\<rparr>)))"

subsection \<open>Manual drains and reloads\<close>

datatype manual_result = ManualOk | ErrNotRunning

definition request_manual :: "env \<Rightarrow> string \<Rightarrow> string \<Rightarrow> ctl \<Rightarrow> manual_result \<times> ctl" where
  "request_manual E kind reason c =
     (if \<not> runtime_running (cs_st c) then (ErrNotRunning, c)
      else if cs_st c = Draining \<or> cs_st c = Preempting then (ManualOk, c)
      else (ManualOk, (emit E ((mk_event 0 DecisionChanged NoSeverity
              (Sprintf ''Manual %s requested: %s'' [FStr kind, FStr reason]) [])
              \<lparr>ee_rule := OtherRule (''manual.'' @ kind)\<rparr>) (c\<lparr>cs_manual_pending := kind\<rparr>))\<lparr>cs_wake := True\<rparr>))"

subsection \<open>Power events and shutdown\<close>

definition begin_suspend :: "env \<Rightarrow> ctl \<Rightarrow> ctl" where
  "begin_suspend E c = emit E (mk_event 0 PowerSuspend NoSeverity (lit ''System is suspending'') [])
     (c\<lparr>cs_power := (cs_power c)\<lparr>pw_suspending := True\<rparr>\<rparr>)"

definition end_suspend :: "env \<Rightarrow> bool \<Rightarrow> bool \<Rightarrow> dur \<Rightarrow> dur \<Rightarrow> ctl \<Rightarrow> ctl" where
  "end_suspend E gone late elapsed budget c =
     (let stopped = (gone \<and> \<not> late);
          e = mk_event 0 PowerSuspendStop NoSeverity (lit ''Runtime stopped before the system slept'')
            [(''stopped'', DBool stopped), (''late'', DBool late), (''elapsed_ms'', DInt (milliseconds elapsed)),
             (''budget_ms'', DInt (milliseconds budget))]
      in emit E
           (if late then e\<lparr>ee_severity := SeverityWarning, ee_message :=
              Sprintf ''Runtime stopped only after the %s suspend budget ran out; the system may have slept with the model loaded''
                [FDur (round_dur millisecond budget)]\<rparr>
            else if stopped then e
            else (case cs_zombie c of
                Some z \<Rightarrow> e\<lparr>ee_severity := SeverityWarning, ee_runtime_pid := in_pid z, ee_message :=
                  Sprintf ''Runtime termination is unverified (pid %d, see kill_failed); the system may sleep with VRAM still held, and termination is retried after resume''
                    [FInt (in_pid z)]\<rparr>
              | None \<Rightarrow> e\<lparr>ee_severity := SeverityWarning, ee_message :=
                  Sprintf ''Runtime still stopping when the %s suspend budget ran out; the system may sleep with the model loaded, and the stop continues and is verified after resume''
                    [FDur (round_dur millisecond budget)]\<rparr>)) c)"

definition resumed :: "deps \<Rightarrow> env \<Rightarrow> ctl \<Rightarrow> ctl" where
  "resumed D E c =
     (let now = ev_now E;
          c1 = emit E (mk_event now PowerResume NoSeverity (lit ''System resumed'') [])
                 (c\<lparr>cs_power := (cs_power c)\<lparr>pw_suspending := False\<rparr>\<rparr>);
          c2 = (if dp_telemetry D then log_call CallRebuild c1 else c1)
      in (set_recovery E now (rc_resume_cooldown (cf_recovery (cs_cfg c2))) ''resume'' c2)\<lparr>cs_wake := True\<rparr>)"

definition begin_shutdown :: "env \<Rightarrow> ctl \<Rightarrow> ctl" where
  "begin_shutdown E c = emit E (mk_event 0 ServiceStopping NoSeverity (lit ''Benchwarmer service stopping'') [])
     (c\<lparr>cs_power := (cs_power c)\<lparr>pw_shutting_down := True\<rparr>\<rparr>)"

definition end_shutdown :: "deps \<Rightarrow> env \<Rightarrow> ctl \<Rightarrow> rt_instance option \<times> ctl" where
  "end_shutdown D E c = (cs_inst c, persist D E (c\<lparr>cs_inst := None\<rparr>))"

text \<open>\<open>waitStoppedWith\<close>: each iteration steps the controller with what its collaborators answer then;
  \<open>clock\<close> is the reading of the caller's clock after the step. The result is \<open>None\<close> when the given
  iterations are used up while the loop would still wait.\<close>

fun wait_stopped :: "deps \<Rightarrow> time \<Rightarrow> bool \<Rightarrow> (env \<times> time) list \<Rightarrow> ctl \<Rightarrow> (bool \<times> bool) option \<times> ctl" where
  "wait_stopped D deadline saw_busy [] c = (None, c)"
| "wait_stopped D deadline saw_busy ((E, clock) # Es) c =
     (let c1 = step D E False c;
          busy = (runtime_running (cs_st c1) \<or> cs_zombie_stopping c1);
          gone = (\<not> busy \<and> cs_inst c1 = None \<and> cs_zombie c1 = None);
          saw = (saw_busy \<or> busy);
          expired = (\<not> clock < deadline)
      in if \<not> busy then (Some (gone, gone \<and> saw \<and> expired), c1)
         else if expired then (Some (False, False), c1)
         else wait_stopped D deadline saw Es c1)"

subsection \<open>What the status document shows\<close>

definition future :: "time \<Rightarrow> time \<Rightarrow> time option" where
  "future now x = (if x = 0 \<or> \<not> now < x then None else Some x)"

record timer_status =
  ts_grace_until :: "time option"
  ts_cooldown_until :: "time option"
  ts_suppressed_until :: "time option"
  ts_recovery_until :: "time option"
  ts_next_load_at :: "time option"
  ts_next_load_reason :: gotext

definition timer_status_of :: "time \<Rightarrow> decision \<Rightarrow> ctl \<Rightarrow> timer_status" where
  "timer_status_of now d c =
     (let p = profile_get (cs_cfg c) (de_profile d); t = cs_timers c; idle = (\<not> runtime_running (cs_st c)) in
      \<lparr>ts_grace_until = (if cs_st c = Draining then future now (cs_drain_deadline c) else None),
       ts_cooldown_until = (if tm_last_competing_at t \<noteq> 0 \<and> \<not> de_competing d
          then future now (tm_last_competing_at t + pf_cooldown p) else None),
       ts_suppressed_until = (if tm_suppressed_at t \<noteq> 0
          then future now (tm_suppressed_at t + at_suppress_for (cf_anti_thrash (cs_cfg c))) else None),
       ts_recovery_until = future now (tm_recovery_until t),
       ts_next_load_at = (if idle then future now (de_next_load_at d) else None),
       ts_next_load_reason = (if idle \<and> de_action d = ActionHold then de_reason d else lit '''')\<rparr>)"

definition top_external :: "app_facts \<Rightarrow> app_match list" where
  "top_external a = take 5 (af_games a @ af_launcher_children a @ af_ordinary a)"

fun find_process :: "evidence list \<Rightarrow> farg option" where
  "find_process [] = None"
| "find_process (e # es) =
     (if ev_name e \<in> {''process'', ''foreground'', ''top_external_process''} then Some (ev_value e)
      else find_process es)"

definition trigger :: "decision \<Rightarrow> gotext" where
  "trigger d = (case find_process (de_evidence d) of
      Some v \<Rightarrow> Sprintf ''%s'' [v]
    | None \<Rightarrow> (case de_evidence d of
        e # _ \<Rightarrow> (if yields (de_action d) \<or> de_competing d
          then Sprintf ''%s=%s'' [FStr (ev_name e), ev_value e] else lit '''')
      | [] \<Rightarrow> lit ''''))"

end
