(* ===== verification/Transition_System.thy ===== *)
theory Transition_System
  imports Prelude
begin

text \<open>
  States reached from given initial states by a step relation, and the rule that an invariant holds
  in all of them. The components that are state machines (the lifecycle table, the admission gate,
  the controller with everything that runs beside it) are instances of the locale.
\<close>

inductive reachable :: "('s \<Rightarrow> bool) \<Rightarrow> ('s \<Rightarrow> 's \<Rightarrow> bool) \<Rightarrow> 's \<Rightarrow> bool"
  for init :: "'s \<Rightarrow> bool" and tr :: "'s \<Rightarrow> 's \<Rightarrow> bool" where
  reach_init: "init s \<Longrightarrow> reachable init tr s"
| reach_step: "reachable init tr s \<Longrightarrow> tr s t \<Longrightarrow> reachable init tr t"

lemma reachable_star: "tr\<^sup>*\<^sup>* s t \<Longrightarrow> reachable init tr s \<Longrightarrow> reachable init tr t"
  by (induction rule: rtranclp_induct) (auto intro: reach_step)

locale inductive_invariant =
  fixes init :: "'s \<Rightarrow> bool" and tr :: "'s \<Rightarrow> 's \<Rightarrow> bool" and inv :: "'s \<Rightarrow> bool"
  assumes inv_init: "init s \<Longrightarrow> inv s"
    and inv_trans: "inv s \<Longrightarrow> tr s t \<Longrightarrow> inv t"
begin

lemma inv_star: "tr\<^sup>*\<^sup>* s t \<Longrightarrow> inv s \<Longrightarrow> inv t"
  by (induction rule: rtranclp_induct) (auto intro: inv_trans)

lemma inv_reachable: "reachable init tr s \<Longrightarrow> inv s"
  by (induction rule: reachable.induct) (auto intro: inv_init inv_trans)

end

end
