(* ===== verification/System.thy ===== *)
theory System
  imports Controller_Trace Backend Transition_System Defaults
begin

text \<open>
  The controller with everything that runs beside it: its own steps with whatever the collaborators
  answer, goroutines that wait for a load or a stop and hand their result over through the
  channels (of the capacity \<open>New\<close> gives them), requests that the proxy admits and releases at the
  shared gate, and the calls of the API, of the power handler and of the service stop. Every rule is
  one critical section of the source, so every interleaving of them is a sequence of steps.
  \<open>Shutdown\<close> ends the process after its wait; the assignment it makes then is not a step here.
\<close>

definition ready_cap :: nat where "ready_cap = 1"
definition stop_cap :: nat where "stop_cap = 4"

inductive sys_step :: "deps \<Rightarrow> ctl \<Rightarrow> ctl \<Rightarrow> bool" for D :: deps where
  ctl_step: "sys_step D c (step D E collect c)"
| load_done: "cs_jobs c = js @ WaitReady i timeout # ks \<Longrightarrow> length (cs_ready_ch c) < ready_cap \<Longrightarrow>
    sys_step D c (c\<lparr>cs_jobs := js @ ks, cs_ready_ch := cs_ready_ch c @ [\<lparr>lr_inst = i, lr_err = err\<rparr>],
      cs_wake := True\<rparr>)"
| stop_done: "cs_jobs c = js @ StopJob i timeout cleanup # ks \<Longrightarrow> length (cs_stop_ch c) < stop_cap \<Longrightarrow>
    sys_step D c (c\<lparr>cs_jobs := js @ ks,
      cs_stop_ch := cs_stop_ch c @ [\<lparr>sp_res = res, sp_err = err', sp_cleanup = cleanup\<rparr>],
      cs_wake := True\<rparr>)"
| request: "sys_step D c (c\<lparr>cs_gate := snd (admit t (cs_gate c))\<rparr>)"
| request_done: "sys_step D c (c\<lparr>cs_gate := release rid (cs_gate c)\<rparr>)"
| call_mode: "sys_step D c (snd (set_mode parse next_day D E req c))"
| call_manual: "sys_step D c (snd (request_manual E kind reason c))"
| suspend: "sys_step D c (begin_suspend E c)"
| suspended: "sys_step D c (end_suspend E gone late elapsed budget c)"
| resume: "sys_step D c (resumed D E c)"
| stop_service: "sys_step D c (begin_shutdown E c)"

inductive_cases sys_stepE: "sys_step D c c'"

definition sys_init :: "deps \<Rightarrow> ctl \<Rightarrow> bool" where
  "sys_init D c \<longleftrightarrow> (\<exists>E loaded cfg src prob fes. c = start D E loaded (new_controller cfg src prob fes))"

abbreviation sys_reachable :: "deps \<Rightarrow> ctl \<Rightarrow> bool" where
  "sys_reachable D \<equiv> reachable (sys_init D) (sys_step D)"

subsection \<open>What the calls leave alone\<close>

lemma restore_fields [simp]:
  "cs_st (restore D E now p c) = cs_st c" "cs_inst (restore D E now p c) = cs_inst c"
  "cs_zombie (restore D E now p c) = cs_zombie c" "cs_yield (restore D E now p c) = cs_yield c"
  "cs_zombie_stopping (restore D E now p c) = cs_zombie_stopping c"
  "cs_stop_ch (restore D E now p c) = cs_stop_ch c" "cs_jobs (restore D E now p c) = cs_jobs c"
  "cs_gate (restore D E now p c) = cs_gate c" "cs_cond (restore D E now p c) = cs_cond c"
  "moves (restore D E now p c) = moves c"
  by (simp_all add: restore_def restore_mode_def Let_def)

lemma announce_fields [simp]:
  "cs_st (announce D E now c) = cs_st c" "cs_inst (announce D E now c) = cs_inst c"
  "cs_zombie (announce D E now c) = cs_zombie c" "cs_yield (announce D E now c) = cs_yield c"
  "cs_zombie_stopping (announce D E now c) = cs_zombie_stopping c"
  "cs_stop_ch (announce D E now c) = cs_stop_ch c" "cs_jobs (announce D E now c) = cs_jobs c"
  "cs_gate (announce D E now c) = cs_gate c" "cs_cond (announce D E now c) = cs_cond c"
  "moves (announce D E now c) = moves c" "cs_cfg (announce D E now c) = cs_cfg c"
  by (simp_all add: announce_def Let_def)

lemma start_fields [simp]:
  "cs_st (start D E l c) = cs_st c" "cs_inst (start D E l c) = cs_inst c"
  "cs_zombie (start D E l c) = cs_zombie c" "cs_yield (start D E l c) = cs_yield c"
  "cs_zombie_stopping (start D E l c) = cs_zombie_stopping c"
  "cs_stop_ch (start D E l c) = cs_stop_ch c" "cs_jobs (start D E l c) = cs_jobs c"
  "cs_gate (start D E l c) = cs_gate c" "cs_cond (start D E l c) = cs_cond c"
  "moves (start D E l c) = moves c"
  by (simp_all add: start_def Let_def split: option.split)

lemma admit_keeps_open [simp]: "gt_open (snd (admit t g)) = gt_open g"
  by (auto simp: admit_def new_id_def signal_gate_def Let_def split: prod.split)

lemma release_keeps_open [simp]: "gt_open (release i g) = gt_open g"
  by (auto simp: release_def signal_gate_def Let_def)

lemma call_fields [simp]:
  "cs_st (snd (set_mode parse nd D E req c)) = cs_st c"
  "cs_inst (snd (set_mode parse nd D E req c)) = cs_inst c"
  "cs_zombie (snd (set_mode parse nd D E req c)) = cs_zombie c"
  "cs_zombie_stopping (snd (set_mode parse nd D E req c)) = cs_zombie_stopping c"
  "cs_stop_ch (snd (set_mode parse nd D E req c)) = cs_stop_ch c"
  "cs_jobs (snd (set_mode parse nd D E req c)) = cs_jobs c"
  "cs_gate (snd (set_mode parse nd D E req c)) = cs_gate c"
  "cs_yield (snd (set_mode parse nd D E req c)) = cs_yield c"
  "cs_cond (snd (set_mode parse nd D E req c)) = cs_cond c"
  "moves (snd (set_mode parse nd D E req c)) = moves c"
  by (auto simp: set_mode_def Let_def split: sum.split option.split)

text \<open>The calls that change nothing of the lifecycle.\<close>

definition side_call :: "deps \<Rightarrow> ctl \<Rightarrow> ctl \<Rightarrow> bool" where
  "side_call D c c' \<longleftrightarrow> cs_st c' = cs_st c \<and> cs_inst c' = cs_inst c \<and> cs_zombie c' = cs_zombie c
     \<and> cs_zombie_stopping c' = cs_zombie_stopping c \<and> cs_stop_ch c' = cs_stop_ch c
     \<and> cs_jobs c' = cs_jobs c \<and> gt_open (cs_gate c') = gt_open (cs_gate c)
     \<and> cs_yield c' = cs_yield c \<and> cs_cond c' = cs_cond c \<and> moves c' = moves c"

lemma side_calls:
  "side_call D c (c\<lparr>cs_gate := snd (admit t (cs_gate c))\<rparr>)"
  "side_call D c (c\<lparr>cs_gate := release rid (cs_gate c)\<rparr>)"
  "side_call D c (snd (set_mode parse nd D E req c))"
  "side_call D c (snd (request_manual E kind reason c))"
  "side_call D c (begin_suspend E c)"
  "side_call D c (end_suspend E gone late elapsed budget c)"
  "side_call D c (resumed D E c)"
  "side_call D c (begin_shutdown E c)"
  by (simp_all add: side_call_def request_manual_def begin_suspend_def end_suspend_def resumed_def
      begin_shutdown_def Let_def)

lemma side_call_inv: "side_call D c c' \<Longrightarrow> ctl_inv c' = ctl_inv c"
  by (intro ctl_inv_cong) (simp_all add: side_call_def)

lemma side_call_walked: "side_call D c c' \<Longrightarrow> walked c c'"
  by (simp add: side_call_def walked_def)

lemma sys_step_cases [consumes 1, case_names step load stop side]:
  assumes "sys_step D c c'"
  obtains E collect where "c' = step D E collect c"
  | js i timeout ks err where "cs_jobs c = js @ WaitReady i timeout # ks"
      "c' = c\<lparr>cs_jobs := js @ ks, cs_ready_ch := cs_ready_ch c @ [\<lparr>lr_inst = i, lr_err = err\<rparr>], cs_wake := True\<rparr>"
  | js i timeout cleanup ks res err where "cs_jobs c = js @ StopJob i timeout cleanup # ks"
      "length (cs_stop_ch c) < stop_cap"
      "c' = c\<lparr>cs_jobs := js @ ks, cs_stop_ch := cs_stop_ch c @
         [\<lparr>sp_res = res, sp_err = err, sp_cleanup = cleanup\<rparr>], cs_wake := True\<rparr>"
  | "side_call D c c'"
  using assms
proof cases
  case ctl_step then show thesis by (rule that(1))
next
  case load_done then show thesis by (intro that(2))
next
  case stop_done then show thesis by (intro that(3))
qed (use that(4) side_calls in \<open>simp_all only:\<close>)

subsection \<open>The invariant\<close>

lemma sys_step_inv:
  assumes "ctl_inv c" and "sys_step D c c'"
  shows "ctl_inv c'"
  using assms(2)
proof (cases rule: sys_step_cases)
  case step then show ?thesis using assms(1) by (simp add: step_inv)
next
  case load then show ?thesis using assms(1) by (simp add: inv_defs)
next
  case stop then show ?thesis using assms(1) by (cases "sp_cleanup (last (cs_stop_ch c'))") (simp_all add: inv_defs)
next
  case side then show ?thesis using assms(1) by (simp add: side_call_inv)
qed

lemma new_controller_fields [simp]:
  "cs_st (new_controller cfg src prob fes) = Stopped" "moves (new_controller cfg src prob fes) = []"
  by (simp_all add: new_controller_def moves_def)

lemma sys_init_inv: "sys_init D c \<Longrightarrow> ctl_inv c"
  by (auto simp: sys_init_def intro: iffD2 [OF ctl_inv_cong new_controller_inv])

interpretation sys: inductive_invariant "sys_init D" "sys_step D" ctl_inv for D
  by unfold_locales (auto intro: sys_init_inv sys_step_inv)

lemma sys_step_walked: "dp_metrics D \<Longrightarrow> sys_step D c c' \<Longrightarrow> walked c c'"
  by (cases rule: sys_step_cases) (auto simp: step_walked side_call_walked)

interpretation sys_log: inductive_invariant "sys_init D" "sys_step D"
    "\<lambda>c. dp_metrics D \<longrightarrow> walk Stopped (moves c) (cs_st c)" for D
proof
  fix c assume "sys_init D c"
  then show "dp_metrics D \<longrightarrow> walk Stopped (moves c) (cs_st c)"
    by (auto simp: sys_init_def)
next
  fix c c' assume "dp_metrics D \<longrightarrow> walk Stopped (moves c) (cs_st c)" and "sys_step D c c'"
  then show "dp_metrics D \<longrightarrow> walk Stopped (moves c') (cs_st c')"
    using sys_step_walked [of D c c'] unfolding walked_def
    by (auto simp: walk_append; blast)
qed

subsection \<open>One step, after the decision\<close>

lemma begin_stop_active [simp]:
  "gt_active (cs_gate (begin_stop D E now d msg c)) = gt_active (cs_gate c)"
  by (auto simp: begin_stop_def Let_def case_prod_unfold split: option.split)

lemma publish_active [simp]: "gt_active (cs_gate (publish D now c)) = gt_active (cs_gate c)"
  by (simp add: publish_def Let_def update_closed_def)

definition acted :: "deps \<Rightarrow> env \<Rightarrow> ctl \<Rightarrow> ctl" where
  "acted D E p = (let d = fst (decide D E (ev_now E) p)
     in act D E (ev_now E) d (note_decision E (ev_now E) d (snd (decide D E (ev_now E) p))))"

lemma step_acted:
  assumes "p = prepare D E (ev_now E) collect c"
  shows "cs_st (step D E collect c) = cs_st (acted D E p)"
    "cs_jobs (step D E collect c) = cs_jobs (acted D E p)"
    "cs_inst (step D E collect c) = cs_inst (acted D E p)"
    "cs_drain_deadline (step D E collect c) = cs_drain_deadline (acted D E p)"
    "gt_open (cs_gate (step D E collect c)) = gt_open (cs_gate (acted D E p))"
    "gt_active (cs_gate (step D E collect c)) = gt_active (cs_gate (acted D E p))"
    "starts (step D E collect c) = starts (acted D E p)"
  unfolding step_def acted_def Let_def case_prod_unfold assms by simp_all

definition all_cancelled :: "gate \<Rightarrow> bool" where
  "all_cancelled g \<longleftrightarrow> list_all (\<lambda>(i, t). tk_cause t \<noteq> None) (gt_active g)"

lemma force_close_cancels: "all_cancelled (snd (force_close_all g))"
  by (auto simp: all_cancelled_def force_close_all_def cancel_def list_all_iff split: option.split)

lemma all_cancelled_cong: "gt_active g' = gt_active g \<Longrightarrow> all_cancelled g' = all_cancelled g"
  by (simp add: all_cancelled_def)

lemma no_active_cancelled: "gt_active g = [] \<Longrightarrow> all_cancelled g"
  by (simp add: all_cancelled_def)

text \<open>Preempting a runtime: it is being stopped, nothing is admitted, every request is cut.\<close>

definition preempted_from :: "ctl \<Rightarrow> ctl \<Rightarrow> bool" where
  "preempted_from p a \<longleftrightarrow> cs_st a = Preempting \<and> \<not> gt_open (cs_gate a)
     \<and> (cs_st p \<in> {Ready, Busy, Draining} \<longrightarrow> all_cancelled (cs_gate a))
     \<and> (cs_st p \<noteq> Preempting \<longrightarrow> (\<exists>i. cs_inst p = Some i \<and>
          StopJob i (rt_kill_verify_timeout (cf_runtime (cs_cfg p))) False \<in> set (cs_jobs a)))"

lemma begin_stop_preempted:
  assumes "stoppable (cs_st c)" "cs_inst c = Some i" "cs_inst p = Some i" "cs_cfg c = cs_cfg p"
    and "cs_st p \<in> {Ready, Busy, Draining} \<Longrightarrow> all_cancelled (cs_gate c)"
  shows "preempted_from p (begin_stop D E now d msg c)"
  using assms begin_stop_fields [OF assms(1,2), of D E now d msg]
  by (auto simp: preempted_from_def all_cancelled_def)

lemma act_preempts:
  assumes inv: "ctl_inv c" and run: "runtime_running (cs_st c)" and a: "de_action d = ActionPreempt"
    and same: "cs_st p = cs_st c" "cs_inst p = cs_inst c" "cs_cfg p = cs_cfg c"
  shows "preempted_from p (act D E now d c)"
proof (cases "cs_st c = Preempting")
  case True
  then show ?thesis
    using inv same by (auto simp: act_def preempted_from_def inv_defs admitting_iff)
next
  case False
  then have s: "stoppable (cs_st c)" using run by (auto simp: running_iff stoppable_def)
  obtain i where i: "cs_inst c = Some i"
    using inv run False by (auto simp: inv_defs)
  have y: "yields (de_action d)" using a by (simp add: yields_def)
  have stop: "preempted_from p (begin_stop D E now e msg x)"
    if "cs_st x = cs_st c" "cs_inst x = cs_inst c" "cs_cfg x = cs_cfg c"
      "cs_st c \<in> {Ready, Busy, Draining} \<Longrightarrow> all_cancelled (cs_gate x)" for e msg x
    using s i that same by (intro begin_stop_preempted) auto
  from s consider "cs_st c = Loading" | "cs_st c \<in> {Ready, Busy}" | "cs_st c = Draining"
    by (auto simp: stoppable_def)
  then show ?thesis
  proof cases
    case 1 then show ?thesis using y stop by (simp add: act_def act_loading_def)
  next
    case 2
    then have "act D E now d c = act_admitting D E now d c" by (auto simp: act_def)
    also have "preempted_from p \<dots>"
      using 2 a y
      by (auto simp: act_admitting_def admit_gate_def Let_def case_prod_unfold force_close_cancels
          no_active_cancelled intro!: stop)
    finally show ?thesis .
  next
    case 3
    then have "act D E now d c = act_draining D E now d c" by (simp add: act_def)
    also have "preempted_from p \<dots>"
      using 3 a by (auto simp: act_draining_def Let_def force_close_cancels no_active_cancelled intro!: stop)
    finally show ?thesis .
  qed
qed

subsection \<open>Draining\<close>

lemma grace_left: "now < cs_drain_deadline c \<Longrightarrow> maybe_grace_expired D E now c = c"
  by (simp add: maybe_grace_expired_def)

lemma grace_expired_preempts:
  assumes "ctl_inv c" "cs_st c = Draining" "\<not> now < cs_drain_deadline c"
    and same: "cs_st p = cs_st c" "cs_inst p = cs_inst c" "cs_cfg p = cs_cfg c"
  shows "preempted_from p (maybe_grace_expired D E now c)"
proof -
  obtain i where "cs_inst c = Some i" using assms(1,2) by (auto simp: inv_defs running_iff)
  then show ?thesis
    using assms(2-)
    by (auto simp: maybe_grace_expired_def Let_def stoppable_def force_close_cancels
        intro!: begin_stop_preempted)
qed

text \<open>What a step does in \<open>Draining\<close>: it goes on waiting for the requests that are left, with a
  deadline that lies ahead and has not been moved back, or it preempts.\<close>

definition still_draining :: "time \<Rightarrow> ctl \<Rightarrow> ctl \<Rightarrow> bool" where
  "still_draining now c a \<longleftrightarrow> cs_st a = Draining \<and> now < cs_drain_deadline a
     \<and> cs_drain_deadline a \<le> cs_drain_deadline c \<and> gt_active (cs_gate a) = gt_active (cs_gate c)
     \<and> gt_active (cs_gate c) \<noteq> [] \<and> gt_open (cs_gate a) = gt_open (cs_gate c)"

lemma act_draining_cases:
  assumes inv: "ctl_inv c" and st: "cs_st c = Draining"
    and same: "cs_st p = cs_st c" "cs_inst p = cs_inst c" "cs_cfg p = cs_cfg c"
  shows "still_draining now c (act_draining D E now d c) \<or> preempted_from p (act_draining D E now d c)"
proof -
  obtain i where i: "cs_inst c = Some i" using inv st by (auto simp: inv_defs running_iff)
  have stop: "preempted_from p (begin_stop D E now e msg x)"
    if "cs_st x = cs_st c" "cs_inst x = cs_inst c" "cs_cfg x = cs_cfg c" "all_cancelled (cs_gate x)" for e msg x
    using i st that same by (intro begin_stop_preempted) (auto simp: stoppable_def)
  have wait: "still_draining now c (maybe_grace_expired D E now x) \<or> preempted_from p (maybe_grace_expired D E now x)"
    if "gt_active (cs_gate c) \<noteq> []" and x: "x = c \<or> x = emit E e (c\<lparr>cs_drain_deadline := t\<rparr>) \<and> t < cs_drain_deadline c"
    for x e t
  proof -
    have f: "cs_st x = cs_st c" "cs_inst x = cs_inst c" "cs_cfg x = cs_cfg c" "cs_gate x = cs_gate c"
        "cs_drain_deadline x \<le> cs_drain_deadline c" "ctl_inv x"
      using x inv by (auto intro: iffD2 [OF ctl_inv_cong])
    show ?thesis
    proof (cases "now < cs_drain_deadline x")
      case True
      then show ?thesis using f st that(1) by (simp add: grace_left still_draining_def)
    next
      case False
      then show ?thesis using f st same by (intro disjI2 grace_expired_preempts) simp_all
    qed
  qed
  show ?thesis
    unfolding act_draining_def Let_def
    using stop wait [OF _ disjI1 [OF refl]] wait [OF _ disjI2 [OF conjI [OF refl]]]
    by (auto simp: force_close_cancels no_active_cancelled)
qed

lemma admitting_running: "admitting s \<Longrightarrow> runtime_running s \<and> s \<noteq> Preempting"
  by (auto simp: lifecycle_defs)

lemma decide_same:
  assumes "de_action (evaluate (ev_tz E) (snapshot_of now p) (cs_cfg p)) = ActionRun"
    and "\<not> runtime_running (cs_st p)" and "cs_zombie p = None" and "dp_load_blocked D = ''''"
  shows "de_action (fst (decide D E now p)) = ActionRun"
  using assms
  by (auto simp: decide_def Let_def case_prod_unfold apply_load_blocked_def apply_zombie_def
      apply_manual_def yields_def split: option.splits)

lemma act_loads:
  assumes idle: "cs_st c \<in> set idle_states" and d: "de_action d = ActionRun"
    and s: "dp_adapter D" "ev_start E = Inr i"
  shows "cs_st (act D E now d c) = Loading \<and> cs_inst (act D E now d c) = Some i
    \<and> WaitReady i (rt_load_timeout (cf_runtime (cs_cfg c))) \<in> set (cs_jobs (act D E now d c))
    \<and> starts (act D E now d c) = starts c + 1"
proof -
  have a: "act D E now d c = start_load D E now d c"
    using idle d by (auto simp: act_def act_idle_def idle_states_def)
  have stop: "can_transition (cs_st c) Stopped" using idle by (intro to_idle) (auto simp: idle_states_def)
  define c1 where "c1 = (if cs_st c \<noteq> Stopped
    then snd (transition D E now Stopped d (lit ''Eligible to load'') [] c) else c)"
  have st: "cs_st c1 = Stopped" "cs_cfg c1 = cs_cfg c" "starts c1 = starts c"
    using stop by (simp_all add: c1_def transition_st)
  have l: "start_load D E now d c = launched D E now d i
      (log_call (CallStart (cf_runtime (cs_cfg c1))) (set_baseline (reconcile D E now c1)))"
    using stop s by (simp add: start_load_def c1_def Let_def transition_ok case_prod_unfold)
  show ?thesis unfolding a l using st by (simp add: launched_fields)
qed

lemma act_admits:
  assumes inv: "ctl_inv c" and st: "cs_st c \<in> {Ready, Busy}" and d: "de_action d = ActionRun"
  shows "gt_open (cs_gate (act D E now d c)) \<and>
    cs_st (act D E now d c) = (if gt_active (cs_gate c) = [] then Ready else Busy)"
proof -
  have a: "act D E now d c = act_admitting D E now d c" using st by (auto simp: act_def)
  obtain i where "cs_inst c = Some i" using inv st by (auto simp: ctl_inv_with_def inv_instance_def running_iff)
  moreover have "can_transition Ready Busy" "can_transition Busy Ready" by (simp_all add: lifecycle_defs)
  moreover have "gt_open (open_gate u g) \<and> gt_active (open_gate u g) = gt_active g" for u g
    by (simp add: open_gate_def signal_gate_def)
  ultimately show ?thesis
    using st d by (auto simp: a act_admitting_def admit_gate_def Let_def case_prod_unfold yields_def transition_st)
qed

text \<open>Yielding: nothing is admitted any more; a drain waits, with its grace, only for requests that
  are active.\<close>

lemma act_yields:
  assumes inv: "ctl_inv c" and st: "cs_st c \<in> {Ready, Busy}" and d: "yields (de_action d)"
  shows "\<not> gt_open (cs_gate (act D E now d c)) \<and> (cs_st (act D E now d c) = Preempting
    \<or> cs_st (act D E now d c) = Draining \<and> gt_active (cs_gate c) \<noteq> []
      \<and> gt_active (cs_gate (act D E now d c)) = gt_active (cs_gate c)
      \<and> cs_drain_deadline (act D E now d c) = now + de_grace d)"
proof (cases "de_action d = ActionPreempt")
  case True
  then show ?thesis
    using act_preempts [OF inv _ True refl refl refl, of D E now] st
    by (auto simp: preempted_from_def running_iff)
next
  case False
  with d have dr: "de_action d = ActionDrain" by (cases "de_action d") (simp_all add: yields_def)
  have a: "act D E now d c = act_admitting D E now d c" using st by (auto simp: act_def)
  obtain i where i: "cs_inst c = Some i" using inv st by (auto simp: ctl_inv_with_def inv_instance_def running_iff)
  let ?c = "snd (close_gate_for d c)"
  have "stoppable (cs_st ?c)" "cs_inst ?c = Some i" "admitting (cs_st ?c)"
    using st i by (auto simp: stoppable_def admitting_iff)
  from begin_stop_fields [OF this(1,2)] start_drain_fields [OF this(3)] show ?thesis
    using st d dr
    by (auto simp: a act_admitting_def admit_gate_def Let_def case_prod_unfold)
qed

lemma note_inv: "ctl_inv p \<Longrightarrow> ctl_inv (note_decision E now d (snd (decide D E now p)))"
  by (subst ctl_inv_cong [of _ p]) simp_all

lemma acted_eq: "acted D E p = act D E (ev_now E) (fst (decide D E (ev_now E) p))
    (note_decision E (ev_now E) (fst (decide D E (ev_now E) p)) (snd (decide D E (ev_now E) p)))"
  by (simp add: acted_def Let_def)

lemma step_loads:
  assumes "ctl_inv c" and p: "p = prepare D E (ev_now E) collect c" and "\<not> runtime_running (cs_st p)"
    and run: "de_action (evaluate (ev_tz E) (snapshot_of (ev_now E) p) (cs_cfg p)) = ActionRun"
    and clear: "cs_zombie p = None" "dp_load_blocked D = ''''"
    and s: "dp_adapter D" "ev_start E = Inr i"
  shows "cs_st (step D E collect c) = Loading \<and> cs_inst (step D E collect c) = Some i
    \<and> WaitReady i (rt_load_timeout (cf_runtime (cs_cfg p))) \<in> set (cs_jobs (step D E collect c))
    \<and> starts (step D E collect c) = starts c + 1"
proof -
  have inv: "ctl_inv p" unfolding p using assms(1) by (rule prepare_inv)
  have idle: "cs_st p \<in> set idle_states"
    using inv_valid [OF inv] assms(3) by (auto simp: valid_cases running_iff)
  let ?d = "fst (decide D E (ev_now E) p)"
  let ?n = "note_decision E (ev_now E) ?d (snd (decide D E (ev_now E) p))"
  have d: "de_action ?d = ActionRun"
    using run clear assms(3) by (intro decide_same) simp_all
  have "cs_st ?n \<in> set idle_states" using idle by simp
  from act_loads [OF this d s, of "ev_now E"] show ?thesis
    by (simp add: step_acted [OF p] acted_eq) (simp add: p)
qed

subsection \<open>Concrete runs\<close>

text \<open>A machine on which nothing competes, and controllers on it: just started, loading, and in a
  given state of a run with one request.\<close>

definition demo_deps :: deps where
  "demo_deps = \<lparr>dp_adapter = True, dp_telemetry = False, dp_processes = False, dp_facts = True,
     dp_persist = False, dp_metrics = True, dp_gpu_resets = False, dp_gpu_resets_since = False,
     dp_boot_time = False, dp_load_blocked = '''', dp_version = ''1''\<rparr>"

definition demo_runtime :: rt_instance where
  "demo_runtime = \<lparr>in_id = 1, in_pid = 42, in_base_url = ''http://127.0.0.1:8081''\<rparr>"

definition demo_env :: env where
  "demo_env = (let now = 100 * hour; s = quiet_snapshot now Stopped in
     \<lparr>ev_now = now, ev_tz = no_zones, ev_sample = zero_sample, ev_procs = None,
      ev_build = (\<lambda>_ _. (ss_gpu s, ss_apps s, ss_session s)), ev_members = (\<lambda>i. [in_pid i]),
      ev_exited = (\<lambda>_. False), ev_exit_err = (\<lambda>_. None), ev_diag = (\<lambda>_. ''''),
      ev_start = Inr demo_runtime, ev_orphans = [], ev_resets = [], ev_setup = Some '''',
      ev_boot = None, ev_save_ok = True\<rparr>)"

definition demo_new :: ctl where
  "demo_new = new_controller bare_config ''primary'' '''' []"

definition demo_started :: ctl where
  "demo_started = start demo_deps (demo_env\<lparr>ev_now := 1\<rparr>) None demo_new"

definition demo_loading :: ctl where
  "demo_loading = step demo_deps demo_env True demo_started"

definition demo_in :: "state \<Rightarrow> ctl" where
  "demo_in s = demo_new\<lparr>cs_st := s, cs_cond := condition_of s, cs_inst := Some demo_runtime,
     cs_gate := new_gate\<lparr>gt_active := [(''r'', \<lparr>tk_id = ''r'', tk_started = 1, tk_upstream = '''', tk_cause = None\<rparr>)]\<rparr>\<rparr>"

lemma demo_in_inv: "s \<in> {Loading, Ready, Busy, Draining} \<Longrightarrow> ctl_inv (demo_in s)"
  by (auto simp: inv_defs demo_in_def demo_new_def new_controller_def new_gate_def lifecycle_defs zero_decision_def)

lemma demo_started_init: "sys_init demo_deps demo_started"
  unfolding sys_init_def demo_started_def demo_new_def by blast

lemma demo_started_inv: "ctl_inv demo_started"
  using demo_started_init by (rule sys_init_inv)

lemma demo_prepared:
  "\<not> runtime_running (cs_st (prepare demo_deps demo_env (ev_now demo_env) True demo_started))"
  "cs_zombie (prepare demo_deps demo_env (ev_now demo_env) True demo_started) = None"
  by code_simp+

lemma demo_decision:
  "de_action (evaluate (ev_tz demo_env)
     (snapshot_of (ev_now demo_env) (prepare demo_deps demo_env (ev_now demo_env) True demo_started))
     (cs_cfg (prepare demo_deps demo_env (ev_now demo_env) True demo_started))) = ActionRun"
  by code_simp

lemma demo_loads:
  "cs_st demo_loading = Loading" "cs_inst demo_loading = Some demo_runtime"
  "starts demo_loading = starts demo_started + 1"
proof -
  have "dp_load_blocked demo_deps = ''''" "dp_adapter demo_deps" "ev_start demo_env = Inr demo_runtime"
    by (simp_all add: demo_deps_def demo_env_def Let_def)
  from step_loads [OF demo_started_inv refl demo_prepared(1) demo_decision demo_prepared(2) this]
  show "cs_st demo_loading = Loading" "cs_inst demo_loading = Some demo_runtime"
    "starts demo_loading = starts demo_started + 1"
    by (simp_all add: demo_loading_def)
qed

lemma demo_loading_reachable: "sys_reachable demo_deps demo_loading"
proof -
  have "sys_reachable demo_deps demo_started" using demo_started_init by (rule reach_init)
  then show ?thesis unfolding demo_loading_def by (rule reach_step) (rule ctl_step)
qed

subsection \<open>Properties\<close>







text \<open>C3. A runtime is started only by a step that, after taking in what has ended, found no runtime
  left, none unverified and no stop under way, whose policy decision was to run, and that was not
  blocked by unprotected secrets; one step starts at most one.\<close>

theorem start_only_when_clear:
  assumes "ctl_inv c" and "starts (step D E collect c) \<noteq> starts c"
    and p: "p = prepare D E (ev_now E) collect c"
  shows "starts (step D E collect c) = starts c + 1
    \<and> cs_inst p = None \<and> cs_zombie p = None \<and> policy_stops [] p = 0 \<and> cleanup_stops [] p = 0
    \<and> de_action (evaluate (ev_tz E) (snapshot_of (ev_now E) p) (cs_cfg p)) = ActionRun
    \<and> dp_load_blocked D = ''''"
proof -
  have inv: "ctl_inv p" unfolding p using assms(1) by (rule prepare_inv)
  note s = starts_step [OF assms(2) p]
  have i: "\<not> runtime_running (cs_st p)" "cs_st p \<noteq> Preempting" using idle_not_running [OF s(3)] by simp_all
  show ?thesis using decide_run_idle [OF s(2) i(1)] i inv s(1) by (auto simp: inv_defs split: if_splits)
qed

theorem start_only_when_clear_witness:
  "policy_stops [] (prepare demo_deps demo_env (ev_now demo_env) True demo_started) = 0"
  using start_only_when_clear [OF demo_started_inv _ refl, of demo_deps demo_env True] demo_loads(3)
  by (simp add: demo_loading_def)

text \<open>C7. An idle worker whose policy decision is to run gets its runtime in the same step: when
  nothing is left to clean up and secrets are protected, the adapter is asked to start one, the
  state is \<open>Loading\<close>, and a goroutine waits for it to become ready.\<close>

theorem idle_worker_loads:
  assumes "ctl_inv c" and p: "p = prepare D E (ev_now E) collect c" and "\<not> runtime_running (cs_st p)"
    and run: "de_action (evaluate (ev_tz E) (snapshot_of (ev_now E) p) (cs_cfg p)) = ActionRun"
    and clear: "cs_zombie p = None" "dp_load_blocked D = ''''"
    and s: "dp_adapter D" "ev_start E = Inr i"
  shows "cs_st (step D E collect c) = Loading \<and> cs_inst (step D E collect c) = Some i
    \<and> WaitReady i (rt_load_timeout (cf_runtime (cs_cfg p))) \<in> set (cs_jobs (step D E collect c))"
  using step_loads [OF assms] by simp

theorem idle_worker_loads_witness: "cs_st (step demo_deps demo_env True demo_started) = Loading"
  using idle_worker_loads [OF demo_started_inv refl demo_prepared(1) demo_decision demo_prepared(2),
      of demo_runtime]
  by (simp add: demo_deps_def demo_env_def Let_def)

text \<open>C6. A loaded worker serves exactly while it may run: a step whose decision is to run leaves the
  gate open and the state telling whether requests are active; a step whose decision yields leaves
  it closed, and either preempts or drains with the decision's grace for requests that are active.\<close>

theorem serves_while_allowed:
  assumes "ctl_inv c" and p: "p = prepare D E (ev_now E) collect c" and st: "cs_st p \<in> {Ready, Busy}"
    and d: "d = fst (decide D E (ev_now E) p)" and c': "c' = step D E collect c"
  shows "(de_action d = ActionRun \<longrightarrow> gt_open (cs_gate c')
      \<and> cs_st c' = (if gt_active (cs_gate p) = [] then Ready else Busy))
    \<and> (yields (de_action d) \<longrightarrow> \<not> gt_open (cs_gate c') \<and> (cs_st c' = Preempting
      \<or> cs_st c' = Draining \<and> gt_active (cs_gate c') \<noteq> [] \<and> cs_drain_deadline c' = ev_now E + de_grace d))"
proof -
  let ?n = "note_decision E (ev_now E) d (snd (decide D E (ev_now E) p))"
  have inv: "ctl_inv ?n" unfolding p d using assms(1) by (intro note_inv prepare_inv)
  have n: "cs_st ?n \<in> {Ready, Busy}" "cs_gate ?n = cs_gate p" using st by simp_all
  show ?thesis
    unfolding c' step_acted [OF p] acted_eq d [symmetric]
    using act_admits [OF inv n(1), of d D E "ev_now E"] act_yields [OF inv n(1), of d D E "ev_now E"]
    unfolding n(2) by auto
qed

theorem serves_while_allowed_witness:
  "gt_open (cs_gate (step demo_deps demo_env True (demo_in Ready)))
    \<and> cs_st (step demo_deps demo_env True (demo_in Ready)) = Busy"
proof -
  let ?p = "prepare demo_deps demo_env (ev_now demo_env) True (demo_in Ready)"
  have "cs_st ?p = Ready" "gt_active (cs_gate ?p) \<noteq> []" by code_simp+
  moreover have "de_action (fst (decide demo_deps demo_env (ev_now demo_env) ?p)) = ActionRun" by code_simp
  ultimately show ?thesis
    using serves_while_allowed [OF demo_in_inv refl _ refl refl, of Ready demo_deps demo_env True] by simp
qed

text \<open>C5. A drain ends: a step in \<open>Draining\<close> either goes on waiting for requests that are still active,
  with the deadline ahead and never later than before and the gate closed, or it preempts the
  runtime with every remaining request cut; at the deadline it preempts.\<close>

theorem drain_ends:
  assumes "ctl_inv c" and p: "p = prepare D E (ev_now E) collect c" and st: "cs_st p = Draining"
    and c': "c' = step D E collect c"
  shows "(cs_st c' = Draining \<and> ev_now E < cs_drain_deadline c' \<and> cs_drain_deadline c' \<le> cs_drain_deadline p
      \<and> gt_active (cs_gate p) \<noteq> [] \<and> \<not> gt_open (cs_gate c'))
    \<or> (cs_st c' = Preempting \<and> \<not> gt_open (cs_gate c') \<and> all_cancelled (cs_gate c'))"
proof -
  let ?d = "fst (decide D E (ev_now E) p)"
  let ?n = "note_decision E (ev_now E) ?d (snd (decide D E (ev_now E) p))"
  have inv: "ctl_inv p" unfolding p using assms(1) by (rule prepare_inv)
  have a: "acted D E p = act_draining D E (ev_now E) ?d ?n"
    using st by (simp add: acted_eq act_def)
  have "still_draining (ev_now E) ?n (acted D E p) \<or> preempted_from p (acted D E p)"
    unfolding a using note_inv [OF inv] st by (intro act_draining_cases) simp_all
  moreover have "\<not> gt_open (cs_gate p)" using inv st by (auto simp: ctl_inv_with_def inv_gate_def admitting_iff)
  ultimately show ?thesis
    using st by (auto simp: c' step_acted [OF p] still_draining_def preempted_from_def all_cancelled_def)
qed

theorem drain_ends_witness:
  "cs_st (step demo_deps demo_env True (demo_in Draining)) = Preempting
    \<and> all_cancelled (cs_gate (step demo_deps demo_env True (demo_in Draining)))"
proof -
  let ?p = "prepare demo_deps demo_env (ev_now demo_env) True (demo_in Draining)"
  have "cs_st ?p = Draining" "cs_drain_deadline ?p \<le> ev_now demo_env" by code_simp+
  then show ?thesis
    using drain_ends [OF demo_in_inv refl _ refl, of Draining demo_deps demo_env True] by auto
qed

text \<open>C4. Hard safety conditions stop a running runtime in the step that observes them, in every mode
  and lifecycle state: suspend, shutdown, a lost device, an overheated GPU or lost telemetry lead to
  \<open>Preempting\<close> with the gate closed, the requests of a loaded runtime cut, and the runtime being
  stopped.\<close>

theorem safety_preempts:
  assumes "ctl_inv c" and p: "p = prepare D E (ev_now E) collect c" and run: "runtime_running (cs_st p)"
    and fault: "safety_fault (new_eval (ev_tz E) (snapshot_of (ev_now E) p) (cs_cfg p))"
    and c': "c' = step D E collect c"
  shows "cs_st c' = Preempting \<and> \<not> gt_open (cs_gate c')
    \<and> (cs_st p \<in> {Ready, Busy, Draining} \<longrightarrow> all_cancelled (cs_gate c'))
    \<and> (cs_st p \<noteq> Preempting \<longrightarrow> (\<exists>i. cs_inst p = Some i \<and>
          StopJob i (rt_kill_verify_timeout (cf_runtime (cs_cfg p))) False \<in> set (cs_jobs c')))"
proof -
  let ?s = "snapshot_of (ev_now E) p"
  have inv: "ctl_inv p" unfolding p using assms(1) by (rule prepare_inv)
  have r: "runtime_running (rf_state (ss_runtime ?s))" using run by (simp add: snapshot_of_def case_prod_unfold)
  then have "el_running (new_eval (ev_tz E) ?s (cs_cfg p))"
    by (simp add: new_eval_def Let_def case_prod_unfold)
  then have a: "de_action (evaluate (ev_tz E) ?s (cs_cfg p)) = ActionPreempt"
    using winner_running [of "new_eval (ev_tz E) ?s (cs_cfg p)"] fault r
    by (simp add: evaluate_simps spec_running_def)
  then have "de_action (fst (decide D E (ev_now E) p)) = ActionPreempt"
    using run by (subst decide_running) (simp_all add: yields_def)
  then have "preempted_from p (acted D E p)"
    unfolding acted_eq using run by (intro act_preempts note_inv inv) simp_all
  then show ?thesis by (simp add: c' preempted_from_def step_acted [OF p] all_cancelled_def)
qed

theorem safety_preempts_witness:
  "cs_st (step demo_deps demo_env True
     ((demo_in Busy)\<lparr>cs_power := no_power\<lparr>pw_suspending := True\<rparr>\<rparr>)) = Preempting"
proof -
  let ?c = "(demo_in Busy)\<lparr>cs_power := no_power\<lparr>pw_suspending := True\<rparr>\<rparr>"
  let ?p = "prepare demo_deps demo_env (ev_now demo_env) True ?c"
  have i: "ctl_inv ?c" using demo_in_inv [of Busy] by (subst ctl_inv_cong [of _ "demo_in Busy"]) simp_all
  have "cs_st ?p = Busy" "pw_suspending (cs_power ?p)" by code_simp+
  moreover from this(2) have "safety_fault (new_eval (ev_tz demo_env) (snapshot_of (ev_now demo_env) ?p) (cs_cfg ?p))"
    by (simp add: safety_fault_def power_event_def snapshot_of_def case_prod_unfold)
  ultimately show ?thesis
    using safety_preempts [OF i refl _ _ refl, of demo_deps demo_env True] by (simp add: runtime_running_def)
qed

end
