(* ===== verification/Recovery.thy ===== *)
theory Recovery
  imports System
begin

text \<open>
  Waiting after a fault. A recovery wait is scheduled by \<open>setRecovery\<close> and nothing shortens it: the
  instant it ends never moves back, over any interleaving of steps, results, requests and calls, and
  until then no runtime is started. The length of a wait is a bounded doubling.
\<close>

subsection \<open>Bounded doubling\<close>

lemma double_loop_bounds:
  assumes "0 \<le> d" "0 < limit" "limit \<le> 2 ^ 62" "i \<le> n"
  shows "min (double_loop i n d limit) limit = min (d * 2 ^ nat (n - i)) limit"
  using assms
proof (induction i n d limit rule: double_loop.induct)
  case (1 i n d limit)
  show ?case
  proof (cases "i < n \<and> d < limit")
    case True
    have w: "wrap64 (d * 2) = d * 2" using 1 True by (simp add: wrap64_def)
    have e: "nat (n - i) = Suc (nat (n - (i + 1)))" using True by linarith
    have "min (double_loop (i + 1) n (d * 2) limit) limit = min (d * 2 * 2 ^ nat (n - (i + 1))) limit"
      using 1 True w by simp
    then show ?thesis using True w e by (subst double_loop.simps) (simp add: mult.assoc)
  next
    case False
    have "limit \<le> d * 2 ^ nat (n - i)" if "limit \<le> d"
      using that 1(2) mult_left_mono [of 1 "2 ^ nat (n - i)" d] by simp
    then show ?thesis using False 1(2-) by (subst double_loop.simps) auto
  qed
qed

subsection \<open>The end of the wait\<close>

definition recov :: "ctl \<Rightarrow> time" where
  "recov c = tm_recovery_until (cs_timers c)"

lemma recov_update [simp]:
  "recov (cs_cfg_update f0 c) = recov c"
  "recov (cs_cfg_source_update f1 c) = recov c"
  "recov (cs_cfg_problem_update f2 c) = recov c"
  "recov (cs_cfg_problem_fields_update f3 c) = recov c"
  "recov (cs_config_revision_update f4 c) = recov c"
  "recov (cs_restart_needed_update f5 c) = recov c"
  "recov (cs_st_update f6 c) = recov c"
  "recov (cs_inst_update f7 c) = recov c"
  "recov (cs_load_start_update f8 c) = recov c"
  "recov (cs_loaded_at_update f9 c) = recov c"
  "recov (cs_last_load_s_update f10 c) = recov c"
  "recov (cs_footprint_update f11 c) = recov c"
  "recov (cs_crash_count_update f12 c) = recov c"
  "recov (cs_baseline_update f13 c) = recov c"
  "recov (cs_ready_ch_update f14 c) = recov c"
  "recov (cs_stop_ch_update f15 c) = recov c"
  "recov (cs_wake_update f16 c) = recov c"
  "recov (cs_jobs_update f17 c) = recov c"
  "recov (cs_drain_start_update f18 c) = recov c"
  "recov (cs_drain_deadline_update f19 c) = recov c"
  "recov (cs_yield_update f20 c) = recov c"
  "recov (cs_yield_manual_update f21 c) = recov c"
  "recov (cs_vram_update f22 c) = recov c"
  "recov (cs_mode_update f24 c) = recov c"
  "recov (cs_mode_set_at_update f25 c) = recov c"
  "recov (cs_until_reboot_update f26 c) = recov c"
  "recov (cs_power_update f27 c) = recov c"
  "recov (cs_gpu_update f28 c) = recov c"
  "recov (cs_apps_update f29 c) = recov c"
  "recov (cs_session_update f30 c) = recov c"
  "recov (cs_sample_update f31 c) = recov c"
  "recov (cs_procs_update f32 c) = recov c"
  "recov (cs_procs_ok_update f33 c) = recov c"
  "recov (cs_last_proc_scan_update f34 c) = recov c"
  "recov (cs_decision_update f35 c) = recov c"
  "recov (cs_last_evaluated_update f36 c) = recov c"
  "recov (cs_setup_problem_update f37 c) = recov c"
  "recov (cs_last_setup_check_update f38 c) = recov c"
  "recov (cs_setup_pending_update f39 c) = recov c"
  "recov (cs_attribution_update f40 c) = recov c"
  "recov (cs_telemetry_lost_update f41 c) = recov c"
  "recov (cs_telemetry_losses_update f42 c) = recov c"
  "recov (cs_gpu_resets_update f43 c) = recov c"
  "recov (cs_last_gpu_check_update f44 c) = recov c"
  "recov (cs_last_gpu_reset_update f45 c) = recov c"
  "recov (cs_manual_pending_update f46 c) = recov c"
  "recov (cs_persisted_update f47 c) = recov c"
  "recov (cs_recent_errors_update f48 c) = recov c"
  "recov (cs_zombie_update f49 c) = recov c"
  "recov (cs_zombie_stopping_update f50 c) = recov c"
  "recov (cs_zombie_retry_at_update f51 c) = recov c"
  "recov (cs_zombie_attempts_update f52 c) = recov c"
  "recov (cs_sched_cache_update f53 c) = recov c"
  "recov (cs_sched_cache_at_update f54 c) = recov c"
  "recov (cs_sched_cache_valid_update f55 c) = recov c"
  "recov (cs_cond_update f56 c) = recov c"
  "recov (cs_gate_update f57 c) = recov c"
  "recov (cs_events_update f58 c) = recov c"
  "recov (cs_metrics_update f59 c) = recov c"
  "recov (cs_calls_update f60 c) = recov c"
  "recov (c\<lparr>cs_timers := t\<rparr>) = tm_recovery_until t"
  "tm_recovery_until (cs_timers c) = recov c"
  by (simp_all add: recov_def)

lemma metric_recov [simp]: "recov (metric D m c) = recov c"
  by (simp_all add: metric_def)

lemma log_call_recov [simp]: "recov (log_call k c) = recov c"
  by (simp_all add: log_call_def)

lemma emit_recov [simp]: "recov (emit E e c) = recov c"
  by (simp_all add: emit_def Let_def)

lemma persist_recov [simp]: "recov (persist D E c) = recov c"
  by (simp_all add: persist_def Let_def)

lemma emit_orphans_recov [simp]: "recov (emit_orphans E now os c) = recov c"
  by (induction os arbitrary: c) simp_all

lemma reconcile_recov [simp]: "recov (reconcile D E now c) = recov c"
  by (simp_all add: reconcile_def Let_def)

lemma transition_recov [simp]: "recov (snd (transition D E now to d msg dat c)) = recov c"
  by (simp_all add: transition_def Let_def)

lemma close_gate_for_recov [simp]: "recov (snd (close_gate_for d c)) = recov c"
  by (simp_all add: close_gate_for_def close_gate_def Let_def)

lemma force_close_recov [simp]: "recov (force_close D E now d why c) = recov c"
  by (simp_all add: force_close_def Let_def case_prod_unfold)

lemma retry_zombie_recov [simp]: "recov (retry_zombie now c) = recov c"
  by (simp_all add: retry_zombie_def split: option.split)

lemma clear_run_recov [simp]: "recov (clear_run c) = recov c"
  by (simp_all add: clear_run_def)

lemma keep_zombie_recov [simp]: "recov (keep_zombie now i c) = recov c"
  by (simp_all add: keep_zombie_def Let_def)

lemma report_kill_fallback_recov [simp]: "recov (report_kill_fallback E now res pid c) = recov c"
  by (simp_all add: report_kill_fallback_def)

lemma report_stopped_recov [simp]: "recov (report_stopped E now res pid rl c) = recov c"
  by (simp_all add: report_stopped_def)

lemma watch_vram_recov [simp]: "recov (watch_vram now c) = recov c"
  by (simp_all add: watch_vram_def)

lemma move_watermark_recov [simp]: "recov (move_watermark now rs c) = recov c"
  by (simp_all add: move_watermark_def)

lemma clear_device_lost_recov [simp]: "recov (clear_device_lost c) = recov c"
  by (simp_all add: clear_device_lost_def)

lemma expire_mode_recov [simp]: "recov (expire_mode E now c) = recov c"
  by (simp_all add: expire_mode_def split: option.split)

lemma end_episode_recov [simp]: "recov (end_episode E now pid dg io c) = recov c"
  by (simp_all add: end_episode_def Let_def)

lemma open_episode_recov [simp]: "recov (open_episode now pid c) = recov c"
  by (simp_all add: open_episode_def)

lemma record_episode_recov [simp]: "recov (record_episode E now inp c) = recov c"
  by (simp_all add: record_episode_def Let_def)

lemma track_attribution_recov [simp]: "recov (track_attribution E now inp c) = recov c"
  by (simp_all add: track_attribution_def Let_def)

lemma scan_recov [simp]: "recov (scan D E now c) = recov c"
  by (simp_all add: scan_def)

lemma sampled_recov [simp]: "recov (sampled D E c) = recov c"
  by (simp_all add: sampled_def)

lemma build_facts_recov [simp]: "recov (build_facts D E now inp c) = recov c"
  by (simp_all add: build_facts_def)

lemma discount_vram_recov [simp]: "recov (discount_vram c) = recov c"
  by (simp_all add: discount_vram_def)

lemma publish_gpu_recov [simp]: "recov (publish_gpu D c) = recov c"
  by (simp_all add: publish_gpu_def)

lemma observe_recov [simp]: "recov (observe D E now c) = recov c"
  by (simp_all add: observe_def Let_def)

lemma note_loss_recov [simp]: "recov (note_loss D E now c) = recov c"
  by (simp_all add: note_loss_def Let_def)

lemma set_baseline_recov [simp]: "recov (set_baseline c) = recov c"
  by (simp_all add: set_baseline_def)

lemma report_crash_recov [simp]: "recov (report_crash D E now i c) = recov c"
  by (simp_all add: report_crash_def Let_def)

lemma cut_requests_recov [simp]: "recov (cut_requests c) = recov c"
  by (simp_all add: cut_requests_def)

lemma forget_drain_recov [simp]: "recov (forget_drain c) = recov c"
  by (simp_all add: forget_drain_def)

lemma check_setup_recov [simp]: "recov (check_setup D E now c) = recov c"
  by (simp_all add: check_setup_def Let_def split: option.split)

lemma apply_manual_recov [simp]: "recov (snd (apply_manual d c)) = recov c"
  by (simp_all add: apply_manual_def Let_def)

lemma note_decision_recov [simp]: "recov (note_decision E now d c) = recov c"
  by (simp_all add: note_decision_def Let_def)

lemma check_vram_release_recov [simp]: "recov (check_vram_release D E now c) = recov c"
  by (simp_all add: check_vram_release_def Let_def)

lemma check_crash_reset_recov [simp]: "recov (check_crash_reset now c) = recov c"
  by (simp_all add: check_crash_reset_def Let_def)

lemma publish_recov [simp]: "recov (publish D now c) = recov c"
  by (simp_all add: publish_def Let_def)

lemma decide_recov [simp]: "recov (snd (decide D E now c)) = recov c"
  by (simp_all add: decide_def case_prod_unfold Let_def)

lemma quiet_recov [simp]:
  "recov (begin_stop D E now d msg c) = recov c"
  "recov (on_zombie_stopped E now r c) = recov c"
  "recov (launched D E now d i c) = recov c"
  "recov (zombify now i c) = recov c"
  "recov (load_ready D E now c) = recov c"
  "recov (start_drain D E now d n c) = recov c"
  "recov (snd (admit_gate now d c)) = recov c"
  by (auto simp: begin_stop_def on_zombie_stopped_def launched_def zombify_def
      load_ready_def start_drain_def admit_gate_def Let_def case_prod_unfold split: option.split)

lemma quiet_act_recov [simp]:
  "recov (maybe_grace_expired D E now c) = recov c"
  "recov (act_loading D E now d c) = recov c"
  "recov (act_admitting D E now d c) = recov c"
  by (auto simp: maybe_grace_expired_def act_loading_def act_admitting_def Let_def case_prod_unfold
      split: action.split)

text \<open>The methods that schedule a wait only move its end forward.\<close>

named_theorems wait_intros

lemma set_recovery_wait [wait_intros]: "t \<le> recov c \<Longrightarrow> t \<le> recov (set_recovery E now d r c)"
  by (simp add: set_recovery_def Let_def)

lemma set_recovery_ends: "now + d \<le> recov (set_recovery E now d r c)"
  by (simp add: set_recovery_def Let_def)

lemma fault_waits [wait_intros]:
  assumes "t \<le> recov c"
  shows "t \<le> recov (backoff E now c)"
    "t \<le> recov (count_reset E now rs c)"
    "t \<le> recov (note_recovery E now c)"
    "t \<le> recov (snd (account_yield D E now y man c))"
  using assms
  by (auto simp: backoff_def count_reset_def note_recovery_def account_yield_def Let_def
      intro!: set_recovery_wait)

lemma step_waits [wait_intros]:
  assumes "t \<le> recov c"
  shows "t \<le> recov (load_failed D E now d err diag c)"
    "t \<le> recov (check_gpu_resets D E now c)"
    "t \<le> recov (track_telemetry_health D E now c)"
    "t \<le> recov (on_stopped D E now r c)"
  using assms
  by (auto simp: load_failed_def check_gpu_resets_def poll_resets_def track_telemetry_health_def on_stopped_def
      Let_def case_prod_unfold split: option.split intro!: wait_intros)

lemma run_waits [wait_intros]:
  assumes "t \<le> recov c"
  shows "t \<le> recov (on_load_result D E now lr c)"
    "t \<le> recov (on_crash D E now i c)"
    "t \<le> recov (start_load D E now d c)"
  using assms
  by (auto simp: on_load_result_def on_crash_def start_load_def Let_def case_prod_unfold
      split: option.split sum.split intro!: wait_intros)

lemma absorb_stops_wait [wait_intros]: "t \<le> recov c \<Longrightarrow> t \<le> recov (absorb_stops D E now rs c)"
  by (induction rs arbitrary: c) (auto intro!: wait_intros)

lemma absorb_async_wait [wait_intros]: "t \<le> recov c \<Longrightarrow> t \<le> recov (absorb_async D E now c)"
  by (auto simp: absorb_async_def Let_def split: option.split list.split intro!: wait_intros)

lemma prepare_wait [wait_intros]: "t \<le> recov c \<Longrightarrow> t \<le> recov (prepare D E now collect c)"
  by (auto simp: prepare_def Let_def intro!: wait_intros)

lemma act_wait [wait_intros]: "t \<le> recov c \<Longrightarrow> t \<le> recov (act D E now d c)"
  by (auto simp: act_def act_idle_def act_draining_def Let_def split: state.split intro!: wait_intros)

lemma step_wait: "t \<le> recov c \<Longrightarrow> t \<le> recov (step D E collect c)"
  by (simp add: step_def Let_def case_prod_unfold wait_intros)

lemma call_recov [simp]:
  "recov (snd (set_mode parse nd D E req c)) = recov c"
  "recov (snd (request_manual E kind reason c)) = recov c"
  "recov (begin_suspend E c) = recov c"
  "recov (end_suspend E gone late elapsed budget c) = recov c"
  "recov (begin_shutdown E c) = recov c"
  by (auto simp: set_mode_def request_manual_def begin_suspend_def end_suspend_def begin_shutdown_def
      Let_def split: sum.split option.split)

lemma resumed_wait: "t \<le> recov c \<Longrightarrow> t \<le> recov (resumed D E c)"
  by (auto simp: resumed_def Let_def intro!: wait_intros)

lemma sys_step_wait: "sys_step D c c' \<Longrightarrow> t \<le> recov c \<Longrightarrow> t \<le> recov c'"
  by (induction rule: sys_step.induct) (auto intro: step_wait resumed_wait)

interpretation waiting: inductive_invariant "\<lambda>c. t \<le> recov c" "sys_step D" "\<lambda>c. t \<le> recov c" for D t
  by unfold_locales (auto intro: sys_step_wait)

lemma idle_recov:
  assumes "de_action (evaluate tz (snapshot_of now p) cfg) = ActionRun"
    and "\<not> runtime_running (cs_st p)" and "0 \<le> now"
  shows "recov p \<le> now"
proof -
  let ?e = "new_eval tz (snapshot_of now p) cfg"
  have e: "el_s ?e = snapshot_of now p" by (simp add: new_eval_def Let_def case_prod_unfold)
  have "may_load ?e"
    using assms evaluate_idle_action [of "snapshot_of now p" tz cfg]
    by (simp add: snapshot_of_def case_prod_unfold split: if_splits)
  then have "timers_clear ?e (ss_now (el_s ?e))" by (simp add: may_load_def Let_def)
  then show ?thesis
    by (simp add: timers_clear_def e) (simp add: snapshot_of_def case_prod_unfold)
qed

text \<open>What a restart restores, and what the rest of \<open>Start\<close> leaves of it.\<close>

definition kept :: "ctl \<Rightarrow> time list \<times> time \<times> time \<times> int \<times> int \<times> int" where
  "kept c = (tm_preemptions (cs_timers c), tm_suppressed_at (cs_timers c),
     tm_last_competing_at (cs_timers c), cs_crash_count c, cs_gpu_resets c, cs_telemetry_losses c)"

lemma emit_keeps [simp]:
  "cs_timers (emit E e c) = cs_timers c" "cs_crash_count (emit E e c) = cs_crash_count c"
  "cs_gpu_resets (emit E e c) = cs_gpu_resets c" "cs_telemetry_losses (emit E e c) = cs_telemetry_losses c"
  by (simp_all add: emit_def Let_def)

lemma kept_base [simp]:
  "kept (metric D m c) = kept c" "kept (log_call k c) = kept c" "kept (emit E e c) = kept c"
  by (simp_all add: kept_def metric_def log_call_def)

lemma kept_wait [simp]: "kept (set_recovery E now d r c) = kept c" "kept (persist D E c) = kept c"
  by (simp_all add: kept_def set_recovery_def persist_def log_call_def Let_def)

lemma kept_orphans [simp]: "kept (emit_orphans E now os c) = kept c"
  by (induction os arbitrary: c) simp_all

lemma kept_reconcile [simp]: "kept (reconcile D E now c) = kept c"
  by (simp add: reconcile_def Let_def)

lemma announce_keeps [simp]:
  "kept (announce D E now c) = kept c" "recov (announce D E now c) = recov c"
  by (simp_all add: announce_def Let_def)

lemma kept_restore: "kept (restore D E now p c) =
   (tm_preemptions (pd_timers p), tm_suppressed_at (pd_timers p), tm_last_competing_at (pd_timers p),
    pd_crash_count p, pd_gpu_resets p, pd_telemetry_losses p)"
  by (simp add: kept_def restore_def restore_mode_def log_call_def Let_def)

lemma recov_restore: "recov (restore D E now p c) =
   (if fault_recovery (tm_recovery_reason (pd_timers p)) \<and> now < tm_recovery_until (pd_timers p)
    then tm_recovery_until (pd_timers p) else 0)"
  by (simp add: restore_def restore_mode_def Let_def)

lemma restore_cfg [simp]: "cs_cfg (restore D E now p c) = cs_cfg c"
  by (simp add: restore_def restore_mode_def Let_def)

subsection \<open>Properties\<close>

text \<open>The waits after repeated faults double and are bounded: the \<open>n\<close>-th is the initial one times
  \<open>2 ^ (n - 1)\<close>, cut off at the limit, and the 64-bit multiplication never wraps.\<close>

theorem escalate_doubles:
  assumes "0 \<le> d" and "0 < limit" and "limit \<le> 2 ^ 62" and "1 \<le> n"
  shows "escalate n d limit = min (d * 2 ^ nat (n - 1)) limit"
  using double_loop_bounds [OF assms(1-3), of 1 n] assms(4) by (simp add: escalate_def)

theorem escalate_doubles_witness: "escalate 4 (30 * second) (10 * minute) = 4 * minute"
  using escalate_doubles [of "30 * second" "10 * minute" 4] by simp



text \<open>A restart does not forget why the worker waits: a wait after a fault that is still running
  goes on, at least the startup cooldown applies, and the anti-thrash history, the last competing
  workload and the counts that escalate the next waits are those stored.\<close>

theorem restart_keeps_waits:
  assumes "dp_persist D" and c: "c = start D E (Some p) (new_controller cfg src prob fes)"
  shows "(fault_recovery (tm_recovery_reason (pd_timers p)) \<longrightarrow>
        tm_recovery_until (pd_timers p) \<le> max (ev_now E) (recov c))
    \<and> ev_now E + rc_startup_cooldown (cf_recovery cfg) \<le> recov c
    \<and> tm_preemptions (cs_timers c) = tm_preemptions (pd_timers p)
    \<and> tm_suppressed_at (cs_timers c) = tm_suppressed_at (pd_timers p)
    \<and> tm_last_competing_at (cs_timers c) = tm_last_competing_at (pd_timers p)
    \<and> cs_crash_count c = pd_crash_count p \<and> cs_gpu_resets c = pd_gpu_resets p
    \<and> cs_telemetry_losses c = pd_telemetry_losses p"
proof -
  define r where "r = restore D E (ev_now E) p (new_controller cfg src prob fes)"
  define x where "x = reconcile D E (ev_now E) (announce D E (ev_now E) r)"
  have x: "kept x = kept r" "recov x = recov r" "cs_cfg x = cs_cfg r"
    by (simp_all add: x_def)
  have c': "c = persist D E (set_recovery E (ev_now E) (rc_startup_cooldown (cf_recovery (cs_cfg x))) ''startup'' x)"
    unfolding c start_def Let_def using assms(1) by (simp add: x_def r_def)
  have "kept c = kept r" "recov r \<le> recov c" "ev_now E + rc_startup_cooldown (cf_recovery (cs_cfg r)) \<le> recov c"
    unfolding c' using x set_recovery_ends [of "ev_now E" _ E _ x] set_recovery_wait [of "recov r" x]
    by simp_all
  moreover have "cs_cfg r = cfg" by (simp add: r_def new_controller_def)
  moreover note recov_restore [of D E "ev_now E" p "new_controller cfg src prob fes", folded r_def]
    kept_restore [of D E "ev_now E" p "new_controller cfg src prob fes", folded r_def]
  ultimately show ?thesis unfolding kept_def by (auto split: if_splits)
qed

definition demo_persisted :: persisted where
  "demo_persisted = \<lparr>pd_mode = auto_mode, pd_mode_set_at = 0, pd_until_reboot = False, pd_boot_time = 0,
     pd_telemetry_losses = 0, pd_gpu_resets = 1, pd_last_gpu_check = 0,
     pd_timers = zero_timers\<lparr>tm_recovery_until := 7 * hour, tm_recovery_reason := ''GPU driver reset (1)''\<rparr>,
     pd_crash_count = 0, pd_footprint_mib = 0, pd_last_load_seconds = 0\<rparr>"

theorem restart_keeps_waits_witness:
  "7 * hour \<le> recov (start (demo_deps\<lparr>dp_persist := True\<rparr>) (demo_env\<lparr>ev_now := 5\<rparr>) (Some demo_persisted) demo_new)"
proof -
  let ?p = demo_persisted
  have f: "fault_recovery (tm_recovery_reason (pd_timers ?p))" by code_simp
  have t: "tm_recovery_until (pd_timers ?p) = 7 * hour" by (simp add: demo_persisted_def)
  let ?c = "start (demo_deps\<lparr>dp_persist := True\<rparr>) (demo_env\<lparr>ev_now := 5\<rparr>) (Some ?p) demo_new"
  have n: "demo_new = new_controller (cs_cfg demo_new) (cs_cfg_source demo_new) (cs_cfg_problem demo_new) (cs_cfg_problem_fields demo_new)"
    unfolding demo_new_def by (simp add: new_controller_def)
  have "7 * hour \<le> max 5 (recov ?c)"
    using restart_keeps_waits [where D = "demo_deps\<lparr>dp_persist := True\<rparr>"
        and E = "demo_env\<lparr>ev_now := 5\<rparr>" and p = ?p and c = ?c, OF _ arg_cong [OF n]] f t
    by simp
  moreover have "(5 :: int) < 7 * hour" by code_simp
  ultimately show ?thesis by (simp only: le_max_iff_disj) simp
qed

end
