(* ===== verification/Defaults_Correct.thy ===== *)
theory Defaults_Correct
  imports Defaults
begin

text \<open>
  The merge of the shipped application rules into a loaded file: it settles after one round, never
  brings back a rule that was deleted, offers every new shipped rule once, and leaves the rules of the
  file in their order.
\<close>

definition rule_ids :: "app_rule list \<Rightarrow> string list" where
  "rule_ids rs = filter (\<lambda>i. i \<noteq> '''') (map ar_id rs)"

definition adoptable :: "string list \<Rightarrow> app_rule \<Rightarrow> bool" where
  "adoptable S r \<longleftrightarrow> ar_id r = '''' \<and> builtin_id r \<in> set S"

lemma rule_ids_simps [simp]:
  "rule_ids [] = []" "rule_ids (r # rs) = (if ar_id r = '''' then rule_ids rs else ar_id r # rule_ids rs)"
  "rule_ids (rs @ rs') = rule_ids rs @ rule_ids rs'"
  by (simp_all add: rule_ids_def)

subsection \<open>Adopting ids\<close>

lemma builtin_id_update [simp]: "builtin_id (r\<lparr>ar_id := i\<rparr>) = builtin_id r"
  by (simp add: builtin_id_def)

lemma adopt_ids_spec:
  assumes "'''' \<notin> set S" and "adopt_ids S H rs = (rs', H', ch)"
  shows "set H' = set H \<union> {builtin_id r | r. r \<in> set rs \<and> adoptable S r}
    \<and> set (rule_ids rs') \<subseteq> set (rule_ids rs) \<union> {builtin_id r | r. r \<in> set rs \<and> adoptable S r}
    \<and> set (rule_ids rs) \<subseteq> set (rule_ids rs') \<and> set H' - set H \<subseteq> set (rule_ids rs')
    \<and> (\<forall>r \<in> set rs'. adoptable S r \<longrightarrow> builtin_id r \<in> set H')
    \<and> map (\<lambda>r. r\<lparr>ar_id := ''''\<rparr>) rs' = map (\<lambda>r. r\<lparr>ar_id := ''''\<rparr>) rs"
  using assms(2)
proof (induction rs arbitrary: H rs' H' ch)
  case (Cons r rs)
  show ?case
  proof (cases "adoptable S r \<and> builtin_id r \<notin> set H")
    case True
    then obtain ss G c where a: "adopt_ids S (builtin_id r # H) rs = (ss, G, c)"
      and e: "rs' = r\<lparr>ar_id := builtin_id r\<rparr> # ss" "H' = G"
      using Cons.prems by (auto simp: adoptable_def split: prod.splits)
    from True have "builtin_id r \<noteq> ''''" using assms(1) by (auto simp: adoptable_def)
    then show ?thesis using Cons.IH [OF a] True unfolding e by (auto simp: adoptable_def)
  next
    case False
    then obtain ss c where a: "adopt_ids S H rs = (ss, H', c)" and e: "rs' = r # ss"
      using Cons.prems by (auto simp: adoptable_def split: prod.splits if_splits)
    show ?thesis using Cons.IH [OF a] False unfolding e by (auto simp: adoptable_def)
  qed
qed simp

lemma adopt_ids_settled:
  "\<forall>r \<in> set rs. adoptable S r \<longrightarrow> builtin_id r \<in> set H \<Longrightarrow> adopt_ids S H rs = (rs, H, False)"
  by (induction rs) (auto simp: adoptable_def)

subsection \<open>Inserting shipped rules\<close>

lemma set_insert_at [simp]: "set (insert_at k x xs) = insert x (set xs)"
  by (auto simp: insert_at_def dest: in_set_takeD in_set_dropD) (metis Un_iff append_take_drop_id set_append)

lemma subseq_set: "subseq xs ys \<Longrightarrow> set xs \<subseteq> set ys"
  by (induction rule: list_emb.induct) auto

lemma subseq_insert_at: "subseq xs (insert_at k x xs)"
proof -
  have "subseq (take k xs @ drop k xs) (take k xs @ x # drop k xs)"
    by (rule list_emb_append_mono) auto
  then show ?thesis by (simp add: insert_at_def)
qed

lemma insert_shipped_spec:
  assumes "insert_shipped seen pre ds H apps = (apps', ch)"
  shows "subseq apps apps' \<and> set apps' \<subseteq> set apps \<union> {d \<in> set ds. ar_id d \<notin> set seen}
    \<and> (\<forall>d \<in> set ds. ar_id d \<in> set seen \<or> ar_id d \<in> set H \<or> ar_id d \<in> ar_id ` set apps')"
  using assms
proof (induction ds arbitrary: pre H apps ch)
  case (Cons d ds)
  show ?case
  proof (cases "ar_id d \<in> set H \<or> ar_id d \<in> set seen")
    case True
    then show ?thesis using Cons.IH [of "d # pre" H apps ch] Cons.prems by auto
  next
    case False
    let ?a = "insert_at (insert_position apps pre) d apps"
    obtain c where i: "insert_shipped seen (d # pre) ds (ar_id d # H) ?a = (apps', c)"
      using Cons.prems False by (auto split: prod.splits)
    note IH = Cons.IH [OF i]
    have "subseq apps apps'" using subseq_insert_at IH by (rule subseq_order.order_trans [OF _ conjunct1])
    moreover have "d \<in> set apps'" using subseq_set [OF conjunct1 [OF IH]] by auto
    moreover have "set apps' \<subseteq> set apps \<union> {e \<in> set (d # ds). ar_id e \<notin> set seen}" using IH False by auto
    moreover have "\<forall>e \<in> set ds. ar_id e \<in> set seen \<or> ar_id e \<in> set H \<or> ar_id e \<in> ar_id ` set apps'"
      using IH \<open>d \<in> set apps'\<close> by auto
    ultimately show ?thesis by simp
  qed
qed (auto intro: subseq_order.order_refl)

lemma insert_shipped_settled:
  "\<forall>d \<in> set ds. ar_id d \<in> set seen \<Longrightarrow> insert_shipped seen pre ds H apps = (apps, False)"
  by (induction ds arbitrary: pre) auto

lemma merge_rules_parts:
  assumes "merge_rules S apps seen = (apps', seen', ch)"
  obtains apps1 H1 c1 c2 where "adopt_ids (map ar_id S) (rule_ids apps) apps = (apps1, H1, c1)"
    "insert_shipped seen [] S H1 apps1 = (apps', c2)" "seen' = seen @ filter (\<lambda>i. i \<notin> set seen) (map ar_id S)"
  using assms by (auto simp: merge_rules_def rule_ids_def Let_def split: prod.splits)

lemma shipped_ids_nonempty: "'''' \<notin> set (map ar_id default_applications)"
  by code_simp

lemma merge_rules_settles:
  assumes "'''' \<notin> set (map ar_id S)" and m: "merge_rules S apps seen = (apps', seen', ch)"
  shows "merge_rules S apps' seen' = (apps', seen', False)"
proof -
  from m obtain apps1 H1 c1 c2 where a: "adopt_ids (map ar_id S) (rule_ids apps) apps = (apps1, H1, c1)"
    and i: "insert_shipped seen [] S H1 apps1 = (apps', c2)"
    and s: "seen' = seen @ filter (\<lambda>i. i \<notin> set seen) (map ar_id S)" by (rule merge_rules_parts)
  note A = adopt_ids_spec [OF assms(1) a] and I = insert_shipped_spec [OF i]
  have seen: "\<forall>d \<in> set S. ar_id d \<in> set seen'" using s by auto
  have "set apps1 \<subseteq> set apps'" using I by (intro subseq_set) blast
  then have "set (rule_ids apps1) \<subseteq> set (rule_ids apps')" by (auto simp: rule_ids_def)
  moreover have "set H1 \<subseteq> set (rule_ids apps1)" using A by blast
  ultimately have H: "set H1 \<subseteq> set (rule_ids apps')" by blast
  have "builtin_id r \<in> set (rule_ids apps')" if r: "r \<in> set apps'" "adoptable (map ar_id S) r" for r
  proof -
    have "r \<notin> set S" using r(2) assms(1) by (metis adoptable_def image_eqI set_map)
    then have "r \<in> set apps1" using r(1) I by blast
    then show ?thesis using A H r(2) by blast
  qed
  then have "adopt_ids (map ar_id S) (rule_ids apps') apps' = (apps', rule_ids apps', False)"
    by (intro adopt_ids_settled) blast
  moreover have "insert_shipped seen' [] S (rule_ids apps') apps' = (apps', False)"
    by (rule insert_shipped_settled [OF seen])
  moreover have "filter (\<lambda>i. i \<notin> set seen') (map ar_id S) = []" using seen by (auto simp: filter_empty_conv)
  ultimately show ?thesis by (simp add: merge_rules_def rule_ids_def [symmetric])
qed

lemma merge_builtin_settles: "merge_builtin_rules (fst (merge_builtin_rules c)) = (fst (merge_builtin_rules c), False)"
proof -
  obtain apps seen ch where m: "merge_rules default_applications (cf_applications c) (cf_builtin_rules_seen c) = (apps, seen, ch)"
    by (cases "merge_rules default_applications (cf_applications c) (cf_builtin_rules_seen c)")
  then show ?thesis
    using merge_rules_settles [OF shipped_ids_nonempty m] by (simp add: merge_builtin_rules_def)
qed

text \<open>Loading a file brings the shipped rules up to date without undoing its edits: the merge
  settles after one round; the rules of the file are kept in their order, with at most an id added;
  a shipped rule that was offered before and is no longer in the file stays deleted; and every
  shipped rule that was never offered is present.\<close>

theorem merge_builtin_correct:
  assumes "merge_builtin_rules c = (c', changed)"
  shows "merge_builtin_rules c' = (c', False)
    \<and> subseq (map (\<lambda>r. r\<lparr>ar_id := ''''\<rparr>) (cf_applications c)) (map (\<lambda>r. r\<lparr>ar_id := ''''\<rparr>) (cf_applications c'))
    \<and> (\<forall>d \<in> set default_applications. ar_id d \<in> set (cf_builtin_rules_seen c) \<longrightarrow> ar_id d \<notin> set (rule_ids (cf_applications c))
         \<longrightarrow> (\<forall>r \<in> set (cf_applications c). ar_id r = '''' \<longrightarrow> builtin_id r \<noteq> ar_id d)
         \<longrightarrow> ar_id d \<notin> set (rule_ids (cf_applications c')))
    \<and> (\<forall>d \<in> set default_applications. ar_id d \<notin> set (cf_builtin_rules_seen c) \<longrightarrow> ar_id d \<in> set (rule_ids (cf_applications c')))"
proof -
  let ?S = default_applications
  obtain seen' ch where m: "merge_rules ?S (cf_applications c) (cf_builtin_rules_seen c) = (cf_applications c', seen', ch)"
    using assms by (auto simp: merge_builtin_rules_def split: prod.splits)
  from m obtain apps1 H1 c1 c2 where a: "adopt_ids (map ar_id ?S) (rule_ids (cf_applications c)) (cf_applications c) = (apps1, H1, c1)"
    and i: "insert_shipped (cf_builtin_rules_seen c) [] ?S H1 apps1 = (cf_applications c', c2)" by (rule merge_rules_parts)
  note A = adopt_ids_spec [OF shipped_ids_nonempty a] and I = insert_shipped_spec [OF i]
  have "set apps1 \<subseteq> set (cf_applications c')" using I by (intro subseq_set) blast
  then have ids: "set (rule_ids apps1) \<subseteq> set (rule_ids (cf_applications c'))"
    "set (rule_ids (cf_applications c')) \<subseteq> set (rule_ids apps1) \<union> {ar_id d | d. d \<in> set ?S \<and> ar_id d \<notin> set (cf_builtin_rules_seen c)}"
    using I by (auto simp: rule_ids_def)
  have H: "set H1 \<subseteq> set (rule_ids apps1)" using A by blast
  have "subseq (map (\<lambda>r. r\<lparr>ar_id := ''''\<rparr>) apps1) (map (\<lambda>r. r\<lparr>ar_id := ''''\<rparr>) (cf_applications c'))"
    using I by (intro subseq_map) blast
  then have keep: "subseq (map (\<lambda>r. r\<lparr>ar_id := ''''\<rparr>) (cf_applications c)) (map (\<lambda>r. r\<lparr>ar_id := ''''\<rparr>) (cf_applications c'))"
    using A by simp
  have offered: "ar_id d \<in> set (rule_ids (cf_applications c'))" if d: "d \<in> set ?S" "ar_id d \<notin> set (cf_builtin_rules_seen c)" for d
  proof -
    have "ar_id d \<noteq> ''''" using d(1) shipped_ids_nonempty by (auto simp: image_iff)
    moreover have "ar_id d \<in> set H1 \<or> ar_id d \<in> ar_id ` set (cf_applications c')" using I d by blast
    ultimately show ?thesis using H ids(1) by (auto simp: rule_ids_def)
  qed
  have deleted: "ar_id d \<notin> set (rule_ids (cf_applications c'))"
    if "ar_id d \<in> set (cf_builtin_rules_seen c)" "ar_id d \<notin> set (rule_ids (cf_applications c))"
      "\<forall>r \<in> set (cf_applications c). ar_id r = '''' \<longrightarrow> builtin_id r \<noteq> ar_id d" for d
  proof
    assume "ar_id d \<in> set (rule_ids (cf_applications c'))"
    then have "ar_id d \<in> set (rule_ids apps1)" using ids(2) that(1) by auto
    then show False using A that(2,3) by (auto simp: adoptable_def)
  qed
  have "merge_builtin_rules c' = (c', False)" using merge_builtin_settles [of c] assms by simp
  then show ?thesis using keep offered deleted by blast
qed

theorem merge_builtin_correct_witness:
  "merge_builtin_rules (fst (merge_builtin_rules bare_config)) = (fst (merge_builtin_rules bare_config), False)"
  by (rule conjunct1 [OF merge_builtin_correct]) (rule surjective_pairing)

end
