(* ===== verification/Config_Json.thy ===== *)
theory Config_Json
  imports Defaults
begin

text \<open>
  The JSON document of a configuration, as \<open>encoding/json\<close> renders the structs of \<open>config.go\<close> with
  their tags and decodes it again into untyped values (\<open>fields\<close> of \<open>impact.go\<close>). An object is kept
  with its keys in order, so equality of documents is \<open>reflect.DeepEqual\<close>. Numbers are decoded to
  binary64. A duration is rendered by \<open>String()\<close>, which is injective, and kept as the duration; an
  empty list and a nil one, which the records do not tell apart, are both an empty array.
\<close>

definition j_int :: "int \<Rightarrow> json" where
  "j_int k = JNum (fl64 (of_int k))"

definition j_strs :: "string list \<Rightarrow> json" where
  "j_strs xs = JArr (map JStr xs)"

text \<open>A field with \<open>omitempty\<close>.\<close>

definition omit_empty :: "string \<Rightarrow> string \<Rightarrow> (string \<times> json) list" where
  "omit_empty k s = (if s = '''' then [] else [(k, JStr s)])"

definition runtime_json :: "runtime_cfg \<Rightarrow> (string \<times> json) list" where
  "runtime_json r = [(''args'', j_strs (rt_args r)),
     (''context_size'', j_int (rt_context_size r)),
     (''diagnostics_tail_bytes'', j_int (rt_diagnostics_tail_bytes r)),
     (''executable'', JStr (rt_executable r)),
     (''gpu_layers'', j_int (rt_gpu_layers r)),
     (''graceful_stop_timeout'', JDur (rt_graceful_stop_timeout r)),
     (''host'', JStr (rt_host r)),
     (''kill_verify_timeout'', JDur (rt_kill_verify_timeout r)),
     (''load_timeout'', JDur (rt_load_timeout r)),
     (''max_request_duration'', JDur (rt_max_request_duration r)),
     (''model_path'', JStr (rt_model_path r)),
     (''port'', j_int (rt_port r)),
     (''required_free_vram_mib'', j_int (rt_required_free_vram_mib r)),
     (''run_as'', JStr (rt_run_as r)),
     (''stop_mode'', JStr (rt_stop_mode r)),
     (''vram_release_timeout'', JDur (rt_vram_release_timeout r)),
     (''vram_release_tolerance_mib'', j_int (rt_vram_release_tolerance_mib r))]"

definition tls_json :: "tls_cfg \<Rightarrow> (string \<times> json) list" where
  "tls_json t = [(''cert_file'', JStr (tls_cert_file t)), (''enabled'', JBool (tls_enabled t)),
     (''key_file'', JStr (tls_key_file t))]
     @ omit_empty ''pfx_password_file'' (tls_legacy_pfx_password_file t)
     @ [(''self_signed'', JBool (tls_self_signed t)), (''self_signed_hosts'', j_strs (tls_self_signed_hosts t)),
        (''store_subject'', JStr (tls_store_subject t)), (''store_thumbprint'', JStr (tls_store_thumbprint t))]"

definition listen_json :: "listen_cfg \<Rightarrow> (string \<times> json) list" where
  "listen_json l = [(''inference'', JStr (ls_inference l)), (''inference_tls'', JObj (tls_json (ls_inference_tls l))),
     (''management'', JStr (ls_management l))]"

definition telemetry_json :: "telemetry_cfg \<Rightarrow> (string \<times> json) list" where
  "telemetry_json t = [(''adapter'', JStr (tel_adapter t)),
     (''degraded_margin_pct'', j_int (tel_degraded_margin_pct t)),
     (''loss_grace'', JDur (tel_loss_grace t)), (''sample_interval'', JDur (tel_sample_interval t))]"

definition safety_json :: "safety_cfg \<Rightarrow> (string \<times> json) list" where
  "safety_json s = [(''gpu_temp_critical_c'', JNum (sf_gpu_temp_critical_c s)),
     (''gpu_temp_resume_c'', JNum (sf_gpu_temp_resume_c s))]"

definition contention_json :: "contention_cfg \<Rightarrow> (string \<times> json) list" where
  "contention_json k = [(''clear_window'', JDur (ct_clear_window k)),
     (''critical_window'', JDur (ct_critical_window k)),
     (''external_util_critical_pct'', JNum (ct_external_util_critical_pct k)),
     (''external_vram_critical_mib'', j_int (ct_external_vram_critical_mib k)),
     (''vram_free_critical_mib'', j_int (ct_vram_free_critical_mib k))]"

definition profile_json :: "profile \<Rightarrow> (string \<times> json) list" where
  "profile_json p = [(''cooldown'', JDur (pf_cooldown p))]
     @ omit_empty ''description'' (pf_description p)
     @ [(''drain_on_ambiguous'', JBool (pf_drain_on_ambiguous p)),
        (''drain_on_game_process'', JBool (pf_drain_on_game_process p)),
        (''drain_on_soft_contention'', JBool (pf_drain_on_soft_contention p)),
        (''external_util_soft_pct'', JNum (pf_external_util_soft_pct p)),
        (''external_vram_soft_mib'', j_int (pf_external_vram_soft_mib p)),
        (''game_confirm_util_pct'', JNum (pf_game_confirm_util_pct p)),
        (''game_confirm_vram_mib'', j_int (pf_game_confirm_vram_mib p)),
        (''grace'', JDur (pf_grace p)),
        (''grace_under_pressure'', JDur (pf_grace_under_pressure p)),
        (''soft_window'', JDur (pf_soft_window p))]"

definition schedule_json :: "schedule \<Rightarrow> (string \<times> json) list" where
  "schedule_json s = [(''days'', j_strs (sc_days s)), (''enabled'', JBool (sc_enabled s)),
     (''end'', JStr (sc_end s)), (''name'', JStr (sc_name s)), (''profile'', JStr (sc_profile s)),
     (''start'', JStr (sc_start s))]"

definition class_name :: "app_class \<Rightarrow> string" where
  "class_name k = (case k of ClassGame \<Rightarrow> ''game'' | ClassLauncher \<Rightarrow> ''launcher'' | ClassIgnore \<Rightarrow> ''ignore''
     | ClassOrdinary \<Rightarrow> ''ordinary'' | OtherClass s \<Rightarrow> s)"

definition app_rule_json :: "app_rule \<Rightarrow> (string \<times> json) list" where
  "app_rule_json r = [(''class'', JStr (class_name (ar_class r)))] @ omit_empty ''exe'' (ar_exe r)
     @ omit_empty ''glob'' (ar_glob r) @ omit_empty ''id'' (ar_id r) @ omit_empty ''name'' (ar_name r)
     @ omit_empty ''path'' (ar_path r) @ omit_empty ''path_prefix'' (ar_path_prefix r)"

definition anti_thrash_json :: "anti_thrash_cfg \<Rightarrow> (string \<times> json) list" where
  "anti_thrash_json a = [(''max_preemptions'', j_int (at_max_preemptions a)),
     (''suppress_for'', JDur (at_suppress_for a)), (''window'', JDur (at_window a))]"

definition recovery_json :: "recovery_cfg \<Rightarrow> (string \<times> json) list" where
  "recovery_json r = [(''crash_backoff_initial'', JDur (rc_crash_backoff_initial r)),
     (''crash_backoff_max'', JDur (rc_crash_backoff_max r)),
     (''crash_reset_after'', JDur (rc_crash_reset_after r)),
     (''device_lost_cooldown'', JDur (rc_device_lost_cooldown r)),
     (''resume_cooldown'', JDur (rc_resume_cooldown r)),
     (''startup_cooldown'', JDur (rc_startup_cooldown r)),
     (''telemetry_recovery_cooldown'', JDur (rc_telemetry_recovery_cooldown r))]"

definition modes_json :: "modes_cfg \<Rightarrow> (string \<times> json) list" where
  "modes_json m = [(''ai_priority_durations'', JArr (map JDur (md_ai_priority_durations m))),
     (''max_ai_priority'', JDur (md_max_ai_priority m)),
     (''pause_durations'', JArr (map JDur (md_pause_durations m)))]"

definition signals_json :: "signals_cfg \<Rightarrow> (string \<times> json) list" where
  "signals_json s = [(''process_interval'', JDur (sg_process_interval s)),
     (''session_stale_after'', JDur (sg_session_stale_after s))]"

definition security_json :: "security_cfg \<Rightarrow> (string \<times> json) list" where
  "security_json s = [(''agent_token_file'', JStr (se_agent_token_file s)),
     (''inference_token_file'', JStr (se_inference_token_file s)),
     (''loopback_trust'', JBool (se_loopback_trust s)),
     (''management_token_file'', JStr (se_management_token_file s)),
     (''require_inference_token'', JBool (se_require_inference_token s))]"

definition retention_json :: "retention_cfg \<Rightarrow> (string \<times> json) list" where
  "retention_json r = [(''events_days'', j_int (re_events_days r)), (''events_max'', j_int (re_events_max r)),
     (''log_files'', j_int (re_log_files r)), (''log_max_mb'', j_int (re_log_max_mb r))]"

definition logging_json :: "logging_cfg \<Rightarrow> (string \<times> json) list" where
  "logging_json l = [(''dir'', JStr (lg_dir l)), (''level'', JStr (lg_level l))]"

definition metrics_json :: "bool \<Rightarrow> (string \<times> json) list" where
  "metrics_json b = [(''enabled'', JBool b)]"

text \<open>Adding a key to a sorted object.\<close>

fun put_key :: "string \<Rightarrow> json \<Rightarrow> (string \<times> json) list \<Rightarrow> (string \<times> json) list" where
  "put_key k v [] = [(k, v)]"
| "put_key k v ((k', v') # kvs) =
     (if k = k' then (k', v') # kvs
      else if lexordp (\<lambda>a b. (of_char a :: int) < of_char b) k k' then (k, v) # (k', v') # kvs
      else (k', v') # put_key k v kvs)"

definition profiles_json :: "(string \<times> profile) list \<Rightarrow> (string \<times> json) list" where
  "profiles_json ps = fold (\<lambda>(n, p). put_key n (JObj (profile_json p))) ps []"

definition sections :: "config \<Rightarrow> (string \<times> json) list" where
  "sections c = [
     (''ai_priority_profile'', JStr (cf_ai_priority_profile c)),
     (''anti_thrash'', JObj (anti_thrash_json (cf_anti_thrash c))),
     (''applications'', JArr (map (\<lambda>r. JObj (app_rule_json r)) (cf_applications c))),
     (''builtin_rules_seen'', j_strs (cf_builtin_rules_seen c)),
     (''contention'', JObj (contention_json (cf_contention c))),
     (''default_profile'', JStr (cf_default_profile c)),
     (''listen'', JObj (listen_json (cf_listen c))),
     (''logging'', JObj (logging_json (cf_logging c))),
     (''metrics'', JObj (metrics_json (cf_metrics_enabled c))),
     (''modes'', JObj (modes_json (cf_modes c))),
     (''profiles'', JObj (profiles_json (cf_profiles c))),
     (''recovery'', JObj (recovery_json (cf_recovery c))),
     (''retention'', JObj (retention_json (cf_retention c))),
     (''runtime'', JObj (runtime_json (cf_runtime c))),
     (''safety'', JObj (safety_json (cf_safety c))),
     (''schedules'', JArr (map (\<lambda>s. JObj (schedule_json s)) (cf_schedules c))),
     (''schema_version'', j_int (cf_schema_version c)),
     (''security'', JObj (security_json (cf_security c))),
     (''signals'', JObj (signals_json (cf_signals c))),
     (''telemetry'', JObj (telemetry_json (cf_telemetry c))),
     (''timezone'', JStr (cf_timezone c))]"

text \<open>Reading a key that is absent gives nil.\<close>

definition key :: "(string \<times> json) list \<Rightarrow> string \<Rightarrow> json" where
  "key kvs k = (case map_of kvs k of Some v \<Rightarrow> v | None \<Rightarrow> JNull)"

end
