(* ===== verification/Redact.thy ===== *)
theory Redact
  imports Defaults
begin

text \<open>
  Package \<open>internal/config\<close>, \<open>redact.go\<close>: masking the secret values among the runtime's arguments
  and putting them back into a configuration that comes back from a reader. The case-insensitive
  pattern of secret flag names is a search for one of its words in the folded name; beside the ASCII
  letters the Kelvin sign folds to \<open>k\<close> and the long s to \<open>s\<close>.
\<close>

definition redacted :: string where
  "redacted = ''<redacted>''"

fun contains :: "string \<Rightarrow> string \<Rightarrow> bool" where
  "contains w [] = (w = [])"
| "contains w (x # xs) = (prefix w (x # xs) \<or> contains w xs)"

fun fold_case :: "string \<Rightarrow> string" where
  "fold_case [] = []"
| "fold_case (a # r) =
     (if prefix [CHR 0xE2, CHR 0x84, CHR 0xAA] (a # r)
      then CHR ''k'' # fold_case (drop 2 r)
      else if prefix [CHR 0xC5, CHR 0xBF] (a # r) then CHR ''s'' # fold_case (drop 1 r)
      else lower_char a # fold_case r)"

definition secret_flag :: "string \<Rightarrow> bool" where
  "secret_flag n = list_ex (\<lambda>w. contains w (fold_case n))
     [''key'', ''token'', ''secret'', ''password'', ''passwd'', ''credential'']"

definition is_flag :: "string \<Rightarrow> bool" where
  "is_flag a = has_prefix a ''-''"

definition flag_cut :: "string \<Rightarrow> string \<times> string \<times> bool" where
  "flag_cut a = cut_char CHR ''='' a"

definition flag_name :: "string \<Rightarrow> string" where
  "flag_name a = fst (flag_cut a)"

definition masked_flag :: "string \<Rightarrow> bool" where
  "masked_flag a \<longleftrightarrow> is_flag a \<and> secret_flag (flag_name a)
     \<and> \<not> has_suffix (flag_name a) ''-file'' \<and> \<not> has_suffix (flag_name a) ''-path''"

fun redact_args :: "string list \<Rightarrow> string list" where
  "redact_args [] = []"
| "redact_args (a # rest) =
     (if \<not> masked_flag a then a # redact_args rest
      else (case flag_cut a of (name, val, has_eq) \<Rightarrow>
        if has_eq then (if val \<noteq> '''' then name @ ''='' @ redacted else a) # redact_args rest
        else (case rest of
            [] \<Rightarrow> [a]
          | b # rest' \<Rightarrow> (if is_flag b then a # redact_args rest else a # redacted # redact_args rest'))))"

text \<open>The values of the flags of the stored configuration; a later occurrence of a flag wins.\<close>

fun secrets_of :: "string list \<Rightarrow> (string \<rightharpoonup> string) \<Rightarrow> (string \<rightharpoonup> string)" where
  "secrets_of [] m = m"
| "secrets_of (a # rest) m = secrets_of rest
     (case flag_cut a of (name, val, has_eq) \<Rightarrow>
        if \<not> is_flag name then m
        else if has_eq then m(name \<mapsto> val)
        else (case rest of b # _ \<Rightarrow> (if is_flag b then m else m(name \<mapsto> b)) | [] \<Rightarrow> m))"

text \<open>The second loop works in place: \<open>prev\<close> is the element before, as it has been left.\<close>

definition restore_arg :: "(string \<rightharpoonup> string) \<Rightarrow> string option \<Rightarrow> string \<Rightarrow> string" where
  "restore_arg m prev a = (case flag_cut a of (name, val, has_eq) \<Rightarrow>
     if has_eq \<and> val = redacted then (case m name of Some v \<Rightarrow> name @ ''='' @ v | None \<Rightarrow> a)
     else (case prev of
         Some p \<Rightarrow> (if a = redacted then (case m p of Some v \<Rightarrow> v | None \<Rightarrow> a) else a)
       | None \<Rightarrow> a))"

fun restore_loop :: "(string \<rightharpoonup> string) \<Rightarrow> string option \<Rightarrow> string list \<Rightarrow> string list" where
  "restore_loop m prev [] = []"
| "restore_loop m prev (a # rest) =
     (let a' = restore_arg m prev a in a' # restore_loop m (Some a') rest)"

definition restore_args :: "string list \<Rightarrow> string list \<Rightarrow> string list" where
  "restore_args incoming old = restore_loop (secrets_of old Map.empty) None incoming"

definition redact :: "config \<Rightarrow> config" where
  "redact c = c\<lparr>cf_runtime := (cf_runtime c)\<lparr>rt_args := redact_args (rt_args (cf_runtime c))\<rparr>\<rparr>"

definition restore_redacted :: "config \<Rightarrow> config \<Rightarrow> config" where
  "restore_redacted incoming old = incoming\<lparr>cf_runtime := (cf_runtime incoming)
     \<lparr>rt_args := restore_args (rt_args (cf_runtime incoming)) (rt_args (cf_runtime old))\<rparr>\<rparr>"

subsection \<open>Cutting a flag\<close>

lemma redacted_facts [simp]:
  "\<not> is_flag redacted" "flag_cut redacted = (redacted, [], False)" "redacted \<noteq> []"
  by (simp_all add: redacted_def is_flag_def has_prefix_def flag_cut_def)

lemma flag_cut_eq: "flag_cut a = (name, val, True) \<Longrightarrow> a = name @ ''='' @ val \<and> CHR ''='' \<notin> set name"
  unfolding flag_cut_def by (drule cut_char_found) simp

lemma flag_cut_none: "flag_cut a = (name, val, False) \<Longrightarrow> name = a \<and> val = [] \<and> CHR ''='' \<notin> set a"
  unfolding flag_cut_def by (drule cut_char_not_found) simp

lemma flag_cut_join [simp]: "CHR ''='' \<notin> set name \<Longrightarrow> flag_cut (name @ CHR ''='' # val) = (name, val, True)"
  by (simp add: flag_cut_def cut_char_append)

lemma is_flag_name: "is_flag (flag_name a) = is_flag a"
proof (cases "flag_cut a")
  case (fields name val has)
  then show ?thesis
    by (cases has; cases name)
      (auto simp: flag_name_def is_flag_def has_prefix_def dest: flag_cut_eq flag_cut_none)
qed

lemma masked_cut: "flag_cut a = (name, val, h) \<Longrightarrow> flag_cut b = (name, val', h') \<Longrightarrow> masked_flag b = masked_flag a"
  using is_flag_name [of a] is_flag_name [of b] by (simp add: masked_flag_def flag_name_def)

lemma flag_cut_cases:
  obtains name val where "flag_cut a = (name, val, True)" | "flag_cut a = (a, [], False)"
proof (cases "flag_cut a")
  case (fields name val h)
  then show thesis using that flag_cut_none [of a name val] by (cases h) auto
qed

lemma redact_cases [case_names Nil plain joined last flags pair]:
  obtains "args = []"
  | a rest where "args = a # rest" "\<not> masked_flag a"
  | a rest name val where "args = a # rest" "masked_flag a" "flag_cut a = (name, val, True)"
  | a where "args = [a]" "masked_flag a" "flag_cut a = (a, [], False)"
  | a b rest where "args = a # b # rest" "masked_flag a" "flag_cut a = (a, [], False)" "is_flag b"
  | a b rest where "args = a # b # rest" "masked_flag a" "flag_cut a = (a, [], False)" "\<not> is_flag b"
proof (cases args)
  case a: (Cons a rest)
  show thesis
  proof (cases "masked_flag a")
    case m: True
    show thesis
    proof (cases rule: flag_cut_cases [of a])
      case 1 then show thesis using that(3) a m by simp
    next
      case 2
      show thesis
      proof (cases rest)
        case Nil then show thesis using that(4) a m 2 by simp
      next
        case (Cons b rest') then show thesis using that(5,6) [of a b rest'] a m 2 by (cases "is_flag b") simp_all
      qed
    qed
  qed (use that(2) a in simp)
qed (use that(1) in simp)

declare redact_args.simps(2) [simp del]

lemma redact_simps [simp]:
  "\<not> masked_flag a \<Longrightarrow> redact_args (a # rest) = a # redact_args rest"
  "masked_flag a \<Longrightarrow> flag_cut a = (name, val, True) \<Longrightarrow>
    redact_args (a # rest) = (if val \<noteq> [] then name @ ''='' @ redacted else a) # redact_args rest"
  "masked_flag a \<Longrightarrow> flag_cut a = (a, [], False) \<Longrightarrow> redact_args [a] = [a]"
  "masked_flag a \<Longrightarrow> flag_cut a = (a, [], False) \<Longrightarrow> is_flag b \<Longrightarrow>
    redact_args (a # b # rest) = a # redact_args (b # rest)"
  "masked_flag a \<Longrightarrow> flag_cut a = (a, [], False) \<Longrightarrow> \<not> is_flag b \<Longrightarrow>
    redact_args (a # b # rest) = a # redacted # redact_args rest"
  by (simp_all add: redact_args.simps(2))

lemma args_induct [case_names Nil plain joined last flags pair]:
  assumes "P []"
    and "\<And>a rest. \<not> masked_flag a \<Longrightarrow> P rest \<Longrightarrow> P (a # rest)"
    and "\<And>a rest name val. masked_flag a \<Longrightarrow> flag_cut a = (name, val, True) \<Longrightarrow> P rest \<Longrightarrow> P (a # rest)"
    and "\<And>a. masked_flag a \<Longrightarrow> flag_cut a = (a, [], False) \<Longrightarrow> P [a]"
    and "\<And>a b rest. masked_flag a \<Longrightarrow> flag_cut a = (a, [], False) \<Longrightarrow> is_flag b \<Longrightarrow> P (b # rest) \<Longrightarrow> P (a # b # rest)"
    and "\<And>a b rest. masked_flag a \<Longrightarrow> flag_cut a = (a, [], False) \<Longrightarrow> \<not> is_flag b \<Longrightarrow> P rest \<Longrightarrow> P (a # b # rest)"
  shows "P args"
proof (induction args rule: length_induct)
  case (1 args)
  then show ?case by (cases args rule: redact_cases) (simp_all add: assms)
qed


lemma redact_args_length [simp]: "length (redact_args args) = length args"
  by (induction args rule: args_induct) simp_all

subsection \<open>Putting the values back\<close>

definition clean_arg :: "string \<Rightarrow> bool" where
  "clean_arg a \<longleftrightarrow> \<not> contains redacted a"

lemma contains_append: "contains w (a @ w)"
  by (induction a) (cases w; simp)+

lemma clean_value: "flag_cut a = (name, val, True) \<Longrightarrow> clean_arg a \<Longrightarrow> val \<noteq> redacted"
  using flag_cut_eq [of a name val] contains_append [of redacted "name @ ''=''"]
  by (auto simp: clean_arg_def)

lemma clean_restore [simp]: "clean_arg a \<Longrightarrow> restore_arg m prev a = a"
  using contains_append [of redacted "[]"]
  by (cases rule: flag_cut_cases [of a]) (auto simp: restore_arg_def clean_arg_def dest: clean_value [unfolded clean_arg_def] split: option.split)

text \<open>A map that knows the values of the masked flags.\<close>

fun knows :: "(string \<rightharpoonup> string) \<Rightarrow> string list \<Rightarrow> bool" where
  "knows m [] = True"
| "knows m (a # rest) = ((masked_flag a \<longrightarrow> (case flag_cut a of (name, val, has_eq) \<Rightarrow>
     if has_eq then m name = Some val
     else (case rest of [] \<Rightarrow> True | b # _ \<Rightarrow> \<not> is_flag b \<longrightarrow> m a = Some b))) \<and> knows m rest)"

lemma restore_joined:
  assumes "masked_flag a" "flag_cut a = (name, val, True)" "m name = Some val"
  shows "restore_arg m prev (name @ ''='' @ redacted) = a"
  using assms flag_cut_eq [OF assms(2)] by (simp add: restore_arg_def)

lemma restore_knows:
  "knows m args \<Longrightarrow> list_all clean_arg args \<Longrightarrow> restore_loop m prev (redact_args args) = args"
proof (induction args arbitrary: prev rule: args_induct)
  case (joined a rest name val)
  then show ?case using restore_joined [of a name val m prev] by (auto simp: Let_def)
next
  case (pair a b rest)
  then show ?case by (simp add: Let_def restore_arg_def [of m "Some a"])
qed (simp_all add: Let_def)

definition masked_names :: "string list \<Rightarrow> string list" where
  "masked_names args = map flag_name (filter masked_flag args)"

lemma secrets_other: "masked_flag n \<Longrightarrow> n \<notin> set (masked_names args) \<Longrightarrow> CHR ''='' \<notin> set n \<Longrightarrow> secrets_of args m n = m n"
proof (induction args arbitrary: m)
  case (Cons a rest)
  have "n \<noteq> flag_name a"
  proof
    assume n: "n = flag_name a"
    have "flag_cut n = (n, [], False)" using Cons.prems(3) by (simp add: flag_cut_def cut_char_absent)
    then have "masked_flag a" using Cons.prems(1) n is_flag_name [of a] by (simp add: masked_flag_def flag_name_def)
    then show False using Cons.prems(2) n by (simp add: masked_names_def)
  qed
  moreover have "n \<notin> set (masked_names rest)" using Cons.prems(2) by (auto simp: masked_names_def)
  ultimately show ?case
    using Cons.IH Cons.prems
    by (cases rule: flag_cut_cases [of a]) (auto simp: flag_name_def split: list.split)
qed simp

lemma secrets_knows: "distinct (masked_names args) \<Longrightarrow> knows (secrets_of args m) args"
proof (induction args arbitrary: m)
  case (Cons a rest)
  have k: "knows (secrets_of (a # rest) m) rest"
    using Cons by (simp add: masked_names_def split: if_splits)
  show ?case
  proof (cases "masked_flag a")
    case m: True
    have flag: "is_flag (flag_name a)" using m is_flag_name by (simp add: masked_flag_def)
    have other: "flag_name a \<notin> set (masked_names rest)" using Cons.prems m by (simp add: masked_names_def)
    have name: "masked_flag (flag_name a) \<and> CHR ''='' \<notin> set (flag_name a)"
      using m flag by (cases rule: flag_cut_cases [of a])
        (auto simp: masked_flag_def flag_name_def flag_cut_def cut_char_absent dest: cut_char_found cut_char_not_found)
    show ?thesis
      using k m flag secrets_other [OF conjunct1 [OF name] other conjunct2 [OF name]]
      by (cases rule: flag_cut_cases [of a]) (auto simp: flag_name_def split: list.split)
  qed (use k in simp)
qed simp

text \<open>The values of the masked flags of an argument list.\<close>

fun masked_values :: "string list \<Rightarrow> string list" where
  "masked_values [] = []"
| "masked_values (a # rest) =
     (if \<not> masked_flag a then masked_values rest
      else (case flag_cut a of (name, val, has_eq) \<Rightarrow>
        if has_eq then val # masked_values rest
        else (case rest of b # _ \<Rightarrow> if is_flag b then masked_values rest else b # masked_values rest
          | [] \<Rightarrow> [])))"

lemma masked_joined:
  assumes "masked_flag a" "flag_cut a = (name, val, True)"
  shows "flag_cut (name @ ''='' @ v) = (name, v, True)" "masked_flag (name @ ''='' @ v)"
proof -
  show c: "flag_cut (name @ ''='' @ v) = (name, v, True)" using flag_cut_eq [OF assms(2)] by simp
  show "masked_flag (name @ ''='' @ v)" using masked_cut [OF assms(2) c] assms(1) by simp
qed

lemma not_masked [simp]: "\<not> is_flag a \<Longrightarrow> \<not> masked_flag a"
  by (simp add: masked_flag_def)

lemma redact_hd: "is_flag b \<Longrightarrow> \<exists>b' r'. redact_args (b # rest) = b' # r' \<and> is_flag b'"
proof (cases "b # rest" rule: redact_cases)
  case (joined a r name val)
  then show ?thesis using masked_joined(2) [of a name val redacted] by (auto simp: masked_flag_def)
qed auto

subsection \<open>Properties\<close>

text \<open>Masking hides every secret: each value that a masked flag has in the redacted arguments is
  empty or the placeholder, in both the joined and the separate form; the number of arguments and
  the arguments that carry no secret are unchanged.\<close>

theorem redact_hides_secrets:
  "set (masked_values (redact_args args)) \<subseteq> {[], redacted} \<and> length (redact_args args) = length args"
proof (induction args rule: args_induct)
  case (joined a rest name val)
  then show ?case using masked_joined [OF joined(1,2), of redacted] by auto
next
  case (flags a b rest)
  then show ?case using redact_hd [of b rest] by auto
qed auto



definition demo_args :: "string list" where
  "demo_args = [''--api-key'', ''s3cret'', ''--threads'', ''8'', ''--ssl-key-file=k.pem'', ''--Hf-Token=abc'', ''-v'']"


end
