(* ===== verification/Impact.thy ===== *)
theory Impact
  imports Config_Json Redact
begin

text \<open>
  Package \<open>internal/config\<close>, \<open>impact.go\<close> and \<open>history_diff.go\<close>: what a change of the configuration
  requires, and the list of its changes as the history keeps it, with masked values.
\<close>

record impact =
  im_changed :: "string list"
  im_runtime_reload :: bool
  im_service_restart :: bool
  im_reload_sections :: "string list"
  im_restart_sections :: "string list"

definition no_impact :: impact where
  "no_impact = \<lparr>im_changed = [], im_runtime_reload = False, im_service_restart = False,
     im_reload_sections = [], im_restart_sections = []\<rparr>"

definition live_runtime_fields :: "string list" where
  "live_runtime_fields = [''load_timeout'', ''required_free_vram_mib'', ''kill_verify_timeout'',
     ''vram_release_timeout'', ''vram_release_tolerance_mib'', ''max_request_duration'',
     ''diagnostics_tail_bytes'', ''stop_mode'', ''graceful_stop_timeout'']"

definition runtime_needs_reload :: "runtime_cfg \<Rightarrow> runtime_cfg \<Rightarrow> bool" where
  "runtime_needs_reload a b = list_ex (\<lambda>(k, v). k \<notin> set live_runtime_fields \<and> key (runtime_json a) k \<noteq> v) (runtime_json b)"

definition needs_restart :: "string \<Rightarrow> impact \<Rightarrow> impact" where
  "needs_restart k im = im\<lparr>im_service_restart := True, im_restart_sections := im_restart_sections im @ [k]\<rparr>"

definition classify_section :: "config \<Rightarrow> config \<Rightarrow> string \<times> json \<Rightarrow> impact \<Rightarrow> impact" where
  "classify_section old new = (\<lambda>(k, v) im0.
     if key (sections old) k = v then im0
     else
       (let im = im0\<lparr>im_changed := im_changed im0 @ [k]\<rparr> in
        if k = ''runtime'' then
          (if runtime_needs_reload (cf_runtime old) (cf_runtime new)
           then im\<lparr>im_runtime_reload := True, im_reload_sections := im_reload_sections im @ [k]\<rparr> else im)
        else if k = ''listen'' \<or> k = ''security'' \<or> k = ''logging'' then needs_restart k im
        else if k = ''telemetry'' then
          (if tel_adapter (cf_telemetry old) \<noteq> tel_adapter (cf_telemetry new) then needs_restart k im else im)
        else im))"

text \<open>The sections of the new document are visited in the order of their names.\<close>

definition classify :: "config \<Rightarrow> config \<Rightarrow> impact" where
  "classify old new = fold (classify_section old new) (sections new) no_impact"

subsection \<open>The changes of a configuration\<close>

fun merge_keys :: "string list \<Rightarrow> string list \<Rightarrow> string list" where
  "merge_keys [] ys = ys"
| "merge_keys xs [] = xs"
| "merge_keys (x # xs) (y # ys) =
     (if x = y then x # merge_keys xs ys
      else if lexordp (\<lambda>a b. (of_char a :: int) < of_char b) x y then x # merge_keys xs (y # ys)
      else y # merge_keys (x # xs) ys)"

definition obj :: "json \<Rightarrow> (string \<times> json) list" where
  "obj j = (case j of JObj kvs \<Rightarrow> kvs | _ \<Rightarrow> [])"

definition is_obj :: "json \<Rightarrow> bool" where
  "is_obj j = (case j of JObj kvs \<Rightarrow> True | _ \<Rightarrow> False)"

lemma size_key: "size (key kvs k) < size (JObj kvs)"
proof (cases "map_of kvs k")
  case (Some v)
  then have "(k, v) \<in> set kvs" by (rule map_of_SomeD)
  then have "size_prod (\<lambda>_. 0) size (k, v) \<le> size_list (size_prod (\<lambda>_. 0) size) kvs"
    by (rule size_list_estimation') simp
  then show ?thesis by (simp add: key_def Some)
qed (simp add: key_def)

function diff_walk :: "string \<Rightarrow> json \<Rightarrow> json \<Rightarrow> json \<Rightarrow> json \<Rightarrow> history_change list" where
  "diff_walk path old new safe_old safe_new =
     (if old = new then []
      else if is_obj old \<and> is_obj new then
        concat (map (\<lambda>k. diff_walk (if path = '''' then k else path @ ''.'' @ k)
                     (key (obj old) k) (key (obj new) k) (key (obj safe_old) k) (key (obj safe_new) k))
                  (merge_keys (map fst (obj old)) (map fst (obj new))))
      else
        (let hide = (path = ''runtime.args'') in
         [\<lparr>hc_path = path, hc_before = (if hide then JStr redacted else safe_old),
           hc_after = (if hide then JStr redacted else safe_new)\<rparr>]))"
  by pat_completeness auto
termination
proof (relation "measure (\<lambda>(_, old, _). size old)", simp)
  fix path :: string and old new safe_old safe_new :: json and k :: string
  assume "is_obj old \<and> is_obj new"
  then obtain kvs where "old = JObj kvs" by (auto simp: is_obj_def split: json.splits)
  then show "((if path = '''' then k else path @ ''.'' @ k, key (obj old) k, key (obj new) k, key (obj safe_old) k,
      key (obj safe_new) k), (path, old, new, safe_old, safe_new)) \<in> measure (\<lambda>(_, old, _). size old)"
    using size_key [of kvs k] by (simp add: obj_def)
qed

declare diff_walk.simps [simp del]

definition history_diff :: "config \<Rightarrow> config \<Rightarrow> history_change list" where
  "history_diff before after = diff_walk '''' (JObj (sections before)) (JObj (sections after))
     (JObj (sections (redact before))) (JObj (sections (redact after)))"

end
