(* ===== verification/Net.thy ===== *)
theory Net
  imports Prelude
begin

text \<open>
  What the sources use of the standard library's packages \<open>net\<close>, \<open>strconv\<close> and \<open>strings\<close> on
  addresses: \<open>net.ParseIP\<close> (by \<open>netip.ParseAddr\<close>, a zone is refused), \<open>IP.IsLoopback\<close>,
  \<open>net.SplitHostPort\<close>, \<open>strconv.Atoi\<close> and \<open>strings.Split\<close> at one byte. An address is its sixteen bytes;
  an IPv4 address is kept in its mapped form, as the library does.
\<close>

fun split_char :: "char \<Rightarrow> string \<Rightarrow> string list" where
  "split_char c [] = [[]]"
| "split_char c (x # xs) =
     (if x = c then [] # split_char c xs
      else (case split_char c xs of [] \<Rightarrow> [[x]] | w # ws \<Rightarrow> (x # w) # ws))"

definition char_code :: "char \<Rightarrow> int" where
  "char_code c = of_char c"

definition is_digit :: "char \<Rightarrow> bool" where
  "is_digit c \<longleftrightarrow> 48 \<le> char_code c \<and> char_code c \<le> 57"

definition is_hex :: "char \<Rightarrow> bool" where
  "is_hex c \<longleftrightarrow> is_digit c \<or> 97 \<le> char_code c \<and> char_code c \<le> 102 \<or> 65 \<le> char_code c \<and> char_code c \<le> 70"

definition hex_val :: "char \<Rightarrow> int" where
  "hex_val c = (if is_digit c then char_code c - 48
     else if 97 \<le> char_code c then char_code c - 87 else char_code c - 55)"

definition dec_val :: "string \<Rightarrow> int" where
  "dec_val s = foldl (\<lambda>a c. a * 10 + (char_code c - 48)) 0 s"

subsection \<open>\<open>strconv.Atoi\<close>\<close>

definition atoi_digits :: "string \<Rightarrow> int option" where
  "atoi_digits s = (if s = [] \<or> \<not> list_all is_digit s then None else Some (dec_val s))"

definition atoi :: "string \<Rightarrow> int option" where
  "atoi s = (case s of
      [] \<Rightarrow> None
    | c # r \<Rightarrow>
        (case (if c = CHR ''-'' then map_option uminus (atoi_digits r)
               else if c = CHR ''+'' then atoi_digits r else atoi_digits s) of
           None \<Rightarrow> None
         | Some x \<Rightarrow> (if - 9223372036854775808 \<le> x \<and> x \<le> 9223372036854775807 then Some x else None)))"

subsection \<open>\<open>net.ParseIP\<close>\<close>

definition octet :: "string \<Rightarrow> int option" where
  "octet s = (if s = [] \<or> \<not> list_all is_digit s \<or> (1 < length s \<and> hd s = CHR ''0'') \<or> 255 < dec_val s
     then None else Some (dec_val s))"

definition parse_v4 :: "string \<Rightarrow> int list option" where
  "parse_v4 s = (let fs = split_char CHR ''.'' s in if length fs = 4 then those (map octet fs) else None)"

text \<open>The loop of \<open>parseIPv6\<close>: \<open>i\<close> bytes are read, \<open>ell\<close> is where the ellipsis stood.\<close>

function v6_loop :: "nat \<Rightarrow> int list \<Rightarrow> nat option \<Rightarrow> string \<Rightarrow> (int list \<times> nat option \<times> string) option" where
  "v6_loop i ip ell s =
     (if \<not> i < 16 then Some (ip, ell, s)
      else
        (let g = takeWhile is_hex s; r = dropWhile is_hex s; acc = foldl (\<lambda>a c. a * 16 + hex_val c) 0 g;
             ip' = ip @ [acc div 256, acc mod 256]
         in if g = [] \<or> 4 < length g then None
            else (case r of
                [] \<Rightarrow> Some (ip', ell, [])
              | c # t \<Rightarrow>
                  (if c = CHR ''.'' then
                     (if ell = None \<and> i \<noteq> 12 \<or> 16 < i + 4 then None
                      else map_option (\<lambda>q. (ip @ q, ell, [])) (parse_v4 s))
                   else if c \<noteq> CHR '':'' then None
                   else (case t of
                       [] \<Rightarrow> None
                     | d # t' \<Rightarrow>
                         (if d \<noteq> CHR '':'' then v6_loop (i + 2) ip' ell t
                          else if ell \<noteq> None then None
                          else if t' = [] then Some (ip', Some (i + 2), [])
                          else v6_loop (i + 2) ip' (Some (i + 2)) t'))))))"
  by pat_completeness auto
termination by (relation "measure (\<lambda>(i, _). 16 - i)") auto

declare v6_loop.simps [simp del]

definition parse_v6 :: "string \<Rightarrow> int list option" where
  "parse_v6 s =
     (let lead = prefix ''::'' s; s' = (if lead then drop 2 s else s) in
      if lead \<and> s' = [] then Some (replicate 16 0)
      else (case v6_loop 0 [] (if lead then Some 0 else None) s' of
          None \<Rightarrow> None
        | Some (ip, ell, r) \<Rightarrow>
            (if r \<noteq> [] then None
             else (case ell of
                 Some e \<Rightarrow> (if length ip < 16 then Some (take e ip @ replicate (16 - length ip) 0 @ drop e ip) else None)
               | None \<Rightarrow> (if length ip < 16 then None else Some ip)))))"

definition mapped_v4 :: "int list \<Rightarrow> int list" where
  "mapped_v4 q = replicate 10 0 @ [255, 255] @ q"

definition parse_ip :: "string \<Rightarrow> int list option" where
  "parse_ip s = (case find (\<lambda>c. c = CHR ''.'' \<or> c = CHR '':'' \<or> c = CHR ''%'') s of
      None \<Rightarrow> None
    | Some c \<Rightarrow>
        (if c = CHR ''.'' then map_option mapped_v4 (parse_v4 s)
         else if c = CHR '':'' then (if CHR ''%'' \<in> set s then None else parse_v6 s)
         else None))"

definition is_loopback :: "int list \<Rightarrow> bool" where
  "is_loopback ip \<longleftrightarrow> (if take 12 ip = replicate 10 0 @ [255, 255] then ip ! 12 = 127
     else ip = replicate 15 0 @ [1])"

subsection \<open>\<open>net.SplitHostPort\<close>\<close>

text \<open>At the last occurrence of a byte, and at the first.\<close>

definition cut_last :: "char \<Rightarrow> string \<Rightarrow> (string \<times> string) option" where
  "cut_last c s = (if c \<in> set s then
     Some (rev (tl (dropWhile (\<lambda>x. x \<noteq> c) (rev s))), rev (takeWhile (\<lambda>x. x \<noteq> c) (rev s))) else None)"

definition split_host_port :: "string \<Rightarrow> (string \<times> string) option" where
  "split_host_port s = (case cut_last CHR '':'' s of
      None \<Rightarrow> None
    | Some (h, port) \<Rightarrow>
        (if has_prefix s ''['' then
           (case cut_char (CHR 0x5D) h of
              (b, rest, True) \<Rightarrow>
                (if rest = [] \<and> CHR ''['' \<notin> set (tl b) \<and> CHR ''['' \<notin> set port \<and> CHR 0x5D \<notin> set port
                 then Some (tl b, port) else None)
            | (b, rest, False) \<Rightarrow> None)
         else if CHR '':'' \<in> set h \<or> CHR ''['' \<in> set s \<or> CHR 0x5D \<in> set s then None
         else Some (h, port)))"

subsection \<open>Facts\<close>

lemma cut_last_append: "c \<notin> set p \<Longrightarrow> cut_last c (h @ c # p) = Some (h, p)"
proof -
  assume a: "c \<notin> set p"
  have "takeWhile (\<lambda>x. x \<noteq> c) (rev p @ c # rev h) = rev p" using a by (subst takeWhile_append2) auto
  moreover have "dropWhile (\<lambda>x. x \<noteq> c) (rev p @ c # rev h) = c # rev h" using a by (subst dropWhile_append2) auto
  ultimately show ?thesis by (simp add: cut_last_def)
qed

lemma split_char_ne [simp]: "split_char c s \<noteq> []"
  by (cases s) (auto split: list.split)

lemma those_length: "those xs = Some ys \<Longrightarrow> length ys = length xs"
  by (induction xs arbitrary: ys) (auto split: option.splits)

lemma parse_v4_length: "parse_v4 s = Some q \<Longrightarrow> length q = 4"
  by (auto simp: parse_v4_def Let_def dest: those_length split: if_splits)

end
