(* ===== verification/Validate.thy ===== *)
theory Validate
  imports Redact Net "HOL-Library.List_Lexorder" "HOL-Library.Char_ord"
begin

text \<open>
  Package \<open>internal/config\<close>, \<open>validate.go\<close>: the checks on a configuration. Each check returns the
  failures it adds, in the order of the source; \<open>Validate\<close> sorts them by field, keeping the order
  within a field. What depends on the machine is a record of parameters: \<open>filepath.IsAbs\<close> of the
  operating system, the zones of the time zone database, and the order in which a Go map is iterated.
\<close>

record platform =
  pl_native_abs :: "string \<Rightarrow> bool"
  pl_zone_known :: "string \<Rightarrow> bool"
  pl_map_order :: "(string \<times> string) list \<Rightarrow> (string \<times> string) list"

definition bad :: "string \<Rightarrow> string \<Rightarrow> farg list \<Rightarrow> field_error" where
  "bad field fmt args = \<lparr>fe_field = field, fe_message = Sprintf fmt args\<rparr>"

definition add_if :: "bool \<Rightarrow> string \<Rightarrow> string \<Rightarrow> farg list \<Rightarrow> field_error list" where
  "add_if b field fmt args = (if b then [bad field fmt args] else [])"

definition dur_range :: "string \<Rightarrow> dur \<Rightarrow> dur \<Rightarrow> dur \<Rightarrow> field_error list" where
  "dur_range field d lo hi = add_if (d < lo \<or> hi < d) field ''must be between %s and %s (got %s)''
     [FDur lo, FDur hi, FDur d]"

definition int_range :: "string \<Rightarrow> int \<Rightarrow> int \<Rightarrow> int \<Rightarrow> field_error list" where
  "int_range field x lo hi = add_if (x < lo \<or> hi < x) field ''must be between %d and %d (got %d)''
     [FInt lo, FInt hi, FInt x]"

definition pct_range :: "string \<Rightarrow> flt \<Rightarrow> field_error list" where
  "pct_range field x = add_if (x \<le> 0 \<or> 100 < x) field ''must be greater than 0 and at most 100 (got %g)''
     [FFlt ''%g'' x]"

text \<open>A field of the element at an index.\<close>

definition indexed :: "string \<Rightarrow> nat \<Rightarrow> string" where
  "indexed f i = f @ ''['' @ itoa (int i) @ '']''"

definition each :: "(nat \<Rightarrow> 'a \<Rightarrow> field_error list) \<Rightarrow> 'a list \<Rightarrow> field_error list" where
  "each f xs = concat (map (\<lambda>(i, x). f i x) (enumerate 0 xs))"

subsection \<open>Paths\<close>

definition is_letter :: "char \<Rightarrow> bool" where
  "is_letter c \<longleftrightarrow> 65 \<le> char_code c \<and> char_code c \<le> 90 \<or> 97 \<le> char_code c \<and> char_code c \<le> 122"

definition is_abs :: "platform \<Rightarrow> string \<Rightarrow> bool" where
  "is_abs P p \<longleftrightarrow> pl_native_abs P p \<or>
     (case p of a # b # c # _ \<Rightarrow> b = CHR '':'' \<and> (c = CHR 0x5C \<or> c = CHR ''/'') \<and> is_letter a | _ \<Rightarrow> False)"

definition is_pfx_path :: "string \<Rightarrow> bool" where
  "is_pfx_path p \<longleftrightarrow> has_suffix (to_lower p) ''.pfx'' \<or> has_suffix (to_lower p) ''.p12''"

definition is_hex40 :: "string \<Rightarrow> bool" where
  "is_hex40 s \<longleftrightarrow> length s = 40 \<and> list_all is_hex s"

text \<open>\<open>filepath.Clean\<close> of a relative path without \<open>..\<close> segments is \<open>.\<close> exactly when every segment
  is empty or \<open>.\<close>.\<close>

definition data_relative :: "string \<Rightarrow> gotext option" where
  "data_relative p =
     (let s = replace_char (CHR 0x5C) (CHR ''/'') p; segs = split_char (CHR ''/'') s in
      if has_prefix s ''/'' then Some (lit ''must be relative to the data folder (no leading separator or UNC path)'')
      else if CHR '':'' \<in> set s then Some (lit ''must be relative to the data folder (no drive letter or colon)'')
      else if ''..'' \<in> set segs then Some (lit ''must stay inside the data folder (no .. segments)'')
      else if list_all (\<lambda>g. g = '''' \<or> g = ''.'') segs then Some (lit ''must name a file inside the data folder'')
      else None)"

subsection \<open>The sections\<close>

definition reserved_args :: "string list" where
  "reserved_args = [''-m'', ''--model'', ''--host'', ''--port'', ''-c'', ''--ctx-size'', ''-ngl'',
     ''--gpu-layers'', ''--n-gpu-layers'']"

definition validate_arg :: "nat \<Rightarrow> string \<Rightarrow> field_error list" where
  "validate_arg i a =
     (let name = flag_name a in
      add_if (contains redacted a) (indexed ''runtime.args'' i)
        ''contains the %s placeholder; re-enter the secret value'' [FStr redacted]
      @ add_if (name \<in> set reserved_args) (indexed ''runtime.args'' i)
        ''%s is set by Benchwarmer; use the dedicated runtime field'' [FStr name])"

definition stop_budget_text :: string where
  "stop_budget_text = ''graceful_stop_timeout plus kill_verify_timeout must not exceed 18s (the service stop budget)''"

definition validate_runtime :: "platform \<Rightarrow> runtime_cfg \<Rightarrow> field_error list" where
  "validate_runtime P r =
     add_if (rt_executable r = '''' \<or> \<not> is_abs P (rt_executable r)) ''runtime.executable'' ''must be an absolute path'' []
     @ add_if (rt_model_path r = '''' \<or> \<not> is_abs P (rt_model_path r)) ''runtime.model_path'' ''must be an absolute path'' []
     @ each validate_arg (rt_args r)
     @ int_range ''runtime.context_size'' (rt_context_size r) 256 (2 ^ 20)
     @ int_range ''runtime.gpu_layers'' (rt_gpu_layers r) 0 9999
     @ add_if (rt_stop_mode r \<noteq> ''graceful'' \<and> rt_stop_mode r \<noteq> ''kill'') ''runtime.stop_mode''
         ''must be %q or %q (got %q)'' [FStr ''graceful'', FStr ''kill'', FStr (rt_stop_mode r)]
     @ dur_range ''runtime.graceful_stop_timeout'' (rt_graceful_stop_timeout r) second (2 * minute)
     @ (if rt_stop_mode r = ''graceful''
           \<and> 18 * second < wrap64 (rt_graceful_stop_timeout r + rt_kill_verify_timeout r)
        then [bad ''runtime.graceful_stop_timeout'' stop_budget_text [],
              bad ''runtime.kill_verify_timeout'' stop_budget_text []] else [])
     @ add_if (rt_run_as r \<noteq> ''localservice'' \<and> rt_run_as r \<noteq> ''service'') ''runtime.run_as''
         ''must be %q or %q (got %q)'' [FStr ''localservice'', FStr ''service'', FStr (rt_run_as r)]
     @ add_if (case parse_ip (rt_host r) of None \<Rightarrow> True | Some ip \<Rightarrow> \<not> is_loopback ip) ''runtime.host''
         ''must be a loopback address; the runtime must not be reachable from other machines (got %q)'' [FStr (rt_host r)]
     @ int_range ''runtime.port'' (rt_port r) 1024 65535
     @ dur_range ''runtime.load_timeout'' (rt_load_timeout r) (5 * second) (30 * minute)
     @ int_range ''runtime.required_free_vram_mib'' (rt_required_free_vram_mib r) 0 (2 ^ 20)
     @ dur_range ''runtime.kill_verify_timeout'' (rt_kill_verify_timeout r) second (2 * minute)
     @ dur_range ''runtime.vram_release_timeout'' (rt_vram_release_timeout r) second (5 * minute)
     @ int_range ''runtime.vram_release_tolerance_mib'' (rt_vram_release_tolerance_mib r) 0 4096
     @ dur_range ''runtime.max_request_duration'' (rt_max_request_duration r) (5 * second) (24 * hour)
     @ int_range ''runtime.diagnostics_tail_bytes'' (rt_diagnostics_tail_bytes r) 1024 (2 ^ 20)"

text \<open>One listener: its failures, and the ports in use with it. A host that is not an address does not
  keep its port from being recorded.\<close>

definition check_listener ::
  "string \<Rightarrow> string \<Rightarrow> (string \<rightharpoonup> string) \<Rightarrow> field_error list \<times> (string \<rightharpoonup> string)" where
  "check_listener field addr ports =
     (case split_host_port addr of
        None \<Rightarrow> ([bad field ''must be host:port (got %q)'' [FStr addr]], ports)
      | Some (host, port) \<Rightarrow>
          (if (case atoi port of None \<Rightarrow> True | Some p \<Rightarrow> p < 1 \<or> 65535 < p)
           then ([bad field ''invalid port %q'' [FStr port]], ports)
           else
             (add_if (host \<noteq> '''' \<and> parse_ip host = None) field
                ''host must be an IP address or empty for all interfaces (got %q)'' [FStr host]
              @ (case ports port of
                   Some other \<Rightarrow> [bad field ''port %s is already used by %s'' [FStr port, FStr other],
                                  bad other ''port %s is already used by %s'' [FStr port, FStr field]]
                 | None \<Rightarrow> []),
              ports(port \<mapsto> field))))"

definition is_loopback_host :: "string \<Rightarrow> bool" where
  "is_loopback_host h = (case parse_ip h of Some ip \<Rightarrow> is_loopback ip | None \<Rightarrow> False)"

definition exposed :: "string \<Rightarrow> bool" where
  "exposed addr = (case split_host_port addr of Some (h, p) \<Rightarrow> \<not> is_loopback_host h | None \<Rightarrow> False)"

definition validate_tls :: "tls_cfg \<Rightarrow> field_error list" where
  "validate_tls t =
     (let from_file = (tls_cert_file t \<noteq> '''');
          from_store = (tls_store_thumbprint t \<noteq> '''' \<or> tls_store_subject t \<noteq> '''') in
      if from_file \<and> from_store then
        [bad ''listen.inference_tls'' ''set either a certificate file or a certificate store selection, not both'' []]
      else if tls_store_thumbprint t \<noteq> '''' \<and> tls_store_subject t \<noteq> '''' then
        [bad ''listen.inference_tls.store_subject'' ''set store_thumbprint or store_subject, not both'' []]
      else if tls_store_thumbprint t \<noteq> '''' \<and> \<not> is_hex40 (filter (\<lambda>c. c \<noteq> CHR '' '') (tls_store_thumbprint t)) then
        [bad ''listen.inference_tls.store_thumbprint'' ''must be the 40-character hex SHA-1 thumbprint'' []]
      else if (from_file \<or> from_store) \<and> tls_cert_file t = '''' then []
      else if tls_cert_file t = '''' \<and> \<not> tls_self_signed t then
        [bad ''listen.inference_tls.cert_file'' ''set a certificate file or store selection, or enable self_signed for testing'' []]
      else if tls_cert_file t \<noteq> '''' \<and> tls_key_file t = '''' \<and> \<not> is_pfx_path (tls_cert_file t) then
        [bad ''listen.inference_tls.key_file'' ''is required with a PEM certificate'' []]
      else [])"

definition validate_listen :: "config \<Rightarrow> field_error list" where
  "validate_listen c =
     (let l = cf_listen c; t = ls_inference_tls l;
          (e1, ports) = check_listener ''listen.inference'' (ls_inference l)
             [itoa (rt_port (cf_runtime c)) \<mapsto> ''runtime.port''];
          (e2, _) = check_listener ''listen.management'' (ls_management l) ports
      in e1 @ e2
         @ add_if (exposed (ls_inference l) \<and> \<not> tls_enabled t) ''listen.inference_tls.enabled''
             ''a non-loopback inference listener must use TLS'' []
         @ (if tls_enabled t then validate_tls t else [])
         @ add_if (exposed (ls_management l) \<and> se_management_token_file (cf_security c) = '''') ''listen.management''
             ''a non-loopback management listener requires security.management_token_file'' [])"

definition validate_profile :: "contention_cfg \<Rightarrow> string \<Rightarrow> profile \<Rightarrow> field_error list" where
  "validate_profile k f p =
     dur_range (f @ ''.grace'') (pf_grace p) 0 (10 * minute)
     @ dur_range (f @ ''.grace_under_pressure'') (pf_grace_under_pressure p) 0 (pf_grace p)
     @ dur_range (f @ ''.cooldown'') (pf_cooldown p) 0 (24 * hour)
     @ pct_range (f @ ''.external_util_soft_pct'') (pf_external_util_soft_pct p)
     @ (if ct_external_util_critical_pct k \<le> pf_external_util_soft_pct p
        then [bad (f @ ''.external_util_soft_pct'') ''must be below contention.external_util_critical_pct (%g)''
                [FFlt ''%g'' (ct_external_util_critical_pct k)],
              bad ''contention.external_util_critical_pct'' ''must be above %s.external_util_soft_pct (%g)''
                [FStr f, FFlt ''%g'' (pf_external_util_soft_pct p)]] else [])
     @ dur_range (f @ ''.soft_window'') (pf_soft_window p) 0 (10 * minute)
     @ int_range (f @ ''.external_vram_soft_mib'') (pf_external_vram_soft_mib p) 64 65536
     @ (if ct_external_vram_critical_mib k \<le> pf_external_vram_soft_mib p
        then [bad (f @ ''.external_vram_soft_mib'') ''must be below contention.external_vram_critical_mib (%d)''
                [FInt (ct_external_vram_critical_mib k)],
              bad ''contention.external_vram_critical_mib'' ''must be above %s.external_vram_soft_mib (%d)''
                [FStr f, FInt (pf_external_vram_soft_mib p)]] else [])
     @ pct_range (f @ ''.game_confirm_util_pct'') (pf_game_confirm_util_pct p)
     @ int_range (f @ ''.game_confirm_vram_mib'') (pf_game_confirm_vram_mib p) 1 65536"

definition validate_day :: "string \<Rightarrow> nat \<Rightarrow> string \<Rightarrow> field_error list" where
  "validate_day f i d = add_if (weekday d = None) (indexed (f @ ''.days'') i)
     ''must be one of sun, mon, tue, wed, thu, fri, sat (got %q)'' [FStr d]"

definition validate_schedule :: "config \<Rightarrow> string \<Rightarrow> schedule \<Rightarrow> field_error list" where
  "validate_schedule c f s =
     (let a = clock_minutes (sc_start s); b = clock_minutes (sc_end s);
          clock = FText (lit ''must be HH:MM in 24-hour time'') in
      add_if (sc_name s = '''') (f @ ''.name'') ''is required'' []
      @ add_if (profile_find c (sc_profile s) = None) (f @ ''.profile'') ''profile %q does not exist'' [FStr (sc_profile s)]
      @ add_if (sc_days s = []) (f @ ''.days'') ''at least one day is required'' []
      @ each (validate_day f) (sc_days s)
      @ add_if (a = None) (f @ ''.start'') ''%v'' [clock]
      @ add_if (b = None) (f @ ''.end'') ''%v'' [clock]
      @ add_if (a \<noteq> None \<and> a = b) (f @ ''.end'') ''must differ from start'' [])"

fun validate_schedules :: "config \<Rightarrow> nat \<Rightarrow> string list \<Rightarrow> schedule list \<Rightarrow> field_error list" where
  "validate_schedules c i seen [] = []"
| "validate_schedules c i seen (s # rest) =
     validate_schedule c (indexed ''schedules'' i) s
     @ add_if (sc_name s \<in> set seen) (indexed ''schedules'' i @ ''.name'') ''duplicate schedule name %q'' [FStr (sc_name s)]
     @ validate_schedules c (i + 1) (sc_name s # seen) rest"

definition validate_app_rule :: "string \<Rightarrow> app_rule \<Rightarrow> field_error list" where
  "validate_app_rule f r =
     add_if (length (filter (\<lambda>m. m \<noteq> '''') [ar_exe r, ar_path r, ar_path_prefix r, ar_glob r]) \<noteq> 1) f
       ''exactly one of exe, path, path_prefix, glob must be set'' []
     @ add_if (ar_exe r \<noteq> '''' \<and> (CHR ''/'' \<in> set (ar_exe r) \<or> CHR 0x5C \<in> set (ar_exe r))) (f @ ''.exe'')
       ''must be a file name, not a path (use path or path_prefix)'' []
     @ (case ar_class r of
          OtherClass s \<Rightarrow> [bad (f @ ''.class'') ''must be game, launcher, ignore, or ordinary (got %q)'' [FStr s]]
        | _ \<Rightarrow> [])"

fun validate_apps :: "nat \<Rightarrow> string list \<Rightarrow> app_rule list \<Rightarrow> field_error list" where
  "validate_apps i seen [] = []"
| "validate_apps i seen (r # rest) =
     validate_app_rule (indexed ''applications'' i) r
     @ add_if (ar_id r \<noteq> '''' \<and> ar_id r \<in> set seen) (indexed ''applications'' i @ ''.id'') ''duplicate rule id %q'' [FStr (ar_id r)]
     @ validate_apps (i + 1) (ar_id r # seen) rest"

definition token_files :: "config \<Rightarrow> (string \<times> string) list" where
  "token_files c = [(''security.management_token_file'', se_management_token_file (cf_security c)),
     (''security.inference_token_file'', se_inference_token_file (cf_security c)),
     (''security.agent_token_file'', se_agent_token_file (cf_security c))]"

definition validate_limits :: "config \<Rightarrow> field_error list" where
  "validate_limits c =
     (let t = cf_telemetry c; s = cf_safety c; k = cf_contention c in
      dur_range ''telemetry.sample_interval'' (tel_sample_interval t) (250 * millisecond) (10 * second)
      @ dur_range ''telemetry.loss_grace'' (tel_loss_grace t) (tel_sample_interval t) (5 * minute)
      @ add_if (tel_loss_grace t < tel_sample_interval t) ''telemetry.sample_interval''
          ''must not exceed telemetry.loss_grace (%s)'' [FDur (tel_loss_grace t)]
      @ int_range ''telemetry.degraded_margin_pct'' (tel_degraded_margin_pct t) 0 90
      @ add_if (sf_gpu_temp_critical_c s < 60 \<or> 105 < sf_gpu_temp_critical_c s) ''safety.gpu_temp_critical_c''
          ''must be between 60 and 105 (got %g)'' [FFlt ''%g'' (sf_gpu_temp_critical_c s)]
      @ add_if (sf_gpu_temp_critical_c s \<le> sf_gpu_temp_resume_c s) ''safety.gpu_temp_critical_c''
          ''must be above gpu_temp_resume_c (%g)'' [FFlt ''%g'' (sf_gpu_temp_resume_c s)]
      @ add_if (sf_gpu_temp_critical_c s \<le> sf_gpu_temp_resume_c s \<or> sf_gpu_temp_resume_c s < 30) ''safety.gpu_temp_resume_c''
          ''must be at least 30 and below gpu_temp_critical_c (got %g)'' [FFlt ''%g'' (sf_gpu_temp_resume_c s)]
      @ int_range ''contention.vram_free_critical_mib'' (ct_vram_free_critical_mib k) 64 8192
      @ int_range ''contention.external_vram_critical_mib'' (ct_external_vram_critical_mib k) 256 65536
      @ pct_range ''contention.external_util_critical_pct'' (ct_external_util_critical_pct k)
      @ dur_range ''contention.critical_window'' (ct_critical_window k) 0 minute
      @ dur_range ''contention.clear_window'' (ct_clear_window k) second (30 * minute))"

definition validate_profiles :: "platform \<Rightarrow> config \<Rightarrow> field_error list" where
  "validate_profiles P c =
     add_if (cf_profiles c = []) ''profiles'' ''at least one profile is required'' []
     @ concat (map (\<lambda>n. validate_profile (cf_contention c) (''profiles.'' @ n) (profile_get c n))
         (sort (map fst (cf_profiles c))))
     @ add_if (profile_find c (cf_default_profile c) = None) ''default_profile'' ''profile %q does not exist''
         [FStr (cf_default_profile c)]
     @ add_if (profile_find c (cf_ai_priority_profile c) = None) ''ai_priority_profile'' ''profile %q does not exist''
         [FStr (cf_ai_priority_profile c)]
     @ add_if (\<not> pl_zone_known P (cf_timezone c) \<or> cf_timezone c = '''' \<or> cf_timezone c = ''Local'') ''timezone''
         ''must be an IANA zone name such as America/Chicago (got %q)'' [FStr (cf_timezone c)]
     @ validate_schedules c 0 [] (cf_schedules c)
     @ validate_apps 0 [] (cf_applications c)"

definition validate_timers :: "config \<Rightarrow> field_error list" where
  "validate_timers c =
     (let a = cf_anti_thrash c; r = cf_recovery c; m = cf_modes c; s = cf_signals c in
      dur_range ''anti_thrash.window'' (at_window a) minute (24 * hour)
      @ int_range ''anti_thrash.max_preemptions'' (at_max_preemptions a) 1 100
      @ dur_range ''anti_thrash.suppress_for'' (at_suppress_for a) 0 (24 * hour)
      @ dur_range ''recovery.startup_cooldown'' (rc_startup_cooldown r) 0 hour
      @ dur_range ''recovery.resume_cooldown'' (rc_resume_cooldown r) 0 hour
      @ dur_range ''recovery.crash_backoff_initial'' (rc_crash_backoff_initial r) second hour
      @ dur_range ''recovery.crash_backoff_max'' (rc_crash_backoff_max r) (rc_crash_backoff_initial r) (24 * hour)
      @ dur_range ''recovery.telemetry_recovery_cooldown'' (rc_telemetry_recovery_cooldown r) 0 hour
      @ dur_range ''recovery.device_lost_cooldown'' (rc_device_lost_cooldown r) 0 (24 * hour)
      @ dur_range ''recovery.crash_reset_after'' (rc_crash_reset_after r) minute (24 * hour)
      @ dur_range ''modes.max_ai_priority'' (md_max_ai_priority m) minute (7 * 24 * hour)
      @ each (\<lambda>i d. dur_range (indexed ''modes.pause_durations'' i) d minute (30 * 24 * hour)) (md_pause_durations m)
      @ each (\<lambda>i d. dur_range (indexed ''modes.ai_priority_durations'' i) d minute (md_max_ai_priority m))
          (md_ai_priority_durations m)
      @ dur_range ''signals.session_stale_after'' (sg_session_stale_after s) second (10 * minute)
      @ dur_range ''signals.process_interval'' (sg_process_interval s) (250 * millisecond) minute)"

definition validate_rest :: "platform \<Rightarrow> config \<Rightarrow> field_error list" where
  "validate_rest P c =
     (let r = cf_retention c in
      concat (map (\<lambda>(field, p). add_if (p = '''') field ''is required'' []) (pl_map_order P (token_files c)))
      @ int_range ''retention.events_days'' (re_events_days r) 1 3650
      @ int_range ''retention.events_max'' (re_events_max r) 100 10000000
      @ int_range ''retention.log_max_mb'' (re_log_max_mb r) 1 1024
      @ int_range ''retention.log_files'' (re_log_files r) 1 100
      @ add_if (lg_level (cf_logging c) \<notin> {''debug'', ''info'', ''warn'', ''error''}) ''logging.level''
          ''must be debug, info, warn, or error (got %q)'' [FStr (lg_level (cf_logging c))])"

definition validate_all :: "platform \<Rightarrow> config \<Rightarrow> field_error list" where
  "validate_all P c =
     add_if (cf_schema_version c \<noteq> 1) ''schema_version'' ''must be %d (got %d)'' [FInt 1, FInt (cf_schema_version c)]
     @ validate_runtime P (cf_runtime c) @ validate_listen c @ validate_limits c @ validate_profiles P c
     @ validate_timers c @ validate_rest P c"

text \<open>\<open>Validate\<close> succeeds when the list is empty; otherwise the list is the \<open>ValidationError\<close>.\<close>

definition validate :: "platform \<Rightarrow> config \<Rightarrow> field_error list" where
  "validate P c = sort_key fe_field (validate_all P c)"

definition pfx_help :: string where
  "pfx_help = ''PFX files are not read: import the PFX into the LocalMachine'' @ [CHR 0x5C]
     @ ''My certificate store (see docs/deploy/tls.md: certutil -importpfx) and set store_thumbprint or store_subject''"

definition validate_change :: "platform \<Rightarrow> config \<Rightarrow> field_error list" where
  "validate_change P c =
     (if validate P c \<noteq> [] then validate P c
      else
        (let t = ls_inference_tls (cf_listen c) in
         add_if (tls_enabled t \<and> is_pfx_path (tls_cert_file t)) ''listen.inference_tls.cert_file'' ''%s'' [FStr pfx_help]
         @ concat (map (\<lambda>(field, p). case data_relative p of
               Some e \<Rightarrow> add_if (p \<noteq> '''') field ''%v'' [FText e]
             | None \<Rightarrow> []) (pl_map_order P (token_files c)))))"

definition validation_message :: "field_error list \<Rightarrow> gotext" where
  "validation_message es = Sprintf ''invalid configuration: %s''
     [FText (Sprintf (concat (map (\<lambda>i. (if i = 0 then '''' else ''; '') @ ''%s: %s'') [0..<length es]))
       (concat (map (\<lambda>e. [FStr (fe_field e), FText (fe_message e)]) es)))]"

end
