(* ===== verification/Config_Store.thy ===== *)
theory Config_Store
  imports Impact Validate
begin

text \<open>
  Package \<open>internal/config\<close>, \<open>store.go\<close> and \<open>history.go\<close>: loading, saving and the history of
  versions, on a disk that maps paths to file contents. \<open>encoding/json\<close> is a parameter: a codec
  between contents and values. Every change of the disk is atomic; the disk keeps the states it went
  through, so a crash leaves one of them.
\<close>

subsection \<open>The disk and the codec\<close>

record 'b disk =
  dk_files :: "string \<rightharpoonup> 'b"
  dk_past :: "(string \<rightharpoonup> 'b) list"

definition disk_set :: "(string \<rightharpoonup> 'b) \<Rightarrow> 'b disk \<Rightarrow> 'b disk" where
  "disk_set f d = d\<lparr>dk_files := f, dk_past := dk_past d @ [dk_files d]\<rparr>"

definition crash_points :: "'b disk \<Rightarrow> (string \<rightharpoonup> 'b) set" where
  "crash_points d = insert (dk_files d) (set (dk_past d))"

record history_entry =
  he_id :: string
  he_time :: time
  he_actor :: string
  he_restore_of :: string
  he_changes :: "history_change list"

record 'b history_version =
  hv_entry :: history_entry
  hv_config :: 'b

record 'b history_file =
  hf_versions :: "'b history_version list"
  hf_pending :: "'b history_version option"

text \<open>\<open>Marshal\<close> and \<open>Decode\<close> of a configuration (a decoder that refuses unknown fields and trailing
  data), \<open>json.Compact\<close>, and \<open>json.Marshal\<close> and \<open>Unmarshal\<close> of the history file.\<close>

record 'b codec =
  cd_encode :: "config \<Rightarrow> 'b"
  cd_decode :: "'b \<Rightarrow> config option"
  cd_compact :: "'b \<Rightarrow> 'b option"
  cd_encode_history :: "'b history_file \<Rightarrow> 'b option"
  cd_decode_history :: "'b \<Rightarrow> 'b history_file option"

subsection \<open>Loading a document\<close>

definition upgrade_runtime :: "runtime_cfg \<Rightarrow> runtime_cfg" where
  "upgrade_runtime r =
     (let r1 = (if rt_run_as r = '''' then r\<lparr>rt_run_as := ''localservice''\<rparr> else r);
          r2 = (if rt_stop_mode r1 = '''' then r1\<lparr>rt_stop_mode := ''graceful''\<rparr> else r1)
      in if rt_graceful_stop_timeout r2 = 0 then r2\<lparr>rt_graceful_stop_timeout := 5 * second\<rparr> else r2)"

definition upgrade_tls :: "tls_cfg \<Rightarrow> tls_cfg" where
  "upgrade_tls t = (if \<not> is_pfx_path (tls_cert_file t) then t\<lparr>tls_legacy_pfx_password_file := ''''\<rparr> else t)"

definition upgrade :: "config \<Rightarrow> config" where
  "upgrade c = c\<lparr>cf_runtime := upgrade_runtime (cf_runtime c),
     cf_listen := (cf_listen c)\<lparr>ls_inference_tls := upgrade_tls (ls_inference_tls (cf_listen c))\<rparr>\<rparr>"

datatype load_error = BadDocument | InvalidConfig "field_error list" | NotExist | IOError string

definition parse_doc :: "'b codec \<Rightarrow> platform \<Rightarrow> 'b \<Rightarrow> load_error + (config \<times> bool)" where
  "parse_doc cd P b = (case cd_decode cd b of
      None \<Rightarrow> Inl BadDocument
    | Some c \<Rightarrow>
        (let (c1, added) = merge_builtin_rules (upgrade c); es = validate P c1
         in if es \<noteq> [] then Inl (InvalidConfig es) else Inr (c1, added)))"

definition parse :: "'b codec \<Rightarrow> platform \<Rightarrow> 'b \<Rightarrow> load_error + config" where
  "parse cd P b = map_sum id fst (parse_doc cd P b)"

text \<open>\<open>Clone\<close> encodes and decodes.\<close>

definition clone :: "'b codec \<Rightarrow> config \<Rightarrow> config option" where
  "clone cd c = cd_decode cd (cd_encode cd c)"

subsection \<open>Writing a file\<close>

text \<open>How a write goes: the name \<open>CreateTemp\<close> chose, what the temporary file holds before the data is
  complete, and whether creating it or a later step fails. The rename replaces the file in one step.\<close>

datatype write_outcome = WriteOk | FailCreate | FailLater

record 'b write_io =
  wi_tmp :: string
  wi_partial :: 'b
  wi_outcome :: write_outcome

definition write_file_atomic :: "'b write_io \<Rightarrow> string \<Rightarrow> 'b \<Rightarrow> 'b disk \<Rightarrow> bool \<times> 'b disk" where
  "write_file_atomic io path data d =
     (if wi_outcome io = FailCreate then (False, d)
      else
        (let d1 = disk_set ((dk_files d)(wi_tmp io \<mapsto> wi_partial io)) d in
         if wi_outcome io = FailLater then (False, disk_set ((dk_files d1)(wi_tmp io := None)) d1)
         else
           (let d2 = disk_set ((dk_files d1)(wi_tmp io \<mapsto> data)) d1 in
            (True, disk_set ((dk_files d2)(path \<mapsto> data, wi_tmp io := None)) d2))))"

subsection \<open>The store\<close>

record store_paths =
  sp_path :: string
  sp_last_good :: string

text \<open>\<open>filepath.Ext\<close>: from the last dot of the last element.\<close>

definition file_ext :: "string \<Rightarrow> string" where
  "file_ext p = (let e = rev (takeWhile (\<lambda>c. c \<noteq> CHR ''.'' \<and> c \<noteq> CHR ''/'') (rev p)); n = length p - length e
     in if n \<noteq> 0 \<and> p ! (n - 1) = CHR ''.'' then CHR ''.'' # e else '''')"

definition new_store :: "string \<Rightarrow> store_paths" where
  "new_store path = (let ext = file_ext path in
     \<lparr>sp_path = path, sp_last_good = take (length path - length ext) path @ ''.last-good'' @ ext\<rparr>)"

definition history_path :: "store_paths \<Rightarrow> string" where
  "history_path s = sp_path s @ ''.history''"

record config_load_result =
  ld_config :: config
  ld_source :: string
  ld_primary_err :: "load_error option"

text \<open>\<open>err\<close> is a failure to read a file that exists.\<close>

definition read_file :: "(string \<Rightarrow> string option) \<Rightarrow> string \<Rightarrow> 'b disk \<Rightarrow> load_error + 'b" where
  "read_file err path d = (case err path of
      Some e \<Rightarrow> Inl (IOError e)
    | None \<Rightarrow> (case dk_files d path of None \<Rightarrow> Inl NotExist | Some b \<Rightarrow> Inr b))"

definition load_fallback ::
  "'b codec \<Rightarrow> platform \<Rightarrow> (string \<Rightarrow> string option) \<Rightarrow> store_paths \<Rightarrow> load_error \<Rightarrow> 'b disk \<Rightarrow> config_load_result" where
  "load_fallback cd P err s e d = (case read_file err (sp_last_good s) d of
      Inr lb \<Rightarrow> (case parse cd P lb of
          Inr c \<Rightarrow> \<lparr>ld_config = c, ld_source = ''last_good'', ld_primary_err = Some e\<rparr>
        | Inl _ \<Rightarrow> \<lparr>ld_config = default_config, ld_source = ''default'', ld_primary_err = Some e\<rparr>)
    | Inl _ \<Rightarrow> \<lparr>ld_config = default_config, ld_source = ''default'', ld_primary_err = Some e\<rparr>)"

definition load_primary ::
  "'b codec \<Rightarrow> 'b write_io \<Rightarrow> 'b write_io \<Rightarrow> (string \<Rightarrow> string option) \<Rightarrow> store_paths \<Rightarrow> config \<Rightarrow> bool
     \<Rightarrow> 'b \<Rightarrow> 'b disk \<Rightarrow> config_load_result \<times> 'b disk" where
  "load_primary cd io1 io2 err s c merged b d =
     (let (ok, d1) = (if merged then write_file_atomic io1 (sp_path s) (cd_encode cd c) d else (False, d));
          b1 = (if ok then cd_encode cd c else b);
          d2 = (if read_file err (sp_last_good s) d1 = Inr b1 then d1
                else snd (write_file_atomic io2 (sp_last_good s) b1 d1))
      in (\<lparr>ld_config = c, ld_source = ''primary'', ld_primary_err = None\<rparr>, d2))"

definition load ::
  "'b codec \<Rightarrow> platform \<Rightarrow> 'b write_io \<Rightarrow> 'b write_io \<Rightarrow> (string \<Rightarrow> string option) \<Rightarrow> store_paths \<Rightarrow> 'b disk
     \<Rightarrow> (load_error + config_load_result) \<times> 'b disk" where
  "load cd P io1 io2 err s d = (case read_file err (sp_path s) d of
      Inr b \<Rightarrow> (case parse_doc cd P b of
          Inr (c, merged) \<Rightarrow> (case load_primary cd io1 io2 err s c merged b d of (r, d') \<Rightarrow> (Inr r, d'))
        | Inl e \<Rightarrow> (Inr (load_fallback cd P err s e d), d))
    | Inl NotExist \<Rightarrow>
        (let out = cd_encode cd default_config; (ok, d1) = write_file_atomic io1 (sp_path s) out d in
         if \<not> ok then (Inl (IOError ''write''), d1)
         else (Inr \<lparr>ld_config = default_config, ld_source = ''default'', ld_primary_err = None\<rparr>,
               snd (write_file_atomic io2 (sp_last_good s) out d1)))
    | Inl e \<Rightarrow> (Inr (load_fallback cd P err s e d), d))"

datatype save_error = SaveInvalid "field_error list" | SaveIO | SaveHistory load_error

definition save ::
  "'b codec \<Rightarrow> platform \<Rightarrow> 'b write_io \<Rightarrow> 'b write_io \<Rightarrow> store_paths \<Rightarrow> config \<Rightarrow> 'b disk \<Rightarrow> save_error option \<times> 'b disk" where
  "save cd P io1 io2 s c d =
     (if validate P c \<noteq> [] then (Some (SaveInvalid (validate P c)), d)
      else
        (let b = cd_encode cd c; (ok1, d1) = write_file_atomic io1 (sp_path s) b d in
         if \<not> ok1 then (Some SaveIO, d1)
         else
           (let (ok2, d2) = write_file_atomic io2 (sp_last_good s) b d1 in
            (if ok2 then None else Some SaveIO, d2))))"

subsection \<open>The history of versions\<close>

definition history_limit :: nat where
  "history_limit = 20"

definition last_versions :: "'b history_version list \<Rightarrow> 'b history_version list" where
  "last_versions vs = (if history_limit < length vs then drop (length vs - history_limit) vs else vs)"

definition history_error :: "load_error \<Rightarrow> bool" where
  "history_error e = (e = BadDocument)"

text \<open>Reading the history commits the pending version exactly when the primary file holds it.\<close>

definition read_history ::
  "'b codec \<Rightarrow> (string \<Rightarrow> string option) \<Rightarrow> store_paths \<Rightarrow> 'b disk \<Rightarrow> load_error + 'b history_file" where
  "read_history cd err s d = (case read_file err (history_path s) d of
      Inl NotExist \<Rightarrow> Inr \<lparr>hf_versions = [], hf_pending = None\<rparr>
    | Inl e \<Rightarrow> Inl e
    | Inr b \<Rightarrow> (case cd_decode_history cd b of
        None \<Rightarrow> Inl BadDocument
      | Some h \<Rightarrow>
          (let vs = (case hf_pending h of
               None \<Rightarrow> hf_versions h
             | Some p \<Rightarrow>
                 (case read_file err (sp_path s) d of
                    Inr active \<Rightarrow>
                      (if cd_compact cd active \<noteq> None \<and> cd_compact cd active = cd_compact cd (hv_config p)
                       then hf_versions h @ [p] else hf_versions h)
                  | Inl _ \<Rightarrow> hf_versions h))
           in Inr \<lparr>hf_versions = last_versions vs, hf_pending = None\<rparr>)))"

definition write_history ::
  "'b codec \<Rightarrow> 'b write_io \<Rightarrow> store_paths \<Rightarrow> 'b history_file \<Rightarrow> 'b disk \<Rightarrow> bool \<times> 'b disk" where
  "write_history cd io s h d = (case cd_encode_history cd h of
      None \<Rightarrow> (False, d)
    | Some b \<Rightarrow> write_file_atomic io (history_path s) b d)"

text \<open>What \<open>SaveVersion\<close> meets: read errors, the new identifiers (\<open>None\<close> when randomness fails), the
  name an unreadable history is moved to and whether the move succeeds, and the four writes.\<close>

record 'b save_io =
  si_err :: "string \<Rightarrow> string option"
  si_ids :: "string option \<times> string option"
  si_moved_to :: string
  si_rename_ok :: bool
  si_journal :: "'b write_io"
  si_primary :: "'b write_io"
  si_commit :: "'b write_io"
  si_last_good :: "'b write_io"

definition initial_version :: "'b codec \<Rightarrow> string \<Rightarrow> time \<Rightarrow> config \<Rightarrow> 'b history_version" where
  "initial_version cd i now old = \<lparr>hv_entry = \<lparr>he_id = i, he_time = now, he_actor = ''initial'', he_restore_of = '''',
     he_changes = []\<rparr>, hv_config = cd_encode cd old\<rparr>"

definition next_version :: "'b codec \<Rightarrow> string \<Rightarrow> time \<Rightarrow> string \<Rightarrow> string \<Rightarrow> config \<Rightarrow> config \<Rightarrow> 'b history_version" where
  "next_version cd i now actor restore_of old next = \<lparr>hv_entry = \<lparr>he_id = i, he_time = now, he_actor = actor,
     he_restore_of = restore_of, he_changes = history_diff old next\<rparr>, hv_config = cd_encode cd next\<rparr>"

text \<open>The history to extend: an unreadable file is moved aside and replaced by an empty history.\<close>

definition open_history ::
  "'b codec \<Rightarrow> 'b save_io \<Rightarrow> store_paths \<Rightarrow> 'b disk \<Rightarrow> (save_error + (string \<times> 'b history_file)) \<times> 'b disk" where
  "open_history cd io s d = (case read_history cd (si_err io) s d of
      Inr h \<Rightarrow> (Inr ('''', h), d)
    | Inl e \<Rightarrow>
        (if history_error e then
           (if si_rename_ok io then
              (Inr (si_moved_to io, \<lparr>hf_versions = [], hf_pending = None\<rparr>),
               disk_set ((dk_files d)(si_moved_to io := dk_files d (history_path s), history_path s := None)) d)
            else (Inl SaveIO, d))
         else (Inl (SaveHistory e), d)))"

text \<open>The writes: the journal with the pending version, the primary file, then the committed history
  and the last-good copy, whose failures are ignored.\<close>

definition install_version ::
  "'b codec \<Rightarrow> 'b save_io \<Rightarrow> store_paths \<Rightarrow> 'b history_version list \<Rightarrow> 'b history_version \<Rightarrow> 'b \<Rightarrow> 'b disk
     \<Rightarrow> save_error option \<times> 'b disk" where
  "install_version cd io s vs p b d =
     (let (ok1, d1) = write_history cd (si_journal io) s \<lparr>hf_versions = vs, hf_pending = Some p\<rparr> d in
      if \<not> ok1 then (Some SaveIO, d1)
      else
        (let (ok2, d2) = write_file_atomic (si_primary io) (sp_path s) b d1 in
         if \<not> ok2 then (Some SaveIO, d2)
         else
           (let (_, d3) = write_history cd (si_commit io) s
                    \<lparr>hf_versions = last_versions (vs @ [p]), hf_pending = None\<rparr> d2;
                (_, d4) = write_file_atomic (si_last_good io) (sp_last_good s) b d3
            in (None, d4))))"

definition save_version ::
  "'b codec \<Rightarrow> platform \<Rightarrow> 'b save_io \<Rightarrow> store_paths \<Rightarrow> config \<Rightarrow> config \<Rightarrow> string \<Rightarrow> time \<Rightarrow> string \<Rightarrow> 'b disk
     \<Rightarrow> (save_error + string) \<times> 'b disk" where
  "save_version cd P io s old next actor now restore_of d =
     (if validate P next \<noteq> [] then (Inl (SaveInvalid (validate P next)), d)
      else (case open_history cd io s d of
          (Inl e, d1) \<Rightarrow> (Inl e, d1)
        | (Inr (reset, h), d1) \<Rightarrow>
            (case (if hf_versions h = [] then map_option (\<lambda>i. [initial_version cd i now old]) (fst (si_ids io))
                   else Some (hf_versions h)) of
               None \<Rightarrow> (Inl SaveIO, d1)
             | Some vs \<Rightarrow> (case snd (si_ids io) of
                 None \<Rightarrow> (Inl SaveIO, d1)
               | Some i \<Rightarrow>
                   (case install_version cd io s vs (next_version cd i now actor restore_of old next) (cd_encode cd next) d1 of
                      (Some e, d2) \<Rightarrow> (Inl e, d2)
                    | (None, d2) \<Rightarrow> (Inr reset, d2))))))"

definition history ::
  "'b codec \<Rightarrow> (string \<Rightarrow> string option) \<Rightarrow> store_paths \<Rightarrow> 'b disk \<Rightarrow> load_error + history_entry list" where
  "history cd err s d = map_sum id (\<lambda>h. rev (map hv_entry (hf_versions h))) (read_history cd err s d)"

datatype history_config_error = HistoryUnreadable load_error | ErrHistoryNotFound | BadVersion load_error

definition history_config ::
  "'b codec \<Rightarrow> platform \<Rightarrow> (string \<Rightarrow> string option) \<Rightarrow> store_paths \<Rightarrow> string \<Rightarrow> 'b disk \<Rightarrow> history_config_error + config" where
  "history_config cd P err s i d = (case read_history cd err s d of
      Inl e \<Rightarrow> Inl (HistoryUnreadable e)
    | Inr h \<Rightarrow> (case find (\<lambda>v. he_id (hv_entry v) = i) (hf_versions h) of
        None \<Rightarrow> Inl ErrHistoryNotFound
      | Some v \<Rightarrow> map_sum BadVersion id (parse cd P (hv_config v))))"

datatype verify_error = ErrPrimaryUnusable | ErrConflict

definition verify_current ::
  "'b codec \<Rightarrow> platform \<Rightarrow> (string \<Rightarrow> string option) \<Rightarrow> store_paths \<Rightarrow> config \<Rightarrow> 'b disk \<Rightarrow> verify_error option" where
  "verify_current cd P err s current d = (case read_file err (sp_path s) d of
      Inl _ \<Rightarrow> Some ErrPrimaryUnusable
    | Inr b \<Rightarrow> (case parse cd P b of
        Inl _ \<Rightarrow> Some ErrPrimaryUnusable
      | Inr c \<Rightarrow> (if parse cd P (cd_encode cd current) = Inr c then None else Some ErrConflict)))"

end
