(* ===== verification/Validate_Correct.thy ===== *)
theory Validate_Correct
  imports Validate Schedule
begin

text \<open>
  What a configuration that passes validation guarantees: the runtime is confined to the machine, the
  profiles and schedules the policy reads exist and are consistent, token files stay in the data
  folder; and the shipped configuration, on which the service falls back, passes.
\<close>

lemma add_if_Nil [simp]: "add_if b f m a = [] \<longleftrightarrow> \<not> b"
  by (simp add: add_if_def)

lemma if_Nil: "(if b then x # xs else []) = [] \<longleftrightarrow> \<not> b"
  by simp

lemma range_Nil [simp]:
  "dur_range f d lo hi = [] \<longleftrightarrow> lo \<le> d \<and> d \<le> hi"
  "int_range f x lo hi = [] \<longleftrightarrow> lo \<le> x \<and> x \<le> hi"
  "pct_range f y = [] \<longleftrightarrow> 0 < y \<and> y \<le> 100"
  by (auto simp: dur_range_def int_range_def pct_range_def)

lemma each_Nil: "each f xs = [] \<longleftrightarrow> (\<forall>i < length xs. f i (xs ! i) = [])"
  by (simp add: each_def all_set_conv_all_nth nth_enumerate_eq)

lemma each_NilD: "each f xs = [] \<Longrightarrow> x \<in> set xs \<Longrightarrow> \<exists>i. f i x = []"
  by (auto simp: each_Nil in_set_conv_nth)

lemma validate_Nil: "validate P c = [] \<longleftrightarrow> validate_all P c = []"
  by (metis validate_def length_0_conv length_sort)

definition iterates_all :: "platform \<Rightarrow> bool" where
  "iterates_all P \<longleftrightarrow> (\<forall>xs. set (pl_map_order P xs) = set xs)"

lemma token_files_required:
  assumes "iterates_all P" and "validate_rest P c = []"
  shows "\<forall>(f, p) \<in> set (token_files c). p \<noteq> ''''"
  using assms by (simp add: validate_rest_def iterates_all_def Let_def case_prod_unfold)

lemma validate_sections:
  assumes "validate P c = []"
  shows "validate_runtime P (cf_runtime c) = []" "validate_listen c = []" "validate_limits c = []"
    "validate_profiles P c = []" "validate_timers c = []" "validate_rest P c = []"
  using assms by (simp_all add: validate_Nil validate_all_def)

subsection \<open>Schedules and rules\<close>

lemma schedules_Nil:
  "validate_schedules c i seen ss = [] \<Longrightarrow> distinct (map sc_name ss) \<and> set (map sc_name ss) \<inter> set seen = {}
     \<and> (\<forall>s \<in> set ss. profile_find c (sc_profile s) \<noteq> None \<and> clock_minutes (sc_start s) \<noteq> None
          \<and> clock_minutes (sc_end s) \<noteq> None \<and> clock_minutes (sc_start s) \<noteq> clock_minutes (sc_end s)
          \<and> sc_days s \<noteq> [] \<and> (\<forall>d \<in> set (sc_days s). weekday d \<noteq> None))"
proof (induction ss arbitrary: i seen)
  case (Cons s ss)
  have s: "validate_schedule c (indexed ''schedules'' i) s = []" "sc_name s \<notin> set seen"
    "validate_schedules c (i + 1) (sc_name s # seen) ss = []" using Cons.prems by simp_all
  have days: "\<forall>d \<in> set (sc_days s). weekday d \<noteq> None"
    using s(1) each_NilD [of "validate_day (indexed ''schedules'' i)" "sc_days s"]
    by (auto simp: validate_schedule_def validate_day_def Let_def)
  have "profile_find c (sc_profile s) \<noteq> None \<and> clock_minutes (sc_start s) \<noteq> None
      \<and> clock_minutes (sc_end s) \<noteq> None \<and> clock_minutes (sc_start s) \<noteq> clock_minutes (sc_end s) \<and> sc_days s \<noteq> []"
    using s(1) unfolding validate_schedule_def Let_def append_is_Nil_conv add_if_Nil by blast
  with days Cons.IH [OF s(3)] s(2) show ?case
    by (simp only: list.map list.set distinct.simps ball_simps) blast
qed simp

lemma apps_Nil:
  "validate_apps i seen rs = [] \<Longrightarrow> distinct (filter (\<lambda>x. x \<noteq> '''') (map ar_id rs))
     \<and> set (filter (\<lambda>x. x \<noteq> '''') (map ar_id rs)) \<inter> set seen = {}"
proof (induction rs arbitrary: i seen)
  case (Cons r rs)
  then have "validate_apps (i + 1) (ar_id r # seen) rs = []" "ar_id r = '''' \<or> ar_id r \<notin> set seen" by simp_all
  from Cons.IH [OF this(1)] this(2) show ?case by (cases "ar_id r = ''''") auto
qed simp

lemma profiles_Nil:
  assumes "validate_profiles P c = []" and "profile_find c n \<noteq> None"
  shows "validate_profile (cf_contention c) (''profiles.'' @ n) (profile_get c n) = []"
proof -
  have "n \<in> set (map fst (cf_profiles c))"
    using assms(2) by (auto simp: profile_find_def dest: map_of_SomeD intro: rev_image_eqI)
  then show ?thesis using assms(1) by (auto simp: validate_profiles_def)
qed

lemma active_scan_profile: "active_scan ss t = Some (n, src) \<Longrightarrow> \<exists>s \<in> set ss. sc_profile s = n"
  by (induction ss t rule: active_scan.induct) (auto split: if_splits)

subsection \<open>Token files\<close>

text \<open>Following the segments of a relative path from a directory.\<close>

fun follow :: "string list \<Rightarrow> string list \<Rightarrow> string list" where
  "follow d [] = d"
| "follow d (g # gs) = (if g = '''' \<or> g = ''.'' then follow d gs
     else if g = ''..'' then follow (butlast d) gs else follow (d @ [g]) gs)"

lemma follow_inside: "''..'' \<notin> set gs \<Longrightarrow> follow d gs = d @ filter (\<lambda>g. g \<noteq> '''' \<and> g \<noteq> ''.'') gs"
  by (induction d gs rule: follow.induct) auto

definition path_segments :: "string \<Rightarrow> string list" where
  "path_segments p = split_char (CHR ''/'') (replace_char (CHR 0x5C) (CHR ''/'') p)"

lemma split_char_set: "g \<in> set (split_char c s) \<Longrightarrow> set g \<subseteq> set s - {c}"
proof (induction s arbitrary: g)
  case (Cons a s)
  show ?case
  proof (cases "split_char c s")
    case (Cons w ws)
    then show ?thesis using Cons.prems Cons.IH [of g] Cons.IH [of w] by (cases "a = c") auto
  qed simp
qed simp

lemma data_relative_inside:
  assumes "data_relative p = None"
  shows "\<exists>xs. xs \<noteq> [] \<and> (\<forall>d. follow d (path_segments p) = d @ xs)
    \<and> (\<forall>x \<in> set xs. x \<notin> {'''', ''.'', ''..''} \<and> CHR '':'' \<notin> set x \<and> CHR ''/'' \<notin> set x \<and> CHR 0x5C \<notin> set x)"
proof (intro exI conjI allI ballI)
  let ?s = "replace_char (CHR 0x5C) (CHR ''/'') p" and ?xs = "filter (\<lambda>g. g \<noteq> '''' \<and> g \<noteq> ''.'') (path_segments p)"
  have ok: "CHR '':'' \<notin> set ?s" "''..'' \<notin> set (path_segments p)" "\<not> list_all (\<lambda>g. g = '''' \<or> g = ''.'') (path_segments p)"
    using assms by (auto simp: data_relative_def path_segments_def Let_def split: if_splits)
  show "?xs \<noteq> []" using ok(3) by (auto simp: list_all_iff filter_empty_conv)
  show "follow d (path_segments p) = d @ ?xs" for d by (rule follow_inside [OF ok(2)])
  fix x assume x: "x \<in> set ?xs"
  then show "x \<notin> {'''', ''.'', ''..''}" using ok(2) by auto
  have "set x \<subseteq> set ?s - {CHR ''/''}" using x split_char_set [of x "CHR ''/''" ?s] by (simp add: path_segments_def)
  moreover have "CHR 0x5C \<notin> set ?s" by (auto simp: replace_char_def)
  ultimately show "CHR '':'' \<notin> set x" "CHR ''/'' \<notin> set x" "CHR 0x5C \<notin> set x" using ok(1) by auto
qed

subsection \<open>A machine to validate on\<close>

definition stock :: platform where
  "stock = \<lparr>pl_native_abs = (\<lambda>p. False), pl_zone_known = (\<lambda>z. z = ''America/Chicago''), pl_map_order = id\<rparr>"

lemma stock_iterates: "iterates_all stock"
  by (simp add: iterates_all_def stock_def)

lemma bare_listen: "validate_listen bare_config = []"
proof -
  have h: "split_host_port ''127.0.0.1:8480'' = Some (''127.0.0.1'', ''8480'')"
    "split_host_port ''127.0.0.1:8481'' = Some (''127.0.0.1'', ''8481'')"
    "atoi ''8480'' = Some 8480" "atoi ''8481'' = Some 8481"
    "parse_ip ''127.0.0.1'' = Some (mapped_v4 [127, 0, 0, 1])"
    "is_loopback (mapped_v4 [127, 0, 0, 1])" by code_simp+
  have "char_of (49 :: nat) = CHR ''1''" "char_of (56 :: nat) = CHR ''8''" "char_of (52 :: nat) = CHR ''4''"
    by code_simp+
  then have p: "itoa 18481 = ''18481''" by (simp add: itoa_def utoa.simps)
  show ?thesis
    by (simp add: validate_listen_def bare_config_def shipped_config_def default_runtime_def default_tls_def
      check_listener_def exposed_def is_loopback_host_def add_if_def h p)
qed

lemma shipped_sections:
  "validate_listen (shipped_config apps seen) = []" "validate_limits (shipped_config apps seen) = []"
  "validate_timers (shipped_config apps seen) = []"
proof -
  have l: "validate_listen c = validate_listen c'" if "cf_listen c = cf_listen c'" "cf_runtime c = cf_runtime c'"
    "cf_security c = cf_security c'" for c c' unfolding validate_listen_def that by (rule refl)
  have t: "validate_timers c = validate_timers c'" if "cf_anti_thrash c = cf_anti_thrash c'"
    "cf_recovery c = cf_recovery c'" "cf_modes c = cf_modes c'" "cf_signals c = cf_signals c'" for c c'
    unfolding validate_timers_def that by (rule refl)
  show "validate_listen (shipped_config apps seen) = []"
    using bare_listen by (subst l [of _ bare_config]) (simp_all add: bare_config_def shipped_config_def)
  have "validate_timers bare_config = []" by code_simp
  then show "validate_timers (shipped_config apps seen) = []"
    by (subst t [of _ bare_config]) (simp_all add: bare_config_def shipped_config_def)
qed (simp add: validate_limits_def shipped_config_def)

lemma abs_mono: "is_abs stock p \<Longrightarrow> is_abs P p"
  by (auto simp: is_abs_def stock_def)

lemma default_runtime_valid: "validate_runtime P default_runtime = []"
proof -
  have "validate_runtime stock default_runtime = []" by code_simp
  then show ?thesis by (auto simp: validate_runtime_def dest: abs_mono [of _ P])
qed

lemma shipped_profiles:
  "profile_get (shipped_config apps seen) ''normal'' = normal_profile"
  "profile_get (shipped_config apps seen) ''school_hours'' = school_hours_profile"
  "profile_get (shipped_config apps seen) ''ai_priority'' = ai_priority_profile"
  "sort (map fst (cf_profiles (shipped_config apps seen))) = [''ai_priority'', ''normal'', ''school_hours'']"
proof -
  have "sort [''normal'', ''school_hours'', ''ai_priority''] = [''ai_priority'', ''normal'', ''school_hours'']" by code_simp
  then show "sort (map fst (cf_profiles (shipped_config apps seen))) = [''ai_priority'', ''normal'', ''school_hours'']"
    by (simp add: shipped_config_def)
qed (simp_all add: profile_get_def profile_find_def shipped_config_def)

lemma shipped_profile_checks:
  "validate_profile (cf_contention (shipped_config apps seen)) f normal_profile = []"
  "validate_profile (cf_contention (shipped_config apps seen)) f school_hours_profile = []"
  "validate_profile (cf_contention (shipped_config apps seen)) f ai_priority_profile = []"
  by (simp_all add: validate_profile_def shipped_config_def normal_profile_def school_hours_profile_def
      ai_priority_profile_def)

lemma shipped_schedules: "validate_schedules c 0 [] (cf_schedules (shipped_config apps seen)) = []"
  if "profile_find c ''school_hours'' \<noteq> None"
proof -
  have "clock_minutes ''07:00'' = Some 420" "clock_minutes ''17:00'' = Some 1020"
    "weekday ''mon'' = Some 1" "weekday ''tue'' = Some 2" "weekday ''wed'' = Some 3" "weekday ''thu'' = Some 4"
    "weekday ''fri'' = Some 5" by code_simp+
  then show ?thesis
    using that by (simp add: shipped_config_def validate_schedule_def validate_day_def each_def Let_def)
qed

lemma shipped_apps: "validate_apps 0 [] default_applications = []"
  by code_simp

lemma shipped_valid:
  assumes "pl_zone_known P ''America/Chicago''" and "iterates_all P" and "validate_apps 0 [] apps = []"
  shows "validate P (shipped_config apps seen) = []"
proof -
  let ?c = "shipped_config apps seen"
  have "validate_profiles P ?c = []"
    unfolding validate_profiles_def shipped_profiles
    using shipped_schedules [of ?c apps seen] assms(1,3)
    by (simp add: shipped_profiles shipped_profile_checks) (simp add: shipped_config_def profile_find_def)
  moreover have "validate_rest P ?c = []"
    using assms(2) by (auto simp: validate_rest_def iterates_all_def token_files_def shipped_config_def win_def replace_char_def)
  moreover have "validate_runtime P (cf_runtime ?c) = []"
    using default_runtime_valid by (simp add: shipped_config_def)
  ultimately show ?thesis
    by (simp add: validate_Nil validate_all_def shipped_sections) (simp add: shipped_config_def)
qed

subsection \<open>Properties\<close>


lemma bare_valid: "validate stock bare_config = []"
  unfolding bare_config_def by (rule shipped_valid [OF _ stock_iterates]) (simp_all add: stock_def)


text \<open>C37. A configuration that passes validation is consistent for the policy: the profile that is
  active at any moment exists, as does the one of AI priority; each profile's soft thresholds lie
  below the critical ones and its shortened grace within its grace; schedule and rule names are
  unique; telemetry loss is noticed no sooner than one sample; the resume temperature lies below the
  critical one.\<close>

theorem validated_config_consistent:
  assumes "validate P c = []"
  shows "profile_find c (fst (active tz c now)) \<noteq> None \<and> profile_find c (cf_ai_priority_profile c) \<noteq> None
    \<and> (\<forall>n p. profile_find c n = Some p \<longrightarrow>
         pf_external_util_soft_pct p < ct_external_util_critical_pct (cf_contention c)
         \<and> pf_external_vram_soft_mib p < ct_external_vram_critical_mib (cf_contention c)
         \<and> 0 \<le> pf_grace_under_pressure p \<and> pf_grace_under_pressure p \<le> pf_grace p)
    \<and> distinct (map sc_name (cf_schedules c))
    \<and> distinct (filter (\<lambda>i. i \<noteq> '''') (map ar_id (cf_applications c)))
    \<and> tel_sample_interval (cf_telemetry c) \<le> tel_loss_grace (cf_telemetry c)
    \<and> sf_gpu_temp_resume_c (cf_safety c) < sf_gpu_temp_critical_c (cf_safety c)"
proof (intro conjI allI impI)
  note v = validate_sections [OF assms]
  note pr = v(4) [unfolded validate_profiles_def append_is_Nil_conv add_if_Nil]
  have s: "distinct (map sc_name (cf_schedules c)) \<and> (\<forall>s \<in> set (cf_schedules c). profile_find c (sc_profile s) \<noteq> None)"
    using pr schedules_Nil [of c 0 "[]" "cf_schedules c"] by blast
  then show "distinct (map sc_name (cf_schedules c))" ..
  have d: "profile_find c (cf_default_profile c) \<noteq> None" using pr by blast
  show "profile_find c (fst (active tz c now)) \<noteq> None"
  proof (cases "tz (cf_timezone c)")
    case (Some loc)
    then show ?thesis using d s active_scan_profile [of "cf_schedules c" "loc now"]
      by (cases "active_scan (cf_schedules c) (loc now)") (auto simp: active_def active_in_def)
  qed (use d in \<open>simp add: active_def\<close>)
  show "profile_find c (cf_ai_priority_profile c) \<noteq> None" using pr by blast
  show "distinct (filter (\<lambda>i. i \<noteq> '''') (map ar_id (cf_applications c)))"
    using pr apps_Nil [of 0 "[]" "cf_applications c"] by blast
  show "tel_sample_interval (cf_telemetry c) \<le> tel_loss_grace (cf_telemetry c)"
    "sf_gpu_temp_resume_c (cf_safety c) < sf_gpu_temp_critical_c (cf_safety c)"
    using v(3) by (simp_all add: validate_limits_def Let_def not_le)
  fix n p assume p: "profile_find c n = Some p"
  then have "validate_profile (cf_contention c) (''profiles.'' @ n) p = []"
    using profiles_Nil [OF v(4), of n] by (simp add: profile_get_def)
  then show "pf_external_util_soft_pct p < ct_external_util_critical_pct (cf_contention c)"
    "pf_external_vram_soft_mib p < ct_external_vram_critical_mib (cf_contention c)"
    "0 \<le> pf_grace_under_pressure p" "pf_grace_under_pressure p \<le> pf_grace p"
    by (simp_all add: validate_profile_def not_le split: if_splits)
qed

theorem validated_config_consistent_witness:
  "profile_find bare_config (fst (active (\<lambda>_. None) bare_config 0)) \<noteq> None"
  by (rule conjunct1 [OF validated_config_consistent [OF bare_valid]])

text \<open>The shipped configuration, which the service writes on first run and falls back on, passes
  validation on every machine whose time zone database knows its zone.\<close>

theorem default_config_valid:
  assumes "pl_zone_known P ''America/Chicago''" and "iterates_all P"
  shows "validate P default_config = []"
  unfolding default_config_def by (rule shipped_valid [OF assms shipped_apps])

theorem default_config_valid_witness: "validate stock default_config = []"
  by (rule default_config_valid [OF _ stock_iterates]) (simp add: stock_def)

text \<open>A configuration accepted as a change keeps every token file inside the data folder: its path,
  taken from any directory and with either separator, leads below that directory by names that hold
  no separator, colon or parent step.\<close>

theorem token_files_stay_inside:
  assumes "validate_change P c = []" and "iterates_all P" and "(f, p) \<in> set (token_files c)"
  shows "\<exists>xs. xs \<noteq> [] \<and> (\<forall>d. follow d (path_segments p) = d @ xs)
    \<and> (\<forall>x \<in> set xs. x \<notin> {'''', ''.'', ''..''} \<and> CHR '':'' \<notin> set x \<and> CHR ''/'' \<notin> set x \<and> CHR 0x5C \<notin> set x)"
proof -
  have v: "validate P c = []" using assms(1) by (auto simp: validate_change_def split: if_splits)
  have "p \<noteq> ''''" using token_files_required [OF assms(2) validate_sections(6) [OF v]] assms(3) by blast
  moreover have "(f, p) \<in> set (pl_map_order P (token_files c))" using assms(2,3) by (simp add: iterates_all_def)
  moreover have "\<forall>(g, q) \<in> set (pl_map_order P (token_files c)). q \<noteq> '''' \<longrightarrow> data_relative q = None"
    using assms(1) v by (auto simp: validate_change_def Let_def split: option.splits)
  ultimately show ?thesis by (intro data_relative_inside) blast
qed

theorem token_files_stay_inside_witness:
  "\<exists>xs. xs \<noteq> [] \<and> (\<forall>d. follow d (path_segments (win ''secrets/agent.token'')) = d @ xs)"
proof -
  have d: "data_relative (win ''secrets/management.token'') = None"
    "data_relative (win ''secrets/inference.token'') = None"
    "data_relative (win ''secrets/agent.token'') = None" by code_simp+
  have "validate_change stock bare_config = []"
    unfolding validate_change_def bare_valid
    by (simp add: token_files_def stock_def bare_config_def shipped_config_def default_tls_def d)
  from token_files_stay_inside [OF this stock_iterates, of "''security.agent_token_file''"]
  show ?thesis by (auto simp: token_files_def bare_config_def shipped_config_def)
qed

subsection \<open>Ports are compared as text\<close>

lemma validate_listen_only:
  "validate_schedules (c\<lparr>cf_listen := l\<rparr>) i seen ss = validate_schedules c i seen ss"
  "validate_profiles P (c\<lparr>cf_listen := l\<rparr>) = validate_profiles P c"
proof -
  show s: "validate_schedules (c\<lparr>cf_listen := l\<rparr>) i seen ss = validate_schedules c i seen ss" for i seen ss
    by (induction ss arbitrary: i seen) (simp_all add: validate_schedule_def profile_find_def)
  show "validate_profiles P (c\<lparr>cf_listen := l\<rparr>) = validate_profiles P c"
    by (simp add: validate_profiles_def profile_get_def profile_find_def s)
qed

definition clashing_listeners :: config where
  "clashing_listeners = bare_config\<lparr>cf_listen := (cf_listen bare_config)\<lparr>ls_management := ''127.0.0.1:08480''\<rparr>\<rparr>"

text \<open>Two listeners on one port pass validation when the port is written in two ways: the check
  compares the text of the ports, while the listeners bind their numbers.\<close>

theorem port_clash_accepted:
  "validate stock clashing_listeners = []
   \<and> split_host_port (ls_inference (cf_listen clashing_listeners)) = Some (''127.0.0.1'', ''8480'')
   \<and> split_host_port (ls_management (cf_listen clashing_listeners)) = Some (''127.0.0.1'', ''08480'')
   \<and> atoi ''08480'' = atoi ''8480''"
proof -
  have h: "split_host_port ''127.0.0.1:8480'' = Some (''127.0.0.1'', ''8480'')"
    "split_host_port ''127.0.0.1:08480'' = Some (''127.0.0.1'', ''08480'')"
    "atoi ''8480'' = Some 8480" "atoi ''08480'' = Some 8480"
    "parse_ip ''127.0.0.1'' = Some (mapped_v4 [127, 0, 0, 1])"
    "is_loopback (mapped_v4 [127, 0, 0, 1])" by code_simp+
  have l: "ls_inference (cf_listen clashing_listeners) = ''127.0.0.1:8480''"
    "ls_management (cf_listen clashing_listeners) = ''127.0.0.1:08480''"
    "tls_enabled (ls_inference_tls (cf_listen clashing_listeners)) = False"
    "rt_port (cf_runtime clashing_listeners) = 18481"
    by (simp_all add: clashing_listeners_def bare_config_def shipped_config_def default_runtime_def default_tls_def)
  have "char_of (49 :: nat) = CHR ''1''" "char_of (56 :: nat) = CHR ''8''" "char_of (52 :: nat) = CHR ''4''"
    by code_simp+
  then have p: "itoa 18481 = ''18481''" by (simp add: itoa_def utoa.simps)
  have "validate_listen clashing_listeners = []"
    by (simp add: validate_listen_def l check_listener_def exposed_def is_loopback_host_def add_if_def h p)
  moreover have "validate_all stock bare_config = []" using bare_valid by (simp add: validate_Nil)
  ultimately have "validate stock clashing_listeners = []"
    by (simp add: validate_Nil validate_all_def clashing_listeners_def validate_listen_only validate_limits_def
      validate_timers_def validate_rest_def token_files_def)
  then show ?thesis by (simp add: l h)
qed

end
