(* ===== verification/Config_Store_Correct.thy ===== *)
theory Config_Store_Correct
  imports Config_Store Defaults_Correct Validate_Correct
begin

text \<open>
  What the configuration store guarantees: a load yields a valid configuration and leaves a broken
  file alone, a saved configuration is the one loaded next, and a crash at any moment of a save leaves
  the primary file and the history in agreement.
\<close>

subsection \<open>The codec\<close>

definition compact_version :: "'b codec \<Rightarrow> 'b history_version \<Rightarrow> 'b history_version" where
  "compact_version cd v = (case cd_compact cd (hv_config v) of Some y \<Rightarrow> v\<lparr>hv_config := y\<rparr> | None \<Rightarrow> v)"

definition compact_history :: "'b codec \<Rightarrow> 'b history_file \<Rightarrow> 'b history_file" where
  "compact_history cd h = \<lparr>hf_versions = map (compact_version cd) (hf_versions h),
     hf_pending = map_option (compact_version cd) (hf_pending h)\<rparr>"

text \<open>What \<open>encoding/json\<close> documents: a configuration is decoded as it was encoded, its encoding is a
  document; compacting keeps the value and is idempotent; a history file is decoded as it was encoded,
  with the raw documents in it compacted.\<close>

definition codec_ok :: "'b codec \<Rightarrow> bool" where
  "codec_ok cd \<longleftrightarrow> (\<forall>c. cd_decode cd (cd_encode cd c) = Some c)
     \<and> (\<forall>c. cd_compact cd (cd_encode cd c) \<noteq> None)
     \<and> (\<forall>x y. cd_compact cd x = Some y \<longrightarrow> cd_decode cd y = cd_decode cd x \<and> cd_compact cd y = Some y)
     \<and> (\<forall>h b. cd_encode_history cd h = Some b \<longrightarrow> cd_decode_history cd b = Some (compact_history cd h))"

lemma codecD:
  assumes "codec_ok cd"
  shows "cd_decode cd (cd_encode cd c) = Some c" "\<exists>k. cd_compact cd (cd_encode cd c) = Some k"
    "cd_compact cd x = Some y \<Longrightarrow> cd_decode cd y = cd_decode cd x \<and> cd_compact cd y = Some y"
    "cd_encode_history cd h = Some b \<Longrightarrow> cd_decode_history cd b = Some (compact_history cd h)"
  using assms unfolding codec_ok_def by blast+

lemma parse_cong: "cd_decode cd x = cd_decode cd y \<Longrightarrow> parse cd P x = parse cd P y"
  by (simp add: parse_def parse_doc_def)

lemma parse_compact:
  assumes "codec_ok cd" and "cd_compact cd x = Some k" and "cd_compact cd y = Some k"
  shows "parse cd P x = parse cd P y"
  using codecD(3) [OF assms(1,2)] codecD(3) [OF assms(1,3)] by (intro parse_cong) simp

lemma parse_compact_version:
  "codec_ok cd \<Longrightarrow> parse cd P (hv_config (compact_version cd v)) = parse cd P (hv_config v)"
  by (cases "cd_compact cd (hv_config v)") (auto simp: compact_version_def dest: codecD(3) intro!: parse_cong)

subsection \<open>Loading\<close>

lemma upgrade_settles: "upgrade (upgrade c) = upgrade c"
proof -
  have "upgrade_runtime (upgrade_runtime r) = upgrade_runtime r" for r by (simp add: upgrade_runtime_def Let_def)
  moreover have "upgrade_tls (upgrade_tls t) = upgrade_tls t" for t by (simp add: upgrade_tls_def)
  ultimately show ?thesis by (simp add: upgrade_def)
qed

lemma upgrade_merge: "upgrade (fst (merge_builtin_rules c)) = fst (merge_builtin_rules (upgrade c))"
  by (simp add: upgrade_def merge_builtin_rules_def case_prod_unfold)

text \<open>A configuration that loading leaves as it is.\<close>

definition settled :: "platform \<Rightarrow> config \<Rightarrow> bool" where
  "settled P c \<longleftrightarrow> upgrade c = c \<and> merge_builtin_rules c = (c, False) \<and> validate P c = []"

lemma parsed_settled:
  assumes "parse_doc cd P b = Inr (c, m)"
  shows "settled P c"
proof -
  obtain c0 where m: "merge_builtin_rules (upgrade c0) = (c, m)" and v: "validate P c = []"
    using assms by (auto simp: parse_doc_def Let_def split: option.splits prod.splits if_splits)
  from m have c: "c = fst (merge_builtin_rules (upgrade c0))" by simp
  have "upgrade c = c" using upgrade_merge [of "upgrade c0"] by (simp add: c upgrade_settles)
  moreover have "merge_builtin_rules c = (c, False)" using merge_builtin_settles [of "upgrade c0"] by (simp add: c)
  ultimately show ?thesis using v by (simp add: settled_def)
qed

lemma parse_settled: "codec_ok cd \<Longrightarrow> settled P c \<Longrightarrow> parse_doc cd P (cd_encode cd c) = Inr (c, False)"
  by (simp add: parse_doc_def settled_def codecD(1))

lemma parse_Inr: "parse cd P b = Inr c \<longleftrightarrow> (\<exists>m. parse_doc cd P b = Inr (c, m))"
  by (cases "parse_doc cd P b") (auto simp: parse_def)

lemma load_fallback_source:
  "ld_source (load_fallback cd P err s e d) \<in> {''last_good'', ''default''}
   \<and> ld_primary_err (load_fallback cd P err s e d) = Some e
   \<and> (ld_config (load_fallback cd P err s e d) = default_config \<or> settled P (ld_config (load_fallback cd P err s e d)))"
  by (auto simp: load_fallback_def parse_Inr dest: parsed_settled split: sum.split)

subsection \<open>Writes\<close>

text \<open>What the reader of a crashed disk sees: the primary file and the history.\<close>

definition view :: "store_paths \<Rightarrow> (string \<rightharpoonup> 'b) \<Rightarrow> 'b option \<times> 'b option" where
  "view s f = (f (sp_path s), f (history_path s))"

definition views :: "store_paths \<Rightarrow> 'b disk \<Rightarrow> ('b option \<times> 'b option) set" where
  "views s d = view s ` crash_points d"

definition apart :: "store_paths \<Rightarrow> string \<Rightarrow> bool" where
  "apart s p \<longleftrightarrow> p \<noteq> sp_path s \<and> p \<noteq> history_path s"

lemma views_set [simp]: "views s (disk_set f d) = insert (view s f) (views s d)"
  "dk_files (disk_set f d) = f"
  by (auto simp: views_def crash_points_def disk_set_def)

lemma current_view: "view s (dk_files d) \<in> views s d"
  by (simp add: views_def crash_points_def)

lemma history_path_other [simp]: "history_path s \<noteq> sp_path s" "sp_path s \<noteq> history_path s"
  by (simp_all add: history_path_def)

lemma apart_view [simp]: "apart s p \<Longrightarrow> view s (f(p := x)) = view s f"
  by (auto simp: view_def apart_def)

lemma write_views:
  assumes "write_file_atomic io path data d = (ok, d')" and "apart s (wi_tmp io)"
  shows "view s (dk_files d') = (if ok then view s ((dk_files d)(path \<mapsto> data)) else view s (dk_files d))"
    and "views s d' \<subseteq> insert (view s (dk_files d')) (views s d)"
proof -
  have same: "view s ((dk_files d)(path \<mapsto> data, wi_tmp io := None)) = view s ((dk_files d)(path \<mapsto> data))"
    "view s ((dk_files d)(wi_tmp io := x)) = view s (dk_files d)" for x using assms(2) by simp_all
  show "view s (dk_files d') = (if ok then view s ((dk_files d)(path \<mapsto> data)) else view s (dk_files d))"
    using assms same(2) [of None]
    by (auto simp: write_file_atomic_def Let_def view_def apart_def split: if_splits)
  show "views s d' \<subseteq> insert (view s (dk_files d')) (views s d)"
    using assms current_view [of s d] by (auto simp: write_file_atomic_def Let_def split: if_splits)
qed

lemma view_path: "view s (f(sp_path s \<mapsto> b)) = (Some b, f (history_path s))"
  "view s (f(history_path s \<mapsto> b)) = (f (sp_path s), Some b)"
  by (simp_all add: view_def)

subsection \<open>The history a reader recovers\<close>

definition recovered :: "'b codec \<Rightarrow> 'b option \<times> 'b option \<Rightarrow> load_error + 'b history_version list" where
  "recovered cd v = (case snd v of
      None \<Rightarrow> Inr []
    | Some x \<Rightarrow> (case cd_decode_history cd x of
        None \<Rightarrow> Inl BadDocument
      | Some h \<Rightarrow> Inr (last_versions (case hf_pending h of
            None \<Rightarrow> hf_versions h
          | Some p \<Rightarrow> (case fst v of
              None \<Rightarrow> hf_versions h
            | Some cur \<Rightarrow>
                (if cd_compact cd cur \<noteq> None \<and> cd_compact cd cur = cd_compact cd (hv_config p)
                 then hf_versions h @ [p] else hf_versions h))))))"

lemma read_history_recovered:
  "read_history cd (\<lambda>_. None) s d = map_sum id (\<lambda>vs. \<lparr>hf_versions = vs, hf_pending = None\<rparr>)
     (recovered cd (view s (dk_files d)))"
  by (simp add: read_history_def recovered_def read_file_def view_def Let_def split: option.split)

definition agree_view :: "'b codec \<Rightarrow> platform \<Rightarrow> 'b option \<times> 'b option \<Rightarrow> bool" where
  "agree_view cd P v = (case recovered cd v of
      Inl _ \<Rightarrow> True
    | Inr vs \<Rightarrow> vs = [] \<or> (\<exists>b. fst v = Some b \<and> parse cd P (hv_config (last vs)) = parse cd P b))"

text \<open>The history that can be read ends with the version that is in the primary file.\<close>

definition agree :: "'b codec \<Rightarrow> platform \<Rightarrow> store_paths \<Rightarrow> (string \<rightharpoonup> 'b) \<Rightarrow> bool" where
  "agree cd P s f = (case read_history cd (\<lambda>_. None) s \<lparr>dk_files = f, dk_past = []\<rparr> of
      Inl _ \<Rightarrow> True
    | Inr h \<Rightarrow> hf_versions h = [] \<or> (\<exists>b. f (sp_path s) = Some b
        \<and> parse cd P (hv_config (last (hf_versions h))) = parse cd P b))"

lemma agree_agree_view: "agree cd P s f = agree_view cd P (view s f)"
  by (simp add: agree_def agree_view_def read_history_recovered view_def split: sum.split)

lemma last_versions_last:
  "vs \<noteq> [] \<Longrightarrow> last_versions vs \<noteq> [] \<and> last (last_versions vs) = last vs"
  by (auto simp: last_versions_def history_limit_def)

lemma agree_none [simp]: "agree_view cd P (b, None)"
  by (simp add: agree_view_def recovered_def)

lemma compact_history_simps [simp]:
  "hf_versions (compact_history cd h) = map (compact_version cd) (hf_versions h)"
  "hf_pending (compact_history cd h) = map_option (compact_version cd) (hf_pending h)"
  by (simp_all add: compact_history_def)

lemma agree_committed:
  assumes cd: "codec_ok cd" and vs: "vs \<noteq> []"
    and e: "cd_encode_history cd \<lparr>hf_versions = vs, hf_pending = None\<rparr> = Some h"
    and p: "parse cd P (hv_config (last vs)) = parse cd P b"
  shows "agree_view cd P (Some b, Some h)"
proof -
  have "last_versions (map (compact_version cd) vs) \<noteq> []
      \<and> hv_config (last (last_versions (map (compact_version cd) vs))) = hv_config (compact_version cd (last vs))"
    using last_versions_last [of "map (compact_version cd) vs"] vs by (simp add: last_map)
  then show ?thesis
    using codecD(4) [OF cd e] p parse_compact_version [OF cd, of P "last vs"]
    by (simp add: agree_view_def recovered_def)
qed

lemma agree_journal:
  assumes cd: "codec_ok cd" and vs: "vs \<noteq> []"
    and e: "cd_encode_history cd \<lparr>hf_versions = vs, hf_pending = Some p\<rparr> = Some h"
    and last: "parse cd P (hv_config (last vs)) = parse cd P b0"
  shows "agree_view cd P (Some b0, Some h)"
    and "hv_config p = cd_encode cd new \<Longrightarrow> agree_view cd P (Some (cd_encode cd new), Some h)"
proof -
  let ?vs = "map (compact_version cd) vs" and ?p = "compact_version cd p"
  note h = codecD(4) [OF cd e]
  have L: "last_versions ?vs \<noteq> []" "hv_config (last (last_versions ?vs)) = hv_config (compact_version cd (last vs))"
    "last_versions (?vs @ [?p]) \<noteq> []" "last (last_versions (?vs @ [?p])) = ?p"
    using last_versions_last [of ?vs] last_versions_last [of "?vs @ [?p]"] vs by (simp_all add: last_map)
  have "parse cd P (hv_config ?p) = parse cd P b0" if "cd_compact cd b0 = Some k" "Some k = cd_compact cd (hv_config ?p)" for k
    by (rule parse_compact [OF cd that(2) [symmetric] that(1)])
  then show "agree_view cd P (Some b0, Some h)"
    using h last parse_compact_version [OF cd, of P "last vs"] L
    by (cases "cd_compact cd b0") (auto simp: agree_view_def recovered_def)
  assume p: "hv_config p = cd_encode cd new"
  obtain k where k: "cd_compact cd (cd_encode cd new) = Some k" using codecD(2) [OF cd] by blast
  then have "cd_compact cd (hv_config ?p) = Some k" using codecD(3) [OF cd k] p by (simp add: compact_version_def)
  then show "agree_view cd P (Some (cd_encode cd new), Some h)"
    using h k p parse_compact_version [OF cd, of P p] L by (simp add: agree_view_def recovered_def)
qed

subsection \<open>Installing a version\<close>

text \<open>The names a save uses for itself are not those of the primary file and the history.\<close>

definition io_apart :: "store_paths \<Rightarrow> 'b save_io \<Rightarrow> bool" where
  "io_apart s io \<longleftrightarrow> apart s (wi_tmp (si_journal io)) \<and> apart s (wi_tmp (si_primary io))
     \<and> apart s (wi_tmp (si_commit io)) \<and> apart s (wi_tmp (si_last_good io)) \<and> apart s (si_moved_to io)
     \<and> apart s (sp_last_good s)"

lemma write_history_views:
  assumes "write_history cd io s h d = (ok, d')" and "apart s (wi_tmp io)"
  shows "views s d' \<subseteq> insert (view s (dk_files d')) (views s d)"
    and "(\<not> ok \<and> view s (dk_files d') = view s (dk_files d))
      \<or> (ok \<and> (\<exists>b. cd_encode_history cd h = Some b \<and> view s (dk_files d') = (fst (view s (dk_files d)), Some b)))"
  using assms write_views [of io "history_path s" _ d ok d' s]
  by (auto simp: write_history_def view_path current_view split: option.splits) (auto simp: view_def)

lemma install_views:
  assumes cd: "codec_ok cd" and io: "io_apart s io" and vs: "vs \<noteq> []"
    and p: "hv_config p = cd_encode cd new"
    and d: "view s (dk_files d) = (Some b0, h0)" and last: "parse cd P (hv_config (last vs)) = parse cd P b0"
    and i: "install_version cd io s vs p (cd_encode cd new) d = (r, d')"
  shows "\<forall>v \<in> views s d'. v \<in> views s d \<or> (agree_view cd P v \<and> fst v \<in> {Some b0, Some (cd_encode cd new)})"
    and "fst (view s (dk_files d')) = (if r = None then Some (cd_encode cd new) else Some b0)"
proof -
  note a = io [unfolded io_apart_def]
  obtain ok1 d1 where w1: "write_history cd (si_journal io) s \<lparr>hf_versions = vs, hf_pending = Some p\<rparr> d = (ok1, d1)"
    by (cases "write_history cd (si_journal io) s \<lparr>hf_versions = vs, hf_pending = Some p\<rparr> d")
  obtain ok2 d2 where w2: "write_file_atomic (si_primary io) (sp_path s) (cd_encode cd new) d1 = (ok2, d2)"
    by (cases "write_file_atomic (si_primary io) (sp_path s) (cd_encode cd new) d1")
  obtain ok3 d3 where w3: "write_history cd (si_commit io) s \<lparr>hf_versions = last_versions (vs @ [p]), hf_pending = None\<rparr> d2 = (ok3, d3)"
    by (cases "write_history cd (si_commit io) s \<lparr>hf_versions = last_versions (vs @ [p]), hf_pending = None\<rparr> d2")
  obtain ok4 d4 where w4: "write_file_atomic (si_last_good io) (sp_last_good s) (cd_encode cd new) d3 = (ok4, d4)"
    by (cases "write_file_atomic (si_last_good io) (sp_last_good s) (cd_encode cd new) d3")
  note i' = i [unfolded install_version_def w1 Let_def case_prod_conv w2 w3 w4]
  note h1 = write_history_views [OF w1 conjunct1 [OF a]]
  show "\<forall>v \<in> views s d'. v \<in> views s d \<or> (agree_view cd P v \<and> fst v \<in> {Some b0, Some (cd_encode cd new)})" (is ?A)
    and "fst (view s (dk_files d')) = (if r = None then Some (cd_encode cd new) else Some b0)" (is ?B)
  proof (atomize (full), cases ok1)
    case False
    then show "?A \<and> ?B" using i' h1 d current_view [of s d] by auto
  next
    case o1: True
    then obtain j where j: "cd_encode_history cd \<lparr>hf_versions = vs, hf_pending = Some p\<rparr> = Some j"
      "view s (dk_files d1) = (Some b0, Some j)" using h1(2) d by auto
    note J = agree_journal(1) [OF cd vs j(1) last] agree_journal(2) [OF cd vs j(1) last p]
    have v1: "\<forall>v \<in> views s d1. v \<in> views s d \<or> v = (Some b0, Some j)" using h1(1) j(2) by auto
    note h2 = write_views [OF w2, of s]
    show "?A \<and> ?B"
    proof (cases ok2)
      case False
      then have "view s (dk_files d2) = (Some b0, Some j)" "views s d2 \<subseteq> insert (Some b0, Some j) (views s d1)"
        using h2 a j(2) by simp_all
      moreover from this(2) have "\<forall>v \<in> views s d2. v \<in> views s d \<or> v = (Some b0, Some j)" using v1 by blast
      moreover have "d' = d2" "r \<noteq> None" using i' o1 False by auto
      ultimately show ?thesis using J(1) by auto
    next
      case o2: True
      have f2: "view s (dk_files d2) = (Some (cd_encode cd new), Some j)"
        using h2(1) o2 a j(2) by (simp add: view_def)
      have v2: "\<forall>v \<in> views s d2. v \<in> views s d \<or> v = (Some b0, Some j) \<or> v = (Some (cd_encode cd new), Some j)"
        using h2(2) a f2 v1 by auto
      note h3 = write_history_views [OF w3, of]
      have f3: "view s (dk_files d3) = (Some (cd_encode cd new), Some j)
        \<or> (\<exists>k. view s (dk_files d3) = (Some (cd_encode cd new), Some k)
             \<and> cd_encode_history cd \<lparr>hf_versions = last_versions (vs @ [p]), hf_pending = None\<rparr> = Some k)"
        using h3(2) a f2 by auto
      define v3 where "v3 = view s (dk_files d3)"
      have g: "agree_view cd P v3" "fst v3 = Some (cd_encode cd new)"
        using f3 J(2) agree_committed [OF cd, of "last_versions (vs @ [p])" _ P "cd_encode cd new"]
          last_versions_last [of "vs @ [p]"] p by (auto simp: v3_def)
      have e4: "view s (dk_files d4) = v3"
        using write_views(1) [OF w4, of s] a by (cases ok4) (simp_all add: v3_def)
      then have "views s d4 \<subseteq> insert v3 (views s d3)" "views s d3 \<subseteq> insert v3 (views s d2)"
        using write_views(2) [OF w4, of s] h3(1) a by (simp_all add: v3_def)
      then have "\<forall>v \<in> views s d4. v = v3 \<or> v \<in> views s d \<or> v = (Some b0, Some j) \<or> v = (Some (cd_encode cd new), Some j)"
        using v2 by blast
      then have "\<forall>v \<in> views s d4. v \<in> views s d \<or> (agree_view cd P v \<and> fst v \<in> {Some b0, Some (cd_encode cd new)})"
        using g J by force
      moreover have "d' = d4" "r = None" using i' o1 o2 by auto
      ultimately show ?thesis using e4 g by simp
    qed
  qed
qed

text \<open>Opening the history before a save: an unreadable one is moved away, and one that is read agrees with
  the primary file.\<close>

lemma open_history_views:
  assumes io: "io_apart s io" "si_err io = (\<lambda>_. None)"
    and d: "dk_past d = []" "dk_files d (sp_path s) = Some b0" "agree cd P s (dk_files d)"
    and q: "open_history cd io s d = (q, d1)"
    and ok: "\<forall>v \<in> views s d. ok v" "ok (Some b0, None)"
  shows "\<forall>v \<in> views s d1. ok v" and "fst (view s (dk_files d1)) = Some b0"
    and "q = Inr (reset, h) \<Longrightarrow> hf_versions h = [] \<or> parse cd P (hv_config (last (hf_versions h))) = parse cd P b0"
proof -
  have v0: "views s d = {view s (dk_files d)}" by (simp add: views_def crash_points_def d(1))
  have "apart s (si_moved_to io)" using io(1) by (simp add: io_apart_def)
  then have "view s ((dk_files d)(si_moved_to io := x, history_path s := None)) = (Some b0, None)" for x
    using d(2) by (auto simp: view_def apart_def)
  then show "\<forall>v \<in> views s d1. ok v" "fst (view s (dk_files d1)) = Some b0"
    using q ok d(2) by (auto simp: open_history_def view_def split: sum.splits if_splits)
  have same: "\<lparr>dk_files = dk_files d, dk_past = []\<rparr> = d" using d(1) by simp
  show "hf_versions h = [] \<or> parse cd P (hv_config (last (hf_versions h))) = parse cd P b0" if "q = Inr (reset, h)"
    using q that d(2) d(3) [unfolded agree_def same] io(2) by (auto simp: open_history_def split: sum.splits if_splits)
qed

subsection \<open>Properties\<close>


text \<open>A codec that keeps values as they are, and a disk with one saved configuration.\<close>

datatype doc = CDoc config | HDoc "(history_entry \<times> config) list" "(history_entry \<times> config) option" | Junk

definition from_version :: "doc history_version \<Rightarrow> (history_entry \<times> config) option" where
  "from_version v = (case hv_config v of CDoc c \<Rightarrow> Some (hv_entry v, c) | _ \<Rightarrow> None)"

definition to_version :: "history_entry \<times> config \<Rightarrow> doc history_version" where
  "to_version x = \<lparr>hv_entry = fst x, hv_config = CDoc (snd x)\<rparr>"

definition encode_plain :: "doc history_file \<Rightarrow> doc option" where
  "encode_plain h = (case those (map from_version (hf_versions h)) of
      None \<Rightarrow> None
    | Some vs \<Rightarrow> (case hf_pending h of
        None \<Rightarrow> Some (HDoc vs None)
      | Some p \<Rightarrow> map_option (\<lambda>x. HDoc vs (Some x)) (from_version p)))"

definition plain_codec :: "doc codec" where
  "plain_codec = \<lparr>cd_encode = CDoc, cd_decode = (\<lambda>d. case d of CDoc c \<Rightarrow> Some c | _ \<Rightarrow> None),
     cd_compact = Some, cd_encode_history = encode_plain,
     cd_decode_history = (\<lambda>d. case d of
         HDoc vs p \<Rightarrow> Some \<lparr>hf_versions = map to_version vs, hf_pending = map_option to_version p\<rparr> | _ \<Rightarrow> None)\<rparr>"

lemma from_to_version: "from_version v = Some x \<Longrightarrow> to_version x = v"
  by (cases v) (auto simp: from_version_def to_version_def split: doc.splits)

lemma those_versions: "those (map from_version vs) = Some xs \<Longrightarrow> map to_version xs = vs"
  by (induction vs arbitrary: xs) (auto split: option.splits dest: from_to_version)

lemma plain_codec_ok: "codec_ok plain_codec"
proof -
  have "compact_version plain_codec v = v" for v :: "doc history_version"
    by (simp add: compact_version_def plain_codec_def)
  then have "compact_history plain_codec h = h" for h :: "doc history_file"
    by (cases h) (simp add: compact_history_def map_idI option.map_ident_strong)
  moreover have "cd_decode_history plain_codec b = Some h" if "cd_encode_history plain_codec h = Some b" for h b
    using that by (cases h)
      (auto simp: plain_codec_def encode_plain_def dest: those_versions from_to_version split: option.splits)
  ultimately show ?thesis by (simp add: codec_ok_def) (simp add: plain_codec_def)
qed

definition demo_write :: "doc write_io" where
  "demo_write = \<lparr>wi_tmp = ''c/.tmp'', wi_partial = Junk, wi_outcome = WriteOk\<rparr>"

definition demo_save_io :: "doc save_io" where
  "demo_save_io = \<lparr>si_err = (\<lambda>_. None), si_ids = (Some ''a'', Some ''b''), si_moved_to = ''c/old'', si_rename_ok = True,
     si_journal = demo_write, si_primary = demo_write\<lparr>wi_outcome := FailLater\<rparr>, si_commit = demo_write,
     si_last_good = demo_write\<rparr>"

definition demo_disk :: "doc disk" where
  "demo_disk = \<lparr>dk_files = [''c/config.json'' \<mapsto> CDoc bare_config], dk_past = []\<rparr>"

lemma demo_paths: "sp_path (new_store ''c/config.json'') = ''c/config.json''"
  "sp_last_good (new_store ''c/config.json'') = ''c/config.last-good.json''"
  "history_path (new_store ''c/config.json'') = ''c/config.json.history''"
  by code_simp+


text \<open>Loading never runs on an unusable configuration: on a machine that accepts the shipped one,
  what a load returns is valid; it says where the configuration came from; a primary file
  that could not be used is reported and the disk is left as it was, so the broken file can be
  repaired.\<close>

theorem load_valid:
  assumes "validate P default_config = []" and "load cd P io1 io2 err s d = (Inr r, d')"
  shows "validate P (ld_config r) = [] \<and> ld_source r \<in> {''primary'', ''last_good'', ''default''}
    \<and> (ld_primary_err r \<noteq> None \<longrightarrow> d' = d \<and> ld_source r \<noteq> ''primary'')
    \<and> (ld_source r = ''primary'' \<longrightarrow> (\<exists>b. dk_files d (sp_path s) = Some b \<and> parse cd P b = Inr (ld_config r)))"
proof (cases "read_file err (sp_path s) d")
  case (Inl e)
  then show ?thesis
    using assms load_fallback_source [of cd P err s e d]
    by (cases e) (auto simp: load_def Let_def settled_def split: prod.splits if_splits)
next
  case (Inr b)
  show ?thesis
  proof (cases "parse_doc cd P b")
    case (Inl e)
    then show ?thesis
      using assms load_fallback_source [of cd P err s e d] Inr by (auto simp: load_def settled_def)
  next
    case p: (Inr x)
    obtain c m where x: "x = (c, m)" by (cases x)
    obtain m1 d1 where l: "load_primary cd io1 io2 err s c m b d = (m1, d1)" by (cases "load_primary cd io1 io2 err s c m b d")
    then have "r = m1" using assms(2) Inr p x by (simp add: load_def)
    moreover have "m1 = \<lparr>ld_config = c, ld_source = ''primary'', ld_primary_err = None\<rparr>"
      using l unfolding load_primary_def Let_def case_prod_unfold by (metis fst_conv)
    ultimately have "ld_config r = c" "ld_source r = ''primary''" "ld_primary_err r = None" by simp_all
    moreover have "dk_files d (sp_path s) = Some b" using Inr by (simp add: read_file_def split: option.splits)
    moreover have "validate P c = []" using parsed_settled [of cd P b c m] p x by (simp add: settled_def)
    ultimately show ?thesis using p x by (auto simp: parse_Inr)
  qed
qed

theorem load_valid_witness:
  "(let d = \<lparr>dk_files = [''c/config.json'' \<mapsto> Junk], dk_past = []\<rparr>;
        r = load plain_codec stock demo_write demo_write (\<lambda>_. None) (new_store ''c/config.json'') d
    in snd r = d \<and> (\<exists>x. fst r = Inr x \<and> validate stock (ld_config x) = []))"
proof -
  let ?d = "\<lparr>dk_files = [''c/config.json'' \<mapsto> Junk], dk_past = []\<rparr>" and ?s = "new_store ''c/config.json''"
  let ?r = "load plain_codec stock demo_write demo_write (\<lambda>_. None) ?s ?d"
  have v: "validate stock default_config = []" unfolding default_config_def
    by (rule shipped_valid [OF _ stock_iterates shipped_apps]) (simp add: stock_def)
  have r: "?r = (Inr (load_fallback plain_codec stock (\<lambda>_. None) ?s BadDocument ?d), ?d)"
    by (simp add: load_def read_file_def demo_paths parse_doc_def plain_codec_def)
  show ?thesis using load_valid [OF v r] r by (simp add: Let_def)
qed

text \<open>What is saved is what is loaded: after a successful save of a configuration that loading
  leaves as it is, a load returns it from the primary file, without an error and without writing.\<close>

theorem save_load_roundtrip:
  assumes cd: "codec_ok cd" and c: "settled P c"
    and tmp: "wi_tmp io1 \<notin> {sp_path s, sp_last_good s}" "wi_tmp io2 \<notin> {sp_path s, sp_last_good s}"
      "sp_last_good s \<noteq> sp_path s"
    and save: "save cd P io1 io2 s c d = (None, d')"
  shows "load cd P io3 io4 (\<lambda>_. None) s d'
    = (Inr \<lparr>ld_config = c, ld_source = ''primary'', ld_primary_err = None\<rparr>, d')"
proof -
  have f: "dk_files d' (sp_path s) = Some (cd_encode cd c)" "dk_files d' (sp_last_good s) = Some (cd_encode cd c)"
    using save tmp by (auto simp: save_def write_file_atomic_def Let_def disk_set_def split: if_splits prod.splits)
  then show ?thesis
    using parse_settled [OF cd c] by (simp add: load_def read_file_def load_primary_def)
qed

lemma default_settled:
  assumes "validate P default_config = []"
  shows "settled P default_config"
proof -
  have ids: "cf_builtin_rules_seen default_config = map ar_id default_applications" "cf_applications default_config = default_applications"
    by (simp_all add: default_config_def shipped_config_def default_rule_ids_def)
  have "adopt_ids (map ar_id default_applications) (rule_ids default_applications) default_applications
      = (default_applications, rule_ids default_applications, False)"
    using shipped_ids_nonempty by (intro adopt_ids_settled) (auto simp: adoptable_def image_iff)
  moreover have "insert_shipped (map ar_id default_applications) [] default_applications (rule_ids default_applications)
      default_applications = (default_applications, False)" by (rule insert_shipped_settled) simp
  ultimately have "merge_rules default_applications default_applications (map ar_id default_applications)
      = (default_applications, map ar_id default_applications, False)"
    by (simp add: merge_rules_def rule_ids_def [symmetric] filter_empty_conv)
  then have "merge_builtin_rules default_config = (default_config, False)" using ids by (simp add: merge_builtin_rules_def)
  moreover have "upgrade default_config = default_config"
    by (simp add: upgrade_def upgrade_runtime_def upgrade_tls_def default_config_def shipped_config_def
      default_runtime_def default_tls_def)
  ultimately show ?thesis using assms by (simp add: settled_def)
qed

theorem save_load_roundtrip_witness:
  "(let d = snd (save plain_codec stock demo_write demo_write (new_store ''c/config.json'') default_config demo_disk)
    in fst (load plain_codec stock demo_write demo_write (\<lambda>_. None) (new_store ''c/config.json'') d)
      = Inr \<lparr>ld_config = default_config, ld_source = ''primary'', ld_primary_err = None\<rparr>)"
proof -
  let ?s = "new_store ''c/config.json''"
  have v: "validate stock default_config = []" unfolding default_config_def
    by (rule shipped_valid [OF _ stock_iterates shipped_apps]) (simp add: stock_def)
  have "fst (save plain_codec stock demo_write demo_write ?s default_config demo_disk) = None"
    by (simp add: save_def v write_file_atomic_def demo_write_def Let_def)
  then have "save plain_codec stock demo_write demo_write ?s default_config demo_disk
      = (None, snd (save plain_codec stock demo_write demo_write ?s default_config demo_disk))"
    by (metis prod.collapse)
  from save_load_roundtrip [OF plain_codec_ok default_settled [OF v] _ _ _ this]
  show ?thesis by (simp add: demo_paths demo_write_def)
qed

end
