(* ===== verification/Impact_Correct.thy ===== *)
theory Impact_Correct
  imports Impact Validate_Correct
begin

text \<open>
  What a configuration change is classified as, in terms of the settings themselves rather than of
  the JSON field names the code compares, and what the history of changes reveals.
\<close>

subsection \<open>The documents determine the settings\<close>

lemma fl64_inj:
  assumes "0 \<le> a" "a \<le> 2 ^ 53" "0 \<le> b" "b \<le> 2 ^ 53"
  shows "fl64 (of_int a) = fl64 (of_int b) \<longleftrightarrow> a = b"
  using fl64_nat [OF assms(1,2)] fl64_nat [OF assms(3,4)] by simp

lemma j_strs_inj [simp]: "j_strs xs = j_strs ys \<longleftrightarrow> xs = ys"
  by (auto simp: j_strs_def inj_def dest: map_injective)

lemma omit_empty_inj: "omit_empty k s = omit_empty k t \<longleftrightarrow> s = t"
  by (auto simp: omit_empty_def)

lemma tls_json_inj: "tls_json t = tls_json t' \<longleftrightarrow> t = t'"
  by (cases t; cases t') (auto simp: tls_json_def omit_empty_def)

lemma listen_json_inj: "listen_json l = listen_json l' \<longleftrightarrow> l = l'"
  by (cases l; cases l') (auto simp: listen_json_def tls_json_inj)

lemma security_json_inj: "security_json s = security_json s' \<longleftrightarrow> s = s'"
  by (cases s; cases s') (auto simp: security_json_def)

lemma logging_json_inj: "logging_json l = logging_json l' \<longleftrightarrow> l = l'"
  by (cases l; cases l') (auto simp: logging_json_def)

lemma key_simps [simp]:
  "key ((k, v) # kvs) k' = (if k = k' then v else key kvs k')" "key [] k' = JNull"
  by (simp_all add: key_def)

subsection \<open>The classification\<close>

lemma fold_or:
  assumes "\<And>x s. f (g x s) = (f s \<or> P x)"
  shows "f (fold g xs s) = (f s \<or> (\<exists>x \<in> set xs. P x))"
  by (induction xs arbitrary: s) (auto simp: assms)

lemma fold_collect:
  assumes "\<And>x s. f (g x s) = f s @ (if Q x then [h x] else [])"
  shows "f (fold g xs s) = f s @ map h (filter Q xs)"
  by (induction xs arbitrary: s) (auto simp: assms)

definition differs :: "config \<Rightarrow> string \<times> json \<Rightarrow> bool" where
  "differs old x = (key (sections old) (fst x) \<noteq> snd x)"

definition wants_reload :: "config \<Rightarrow> config \<Rightarrow> string \<times> json \<Rightarrow> bool" where
  "wants_reload old new x = (differs old x \<and> fst x = ''runtime'' \<and> runtime_needs_reload (cf_runtime old) (cf_runtime new))"

definition wants_restart :: "config \<Rightarrow> config \<Rightarrow> string \<times> json \<Rightarrow> bool" where
  "wants_restart old new x = (differs old x \<and> (fst x \<in> {''listen'', ''security'', ''logging''}
     \<or> fst x = ''telemetry'' \<and> tel_adapter (cf_telemetry old) \<noteq> tel_adapter (cf_telemetry new)))"

lemma classify_section_flags:
  "im_runtime_reload (classify_section old new x im) = (im_runtime_reload im \<or> wants_reload old new x)"
  "im_service_restart (classify_section old new x im) = (im_service_restart im \<or> wants_restart old new x)"
  "im_changed (classify_section old new x im) = im_changed im @ (if differs old x then [fst x] else [])"
  by (auto simp: classify_section_def needs_restart_def wants_reload_def wants_restart_def differs_def Let_def case_prod_unfold)

lemmas classify_flags =
  fold_or [of im_runtime_reload, OF classify_section_flags(1)]
  fold_or [of im_service_restart, OF classify_section_flags(2)]
  fold_collect [of im_changed, OF classify_section_flags(3)]

text \<open>The settings that the runtime process is started with.\<close>

definition process_settings where
  "process_settings r = (rt_executable r, rt_model_path r, rt_args r, rt_context_size r, rt_gpu_layers r,
     rt_run_as r, rt_host r, rt_port r)"

lemma needs_reload_iff:
  assumes "validate_runtime P a = []" and "validate_runtime P b = []"
  shows "runtime_needs_reload a b \<longleftrightarrow> process_settings a \<noteq> process_settings b"
proof -
  have bounds: "0 \<le> rt_context_size r \<and> rt_context_size r \<le> 2 ^ 53" "0 \<le> rt_gpu_layers r \<and> rt_gpu_layers r \<le> 2 ^ 53"
    "0 \<le> rt_port r \<and> rt_port r \<le> 2 ^ 53" if "validate_runtime P r = []" for r
    using that unfolding validate_runtime_def append_is_Nil_conv range_Nil by auto
  have eq: "j_int (rt_context_size a) = j_int (rt_context_size b) \<longleftrightarrow> rt_context_size a = rt_context_size b"
    "j_int (rt_gpu_layers a) = j_int (rt_gpu_layers b) \<longleftrightarrow> rt_gpu_layers a = rt_gpu_layers b"
    "j_int (rt_port a) = j_int (rt_port b) \<longleftrightarrow> rt_port a = rt_port b"
    using bounds [OF assms(1)] bounds [OF assms(2)] by (simp_all add: j_int_def fl64_inj)
  show ?thesis
    by (auto simp: runtime_needs_reload_def runtime_json_def live_runtime_fields_def process_settings_def eq)
qed

subsection \<open>The history of changes\<close>

lemma diff_same [simp]: "diff_walk path j j so sn = []"
  by (subst diff_walk.simps) simp

lemma merge_keys_same [simp]: "merge_keys ks ks = ks"
  by (induction ks) simp_all

lemma is_obj_simps [simp]: "is_obj (JObj kvs)" "\<not> is_obj (JArr xs)" "obj (JObj kvs) = kvs"
  by (simp_all add: is_obj_def obj_def)

text \<open>Documents with the same keys are compared key by key.\<close>

definition child :: "string \<Rightarrow> string \<Rightarrow> string" where
  "child path k = (if path = '''' then k else path @ ''.'' @ k)"

lemma diff_obj:
  assumes "map fst a = map fst b"
  shows "diff_walk path (JObj a) (JObj b) (JObj sa) (JObj sb) =
    concat (map (\<lambda>k. diff_walk (child path k) (key a k) (key b k) (key sa k) (key sb k)) (map fst a))"
proof (cases "a = b")
  case True
  then show ?thesis by simp
next
  case False
  then show ?thesis by (subst diff_walk.simps) (simp add: assms child_def)
qed

lemma diff_args: "diff_walk ''runtime.args'' (JArr xs) (JArr ys) so sn =
    (if xs = ys then [] else [\<lparr>hc_path = ''runtime.args'', hc_before = JStr redacted, hc_after = JStr redacted\<rparr>])"
  by (subst diff_walk.simps) simp

definition with_args :: "string list \<Rightarrow> config \<Rightarrow> config" where
  "with_args xs c = c\<lparr>cf_runtime := (cf_runtime c)\<lparr>rt_args := xs\<rparr>\<rparr>"

lemma section_keys: "map fst (sections c) = map fst (sections c')"
  by (simp add: sections_def)

lemma runtime_keys: "map fst (runtime_json r) = map fst (runtime_json r')"
  by (simp add: runtime_json_def)

lemma with_args_sections: "k \<noteq> ''runtime'' \<Longrightarrow> key (sections (with_args xs c)) k = key (sections c) k"
  "k \<noteq> ''runtime'' \<Longrightarrow> key (sections (redact (with_args xs c))) k = key (sections c) k"
  by (simp_all add: sections_def with_args_def redact_def)

lemma with_args_runtime: "k \<noteq> ''args'' \<Longrightarrow> key (runtime_json (r\<lparr>rt_args := xs\<rparr>)) k = key (runtime_json r) k"
  by (simp add: runtime_json_def)

lemma runtime_section: "key (sections c) ''runtime'' = JObj (runtime_json (cf_runtime c))"
  by (simp add: sections_def)

lemma args_field: "key (runtime_json r) ''args'' = j_strs (rt_args r)"
  by (simp add: runtime_json_def)

lemma runtime_diff:
  "diff_walk ''runtime'' (JObj (runtime_json (a\<lparr>rt_args := x\<rparr>))) (JObj (runtime_json (b\<lparr>rt_args := y\<rparr>)))
      (JObj (runtime_json (a\<lparr>rt_args := x'\<rparr>))) (JObj (runtime_json (b\<lparr>rt_args := y'\<rparr>)))
   = concat (map (\<lambda>k. if k = ''args''
        then (if x = y then [] else [\<lparr>hc_path = ''runtime.args'', hc_before = JStr redacted, hc_after = JStr redacted\<rparr>])
        else diff_walk (child ''runtime'' k) (key (runtime_json a) k) (key (runtime_json b) k)
               (key (runtime_json a) k) (key (runtime_json b) k)) (map fst (runtime_json a)))"
proof -
  have "diff_walk (child ''runtime'' ''args'') (j_strs x) (j_strs y) so sn =
      (if x = y then [] else [\<lparr>hc_path = ''runtime.args'', hc_before = JStr redacted, hc_after = JStr redacted\<rparr>])" for so sn
    using diff_args [of "map JStr x" "map JStr y" so sn] j_strs_inj [of x y] by (simp add: child_def j_strs_def)
  then have "diff_walk (child ''runtime'' k) (key (runtime_json (a\<lparr>rt_args := x\<rparr>)) k) (key (runtime_json (b\<lparr>rt_args := y\<rparr>)) k)
        (key (runtime_json (a\<lparr>rt_args := x'\<rparr>)) k) (key (runtime_json (b\<lparr>rt_args := y'\<rparr>)) k)
      = (if k = ''args''
        then (if x = y then [] else [\<lparr>hc_path = ''runtime.args'', hc_before = JStr redacted, hc_after = JStr redacted\<rparr>])
        else diff_walk (child ''runtime'' k) (key (runtime_json a) k) (key (runtime_json b) k)
               (key (runtime_json a) k) (key (runtime_json b) k))" for k
    by (cases "k = ''args''") (simp_all add: with_args_runtime args_field)
  then show ?thesis
    unfolding diff_obj [OF runtime_keys] runtime_keys [of "a\<lparr>rt_args := x\<rparr>" a] by presburger
qed

lemma history_diff_form:
  "history_diff (with_args x a) (with_args y b) = concat (map (\<lambda>k. if k = ''runtime''
     then diff_walk ''runtime'' (JObj (runtime_json ((cf_runtime a)\<lparr>rt_args := x\<rparr>)))
        (JObj (runtime_json ((cf_runtime b)\<lparr>rt_args := y\<rparr>)))
        (JObj (runtime_json ((cf_runtime a)\<lparr>rt_args := redact_args x\<rparr>)))
        (JObj (runtime_json ((cf_runtime b)\<lparr>rt_args := redact_args y\<rparr>)))
     else diff_walk k (key (sections a) k) (key (sections b) k) (key (sections a) k) (key (sections b) k))
     (map fst (sections a)))"
proof -
  have runtime: "key (sections (with_args x c)) ''runtime'' = JObj (runtime_json ((cf_runtime c)\<lparr>rt_args := x\<rparr>))"
    "key (sections (redact (with_args x c))) ''runtime'' = JObj (runtime_json ((cf_runtime c)\<lparr>rt_args := redact_args x\<rparr>))"
    for x c by (simp_all add: runtime_section with_args_def redact_def)
  have "diff_walk (child '''' k) (key (sections (with_args x a)) k) (key (sections (with_args y b)) k)
      (key (sections (redact (with_args x a))) k) (key (sections (redact (with_args y b))) k)
    = (if k = ''runtime''
     then diff_walk ''runtime'' (JObj (runtime_json ((cf_runtime a)\<lparr>rt_args := x\<rparr>)))
        (JObj (runtime_json ((cf_runtime b)\<lparr>rt_args := y\<rparr>)))
        (JObj (runtime_json ((cf_runtime a)\<lparr>rt_args := redact_args x\<rparr>)))
        (JObj (runtime_json ((cf_runtime b)\<lparr>rt_args := redact_args y\<rparr>)))
     else diff_walk k (key (sections a) k) (key (sections b) k) (key (sections a) k) (key (sections b) k))" for k
    by (cases "k = ''runtime''") (simp_all add: runtime with_args_sections child_def)
  then show ?thesis
    unfolding history_diff_def diff_obj [OF section_keys] section_keys [of "with_args x a" a] by presburger
qed

subsection \<open>Properties\<close>

lemma classify_reload_restart:
  assumes "validate P old = []" and "validate P new = []"
  shows "im_runtime_reload (classify old new) = (process_settings (cf_runtime old) \<noteq> process_settings (cf_runtime new))"
    and "im_service_restart (classify old new) = (cf_listen old \<noteq> cf_listen new \<or> cf_security old \<noteq> cf_security new
         \<or> cf_logging old \<noteq> cf_logging new \<or> tel_adapter (cf_telemetry old) \<noteq> tel_adapter (cf_telemetry new))"
proof -
  have r: "runtime_needs_reload (cf_runtime old) (cf_runtime new)
      = (process_settings (cf_runtime old) \<noteq> process_settings (cf_runtime new))"
    by (rule needs_reload_iff [OF validate_sections(1) [OF assms(1)] validate_sections(1) [OF assms(2)]])
  have k: "runtime_json (cf_runtime old) = runtime_json (cf_runtime new) \<Longrightarrow> \<not> runtime_needs_reload (cf_runtime old) (cf_runtime new)"
    by (auto simp: runtime_needs_reload_def runtime_json_def)
  show "im_runtime_reload (classify old new) = (process_settings (cf_runtime old) \<noteq> process_settings (cf_runtime new))"
    unfolding classify_def classify_flags r [symmetric] using k
    by (auto simp: no_impact_def sections_def wants_reload_def differs_def)
  have t: "telemetry_json (cf_telemetry old) = telemetry_json (cf_telemetry new) \<Longrightarrow>
      tel_adapter (cf_telemetry old) = tel_adapter (cf_telemetry new)"
    by (simp add: telemetry_json_def)
  show "im_service_restart (classify old new) = (cf_listen old \<noteq> cf_listen new \<or> cf_security old \<noteq> cf_security new
         \<or> cf_logging old \<noteq> cf_logging new \<or> tel_adapter (cf_telemetry old) \<noteq> tel_adapter (cf_telemetry new))"
    unfolding classify_def classify_flags using t
    by (auto simp: no_impact_def sections_def wants_restart_def differs_def listen_json_inj security_json_inj logging_json_inj)
qed

text \<open>A change of a valid configuration asks for a reload exactly when it changes a setting the
  runtime process is started with, asks for a restart of the service exactly when it changes the
  listeners, the credentials, the logging or the chosen GPU adapter, and the sections it names are
  those that differ.\<close>

theorem classify_correct:
  assumes "validate P old = []" and "validate P new = []"
  shows "im_runtime_reload (classify old new) = (process_settings (cf_runtime old) \<noteq> process_settings (cf_runtime new))
    \<and> im_service_restart (classify old new) = (cf_listen old \<noteq> cf_listen new \<or> cf_security old \<noteq> cf_security new
         \<or> cf_logging old \<noteq> cf_logging new \<or> tel_adapter (cf_telemetry old) \<noteq> tel_adapter (cf_telemetry new))
    \<and> im_changed (classify old new) = filter (\<lambda>k. key (sections old) k \<noteq> key (sections new) k) (map fst (sections new))"
proof -
  have "distinct (map fst (sections new))" by (simp add: sections_def)
  then have "differs old (k, v) = (key (sections old) k \<noteq> key (sections new) k)" if "(k, v) \<in> set (sections new)" for k v
    using that by (simp add: differs_def key_def map_of_is_SomeI)
  then have "im_changed (classify old new) = filter (\<lambda>k. key (sections old) k \<noteq> key (sections new) k) (map fst (sections new))"
    unfolding classify_def classify_flags by (auto simp: no_impact_def filter_map comp_def intro!: arg_cong [of _ _ "map fst"] filter_cong)
  then show ?thesis using classify_reload_restart [OF assms] by blast
qed

theorem classify_correct_witness: "\<not> im_runtime_reload (classify bare_config bare_config)"
  using classify_correct [OF bare_valid bare_valid] by simp

text \<open>The history of changes does not reveal the arguments of the runtime: what it records about
  two configurations depends on their arguments only in whether they differ, so it is the same for
  any other arguments that differ too.\<close>

theorem history_diff_hides_args:
  assumes "(x = y) = (x' = y')"
  shows "history_diff (with_args x a) (with_args y b) = history_diff (with_args x' a) (with_args y' b)"
  unfolding history_diff_form runtime_diff assms ..

theorem history_diff_hides_args_witness:
  "history_diff (with_args [''--api-key=old''] bare_config) (with_args [''--api-key=new''] bare_config)
   = history_diff (with_args [''a''] bare_config) (with_args [''b''] bare_config)"
  by (rule history_diff_hides_args) simp

end
