(* ===== verification/Config_Update.thy ===== *)
theory Config_Update
  imports System Impact_Correct Config_Store
begin

text \<open>
  Package \<open>internal/controller\<close>, the configuration calls of \<open>backend.go\<close>: validating a change,
  applying it, and restoring a version of the history. The collaborators are parameters: what the
  configuration store answers, the answer of the model file check, the random revision texts and the
  digest of a configuration.
\<close>

text \<open>The answer of \<open>CheckModelFile\<close>; \<open>FileSilent\<close> is one that does not come in time.\<close>

datatype file_answer = FileOk | FileUnknown string | FileBad string | FileSilent

definition err_file_unknown :: string where
  "err_file_unknown = ''could not determine whether this file is available''"

definition check_model_file :: "(string \<Rightarrow> file_answer) option \<Rightarrow> string \<Rightarrow> file_answer" where
  "check_model_file check path = (case check of
      None \<Rightarrow> FileUnknown err_file_unknown
    | Some f \<Rightarrow> (case f path of FileSilent \<Rightarrow> FileUnknown err_file_unknown | a \<Rightarrow> a))"

definition model_path_field :: string where
  "model_path_field = ''runtime.model_path''"

text \<open>The warnings, and the failures: the change is accepted when there is none.\<close>

definition validate_config ::
  "platform \<Rightarrow> (string \<Rightarrow> file_answer) option \<Rightarrow> config \<Rightarrow> bool \<Rightarrow> ctl \<Rightarrow> field_error list \<times> field_error list" where
  "validate_config P check nc check_model c =
     (let errs = validate_change P nc;
          changed = (check_model \<or> rt_model_path (cf_runtime nc) \<noteq> rt_model_path (cf_runtime (cs_cfg c)));
          reported = list_ex (\<lambda>e. fe_field e = model_path_field) errs
      in if changed \<and> \<not> reported then
           (case check_model_file check (rt_model_path (cf_runtime nc)) of
              FileUnknown m \<Rightarrow>
                ([bad model_path_field ''%s; the model may not load until it is reachable'' [FStr m]], errs)
            | FileBad m \<Rightarrow> ([], errs @ [bad model_path_field ''%s'' [FStr m]])
            | _ \<Rightarrow> ([], errs))
         else ([], errs))"

definition revision_locked :: "string \<Rightarrow> ctl \<Rightarrow> string \<times> ctl" where
  "revision_locked fresh c =
     (let c1 = (if cs_config_revision c = '''' then c\<lparr>cs_config_revision := fresh\<rparr> else c)
      in (cs_config_revision c1, c1))"

datatype store_kind = NoStore | PlainStore | HistoryStore

text \<open>What the store answers: whether the primary file is still the running configuration, and how the
  save went (with the path an unreadable history was moved to).\<close>

record store_answers =
  sa_verify :: "verify_error option"
  sa_save :: "save_error + string"

datatype update_error = UpdateConflict | HistoryUnavailable | UpdateVerify verify_error
  | UpdateInvalid "field_error list" | UpdatePersist save_error

text \<open>The checks of a restore: the revision of the preview, and the primary file.\<close>

definition check_restore ::
  "store_kind \<Rightarrow> store_answers \<Rightarrow> string \<Rightarrow> string \<Rightarrow> string \<Rightarrow> ctl \<Rightarrow> update_error option \<times> ctl" where
  "check_restore sk sa fresh expected restore_of c =
     (if restore_of = '''' then (None, c)
      else
        (let (stale, c1) = (if expected = '''' then (True, c)
               else (let (r, c') = revision_locked fresh c in (expected \<noteq> r, c')))
         in if stale then (Some UpdateConflict, c1)
            else if sk \<noteq> HistoryStore then (Some HistoryUnavailable, c1)
            else (case sa_verify sa of Some e \<Rightarrow> (Some (UpdateVerify e), c1) | None \<Rightarrow> (None, c1))))"

definition persist_config :: "env \<Rightarrow> store_kind \<Rightarrow> store_answers \<Rightarrow> string \<Rightarrow> ctl \<Rightarrow> update_error option \<times> ctl" where
  "persist_config E sk sa actor c = (case sk of
      NoStore \<Rightarrow> (None, c)
    | PlainStore \<Rightarrow> (case sa_save sa of Inl e \<Rightarrow> (Some (UpdatePersist e), c) | Inr _ \<Rightarrow> (None, c))
    | HistoryStore \<Rightarrow> (case sa_save sa of
        Inl e \<Rightarrow> (Some (UpdatePersist e), c)
      | Inr reset \<Rightarrow> (None, if reset = '''' then c
          else emit E (mk_event (ev_now E) ConfigChanged SeverityWarning
            (Sprintf ''Configuration history was unreadable and has been reset; the old file was moved to %s'' [FStr reset])
            [(''actor'', DStr actor), (''history_reset'', DBool True), (''moved_to'', DStr reset)]) c)))"

definition apply_config :: "env \<Rightarrow> string \<Rightarrow> config \<Rightarrow> string \<Rightarrow> string \<Rightarrow> ctl \<Rightarrow> impact \<times> ctl" where
  "apply_config E fresh nc actor restore_of c =
     (let im = classify (cs_cfg c) nc; changes = history_diff (cs_cfg c) nc;
          c1 = c\<lparr>cs_cfg := nc, cs_cfg_source := ''primary'', cs_cfg_problem := '''', cs_cfg_problem_fields := [],
                 cs_config_revision := fresh, cs_sched_cache_valid := False,
                 cs_last_setup_check := 0, cs_setup_pending := False\<rparr>;
          c2 = (if im_service_restart im then c1\<lparr>cs_restart_needed := True\<rparr> else c1);
          c3 = (if im_runtime_reload im then
                  (let c' = c2\<lparr>cs_footprint := 0\<rparr> in
                   if runtime_running (cs_st c') \<and> cs_st c' \<noteq> Draining \<and> cs_st c' \<noteq> Preempting
                   then c'\<lparr>cs_manual_pending := ''reload''\<rparr> else c')
                else c2);
          c4 = emit E (mk_event (ev_now E) ConfigChanged NoSeverity
                 (Sprintf ''Configuration updated by %s: %s'' [FStr actor, FStr (join_with '', '' (im_changed im))])
                 [(''actor'', DStr actor), (''changed'', DStrs (im_changed im)),
                  (''runtime_reload'', DBool (im_runtime_reload im)), (''service_restart'', DBool (im_service_restart im)),
                  (''restore_of'', DStr restore_of), (''changes'', DChanges changes)]) c3
      in (im, c4\<lparr>cs_wake := True\<rparr>))"

text \<open>\<open>verdict\<close> is the answer of \<open>validate_config\<close>, asked before the lock is taken; \<open>fresh\<close> are the
  random revisions.\<close>

definition update_config ::
  "env \<Rightarrow> store_kind \<Rightarrow> store_answers \<Rightarrow> string \<times> string \<Rightarrow> field_error list \<times> field_error list
     \<Rightarrow> config \<Rightarrow> string \<Rightarrow> string \<Rightarrow> string \<Rightarrow> ctl \<Rightarrow> (update_error + impact \<times> field_error list) \<times> ctl" where
  "update_config E sk sa fresh verdict nc actor expected restore_of c =
     (case check_restore sk sa (fst fresh) expected restore_of c of
        (Some e, c1) \<Rightarrow> (Inl e, c1)
      | (None, c1) \<Rightarrow>
          (if snd verdict \<noteq> [] then
             (Inl (UpdateInvalid (snd verdict)),
              emit E (mk_event (ev_now E) ConfigRejected SeverityNotice
                (Sprintf ''Configuration change rejected: %s'' [FText (validation_message (snd verdict))])
                [(''actor'', DStr actor)]) c1)
           else (case persist_config E sk sa actor c1 of
               (Some e, c2) \<Rightarrow> (Inl e, c2)
             | (None, c2) \<Rightarrow>
                 (case apply_config E (snd fresh) nc actor restore_of c2 of
                    (im, c3) \<Rightarrow> (Inr (im, fst verdict), c3)))))"

record restore_preview =
  rp_id :: string
  rp_revision :: string
  rp_changes :: "history_change list"
  rp_impact :: impact

text \<open>\<open>found\<close> is the answer of \<open>HistoryConfig\<close>.\<close>

datatype preview_error = PreviewUnavailable | PreviewHistory history_config_error

definition preview_config_restore ::
  "(config \<Rightarrow> string) \<Rightarrow> store_kind \<Rightarrow> string \<Rightarrow> history_config_error + config \<Rightarrow> string \<Rightarrow> ctl
     \<Rightarrow> (preview_error + restore_preview) \<times> ctl" where
  "preview_config_restore digest sk fresh found i c =
     (if sk \<noteq> HistoryStore then (Inl PreviewUnavailable, c)
      else (case found of
          Inl e \<Rightarrow> (Inl (PreviewHistory e), c)
        | Inr target \<Rightarrow>
            (let (r, c1) = revision_locked fresh c in
             (Inr \<lparr>rp_id = i, rp_revision = r @ '':'' @ digest target,
                rp_changes = history_diff (cs_cfg c1) target, rp_impact = classify (cs_cfg c1) target\<rparr>, c1))))"

datatype restore_error = RestoreConflict | RestoreUnavailable | RestoreHistory history_config_error
  | RestoreUpdate update_error

definition restore_config ::
  "(config \<Rightarrow> string) \<Rightarrow> platform \<Rightarrow> (string \<Rightarrow> file_answer) option \<Rightarrow> env \<Rightarrow> store_kind \<Rightarrow> store_answers \<Rightarrow> string \<times> string
     \<Rightarrow> history_config_error + config \<Rightarrow> string \<Rightarrow> string \<Rightarrow> string \<Rightarrow> ctl \<Rightarrow> (restore_error + impact) \<times> ctl" where
  "restore_config digest P check E sk sa fresh found i revision actor c =
     (if revision = '''' then (Inl RestoreConflict, c)
      else if sk \<noteq> HistoryStore then (Inl RestoreUnavailable, c)
      else (case found of
          Inl e \<Rightarrow> (Inl (RestoreHistory e), c)
        | Inr target \<Rightarrow>
            (case split_char CHR '':'' revision of
               [r, g] \<Rightarrow>
                 (if r = '''' \<or> g \<noteq> digest target then (Inl RestoreConflict, c)
                  else (case update_config E sk sa fresh (validate_config P check target (i \<noteq> '''') c) target actor r i c of
                      (Inl e, c1) \<Rightarrow> (Inl (RestoreUpdate e), c1)
                    | (Inr (im, _), c1) \<Rightarrow> (Inr im, c1)))
             | _ \<Rightarrow> (Inl RestoreConflict, c))))"

subsection \<open>What a call leaves alone\<close>

text \<open>The part of the state a rejected change must not touch.\<close>

definition settings_of where
  "settings_of c = (cs_cfg c, cs_cfg_source c, cs_restart_needed c, cs_footprint c, cs_manual_pending c,
     cs_last_setup_check c, cs_setup_pending c, cs_sched_cache_valid c, cs_wake c)"

lemma settings_emit [simp]: "settings_of (emit E e c) = settings_of c"
  by (simp add: settings_of_def emit_def Let_def)

lemma settings_revision [simp]: "settings_of (snd (revision_locked f c)) = settings_of c"
  by (simp add: settings_of_def revision_locked_def Let_def)

lemma check_restore_settings: "check_restore sk sa f ex i c = (r, c') \<Longrightarrow> settings_of c' = settings_of c \<and> cs_st c' = cs_st c"
  by (auto simp: check_restore_def revision_locked_def settings_of_def Let_def split: if_splits option.splits)

lemma emit_st_cfg: "cs_st (emit E e c) = cs_st c" "cs_cfg (emit E e c) = cs_cfg c"
  "cs_config_revision (emit E e c) = cs_config_revision c" "cs_restart_needed (emit E e c) = cs_restart_needed c"
  "cs_footprint (emit E e c) = cs_footprint c" "cs_manual_pending (emit E e c) = cs_manual_pending c"
  by (simp_all add: emit_def Let_def)

lemma persist_config_settings: "persist_config E sk sa actor c = (r, c') \<Longrightarrow> settings_of c' = settings_of c \<and> cs_st c' = cs_st c"
  by (auto simp: persist_config_def emit_st_cfg split: store_kind.splits sum.splits if_splits)

lemma apply_config_effect:
  assumes "apply_config E f nc actor ro c = (im, c')"
  shows "im = classify (cs_cfg c) nc \<and> cs_cfg c' = nc \<and> cs_config_revision c' = f \<and> cs_wake c'
    \<and> cs_restart_needed c' = (cs_restart_needed c \<or> im_service_restart im)
    \<and> cs_footprint c' = (if im_runtime_reload im then 0 else cs_footprint c)
    \<and> cs_manual_pending c' = (if im_runtime_reload im \<and> runtime_running (cs_st c) \<and> cs_st c \<notin> {Draining, Preempting}
        then ''reload'' else cs_manual_pending c)
    \<and> cs_st c' = cs_st c"
proof -
  have im: "im = classify (cs_cfg c) nc" using assms by (simp add: apply_config_def Let_def)
  have c': "c' = snd (apply_config E f nc actor ro c)" using assms by simp
  show ?thesis
    unfolding c' im by (simp add: apply_config_def Let_def emit_st_cfg)
qed

lemma verdict_valid: "snd (validate_config P check nc b c) = [] \<Longrightarrow> validate P nc = []"
  by (auto simp: validate_config_def validate_change_def Let_def split: if_splits file_answer.splits)

text \<open>C39. A change of the configuration is applied whole or not at all: a call that is refused leaves
  the configuration and everything derived from it as they were; a call that succeeds installs a valid
  configuration under a new revision, drops the learned memory footprint and asks a working runtime to
  reload exactly when a setting of the runtime process changed, and remembers that a restart is needed
  when listeners, credentials, logging or the GPU adapter changed.\<close>

theorem update_config_outcome:
  assumes valid: "validate P (cs_cfg c) = []" and v: "verdict = validate_config P check nc b c0"
    and run: "update_config E sk sa fresh verdict nc actor expected restore_of c = (r, c')"
  shows "case r of
      Inl _ \<Rightarrow> settings_of c' = settings_of c
    | Inr (im, warnings) \<Rightarrow> cs_cfg c' = nc \<and> validate P nc = [] \<and> cs_config_revision c' = snd fresh
        \<and> (let reload = (process_settings (cf_runtime (cs_cfg c)) \<noteq> process_settings (cf_runtime nc)) in
             cs_footprint c' = (if reload then 0 else cs_footprint c)
             \<and> cs_manual_pending c' = (if reload \<and> runtime_running (cs_st c) \<and> cs_st c \<notin> {Draining, Preempting}
                  then ''reload'' else cs_manual_pending c))
        \<and> cs_restart_needed c' = (cs_restart_needed c \<or> cf_listen (cs_cfg c) \<noteq> cf_listen nc
             \<or> cf_security (cs_cfg c) \<noteq> cf_security nc \<or> cf_logging (cs_cfg c) \<noteq> cf_logging nc
             \<or> tel_adapter (cf_telemetry (cs_cfg c)) \<noteq> tel_adapter (cf_telemetry nc))"
proof -
  obtain e1 c1 where 1: "check_restore sk sa (fst fresh) expected restore_of c = (e1, c1)"
    by (cases "check_restore sk sa (fst fresh) expected restore_of c")
  obtain e2 c2 where 2: "persist_config E sk sa actor c1 = (e2, c2)" by (cases "persist_config E sk sa actor c1")
  obtain im c3 where 3: "apply_config E (snd fresh) nc actor restore_of c2 = (im, c3)"
    by (cases "apply_config E (snd fresh) nc actor restore_of c2")
  have s: "settings_of c1 = settings_of c \<and> cs_st c1 = cs_st c" "settings_of c2 = settings_of c1 \<and> cs_st c2 = cs_st c1"
    using check_restore_settings [OF 1] persist_config_settings [OF 2] by auto
  then have same: "cs_cfg c2 = cs_cfg c" "cs_footprint c2 = cs_footprint c" "cs_manual_pending c2 = cs_manual_pending c"
    "cs_restart_needed c2 = cs_restart_needed c" "cs_st c2 = cs_st c" by (simp_all add: settings_of_def)
  show ?thesis
  proof (cases "e1 = None \<and> snd verdict = [] \<and> e2 = None")
    case False
    then show ?thesis using run s by (auto simp: update_config_def 1 2 split: option.splits if_splits)
  next
    case True
    then have r: "r = Inr (im, fst verdict)" "c' = c3" using run by (auto simp: update_config_def 1 2 3)
    have nc: "validate P nc = []" using True verdict_valid v by blast
    note C = classify_reload_restart [OF valid nc] and A = apply_config_effect [OF 3, unfolded same]
    show ?thesis using A C by (auto simp: r nc Let_def)
  qed
qed

lemma split_char_single: "c \<notin> set g \<Longrightarrow> split_char c g = [g]"
  by (induction g) auto

lemma split_char_pair: "c \<notin> set r \<Longrightarrow> c \<notin> set g \<Longrightarrow> split_char c (r @ c # g) = [r, g]"
  by (induction r) (auto simp: split_char_single)

lemma update_config_revision:
  assumes "update_config E sk sa fresh verdict nc actor expected restore_of c = (Inr x, c')"
  shows "cs_config_revision c' = snd fresh"
proof -
  obtain e1 c1 where a: "check_restore sk sa (fst fresh) expected restore_of c = (e1, c1)"
    by (cases "check_restore sk sa (fst fresh) expected restore_of c")
  obtain e2 c2 where b: "persist_config E sk sa actor c1 = (e2, c2)" by (cases "persist_config E sk sa actor c1")
  obtain im c3 where d: "apply_config E (snd fresh) nc actor restore_of c2 = (im, c3)"
    by (cases "apply_config E (snd fresh) nc actor restore_of c2")
  have "c' = c3"
    using assms unfolding update_config_def a prod.case b d by (cases e1; cases e2) (simp_all split: if_splits)
  then show ?thesis using apply_config_effect [OF d] by blast
qed

text \<open>A restore never undoes a change it has not seen: once a restore has been previewed and
  another change of the configuration has succeeded, the restore with the revision of the preview is
  refused as a conflict and changes nothing. Revisions and digests hold no colon, and a new revision
  differs from the one before.\<close>

theorem stale_restore_refused:
  assumes preview: "preview_config_restore digest sk f0 found i c = (Inr p, c1)"
    and update: "update_config E sk sa fresh verdict nc actor expected restore_of c1 = (Inr x, c2)"
    and rev: "CHR '':'' \<notin> set (cs_config_revision c1)" "CHR '':'' \<notin> set (digest target)" "\<forall>t. found = Inr t \<longrightarrow> t = target"
    and new: "snd fresh \<noteq> ''''" "snd fresh \<noteq> cs_config_revision c1"
    and i: "i \<noteq> ''''"
  shows "restore_config digest P check E' sk sa' fresh' found i (rp_revision p) actor' c2
    = (Inl (if cs_config_revision c1 = '''' then RestoreConflict else RestoreUpdate UpdateConflict), c2)"
proof -
  have p: "sk = HistoryStore" "found = Inr target" "rp_revision p = cs_config_revision c1 @ '':'' @ digest target"
    using preview rev(3) by (auto simp: preview_config_restore_def revision_locked_def Let_def split: if_splits sum.splits)
  have split: "split_char CHR '':'' (rp_revision p) = [cs_config_revision c1, digest target]"
    using split_char_pair [OF rev(1,2)] p(3) by simp
  have "cs_config_revision c2 = snd fresh"
    using update_config_revision [OF update] .
  then have "check_restore sk sa' (fst fresh') (cs_config_revision c1) i c2 = (Some UpdateConflict, c2)"
    if "cs_config_revision c1 \<noteq> ''''" using that new i by (auto simp: check_restore_def revision_locked_def)
  then show ?thesis
    using split p by (auto simp: restore_config_def update_config_def)
qed

subsection \<open>Runs\<close>

definition demo_ctl :: ctl where
  "demo_ctl = new_controller bare_config ''primary'' '''' []"

definition demo_save :: store_answers where
  "demo_save = \<lparr>sa_verify = None, sa_save = Inr ''''\<rparr>"

lemma bare_change_valid: "validate_change stock bare_config = []"
proof -
  have d: "data_relative (win ''secrets/management.token'') = None"
    "data_relative (win ''secrets/inference.token'') = None"
    "data_relative (win ''secrets/agent.token'') = None" by code_simp+
  show ?thesis unfolding validate_change_def bare_valid
    by (simp add: token_files_def stock_def bare_config_def shipped_config_def default_tls_def d)
qed

theorem update_config_outcome_witness:
  "cs_cfg (snd (update_config demo_env PlainStore demo_save (''r1'', ''r2'')
     (validate_config stock None bare_config False demo_ctl) bare_config ''web'' '''' '''' demo_ctl)) = bare_config"
proof -
  let ?v = "validate_config stock None bare_config False demo_ctl"
  let ?r = "update_config demo_env PlainStore demo_save (''r1'', ''r2'') ?v bare_config ''web'' '''' '''' demo_ctl"
  have c: "cs_cfg demo_ctl = bare_config" by (simp add: demo_ctl_def new_controller_def)
  have v: "validate stock (cs_cfg demo_ctl) = []" using bare_valid c by simp
  have "case fst ?r of Inl _ \<Rightarrow> settings_of (snd ?r) = settings_of demo_ctl | Inr (im, w) \<Rightarrow> cs_cfg (snd ?r) = bare_config"
    using update_config_outcome [OF v refl, of _ PlainStore demo_save "(''r1'', ''r2'')" None bare_config False demo_ctl
        "''web''" "''''" "''''" "fst ?r" "snd ?r"]
    by (auto split: sum.split)
  then show ?thesis using c by (auto simp: settings_of_def split: sum.splits prod.splits)
qed

theorem stale_restore_refused_witness:
  "fst (restore_config (\<lambda>_. ''d'') stock None demo_env HistoryStore demo_save (''r2'', ''r3'') (Inr bare_config) ''v1'' ''r0:d'' ''web''
     (snd (update_config demo_env HistoryStore demo_save (''r9'', ''r1'') ([], []) bare_config ''api'' '''' ''''
       (demo_ctl\<lparr>cs_config_revision := ''r0''\<rparr>)))) = Inl (RestoreUpdate UpdateConflict)"
proof -
  let ?c = "demo_ctl\<lparr>cs_config_revision := ''r0''\<rparr>"
  let ?u = "update_config demo_env HistoryStore demo_save (''r9'', ''r1'') ([], []) bare_config ''api'' '''' '''' ?c"
  obtain p where p: "preview_config_restore (\<lambda>_. ''d'') HistoryStore ''q'' (Inr bare_config) ''v1'' ?c = (Inr p, ?c)"
    and r: "rp_revision p = ''r0:d''"
    by (simp add: preview_config_restore_def revision_locked_def)
  have "\<exists>x. fst ?u = Inr x"
    by (simp add: update_config_def check_restore_def persist_config_def demo_save_def split: prod.split)
  then obtain x where u: "?u = (Inr x, snd ?u)" by (metis prod.collapse)
  show ?thesis
    using stale_restore_refused [OF p u, where target = bare_config] r by (simp add: demo_ctl_def new_controller_def)
qed

end
