(* ===== verification/Observe.thy ===== *)
theory Observe
  imports Controller_State Telemetry Classify Policy "HOL-Library.Product_Lexorder"
begin

text \<open>
  Package \<open>internal/observe\<close>, and the adapter \<open>Facts\<close> of \<open>internal/service\<close>: raw observations (a
  GPU sample, a process list, the runtime's processes, the session agent's report) become the facts
  policy evaluates. The observer keeps the rolling windows; a \<open>time.Time\<close> that is not set is 0.
\<close>

definition mib :: nat where
  "mib = 2 ^ 20"

definition ordinary_min_util_pct :: flt where "ordinary_min_util_pct = 1"
definition ordinary_min_vram_mib :: int where "ordinary_min_vram_mib = 64"
definition launcher_child_min_util_pct :: flt where "launcher_child_min_util_pct = 1"
definition launcher_child_min_vram_mib :: int where "launcher_child_min_vram_mib = 128"
definition consistency_tolerance_mib :: flt where "consistency_tolerance_mib = 1024"
definition consistency_tolerance_pct :: flt where "consistency_tolerance_pct = 25"
definition gap_factor :: int where "gap_factor = 3"
definition min_gap :: dur where "min_gap = 3 * second"

definition rule_launcher_child :: string where
  "rule_launcher_child = ''inferred:launcher-child''"

record agent_report =
  ag_session_id :: int
  ag_foreground_pid :: int
  ag_foreground_name :: string
  ag_foreground_path :: string
  ag_fullscreen :: bool
  ag_idle_seconds :: flt
  ag_locked :: bool

text \<open>One tick's raw observations: what the controller passes, with the latest agent report.\<close>

record obs_input =
  oi_facts :: fact_input
  oi_agent :: "agent_report option"
  oi_agent_at :: time

record obs_facts =
  of_gpu :: gpu_facts
  of_apps :: app_facts
  of_session :: session_facts

record vram_point =
  vp_t :: time
  vp_mib :: int

record observer =
  ob_last_tick :: time
  ob_last_conf :: confidence
  ob_none_since :: time
  ob_healthy_since :: time
  ob_above_crit_since :: time
  ob_above_soft_since :: time
  ob_below_soft_since :: time
  ob_vram :: "vram_point list"
  ob_cls :: "classifier option"

definition new_observer :: observer where
  "new_observer = \<lparr>ob_last_tick = 0, ob_last_conf = OtherConfidence '''', ob_none_since = 0, ob_healthy_since = 0,
     ob_above_crit_since = 0, ob_above_soft_since = 0, ob_below_soft_since = 0, ob_vram = [], ob_cls = None\<rparr>"

definition reset_windows :: "observer \<Rightarrow> observer" where
  "reset_windows ob = ob\<lparr>ob_above_crit_since := 0, ob_above_soft_since := 0, ob_below_soft_since := 0, ob_vram := []\<rparr>"

subsection \<open>Confidence\<close>

text \<open>A process identifier is an \<open>int\<close> where the runtime reports it and a \<open>uint32\<close> in the counters.\<close>

definition own_pids :: "fact_input \<Rightarrow> int set" where
  "own_pids inp = (\<lambda>p. p mod 2 ^ 32) ` set (fi_own_pids inp)
     \<union> (if 0 < fi_runtime_pid inp then {fi_runtime_pid inp mod 2 ^ 32} else {})"

text \<open>\<open>%.1f\<close> of a float that is not negative: the exact value to one decimal, ties to even.\<close>

definition fmt_f1 :: "flt \<Rightarrow> string" where
  "fmt_f1 x = (let k = rhe (10 * x) in itoa (k div 10) @ ''.'' @ itoa (k mod 10))"

definition to_mib_f :: "nat \<Rightarrow> flt" where
  "to_mib_f b = fdiv (of_int_f (int b)) (of_nat mib)"

definition sum_bytes :: "proc_gpu list \<Rightarrow> nat" where
  "sum_bytes ps = fold (\<lambda>p b. u64 (b + pg_dedicated_bytes p)) ps 0"

definition consistency_tolerance :: "flt \<Rightarrow> flt" where
  "consistency_tolerance adapter = max consistency_tolerance_mib (fdiv (fmul adapter consistency_tolerance_pct) 100)"

definition own_visibility :: "fact_input \<Rightarrow> int set \<Rightarrow> proc_gpu list \<Rightarrow> string list" where
  "own_visibility inp own ps =
     (let mine = filter (\<lambda>p. pg_pid p \<in> own) ps in
      if own \<noteq> {} \<and> mine = [] then [''runtime PIDs absent from GPU process counters'']
      else if own \<noteq> {} \<and> 0 < fi_footprint_mib inp \<and> sum_bytes mine = 0 then
        [''runtime GPU Process Memory dedicated bytes zero despite known footprint'']
      else [])"

definition memory_mismatch :: "sample \<Rightarrow> string list" where
  "memory_mismatch s =
     (let adapter = to_mib_f (sm_dedicated_used_bytes s); procs = to_mib_f (sum_bytes (sm_processes s));
          d0 = fsub adapter procs; diff = (if d0 < 0 then - d0 else d0); tol = consistency_tolerance adapter
      in if tol < diff then
           [''GPU Adapter Memory / GPU Process Memory mismatch: adapter='' @ fmt_f1 adapter @ '' MiB processes='' @ fmt_f1 procs
            @ '' MiB difference='' @ fmt_f1 diff @ '' MiB tolerance='' @ fmt_f1 tol @ '' MiB'']
         else [])"

definition confidence_of :: "fact_input \<Rightarrow> int set \<Rightarrow> confidence \<times> string list" where
  "confidence_of inp own = (case fi_sample inp of
      None \<Rightarrow> (ConfidenceNone, [''GPU counter sample missing or incomplete''])
    | Some s \<Rightarrow>
        (if \<not> sm_complete s then (ConfidenceNone, [''GPU counter sample missing or incomplete''])
         else if sm_processes s = [] then
           (ConfidenceDegraded, [''GPU Process Memory and GPU Engine process instances absent''])
         else (let reasons = own_visibility inp own (sm_processes s) @ memory_mismatch s
               in if reasons \<noteq> [] then (ConfidenceDegraded, reasons) else (ConfidenceHigh, []))))"

definition track_confidence :: "time \<Rightarrow> observer \<Rightarrow> gpu_facts \<Rightarrow> observer \<times> gpu_facts" where
  "track_confidence now ob g =
     (if gf_confidence g = ConfidenceNone then
        (let since = (if ob_none_since ob = 0 then now else ob_none_since ob)
         in (ob\<lparr>ob_healthy_since := 0, ob_none_since := since\<rparr>, g\<lparr>gf_none_for := t_sub now since\<rparr>))
      else
        (let since = (if ob_healthy_since ob = 0 then now else ob_healthy_since ob)
         in (ob\<lparr>ob_none_since := 0, ob_healthy_since := since\<rparr>, g\<lparr>gf_healthy_for := t_sub now since\<rparr>)))"

subsection \<open>Windows\<close>

text \<open>\<open>run\<close> advances a continuous-condition timer.\<close>

definition run_timer :: "time \<Rightarrow> bool \<Rightarrow> time \<Rightarrow> time \<times> dur" where
  "run_timer since cond now =
     (if \<not> cond then (0, 0) else let s = (if since = 0 then now else since) in (s, t_sub now s))"

definition soft_threshold :: "gpu_facts \<Rightarrow> fact_input \<Rightarrow> flt" where
  "soft_threshold g inp = (let soft = pf_external_util_soft_pct (fi_profile inp) in
     if gf_confidence g = ConfidenceDegraded then fmul soft (degraded_factor (fi_config inp)) else soft)"

definition hysteresis :: "time \<Rightarrow> fact_input \<Rightarrow> observer \<Rightarrow> gpu_facts \<Rightarrow> observer \<times> gpu_facts" where
  "hysteresis now inp ob g =
     (if \<not> gf_external_util_trusted g then
        (ob\<lparr>ob_above_crit_since := 0, ob_above_soft_since := 0, ob_below_soft_since := 0\<rparr>, g)
      else
        (let soft = soft_threshold g inp; crit = ct_external_util_critical_pct (cf_contention (fi_config inp));
             u = gf_external_util_pct g;
             (ac, acd) = run_timer (ob_above_crit_since ob) (0 < crit \<and> crit \<le> u) now;
             (as, asd) = run_timer (ob_above_soft_since ob) (0 < soft \<and> soft \<le> u) now;
             (bs, bsd) = run_timer (ob_below_soft_since ob) (\<not> (0 < soft \<and> soft \<le> u)) now
         in (ob\<lparr>ob_above_crit_since := ac, ob_above_soft_since := as, ob_below_soft_since := bs\<rparr>,
             g\<lparr>gf_above_critical_for := acd, gf_above_soft_for := asd, gf_below_soft_for := bsd\<rparr>)))"

text \<open>Points that a newer one at or before the start of the window replaces.\<close>

fun trim_points :: "time \<Rightarrow> vram_point list \<Rightarrow> vram_point list" where
  "trim_points start (p # q # ps) = (if vp_t q \<le> start then trim_points start (q # ps) else p # q # ps)"
| "trim_points start ps = ps"

definition growth :: "time \<Rightarrow> int \<Rightarrow> dur \<Rightarrow> observer \<Rightarrow> observer \<times> int" where
  "growth now ext window ob =
     (let ps = trim_points (now - window) (ob_vram ob @ [\<lparr>vp_t = now, vp_mib = ext\<rparr>])
      in (ob\<lparr>ob_vram := ps\<rparr>, ext - vp_mib (hd ps)))"

subsection \<open>GPU facts\<close>

text \<open>The last reading of a process wins.\<close>

definition per_pid :: "proc_gpu list \<Rightarrow> int \<rightharpoonup> proc_gpu" where
  "per_pid ps = map_of (rev (map (\<lambda>p. (pg_pid p, p)) ps))"

definition totals :: "sample \<Rightarrow> demand \<Rightarrow> gpu_facts \<Rightarrow> gpu_facts" where
  "totals s d g = g\<lparr>gf_total_util_pct := dm_total_util_pct d,
     gf_vram_total_mib := int (sm_dedicated_total_bytes s div mib),
     gf_vram_used_mib := int (sm_dedicated_used_bytes s div mib),
     gf_vram_free_mib := int (dm_free_dedicated_bytes d div mib)\<rparr>"

definition measured_split :: "demand \<Rightarrow> gpu_facts \<Rightarrow> gpu_facts" where
  "measured_split d g = g\<lparr>gf_own_util_pct := dm_own_util_pct d, gf_external_util_pct := dm_external_util_pct d,
     gf_external_util_trusted := True, gf_own_vram_mib := int (dm_own_dedicated_bytes d div mib),
     gf_external_vram_mib := int (dm_external_dedicated_bytes d div mib)\<rparr>"

text \<open>The footprint a running runtime is credited with: the known one, what is measured, or the
  configured requirement.\<close>

definition credited_footprint :: "fact_input \<Rightarrow> demand \<Rightarrow> int" where
  "credited_footprint inp d =
     (let measured = int (dm_own_dedicated_bytes d div mib);
          fp = (if fi_footprint_mib inp = 0 \<and> 0 < measured then measured else fi_footprint_mib inp)
      in if fp = 0 then rt_required_free_vram_mib (cf_runtime (fi_config inp)) else fp)"

definition inferred_split :: "fact_input \<Rightarrow> int set \<Rightarrow> sample \<Rightarrow> demand \<Rightarrow> gpu_facts \<Rightarrow> gpu_facts" where
  "inferred_split inp own s d g =
     (let measured_external = int (sum_bytes (filter (\<lambda>p. pg_pid p \<notin> own) (sm_processes s)) div mib);
          own_mib = (if own \<noteq> {} then min (credited_footprint inp d) (max (gf_vram_used_mib g - measured_external) 0)
                     else gf_own_vram_mib g)
      in g\<lparr>gf_own_util_pct := dm_own_util_pct d, gf_external_util_pct := dm_total_util_pct d,
           gf_external_util_trusted := \<not> fi_runtime_busy inp, gf_own_vram_mib := own_mib,
           gf_external_vram_mib := max (gf_vram_used_mib g - own_mib) measured_external\<rparr>)"

definition graded :: "fact_input \<Rightarrow> int set \<Rightarrow> gpu_facts" where
  "graded inp own = (case confidence_of inp own of (c, reasons) \<Rightarrow>
     zero_gpu\<lparr>gf_temperature_c := Option.bind (fi_sample inp) sm_temperature_c, gf_confidence := c,
       gf_attribution_reasons := reasons\<rparr>)"

definition gpu_usage :: "time \<Rightarrow> fact_input \<Rightarrow> int set \<Rightarrow> sample \<Rightarrow> observer \<Rightarrow> gpu_facts \<Rightarrow> observer \<times> gpu_facts" where
  "gpu_usage now inp own s ob g =
     (let d = split_sample s (\<lambda>p. p \<in> own);
          g1 = totals s d g;
          g2 = (if gf_confidence g1 = ConfidenceHigh then measured_split d g1 else inferred_split inp own s d g1);
          ob1 = (if ob_last_conf ob \<noteq> gf_confidence g2 then ob\<lparr>ob_vram := []\<rparr> else ob);
          (ob2, grown) = growth now (gf_external_vram_mib g2) (ct_critical_window (cf_contention (fi_config inp)))
             (ob1\<lparr>ob_last_conf := gf_confidence g2\<rparr>)
      in hysteresis now inp ob2 (g2\<lparr>gf_external_vram_growth_mib := grown\<rparr>))"

definition gpu :: "time \<Rightarrow> fact_input \<Rightarrow> int set \<Rightarrow> observer \<Rightarrow> observer \<times> gpu_facts \<times> (int \<rightharpoonup> proc_gpu)" where
  "gpu now inp own ob =
     (case track_confidence now ob (graded inp own) of (ob1, g) \<Rightarrow>
        (case fi_sample inp of
           Some s \<Rightarrow>
             (if gf_confidence g = ConfidenceNone then (reset_windows ob1, g, Map.empty)
              else (case gpu_usage now inp own s ob1 g of (ob2, g') \<Rightarrow> (ob2, g', per_pid (sm_processes s))))
         | None \<Rightarrow> (reset_windows ob1, g, Map.empty)))"

subsection \<open>Session and applications\<close>

definition class_of :: "classifier \<Rightarrow> string \<Rightarrow> string \<Rightarrow> app_class \<times> string" where
  "class_of cl name path = (case match_proc cl name path of Some r \<Rightarrow> r | None \<Rightarrow> (no_class, ''''))"

text \<open>The facts of the session, and the report when it is fresh.\<close>

definition session :: "time \<Rightarrow> obs_input \<Rightarrow> classifier \<Rightarrow> session_facts \<times> agent_report option" where
  "session now inp cl = (case oi_agent inp of
      None \<Rightarrow> (zero_session, None)
    | Some r \<Rightarrow>
        (if oi_agent_at inp = 0 \<or> sg_session_stale_after (cf_signals (fi_config (oi_facts inp))) \<le> t_sub now (oi_agent_at inp)
         then (zero_session, None)
         else (\<lparr>sn_known = True, sn_user_logged_on = True, sn_locked = ag_locked r,
              sn_foreground_name = ag_foreground_name r, sn_foreground_path = ag_foreground_path r,
              sn_foreground_pid = ag_foreground_pid r,
              sn_foreground_class = (if ag_foreground_name r \<noteq> '''' \<or> ag_foreground_path r \<noteq> ''''
                then fst (class_of cl (ag_foreground_name r) (ag_foreground_path r)) else no_class),
              sn_fullscreen = ag_fullscreen r,
              sn_idle_for = trunc_f (fmul (ag_idle_seconds r) (of_int_f second))\<rparr>, Some r)))"

record classified =
  cd_p :: process
  cd_class :: app_class
  cd_rule :: string

definition classify_process :: "classifier \<Rightarrow> process \<Rightarrow> classified" where
  "classify_process cl p = (case class_of cl (pr_name p) (pr_path p) of (c, r) \<Rightarrow> \<lparr>cd_p = p, cd_class = c, cd_rule = r\<rparr>)"

definition by_pid :: "classifier \<Rightarrow> process list \<Rightarrow> int \<rightharpoonup> classified" where
  "by_pid cl ps = map_of (rev (map (\<lambda>p. (pr_pid p, classify_process cl p)) ps))"

definition build_match :: "time \<Rightarrow> (int \<rightharpoonup> proc_gpu) \<Rightarrow> agent_report option \<Rightarrow> classified \<Rightarrow> app_match" where
  "build_match now pp agent c =
     (let p = cd_p c; fg = (case agent of Some r \<Rightarrow> ag_foreground_pid r \<noteq> 0 \<and> ag_foreground_pid r = pr_pid p | None \<Rightarrow> False)
      in \<lparr>am_pid = pr_pid p, am_name = pr_name p, am_path = pr_path p, am_class = cd_class c, am_rule = cd_rule c,
          am_gpu_util_pct = (case pp (pr_pid p) of Some u \<Rightarrow> max_util u | None \<Rightarrow> 0),
          am_vram_mib = (case pp (pr_pid p) of Some u \<Rightarrow> int (pg_dedicated_bytes u div mib) | None \<Rightarrow> 0),
          am_foreground = fg,
          am_fullscreen = (case agent of Some r \<Rightarrow> fg \<and> ag_fullscreen r | None \<Rightarrow> False),
          am_running_for = (if pr_create_time p \<noteq> 0 \<and> pr_create_time p < now then t_sub now (pr_create_time p) else 0),
          am_parent_name = ''''\<rparr>)"

definition gpu_active :: "proc_gpu option \<Rightarrow> bool" where
  "gpu_active u = (case u of Some x \<Rightarrow> 0 < max_util x \<or> 0 < pg_dedicated_bytes x | None \<Rightarrow> False)"

text \<open>The parent an unclassified process inherits suspicion from: a launcher that is not the
  runtime's and was created no later.\<close>

definition launcher_parent :: "int set \<Rightarrow> (int \<rightharpoonup> classified) \<Rightarrow> process \<Rightarrow> classified option" where
  "launcher_parent own bp p = (case bp (pr_ppid p) of
      None \<Rightarrow> None
    | Some parent \<Rightarrow>
        (if pr_ppid p = pr_pid p \<or> cd_class parent \<noteq> ClassLauncher \<or> pr_ppid p \<in> own then None
         else if pr_create_time (cd_p parent) \<noteq> 0 \<and> pr_create_time p \<noteq> 0 \<and> pr_create_time p < pr_create_time (cd_p parent)
         then None else Some parent))"

definition add_launcher_child ::
  "int set \<Rightarrow> (int \<rightharpoonup> classified) \<Rightarrow> process \<Rightarrow> app_match \<Rightarrow> app_facts \<Rightarrow> app_facts" where
  "add_launcher_child own bp p m a = (case launcher_parent own bp p of
      None \<Rightarrow> a
    | Some parent \<Rightarrow>
        (if am_gpu_util_pct m < launcher_child_min_util_pct \<and> am_vram_mib m < launcher_child_min_vram_mib then a
         else a\<lparr>af_launcher_children := af_launcher_children a
           @ [m\<lparr>am_class := ClassGame, am_rule := rule_launcher_child, am_parent_name := pr_name (cd_p parent)\<rparr>]\<rparr>))"

definition add_process ::
  "time \<Rightarrow> int set \<Rightarrow> (int \<rightharpoonup> proc_gpu) \<Rightarrow> agent_report option \<Rightarrow> (int \<rightharpoonup> classified) \<Rightarrow> process \<Rightarrow> app_facts \<Rightarrow> app_facts" where
  "add_process now own pp agent bp p a =
     (if pr_pid p \<in> own then a
      else (case bp (pr_pid p) of
          None \<Rightarrow> a
        | Some c \<Rightarrow>
            (let m = build_match now pp agent c;
                 a1 = (if gpu_active (pp (pr_pid p)) then a\<lparr>af_observed_gpu_users := af_observed_gpu_users a @ [m]\<rparr> else a)
             in case cd_class c of
                  ClassGame \<Rightarrow> a1\<lparr>af_games := af_games a1 @ [m]\<rparr>
                | ClassLauncher \<Rightarrow> a1\<lparr>af_launchers := af_launchers a1 @ [m]\<rparr>
                | ClassOrdinary \<Rightarrow>
                    (if ordinary_min_util_pct \<le> am_gpu_util_pct m \<or> ordinary_min_vram_mib \<le> am_vram_mib m
                     then a1\<lparr>af_ordinary := af_ordinary a1 @ [m]\<rparr> else a1)
                | ClassIgnore \<Rightarrow> a1
                | OtherClass _ \<Rightarrow> add_launcher_child own bp p m a1)))"

text \<open>\<open>byDemand\<close>: the heaviest user first, then by process identifier; the sort is stable.\<close>

definition by_demand :: "app_match list \<Rightarrow> app_match list" where
  "by_demand = sort_key (\<lambda>m. (- am_gpu_util_pct m, - am_vram_mib m, am_pid m))"

definition sort_apps :: "app_facts \<Rightarrow> app_facts" where
  "sort_apps a = a\<lparr>af_games := by_demand (af_games a), af_launchers := by_demand (af_launchers a),
     af_ordinary := by_demand (af_ordinary a), af_launcher_children := by_demand (af_launcher_children a),
     af_observed_gpu_users := by_demand (af_observed_gpu_users a)\<rparr>"

definition apps :: "time \<Rightarrow> fact_input \<Rightarrow> int set \<Rightarrow> (int \<rightharpoonup> proc_gpu) \<Rightarrow> agent_report option \<Rightarrow> classifier \<Rightarrow> app_facts" where
  "apps now inp own pp agent cl = (case fi_procs inp of
      None \<Rightarrow> zero_apps
    | Some ps \<Rightarrow> sort_apps (fold (add_process now own pp agent (by_pid cl ps)) ps (zero_apps\<lparr>af_process_list_ok := True\<rparr>)))"

subsection \<open>One tick\<close>

definition classifier_for :: "config \<Rightarrow> observer \<Rightarrow> classifier" where
  "classifier_for cfg ob = (case ob_cls ob of
      Some cl \<Rightarrow> (if cl_src cl = cf_applications cfg then cl else new_classifier (cf_applications cfg))
    | None \<Rightarrow> new_classifier (cf_applications cfg))"

definition max_gap :: "config \<Rightarrow> dur" where
  "max_gap cfg = max (wrap64 (gap_factor * tel_sample_interval (cf_telemetry cfg))) min_gap"

definition gap_check :: "time \<Rightarrow> config \<Rightarrow> observer \<Rightarrow> observer" where
  "gap_check now cfg ob =
     (if ob_last_tick ob \<noteq> 0 \<and> (now < ob_last_tick ob \<or> max_gap cfg < t_sub now (ob_last_tick ob))
      then (reset_windows ob)\<lparr>ob_healthy_since := 0\<rparr> else ob)"

definition observe_tick :: "time \<Rightarrow> obs_input \<Rightarrow> observer \<Rightarrow> observer \<times> obs_facts" where
  "observe_tick now inp ob =
     (let fi = oi_facts inp; cfg = fi_config fi; cl = classifier_for cfg ob;
          ob1 = (gap_check now cfg (ob\<lparr>ob_cls := Some cl\<rparr>))\<lparr>ob_last_tick := now\<rparr>;
          own = own_pids fi
      in case gpu now fi own ob1 of (ob2, g, pp) \<Rightarrow>
         (case session now inp cl of (sess, fresh) \<Rightarrow>
            (ob2, \<lparr>of_gpu = g, of_apps = apps now fi own pp fresh cl, of_session = sess\<rparr>)))"

subsection \<open>The adapter of the service\<close>

record fact_source =
  fs_obs :: observer
  fs_agent :: "agent_report option"
  fs_agent_at :: time
  fs_locked :: "int \<rightharpoonup> bool"

definition new_facts :: fact_source where
  "new_facts = \<lparr>fs_obs = new_observer, fs_agent = None, fs_agent_at = 0, fs_locked = Map.empty\<rparr>"

definition build :: "time \<Rightarrow> fact_input \<Rightarrow> fact_source \<Rightarrow> fact_source \<times> gpu_facts \<times> app_facts \<times> session_facts" where
  "build now inp f =
     (let agent = map_option (\<lambda>a. case fs_locked f (ag_session_id a) of Some l \<Rightarrow> a\<lparr>ag_locked := l\<rparr> | None \<Rightarrow> a) (fs_agent f)
      in case observe_tick now \<lparr>oi_facts = inp, oi_agent = agent, oi_agent_at = fs_agent_at f\<rparr> (fs_obs f) of
         (ob, out) \<Rightarrow> (f\<lparr>fs_obs := ob\<rparr>, of_gpu out, of_apps out, of_session out))"

definition agent_report_received :: "time \<Rightarrow> agent_report \<Rightarrow> fact_source \<Rightarrow> fact_source" where
  "agent_report_received now r f = f\<lparr>fs_agent := Some r, fs_agent_at := now\<rparr>"

record agent_status =
  as_connected :: bool
  as_last_report :: time
  as_session_id :: int

definition agent_status_at :: "time \<Rightarrow> dur \<Rightarrow> fact_source \<Rightarrow> agent_status" where
  "agent_status_at now stale_after f = (case fs_agent f of
      None \<Rightarrow> \<lparr>as_connected = False, as_last_report = 0, as_session_id = 0\<rparr>
    | Some a \<Rightarrow> \<lparr>as_connected = (t_sub now (fs_agent_at f) \<le> stale_after), as_last_report = fs_agent_at f,
        as_session_id = ag_session_id a\<rparr>)"

datatype session_kind = SessionConsoleConnect | SessionConsoleDisconnect | SessionRemoteConnect
  | SessionRemoteDisconnect | SessionLogon | SessionLogoff | SessionLock | SessionUnlock

definition session_change :: "session_kind \<Rightarrow> int \<Rightarrow> fact_source \<Rightarrow> fact_source" where
  "session_change k i f =
     (if k = SessionLock \<or> k = SessionUnlock then f\<lparr>fs_locked := (fs_locked f)(i \<mapsto> (k = SessionLock))\<rparr>
      else if k = SessionLogon \<or> k = SessionLogoff then f\<lparr>fs_locked := (fs_locked f)(i := None)\<rparr>
      else f)"

end
