(* ===== verification/Observe_Correct.thy ===== *)
theory Observe_Correct
  imports Observe
begin

text \<open>
  What the observed facts mean. The durations the observer reports are read against the whole run of
  ticks: a condition that is said to have lasted has held at every tick of a gapless stretch. The
  memory figures account for what the adapter reports, and the application lists hold exactly the
  processes of their class.
\<close>

subsection \<open>Timers\<close>

definition tick_gap :: "time \<Rightarrow> config \<Rightarrow> observer \<Rightarrow> bool" where
  "tick_gap now cfg ob = (ob_last_tick ob \<noteq> 0 \<and> (now < ob_last_tick ob \<or> max_gap cfg < t_sub now (ob_last_tick ob)))"

text \<open>The conditions the timers measure, read off the facts of a tick.\<close>

definition graded_ok :: "fact_input \<Rightarrow> gpu_facts \<Rightarrow> bool" where
  "graded_ok inp g = (gf_confidence g \<noteq> ConfidenceNone)"

definition above_critical :: "fact_input \<Rightarrow> gpu_facts \<Rightarrow> bool" where
  "above_critical inp g = (let crit = ct_external_util_critical_pct (cf_contention (fi_config inp)) in
     gf_confidence g \<noteq> ConfidenceNone \<and> gf_external_util_trusted g \<and> 0 < crit \<and> crit \<le> gf_external_util_pct g)"

definition above_soft :: "fact_input \<Rightarrow> gpu_facts \<Rightarrow> bool" where
  "above_soft inp g = (gf_confidence g \<noteq> ConfidenceNone \<and> gf_external_util_trusted g
     \<and> 0 < soft_threshold g inp \<and> soft_threshold g inp \<le> gf_external_util_pct g)"

definition below_soft :: "fact_input \<Rightarrow> gpu_facts \<Rightarrow> bool" where
  "below_soft inp g = (gf_confidence g \<noteq> ConfidenceNone \<and> gf_external_util_trusted g
     \<and> \<not> (0 < soft_threshold g inp \<and> soft_threshold g inp \<le> gf_external_util_pct g))"

text \<open>A timer of the observer: its start, the duration it reports and the condition it measures.\<close>

datatype timer = HealthyTimer | CriticalTimer | SoftTimer | ClearTimer

fun since :: "timer \<Rightarrow> observer \<Rightarrow> time" where
  "since HealthyTimer ob = ob_healthy_since ob"
| "since CriticalTimer ob = ob_above_crit_since ob"
| "since SoftTimer ob = ob_above_soft_since ob"
| "since ClearTimer ob = ob_below_soft_since ob"

fun lasted :: "timer \<Rightarrow> gpu_facts \<Rightarrow> dur" where
  "lasted HealthyTimer g = gf_healthy_for g"
| "lasted CriticalTimer g = gf_above_critical_for g"
| "lasted SoftTimer g = gf_above_soft_for g"
| "lasted ClearTimer g = gf_below_soft_for g"

fun measured :: "timer \<Rightarrow> fact_input \<Rightarrow> gpu_facts \<Rightarrow> bool" where
  "measured HealthyTimer = graded_ok"
| "measured CriticalTimer = above_critical"
| "measured SoftTimer = above_soft"
| "measured ClearTimer = below_soft"

lemma gap_check_since:
  "since k (gap_check now cfg ob) = (if tick_gap now cfg ob then 0 else since k ob)"
  by (cases k) (simp_all add: gap_check_def tick_gap_def reset_windows_def)

lemma graded_conf: "gf_confidence (graded inp own) = fst (confidence_of inp own)"
  "gf_above_critical_for (graded inp own) = 0" "gf_above_soft_for (graded inp own) = 0"
  "gf_below_soft_for (graded inp own) = 0" "gf_healthy_for (graded inp own) = 0"
  "gf_external_util_trusted (graded inp own) = False"
  by (simp_all add: graded_def zero_gpu_def split: prod.split)

lemma no_sample_conf: "fi_sample inp = None \<Longrightarrow> fst (confidence_of inp own) = ConfidenceNone"
  by (simp add: confidence_of_def)

lemma growth_since: "growth now x w ob = (ob', d) \<Longrightarrow> since k ob' = since k ob"
  by (cases k) (auto simp: growth_def Let_def)

lemma hysteresis_timers:
  assumes "hysteresis now inp ob g = (ob', g')" and "gf_confidence g \<noteq> ConfidenceNone"
    and "gf_above_critical_for g = 0" "gf_above_soft_for g = 0" "gf_below_soft_for g = 0"
  shows "gf_confidence g' = gf_confidence g \<and> ob_last_tick ob' = ob_last_tick ob
    \<and> (k \<noteq> HealthyTimer \<longrightarrow> (since k ob', lasted k g') = run_timer (since k ob) (measured k inp g') now)
    \<and> since HealthyTimer ob' = since HealthyTimer ob \<and> lasted HealthyTimer g' = lasted HealthyTimer g"
proof -
  have e: "ob' = fst (hysteresis now inp ob g)" "g' = snd (hysteresis now inp ob g)" using assms(1) by simp_all
  show ?thesis
  proof (cases "gf_external_util_trusted g")
    case True
    then show ?thesis
      unfolding e using assms(2)
      by (cases k) (simp_all add: hysteresis_def Let_def case_prod_unfold soft_threshold_def above_critical_def above_soft_def
          below_soft_def)
  next
    case False
    then show ?thesis
      unfolding e using assms(2-)
      by (cases k) (simp_all add: hysteresis_def run_timer_def above_critical_def above_soft_def below_soft_def)
  qed
qed

lemma usage_timers:
  assumes "gpu_usage now inp own s ob g = (ob', g')" and "gf_confidence g \<noteq> ConfidenceNone"
    and "gf_above_critical_for g = 0" "gf_above_soft_for g = 0" "gf_below_soft_for g = 0"
  shows "gf_confidence g' = gf_confidence g \<and> ob_last_tick ob' = ob_last_tick ob
    \<and> (k \<noteq> HealthyTimer \<longrightarrow> (since k ob', lasted k g') = run_timer (since k ob) (measured k inp g') now)
    \<and> since HealthyTimer ob' = since HealthyTimer ob \<and> lasted HealthyTimer g' = lasted HealthyTimer g"
proof -
  define d where "d = split_sample s (\<lambda>p. p \<in> own)"
  define g1 where "g1 = totals s d g"
  define g2 where "g2 = (if gf_confidence g1 = ConfidenceHigh then measured_split d g1 else inferred_split inp own s d g1)"
  define ob1 where "ob1 = (if ob_last_conf ob \<noteq> gf_confidence g2 then ob\<lparr>ob_vram := []\<rparr> else ob)"
  obtain ob2 n where gr: "growth now (gf_external_vram_mib g2) (ct_critical_window (cf_contention (fi_config inp)))
      (ob1\<lparr>ob_last_conf := gf_confidence g2\<rparr>) = (ob2, n)" by (meson surj_pair)
  have h: "hysteresis now inp ob2 (g2\<lparr>gf_external_vram_growth_mib := n\<rparr>) = (ob', g')"
    using assms(1) gr unfolding gpu_usage_def Let_def d_def [symmetric] g1_def [symmetric] g2_def [symmetric] ob1_def [symmetric]
    by simp
  have g2: "gf_confidence g2 = gf_confidence g" "gf_above_critical_for g2 = gf_above_critical_for g"
    "gf_above_soft_for g2 = gf_above_soft_for g" "gf_below_soft_for g2 = gf_below_soft_for g" "gf_healthy_for g2 = gf_healthy_for g"
    by (simp_all add: g2_def g1_def totals_def measured_split_def inferred_split_def Let_def)
  have s: "since k ob2 = since k ob" for k
    using growth_since [OF gr, of k] by (cases k) (simp_all add: ob1_def)
  have l: "ob_last_tick ob2 = ob_last_tick ob" using gr by (auto simp: growth_def Let_def ob1_def)
  show ?thesis
    using hysteresis_timers [where k = k, OF h] assms(2-) s [of k] s [of HealthyTimer] l g2 by simp
qed

text \<open>One tick advances every timer on its own condition, from where it stood unless there was a gap.\<close>

lemma tick_timers:
  assumes "observe_tick now inp ob = (ob', f)"
  shows "(since k ob', lasted k (of_gpu f))
    = run_timer (if tick_gap now (fi_config (oi_facts inp)) ob then 0 else since k ob) (measured k (oi_facts inp) (of_gpu f)) now"
    and "ob_last_tick ob' = now"
proof -
  let ?fi = "oi_facts inp" and ?own = "own_pids (oi_facts inp)"
  define ob1 where "ob1 = (gap_check now (fi_config ?fi) (ob\<lparr>ob_cls := Some (classifier_for (fi_config ?fi) ob)\<rparr>))\<lparr>ob_last_tick := now\<rparr>"
  obtain g pp where t: "gpu now ?fi ?own ob1 = (ob', g, pp)" and g: "of_gpu f = g"
    using assms unfolding observe_tick_def Let_def ob1_def by (auto split: prod.splits)
  have s1: "since k ob1 = (if tick_gap now (fi_config ?fi) ob then 0 else since k ob)" for k
    using gap_check_since [of k now "fi_config ?fi" "ob\<lparr>ob_cls := Some (classifier_for (fi_config ?fi) ob)\<rparr>"]
    by (cases k) (auto simp: ob1_def tick_gap_def)
  obtain ob2 g0 where c: "track_confidence now ob1 (graded ?fi ?own) = (ob2, g0)" by (meson surj_pair)
  have g0: "gf_confidence g0 = fst (confidence_of ?fi ?own)" "gf_above_critical_for g0 = 0" "gf_above_soft_for g0 = 0"
    "gf_below_soft_for g0 = 0"
    using c by (auto simp: track_confidence_def Let_def graded_conf split: if_splits)
  have healthy: "(since HealthyTimer ob2, lasted HealthyTimer g0)
      = run_timer (since HealthyTimer ob1) (gf_confidence g0 \<noteq> ConfidenceNone) now"
    using c by (auto simp: track_confidence_def Let_def graded_conf run_timer_def split: if_splits)
  have others: "k \<noteq> HealthyTimer \<Longrightarrow> since k ob2 = since k ob1" for k
    using c by (cases k) (auto simp: track_confidence_def Let_def split: if_splits)
  have last: "ob_last_tick ob2 = now" using c by (auto simp: track_confidence_def Let_def ob1_def split: if_splits)
  show "(since k ob', lasted k (of_gpu f))
    = run_timer (if tick_gap now (fi_config ?fi) ob then 0 else since k ob) (measured k ?fi (of_gpu f)) now"
  proof (cases "gf_confidence g0 = ConfidenceNone")
    case True
    then have "g = g0" "ob' = reset_windows ob2"
      using t unfolding gpu_def c by (auto split: option.splits)
    then show ?thesis
      using True healthy g0
      by (cases k) (auto simp: g run_timer_def reset_windows_def graded_ok_def above_critical_def above_soft_def below_soft_def)
  next
    case False
    then obtain s where s: "fi_sample ?fi = Some s" using g0(1) no_sample_conf [of ?fi ?own] by (cases "fi_sample ?fi") auto
    have u: "gpu_usage now ?fi ?own s ob2 g0 = (ob', g)"
      using t s False unfolding gpu_def c by (auto split: prod.splits)
    show ?thesis
      using usage_timers [where k = k, OF u False g0(2-4)] healthy others [of k] False s1 [of k]
      by (cases k) (simp_all add: g graded_ok_def)
  qed
  show "ob_last_tick ob' = now"
  proof (cases "gf_confidence g0 = ConfidenceNone")
    case True
    then show ?thesis using t last unfolding gpu_def c by (auto simp: reset_windows_def split: option.splits)
  next
    case False
    then obtain s where s: "fi_sample ?fi = Some s" using g0(1) no_sample_conf [of ?fi ?own] by (cases "fi_sample ?fi") auto
    have u: "gpu_usage now ?fi ?own s ob2 g0 = (ob', g)"
      using t s False unfolding gpu_def c by (auto split: prod.splits)
    show ?thesis using usage_timers [OF u False g0(2-4)] last by simp
  qed
qed

subsection \<open>Runs of ticks\<close>

record tick =
  tk_now :: time
  tk_input :: obs_input
  tk_facts :: obs_facts

text \<open>The ticks of an observer, with what each of them reported.\<close>

fun obs_run :: "(time \<times> obs_input) list \<Rightarrow> observer \<Rightarrow> observer \<times> tick list" where
  "obs_run [] ob = (ob, [])"
| "obs_run ((now, inp) # ts) ob = (case observe_tick now inp ob of (ob1, f) \<Rightarrow>
     (case obs_run ts ob1 of (ob2, tks) \<Rightarrow> (ob2, \<lparr>tk_now = now, tk_input = inp, tk_facts = f\<rparr> # tks)))"

abbreviation tk_fi :: "tick \<Rightarrow> fact_input" where
  "tk_fi t \<equiv> oi_facts (tk_input t)"

definition no_gap :: "tick \<Rightarrow> tick \<Rightarrow> bool" where
  "no_gap a b = (tk_now a \<le> tk_now b \<and> t_sub (tk_now b) (tk_now a) \<le> max_gap (fi_config (tk_fi b)))"

text \<open>The ticks since \<open>s\<close>: without a gap, and with the condition at every one of them.\<close>

definition streak :: "timer \<Rightarrow> time \<Rightarrow> tick list \<Rightarrow> bool" where
  "streak k s tks = (\<exists>pre recent. tks = pre @ recent \<and> recent \<noteq> [] \<and> tk_now (hd recent) = s
     \<and> successively no_gap recent \<and> (\<forall>t \<in> set recent. measured k (tk_fi t) (of_gpu (tk_facts t))))"

lemma streak_start: "measured k (tk_fi t) (of_gpu (tk_facts t)) \<Longrightarrow> streak k (tk_now t) (tks @ [t])"
  unfolding streak_def by (intro exI [of _ tks] exI [of _ "[t]"]) simp

lemma streak_extend:
  assumes "streak k s tks" and "tks \<noteq> [] \<Longrightarrow> no_gap (last tks) t" and "measured k (tk_fi t) (of_gpu (tk_facts t))"
  shows "streak k s (tks @ [t])"
proof -
  obtain pre recent where r: "tks = pre @ recent" "recent \<noteq> []" "tk_now (hd recent) = s" "successively no_gap recent"
    "\<forall>t \<in> set recent. measured k (tk_fi t) (of_gpu (tk_facts t))"
    using assms(1) unfolding streak_def by blast
  then have "successively no_gap (recent @ [t])" using assms(2) by (simp add: successively_append_iff)
  then show ?thesis
    unfolding streak_def using r assms(3) by (intro exI [of _ pre] exI [of _ "recent @ [t]"]) auto
qed

definition timers_ok :: "observer \<Rightarrow> tick list \<Rightarrow> bool" where
  "timers_ok ob tks = ((tks = [] \<longrightarrow> ob_last_tick ob = 0 \<and> (\<forall>k. since k ob = 0))
     \<and> (tks \<noteq> [] \<longrightarrow> ob_last_tick ob = tk_now (last tks) \<and> 0 < ob_last_tick ob)
     \<and> (\<forall>k. since k ob \<noteq> 0 \<longrightarrow> streak k (since k ob) tks))"

lemma timers_ok_tick:
  assumes "timers_ok ob tks" and "0 < now" and "observe_tick now inp ob = (ob', f)"
  shows "timers_ok ob' (tks @ [\<lparr>tk_now = now, tk_input = inp, tk_facts = f\<rparr>])"
    and "0 < lasted k (of_gpu f) \<Longrightarrow> since k ob' \<noteq> 0 \<and> lasted k (of_gpu f) = t_sub now (since k ob')"
proof -
  let ?t = "\<lparr>tk_now = now, tk_input = inp, tk_facts = f\<rparr>" and ?cfg = "fi_config (oi_facts inp)"
  note T = tick_timers [OF assms(3)]
  have gap: "no_gap (last tks) ?t" if "\<not> tick_gap now ?cfg ob" "tks \<noteq> []"
    using that assms(1) by (auto simp: timers_ok_def no_gap_def tick_gap_def)
  have "streak k (since k ob') (tks @ [?t])" if "since k ob' \<noteq> 0" for k
  proof -
    have m: "measured k (tk_fi ?t) (of_gpu (tk_facts ?t))"
      using T(1) [of k] that by (auto simp: run_timer_def Let_def split: if_splits)
    show ?thesis
    proof (cases "tick_gap now ?cfg ob \<or> since k ob = 0")
      case True
      then have "since k ob' = now" using T(1) [of k] m by (auto simp: run_timer_def Let_def split: if_splits)
      then show ?thesis using streak_start [of k ?t tks] m by simp
    next
      case False
      then have "since k ob' = since k ob" using T(1) [of k] m by (auto simp: run_timer_def Let_def split: if_splits)
      then show ?thesis using False streak_extend [of k "since k ob" tks ?t] gap m assms(1) by (auto simp: timers_ok_def)
    qed
  qed
  then show "timers_ok ob' (tks @ [?t])" using T(2) assms(2) by (simp add: timers_ok_def)
  show "since k ob' \<noteq> 0 \<and> lasted k (of_gpu f) = t_sub now (since k ob')" if "0 < lasted k (of_gpu f)"
    using T(1) [of k] that assms(2) by (auto simp: run_timer_def Let_def split: if_splits)
qed

lemma obs_run_append:
  "obs_run (ts @ us) ob = (case obs_run ts ob of (ob1, a) \<Rightarrow> (case obs_run us ob1 of (ob2, b) \<Rightarrow> (ob2, a @ b)))"
  by (induction ts ob rule: obs_run.induct) (auto split: prod.splits)

lemma obs_run_ok:
  "\<forall>t \<in> set ts. 0 < fst t \<Longrightarrow> obs_run ts new_observer = (ob, tks) \<Longrightarrow> timers_ok ob tks"
proof (induction ts arbitrary: ob tks rule: rev_induct)
  case Nil
  have "since k new_observer = 0" for k by (cases k) (simp_all add: new_observer_def)
  then show ?case using Nil by (auto simp: timers_ok_def new_observer_def)
next
  case (snoc x ts)
  obtain now inp where x: "x = (now, inp)" by (cases x)
  obtain ob1 a where r: "obs_run ts new_observer = (ob1, a)" by (cases "obs_run ts new_observer")
  obtain ob2 f where t: "observe_tick now inp ob1 = (ob2, f)" by (cases "observe_tick now inp ob1")
  have "timers_ok ob1 a" using snoc r by simp
  from timers_ok_tick(1) [OF this _ t] show ?case using snoc.prems by (simp add: obs_run_append r x t)
qed

subsection \<open>The application lists\<close>

definition demand_key :: "app_match \<Rightarrow> flt \<times> int \<times> int" where
  "demand_key m = (- am_gpu_util_pct m, - am_vram_mib m, am_pid m)"

definition util_of :: "(int \<rightharpoonup> proc_gpu) \<Rightarrow> process \<Rightarrow> flt" where
  "util_of pp p = (case pp (pr_pid p) of Some u \<Rightarrow> max_util u | None \<Rightarrow> 0)"

definition vram_of :: "(int \<rightharpoonup> proc_gpu) \<Rightarrow> process \<Rightarrow> int" where
  "vram_of pp p = (case pp (pr_pid p) of Some u \<Rightarrow> int (pg_dedicated_bytes u div mib) | None \<Rightarrow> 0)"

definition class_in :: "classifier \<Rightarrow> process \<Rightarrow> app_class" where
  "class_in cl p = fst (class_of cl (pr_name p) (pr_path p))"

text \<open>Who is put on each list, written over the processes of the snapshot.\<close>

definition launched_by :: "int set \<Rightarrow> classifier \<Rightarrow> process list \<Rightarrow> process \<Rightarrow> bool" where
  "launched_by own cl ps p = (\<exists>q \<in> set ps. pr_pid q = pr_ppid p \<and> pr_pid q \<noteq> pr_pid p \<and> pr_pid q \<notin> own
     \<and> class_in cl q = ClassLauncher
     \<and> \<not> (pr_create_time q \<noteq> 0 \<and> pr_create_time p \<noteq> 0 \<and> pr_create_time p < pr_create_time q))"

definition unclassified :: "app_class \<Rightarrow> bool" where
  "unclassified c = (c \<notin> {ClassGame, ClassLauncher, ClassOrdinary, ClassIgnore})"

lemma by_pid_Some:
  "distinct (map pr_pid ps) \<Longrightarrow> by_pid cl ps i = Some c \<longleftrightarrow> (\<exists>p \<in> set ps. pr_pid p = i \<and> c = classify_process cl p)"
  unfolding by_pid_def by (subst map_of_eq_Some_iff) (auto simp: rev_map [symmetric] comp_def distinct_rev)

lemma classify_simps [simp]:
  "cd_p (classify_process cl p) = p" "cd_class (classify_process cl p) = class_in cl p"
  by (simp_all add: classify_process_def class_in_def split: prod.split)

lemma build_simps [simp]:
  "am_pid (build_match now pp ag c) = pr_pid (cd_p c)"
  "am_gpu_util_pct (build_match now pp ag c) = util_of pp (cd_p c)"
  "am_vram_mib (build_match now pp ag c) = vram_of pp (cd_p c)"
  by (simp_all add: build_match_def Let_def util_of_def vram_of_def)

lemma launcher_parent_iff:
  assumes "distinct (map pr_pid ps)"
  shows "launcher_parent own (by_pid cl ps) p \<noteq> None \<longleftrightarrow> launched_by own cl ps p"
proof (cases "by_pid cl ps (pr_ppid p)")
  case None
  then have "pr_pid q \<noteq> pr_ppid p" if "q \<in> set ps" for q using by_pid_Some [OF assms, of cl "pr_ppid p"] that by auto
  then show ?thesis using None by (auto simp: launcher_parent_def launched_by_def)
next
  case (Some c)
  then obtain q where q: "q \<in> set ps" "pr_pid q = pr_ppid p" "c = classify_process cl q"
    using by_pid_Some [OF assms, of cl "pr_ppid p"] by auto
  have "r = q" if "r \<in> set ps" "pr_pid r = pr_ppid p" for r
    using assms q(1,2) that by (auto simp: distinct_map inj_on_def)
  then have "launched_by own cl ps p \<longleftrightarrow> pr_pid q \<noteq> pr_pid p \<and> pr_pid q \<notin> own \<and> class_in cl q = ClassLauncher
     \<and> \<not> (pr_create_time q \<noteq> 0 \<and> pr_create_time p \<noteq> 0 \<and> pr_create_time p < pr_create_time q)"
    unfolding launched_by_def using q(1,2) by blast
  then show ?thesis using Some q by (simp add: launcher_parent_def)
qed

text \<open>The processes the loop adds to each list.\<close>

definition pids_where :: "int set \<Rightarrow> process list \<Rightarrow> (process \<Rightarrow> bool) \<Rightarrow> int set" where
  "pids_where own ps Q = pr_pid ` {p \<in> set ps. pr_pid p \<notin> own \<and> Q p}"

lemma pids_where_snoc:
  "pids_where own (ps @ [p]) Q = pids_where own ps Q \<union> (if pr_pid p \<notin> own \<and> Q p then {pr_pid p} else {})"
  by (auto simp: pids_where_def)

lemma pids_where_Cons:
  "pids_where own [] Q = {}"
  "pids_where own (p # ps) Q = (if pr_pid p \<notin> own \<and> Q p then {pr_pid p} else {}) \<union> pids_where own ps Q"
  by (auto simp: pids_where_def)

lemma add_process_lists:
  assumes c: "bp (pr_pid p) = Some (classify_process cl p)" and par: "launcher_parent own bp p \<noteq> None \<longleftrightarrow> L p"
    and a': "a' = add_process now own pp agent bp p a"
  shows "am_pid ` set (af_games a') = am_pid ` set (af_games a)
      \<union> (if pr_pid p \<notin> own \<and> class_in cl p = ClassGame then {pr_pid p} else {})"
    and "am_pid ` set (af_launchers a') = am_pid ` set (af_launchers a)
      \<union> (if pr_pid p \<notin> own \<and> class_in cl p = ClassLauncher then {pr_pid p} else {})"
    and "am_pid ` set (af_ordinary a') = am_pid ` set (af_ordinary a)
      \<union> (if pr_pid p \<notin> own \<and> (class_in cl p = ClassOrdinary \<and> (1 \<le> util_of pp p \<or> 64 \<le> vram_of pp p)) then {pr_pid p} else {})"
    and "am_pid ` set (af_launcher_children a') = am_pid ` set (af_launcher_children a)
      \<union> (if pr_pid p \<notin> own \<and> (unclassified (class_in cl p) \<and> L p \<and> (1 \<le> util_of pp p \<or> 128 \<le> vram_of pp p)) then {pr_pid p} else {})"
    and "am_pid ` set (af_observed_gpu_users a') = am_pid ` set (af_observed_gpu_users a)
      \<union> (if pr_pid p \<notin> own \<and> gpu_active (pp (pr_pid p)) then {pr_pid p} else {})"
  unfolding a' using par
  by (cases "class_in cl p"; auto simp: add_process_def c Let_def add_launcher_child_def unclassified_def
      ordinary_min_util_pct_def ordinary_min_vram_mib_def launcher_child_min_util_pct_def launcher_child_min_vram_mib_def
      split: option.splits)+

definition app_lists :: "int set \<Rightarrow> (int \<rightharpoonup> proc_gpu) \<Rightarrow> classifier \<Rightarrow> process list \<Rightarrow> process list \<Rightarrow> app_facts \<Rightarrow> bool" where
  "app_lists own pp cl ps qs a =
     (am_pid ` set (af_games a) = pids_where own qs (\<lambda>p. class_in cl p = ClassGame)
      \<and> am_pid ` set (af_launchers a) = pids_where own qs (\<lambda>p. class_in cl p = ClassLauncher)
      \<and> am_pid ` set (af_ordinary a) = pids_where own qs (\<lambda>p. class_in cl p = ClassOrdinary \<and> (1 \<le> util_of pp p \<or> 64 \<le> vram_of pp p))
      \<and> am_pid ` set (af_launcher_children a) = pids_where own qs
           (\<lambda>p. unclassified (class_in cl p) \<and> launched_by own cl ps p \<and> (1 \<le> util_of pp p \<or> 128 \<le> vram_of pp p))
      \<and> am_pid ` set (af_observed_gpu_users a) = pids_where own qs (\<lambda>p. gpu_active (pp (pr_pid p))))"

lemma app_lists_fold:
  assumes "distinct (map pr_pid ps)" and "set qs \<subseteq> set ps"
  shows "app_lists own pp cl ps qs (fold (add_process now own pp agent (by_pid cl ps)) qs (zero_apps\<lparr>af_process_list_ok := True\<rparr>))"
  using assms(2)
proof (induction qs rule: rev_induct)
  case Nil
  then show ?case by (simp add: app_lists_def pids_where_def zero_apps_def)
next
  case (snoc p qs)
  have "by_pid cl ps (pr_pid p) = Some (classify_process cl p)" using by_pid_Some [OF assms(1)] snoc.prems by auto
  note L = add_process_lists [where bp = "by_pid cl ps" and L = "launched_by own cl ps", OF this launcher_parent_iff [OF assms(1)]]
  show ?case
    unfolding app_lists_def fold_append fold_simps comp_apply pids_where_snoc
    using snoc by (intro conjI L [OF refl, THEN trans]; simp add: app_lists_def)
qed

lemma sort_apps_simps [simp]:
  "set (af_games (sort_apps a)) = set (af_games a)" "set (af_launchers (sort_apps a)) = set (af_launchers a)"
  "set (af_ordinary (sort_apps a)) = set (af_ordinary a)"
  "set (af_launcher_children (sort_apps a)) = set (af_launcher_children a)"
  "set (af_observed_gpu_users (sort_apps a)) = set (af_observed_gpu_users a)"
  "sorted (map demand_key (af_games (sort_apps a)))" "sorted (map demand_key (af_launchers (sort_apps a)))"
  "sorted (map demand_key (af_ordinary (sort_apps a)))" "sorted (map demand_key (af_launcher_children (sort_apps a)))"
  "sorted (map demand_key (af_observed_gpu_users (sort_apps a)))"
  by (simp_all add: sort_apps_def by_demand_def demand_key_def [abs_def])

subsection \<open>The GPU figures\<close>

definition others :: "fact_input \<Rightarrow> sample \<Rightarrow> proc_gpu list" where
  "others inp s = filter (\<lambda>p. pg_pid p \<notin> own_pids inp) (sm_processes s)"

lemma split_external:
  "sum_bytes (filter (\<lambda>p. \<not> own (pg_pid p)) (sm_processes s)) \<le> dm_external_dedicated_bytes (split_sample s own)"
  "dm_own_dedicated_bytes (split_sample s own) = sum_bytes (filter (\<lambda>p. own (pg_pid p)) (sm_processes s))"
proof -
  have f: "fold (\<lambda>p b. if P p then u64 (b + pg_dedicated_bytes p) else b) ps n
      = fold (\<lambda>p b. u64 (b + pg_dedicated_bytes p)) (filter P ps) n" for P ps n
    by (induction ps arbitrary: n) auto
  have g: "(\<lambda>p b. if own (pg_pid p) then b else u64 (b + pg_dedicated_bytes p))
      = (\<lambda>p b. if \<not> own (pg_pid p) then u64 (b + pg_dedicated_bytes p) else b)"
    by (auto simp: fun_eq_iff)
  show "sum_bytes (filter (\<lambda>p. \<not> own (pg_pid p)) (sm_processes s)) \<le> dm_external_dedicated_bytes (split_sample s own)"
    by (auto simp: split_sample_def Let_def sum_bytes_def g f)
  show "dm_own_dedicated_bytes (split_sample s own) = sum_bytes (filter (\<lambda>p. own (pg_pid p)) (sm_processes s))"
    by (simp add: split_sample_def Let_def sum_bytes_def f)
qed

text \<open>The figures of a tick: those of the split that fits its confidence.\<close>

definition figures :: "fact_input \<Rightarrow> int set \<Rightarrow> sample \<Rightarrow> gpu_facts \<Rightarrow> gpu_facts" where
  "figures inp own s g = (let d = split_sample s (\<lambda>p. p \<in> own); g1 = totals s d g in
     if gf_confidence g1 = ConfidenceHigh then measured_split d g1 else inferred_split inp own s d g1)"

definition same_figures :: "gpu_facts \<Rightarrow> gpu_facts \<Rightarrow> bool" where
  "same_figures g h = (gf_confidence g = gf_confidence h \<and> gf_total_util_pct g = gf_total_util_pct h
     \<and> gf_own_util_pct g = gf_own_util_pct h \<and> gf_external_util_pct g = gf_external_util_pct h
     \<and> gf_external_util_trusted g = gf_external_util_trusted h \<and> gf_vram_used_mib g = gf_vram_used_mib h
     \<and> gf_vram_free_mib g = gf_vram_free_mib h \<and> gf_vram_total_mib g = gf_vram_total_mib h
     \<and> gf_own_vram_mib g = gf_own_vram_mib h \<and> gf_external_vram_mib g = gf_external_vram_mib h)"

lemma hysteresis_figures: "hysteresis now inp ob g = (ob', g') \<Longrightarrow> same_figures g' g"
  unfolding hysteresis_def Let_def same_figures_def by (auto split: if_splits prod.splits)

lemma usage_figures: "gpu_usage now inp own s ob g = (ob', g') \<Longrightarrow> same_figures g' (figures inp own s g)"
  unfolding gpu_usage_def Let_def figures_def
  by (auto simp: same_figures_def split: prod.splits dest!: hysteresis_figures)

lemma tick_facts:
  assumes "observe_tick now inp ob = (ob', f)"
  shows "gf_confidence (of_gpu f) = fst (confidence_of (oi_facts inp) (own_pids (oi_facts inp)))"
    and "fi_sample (oi_facts inp) = Some s \<Longrightarrow> gf_confidence (of_gpu f) \<noteq> ConfidenceNone \<Longrightarrow>
      \<exists>g0. same_figures (of_gpu f) (figures (oi_facts inp) (own_pids (oi_facts inp)) s g0)
        \<and> gf_confidence g0 = gf_confidence (of_gpu f) \<and> gf_own_vram_mib g0 = 0"
proof -
  let ?fi = "oi_facts inp" and ?own = "own_pids (oi_facts inp)"
  obtain ob1 g pp where t: "gpu now ?fi ?own ob1 = (ob', g, pp)" and g: "of_gpu f = g"
    using assms unfolding observe_tick_def Let_def by (auto split: prod.splits)
  obtain ob2 g0 where c: "track_confidence now ob1 (graded ?fi ?own) = (ob2, g0)" by (meson surj_pair)
  have g0: "gf_confidence g0 = fst (confidence_of ?fi ?own)" "gf_own_vram_mib g0 = 0"
    using c by (auto simp: track_confidence_def Let_def graded_def zero_gpu_def split: if_splits prod.splits)
  have u: "g = g0 \<or> (\<exists>s ob3. fi_sample ?fi = Some s \<and> gpu_usage now ?fi ?own s ob2 g0 = (ob3, g) \<and> gf_confidence g0 \<noteq> ConfidenceNone)"
    using t unfolding gpu_def c by (auto split: option.splits if_splits prod.splits)
  then show c': "gf_confidence (of_gpu f) = fst (confidence_of ?fi ?own)"
    using g g0(1) by (auto dest!: usage_figures simp: same_figures_def figures_def totals_def measured_split_def
        inferred_split_def Let_def split: if_splits)
  assume s: "fi_sample ?fi = Some s" and n: "gf_confidence (of_gpu f) \<noteq> ConfidenceNone"
  then have "\<exists>ob3. gpu_usage now ?fi ?own s ob2 g0 = (ob3, g)"
    using t c' g0(1) unfolding gpu_def c by (auto split: prod.splits)
  then show "\<exists>g0. same_figures (of_gpu f) (figures ?fi ?own s g0) \<and> gf_confidence g0 = gf_confidence (of_gpu f) \<and> gf_own_vram_mib g0 = 0"
    using usage_figures g c' g0 by metis
qed

lemma div_sum: "(a :: nat) \<le> b + c \<Longrightarrow> a div m \<le> b div m + c div m + 1"
proof (cases "m = 0")
  case False
  assume "a \<le> b + c"
  then have "a div m \<le> (b + c) div m" by (rule div_le_mono)
  also have "(b + c) div m = b div m + c div m + (b mod m + c mod m) div m" by (rule div_add1_eq)
  also have "(b mod m + c mod m) div m < 2"
    using False mod_less_divisor [of m b] mod_less_divisor [of m c] by (subst div_less_iff_less_mult) linarith+
  then have "b div m + c div m + (b mod m + c mod m) div m \<le> b div m + c div m + 1" by linarith
  finally show ?thesis .
qed simp

subsection \<open>The session\<close>

text \<open>What reaches the adapter, in any order.\<close>

datatype fact_op = FactsReport time agent_report | FactsSession session_kind int | FactsBuild time fact_input

fun fact_step :: "fact_op \<Rightarrow> fact_source \<Rightarrow> fact_source" where
  "fact_step (FactsReport now r) f = agent_report_received now r f"
| "fact_step (FactsSession k i) f = session_change k i f"
| "fact_step (FactsBuild now inp) f = fst (build now inp f)"

text \<open>Read off the sequence, newest last: the last report with its time, and the lock state of a
  session, which its last event decides.\<close>

fun last_report :: "fact_op list \<Rightarrow> (time \<times> agent_report) option" where
  "last_report [] = None"
| "last_report (x # xs) = (case last_report xs of
      Some r \<Rightarrow> Some r
    | None \<Rightarrow> (case x of FactsReport now r \<Rightarrow> Some (now, r) | _ \<Rightarrow> None))"

fun lock_after :: "int \<Rightarrow> bool option \<Rightarrow> fact_op list \<Rightarrow> bool option" where
  "lock_after i l [] = l"
| "lock_after i l (x # xs) = lock_after i (case x of
      FactsSession k j \<Rightarrow>
        (if j \<noteq> i then l else if k = SessionLock then Some True else if k = SessionUnlock then Some False
         else if k = SessionLogon \<or> k = SessionLogoff then None else l)
    | _ \<Rightarrow> l) xs"

lemma last_report_snoc:
  "last_report (xs @ [x]) = (case x of FactsReport now r \<Rightarrow> Some (now, r) | _ \<Rightarrow> last_report xs)"
  by (induction xs) (auto split: fact_op.splits option.splits)

lemma lock_after_snoc:
  "lock_after i l (xs @ [x]) = lock_after i (lock_after i l xs) [x]"
  by (induction xs arbitrary: l) (simp_all del: lock_after.simps(2), simp_all)

lemma fact_steps:
  assumes "f = fold fact_step ops new_facts"
  shows "(case last_report ops of None \<Rightarrow> fs_agent f = None
           | Some (now, r) \<Rightarrow> fs_agent f = Some r \<and> fs_agent_at f = now) \<and> (\<forall>i. fs_locked f i = lock_after i None ops)"
  using assms
proof (induction ops arbitrary: f rule: rev_induct)
  case Nil
  then show ?case by (simp add: new_facts_def)
next
  case (snoc x ops)
  let ?g = "fold fact_step ops new_facts"
  have IH: "(case last_report ops of None \<Rightarrow> fs_agent ?g = None
           | Some (now, r) \<Rightarrow> fs_agent ?g = Some r \<and> fs_agent_at ?g = now)" "\<forall>i. fs_locked ?g i = lock_after i None ops"
    using snoc.IH [OF refl] by auto
  have f: "f = fact_step x ?g" using snoc.prems by simp
  show ?case
  proof (cases x)
    case (FactsReport now r)
    then show ?thesis using IH by (simp add: f last_report_snoc lock_after_snoc agent_report_received_def)
  next
    case (FactsSession k i)
    then show ?thesis using IH
      by (cases k) (auto simp: f last_report_snoc lock_after_snoc session_change_def split: option.splits)
  next
    case (FactsBuild now inp)
    have "fs_agent (fst (build now inp ?g)) = fs_agent ?g \<and> fs_agent_at (fst (build now inp ?g)) = fs_agent_at ?g
        \<and> fs_locked (fst (build now inp ?g)) = fs_locked ?g"
      by (auto simp: build_def Let_def split: prod.splits)
    then show ?thesis using IH FactsBuild by (auto simp: f last_report_snoc lock_after_snoc split: option.splits)
  qed
qed

lemma build_session:
  "snd (snd (snd (build now inp f))) = fst (session now
     \<lparr>oi_facts = inp, oi_agent = map_option (\<lambda>a. case fs_locked f (ag_session_id a) of Some l \<Rightarrow> a\<lparr>ag_locked := l\<rparr> | None \<Rightarrow> a) (fs_agent f),
      oi_agent_at = fs_agent_at f\<rparr> (classifier_for (fi_config inp) (fs_obs f)))"
  by (simp add: build_def observe_tick_def Let_def split: prod.splits)

subsection \<open>Properties\<close>

text \<open>C12. A duration the observer reports is true of the whole time it spans: when it says that
  utilization by others has been above the critical or the soft threshold, below the soft one, or that
  telemetry has been healthy, for some time, then there was a tick that long ago, the ticks since then
  followed each other without a gap or a clock running backwards, and the condition held, trusted, at
  every one of them.\<close>

theorem durations_are_continuous:
  assumes run: "obs_run ts new_observer = (ob, tks)" and times: "\<forall>t \<in> set ts. 0 < fst t"
    and last: "tks = before @ [t]" and d: "0 < lasted k (of_gpu (tk_facts t))"
  shows "\<exists>pre recent. tks = pre @ recent \<and> recent \<noteq> []
    \<and> t_sub (tk_now t) (tk_now (hd recent)) = lasted k (of_gpu (tk_facts t))
    \<and> successively no_gap recent \<and> (\<forall>x \<in> set recent. measured k (tk_fi x) (of_gpu (tk_facts x)))"
proof -
  have "ts \<noteq> []" using run last by auto
  then obtain us now inp where ts: "ts = us @ [(now, inp)]" by (cases ts rule: rev_cases) auto
  obtain ob1 a where r: "obs_run us new_observer = (ob1, a)" by (cases "obs_run us new_observer")
  obtain ob2 f where o: "observe_tick now inp ob1 = (ob2, f)" by (cases "observe_tick now inp ob1")
  have t: "t = \<lparr>tk_now = now, tk_input = inp, tk_facts = f\<rparr>" "before = a" "ob2 = ob"
    using run last by (auto simp: ts obs_run_append r o)
  have ok: "timers_ok ob1 a" and now: "0 < now" using obs_run_ok [OF _ r] times by (auto simp: ts)
  note K = timers_ok_tick [OF ok now o]
  have "since k ob2 \<noteq> 0 \<and> lasted k (of_gpu f) = t_sub now (since k ob2)" using K(2) d by (simp add: t(1))
  then have "streak k (since k ob2) tks" "lasted k (of_gpu f) = t_sub now (since k ob2)"
    using K(1) last t(1,2) by (auto simp: timers_ok_def)
  then obtain pre recent where r: "tks = pre @ recent" "recent \<noteq> []" "tk_now (hd recent) = since k ob2"
    "successively no_gap recent" "\<forall>x \<in> set recent. measured k (tk_fi x) (of_gpu (tk_facts x))" "lasted k (of_gpu f) = t_sub now (since k ob2)"
    unfolding streak_def by blast
  show ?thesis by (intro exI [of _ pre] exI [of _ recent] conjI r(1,2,4,5)) (simp add: t(1) r)
qed

text \<open>The application facts hold exactly the processes they should: of the processes that are not
  the runtime's, every game and every launcher, the ordinary applications and the unclassified
  children of a launcher that use the GPU measurably, and everything seen using the GPU; a child
  counts only for a parent that is a launcher, is not the runtime's and is not younger. Each list is
  ordered with the heaviest user first.\<close>

theorem application_lists_correct:
  assumes "fi_procs inp = Some ps" and "distinct (map pr_pid ps)"
  shows "let a = apps now inp own pp agent cl in app_lists own pp cl ps ps a
    \<and> (\<forall>l \<in> {af_games a, af_launchers a, af_ordinary a, af_launcher_children a, af_observed_gpu_users a}.
         sorted (map demand_key l) \<and> am_pid ` set l \<inter> own = {})"
proof -
  let ?a = "apps now inp own pp agent cl"
  have l: "app_lists own pp cl ps ps ?a"
    using app_lists_fold [OF assms(2) subset_refl, of own pp cl now agent] by (simp add: apps_def assms(1) app_lists_def)
  have "pids_where own ps Q \<inter> own = {}" for Q by (auto simp: pids_where_def)
  then show ?thesis using l by (auto simp: app_lists_def apps_def assms(1) Let_def)
qed


text \<open>C13. The memory and utilization facts account for the adapter: what it reports as used is covered by
  the runtime's share and the others', up to the unit lost in rounding to MiB; the others' share is at
  least what the sample attributes to their processes; every utilization is a percentage, and that of
  the others is trusted only when it was measured or while the runtime is not working; without a
  runtime nothing is counted as its memory when the split has to be inferred.\<close>

theorem gpu_facts_accounted:
  assumes tick: "observe_tick now inp ob = (ob', f)" and s: "fi_sample (oi_facts inp) = Some s"
    and conf: "gf_confidence (of_gpu f) \<noteq> ConfidenceNone"
  shows "let g = of_gpu f; fi = oi_facts inp in
    gf_vram_used_mib g = int (sm_dedicated_used_bytes s div mib)
    \<and> gf_vram_used_mib g \<le> gf_own_vram_mib g + gf_external_vram_mib g + 1
    \<and> int (sum_bytes (others fi s) div mib) \<le> gf_external_vram_mib g
    \<and> 0 \<le> gf_external_util_pct g \<and> gf_external_util_pct g \<le> 100
    \<and> 0 \<le> gf_own_util_pct g \<and> gf_own_util_pct g \<le> 100
    \<and> 0 \<le> gf_total_util_pct g \<and> gf_total_util_pct g \<le> 100
    \<and> (gf_external_util_trusted g \<longrightarrow> gf_confidence g = ConfidenceHigh \<or> \<not> fi_runtime_busy fi)
    \<and> (gf_confidence g \<noteq> ConfidenceHigh \<and> own_pids fi = {} \<longrightarrow> gf_own_vram_mib g = 0)"
proof -
  let ?fi = "oi_facts inp"
  let ?own = "\<lambda>p. p \<in> own_pids ?fi"
  let ?d = "split_sample s ?own"
  obtain g0 where g: "same_figures (of_gpu f) (figures ?fi (own_pids ?fi) s g0)"
    "gf_confidence g0 = gf_confidence (of_gpu f)" "gf_own_vram_mib g0 = 0"
    using tick_facts(2) [OF tick s conf] by blast
  have b: "0 \<le> dm_total_util_pct ?d" "dm_total_util_pct ?d \<le> 100" "0 \<le> dm_own_util_pct ?d" "dm_own_util_pct ?d \<le> 100"
    "0 \<le> dm_external_util_pct ?d" "dm_external_util_pct ?d \<le> 100"
    "sm_dedicated_used_bytes s \<le> dm_own_dedicated_bytes ?d + dm_external_dedicated_bytes ?d"
    using split_sound [of s ?own] by (simp_all add: Let_def)
  have ext: "sum_bytes (others ?fi s) div mib \<le> dm_external_dedicated_bytes ?d div mib"
    using div_le_mono [OF split_external(1) [of ?own s]] by (simp add: others_def)
  have used: "int (sm_dedicated_used_bytes s div mib)
      \<le> int (dm_own_dedicated_bytes ?d div mib) + int (dm_external_dedicated_bytes ?d div mib) + 1"
    using div_sum [OF b(7), of mib] by linarith
  show ?thesis
  proof (cases "gf_confidence g0 = ConfidenceHigh")
    case True
    then have e: "figures ?fi (own_pids ?fi) s g0 = measured_split ?d (totals s ?d g0)"
      by (simp add: figures_def Let_def totals_def)
    show ?thesis
      using g(1) b ext used True g(2) unfolding e by (simp add: same_figures_def measured_split_def totals_def Let_def)
  next
    case False
    then have e: "figures ?fi (own_pids ?fi) s g0 = inferred_split ?fi (own_pids ?fi) s ?d (totals s ?d g0)"
      by (simp add: figures_def Let_def totals_def)
    show ?thesis
      using g b unfolding e by (simp add: same_figures_def inferred_split_def totals_def Let_def others_def)
  qed
qed

subsection \<open>Runs\<close>

definition plain_sample :: sample where
  "plain_sample = zero_sample\<lparr>sm_complete := True, sm_dedicated_total_bytes := 8 * mib, sm_dedicated_used_bytes := 2 * mib\<rparr>"

definition plain_input :: obs_input where
  "plain_input = \<lparr>oi_facts = \<lparr>fi_sample = Some plain_sample, fi_procs = None, fi_runtime_pid = 0, fi_own_pids = [],
     fi_runtime_busy = False, fi_footprint_mib = 0, fi_profile = zero_profile, fi_config = bare_config\<rparr>,
     oi_agent = None, oi_agent_at = 0\<rparr>"

lemma plain_conf: "fst (confidence_of (oi_facts plain_input) (own_pids (oi_facts plain_input))) = ConfidenceDegraded"
  by (simp add: confidence_of_def plain_input_def plain_sample_def zero_sample_def)

theorem durations_are_continuous_witness:
  "\<exists>recent :: tick list. recent \<noteq> [] \<and> t_sub (2 * second) (tk_now (hd recent)) = second
     \<and> (\<forall>x \<in> set recent. gf_confidence (of_gpu (tk_facts x)) \<noteq> ConfidenceNone)"
proof -
  let ?ts = "[(second, plain_input), (2000000000, plain_input)]"
  obtain ob1 f1 where o1: "observe_tick second plain_input new_observer = (ob1, f1)"
    by (cases "observe_tick second plain_input new_observer")
  obtain ob2 f2 where o2: "observe_tick (2000000000) plain_input ob1 = (ob2, f2)" by (cases "observe_tick (2000000000) plain_input ob1")
  let ?t = "\<lambda>n f. \<lparr>tk_now = n, tk_input = plain_input, tk_facts = f\<rparr>"
  have run: "obs_run ?ts new_observer = (ob2, [?t second f1] @ [?t (2000000000) f2])" by (simp add: o1 o2)
  have ok: "graded_ok (oi_facts plain_input) (of_gpu f1)" "graded_ok (oi_facts plain_input) (of_gpu f2)"
    using tick_facts(1) [OF o1] tick_facts(1) [OF o2] by (simp_all add: graded_ok_def plain_conf)
  have "since HealthyTimer ob1 = second"
    using tick_timers(1) [OF o1, of HealthyTimer] ok by (simp add: run_timer_def new_observer_def tick_gap_def)
  moreover have "\<not> tick_gap (2000000000) (fi_config (oi_facts plain_input)) ob1"
    using tick_timers(2) [OF o1] by (simp add: tick_gap_def t_sub_def max_dur_def min_dur_def max_gap_def min_gap_def)
  ultimately have l: "lasted HealthyTimer (of_gpu f2) = second"
    using tick_timers(1) [OF o2, of HealthyTimer] ok by (simp add: run_timer_def t_sub_def max_dur_def min_dur_def)
  have "0 < lasted HealthyTimer (of_gpu (tk_facts (?t 2000000000 f2)))" using l by simp
  from durations_are_continuous [OF run _ refl this]
  obtain pre and recent :: "tick list" where "recent \<noteq> []" "t_sub 2000000000 (tk_now (hd recent)) = second"
    "\<forall>x \<in> set recent. gf_confidence (of_gpu (tk_facts x)) \<noteq> ConfidenceNone"
    using l by (auto simp: graded_ok_def)
  then show ?thesis by (intro exI [of _ recent]) simp
qed

definition demo_process :: "int \<Rightarrow> string \<Rightarrow> process" where
  "demo_process i n = \<lparr>pr_pid = i, pr_ppid = 0, pr_name = n, pr_path = '''', pr_session_id = 1, pr_create_time = 0\<rparr>"

theorem application_lists_correct_witness:
  "(let ps = [demo_process 7 ''llama-server'', demo_process 9 ''notes''];
        inp = (oi_facts plain_input)\<lparr>fi_procs := Some ps\<rparr>
    in am_pid ` set (af_observed_gpu_users (apps 5 inp {7} [9 \<mapsto> \<lparr>pg_pid = 9, pg_name = '''', pg_engine_util = [],
         pg_engine_by_key = [], pg_dedicated_bytes = 4, pg_shared_bytes = 0\<rparr>] None (new_classifier []))) = {9})"
proof -
  let ?ps = "[demo_process 7 ''llama-server'', demo_process 9 ''notes'']"
  let ?inp = "(oi_facts plain_input)\<lparr>fi_procs := Some ?ps\<rparr>"
  have d: "fi_procs ?inp = Some ?ps" "distinct (map pr_pid ?ps)" by (simp_all add: demo_process_def)
  let ?u = "\<lparr>pg_pid = 9, pg_name = '''', pg_engine_util = [], pg_engine_by_key = [], pg_dedicated_bytes = 4, pg_shared_bytes = 0\<rparr>"
  let ?a = "apps 5 ?inp {7} [9 \<mapsto> ?u] None (new_classifier [])"
  have "app_lists {7} [9 \<mapsto> ?u] (new_classifier []) ?ps ?ps ?a"
    using application_lists_correct [OF d, where own = "{7}" and pp = "[9 \<mapsto> ?u]" and cl = "new_classifier []" and now = 5 and agent = None]
    unfolding Let_def by (rule conjunct1)
  then have "am_pid ` set (af_observed_gpu_users ?a) = pids_where {7} ?ps (\<lambda>p. gpu_active ([9 \<mapsto> ?u] (pr_pid p)))"
    unfolding app_lists_def by blast
  also have "\<dots> = {9}" by (simp add: pids_where_Cons demo_process_def gpu_active_def)
  finally show ?thesis unfolding Let_def .
qed

theorem gpu_facts_accounted_witness:
  "gf_own_vram_mib (of_gpu (snd (observe_tick second plain_input new_observer))) = 0
   \<and> gf_vram_used_mib (of_gpu (snd (observe_tick second plain_input new_observer))) = 2"
proof -
  obtain ob f where o: "observe_tick second plain_input new_observer = (ob, f)" by (cases "observe_tick second plain_input new_observer")
  have c: "gf_confidence (of_gpu f) = ConfidenceDegraded" using tick_facts(1) [OF o] by (simp add: plain_conf)
  have s: "fi_sample (oi_facts plain_input) = Some plain_sample" and p: "own_pids (oi_facts plain_input) = {}"
    by (simp_all add: plain_input_def own_pids_def)
  show ?thesis
    using gpu_facts_accounted [OF o s] c p by (simp add: o Let_def plain_sample_def mib_def)
qed

text \<open>The session facts are those of the last report while it is fresh, and unknown otherwise;
  whether the session is locked is decided by the last lock, unlock, logon or logoff event of that
  session where there is a lock or unlock since the session began, and only otherwise by the report.\<close>

theorem session_facts_correct:
  assumes "f = fold fact_step ops new_facts" and "sess = snd (snd (snd (build now inp f)))"
    and "stale = sg_session_stale_after (cf_signals (fi_config inp))"
  shows "case last_report ops of
      None \<Rightarrow> sess = zero_session
    | Some (at_time, r) \<Rightarrow>
        (if at_time = 0 \<or> stale \<le> t_sub now at_time then sess = zero_session
         else sn_known sess \<and> sn_foreground_pid sess = ag_foreground_pid r \<and> sn_fullscreen sess = ag_fullscreen r
           \<and> sn_locked sess = (case lock_after (ag_session_id r) None ops of Some l \<Rightarrow> l | None \<Rightarrow> ag_locked r))"
  using fact_steps [OF assms(1)] assms(2,3)
  by (auto simp: build_session session_def split: option.splits)

definition demo_report :: agent_report where
  "demo_report = \<lparr>ag_session_id = 3, ag_foreground_pid = 9, ag_foreground_name = ''game.exe'', ag_foreground_path = '''',
     ag_fullscreen = True, ag_idle_seconds = 0, ag_locked = False\<rparr>"

theorem session_facts_correct_witness:
  "sn_locked (snd (snd (snd (build (2 * second) (oi_facts plain_input)
     (fold fact_step [FactsReport second demo_report, FactsSession SessionLock 3] new_facts)))))"
proof -
  have "sg_session_stale_after (cf_signals (fi_config (oi_facts plain_input))) = 15 * second"
    by (simp add: plain_input_def bare_config_def shipped_config_def)
  then show ?thesis
    using session_facts_correct [OF refl refl refl, where now = "2 * second" and inp = "oi_facts plain_input"
        and ops = "[FactsReport second demo_report, FactsSession SessionLock 3]"]
    by (simp add: demo_report_def t_sub_def max_dur_def min_dur_def)
qed

end
