(* ===== verification/Gguf.thy ===== *)
theory Gguf
  imports Telemetry
begin

text \<open>
  Package \<open>internal/gguf\<close>: the header of a GGUF model file. The file is the list of its bytes; an
  input that ends, or a read that fails, is an input that is too short. The reader carries the
  remaining input, the bytes it has taken and the first error. With an error the source also returns
  what it had read so far; no caller uses it and the model drops it.
\<close>

definition max_header_bytes :: nat where "max_header_bytes = 64 * 2 ^ 20"
definition max_kv_count :: nat where "max_kv_count = 2 ^ 16"
definition max_key_len :: nat where "max_key_len = 256"
definition max_string_len :: nat where "max_string_len = 2 ^ 20"
definition max_kept_array :: nat where "max_kept_array = 4096"

datatype gguf_error = ErrNotGGUF | ErrUnsupportedVersion nat | ErrTruncated | ErrTooLarge | ErrMalformed

record metadata =
  md_version :: nat
  md_tensor_count :: nat
  md_name :: string
  md_arch :: string
  md_size_label :: string
  md_file_type :: nat
  md_context_length :: nat
  md_block_count :: nat
  md_embedding_length :: nat
  md_head_count :: nat
  md_head_count_kv :: nat
  md_kv_heads_total :: nat
  md_key_length :: nat
  md_value_length :: nat
  md_expert_count :: nat
  md_expert_used :: nat
  md_sliding_win :: nat
  md_split_count :: nat

text \<open>The value types.\<close>

abbreviation (input) tU8 :: nat where "tU8 \<equiv> 0"
abbreviation (input) tI8 :: nat where "tI8 \<equiv> 1"
abbreviation (input) tU16 :: nat where "tU16 \<equiv> 2"
abbreviation (input) tI16 :: nat where "tI16 \<equiv> 3"
abbreviation (input) tU32 :: nat where "tU32 \<equiv> 4"
abbreviation (input) tI32 :: nat where "tI32 \<equiv> 5"
abbreviation (input) tF32 :: nat where "tF32 \<equiv> 6"
abbreviation (input) tBool :: nat where "tBool \<equiv> 7"
abbreviation (input) tString :: nat where "tString \<equiv> 8"
abbreviation (input) tArray :: nat where "tArray \<equiv> 9"
abbreviation (input) tU64 :: nat where "tU64 \<equiv> 10"
abbreviation (input) tI64 :: nat where "tI64 \<equiv> 11"
abbreviation (input) tF64 :: nat where "tF64 \<equiv> 12"

subsection \<open>The reader\<close>

record reader =
  rd_in :: string
  rd_read :: nat
  rd_err :: "gguf_error option"

definition fail :: "gguf_error \<Rightarrow> reader \<Rightarrow> reader" where
  "fail e rd = (if rd_err rd = None then rd\<lparr>rd_err := Some e\<rparr> else rd)"

definition take_bytes :: "nat \<Rightarrow> reader \<Rightarrow> bool \<times> reader" where
  "take_bytes n rd =
     (if rd_err rd \<noteq> None then (False, rd)
      else if max_header_bytes < rd_read rd + n then (False, fail ErrTooLarge rd)
      else (True, rd\<lparr>rd_read := rd_read rd + n\<rparr>))"

definition read_bytes :: "nat \<Rightarrow> reader \<Rightarrow> string option \<times> reader" where
  "read_bytes n rd =
     (case take_bytes n rd of (ok, rd1) \<Rightarrow>
        if \<not> ok then (None, rd1)
        else if length (rd_in rd1) < n then (None, fail ErrTruncated (rd1\<lparr>rd_in := []\<rparr>))
        else (Some (take n (rd_in rd1)), rd1\<lparr>rd_in := drop n (rd_in rd1)\<rparr>))"

definition skip_bytes :: "nat \<Rightarrow> reader \<Rightarrow> reader" where
  "skip_bytes n rd =
     (if max_header_bytes < n then fail ErrTooLarge rd
      else (case take_bytes n rd of (ok, rd1) \<Rightarrow>
        if \<not> ok then fail ErrTooLarge rd1
        else if length (rd_in rd1) < n then fail ErrTruncated (rd1\<lparr>rd_in := []\<rparr>)
        else rd1\<lparr>rd_in := drop n (rd_in rd1)\<rparr>))"

fun le_nat :: "string \<Rightarrow> nat" where
  "le_nat [] = 0"
| "le_nat (b # bs) = of_char b + 256 * le_nat bs"

definition read_le :: "nat \<Rightarrow> reader \<Rightarrow> nat \<times> reader" where
  "read_le n rd = (case read_bytes n rd of
      (None, rd1) \<Rightarrow> (0, rd1)
    | (Some b, rd1) \<Rightarrow> (le_nat b, rd1))"

definition read_u32 :: "reader \<Rightarrow> nat \<times> reader" where "read_u32 = read_le 4"
definition read_u64 :: "reader \<Rightarrow> nat \<times> reader" where "read_u64 = read_le 8"

definition read_str :: "nat \<Rightarrow> reader \<Rightarrow> string option \<times> reader" where
  "read_str limit rd =
     (case read_u64 rd of (n, rd1) \<Rightarrow>
        if rd_err rd1 \<noteq> None then (None, rd1)
        else if limit < n then (None, skip_bytes n rd1)
        else read_bytes n rd1)"

definition scalar_size :: "nat \<Rightarrow> nat" where
  "scalar_size t =
     (if t = tU8 \<or> t = tI8 \<or> t = tBool then 1
      else if t = tU16 \<or> t = tI16 then 2
      else if t = tU32 \<or> t = tI32 \<or> t = tF32 then 4
      else if t = tU64 \<or> t = tI64 \<or> t = tF64 then 8
      else 0)"

text \<open>\<open>None\<close> for a value that is no integer, is negative, or could not be read.\<close>

definition read_uint :: "nat \<Rightarrow> reader \<Rightarrow> nat option \<times> reader" where
  "read_uint t rd =
     (case read_bytes (scalar_size t) rd of
        (None, rd1) \<Rightarrow> (None, rd1)
      | (Some b, rd1) \<Rightarrow>
          (if t = tU8 \<or> t = tU16 \<or> t = tU32 \<or> t = tU64 then Some (le_nat b)
           else if t = tI8 \<or> t = tI16 \<or> t = tI32 \<or> t = tI64 then
             (if le_nat b < 2 ^ (8 * scalar_size t - 1) then Some (le_nat b) else None)
           else None, rd1))"

text \<open>A counted loop that ends early when \<open>stop\<close> holds.\<close>

fun for_n :: "('s \<Rightarrow> bool) \<Rightarrow> nat \<Rightarrow> ('s \<Rightarrow> 's) \<Rightarrow> 's \<Rightarrow> 's" where
  "for_n stop n f s = (if n = 0 \<or> stop s then s else for_n stop (n - 1) f (f s))"

declare for_n.simps [simp del]

definition failed :: "reader \<Rightarrow> bool" where
  "failed rd = (rd_err rd \<noteq> None)"

definition skip_scalars :: "nat \<Rightarrow> nat \<Rightarrow> reader \<Rightarrow> reader" where
  "skip_scalars sz n rd = (if max_header_bytes div sz < n then fail ErrTooLarge rd else skip_bytes (n * sz) rd)"

text \<open>\<open>skipValue\<close> at depth \<open>3 - left\<close>; an array below depth 2 is malformed.\<close>

fun skip_value :: "nat \<Rightarrow> nat \<Rightarrow> reader \<Rightarrow> reader" where
  "skip_value left t rd =
     (if 0 < scalar_size t then skip_bytes (scalar_size t) rd
      else if t = tString then (case read_u64 rd of (n, rd1) \<Rightarrow> skip_bytes n rd1)
      else if t = tArray then
        (case left of
           0 \<Rightarrow> fail ErrMalformed rd
         | Suc l \<Rightarrow>
             (case read_u32 rd of (et, rd1) \<Rightarrow> (case read_u64 rd1 of (n, rd2) \<Rightarrow>
                if failed rd2 then rd2
                else if 0 < scalar_size et then skip_scalars (scalar_size et) n rd2
                else for_n failed n (skip_value l et) rd2)))
      else fail ErrMalformed rd)"

declare skip_value.simps [simp del]

definition skip_elements :: "nat \<Rightarrow> nat \<Rightarrow> reader \<Rightarrow> reader" where
  "skip_elements et n rd =
     (if 0 < scalar_size et then skip_scalars (scalar_size et) n rd
      else for_n failed n (skip_value 2 et) rd)"

subsection \<open>The header\<close>

definition wanted_suffixes :: "string list" where
  "wanted_suffixes = [''.context_length'', ''.block_count'', ''.embedding_length'', ''.attention.head_count'',
     ''.attention.head_count_kv'', ''.attention.key_length'', ''.attention.value_length'', ''.expert_count'',
     ''.expert_used_count'', ''.attention.sliding_window'']"

definition wanted :: "string \<Rightarrow> bool" where
  "wanted k = (k \<in> set [''general.architecture'', ''general.name'', ''general.size_label'', ''general.file_type'', ''split.count'']
     \<or> list_ex (has_suffix k) wanted_suffixes)"

record kv_maps =
  km_ints :: "string \<rightharpoonup> nat"
  km_strs :: "string \<rightharpoonup> string"
  km_kv_heads :: "string \<rightharpoonup> nat"
  km_kv_max :: "string \<rightharpoonup> nat"

definition no_maps :: kv_maps where
  "no_maps = \<lparr>km_ints = Map.empty, km_strs = Map.empty, km_kv_heads = Map.empty, km_kv_max = Map.empty\<rparr>"

text \<open>One element of a kept array: the sum wraps, the largest is remembered.\<close>

definition sum_element :: "nat \<Rightarrow> reader \<times> nat \<times> nat \<Rightarrow> reader \<times> nat \<times> nat" where
  "sum_element et = (\<lambda>(rd, tot, mx). case read_uint et rd of
      (Some v, rd1) \<Rightarrow> (rd1, u64 (tot + v), max mx v)
    | (None, rd1) \<Rightarrow> (rd1, tot, mx))"

definition read_array :: "string \<Rightarrow> reader \<Rightarrow> kv_maps \<Rightarrow> reader \<times> kv_maps" where
  "read_array k rd m =
     (case read_u32 rd of (et, rd1) \<Rightarrow> (case read_u64 rd1 of (n, rd2) \<Rightarrow>
        if failed rd2 then (rd2, m)
        else if scalar_size et = 0 \<or> max_kept_array < n \<or> \<not> has_suffix k ''.attention.head_count_kv''
        then (skip_elements et n rd2, m)
        else (case for_n (\<lambda>(rd, _). failed rd) n (sum_element et) (rd2, 0, 0) of
          (rd3, tot, mx) \<Rightarrow> (rd3, m\<lparr>km_kv_heads := (km_kv_heads m)(k \<mapsto> tot), km_kv_max := (km_kv_max m)(k \<mapsto> mx)\<rparr>))))"

definition read_value :: "string \<Rightarrow> nat \<Rightarrow> reader \<Rightarrow> kv_maps \<Rightarrow> reader \<times> kv_maps" where
  "read_value k t rd m =
     (if t = tString then
        (case read_str max_string_len rd of
           (Some s, rd1) \<Rightarrow> (rd1, m\<lparr>km_strs := (km_strs m)(k \<mapsto> s)\<rparr>)
         | (None, rd1) \<Rightarrow> (rd1, m))
      else if t = tArray then read_array k rd m
      else if scalar_size t = 0 then (skip_value 3 t rd, m)
      else (case read_uint t rd of
          (Some v, rd1) \<Rightarrow> (rd1, m\<lparr>km_ints := (km_ints m)(k \<mapsto> v)\<rparr>)
        | (None, rd1) \<Rightarrow> (rd1, m)))"

definition read_kv :: "reader \<times> kv_maps \<Rightarrow> reader \<times> kv_maps" where
  "read_kv = (\<lambda>(rd, m).
     case read_str max_key_len rd of (k, rd1) \<Rightarrow> (case read_u32 rd1 of (t, rd2) \<Rightarrow>
       if failed rd2 then (rd2, m)
       else (case k of
           Some key \<Rightarrow> (if wanted key then read_value key t rd2 m else (skip_value 3 t rd2, m))
         | None \<Rightarrow> (skip_value 3 t rd2, m))))"

definition int_at :: "kv_maps \<Rightarrow> string \<Rightarrow> nat" where
  "int_at m k = (case km_ints m k of Some v \<Rightarrow> v | None \<Rightarrow> 0)"

definition str_at :: "kv_maps \<Rightarrow> string \<Rightarrow> string" where
  "str_at m k = (case km_strs m k of Some v \<Rightarrow> v | None \<Rightarrow> '''')"

text \<open>The key/value heads: measured per layer when the file lists them, otherwise one figure for all.\<close>

definition kv_heads_of :: "kv_maps \<Rightarrow> string \<Rightarrow> nat \<times> nat" where
  "kv_heads_of m a = (case km_kv_heads m (a @ ''attention.head_count_kv'') of
      Some tot \<Rightarrow> (tot, case km_kv_max m (a @ ''attention.head_count_kv'') of Some v \<Rightarrow> v | None \<Rightarrow> 0)
    | None \<Rightarrow>
        (let kv = int_at m (a @ ''attention.head_count_kv'');
             kv1 = (if kv = 0 then int_at m (a @ ''attention.head_count'') else kv)
         in (u64 (kv1 * int_at m (a @ ''block_count'')), kv1)))"

definition base_metadata :: "nat \<Rightarrow> nat \<Rightarrow> kv_maps \<Rightarrow> metadata" where
  "base_metadata version tensors m =
     \<lparr>md_version = version, md_tensor_count = tensors, md_name = str_at m ''general.name'',
      md_arch = str_at m ''general.architecture'', md_size_label = str_at m ''general.size_label'',
      md_file_type = min (int_at m ''general.file_type'') (2 ^ 32 - 1), md_context_length = 0, md_block_count = 0,
      md_embedding_length = 0, md_head_count = 0, md_head_count_kv = 0, md_kv_heads_total = 0, md_key_length = 0,
      md_value_length = 0, md_expert_count = 0, md_expert_used = 0, md_sliding_win = 0,
      md_split_count = int_at m ''split.count''\<rparr>"

definition metadata_of :: "nat \<Rightarrow> nat \<Rightarrow> kv_maps \<Rightarrow> metadata" where
  "metadata_of version tensors m =
     (let b = base_metadata version tensors m; a = md_arch b @ ''.'' in
      if md_arch b = '''' then b
      else b\<lparr>md_context_length := int_at m (a @ ''context_length''), md_block_count := int_at m (a @ ''block_count''),
             md_embedding_length := int_at m (a @ ''embedding_length''), md_head_count := int_at m (a @ ''attention.head_count''),
             md_head_count_kv := snd (kv_heads_of m a), md_kv_heads_total := fst (kv_heads_of m a),
             md_key_length := int_at m (a @ ''attention.key_length''), md_value_length := int_at m (a @ ''attention.value_length''),
             md_expert_count := int_at m (a @ ''expert_count''), md_expert_used := int_at m (a @ ''expert_used_count''),
             md_sliding_win := int_at m (a @ ''attention.sliding_window'')\<rparr>)"

definition parse_body :: "nat \<Rightarrow> reader \<Rightarrow> gguf_error + metadata" where
  "parse_body version rd =
     (case read_u64 rd of (tensors, rd1) \<Rightarrow> (case read_u64 rd1 of (kvs, rd2) \<Rightarrow>
        (case rd_err rd2 of
           Some e \<Rightarrow> Inl e
         | None \<Rightarrow>
             (if max_kv_count < kvs then Inl ErrTooLarge
              else (case for_n (\<lambda>(rd, _). failed rd) kvs read_kv (rd2, no_maps) of (rd3, m) \<Rightarrow>
                (case rd_err rd3 of Some e \<Rightarrow> Inl e | None \<Rightarrow> Inr (metadata_of version tensors m)))))))"

definition parse_gguf :: "string \<Rightarrow> gguf_error + metadata" where
  "parse_gguf file =
     (case read_bytes 4 \<lparr>rd_in = file, rd_read = 0, rd_err = None\<rparr> of (magic, rd1) \<Rightarrow>
        if failed rd1 \<or> magic \<noteq> Some ''GGUF'' then
          (case rd_err rd1 of
             Some e \<Rightarrow> Inl (if e = ErrTruncated then ErrNotGGUF else e)
           | None \<Rightarrow> Inl ErrNotGGUF)
        else (case read_u32 rd1 of (version, rd2) \<Rightarrow>
          (case rd_err rd2 of
             Some e \<Rightarrow> Inl e
           | None \<Rightarrow> (if version < 2 \<or> 3 < version then Inl (ErrUnsupportedVersion version) else parse_body version rd2))))"

end
