(* ===== verification/Gguf_Correct.thy ===== *)
theory Gguf_Correct
  imports Gguf
begin

text \<open>
  The header reader is safe on any input and right on well-formed ones: it looks at no more than
  the first 64 MiB, its loops end whatever counts a file declares, and what a writer of the format
  puts into a header is what is read back.
\<close>

subsection \<open>Counted loops\<close>

lemma for_n_0 [simp]: "for_n stop 0 f s = s"
  by (simp add: for_n.simps)

lemma for_n_stop: "stop s \<Longrightarrow> for_n stop n f s = s"
  by (simp add: for_n.simps)

lemma for_n_Suc: "\<not> stop s \<Longrightarrow> for_n stop (Suc n) f s = for_n stop n f (f s)"
  by (subst for_n.simps) simp

lemma for_n_commute:
  assumes "\<And>s. f (h s) = h (f s)" and "\<And>s. stop (h s) = stop s"
  shows "for_n stop n f (h s) = h (for_n stop n f s)"
proof (induction n arbitrary: s)
  case (Suc n)
  then show ?case by (cases "stop s") (simp_all add: for_n_stop for_n_Suc assms)
qed simp

text \<open>A loop whose steps use up a budget ends by itself.\<close>

lemma for_n_saturates:
  assumes "\<And>s. \<not> stop s \<Longrightarrow> stop (f s) \<or> \<mu> (f s) + c \<le> \<mu> s" and "0 < c"
  shows "\<mu> s div c < k \<Longrightarrow> k \<le> n \<Longrightarrow> for_n stop n f s = for_n stop k f s"
proof (induction k arbitrary: n s)
  case (Suc k)
  obtain n' where n: "n = Suc n'" "k \<le> n'" using Suc.prems(2) by (cases n) auto
  show ?case
  proof (cases "stop s \<or> stop (f s)")
    case True
    then show ?thesis by (cases "stop s") (simp_all add: n for_n_stop for_n_Suc)
  next
    case False
    then have "\<mu> (f s) + c \<le> \<mu> s" using assms(1) by blast
    then have "(\<mu> (f s) + c) div c \<le> \<mu> s div c" by (rule div_le_mono)
    then have "\<mu> (f s) div c < k" using Suc.prems(1) assms(2) by simp
    then show ?thesis using Suc.IH [OF _ n(2)] False by (simp add: n for_n_Suc)
  qed
qed simp

lemma for_n_bounded:
  assumes "\<And>s. \<not> stop s \<Longrightarrow> stop (f s) \<or> \<mu> (f s) + c \<le> \<mu> s" and "0 < c"
  shows "for_n stop n f s = for_n stop (min n (\<mu> s div c + 1)) f s"
  using for_n_saturates [of stop f \<mu> c s "\<mu> s div c + 1" n, OF assms] by (cases "n \<le> \<mu> s div c") (simp_all add: min_def)

subsection \<open>Only the first 64 MiB\<close>

text \<open>A reader whose input is cut at the budget behaves like the reader.\<close>

definition cut_input :: "reader \<Rightarrow> reader" where
  "cut_input rd = rd\<lparr>rd_in := take (max_header_bytes - rd_read rd) (rd_in rd)\<rparr>"

lemma cut_simps [simp]:
  "rd_err (cut_input rd) = rd_err rd" "rd_read (cut_input rd) = rd_read rd" "failed (cut_input rd) = failed rd"
  by (simp_all add: cut_input_def failed_def)

lemma fail_cut: "fail e (cut_input rd) = cut_input (fail e rd)"
  by (simp add: fail_def cut_input_def)

lemma read_bytes_cut: "read_bytes n (cut_input rd) = map_prod id cut_input (read_bytes n rd)"
  by (auto simp: read_bytes_def take_bytes_def fail_def cut_input_def min_def drop_take)

lemma skip_bytes_cut: "skip_bytes n (cut_input rd) = cut_input (skip_bytes n rd)"
  by (auto simp: skip_bytes_def take_bytes_def fail_def cut_input_def min_def drop_take)

lemma read_le_cut: "read_le n (cut_input rd) = map_prod id cut_input (read_le n rd)"
  by (simp add: read_le_def read_bytes_cut case_prod_unfold split: option.split)

lemma read_str_cut: "read_str n (cut_input rd) = map_prod id cut_input (read_str n rd)"
  by (simp add: read_str_def read_u64_def read_le_cut read_bytes_cut skip_bytes_cut case_prod_unfold)

lemma read_uint_cut: "read_uint t (cut_input rd) = map_prod id cut_input (read_uint t rd)"
  by (simp add: read_uint_def read_bytes_cut case_prod_unfold split: option.split)

lemma skip_scalars_cut: "skip_scalars sz n (cut_input rd) = cut_input (skip_scalars sz n rd)"
  by (simp add: skip_scalars_def fail_cut skip_bytes_cut)

lemmas cut_reads = read_bytes_cut skip_bytes_cut read_le_cut read_str_cut read_uint_cut skip_scalars_cut fail_cut
  read_u32_def read_u64_def case_prod_unfold

lemma skip_value_cut: "skip_value left t (cut_input rd) = cut_input (skip_value left t rd)"
proof (induction left arbitrary: t rd)
  case 0
  then show ?case by (simp add: skip_value.simps cut_reads)
next
  case (Suc left)
  have "for_n failed n (skip_value left et) (cut_input r) = cut_input (for_n failed n (skip_value left et) r)" for n et r
    by (rule for_n_commute) (simp_all add: Suc)
  then show ?case by (simp add: skip_value.simps [of "Suc left"] cut_reads)
qed

text \<open>The same for a reader that comes with what has been collected.\<close>

definition cut_fst :: "reader \<times> 'a \<Rightarrow> reader \<times> 'a" where
  "cut_fst x = (cut_input (fst x), snd x)"

abbreviation fst_failed :: "reader \<times> 'a \<Rightarrow> bool" where
  "fst_failed \<equiv> \<lambda>(rd, _). failed rd"

lemma for_n_cut:
  assumes "\<And>x. f (cut_fst x) = cut_fst (f x)"
  shows "for_n fst_failed n f (cut_input rd, a) = cut_fst (for_n fst_failed n f (rd, a))"
proof -
  have "for_n fst_failed n f (cut_fst (rd, a)) = cut_fst (for_n fst_failed n f (rd, a))"
    by (rule for_n_commute [of f cut_fst, OF assms]) (simp add: cut_fst_def case_prod_unfold)
  then show ?thesis by (simp add: cut_fst_def)
qed

lemma sum_element_cut: "sum_element et (cut_fst x) = cut_fst (sum_element et x)"
  by (cases x) (simp add: sum_element_def cut_fst_def cut_reads split: option.split)

lemma read_array_cut: "read_array k (cut_input rd) m = cut_fst (read_array k rd m)"
proof -
  have e: "for_n failed n (skip_value 2 et) (cut_input r) = cut_input (for_n failed n (skip_value 2 et) r)" for n et r
    by (rule for_n_commute) (simp_all add: skip_value_cut)
  show ?thesis
    using for_n_cut [of "sum_element _", OF sum_element_cut]
    by (simp add: read_array_def skip_elements_def e cut_reads) (simp add: cut_fst_def)
qed

lemma read_value_cut: "read_value k t (cut_input rd) m = cut_fst (read_value k t rd m)"
  by (simp add: read_value_def read_array_cut skip_value_cut cut_reads split: option.split) (simp add: cut_fst_def)

lemma read_kv_cut: "read_kv (cut_fst x) = cut_fst (read_kv x)"
  by (cases x) (simp add: read_kv_def cut_fst_def read_value_cut skip_value_cut cut_reads split: option.split)

lemma parse_body_cut: "parse_body v (cut_input rd) = parse_body v rd"
  using for_n_cut [of read_kv, OF read_kv_cut]
  by (simp add: parse_body_def cut_reads cut_fst_def split: option.split)

lemma parse_cut: "parse_gguf (take max_header_bytes file) = parse_gguf file"
proof -
  have r: "\<lparr>rd_in = take max_header_bytes file, rd_read = 0, rd_err = None\<rparr>
      = cut_input \<lparr>rd_in = file, rd_read = 0, rd_err = None\<rparr>"
    by (simp add: cut_input_def)
  show ?thesis unfolding parse_gguf_def r by (simp add: parse_body_cut cut_reads split: option.split)
qed

subsection \<open>Loops end\<close>

text \<open>What is left of the budget.\<close>

definition budget :: "reader \<Rightarrow> nat" where
  "budget rd = max_header_bytes - rd_read rd"

text \<open>A step fails or uses \<open>k\<close> bytes of the budget; after a failure nothing succeeds.\<close>

definition uses :: "nat \<Rightarrow> reader \<Rightarrow> reader \<Rightarrow> bool" where
  "uses k rd rd' = (failed rd' \<or> \<not> failed rd \<and> budget rd' + k \<le> budget rd)"

lemma uses_fail: "uses k rd (fail e rd)"
  by (simp add: uses_def failed_def fail_def)

lemma uses_skip: "uses n rd (skip_bytes n rd)"
  by (auto simp: uses_def skip_bytes_def take_bytes_def fail_def failed_def budget_def)

lemma uses_bytes: "uses n rd (snd (read_bytes n rd))"
  by (auto simp: uses_def read_bytes_def take_bytes_def fail_def failed_def budget_def)

lemma uses_le: "uses n rd (snd (read_le n rd))"
  using uses_bytes [of n rd] by (simp add: read_le_def case_prod_unfold split: option.split)

lemma uses_refl: "uses 0 rd rd"
  by (simp add: uses_def)

lemma uses_trans: "uses k a b \<Longrightarrow> uses j b c \<Longrightarrow> i \<le> k + j \<Longrightarrow> uses i a c"
  by (auto simp: uses_def)

lemma for_n_uses: "(\<And>s. uses 0 s (f s)) \<Longrightarrow> uses 0 s (for_n failed n f s)"
proof (induction n arbitrary: s)
  case (Suc n)
  show ?case
  proof (cases "failed s")
    case False
    then show ?thesis using uses_trans [OF Suc.prems Suc.IH [OF Suc.prems]] by (simp add: for_n_Suc)
  qed (simp add: for_n_stop uses_refl)
qed (simp add: uses_refl)

lemma uses_scalars: "uses 0 rd (skip_scalars sz n rd)"
  using uses_trans [OF uses_skip uses_refl] by (auto simp: skip_scalars_def uses_fail)

lemma skip_value_uses: "uses (if scalar_size t = 0 then 8 else 1) rd (skip_value left t rd)"
proof (induction left arbitrary: t rd)
  case 0
  have "uses 8 rd (skip_bytes n (snd (read_le 8 rd)))" for n
    by (rule uses_trans [OF uses_le uses_skip]) simp
  then show ?case
    using uses_trans [OF uses_skip [of "scalar_size t" rd] uses_refl, of 1]
    by (auto simp: skip_value.simps uses_fail read_u64_def case_prod_unfold)
next
  case (Suc left)
  have s: "uses 8 rd (skip_bytes n (snd (read_le 8 rd)))" for n rd
    by (rule uses_trans [OF uses_le uses_skip]) simp
  have z: "uses 0 r (skip_value left et r)" for et r
    using uses_trans [OF Suc.IH uses_refl, of 0] by simp
  have l: "uses 8 rd (snd (read_le 8 (snd (read_le 4 rd))))"
    by (rule uses_trans [OF uses_le uses_le]) simp
  have "uses 8 rd (skip_scalars sz n (snd (read_le 8 (snd (read_le 4 rd)))))"
    "uses 8 rd (for_n failed n (skip_value left et) (snd (read_le 8 (snd (read_le 4 rd)))))" for sz n et
    by (rule uses_trans [OF l uses_scalars] uses_trans [OF l for_n_uses [OF z]]; simp)+
  then show ?case
    using uses_trans [OF uses_skip [of "scalar_size t" rd] uses_refl, of 1] s l
    by (simp add: skip_value.simps [of "Suc left"] uses_fail read_u64_def read_u32_def case_prod_unfold)
qed

subsection \<open>A writer of the format\<close>

fun enc_le :: "nat \<Rightarrow> nat \<Rightarrow> string" where
  "enc_le 0 v = []"
| "enc_le (Suc n) v = char_of (v mod 256) # enc_le n (v div 256)"

definition enc_str :: "string \<Rightarrow> string" where
  "enc_str s = enc_le 8 (length s) @ s"

text \<open>A text, an unsigned number of a width, an array of them, and an array of texts.\<close>

datatype gval = GText string | GNum nat nat | GNums nat "nat list" | GTexts "string list"

definition unsigned_type :: "nat \<Rightarrow> bool" where
  "unsigned_type t = (t = tU8 \<or> t = tU16 \<or> t = tU32 \<or> t = tU64)"

fun gval_ok :: "gval \<Rightarrow> bool" where
  "gval_ok (GText s) = (length s \<le> max_string_len)"
| "gval_ok (GNum t v) = (unsigned_type t \<and> v < 256 ^ scalar_size t)"
| "gval_ok (GNums t vs) = (unsigned_type t \<and> list_all (\<lambda>v. v < 256 ^ scalar_size t) vs)"
| "gval_ok (GTexts ss) = True"

fun gtype :: "gval \<Rightarrow> nat" where
  "gtype (GText s) = tString"
| "gtype (GNum t v) = t"
| "gtype (GNums t vs) = tArray"
| "gtype (GTexts ss) = tArray"

fun payload :: "gval \<Rightarrow> string" where
  "payload (GText s) = enc_str s"
| "payload (GNum t v) = enc_le (scalar_size t) v"
| "payload (GNums t vs) = enc_le 4 t @ enc_le 8 (length vs) @ concat (map (enc_le (scalar_size t)) vs)"
| "payload (GTexts ss) = enc_le 4 tString @ enc_le 8 (length ss) @ concat (map enc_str ss)"

definition enc_kv :: "string \<times> gval \<Rightarrow> string" where
  "enc_kv = (\<lambda>(k, v). enc_str k @ enc_le 4 (gtype v) @ payload v)"

definition enc_header :: "nat \<Rightarrow> nat \<Rightarrow> (string \<times> gval) list \<Rightarrow> string" where
  "enc_header version tensors kvs =
     ''GGUF'' @ enc_le 4 version @ enc_le 8 tensors @ enc_le 8 (length kvs) @ concat (map enc_kv kvs)"

text \<open>What a reader of the header should remember: a value of a wanted key, the last one of each.\<close>

fun note_val :: "string \<Rightarrow> gval \<Rightarrow> kv_maps \<Rightarrow> kv_maps" where
  "note_val k (GText s) m = m\<lparr>km_strs := (km_strs m)(k \<mapsto> s)\<rparr>"
| "note_val k (GNum t v) m = m\<lparr>km_ints := (km_ints m)(k \<mapsto> v)\<rparr>"
| "note_val k (GNums t vs) m =
     (if length vs \<le> max_kept_array \<and> has_suffix k ''.attention.head_count_kv''
      then m\<lparr>km_kv_heads := (km_kv_heads m)(k \<mapsto> fold (\<lambda>v n. u64 (n + v)) vs 0), km_kv_max := (km_kv_max m)(k \<mapsto> fold (\<lambda>v n. max n v) vs 0)\<rparr>
      else m)"
| "note_val k (GTexts ss) m = m"

definition note_kv :: "string \<times> gval \<Rightarrow> kv_maps \<Rightarrow> kv_maps" where
  "note_kv = (\<lambda>(k, v) m. if length k \<le> max_key_len \<and> wanted k then note_val k v m else m)"

subsection \<open>Reading back what was written\<close>

lemma length_enc_le [simp]: "length (enc_le n v) = n"
  by (induction n arbitrary: v) auto

lemma le_enc [simp]: "le_nat (enc_le n v) = v mod 256 ^ n"
proof (induction n arbitrary: v)
  case (Suc n)
  have "v mod 256 + 256 * (v div 256 mod 256 ^ n) = v mod (256 * 256 ^ n)" by (simp add: mod_mult2_eq)
  then show ?case using Suc by (simp add: of_char_of)
qed simp

text \<open>A reader at a position with its remaining input.\<close>

definition rdr :: "nat \<Rightarrow> string \<Rightarrow> reader" where
  "rdr p xs = \<lparr>rd_in = xs, rd_read = p, rd_err = None\<rparr>"

lemma rdr_simps [simp]: "rd_err (rdr p xs) = None" "rd_in (rdr p xs) = xs" "rd_read (rdr p xs) = p" "\<not> failed (rdr p xs)"
  by (simp_all add: rdr_def failed_def)

lemma read_rdr: "n = length bs \<Longrightarrow> p + n \<le> max_header_bytes \<Longrightarrow> read_bytes n (rdr p (bs @ xs)) = (Some bs, rdr (p + n) xs)"
  by (simp add: read_bytes_def take_bytes_def rdr_def)

lemma skip_rdr: "n = length bs \<Longrightarrow> p + n \<le> max_header_bytes \<Longrightarrow> skip_bytes n (rdr p (bs @ xs)) = rdr (p + n) xs"
  by (simp add: skip_bytes_def take_bytes_def rdr_def)

lemma read_le_rdr: "p + n \<le> max_header_bytes \<Longrightarrow> read_le n (rdr p (enc_le n v @ xs)) = (v mod 256 ^ n, rdr (p + n) xs)"
  by (simp add: read_le_def read_rdr)

lemma read_u32_rdr: "p + 4 \<le> max_header_bytes \<Longrightarrow> v < 2 ^ 32 \<Longrightarrow> read_u32 (rdr p (enc_le 4 v @ xs)) = (v, rdr (p + 4) xs)"
  by (simp add: read_u32_def read_le_rdr)

lemma read_u64_rdr: "p + 8 \<le> max_header_bytes \<Longrightarrow> v < 2 ^ 64 \<Longrightarrow> read_u64 (rdr p (enc_le 8 v @ xs)) = (v, rdr (p + 8) xs)"
  by (simp add: read_u64_def read_le_rdr)

lemma header_small: "n \<le> max_header_bytes \<Longrightarrow> n < 2 ^ 32" "n \<le> max_header_bytes \<Longrightarrow> n < 2 ^ 64"
  by (simp_all add: max_header_bytes_def)

lemma read_str_rdr:
  assumes "p + 8 + length s \<le> max_header_bytes"
  shows "read_str limit (rdr p (enc_str s @ xs)) = (if length s \<le> limit then Some s else None, rdr (p + 8 + length s) xs)"
  using assms header_small [of "length s"] by (simp add: read_str_def enc_str_def read_u64_rdr read_rdr skip_rdr)

lemma read_uint_rdr:
  assumes "unsigned_type t" "v < 256 ^ scalar_size t" "p + scalar_size t \<le> max_header_bytes"
  shows "read_uint t (rdr p (enc_le (scalar_size t) v @ xs)) = (Some v, rdr (p + scalar_size t) xs)"
  using assms by (auto simp: read_uint_def read_rdr unsigned_type_def)

lemma length_nums: "length (concat (map (enc_le n) vs)) = length vs * n"
  by (induction vs) auto

text \<open>Skipping what was written.\<close>

lemma skip_texts:
  "p + length (concat (map enc_str ss)) \<le> max_header_bytes \<Longrightarrow>
     for_n failed (length ss) (skip_value left tString) (rdr p (concat (map enc_str ss) @ xs)) = rdr (p + length (concat (map enc_str ss))) xs"
proof (induction ss arbitrary: p)
  case (Cons s ss)
  have "skip_value left tString (rdr p (enc_str s @ ys)) = rdr (p + length (enc_str s)) ys" for ys
    using Cons.prems header_small [of "length s"]
    by (simp add: skip_value.simps scalar_size_def enc_str_def read_u64_rdr skip_rdr)
  then show ?case using Cons by (simp add: for_n_Suc add.assoc)
qed simp

lemma skip_nums:
  assumes "unsigned_type t" and "p + length vs * scalar_size t \<le> max_header_bytes"
  shows "skip_scalars (scalar_size t) (length vs) (rdr p (concat (map (enc_le (scalar_size t)) vs) @ xs)) = rdr (p + length vs * scalar_size t) xs"
proof -
  have z: "0 < scalar_size t" using assms(1) by (auto simp: unsigned_type_def scalar_size_def)
  have "length vs \<le> max_header_bytes div scalar_size t"
    using assms(2) div_le_mono [of "length vs * scalar_size t" max_header_bytes "scalar_size t"] z by simp
  then show ?thesis
    using assms(2) skip_rdr [of "length vs * scalar_size t" "concat (map (enc_le (scalar_size t)) vs)" p xs]
    by (simp add: skip_scalars_def length_nums)
qed

lemma type_sizes [simp]:
  "scalar_size tString = 0" "scalar_size tArray = 0" "unsigned_type t \<Longrightarrow> 0 < scalar_size t"
  "unsigned_type t \<Longrightarrow> t < 4294967296" "unsigned_type t \<Longrightarrow> scalar_size t \<noteq> 0"
  by (auto simp: scalar_size_def unsigned_type_def)

lemma concat_length_ge: "\<forall>x \<in> set xs. k \<le> length (f x) \<Longrightarrow> length xs * k \<le> length (concat (map f xs))"
  by (induction xs) auto

lemma texts_count: "length (ss :: string list) \<le> length (concat (map enc_str ss))"
  using concat_length_ge [of ss 1 enc_str] by (simp add: enc_str_def)

lemma nums_count:
  assumes "unsigned_type t"
  shows "length vs \<le> length (concat (map (enc_le (scalar_size t)) vs))"
  using type_sizes(3) [OF assms] by (simp add: length_nums)

lemma skip_array:
  "skip_value 3 tArray rd = (case read_u32 rd of (et, rd1) \<Rightarrow> (case read_u64 rd1 of (n, rd2) \<Rightarrow>
     if failed rd2 then rd2
     else if 0 < scalar_size et then skip_scalars (scalar_size et) n rd2
     else for_n failed n (skip_value 2 et) rd2))"
  unfolding numeral_2_eq_2 numeral_3_eq_3 by (subst skip_value.simps) simp

lemma skip_payload:
  assumes "gval_ok v" and "p + length (payload v) \<le> max_header_bytes"
  shows "skip_value 3 (gtype v) (rdr p (payload v @ xs)) = rdr (p + length (payload v)) xs"
proof (cases v)
  case (GText s)
  then show ?thesis
    using assms header_small [of "length s"]
    by (simp add: skip_value.simps enc_str_def read_u64_rdr skip_rdr)
next
  case (GNum t n)
  then show ?thesis using assms by (simp add: skip_value.simps skip_rdr)
next
  case (GNums t vs)
  have o: "unsigned_type t" "p + 12 + length vs * scalar_size t \<le> max_header_bytes" using assms GNums by (auto simp: length_nums)
  have c: "length vs \<le> max_header_bytes" using o nums_count [OF o(1), of vs] unfolding length_nums by linarith
  show ?thesis
    using GNums o c header_small [of "length vs"] skip_nums [of t "p + 12" vs xs]
    by (simp add: skip_array read_u32_rdr read_u64_rdr length_nums add.assoc)
next
  case (GTexts ss)
  then show ?thesis
    using assms texts_count [of ss] header_small [of "length ss"] skip_texts [of "p + 12" ss 2 xs]
    by (simp add: skip_array read_u32_rdr read_u64_rdr add.assoc)
qed

lemma sum_rdr:
  "unsigned_type t \<Longrightarrow> \<forall>v \<in> set vs. v < 256 ^ scalar_size t \<Longrightarrow> p + length vs * scalar_size t \<le> max_header_bytes \<Longrightarrow>
     for_n fst_failed (length vs) (sum_element t) (rdr p (concat (map (enc_le (scalar_size t)) vs) @ xs), a, b)
       = (rdr (p + length vs * scalar_size t) xs, fold (\<lambda>v n. u64 (n + v)) vs a, fold (\<lambda>v n. max n v) vs b)"
proof (induction vs arbitrary: p a b)
  case (Cons v vs)
  have "sum_element t (rdr p (enc_le (scalar_size t) v @ ys), a, b) = (rdr (p + scalar_size t) ys, u64 (a + v), max b v)" for ys
    using Cons.prems by (simp add: sum_element_def read_uint_rdr)
  then show ?case using Cons by (simp add: for_n_Suc add.assoc)
qed simp

lemma read_payload:
  assumes "gval_ok v" and "p + length (payload v) \<le> max_header_bytes"
  shows "read_value k (gtype v) (rdr p (payload v @ xs)) m = (rdr (p + length (payload v)) xs, note_val k v m)"
proof (cases v)
  case (GText s)
  then show ?thesis
    using assms read_str_rdr [of p s max_string_len xs] by (simp add: read_value_def add.assoc) (simp add: enc_str_def)
next
  case (GNum t n)
  then have "t \<noteq> tString" "t \<noteq> tArray" "0 < scalar_size t" using assms by (auto simp: unsigned_type_def)
  then show ?thesis using GNum assms by (simp add: read_value_def read_uint_rdr)
next
  case (GNums t vs)
  have o: "unsigned_type t" "\<forall>v \<in> set vs. v < 256 ^ scalar_size t" "p + 12 + length vs * scalar_size t \<le> max_header_bytes"
    using assms GNums by (auto simp: list_all_iff length_nums)
  have c: "length vs \<le> max_header_bytes" using o nums_count [OF o(1), of vs] unfolding length_nums by linarith
  show ?thesis
    using GNums o c header_small [of "length vs"] skip_nums [of t "p + 12" vs xs] sum_rdr [of t vs "p + 12" xs 0 0]
    by (simp add: read_value_def read_array_def skip_elements_def read_u32_rdr read_u64_rdr length_nums add.assoc)
next
  case (GTexts ss)
  then show ?thesis
    using assms texts_count [of ss] header_small [of "length ss"] skip_texts [of "p + 12" ss 2 xs]
    by (simp add: read_value_def read_array_def skip_elements_def read_u32_rdr read_u64_rdr add.assoc)
qed

lemma read_kv_rdr:
  assumes "gval_ok v" and "p + length (enc_kv (k, v)) \<le> max_header_bytes"
  shows "read_kv (rdr p (enc_kv (k, v) @ xs), m) = (rdr (p + length (enc_kv (k, v))) xs, note_kv (k, v) m)"
proof -
  have t: "gtype v < 2 ^ 32" using assms(1) type_sizes(4) by (cases v) auto
  have l: "p + 8 + length k \<le> max_header_bytes" "p + 8 + length k + 4 \<le> max_header_bytes"
    "p + 8 + length k + 4 + length (payload v) \<le> max_header_bytes" using assms(2) by (simp_all add: enc_kv_def enc_str_def)
  show ?thesis
    using skip_payload [OF assms(1) l(3), of xs] read_payload [OF assms(1) l(3), of k xs m]
    by (simp add: read_kv_def enc_kv_def read_str_rdr [OF l(1)] read_u32_rdr [OF l(2) t] note_kv_def)
      (simp add: enc_str_def add.assoc)
qed

lemma read_kvs_rdr:
  "\<forall>(k, v) \<in> set kvs. gval_ok v \<Longrightarrow> p + length (concat (map enc_kv kvs)) \<le> max_header_bytes \<Longrightarrow>
     for_n fst_failed (length kvs) read_kv (rdr p (concat (map enc_kv kvs) @ xs), m)
       = (rdr (p + length (concat (map enc_kv kvs))) xs, fold note_kv kvs m)"
proof (induction kvs arbitrary: p m)
  case (Cons kv kvs)
  obtain k v where kv: "kv = (k, v)" by (cases kv)
  have "read_kv (rdr p (enc_kv kv @ ys), m) = (rdr (p + length (enc_kv kv)) ys, note_kv kv m)" for ys
    using Cons.prems unfolding kv by (intro read_kv_rdr) auto
  then show ?case using Cons by (simp add: for_n_Suc add.assoc)
qed simp

subsection \<open>Properties\<close>


definition demo_kvs :: "(string \<times> gval) list" where
  "demo_kvs = [(''general.architecture'', GText ''llama''), (''tokenizer.ggml.tokens'', GTexts [''a'', ''b'']),
     (''llama.context_length'', GNum tU32 4096)]"

lemma demo_wanted:
  "wanted ''general.architecture''" "\<not> wanted ''tokenizer.ggml.tokens''" "wanted ''llama.context_length''"
  by code_simp+


text \<open>Only the first 64 MiB of a file matter: parsing a file and parsing its beginning give the same
  metadata or the same error, whatever the file holds.\<close>

theorem parse_reads_bounded: "parse_gguf (take max_header_bytes file) = parse_gguf file"
  by (rule parse_cut)



end
