(* ===== verification/Modelplan.thy ===== *)
theory Modelplan
  imports Gguf
begin

text \<open>
  Package \<open>internal/modelplan\<close>: the settings proposed for a model from the metadata of its file and
  the memory of the GPU. Go's \<open>int\<close> arithmetic wraps at 64 bits where nothing bounds it. The figures
  a plan is judged by are shown to be consistent: what it proposes fits its own budget.
\<close>

definition overhead_mib :: int where "overhead_mib = 768"
definition usable_fraction :: flt where "usable_fraction = fl64 (9 / 10)"
definition kv_bytes_per_elem :: nat where "kv_bytes_per_elem = 2"
definition ctx_step :: int where "ctx_step = 1024"
definition max_context :: int where "max_context = 2 ^ 20"
definition vram_step :: int where "vram_step = 256"
definition plan_mib :: int where "plan_mib = 2 ^ 20"

datatype certainty = FromFile | Estimate

record plan_gpu =
  gp_total_mib :: int
  gp_reliable :: bool

record plan_input =
  pi_meta :: metadata
  pi_file_size :: int
  pi_gpu :: plan_gpu
  pi_current_context :: int

record recommendation =
  rn_path :: string
  rn_value :: int
  rn_reason :: gotext
  rn_certainty :: certainty

record plan =
  pl_weights_mib :: int
  pl_kv_bytes_per_tok :: int
  pl_overhead_mib :: int
  pl_estimated_mib :: int
  pl_recommendations :: "recommendation list"
  pl_notes :: "gotext list"

definition kv_bytes_per_token :: "metadata \<Rightarrow> int" where
  "kv_bytes_per_token m =
     (let k0 = md_key_length m; v0 = md_value_length m;
          k = (if k0 = 0 \<and> 0 < md_head_count m then md_embedding_length m div md_head_count m else k0);
          v = (if v0 = 0 then k else v0)
      in if md_kv_heads_total m = 0 \<or> k = 0 \<or> v = 0 then 0
         else wrap64 (int (u64 (u64 (md_kv_heads_total m * u64 (k + v)) * kv_bytes_per_elem))))"

definition round_up :: "int \<Rightarrow> int \<Rightarrow> int" where
  "round_up v s = wrap64 (go_div (wrap64 (v + s - 1)) s * s)"

definition round_down :: "int \<Rightarrow> int \<Rightarrow> int" where
  "round_down v s = go_div v s * s"

definition context_path :: string where "context_path = ''runtime.context_size''"
definition free_vram_path :: string where "free_vram_path = ''runtime.required_free_vram_mib''"

definition drop_path :: "recommendation list \<Rightarrow> string \<Rightarrow> recommendation list" where
  "drop_path rs p = filter (\<lambda>r. rn_path r \<noteq> p) rs"

definition kv_mib :: "int \<Rightarrow> int \<Rightarrow> int" where
  "kv_mib per_tok tokens = go_div (wrap64 (wrap64 (tokens * per_tok) + plan_mib - 1)) plan_mib"

definition context_limit :: "metadata \<Rightarrow> int" where
  "context_limit m = (if 0 < md_context_length m \<and> int (md_context_length m) < max_context then int (md_context_length m) else max_context)"

definition file_notes :: "metadata \<Rightarrow> gotext list" where
  "file_notes m =
     (if 0 < md_expert_count m then
        [Sprintf ''This is a mixture-of-experts model (%d experts). The file size counts every expert; moving expert layers to the CPU (--n-cpu-moe) lowers VRAM use but is not changed for you.''
           [FInt (int (md_expert_count m))]] else [])
     @ (if 0 < md_sliding_win m then
        [lit ''This model uses sliding-window attention, so the real KV cache can be smaller than estimated here.''] else [])
     @ [lit ''Memory figures assume every layer is offloaded to the GPU (as with the default GPU layers setting), an f16 KV cache and a fixed allowance for compute buffers. They are estimates; the loaded model may use more or less, and less if you keep layers on the CPU.'']"

text \<open>The context to plan with, lowered to what the model was trained for.\<close>

definition trained_context :: "plan_input \<Rightarrow> int \<times> recommendation list" where
  "trained_context i =
     (let m = pi_meta i; c = pi_current_context i; limit = context_limit m in
      if 0 < md_context_length m \<and> int (md_context_length m) < c mod 2 ^ 64
      then (limit, [\<lparr>rn_path = context_path, rn_value = limit,
          rn_reason = Sprintf ''the model was trained for %d tokens of context; %d is more than it supports''
            [FInt (int (md_context_length m)), FInt c], rn_certainty = FromFile\<rparr>])
      else (c, []))"

definition usable_mib :: "int \<Rightarrow> int" where
  "usable_mib vram = trunc_f (fmul (of_int_f vram) usable_fraction)"

definition fit_tokens :: "int \<Rightarrow> int \<Rightarrow> int \<Rightarrow> int" where
  "fit_tokens room per_tok limit = round_down (min (go_div (wrap64 (room * plan_mib)) per_tok) limit) ctx_step"

definition lower_context :: "plan_input \<Rightarrow> plan \<Rightarrow> int \<Rightarrow> int \<Rightarrow> int \<times> recommendation list" where
  "lower_context i p c fit =
     (if c = 0 \<or> fit < c then
        (let k = kv_mib (pl_kv_bytes_per_tok p);
             reason = Sprintf ''the model is estimated to need about %d MiB of weights plus %d MiB of KV cache at %d tokens, against %d MiB of GPU memory (90%% of it usable)''
               [FInt (pl_weights_mib p), FInt (k fit), FInt fit, FInt (gp_total_mib (pi_gpu i))];
             full = (if 0 < c then Sprintf ''%d tokens is estimated to need about %d MiB of KV cache alone, and %s'' [FInt c, FInt (k c), FText reason]
                     else reason)
         in (fit, drop_path (pl_recommendations p) context_path
              @ [\<lparr>rn_path = context_path, rn_value = fit, rn_reason = full, rn_certainty = Estimate\<rparr>]))
      else (c, pl_recommendations p))"

definition free_vram :: "plan_input \<Rightarrow> int \<Rightarrow> plan \<Rightarrow> plan" where
  "free_vram i c p =
     (let kv = kv_mib (pl_kv_bytes_per_tok p) c;
          need = wrap64 (pl_weights_mib p + kv + overhead_mib);
          up = round_up need vram_step;
          free = (if gp_total_mib (pi_gpu i) < up then gp_total_mib (pi_gpu i) else up)
      in p\<lparr>pl_estimated_mib := need, pl_recommendations := pl_recommendations p
           @ [\<lparr>rn_path = free_vram_path, rn_value = free,
                rn_reason = Sprintf ''estimated load of %d MiB at %d tokens of context (weights %d, KV cache %d, overhead %d), rounded up to %d MiB''
                  [FInt need, FInt c, FInt (pl_weights_mib p), FInt kv, FInt overhead_mib, FInt vram_step],
                rn_certainty = Estimate\<rparr>]\<rparr>)"

definition add_note :: "gotext \<Rightarrow> plan \<Rightarrow> plan" where
  "add_note t p = p\<lparr>pl_notes := pl_notes p @ [t]\<rparr>"

text \<open>The part that needs the memory of the GPU.\<close>

definition fit_memory :: "plan_input \<Rightarrow> int \<Rightarrow> plan \<Rightarrow> plan" where
  "fit_memory i c p =
     (let vram = gp_total_mib (pi_gpu i); room = wrap64 (usable_mib vram - pl_weights_mib p - overhead_mib) in
      if room \<le> 0 then
        add_note (Sprintf ''The weights alone (about %d MiB) plus overhead leave no room in %d MiB of GPU memory at 90%% use. The model may still run with layers or experts on the CPU; nothing was changed.''
          [FInt (pl_weights_mib p), FInt vram]) p
      else
        (let fit = fit_tokens room (pl_kv_bytes_per_tok p) (context_limit (pi_meta i)) in
         if fit < ctx_step then
           add_note (lit ''Less than 1024 tokens of context fit alongside the weights in the estimate; nothing was changed.'') p
         else (case lower_context i p c fit of (c1, recs) \<Rightarrow>
           (let p1 = p\<lparr>pl_recommendations := recs\<rparr> in if c1 = 0 then p1 else free_vram i c1 p1))))"

definition compute :: "plan_input \<Rightarrow> plan" where
  "compute i =
     (let m = pi_meta i; (c, recs) = trained_context i;
          p = \<lparr>pl_weights_mib = go_div (wrap64 (pi_file_size i + plan_mib - 1)) plan_mib, pl_kv_bytes_per_tok = kv_bytes_per_token m,
               pl_overhead_mib = overhead_mib, pl_estimated_mib = 0, pl_recommendations = recs, pl_notes = file_notes m\<rparr>
      in if 1 < md_split_count m then
           add_note (Sprintf ''This model is split across %d files and only one was inspected, so its total size is unknown and no memory-based settings are proposed.''
             [FInt (int (md_split_count m))]) p
         else if \<not> gp_reliable (pi_gpu i) \<or> gp_total_mib (pi_gpu i) \<le> 0 then
           add_note (lit ''GPU memory is not known right now, so no memory-based settings are proposed.'') p
         else if pl_kv_bytes_per_tok p = 0 \<or> pl_weights_mib p = 0 then
           add_note (lit ''The file does not give enough detail to estimate the KV cache, so no memory-based settings are proposed.'') p
         else fit_memory i c p)"

subsection \<open>Arithmetic\<close>

lemma go_div_pos: "0 \<le> a \<Longrightarrow> 0 < b \<Longrightarrow> go_div a b = a div b"
  by (cases "a = 0") (simp_all add: go_div_def)

lemma usable_le: "0 \<le> vram \<Longrightarrow> vram \<le> 2 ^ 53 \<Longrightarrow> 0 \<le> usable_mib vram \<and> usable_mib vram \<le> vram"
proof -
  assume t: "0 \<le> vram" "vram \<le> 2 ^ 53"
  have f: "fl64 (of_int vram) = of_int vram" using t by (rule fl64.rnd_int)
  have u: "0 \<le> usable_fraction" "usable_fraction \<le> 1"
    using fl64.rnd_nonneg [of "9 / 10"] fl64.rnd_le_int [of "9 / 10" 1] by (simp_all add: usable_fraction_def)
  have "0 \<le> fl64 (of_int vram * usable_fraction) \<and> fl64 (of_int vram * usable_fraction) \<le> of_int vram"
    using fl64.rnd_scale [of "of_int vram" usable_fraction] f t(1) u by simp
  then show ?thesis by (auto simp: usable_mib_def float_defs f floor_le_iff le_floor_iff intro: order.strict_trans1)
qed

lemma trained_context_bounds:
  assumes "trained_context i = (c, recs)" and "0 \<le> pi_current_context i" "pi_current_context i \<le> max_context"
  shows "0 \<le> c" "c \<le> context_limit (pi_meta i)" "\<forall>r \<in> set recs. rn_path r = context_path \<and> 0 < rn_value r \<and> rn_value r \<le> context_limit (pi_meta i)"
  using assms by (auto simp: trained_context_def context_limit_def max_context_def Let_def split: if_splits)

lemma context_limit_pos: "0 < context_limit m" "context_limit m \<le> max_context"
  "0 < md_context_length m \<Longrightarrow> context_limit m \<le> int (md_context_length m)"
  by (auto simp: context_limit_def max_context_def)

lemma wrap64_small: "0 \<le> x \<Longrightarrow> x < 2 ^ 63 \<Longrightarrow> wrap64 x = x"
  by (rule wrap64_id) auto

lemma fit_tokens_fits:
  assumes "0 < room" "room \<le> 2 ^ 40" "0 < limit" "ctx_step \<le> fit_tokens room per limit" and "per \<noteq> 0"
  shows "0 < per" "fit_tokens room per limit \<le> limit" "fit_tokens room per limit * per \<le> room * plan_mib"
proof -
  have w: "wrap64 (room * plan_mib) = room * plan_mib" using assms(1,2) by (intro wrap64_small) (auto simp: plan_mib_def)
  define q where "q = min (go_div (room * plan_mib) per) limit"
  have f: "fit_tokens room per limit = go_div q 1024 * 1024" by (simp add: fit_tokens_def round_down_def w q_def ctx_step_def)
  have q: "0 < q"
  proof (rule ccontr)
    assume "\<not> 0 < q"
    then have "0 \<le> - q div 1024" by simp
    then have "go_div q 1024 \<le> 0" using \<open>\<not> 0 < q\<close> by (simp add: go_div_def sgn_if)
    then show False using assms(4) f by (simp add: ctx_step_def)
  qed
  then have "0 < go_div (room * plan_mib) per" by (simp add: q_def)
  show per: "0 < per"
  proof (rule ccontr)
    assume "\<not> 0 < per"
    then have n: "per < 0" using assms(5) by simp
    have "0 \<le> room * plan_mib div - per" using n assms(1) by (intro pos_imp_zdiv_nonneg_iff [THEN iffD2]) (auto simp: plan_mib_def)
    then have "go_div (room * plan_mib) per \<le> 0" using n assms(1) by (simp add: go_div_def sgn_if plan_mib_def)
    then show False using \<open>0 < go_div (room * plan_mib) per\<close> by simp
  qed
  have "q div 1024 * 1024 = q - q mod 1024" by (rule minus_mod_eq_div_mult [symmetric])
  moreover have "0 \<le> q mod 1024" by simp
  ultimately have fq: "fit_tokens room per limit \<le> q" using q by (simp add: f go_div_pos)
  then show "fit_tokens room per limit \<le> limit" by (simp add: q_def)
  have "q \<le> room * plan_mib div per" using per assms(1) by (simp add: q_def go_div_pos plan_mib_def)
  then have "fit_tokens room per limit \<le> room * plan_mib div per" using fq by linarith
  then have "fit_tokens room per limit * per \<le> room * plan_mib div per * per" using per by (intro mult_right_mono) auto
  also have "\<dots> \<le> room * plan_mib" using per by (metis div_mult_mod_eq le_add_same_cancel1 pos_mod_sign)
  finally show "fit_tokens room per limit * per \<le> room * plan_mib" .
qed

lemma kv_mib_fits:
  assumes "0 \<le> c" "0 < per" "c * per \<le> room * plan_mib" "0 < room" "room \<le> 2 ^ 40"
  shows "kv_mib per c = (c * per + plan_mib - 1) div plan_mib" "0 \<le> kv_mib per c" "kv_mib per c \<le> room"
proof -
  have b: "0 \<le> c * per" "room * plan_mib \<le> 2 ^ 60" using assms by (auto simp: plan_mib_def)
  then have w: "wrap64 (c * per) = c * per" "wrap64 (c * per + plan_mib - 1) = c * per + plan_mib - 1"
    using assms(3) by (auto intro!: wrap64_small simp: plan_mib_def)
  show k: "kv_mib per c = (c * per + plan_mib - 1) div plan_mib"
    unfolding kv_mib_def w using b(1) by (intro go_div_pos) (auto simp: plan_mib_def)
  show "0 \<le> kv_mib per c" using b(1) by (simp add: k plan_mib_def pos_imp_zdiv_nonneg_iff)
  have "(c * per + plan_mib - 1) div plan_mib \<le> (room * plan_mib + plan_mib - 1) div plan_mib"
    using assms(3) by (intro zdiv_mono1) (auto simp: plan_mib_def)
  also have "\<dots> = room" by (simp add: plan_mib_def)
  finally show "kv_mib per c \<le> room" by (simp add: k)
qed

lemma round_up_ge: "0 \<le> v \<Longrightarrow> v \<le> 2 ^ 62 \<Longrightarrow> v \<le> round_up v vram_step"
proof -
  assume v: "0 \<le> v" "v \<le> 2 ^ 62"
  have "(v + 255) div 256 * 256 = v + 255 - (v + 255) mod 256" by (simp add: minus_mod_eq_div_mult [symmetric])
  moreover have "0 \<le> (v + 255) mod 256" "(v + 255) mod 256 < 256" by simp_all
  ultimately have b: "v \<le> (v + 255) div 256 * 256" "(v + 255) div 256 * 256 \<le> v + 255" by linarith+
  have "wrap64 (v + 255) = v + 255" "wrap64 ((v + 255) div 256 * 256) = (v + 255) div 256 * 256"
    using v b by (auto intro!: wrap64_small)
  then show ?thesis using b(1) v by (simp add: round_up_def vram_step_def go_div_pos add.commute)
qed

text \<open>What a plan promises.\<close>

definition plan_ok :: "plan_input \<Rightarrow> plan \<Rightarrow> bool" where
  "plan_ok i p =
     ((\<forall>r \<in> set (pl_recommendations p). rn_path r = context_path \<longrightarrow> 0 < rn_value r \<and> rn_value r \<le> context_limit (pi_meta i))
      \<and> (pl_estimated_mib p \<noteq> 0 \<longrightarrow>
          (\<exists>c. 0 < c \<and> c \<le> context_limit (pi_meta i)
             \<and> (\<forall>r \<in> set (pl_recommendations p). rn_path r = context_path \<longrightarrow> rn_value r = c)
             \<and> pl_estimated_mib p = pl_weights_mib p + (c * pl_kv_bytes_per_tok p + plan_mib - 1) div plan_mib + overhead_mib
             \<and> pl_estimated_mib p \<le> usable_mib (gp_total_mib (pi_gpu i))
             \<and> (\<exists>r \<in> set (pl_recommendations p). rn_path r = free_vram_path
                  \<and> pl_estimated_mib p \<le> rn_value r \<and> rn_value r \<le> gp_total_mib (pi_gpu i)))))"

lemma paths_differ [simp]: "free_vram_path \<noteq> context_path" "context_path \<noteq> free_vram_path"
  by (simp_all add: free_vram_path_def context_path_def)

lemma plan_ok_note [simp]: "plan_ok i (add_note t p) = plan_ok i p"
  by (simp add: plan_ok_def add_note_def)

lemma fit_memory_ok:
  assumes vram: "0 < gp_total_mib (pi_gpu i)" "gp_total_mib (pi_gpu i) \<le> 2 ^ 40"
    and p: "0 \<le> pl_weights_mib p" "pl_weights_mib p \<le> 2 ^ 50" "pl_kv_bytes_per_tok p \<noteq> 0" "pl_estimated_mib p = 0"
    and c: "0 \<le> c" "\<forall>r \<in> set (pl_recommendations p). rn_path r = context_path \<and> 0 < rn_value r
        \<and> rn_value r \<le> context_limit (pi_meta i) \<and> rn_value r = c" "c \<le> context_limit (pi_meta i)"
  shows "plan_ok i (fit_memory i c p)"
proof -
  let ?v = "gp_total_mib (pi_gpu i)" and ?per = "pl_kv_bytes_per_tok p" and ?limit = "context_limit (pi_meta i)"
  have u: "0 \<le> usable_mib ?v" "usable_mib ?v \<le> ?v" using usable_le [of ?v] vram by auto
  have room: "wrap64 (usable_mib ?v - pl_weights_mib p - overhead_mib) = usable_mib ?v - pl_weights_mib p - overhead_mib" (is "_ = ?room")
    using u vram p by (intro wrap64_id) (auto simp: overhead_mib_def)
  have base: "plan_ok i p" using p c by (auto simp: plan_ok_def)
  define fit where "fit = fit_tokens ?room ?per ?limit"
  show ?thesis
  proof (cases "0 < ?room \<and> ctx_step \<le> fit")
    case False
    then show ?thesis using base by (auto simp: fit_memory_def room Let_def fit_def)
  next
    case True
    have r: "0 < ?room" "?room \<le> 2 ^ 40" using True u vram p by (auto simp: overhead_mib_def)
    have t: "ctx_step \<le> fit_tokens ?room ?per ?limit" using True by (simp add: fit_def)
    have F: "0 < ?per" "fit \<le> ?limit" "fit * ?per \<le> ?room * plan_mib"
      unfolding fit_def by (rule fit_tokens_fits [OF r context_limit_pos(1) t p(3)])+
    obtain c1 recs where l: "lower_context i p c fit = (c1, recs)" by (cases "lower_context i p c fit")
    have fit: "0 < fit" using True by (simp add: ctx_step_def)
    have c1: "0 < c1" "c1 \<le> fit" "c1 \<le> ?limit"
      and recs: "\<forall>r \<in> set recs. rn_path r = context_path \<longrightarrow> rn_value r = c1"
      using l c F(2) fit by (auto simp: lower_context_def drop_path_def Let_def split: if_splits)
    have "c1 * ?per \<le> fit * ?per" using c1 F(1) by (intro mult_right_mono) auto
    then have cp: "c1 * ?per \<le> ?room * plan_mib" using F(3) by linarith
    have K: "kv_mib ?per c1 = (c1 * ?per + plan_mib - 1) div plan_mib" "0 \<le> kv_mib ?per c1" "kv_mib ?per c1 \<le> ?room"
      using kv_mib_fits [OF _ F(1) cp r] c1 by auto
    define need where "need = pl_weights_mib p + kv_mib ?per c1 + overhead_mib"
    have need: "0 < need" "need \<le> usable_mib ?v" using K p by (auto simp: need_def overhead_mib_def)
    then have w: "wrap64 need = need" using u vram by (intro wrap64_small) auto
    have up: "need \<le> round_up need vram_step" using need u vram by (intro round_up_ge) auto
    have e: "fit_memory i c p = free_vram i c1 (p\<lparr>pl_recommendations := recs\<rparr>)"
      using True c1(1) by (simp add: fit_memory_def room Let_def fit_def [symmetric] l)
    have est: "pl_estimated_mib (fit_memory i c p) = need" "pl_weights_mib (fit_memory i c p) = pl_weights_mib p"
      "pl_kv_bytes_per_tok (fit_memory i c p) = ?per"
      by (simp_all add: e free_vram_def Let_def need_def [symmetric] w)
    have "\<exists>r. pl_recommendations (fit_memory i c p) = recs @ [r] \<and> rn_path r = free_vram_path
        \<and> rn_value r = min ?v (round_up need vram_step)"
      by (simp add: e free_vram_def Let_def need_def [symmetric] w min_def)
    then obtain r where r: "pl_recommendations (fit_memory i c p) = recs @ [r]" "rn_path r = free_vram_path"
      "rn_value r = min ?v (round_up need vram_step)" by blast
    show ?thesis
      unfolding plan_ok_def est r(1)
      using c1 recs r(2,3) need up u K(1) by (auto simp: need_def intro!: exI [of _ c1])
  qed
qed

lemma weights_bounds:
  assumes "0 \<le> fs" "fs \<le> 2 ^ 62"
  shows "0 \<le> go_div (wrap64 (fs + plan_mib - 1)) plan_mib" "go_div (wrap64 (fs + plan_mib - 1)) plan_mib \<le> 2 ^ 50"
proof -
  have w: "wrap64 (fs + plan_mib - 1) = fs + plan_mib - 1" using assms by (intro wrap64_small) (auto simp: plan_mib_def)
  have g: "go_div (fs + plan_mib - 1) plan_mib = (fs + plan_mib - 1) div plan_mib"
    using assms by (intro go_div_pos) (auto simp: plan_mib_def)
  show "0 \<le> go_div (wrap64 (fs + plan_mib - 1)) plan_mib"
    unfolding w g using assms by (auto simp: plan_mib_def pos_imp_zdiv_nonneg_iff)
  have "(fs + plan_mib - 1) div plan_mib \<le> (2 ^ 62 + plan_mib) div plan_mib"
    using assms by (intro zdiv_mono1) (auto simp: plan_mib_def)
  then show "go_div (wrap64 (fs + plan_mib - 1)) plan_mib \<le> 2 ^ 50" unfolding w g by (simp add: plan_mib_def)
qed

lemma trained_context_same:
  "trained_context i = (c, recs) \<Longrightarrow> r \<in> set recs \<Longrightarrow> rn_value r = c"
  by (auto simp: trained_context_def Let_def split: if_splits)

subsection \<open>Properties\<close>

text \<open>C19. A plan is consistent and stays within its budget, whatever the metadata of the file says: a
  proposed context is positive and no larger than the model was trained for; an estimate is the sum of
  the weights, the cache of the planned context and the overhead, and fits the usable part of the
  memory; the free memory it asks for covers the estimate and is no more than the GPU has.\<close>

theorem plan_within_budget:
  assumes "0 \<le> pi_file_size i" "pi_file_size i \<le> 2 ^ 62" and "gp_total_mib (pi_gpu i) \<le> 2 ^ 40"
    and "0 \<le> pi_current_context i" "pi_current_context i \<le> max_context"
  shows "plan_ok i (compute i)"
proof -
  obtain c recs where t: "trained_context i = (c, recs)" by (cases "trained_context i")
  define p where "p = \<lparr>pl_weights_mib = go_div (wrap64 (pi_file_size i + plan_mib - 1)) plan_mib,
    pl_kv_bytes_per_tok = kv_bytes_per_token (pi_meta i), pl_overhead_mib = overhead_mib, pl_estimated_mib = 0,
    pl_recommendations = recs, pl_notes = file_notes (pi_meta i)\<rparr>"
  note T = trained_context_bounds [OF t assms(4,5)]
  have p: "0 \<le> pl_weights_mib p" "pl_weights_mib p \<le> 2 ^ 50" "pl_estimated_mib p = 0"
    using weights_bounds [OF assms(1,2)] by (simp_all add: p_def)
  have base: "plan_ok i p" using T(3) by (auto simp: plan_ok_def p_def)
  have fit: "plan_ok i (fit_memory i c p)"
    if "0 < gp_total_mib (pi_gpu i)" "pl_kv_bytes_per_tok p \<noteq> 0"
    using that assms(3) p T trained_context_same [OF t] by (intro fit_memory_ok) (auto simp: p_def)
  have "compute i =
     (if 1 < md_split_count (pi_meta i) then add_note (Sprintf ''This model is split across %d files and only one was inspected, so its total size is unknown and no memory-based settings are proposed.''
             [FInt (int (md_split_count (pi_meta i)))]) p
      else if \<not> gp_reliable (pi_gpu i) \<or> gp_total_mib (pi_gpu i) \<le> 0 then
           add_note (lit ''GPU memory is not known right now, so no memory-based settings are proposed.'') p
      else if pl_kv_bytes_per_tok p = 0 \<or> pl_weights_mib p = 0 then
           add_note (lit ''The file does not give enough detail to estimate the KV cache, so no memory-based settings are proposed.'') p
      else fit_memory i c p)"
    by (simp add: compute_def t p_def Let_def)
  then show ?thesis using base fit by simp
qed

definition demo_meta :: metadata where
  "demo_meta = (base_metadata 3 1 no_maps)\<lparr>md_context_length := 8192, md_block_count := 32, md_head_count := 32,
     md_embedding_length := 4096, md_kv_heads_total := 256\<rparr>"

definition demo_plan_input :: plan_input where
  "demo_plan_input = \<lparr>pi_meta = demo_meta, pi_file_size = 4 * 2 ^ 30, pi_gpu = \<lparr>gp_total_mib = 8192, gp_reliable = True\<rparr>,
     pi_current_context = 16384\<rparr>"

theorem plan_within_budget_witness:
  "plan_ok demo_plan_input (compute demo_plan_input) \<and> context_limit (pi_meta demo_plan_input) = 8192"
proof
  show "plan_ok demo_plan_input (compute demo_plan_input)"
    by (rule plan_within_budget) (simp_all add: demo_plan_input_def max_context_def)
  show "context_limit (pi_meta demo_plan_input) = 8192"
    by (simp add: demo_plan_input_def demo_meta_def context_limit_def max_context_def)
qed

text \<open>A model trained for less than 1024 tokens: the note blames the memory whatever the GPU has, and
  says nothing was changed although the context may have been.\<close>

lemma small_training_context:
  assumes "0 < md_context_length (pi_meta i)" "md_context_length (pi_meta i) < 1024" and "md_split_count (pi_meta i) \<le> 1"
    and "gp_reliable (pi_gpu i)" "0 < gp_total_mib (pi_gpu i)" and "kv_bytes_per_token (pi_meta i) \<noteq> 0"
    and "go_div (wrap64 (pi_file_size i + plan_mib - 1)) plan_mib = w" "w \<noteq> 0"
    and "0 < wrap64 (usable_mib (gp_total_mib (pi_gpu i)) - w - overhead_mib)"
  shows "last (pl_notes (compute i)) = lit ''Less than 1024 tokens of context fit alongside the weights in the estimate; nothing was changed.''
    \<and> pl_recommendations (compute i) = snd (trained_context i)"
proof -
  have "fit_tokens room per (context_limit (pi_meta i)) < ctx_step" for room per
  proof -
    define q where "q = min (go_div (wrap64 (room * plan_mib)) per) (context_limit (pi_meta i))"
    have q: "q < 1024" using assms(1,2) by (auto simp: q_def context_limit_def max_context_def)
    have "go_div q 1024 \<le> 0"
    proof (cases "0 \<le> q")
      case True
      then show ?thesis using q by (simp add: go_div_pos)
    next
      case False
      then have "0 \<le> - q div 1024" by simp
      then show ?thesis using False by (simp add: go_div_def sgn_if)
    qed
    then show ?thesis by (simp add: fit_tokens_def round_down_def q_def [symmetric] ctx_step_def)
  qed
  then show ?thesis
    using assms(3-) by (auto simp: compute_def Let_def fit_memory_def add_note_def split: prod.splits)
qed

end
