(* ===== verification/Sign_In.thy ===== *)
theory Sign_In
  imports Prelude
begin

text \<open>
  Package \<open>internal/api\<close>, \<open>signin.go\<close>: one-time codes and the sessions they are exchanged for. Only
  digests are kept; the digest is a parameter, and the properties ask that it tells texts apart, as
  SHA-256 does in practice. A Go map is an association list with distinct keys. Randomness is an
  argument of the call that draws it.
\<close>

definition sign_in_code_ttl :: dur where "sign_in_code_ttl = minute"
definition session_ttl :: dur where "session_ttl = 8 * hour"
definition max_pending_codes :: nat where "max_pending_codes = 8"
definition min_code_len :: nat where "min_code_len = 32"
definition max_code_len :: nat where "max_code_len = 128"
definition max_redeem_failure :: nat where "max_redeem_failure = 20"
definition max_sessions :: nat where "max_sessions = 16"

record 'd sign_in =
  sgn_codes :: "('d \<times> time) list"
  sgn_sessions :: "('d \<times> time) list"
  sgn_failures :: nat
  sgn_fail_from :: time

definition new_sign_in :: "'d sign_in" where
  "new_sign_in = \<lparr>sgn_codes = [], sgn_sessions = [], sgn_failures = 0, sgn_fail_from = 0\<rparr>"

text \<open>Deleting and setting a key, and dropping what has expired.\<close>

definition drop_key :: "'d \<Rightarrow> ('d \<times> time) list \<Rightarrow> ('d \<times> time) list" where
  "drop_key k xs = filter (\<lambda>(k', _). k' \<noteq> k) xs"

definition set_key :: "'d \<Rightarrow> time \<Rightarrow> ('d \<times> time) list \<Rightarrow> ('d \<times> time) list" where
  "set_key k e xs = (k, e) # drop_key k xs"

definition live :: "time \<Rightarrow> ('d \<times> time) list \<Rightarrow> ('d \<times> time) list" where
  "live now xs = filter (\<lambda>(_, e). now < e) xs"

definition valid_session :: "(string \<Rightarrow> 'd) \<Rightarrow> time \<Rightarrow> string \<Rightarrow> 'd sign_in \<Rightarrow> bool \<times> 'd sign_in" where
  "valid_session dg now tok s = (case map_of (sgn_sessions s) (dg tok) of
      None \<Rightarrow> (False, s)
    | Some e \<Rightarrow> (if \<not> now < e then (False, s\<lparr>sgn_sessions := drop_key (dg tok) (sgn_sessions s)\<rparr>) else (True, s)))"

definition code_char :: "char \<Rightarrow> bool" where
  "code_char c = (let n = (of_char c :: nat) in 97 \<le> n \<and> n \<le> 122 \<or> 65 \<le> n \<and> n \<le> 90 \<or> 48 \<le> n \<and> n \<le> 57 \<or> n = 45 \<or> n = 95)"

definition valid_code :: "string \<Rightarrow> bool" where
  "valid_code c = (min_code_len \<le> length c \<and> length c \<le> max_code_len \<and> list_all code_char c)"

definition err_bad_code :: string where
  "err_bad_code = ''code must be 32 to 128 characters of letters, digits, '' @ [CHR 0x27] @ ''-'' @ [CHR 0x27] @ '' or '' @ [CHR 0x27] @ ''_'' @ [CHR 0x27]"

definition register_code :: "(string \<Rightarrow> 'd) \<Rightarrow> time \<Rightarrow> string \<Rightarrow> 'd sign_in \<Rightarrow> (string + time) \<times> 'd sign_in" where
  "register_code dg now code s =
     (if \<not> valid_code code then (Inl err_bad_code, s)
      else
        (let s1 = s\<lparr>sgn_codes := live now (sgn_codes s)\<rparr> in
         if max_pending_codes \<le> length (sgn_codes s1)
         then (Inl ''too many sign-in codes pending; wait a minute'', s1)
         else (let e = now + sign_in_code_ttl
               in (Inr e, s1\<lparr>sgn_codes := set_key (dg code) e (sgn_codes s1)\<rparr>))))"

text \<open>The key that expires first. Of several that expire together the source takes whichever its map
  yields first; here it is the first of the list.\<close>

fun oldest_key :: "('d \<times> time) list \<Rightarrow> ('d \<times> time) option" where
  "oldest_key [] = None"
| "oldest_key ((k, e) # xs) = (case oldest_key xs of
      None \<Rightarrow> Some (k, e)
    | Some (k', e') \<Rightarrow> (if e' < e then Some (k', e') else Some (k, e)))"

definition make_room :: "('d \<times> time) list \<Rightarrow> ('d \<times> time) list" where
  "make_room xs = (if max_sessions \<le> length xs then (case oldest_key xs of Some (k, _) \<Rightarrow> drop_key k xs | None \<Rightarrow> xs) else xs)"

definition redeem_code :: "(string \<Rightarrow> 'd) \<Rightarrow> time \<Rightarrow> string \<Rightarrow> string option \<Rightarrow> 'd sign_in \<Rightarrow> string option \<times> 'd sign_in" where
  "redeem_code dg now code fresh s =
     (let s1 = (if minute < t_sub now (sgn_fail_from s) then s\<lparr>sgn_failures := 0, sgn_fail_from := now\<rparr> else s) in
      if max_redeem_failure \<le> sgn_failures s1 then (None, s1)
      else
        (let found = map_of (sgn_codes s1) (dg code); s2 = s1\<lparr>sgn_codes := drop_key (dg code) (sgn_codes s1)\<rparr> in
         case found of
           None \<Rightarrow> (None, s2\<lparr>sgn_failures := sgn_failures s2 + 1\<rparr>)
         | Some e \<Rightarrow>
             (if \<not> now < e \<or> \<not> valid_code code then (None, s2\<lparr>sgn_failures := sgn_failures s2 + 1\<rparr>)
              else (case fresh of
                  None \<Rightarrow> (None, s2)
                | Some tok \<Rightarrow>
                    (Some tok, s2\<lparr>sgn_sessions := set_key (dg tok) (now + session_ttl)
                       (make_room (live now (sgn_sessions s2)))\<rparr>)))))"

subsection \<open>Runs\<close>

datatype sign_op = OpRegister time string | OpRedeem time string "string option" | OpCheck time string

datatype sign_result = Registered "string + time" | Redeemed "string option" | Checked bool

fun sign_step :: "(string \<Rightarrow> 'd) \<Rightarrow> sign_op \<Rightarrow> 'd sign_in \<Rightarrow> sign_result \<times> 'd sign_in" where
  "sign_step dg (OpRegister now c) s = map_prod Registered id (register_code dg now c s)"
| "sign_step dg (OpRedeem now c fresh) s = map_prod Redeemed id (redeem_code dg now c fresh s)"
| "sign_step dg (OpCheck now tok) s = map_prod Checked id (valid_session dg now tok s)"

type_synonym sign_log = "(sign_op \<times> sign_result) list"

inductive sign_run :: "(string \<Rightarrow> 'd) \<Rightarrow> 'd sign_in \<Rightarrow> sign_log \<Rightarrow> bool" for dg where
  sign_new: "sign_run dg new_sign_in []"
| sign_call: "sign_run dg s xs \<Longrightarrow> sign_step dg x s = (r, s') \<Longrightarrow> sign_run dg s' (xs @ [(x, r)])"

text \<open>A code is pending since \<open>t0\<close> when it was registered then and no later call redeemed it. A
  session token was issued at \<open>t\<close> when a redemption at \<open>t\<close>, less than a minute after the code's
  registration and the first to succeed with it since, answered that token.\<close>

definition pending_since :: "sign_log \<Rightarrow> string \<Rightarrow> time \<Rightarrow> bool" where
  "pending_since xs c t0 = (\<exists>pre mid. xs = pre @ (OpRegister t0 c, Registered (Inr (t0 + sign_in_code_ttl))) # mid
     \<and> (\<forall>t f r. (OpRedeem t c f, Redeemed (Some r)) \<notin> set mid))"

definition issued_at :: "sign_log \<Rightarrow> string \<Rightarrow> time \<Rightarrow> bool" where
  "issued_at xs tok t = (\<exists>pre post c t0 f. xs = pre @ (OpRedeem t c f, Redeemed (Some tok)) # post
     \<and> pending_since pre c t0 \<and> t < t0 + sign_in_code_ttl \<and> valid_code c)"

subsection \<open>Keys\<close>

lemma map_of_drop [simp]: "map_of (drop_key k xs) = (map_of xs)(k := None)"
  by (induction xs) (auto simp: drop_key_def fun_eq_iff)

lemma map_of_set [simp]: "map_of (set_key k e xs) = (map_of xs)(k \<mapsto> e)"
  by (simp add: set_key_def fun_eq_iff)

lemma set_drop: "set (drop_key k xs) = {x \<in> set xs. fst x \<noteq> k}"
  by (auto simp: drop_key_def)

lemma set_live: "set (live now xs) = {x \<in> set xs. now < snd x}"
  by (auto simp: live_def)

lemma length_drop_key: "length (drop_key k xs) \<le> length xs"
  by (simp add: drop_key_def)

lemma length_drop_in: "(k, e) \<in> set xs \<Longrightarrow> length (drop_key k xs) < length xs"
  unfolding drop_key_def by (rule length_filter_less [where x = "(k, e)"]) auto

lemma length_live: "length (live now xs) \<le> length xs"
  by (simp add: live_def)

lemma length_set_key: "length (set_key k e xs) \<le> Suc (length xs)"
  by (simp add: set_key_def length_drop_key)

lemma set_set_key: "set (set_key k e xs) \<subseteq> insert (k, e) (set xs)"
  by (auto simp: set_key_def set_drop)

lemma oldest_in: "oldest_key xs = Some (k, e) \<Longrightarrow> (k, e) \<in> set xs"
  by (induction xs arbitrary: k e rule: oldest_key.induct) (auto split: option.splits prod.splits if_splits)

lemma oldest_None: "oldest_key xs = None \<longleftrightarrow> xs = []"
  by (cases xs) (auto split: option.splits prod.splits)

lemma make_room_set: "set (make_room xs) \<subseteq> set xs"
  by (auto simp: make_room_def set_drop split: option.splits if_splits)

lemma make_room_length: "length xs \<le> max_sessions \<Longrightarrow> length (make_room xs) < max_sessions"
proof (cases "max_sessions \<le> length xs")
  case True
  assume l: "length xs \<le> max_sessions"
  have "xs \<noteq> []" using True by (auto simp: max_sessions_def)
  then obtain k e where o: "oldest_key xs = Some (k, e)" using oldest_None [of xs] by (cases "oldest_key xs") auto
  have "length (drop_key k xs) < length xs" by (rule length_drop_in [OF oldest_in [OF o]])
  then show ?thesis using True l o by (simp add: make_room_def)
qed (simp add: make_room_def)

subsection \<open>The invariant of a run\<close>

definition sign_ok :: "(string \<Rightarrow> 'd) \<Rightarrow> 'd sign_in \<Rightarrow> sign_log \<Rightarrow> bool" where
  "sign_ok dg s xs \<longleftrightarrow> length (sgn_codes s) \<le> max_pending_codes \<and> length (sgn_sessions s) \<le> max_sessions
     \<and> sgn_failures s \<le> max_redeem_failure
     \<and> (\<forall>(d, e) \<in> set (sgn_codes s). \<exists>c t0. d = dg c \<and> e = t0 + sign_in_code_ttl \<and> valid_code c \<and> pending_since xs c t0)
     \<and> (\<forall>(d, e) \<in> set (sgn_sessions s). \<exists>tok t. d = dg tok \<and> e = t + session_ttl \<and> issued_at xs tok t)"

lemma pending_new: "pending_since (xs @ [(OpRegister t c, Registered (Inr (t + sign_in_code_ttl)))]) c t"
  unfolding pending_since_def by (rule exI [where x = xs], rule exI [where x = "[]"]) simp

lemma pending_snoc:
  "pending_since xs c t0 \<Longrightarrow> (\<And>t f r. x \<noteq> (OpRedeem t c f, Redeemed (Some r))) \<Longrightarrow> pending_since (xs @ [x]) c t0"
  unfolding pending_since_def by (elim exE conjE, rule_tac x = pre in exI, rule_tac x = "mid @ [x]" in exI) auto

lemma issued_snoc: "issued_at xs tok t \<Longrightarrow> issued_at (xs @ [x]) tok t"
  unfolding issued_at_def by (elim exE conjE, rule_tac x = pre in exI, rule_tac x = "post @ [x]" in exI) auto

lemma issued_new:
  "pending_since xs c t0 \<Longrightarrow> t < t0 + sign_in_code_ttl \<Longrightarrow> valid_code c \<Longrightarrow>
     issued_at (xs @ [(OpRedeem t c f, Redeemed (Some tok))]) tok t"
  unfolding issued_at_def by (rule exI [where x = xs], rule exI [where x = "[]"]) auto

lemma sign_okI:
  assumes "length (sgn_codes s) \<le> max_pending_codes" "length (sgn_sessions s) \<le> max_sessions"
    "sgn_failures s \<le> max_redeem_failure"
    "\<And>d e. (d, e) \<in> set (sgn_codes s) \<Longrightarrow> \<exists>c t0. d = dg c \<and> e = t0 + sign_in_code_ttl \<and> valid_code c \<and> pending_since xs c t0"
    "\<And>d e. (d, e) \<in> set (sgn_sessions s) \<Longrightarrow> \<exists>tok t. d = dg tok \<and> e = t + session_ttl \<and> issued_at xs tok t"
  shows "sign_ok dg s xs"
  unfolding sign_ok_def using assms by blast

lemma sign_okD:
  assumes "sign_ok dg s xs"
  shows "length (sgn_codes s) \<le> max_pending_codes" "length (sgn_sessions s) \<le> max_sessions"
    "sgn_failures s \<le> max_redeem_failure"
    "(d, e) \<in> set (sgn_codes s) \<Longrightarrow> \<exists>c t0. d = dg c \<and> e = t0 + sign_in_code_ttl \<and> valid_code c \<and> pending_since xs c t0"
    "(d, e) \<in> set (sgn_sessions s) \<Longrightarrow> \<exists>tok t. d = dg tok \<and> e = t + session_ttl \<and> issued_at xs tok t"
  using assms unfolding sign_ok_def by blast+

text \<open>A call that adds nothing keeps the invariant: it may drop entries, and a successful redemption
  must drop its own code.\<close>

lemma sign_ok_shrink:
  assumes ok: "sign_ok dg s xs" and c: "set (sgn_codes s') \<subseteq> set (sgn_codes s)" "length (sgn_codes s') \<le> length (sgn_codes s)"
    and se: "set (sgn_sessions s') \<subseteq> set (sgn_sessions s)" "length (sgn_sessions s') \<le> length (sgn_sessions s)"
    and f: "sgn_failures s' \<le> max_redeem_failure"
    and x: "\<And>t c f r. x = (OpRedeem t c f, Redeemed (Some r)) \<Longrightarrow> dg c \<notin> fst ` set (sgn_codes s')"
  shows "sign_ok dg s' (xs @ [x])"
proof (rule sign_okI)
  show "length (sgn_codes s') \<le> max_pending_codes" using sign_okD(1) [OF ok] c(2) by linarith
  show "length (sgn_sessions s') \<le> max_sessions" using sign_okD(2) [OF ok] se(2) by linarith
  show "sgn_failures s' \<le> max_redeem_failure" by (rule f)
next
  fix d e
  assume d: "(d, e) \<in> set (sgn_codes s')"
  then obtain k t0 where k: "d = dg k" "e = t0 + sign_in_code_ttl" "valid_code k" "pending_since xs k t0"
    using sign_okD(4) [OF ok] c(1) by blast
  have "dg k \<in> fst ` set (sgn_codes s')" using d k(1) by force
  then have "x \<noteq> (OpRedeem t k f, Redeemed (Some r))" for t f r using x by blast
  then have "pending_since (xs @ [x]) k t0" by (rule pending_snoc [OF k(4)])
  then show "\<exists>c t0. d = dg c \<and> e = t0 + sign_in_code_ttl \<and> valid_code c \<and> pending_since (xs @ [x]) c t0" using k by blast
next
  fix d e
  assume "(d, e) \<in> set (sgn_sessions s')"
  then show "\<exists>tok t. d = dg tok \<and> e = t + session_ttl \<and> issued_at (xs @ [x]) tok t"
    using sign_okD(5) [OF ok] se(1) issued_snoc by blast
qed

lemma register_ok:
  assumes ok: "sign_ok dg s xs" and r: "register_code dg now c s = (r, s')"
  shows "sign_ok dg s' (xs @ [(OpRegister now c, Registered r)])"
proof (cases "valid_code c \<and> length (live now (sgn_codes s)) < max_pending_codes")
  case False
  then have "s' = s \<or> s' = s\<lparr>sgn_codes := live now (sgn_codes s)\<rparr>"
    using r by (auto simp: register_code_def Let_def split: if_splits)
  then show ?thesis
    using sign_okD(3) [OF ok] by (intro sign_ok_shrink [OF ok]) (auto simp: set_live length_live)
next
  case True
  then have s': "s' = s\<lparr>sgn_codes := set_key (dg c) (now + sign_in_code_ttl) (live now (sgn_codes s))\<rparr>"
    and rr: "r = Inr (now + sign_in_code_ttl)"
    using r by (auto simp: register_code_def Let_def split: if_splits)
  let ?x = "(OpRegister now c, Registered r)"
  have mid: "sign_ok dg (s\<lparr>sgn_codes := live now (sgn_codes s)\<rparr>) (xs @ [?x])"
    using sign_okD(3) [OF ok] by (intro sign_ok_shrink [OF ok]) (auto simp: set_live length_live)
  show ?thesis
  proof (rule sign_okI)
    show "length (sgn_codes s') \<le> max_pending_codes"
      using True length_set_key [of "dg c" "now + sign_in_code_ttl" "live now (sgn_codes s)"] by (simp add: s')
    show "length (sgn_sessions s') \<le> max_sessions" "sgn_failures s' \<le> max_redeem_failure"
      using sign_okD(2,3) [OF ok] by (simp_all add: s')
  next
    fix d e
    assume "(d, e) \<in> set (sgn_codes s')"
    then consider "d = dg c" "e = now + sign_in_code_ttl" | "(d, e) \<in> set (live now (sgn_codes s))"
      using set_set_key unfolding s' by fastforce
    then show "\<exists>c t0. d = dg c \<and> e = t0 + sign_in_code_ttl \<and> valid_code c \<and> pending_since (xs @ [?x]) c t0"
    proof cases
      case 1
      then show ?thesis using True pending_new rr by blast
    next
      case 2
      then show ?thesis using sign_okD(4) [OF mid] by simp
    qed
  next
    fix d e
    assume "(d, e) \<in> set (sgn_sessions s')"
    then show "\<exists>tok t. d = dg tok \<and> e = t + session_ttl \<and> issued_at (xs @ [?x]) tok t"
      using sign_okD(5) [OF mid] by (simp add: s')
  qed
qed

lemma check_ok:
  assumes ok: "sign_ok dg s xs" and r: "valid_session dg now tok s = (b, s')"
  shows "sign_ok dg s' (xs @ [(OpCheck now tok, Checked b)])"
proof (rule sign_ok_shrink [OF ok])
  have s': "s' = s \<or> s' = s\<lparr>sgn_sessions := drop_key (dg tok) (sgn_sessions s)\<rparr>"
    using r by (auto simp: valid_session_def split: option.splits if_splits)
  then show "set (sgn_codes s') \<subseteq> set (sgn_codes s)" "length (sgn_codes s') \<le> length (sgn_codes s)"
    "set (sgn_sessions s') \<subseteq> set (sgn_sessions s)" "length (sgn_sessions s') \<le> length (sgn_sessions s)"
    "sgn_failures s' \<le> max_redeem_failure"
    using sign_okD(3) [OF ok] by (auto simp: set_drop length_drop_key)
qed simp

lemma redeem_cases:
  assumes "redeem_code dg now c fresh s = (r, s')"
  shows "(r = None \<and> sgn_codes s' \<in> {sgn_codes s, drop_key (dg c) (sgn_codes s)} \<and> sgn_sessions s' = sgn_sessions s
          \<and> sgn_failures s' \<le> max (sgn_failures s) max_redeem_failure)
    \<or> (\<exists>tok e. r = Some tok \<and> map_of (sgn_codes s) (dg c) = Some e \<and> now < e \<and> valid_code c \<and> fresh = Some tok
          \<and> sgn_codes s' = drop_key (dg c) (sgn_codes s) \<and> sgn_failures s' \<le> max_redeem_failure
          \<and> sgn_sessions s' = set_key (dg tok) (now + session_ttl) (make_room (live now (sgn_sessions s))))"
  using assms by (auto simp: redeem_code_def Let_def split: option.splits if_splits)

lemma redeem_ok:
  assumes ok: "sign_ok dg s xs" and inj: "inj dg" and r: "redeem_code dg now c fresh s = (r, s')"
  shows "sign_ok dg s' (xs @ [(OpRedeem now c fresh, Redeemed r)])"
  using redeem_cases [OF r]
proof (elim disjE exE conjE)
  assume n: "r = None" and c: "sgn_codes s' \<in> {sgn_codes s, drop_key (dg c) (sgn_codes s)}"
    and e: "sgn_sessions s' = sgn_sessions s" "sgn_failures s' \<le> max (sgn_failures s) max_redeem_failure"
  show ?thesis
    by (rule sign_ok_shrink [OF ok]) (use c e sign_okD(3) [OF ok] in \<open>auto simp: n set_drop length_drop_key\<close>)
next
  fix tok e
  let ?x = "(OpRedeem now c fresh, Redeemed r)"
  assume rr: "r = Some tok" and m: "map_of (sgn_codes s) (dg c) = Some e" and t: "now < e" "valid_code c"
    and c: "sgn_codes s' = drop_key (dg c) (sgn_codes s)" and f: "sgn_failures s' \<le> max_redeem_failure"
    and se: "sgn_sessions s' = set_key (dg tok) (now + session_ttl) (make_room (live now (sgn_sessions s)))"
  obtain c' t0 where k: "dg c = dg c'" "e = t0 + sign_in_code_ttl" "pending_since xs c' t0"
    using sign_okD(4) [OF ok map_of_SomeD [OF m]] by blast
  have "c' = c" using inj k(1) by (simp add: inj_eq)
  then have new: "issued_at (xs @ [?x]) tok now" unfolding rr using issued_new k t by blast
  have mid: "sign_ok dg (s'\<lparr>sgn_sessions := sgn_sessions s\<rparr>) (xs @ [?x])"
    by (rule sign_ok_shrink [OF ok]) (use c f in \<open>auto simp: set_drop length_drop_key\<close>)
  have l: "length (make_room (live now (sgn_sessions s))) < max_sessions"
    by (rule make_room_length) (use length_live [of now "sgn_sessions s"] sign_okD(2) [OF ok] in linarith)
  show ?thesis
  proof (rule sign_okI)
    show "length (sgn_codes s') \<le> max_pending_codes" using sign_okD(1) [OF mid] by simp
    show "length (sgn_sessions s') \<le> max_sessions"
      using l length_set_key [of "dg tok" "now + session_ttl" "make_room (live now (sgn_sessions s))"] by (simp add: se)
    show "sgn_failures s' \<le> max_redeem_failure" by (rule f)
  next
    fix d e
    assume "(d, e) \<in> set (sgn_codes s')"
    then show "\<exists>c t0. d = dg c \<and> e = t0 + sign_in_code_ttl \<and> valid_code c \<and> pending_since (xs @ [?x]) c t0"
      using sign_okD(4) [OF mid] by simp
  next
    fix d e
    assume "(d, e) \<in> set (sgn_sessions s')"
    then consider "d = dg tok" "e = now + session_ttl" | "(d, e) \<in> set (sgn_sessions s)"
      using set_set_key make_room_set [of "live now (sgn_sessions s)"] set_live [of now "sgn_sessions s"] unfolding se by fastforce
    then show "\<exists>tok t. d = dg tok \<and> e = t + session_ttl \<and> issued_at (xs @ [?x]) tok t"
    proof cases
      case 1
      then show ?thesis using new by blast
    next
      case 2
      then show ?thesis using sign_okD(5) [OF ok] issued_snoc by blast
    qed
  qed
qed

lemma sign_run_ok: "sign_run dg s xs \<Longrightarrow> inj dg \<Longrightarrow> sign_ok dg s xs"
proof (induction rule: sign_run.induct)
  case sign_new
  show ?case by (simp add: sign_ok_def new_sign_in_def)
next
  case (sign_call s xs x r s')
  then have ok: "sign_ok dg s xs" by simp
  show ?case
  proof (cases x)
    case (OpRegister t c)
    then show ?thesis using sign_call.hyps register_ok [OF ok] by (cases "register_code dg t c s") auto
  next
    case (OpRedeem t c f)
    then show ?thesis using sign_call.hyps redeem_ok [OF ok sign_call.prems] by (cases "redeem_code dg t c f s") auto
  next
    case (OpCheck t tok)
    then show ?thesis using sign_call.hyps check_ok [OF ok] by (cases "valid_session dg t tok s") auto
  qed
qed

lemma session_issued:
  assumes "sign_run dg s xs" "inj dg" "valid_session dg now tok s = (True, s')"
  shows "\<exists>t. issued_at xs tok t \<and> now < t + session_ttl"
proof -
  have ok: "sign_ok dg s xs" by (rule sign_run_ok [OF assms(1,2)])
  obtain e where m: "map_of (sgn_sessions s) (dg tok) = Some e" "now < e"
    using assms(3) by (auto simp: valid_session_def split: option.splits if_splits)
  then obtain tok' t where "dg tok = dg tok'" "e = t + session_ttl" "issued_at xs tok' t"
    using sign_okD(5) [OF ok map_of_SomeD [OF m(1)]] by blast
  then show ?thesis using assms(2) m(2) by (auto simp: inj_eq)
qed

text \<open>C25. A session token that is accepted at time \<open>now\<close> was answered, less than eight hours before, to a
  redemption of a well-formed sign-in code; that code had been registered less than a minute before its
  redemption, and no other redemption of it succeeded in between. At no time are there more than eight
  pending codes or sixteen sessions, and the count of failed redemptions never passes twenty.\<close>

theorem sessions_come_from_codes:
  assumes "sign_run dg s xs" "inj dg"
  shows "(\<forall>now tok. fst (valid_session dg now tok s) \<longrightarrow> (\<exists>t. issued_at xs tok t \<and> now < t + session_ttl))
    \<and> length (sgn_codes s) \<le> 8 \<and> length (sgn_sessions s) \<le> 16 \<and> sgn_failures s \<le> 20"
proof (intro conjI allI impI)
  show "\<exists>t. issued_at xs tok t \<and> now < t + session_ttl" if "fst (valid_session dg now tok s)" for now tok
    using that session_issued [OF assms] by (cases "valid_session dg now tok s") auto
qed (use sign_okD(1-3) [OF sign_run_ok [OF assms]] in \<open>auto simp: max_pending_codes_def max_sessions_def max_redeem_failure_def\<close>)

definition demo_code :: string where
  "demo_code = replicate 32 CHR ''a''"

definition demo_signed_in :: "string sign_in" where
  "demo_signed_in = snd (redeem_code id 5 demo_code (Some ''tok'') (snd (register_code id 1 demo_code new_sign_in)))"

lemma demo_sign_run: "\<exists>xs. sign_run id demo_signed_in xs"
proof -
  have "sign_run id (snd (register_code id 1 demo_code new_sign_in)) ([] @ [(OpRegister 1 demo_code, Registered (fst (register_code id 1 demo_code new_sign_in)))])"
    by (rule sign_call [OF sign_new]) (simp add: map_prod_def case_prod_unfold)
  then show ?thesis unfolding demo_signed_in_def
    by (intro exI) (rule sign_call [where x = "OpRedeem 5 demo_code (Some ''tok'')"], assumption, simp add: map_prod_def case_prod_unfold)
qed

lemma sessions_come_from_codes_witness:
  "\<exists>xs. fst (valid_session id 9 ''tok'' demo_signed_in) \<and> (\<exists>t. issued_at xs ''tok'' t \<and> 9 < t + session_ttl)"
proof -
  obtain xs where r: "sign_run id demo_signed_in xs" using demo_sign_run by blast
  have v: "fst (valid_session id 9 ''tok'' demo_signed_in)" by code_simp
  have i: "\<exists>t. issued_at xs ''tok'' t \<and> 9 < t + session_ttl"
    by (rule mp [OF spec [OF spec [OF conjunct1 [OF sessions_come_from_codes [OF r inj_on_id]]]] v])
  show ?thesis using v i by blast
qed

end
