(* ===== verification/Auth.thy ===== *)
theory Auth
  imports Sign_In Net
begin

text \<open>
  Package \<open>internal/api\<close>, \<open>auth.go\<close>: who a request authenticates as and what it may do. A request
  carries what the handlers read of it; a header or a query parameter is the list of its values. The
  parsers of \<open>mime\<close> and \<open>net/url\<close> are parameters: the rules below hold whatever they answer.
\<close>

datatype access = AccessRead | AccessWrite | AccessLocal | AccessModeWrite

datatype principal = PrincipalNone | PrincipalInvalid | PrincipalManagement | PrincipalAgent
  | PrincipalInference | PrincipalSession

fun principal_string :: "principal \<Rightarrow> string" where
  "principal_string PrincipalManagement = ''management''"
| "principal_string PrincipalAgent = ''agent''"
| "principal_string PrincipalSession = ''session''"
| "principal_string PrincipalNone = ''local''"
| "principal_string _ = ''unknown''"

text \<open>The body as reading it to the end goes: its bytes, or a failure.\<close>

datatype http_body = BodyBytes string | BodyBroken

record http_request =
  rq_method :: string
  rq_path :: string
  rq_remote :: string
  rq_host :: string
  rq_tls :: bool
  rq_header :: "string \<Rightarrow> string list"
  rq_query :: "string \<Rightarrow> string list"
  rq_body :: http_body

text \<open>\<open>Header.Get\<close> and \<open>Values.Get\<close>: the first value, or nothing.\<close>

definition first_of :: "string list \<Rightarrow> string" where
  "first_of xs = (case xs of [] \<Rightarrow> '''' | x # _ \<Rightarrow> x)"

definition header_get :: "http_request \<Rightarrow> string \<Rightarrow> string" where
  "header_get r k = first_of (rq_header r k)"

record url =
  url_scheme :: string
  url_opaque :: string
  url_user :: "string option"
  url_host :: string
  url_path :: string
  url_raw_query :: string
  url_fragment :: string

record http_lib =
  media_type :: "string \<Rightarrow> string option"
  parse_url :: "string \<Rightarrow> url option"

text \<open>White space as \<open>strings.TrimSpace\<close> sees it in ASCII.\<close>

definition space_char :: "char \<Rightarrow> bool" where
  "space_char c = ((of_char c :: nat) \<in> {9, 10, 11, 12, 13, 32})"

definition trim_space :: "string \<Rightarrow> string" where
  "trim_space s = rev (dropWhile space_char (rev (dropWhile space_char s)))"

text \<open>\<open>dg\<close> is SHA-256.\<close>

record 'd authenticator =
  au_management :: 'd
  au_agent :: 'd
  au_inference :: 'd

record tokens =
  tk_management :: string
  tk_inference :: string
  tk_agent :: string

definition new_authenticator :: "(string \<Rightarrow> 'd) \<Rightarrow> tokens \<Rightarrow> 'd authenticator" where
  "new_authenticator dg t = \<lparr>au_management = dg (tk_management t), au_agent = dg (tk_agent t), au_inference = dg (tk_inference t)\<rparr>"

definition bearer :: "http_request \<Rightarrow> string option" where
  "bearer r = (case cut_char CHR '' '' (header_get r ''Authorization'') of (scheme, tok, ok) \<Rightarrow>
     (if \<not> ok \<or> \<not> equal_fold scheme ''Bearer'' then None
      else (let t = trim_space tok in if t = '''' then None else Some t)))"

text \<open>Only a token that is none of the three is looked up among the sessions, which drops it when it
  has expired. The sessions are missing when sign-in is not enabled.\<close>

definition identify ::
  "(string \<Rightarrow> 'd) \<Rightarrow> 'd authenticator \<Rightarrow> time \<Rightarrow> http_request \<Rightarrow> 'd sign_in option \<Rightarrow> principal \<times> 'd sign_in option" where
  "identify dg a now r s = (case bearer r of
      None \<Rightarrow> (PrincipalNone, s)
    | Some tok \<Rightarrow>
        (if dg tok = au_management a then (PrincipalManagement, s)
         else if dg tok = au_agent a then (PrincipalAgent, s)
         else if dg tok = au_inference a then (PrincipalInference, s)
         else (case s of
             None \<Rightarrow> (PrincipalInvalid, None)
           | Some si \<Rightarrow> (case valid_session dg now tok si of
                 (True, si') \<Rightarrow> (PrincipalSession, Some si')
               | (False, si') \<Rightarrow> (PrincipalInvalid, Some si')))))"

definition loopback_text :: "string \<Rightarrow> bool" where
  "loopback_text h = (case parse_ip h of Some ip \<Rightarrow> is_loopback ip | None \<Rightarrow> False)"

definition from_loopback :: "http_request \<Rightarrow> bool" where
  "from_loopback r = loopback_text (case split_host_port (rq_remote r) of Some (h, _) \<Rightarrow> h | None \<Rightarrow> rq_remote r)"

definition trim_prefix :: "string \<Rightarrow> string \<Rightarrow> string" where
  "trim_prefix s p = (if has_prefix s p then drop (length p) s else s)"

definition trim_suffix :: "string \<Rightarrow> string \<Rightarrow> string" where
  "trim_suffix s p = (if has_suffix s p then take (length s - length p) s else s)"

definition trusted_loopback :: "http_request \<Rightarrow> bool" where
  "trusted_loopback r = (from_loopback r \<and>
     (let h = (case split_host_port (rq_host r) of Some (h, _) \<Rightarrow> h | None \<Rightarrow> rq_host r);
          h' = trim_suffix (trim_prefix h ''['') [CHR 0x5D]
      in equal_fold h' ''localhost'' \<or> loopback_text h'))"

record api_error =
  ae_status :: int
  ae_code :: string
  ae_msg :: gotext

definition refused :: "int \<Rightarrow> string \<Rightarrow> string \<Rightarrow> api_error option" where
  "refused s c m = Some \<lparr>ae_status = s, ae_code = c, ae_msg = lit m\<rparr>"

definition code_unauthorized :: string where "code_unauthorized = ''unauthorized''"
definition code_invalid_token :: string where "code_invalid_token = ''invalid_token''"
definition code_forbidden :: string where "code_forbidden = ''forbidden''"

definition same_origin :: "http_lib \<Rightarrow> http_request \<Rightarrow> string \<Rightarrow> bool" where
  "same_origin L r origin = (case parse_url L origin of
      None \<Rightarrow> False
    | Some u \<Rightarrow>
        (if url_opaque u \<noteq> '''' \<or> url_user u \<noteq> None \<or> url_path u \<noteq> '''' \<or> url_raw_query u \<noteq> '''' \<or> url_fragment u \<noteq> ''''
         then False
         else url_scheme u = (if rq_tls r then ''https'' else ''http'') \<and> url_host u \<noteq> '''' \<and> equal_fold (url_host u) (rq_host r)))"

definition local_write_barrier :: "http_lib \<Rightarrow> http_request \<Rightarrow> api_error option" where
  "local_write_barrier L r =
     (let refuse = refused 403 code_forbidden; origins = rq_header r ''Origin'';
          site = header_get r ''Sec-Fetch-Site''; mode = header_get r ''Sec-Fetch-Mode''; dest = header_get r ''Sec-Fetch-Dest''
      in if media_type L (header_get r ''Content-Type'') \<noteq> Some ''application/json''
         then refuse ''a tokenless mode change must be sent as application/json''
         else if 1 < length origins then refuse ''request refused: more than one Origin header''
         else if origins = [] then
           (if site \<noteq> '''' \<or> mode \<noteq> '''' \<or> dest \<noteq> '''' then refuse ''request refused: a browser request without an Origin''
            else None)
         else if \<not> same_origin L r (hd origins) then refuse ''request refused: it comes from a different origin than this page''
         else if site \<noteq> '''' \<and> site \<noteq> ''same-origin'' then refuse ''request refused: it was not made by a page served from this listener''
         else if mode \<noteq> '''' \<and> mode \<noteq> ''cors'' \<and> mode \<noteq> ''same-origin'' then refuse ''request refused: unexpected request mode''
         else if dest \<noteq> '''' \<and> dest \<noteq> ''empty'' then refuse ''request refused: unexpected request destination''
         else None)"

definition authorize ::
  "(string \<Rightarrow> 'd) \<Rightarrow> http_lib \<Rightarrow> 'd authenticator \<Rightarrow> time \<Rightarrow> http_request \<Rightarrow> access \<Rightarrow> bool \<Rightarrow> bool \<Rightarrow> 'd sign_in option
     \<Rightarrow> api_error option \<times> 'd sign_in option" where
  "authorize dg L a now r need agent_ok trust s =
     (if need = AccessLocal then
        (if trusted_loopback r then None
         else refused 403 code_forbidden ''this endpoint is available only on this PC, addressed as localhost or a loopback IP'', s)
      else (case identify dg a now r s of (p, s') \<Rightarrow>
        ((case p of
            PrincipalManagement \<Rightarrow> None
          | PrincipalSession \<Rightarrow> (if trusted_loopback r then None
              else refused 401 code_invalid_token ''a dashboard session works only on this PC; use the management token remotely'')
          | PrincipalAgent \<Rightarrow> (if agent_ok then None
              else refused 403 code_forbidden ''the agent token is not valid for this endpoint'')
          | PrincipalInference \<Rightarrow> refused 403 code_forbidden ''the inference token is not valid for the management API''
          | PrincipalInvalid \<Rightarrow> refused 401 code_invalid_token ''bearer token is not valid''
          | PrincipalNone \<Rightarrow>
              (if need = AccessRead \<and> trust \<and> trusted_loopback r then None
               else if need = AccessModeWrite \<and> trust \<and> trusted_loopback r then local_write_barrier L r
               else if need \<noteq> AccessWrite \<and> trust \<and> from_loopback r
               then refused 401 code_unauthorized ''loopback requests without a token must address the service as localhost or a loopback IP''
               else refused 401 code_unauthorized ''a bearer token is required'')), s')))"

end
