(* ===== verification/Auth_Correct.thy ===== *)
theory Auth_Correct
  imports Auth
begin

text \<open>
  What the access rules grant: the table of principals, what a token that is none of the three files
  can do, and what a request with no token can do.
\<close>

lemma refused_not [simp]: "refused s c m \<noteq> None" "(refused s c m = None) = False"
  by (simp_all add: refused_def)

lemma identify_None_iff: "fst (identify dg a now r s) = PrincipalNone \<longleftrightarrow> bearer r = None"
  by (auto simp: identify_def split: option.splits prod.splits bool.splits)

lemma identify_session:
  "fst (identify dg a now r s) = PrincipalSession \<longleftrightarrow>
     (\<exists>tok si. bearer r = Some tok \<and> s = Some si \<and> dg tok \<noteq> au_management a \<and> dg tok \<noteq> au_agent a
        \<and> dg tok \<noteq> au_inference a \<and> fst (valid_session dg now tok si))"
  by (auto simp: identify_def split: option.splits prod.splits bool.splits)

lemma identify_token:
  assumes "bearer r = Some tok" "dg tok \<noteq> au_management a" "dg tok \<noteq> au_agent a" "dg tok \<noteq> au_inference a"
  shows "fst (identify dg a now r s) \<in> {PrincipalSession, PrincipalInvalid}"
  using assms by (auto simp: identify_def split: option.splits prod.splits bool.splits)

text \<open>What each principal is granted.\<close>

definition grants :: "http_lib \<Rightarrow> http_request \<Rightarrow> access \<Rightarrow> bool \<Rightarrow> bool \<Rightarrow> principal \<Rightarrow> bool" where
  "grants L r need agent_ok trust p \<longleftrightarrow>
     p = PrincipalManagement
     \<or> p = PrincipalSession \<and> trusted_loopback r
     \<or> p = PrincipalAgent \<and> agent_ok
     \<or> p = PrincipalNone \<and> trust \<and> trusted_loopback r
        \<and> (need = AccessRead \<or> need = AccessModeWrite \<and> local_write_barrier L r = None)"

lemma authorize_granted:
  "fst (authorize dg L a now r need agent_ok trust s) = None \<longleftrightarrow>
     (if need = AccessLocal then trusted_loopback r
      else grants L r need agent_ok trust (fst (identify dg a now r s)))"
  by (cases "fst (identify dg a now r s)")
    (auto simp: authorize_def grants_def case_prod_unfold split: principal.splits)

lemma authorize_write:
  "fst (authorize dg L a now r AccessWrite agent_ok trust s) = None \<Longrightarrow>
     fst (identify dg a now r s) = PrincipalManagement
     \<or> fst (identify dg a now r s) = PrincipalSession \<and> trusted_loopback r
     \<or> fst (identify dg a now r s) = PrincipalAgent \<and> agent_ok"
  by (simp add: authorize_granted grants_def)

lemma barrier_same_origin:
  assumes "local_write_barrier L r = None"
  shows "media_type L (header_get r ''Content-Type'') = Some ''application/json''"
    "rq_header r ''Origin'' = [] \<Longrightarrow> header_get r ''Sec-Fetch-Site'' = '''' \<and> header_get r ''Sec-Fetch-Mode'' = '''' \<and> header_get r ''Sec-Fetch-Dest'' = ''''"
    "rq_header r ''Origin'' \<noteq> [] \<Longrightarrow> \<exists>p. rq_header r ''Origin'' = [p] \<and> same_origin L r p
       \<and> header_get r ''Sec-Fetch-Site'' \<in> {'''', ''same-origin''}"
  using assms by (cases "rq_header r ''Origin''";
    cases "tl (rq_header r ''Origin'')"; auto simp: local_write_barrier_def Let_def split: if_splits)+

lemma same_originD:
  "same_origin L r p \<Longrightarrow> \<exists>u. parse_url L p = Some u \<and> url_scheme u = (if rq_tls r then ''https'' else ''http'')
     \<and> equal_fold (url_host u) (rq_host r)"
  by (auto simp: same_origin_def split: option.splits if_splits)

text \<open>C24. A token that is none of the three of the service (as SHA-256 tells texts apart) is let through
  only as a dashboard session: the request comes from a loopback address and addresses the service as
  localhost or a loopback address, and the token was answered less than eight hours before to a
  redemption of a sign-in code that was registered less than a minute before that. A dashboard session
  that has expired or a guessed token opens nothing.\<close>

theorem unknown_token_needs_local_session:
  assumes "sign_run dg s xs" "inj dg"
    and "bearer r = Some tok" "tok \<notin> {tk_management t, tk_agent t, tk_inference t}"
    and "need \<noteq> AccessLocal"
    and "fst (authorize dg L (new_authenticator dg t) now r need agent_ok trust (Some s)) = None"
  shows "trusted_loopback r \<and> (\<exists>t0. issued_at xs tok t0 \<and> now < t0 + 8 * hour)"
proof -
  let ?p = "fst (identify dg (new_authenticator dg t) now r (Some s))"
  have "?p \<in> {PrincipalSession, PrincipalInvalid}"
    using assms(2-4) by (intro identify_token) (auto simp: new_authenticator_def inj_eq)
  moreover have g: "grants L r need agent_ok trust ?p" using assms(5,6) by (simp add: authorize_granted)
  ultimately have p: "?p = PrincipalSession" by (auto simp: grants_def)
  then have "fst (valid_session dg now tok s)" using assms(3) by (auto simp: identify_session)
  then obtain t0 where "issued_at xs tok t0" "now < t0 + session_ttl"
    using session_issued [OF assms(1,2), of now tok] by (cases "valid_session dg now tok s") auto
  then show ?thesis using g p by (auto simp: grants_def session_ttl_def)
qed

definition demo_request :: http_request where
  "demo_request = \<lparr>rq_method = ''GET'', rq_path = ''/api/v1/status'', rq_remote = ''127.0.0.1:50123'', rq_host = ''localhost:8481'',
     rq_tls = False, rq_header = (\<lambda>k. if k = ''Authorization'' then [''Bearer tok''] else []), rq_query = (\<lambda>_. []),
     rq_body = BodyBytes ''''\<rparr>"

definition demo_tokens :: tokens where
  "demo_tokens = \<lparr>tk_management = ''m'', tk_inference = ''i'', tk_agent = ''a''\<rparr>"

definition demo_lib :: http_lib where
  "demo_lib = \<lparr>media_type = Some, parse_url = (\<lambda>_. None)\<rparr>"

lemma unknown_token_needs_local_session_witness:
  "\<exists>xs t0. issued_at xs ''tok'' t0 \<and> 9 < t0 + 8 * hour"
proof -
  obtain xs where r: "sign_run id demo_signed_in xs" using demo_sign_run by blast
  have b: "bearer demo_request = Some ''tok''" by code_simp
  have n: "''tok'' \<notin> {tk_management demo_tokens, tk_agent demo_tokens, tk_inference demo_tokens}"
    by (simp add: demo_tokens_def)
  have a: "fst (authorize id demo_lib (new_authenticator id demo_tokens) 9 demo_request AccessWrite False True (Some demo_signed_in)) = None"
    by code_simp
  show ?thesis
    using unknown_token_needs_local_session [OF r inj_on_id b n _ a] by blast
qed


definition demo_local_write :: http_request where
  "demo_local_write = demo_request\<lparr>rq_method := ''PUT'', rq_path := ''/api/v1/mode'',
     rq_header := (\<lambda>k. if k = ''Content-Type'' then [''application/json''] else [])\<rparr>"

lemma demo_local_write_granted:
  "fst (authorize id demo_lib (new_authenticator id demo_tokens) 9 demo_local_write AccessModeWrite True True None) = None"
  by code_simp


end
