(* ===== verification/Status.thy ===== *)
theory Status
  imports Backend Observe
begin

text \<open>
  Package \<open>internal/controller\<close>, \<open>backend.go\<close>: the status document and its summary; package
  \<open>internal/api\<close>, \<open>types.go\<close> and \<open>owner.go\<close>: the document's parts and its reading for the person at the
  PC. \<open>next_day\<close> is hour \<open>h\<close> of the next calendar day in a zone, as in \<open>requested_until\<close>.
\<close>

record mode_options =
  mo_pause :: "dur list"
  mo_ai_priority :: "dur list"
  mo_until_tomorrow_at :: time

record mode_status =
  ms_mode :: mode
  ms_until :: "time option"
  ms_set_by :: string
  ms_set_at :: time

record profile_status =
  po_active :: string
  po_source :: profile_source
  po_timezone :: string
  po_next_change :: time

record runtime_status =
  rs_pid :: int
  rs_ready :: bool
  rs_model :: string
  rs_active_requests :: int
  rs_oldest_request_sec :: flt
  rs_loaded_at :: "time option"
  rs_last_load_seconds :: flt
  rs_footprint_mib :: int
  rs_crash_count :: int

record gpu_status =
  gs_adapter :: string
  gs_facts :: gpu_facts
  gs_observed_users :: "app_match list"
  gs_top_external :: "app_match list"
  gs_sampled_at :: time
  gs_process_scanned_at :: time
  gs_process_scan_age_ms :: "int option"

record owner_status =
  ow_kind :: string
  ow_severity :: string
  ow_cause :: string
  ow_after :: string
  ow_app :: string
  ow_detail :: string
  ow_yielding :: bool
  ow_return_at :: "time option"
  ow_resume_delay_seconds :: int
  ow_config_fallback :: bool

record status =
  st_time :: time
  st_version :: string
  st_condition :: condition
  st_state :: state
  st_summary :: gotext
  st_mode :: mode_status
  st_profile :: profile_status
  st_runtime :: runtime_status
  st_gpu :: gpu_status
  st_decision :: decision
  st_timers :: timer_status
  st_agent :: agent_status
  st_trigger :: gotext
  st_recent_errors :: "event list"
  st_config_source :: string
  st_config_problem :: string
  st_config_problem_fields :: "field_error list"
  st_mode_options :: mode_options

subsection \<open>The cached next change of the schedule\<close>

definition next_schedule_change :: "env \<Rightarrow> time \<Rightarrow> ctl \<Rightarrow> time \<times> ctl" where
  "next_schedule_change E now c =
     (if cs_sched_cache_valid c \<and> (cs_sched_cache c = 0 \<or> now < cs_sched_cache c)
         \<and> t_sub now (cs_sched_cache_at c) < hour
      then (cs_sched_cache c, c)
      else (let t = next_change (ev_tz E) (cs_cfg c) now
            in (t, c\<lparr>cs_sched_cache := t, cs_sched_cache_at := now, cs_sched_cache_valid := True\<rparr>)))"

subsection \<open>The summary\<close>

definition summary :: "time \<Rightarrow> ctl \<Rightarrow> status \<Rightarrow> gotext" where
  "summary now c s = (case cs_st c of
      Ready \<Rightarrow> lit ''Available: model ready''
    | Busy \<Rightarrow> Sprintf ''Available: serving %d request(s)'' [FInt (rs_active_requests (st_runtime s))]
    | Loading \<Rightarrow> lit ''Available: loading model''
    | Draining \<Rightarrow> Sprintf ''Yielding: %s; finishing active request%s'' [FText (de_reason (st_decision s)),
        FText (case ts_grace_until (st_timers s) of
            None \<Rightarrow> lit '''' | Some u \<Rightarrow> Sprintf '' (%s left)'' [FDur (round_dur second (t_sub u now))])]
    | Preempting \<Rightarrow> lit ''Yielding: stopping the model''
    | _ \<Rightarrow> Sprintf ''Unavailable: %s%s'' [FText (de_reason (st_decision s)),
        FText (case ts_next_load_at (st_timers s) of
            Some t \<Rightarrow> Sprintf ''; next load %s'' [FClock t]
          | None \<Rightarrow> (if de_competing (st_decision s)
              then Sprintf ''; reloads %s after it stops'' [FDur (pf_cooldown (profile_get (cs_cfg c) (de_profile (st_decision s))))]
              else lit ''''))])"

subsection \<open>The owner's reading\<close>

text \<open>The text a formatted value begins with: all of it, unless it prints a number or a time, and then
  what stands before that.\<close>

fun lead_text :: "string \<Rightarrow> farg list \<Rightarrow> string" where
  "lead_text [] as = ''''"
| "lead_text (c # cs) as =
     (if c \<noteq> CHR ''%'' then c # lead_text cs as
      else (case (cs, as) of
          (d # ds, FStr s # r) \<Rightarrow> (if d = CHR ''s'' then s @ lead_text ds r else '''')
        | _ \<Rightarrow> ''''))"

definition reason_lead :: "gotext \<Rightarrow> string" where
  "reason_lead g = (case g of Sprintf f as \<Rightarrow> lead_text f as)"

definition value_lead :: "farg \<Rightarrow> string" where
  "value_lead v = (case v of FStr s \<Rightarrow> s | FText g \<Rightarrow> reason_lead g | _ \<Rightarrow> '''')"

definition evidence_value :: "decision \<Rightarrow> string list \<Rightarrow> string" where
  "evidence_value d names = (case find (\<lambda>e. ev_name e \<in> set names) (de_evidence d) of
      Some e \<Rightarrow> value_lead (ev_value e) | None \<Rightarrow> '''')"

text \<open>\<open>strconv.Atoi\<close> of the printed threshold, zero when it is no number.\<close>

definition evidence_threshold :: "decision \<Rightarrow> string \<Rightarrow> int" where
  "evidence_threshold d name = (case find (\<lambda>e. ev_name e = name) (de_evidence d) of
      Some e \<Rightarrow> (case ev_threshold e of Some (FInt n) \<Rightarrow> n | _ \<Rightarrow> 0)
    | None \<Rightarrow> 0)"

definition game_rule_id :: "string \<Rightarrow> bool" where
  "game_rule_id r = (has_prefix r ''gaming.'' \<or> r \<in> {rule_id RuleFullscreenGPU, rule_id RuleGameProcess, rule_id RuleAmbiguous})"

definition gpu_rule_id :: "string \<Rightarrow> bool" where
  "gpu_rule_id r = (has_prefix r ''contention.'' \<or> r = rule_id RuleSoftContention)"

definition cooldown_after :: "string \<Rightarrow> string" where
  "cooldown_after r = (if game_rule_id r then ''game'' else if gpu_rule_id r then ''gpu_busy''
     else if r = rule_id RuleTemperature then ''heat'' else ''other'')"

definition owner_of :: "string \<Rightarrow> string \<Rightarrow> string \<Rightarrow> owner_status" where
  "owner_of kind sev cause = \<lparr>ow_kind = kind, ow_severity = sev, ow_cause = cause, ow_after = '''', ow_app = '''',
     ow_detail = '''', ow_yielding = False, ow_return_at = None, ow_resume_delay_seconds = 0, ow_config_fallback = False\<rparr>"

definition bad_owner :: "string \<Rightarrow> owner_status \<Rightarrow> owner_status" where
  "bad_owner cause o1 = o1\<lparr>ow_kind := ''problem'', ow_severity := ''problem'', ow_cause := cause\<rparr>"

definition owner_recovery :: "owner_status \<Rightarrow> status \<Rightarrow> string \<Rightarrow> owner_status" where
  "owner_recovery o1 s reason =
     (let o2 = o1\<lparr>ow_return_at := ts_next_load_at (st_timers s)\<rparr> in
      if has_prefix reason ''startup'' then o2\<lparr>ow_cause := ''startup''\<rparr>
      else if has_prefix reason ''resume'' then o2\<lparr>ow_cause := ''resume''\<rparr>
      else if has_prefix reason ''manual drain'' then o2\<lparr>ow_cause := ''drained''\<rparr>
      else if has_prefix reason ''crash'' \<or> has_prefix reason ''kill'' then bad_owner ''crash'' o2
      else if has_prefix reason ''GPU'' \<or> has_prefix reason ''device'' then bad_owner ''gpu_fault'' o2
      else if has_prefix reason ''telemetry recovery'' then o2\<lparr>ow_cause := ''telemetry_recovered''\<rparr>
      else if has_prefix reason ''telemetry'' then bad_owner ''no_gpu_readings'' o2
      else o2\<lparr>ow_cause := ''recovering''\<rparr>)"

definition setup_prefix :: string where
  "setup_prefix = ''Setup required: ''"

definition drop_prefix :: "string \<Rightarrow> string \<Rightarrow> string" where
  "drop_prefix p s = (if has_prefix s p then drop (length p) s else s)"

text \<open>\<open>int(cooldown.Seconds())\<close>: truncated towards zero.\<close>

definition whole_seconds :: "dur \<Rightarrow> int" where
  "whole_seconds d = (let x = dur_seconds d in if 0 \<le> x then \<lfloor>x\<rfloor> else \<lceil>x\<rceil>)"

definition owner_idle :: "status \<Rightarrow> dur \<Rightarrow> owner_status" where
  "owner_idle s cooldown =
     (let d = st_decision s; r = rule_id (de_rule d);
          o1 = (owner_of ''waiting'' ''wait'' '''')\<lparr>ow_yielding := (st_state s = Draining \<or> st_state s = Preempting)\<rparr>;
          timed = (\<lambda>cause. o1\<lparr>ow_cause := cause, ow_return_at := ts_next_load_at (st_timers s)\<rparr>)
      in
      if r = rule_id RuleShutdown then o1\<lparr>ow_cause := ''stopping''\<rparr>
      else if r = rule_id RuleSuspend then o1\<lparr>ow_cause := ''sleeping''\<rparr>
      else if r = rule_id RuleDeviceLost then bad_owner ''gpu_fault'' o1
      else if r = rule_id RuleTemperature then bad_owner ''too_hot'' o1
      else if r = rule_id RuleTelemetryLost \<or> r = rule_id RuleNoTelemetry then bad_owner ''no_gpu_readings'' o1
      else if r = rule_id RuleNoProcessList then bad_owner ''no_process_list'' o1
      else if r = rule_id RuleSetupRequired
      then (bad_owner ''setup'' o1)\<lparr>ow_detail := drop_prefix setup_prefix (reason_lead (de_reason d))\<rparr>
      else if r = rule_id RulePause
      then o1\<lparr>ow_kind := ''paused'', ow_severity := ''paused'', ow_cause := ''paused'', ow_return_at := ts_next_load_at (st_timers s)\<rparr>
      else if gpu_rule_id r then
        (let app = evidence_value d [''process''];
             app' = (if app = '''' then before_sub '' ('' (evidence_value d [''top_external_process'']) else app)
         in o1\<lparr>ow_cause := ''gpu_busy'', ow_app := app', ow_resume_delay_seconds := whole_seconds cooldown\<rparr>)
      else if game_rule_id r
      then o1\<lparr>ow_cause := ''game'', ow_app := evidence_value d [''process'', ''foreground''],
              ow_resume_delay_seconds := whole_seconds cooldown\<rparr>
      else if r = rule_id RuleSuppressed then timed ''suppressed''
      else if r = rule_id RuleCooldown
      then (timed ''cooldown'')\<lparr>ow_after := cooldown_after (evidence_value d [''last_competing_rule''])\<rparr>
      else if r = rule_id RuleVRAMInsufficient then
        (let need = evidence_threshold d ''vram_free_mib''; tot = gf_vram_total_mib (gs_facts (st_gpu s))
         in if 0 < need \<and> 0 < tot \<and> tot < need then bad_owner ''vram_too_small'' o1 else o1\<lparr>ow_cause := ''low_vram''\<rparr>)
      else if r = rule_id RuleRecovery then owner_recovery o1 s (evidence_value d [''recovery_reason''])
      else if r = rule_id RuleRun \<or> r = rule_id RuleAIPriorityRun
      then (if st_state s = Error then bad_owner ''crash'' o1 else o1\<lparr>ow_cause := ''starting''\<rparr>)
      else owner_of ''unknown'' ''unknown'' ''unknown'')"

definition owner_classify :: "status \<Rightarrow> dur \<Rightarrow> owner_status" where
  "owner_classify s cooldown = (case st_state s of
      Ready \<Rightarrow> owner_of ''available'' ''ok'' ''ready''
    | Busy \<Rightarrow> owner_of ''available'' ''ok'' ''busy''
    | Loading \<Rightarrow> owner_of ''starting'' ''ok'' ''loading''
    | _ \<Rightarrow> owner_idle s cooldown)"

definition derive_owner :: "status \<Rightarrow> dur \<Rightarrow> owner_status" where
  "derive_owner s cooldown =
     (let o1 = owner_classify s cooldown in
      if st_config_source s \<noteq> '''' \<and> st_config_source s \<noteq> ''primary''
      then o1\<lparr>ow_config_fallback := True, ow_severity := (if ow_severity o1 = ''ok'' then ''attention'' else ow_severity o1)\<rparr>
      else o1)"

subsection \<open>The document\<close>

text \<open>\<open>filepath.Base\<close> with \<open>/\<close> as the separator.\<close>

definition path_base :: "string \<Rightarrow> string" where
  "path_base s = (if s = '''' then ''.''
     else (let t = rev (dropWhile (\<lambda>c. c = CHR ''/'') (rev s)) in if t = '''' then ''/'' else base_name t))"

definition mode_status_of :: "ctl \<Rightarrow> mode_status" where
  "mode_status_of c = \<lparr>ms_mode = mf_mode (cs_mode c), ms_until = mf_until (cs_mode c), ms_set_by = mf_set_by (cs_mode c),
     ms_set_at = cs_mode_set_at c\<rparr>"

definition runtime_status_of :: "time \<Rightarrow> ctl \<Rightarrow> runtime_status" where
  "runtime_status_of now c = (case active_requests now (cs_gate c) of (n, oldest) \<Rightarrow>
     \<lparr>rs_pid = (case cs_inst c of Some i \<Rightarrow> in_pid i | None \<Rightarrow> 0),
      rs_ready = admitting (cs_st c),
      rs_model = path_base (replace_char (CHR 0x5C) CHR ''/'' (rt_model_path (cf_runtime (cs_cfg c)))),
      rs_active_requests = int n, rs_oldest_request_sec = dur_seconds oldest,
      rs_loaded_at = (if admitting (cs_st c) \<and> cs_loaded_at c \<noteq> 0 then Some (cs_loaded_at c) else None),
      rs_last_load_seconds = cs_last_load_s c, rs_footprint_mib = cs_footprint c, rs_crash_count = cs_crash_count c\<rparr>)"

definition gpu_status_of :: "time \<Rightarrow> ctl \<Rightarrow> gpu_status" where
  "gpu_status_of now c =
     (let known = (cs_procs_ok c \<and> cs_last_proc_scan c \<noteq> 0) in
      \<lparr>gs_adapter = sm_adapter_name (cs_sample c), gs_facts = cs_gpu c,
       gs_observed_users = af_observed_gpu_users (cs_apps c), gs_top_external = top_external (cs_apps c),
       gs_sampled_at = sm_time (cs_sample c),
       gs_process_scanned_at = (if known then cs_last_proc_scan c else 0),
       gs_process_scan_age_ms = (if known then Some (max (milliseconds (t_sub now (cs_last_proc_scan c))) 0) else None)\<rparr>)"

text \<open>The document, the owner's reading of it, and the controller with its schedule cache refreshed.\<close>

definition status_of ::
  "(time \<Rightarrow> string \<Rightarrow> int \<Rightarrow> time) \<Rightarrow> deps \<Rightarrow> env \<Rightarrow> fact_source option \<Rightarrow> ctl \<Rightarrow> (status \<times> owner_status) \<times> ctl" where
  "status_of next_day D E facts c =
     (let now = ev_now E; d = cs_decision c; cfg = cs_cfg c;
          (name, src) = active_profile E now c;
          (change, c1) = (if mf_mode (cs_mode c) \<noteq> ModeAIPriority then next_schedule_change E now c else (0, c));
          s = \<lparr>st_time = now, st_version = dp_version D, st_condition = condition_of (cs_st c), st_state = cs_st c,
               st_summary = lit '''', st_mode = mode_status_of c,
               st_profile = \<lparr>po_active = name, po_source = src, po_timezone = cf_timezone cfg, po_next_change = change\<rparr>,
               st_runtime = runtime_status_of now c, st_gpu = gpu_status_of now c, st_decision = d,
               st_timers = timer_status_of now d c,
               st_agent = (case facts of Some f \<Rightarrow> agent_status_at now (sg_session_stale_after (cf_signals cfg)) f
                 | None \<Rightarrow> \<lparr>as_connected = False, as_last_report = 0, as_session_id = 0\<rparr>),
               st_trigger = trigger d, st_recent_errors = cs_recent_errors c,
               st_config_source = cs_cfg_source c, st_config_problem = cs_cfg_problem c,
               st_config_problem_fields = cs_cfg_problem_fields c,
               st_mode_options = \<lparr>mo_pause = md_pause_durations (cf_modes cfg),
                 mo_ai_priority = md_ai_priority_durations (cf_modes cfg),
                 mo_until_tomorrow_at = next_day now (cf_timezone cfg) 8\<rparr>\<rparr>;
          s1 = s\<lparr>st_summary := summary now c s\<rparr>
      in ((s1, derive_owner s1 (pf_cooldown (profile_get cfg (de_profile d)))), c1))"

end
