(* ===== verification/Status_Correct.thy ===== *)
theory Status_Correct
  imports Status System
begin

text \<open>
  What the status document shows: the cached change of the schedule is the one a fresh scan finds, and
  the owner's reading of a decision of the policy is never a guess.
\<close>

subsection \<open>The rules of the policy\<close>

definition known_rule :: "rule \<Rightarrow> bool" where
  "known_rule r = (case r of OtherRule _ \<Rightarrow> False | _ \<Rightarrow> True)"

lemma safety_known: "m \<in> set (safety_rules e) \<Longrightarrow> known_rule (mt_rule m)"
  by (auto simp: rule_list_defs known_rule_def split: option.splits if_splits)

lemma critical_known: "m \<in> set (critical_rules e) \<Longrightarrow> known_rule (mt_rule m)"
  by (auto simp: rule_list_defs known_rule_def split: if_splits)

lemma gaming_known: "m \<in> set (gaming_rules e) \<Longrightarrow> known_rule (mt_rule m)"
  by (auto simp: gaming_rules_def Let_def fullscreen_rules_def competing_match_def known_rule_def
      split: if_splits dest!: game_rules_form launcher_child_rules_form)

lemma soft_known: "soft_contention e = Some m \<Longrightarrow> known_rule (mt_rule m)"
  by (auto simp: soft_contention_def Let_def competing_match_def known_rule_def split: if_splits)

lemma profile_known: "m \<in> set (profile_rules e) \<Longrightarrow> known_rule (mt_rule m)"
  unfolding profile_rules_def Let_def set_append Un_iff
proof (elim disjE, goal_cases)
  case 1
  then show ?case by (auto simp: competing_match_def known_rule_def split: if_splits list.splits)
next
  case 2
  then show ?case by (auto simp: competing_match_def known_rule_def split: if_splits list.splits)
next
  case 3
  then obtain m' where "soft_contention e = Some m'" "m = m'\<lparr>mt_tier := el_profile_tier e\<rparr>"
    using set_retiered by blast
  then show ?case using soft_known by simp
qed

lemma pause_known: "m \<in> set (pause_rules e) \<Longrightarrow> known_rule (mt_rule m)"
  by (auto simp: pause_rules_def Let_def known_rule_def split: if_splits)

lemma eligibility_known: "eligibility e = Some g \<Longrightarrow> known_rule (mt_rule g)"
  by (auto simp: eligibility_def Let_def hold_match_def known_rule_def split: if_splits)

lemma run_known: "known_rule (mt_rule (run_match e))"
  by (simp add: run_match_def known_rule_def)

lemma winner_known: "known_rule (mt_rule (winner e))"
proof (cases "yield_rules e")
  case Nil
  then show ?thesis using eligibility_known run_known by (auto simp: winner_Nil split: option.splits)
next
  case (Cons m ms)
  from hd_yield_rules [OF Cons] show ?thesis
    unfolding winner_Cons [OF Cons]
    using safety_known pause_known critical_known gaming_known profile_known by blast
qed

lemma evaluate_known: "known_rule (de_rule (evaluate tz s cfg))"
  by (simp add: evaluate_simps winner_known)

subsection \<open>The owner's reading\<close>

definition owner_kinds :: "string set" where
  "owner_kinds = {''available'', ''starting'', ''waiting'', ''paused'', ''problem''}"

lemma owner_recovery_facts:
  assumes "ow_kind o1 = ''waiting''"
  shows "ow_kind (owner_recovery o1 s r) \<in> {''waiting'', ''problem''}"
    "ow_yielding (owner_recovery o1 s r) = ow_yielding o1"
    "ow_return_at (owner_recovery o1 s r) = ts_next_load_at (st_timers s)"
  using assms by (auto simp: owner_recovery_def bad_owner_def Let_def)

lemma owner_idle_kind:
  assumes "known_rule (de_rule (st_decision s))"
  shows "ow_kind (owner_idle s cd) \<in> {''waiting'', ''paused'', ''problem''}"
proof (cases "de_rule (st_decision s) = RuleRecovery")
  case True
  then show ?thesis
    by (simp add: owner_idle_def owner_recovery_def bad_owner_def Let_def owner_of_def gpu_rule_id_def game_rule_id_def has_prefix_def)
next
  case False
  then show ?thesis using assms
    by (cases "de_rule (st_decision s)")
      (simp_all add: owner_idle_def Let_def owner_of_def bad_owner_def gpu_rule_id_def game_rule_id_def has_prefix_def known_rule_def)
qed

lemma owner_idle_yielding:
  assumes "known_rule (de_rule (st_decision s))"
  shows "ow_yielding (owner_idle s cd) \<longleftrightarrow> st_state s = Draining \<or> st_state s = Preempting"
proof (cases "de_rule (st_decision s) = RuleRecovery")
  case True
  then show ?thesis using owner_recovery_facts(2)
    by (simp add: owner_idle_def Let_def owner_of_def gpu_rule_id_def game_rule_id_def has_prefix_def)
next
  case False
  then show ?thesis using assms
    by (cases "de_rule (st_decision s)")
      (simp_all add: owner_idle_def Let_def owner_of_def bad_owner_def gpu_rule_id_def game_rule_id_def has_prefix_def known_rule_def)
qed

lemma owner_idle_return: "ow_return_at (owner_idle s cd) \<in> {None, ts_next_load_at (st_timers s)}"
proof (cases "de_rule (st_decision s) = RuleRecovery")
  case True
  then show ?thesis using owner_recovery_facts(3)
    by (simp add: owner_idle_def Let_def owner_of_def gpu_rule_id_def game_rule_id_def has_prefix_def)
next
  case False
  have "rule_id (de_rule (st_decision s)) = rule_id RuleRecovery \<Longrightarrow> \<exists>x. de_rule (st_decision s) = OtherRule x"
    using False by (cases "de_rule (st_decision s)") simp_all
  then show ?thesis using owner_recovery_facts(3) [of _ s]
    by (auto simp: owner_idle_def Let_def owner_of_def bad_owner_def)
qed

lemma status_fields:
  assumes "status_of next_day D E facts c = ((s, ow), c')"
  shows "st_state s = cs_st c" "st_decision s = cs_decision c" "st_config_source s = cs_cfg_source c"
    "st_timers s = timer_status_of (ev_now E) (cs_decision c) c" "st_condition s = condition_of (cs_st c)"
    "ow = derive_owner s (pf_cooldown (profile_get (cs_cfg c) (de_profile (cs_decision c))))"
    "rs_ready (st_runtime s) = admitting (cs_st c)"
  using assms by (auto simp: status_of_def Let_def case_prod_unfold runtime_status_of_def)

lemma next_load_future:
  "ts_next_load_at (timer_status_of now d c) = Some t \<Longrightarrow> now < t \<and> t = de_next_load_at d \<and> \<not> runtime_running (cs_st c)"
  by (auto simp: timer_status_of_def Let_def future_def split: if_splits)

text \<open>The owner's reading of the status: for a decision of the policy it is one of the five kinds that
  say something, never \<open>unknown\<close>; AI is called available exactly when the controller admits requests,
  in agreement with the document's own condition; stepping aside is shown exactly while the runtime
  drains or stops; a return time is always ahead, and only shown while no runtime runs; running on
  a fallback configuration is always shown and never with the severity \<open>ok\<close>.\<close>

theorem owner_reads_policy:
  assumes "status_of next_day D E facts c = ((s, ow), c')"
    and "cs_decision c = evaluate tz snap cfg"
  shows "ow_kind ow \<in> owner_kinds
    \<and> (ow_kind ow = ''available'' \<longleftrightarrow> admitting (cs_st c)) \<and> (ow_kind ow = ''available'' \<longrightarrow> st_condition s = Available)
    \<and> (ow_yielding ow \<longleftrightarrow> cs_st c = Draining \<or> cs_st c = Preempting)
    \<and> (\<forall>t. ow_return_at ow = Some t \<longrightarrow> ev_now E < t \<and> \<not> runtime_running (cs_st c))
    \<and> (ow_config_fallback ow \<longleftrightarrow> cs_cfg_source c \<notin> {'''', ''primary''})
    \<and> (ow_config_fallback ow \<longrightarrow> ow_severity ow \<noteq> ''ok'')"
proof -
  note F = status_fields [OF assms(1)]
  define cd where "cd = pf_cooldown (profile_get (cs_cfg c) (de_profile (cs_decision c)))"
  have k: "known_rule (de_rule (st_decision s))" using assms(2) F(2) evaluate_known by simp
  have der: "ow_kind ow = ow_kind (owner_classify s cd)" "ow_yielding ow = ow_yielding (owner_classify s cd)"
    "ow_return_at ow = ow_return_at (owner_classify s cd)"
    "ow_config_fallback ow = (ow_config_fallback (owner_classify s cd) \<or> cs_cfg_source c \<notin> {'''', ''primary''})"
    "cs_cfg_source c \<notin> {'''', ''primary''} \<Longrightarrow> ow_severity ow \<noteq> ''ok''"
    unfolding F(6) cd_def by (auto simp: derive_owner_def Let_def F(3))
  have cases: "owner_classify s cd = (if cs_st c = Ready then owner_of ''available'' ''ok'' ''ready''
     else if cs_st c = Busy then owner_of ''available'' ''ok'' ''busy''
     else if cs_st c = Loading then owner_of ''starting'' ''ok'' ''loading'' else owner_idle s cd)"
    by (cases "cs_st c") (simp_all add: owner_classify_def F(1))
  have nf: "\<not> ow_config_fallback (owner_classify s cd)"
  proof -
    have r: "\<not> ow_config_fallback (owner_recovery o1 s r)" if "\<not> ow_config_fallback o1" for o1 r
      using that by (simp add: owner_recovery_def bad_owner_def Let_def)
    show ?thesis using r by (simp add: cases owner_idle_def owner_of_def bad_owner_def Let_def)
  qed
  have ki: "ow_kind (owner_classify s cd) \<in> owner_kinds"
    "ow_kind (owner_classify s cd) = ''available'' \<longleftrightarrow> admitting (cs_st c)"
    using owner_idle_kind [OF k, of cd] by (auto simp: cases owner_kinds_def owner_of_def admitting_def)
  have yi: "ow_yielding (owner_classify s cd) \<longleftrightarrow> cs_st c = Draining \<or> cs_st c = Preempting"
    using owner_idle_yielding [OF k, of cd] by (auto simp: cases owner_of_def F(1))
  have re: "ev_now E < t \<and> \<not> runtime_running (cs_st c)" if "ow_return_at (owner_classify s cd) = Some t" for t
  proof -
    have "ts_next_load_at (timer_status_of (ev_now E) (cs_decision c) c) = Some t"
      using that owner_idle_return [of s cd] by (auto simp: cases owner_of_def F(4) split: if_splits)
    then show ?thesis using next_load_future by blast
  qed
  have av: "admitting (cs_st c) \<Longrightarrow> st_condition s = Available"
    by (auto simp: F(5) admitting_def condition_of_def)
  show ?thesis using der ki yi re av nf by auto
qed

definition shown_ctl :: ctl where
  "shown_ctl = demo_new
     \<lparr>cs_decision := evaluate (\<lambda>_. None) (quiet_snapshot (100 * hour) Stopped) bare_config\<rparr>"

lemma owner_reads_policy_witness:
  "ow_kind (snd (fst (status_of (\<lambda>_ _ _. 0) demo_deps demo_env None shown_ctl))) \<in> owner_kinds"
proof -
  obtain s ow c' where r: "status_of (\<lambda>_ _ _. 0) demo_deps demo_env None shown_ctl = ((s, ow), c')"
    by (metis surj_pair)
  have "cs_decision shown_ctl = evaluate (\<lambda>_. None) (quiet_snapshot (100 * hour) Stopped) bare_config"
    by (simp add: shown_ctl_def)
  then show ?thesis using owner_reads_policy [OF r] r by simp
qed

text \<open>A decision the policy did not make, such as that of a requested drain or reload, reads as
  \<open>unknown\<close>, and the reading does not say that AI is stepping aside.\<close>

lemma manual_drain_reads_unknown:
  "st_state s = Draining \<Longrightarrow> de_rule (st_decision s) = OtherRule ''manual.drain'' \<Longrightarrow>
     ow_kind (derive_owner s cd) = ''unknown'' \<and> \<not> ow_yielding (derive_owner s cd)"
  by (simp add: derive_owner_def owner_classify_def owner_idle_def Let_def owner_of_def gpu_rule_id_def game_rule_id_def has_prefix_def)

subsection \<open>The cached change of the schedule\<close>

text \<open>The cache holds what a scan at the time it was filled found.\<close>

definition cache_ok :: "tzdb \<Rightarrow> ctl \<Rightarrow> bool" where
  "cache_ok tz c \<longleftrightarrow> (cs_sched_cache_valid c \<longrightarrow>
     0 \<le> cs_sched_cache_at c \<and> cs_sched_cache c = next_change tz (cs_cfg c) (cs_sched_cache_at c))"

text \<open>A zone that tells civil times apart by whole minutes only.\<close>

definition minute_zone :: "zone \<Rightarrow> bool" where
  "minute_zone loc \<longleftrightarrow> (\<forall>t. loc t = loc (truncate_t t minute))"

lemma truncate_facts: "truncate_t t minute \<le> t" "t < truncate_t t minute + minute" "truncate_t t minute mod minute = 0"
  "(truncate_t t minute + minute) mod minute = 0"
  by (simp_all add: truncate_t_def minus_mod_eq_mult_div)

lemma active_minute:
  assumes "tz (cf_timezone cfg) = Some loc" "minute_zone loc"
  shows "active tz cfg (truncate_t t minute) = active tz cfg t"
proof -
  have "loc t = loc (truncate_t t minute)" using assms(2) unfolding minute_zone_def by blast
  then show ?thesis using assms(1) by (simp add: active_def active_in_def)
qed

text \<open>Between the scan and the change it found, and for the eight days when it found none, the active
  profile stays what it was.\<close>

lemma active_between:
  assumes "0 \<le> fill" "fill \<le> now" and z: "tz (cf_timezone cfg) = Some loc" "minute_zone loc"
    and en: "list_ex sc_enabled (cf_schedules cfg)"
    and b: "now < (if next_change tz cfg fill = 0 then fill + 8 * 24 * hour else next_change tz cfg fill)"
  shows "active tz cfg now = active tz cfg fill"
proof -
  note T = truncate_facts [of now]
  show ?thesis
  proof (cases "fill < truncate_t now minute")
    case True
    then have "active tz cfg (truncate_t now minute) = active tz cfg fill"
      using next_change_correct [where tz = tz and c = cfg and loc = loc and now = fill and r = "next_change tz cfg fill", OF assms(1) z(1) en refl] T b by auto
    then show ?thesis by (simp add: active_minute [where tz = tz and cfg = cfg and loc = loc, OF z])
  next
    case False
    have "fill div minute = now div minute"
    proof (rule antisym)
      show "fill div minute \<le> now div minute" using assms(2) by (rule zdiv_mono1) simp
      have "now div minute = truncate_t now minute div minute"
        by (simp add: truncate_t_def minus_mod_eq_mult_div)
      also have "\<dots> \<le> fill div minute" using False by (intro zdiv_mono1) auto
      finally show "now div minute \<le> fill div minute" .
    qed
    then have "truncate_t fill minute = truncate_t now minute" by (simp add: truncate_t_def minus_mod_eq_mult_div)
    then show ?thesis using active_minute [where tz = tz and cfg = cfg and loc = loc and t = fill, OF z] active_minute [where tz = tz and cfg = cfg and loc = loc and t = now, OF z] by simp
  qed
qed

lemma next_change_none:
  "tz (cf_timezone cfg) = None \<or> \<not> list_ex sc_enabled (cf_schedules cfg) \<Longrightarrow> next_change tz cfg now = 0"
  by (auto simp: next_change_def split: option.splits)

lemma next_change_same:
  assumes t: "0 \<le> fill" "fill \<le> now" and z: "tz (cf_timezone cfg) = Some loc" "minute_zone loc"
    and en: "list_ex sc_enabled (cf_schedules cfg)" and r: "next_change tz cfg fill \<noteq> 0" "now < next_change tz cfg fill"
  shows "next_change tz cfg now = next_change tz cfg fill"
proof -
  let ?r = "next_change tz cfg fill" and ?q = "next_change tz cfg now"
  have A: "active tz cfg now = active tz cfg fill" using r by (intro active_between [where tz = tz and cfg = cfg and fill = fill and now = now and loc = loc, OF t z en]) simp
  have R: "?r < fill + 8 * 24 * hour" "?r mod minute = 0" "active tz cfg ?r \<noteq> active tz cfg fill"
    and R0: "\<And>t. fill < t \<Longrightarrow> t mod minute = 0 \<Longrightarrow> t < ?r \<Longrightarrow> active tz cfg t = active tz cfg fill"
    using next_change_correct [where tz = tz and c = cfg and loc = loc and now = fill and r = ?r, OF t(1) z(1) en refl] r(1) by auto
  have n: "0 \<le> now" using t by simp
  note Q = next_change_correct [where tz = tz and c = cfg and loc = loc and now = now and r = ?q, OF n z(1) en refl]
  have q0: "?q \<noteq> 0"
  proof
    assume "?q = 0"
    then have "active tz cfg ?r = active tz cfg now" using Q R(1,2) r(2) t(2) by auto
    then show False using R(3) A by simp
  qed
  have le: "?q \<le> ?r"
  proof (rule ccontr)
    assume "\<not> ?q \<le> ?r"
    then have "active tz cfg ?r = active tz cfg now" using Q R(2) r(2) q0 by auto
    then show False using R(3) A by simp
  qed
  have "\<not> ?q < ?r" using Q q0 R0 [of ?q] A t(2) by auto
  then show ?thesis using le by simp
qed

lemma next_change_far:
  assumes t: "0 \<le> fill" "fill \<le> now" "now < fill + 8 * 24 * hour" and z: "tz (cf_timezone cfg) = Some loc" "minute_zone loc"
    and en: "list_ex sc_enabled (cf_schedules cfg)" and r: "next_change tz cfg fill = 0"
  shows "next_change tz cfg now = 0 \<or> fill + 8 * 24 * hour \<le> next_change tz cfg now"
proof (rule ccontr)
  let ?q = "next_change tz cfg now"
  assume "\<not> ?thesis"
  then have q: "?q \<noteq> 0" "?q < fill + 8 * 24 * hour" by auto
  have A: "active tz cfg now = active tz cfg fill" using t(3) r by (intro active_between [where tz = tz and cfg = cfg and fill = fill and now = now and loc = loc, OF t(1,2) z en]) simp
  have n: "0 \<le> now" using t by simp
  have Q: "now < ?q" "?q mod minute = 0" "active tz cfg ?q \<noteq> active tz cfg now"
    using next_change_correct [where tz = tz and c = cfg and loc = loc and now = now and r = ?q, OF n z(1) en refl] q(1) by auto
  have "active tz cfg ?q = active tz cfg fill"
    using next_change_correct [where tz = tz and c = cfg and loc = loc and now = fill and r = "next_change tz cfg fill", OF t(1) z(1) en refl] Q(1,2) q(2) t(2) r by auto
  then show False using Q(3) A by simp
qed

text \<open>The change of profile a status document announces is the one a fresh scan would find, although it
  is read from a cache for up to an hour; only a change more than eight days less an hour away may be
  missing. The cache stays right. The zone is one that changes its clock at whole minutes.\<close>

theorem schedule_cache_correct:
  assumes "cache_ok (ev_tz E) c" "0 \<le> now" "cs_sched_cache_at c \<le> now"
    and "\<forall>z loc. ev_tz E z = Some loc \<longrightarrow> minute_zone loc"
    and "next_schedule_change E now c = (t, c')"
  shows "cache_ok (ev_tz E) c'
    \<and> (t = next_change (ev_tz E) (cs_cfg c) now
       \<or> t = 0 \<and> now + 8 * 24 * hour - hour < next_change (ev_tz E) (cs_cfg c) now)"
proof -
  let ?tz = "ev_tz E" and ?cfg = "cs_cfg c" and ?at = "cs_sched_cache_at c"
  consider (miss) "c' = c\<lparr>cs_sched_cache := t, cs_sched_cache_at := now, cs_sched_cache_valid := True\<rparr>"
      "t = next_change ?tz ?cfg now"
    | (hit) "c' = c" "cs_sched_cache_valid c" "t = cs_sched_cache c" "t = 0 \<or> now < t" "t_sub now ?at < hour"
  proof (cases "cs_sched_cache_valid c \<and> (cs_sched_cache c = 0 \<or> now < cs_sched_cache c) \<and> t_sub now ?at < hour")
    case True
    then have "(cs_sched_cache c, c) = (t, c')" using assms(5) unfolding next_schedule_change_def by (simp only: if_P)
    then have "t = cs_sched_cache c" "c' = c" by auto
    then show ?thesis using True hit by blast
  next
    case False
    then have "(next_change ?tz ?cfg now, c\<lparr>cs_sched_cache := next_change ?tz ?cfg now, cs_sched_cache_at := now, cs_sched_cache_valid := True\<rparr>) = (t, c')"
      using assms(5) unfolding next_schedule_change_def Let_def by (simp only: if_False)
    then have "t = next_change ?tz ?cfg now" "c' = c\<lparr>cs_sched_cache := t, cs_sched_cache_at := now, cs_sched_cache_valid := True\<rparr>"
      by auto
    then show ?thesis using miss by blast
  qed
  then show ?thesis
  proof cases
    case miss
    then show ?thesis using assms(2) by (simp add: cache_ok_def)
  next
    case hit
    have o: "0 \<le> ?at" "t = next_change ?tz ?cfg ?at" using assms(1) hit(2,3) by (auto simp: cache_ok_def)
    have d: "now - ?at < hour" using hit(5) by (subst (asm) t_sub_less_iff) (auto simp: min_dur_def max_dur_def)
    show ?thesis
    proof (cases "?tz (cf_timezone ?cfg) = None \<or> \<not> list_ex sc_enabled (cf_schedules ?cfg)")
      case True
      then show ?thesis using o(2) assms(1) hit(1) by (simp add: next_change_none)
    next
      case False
      then obtain loc where z: "?tz (cf_timezone ?cfg) = Some loc" "minute_zone loc"
        and en: "list_ex sc_enabled (cf_schedules ?cfg)" using assms(4) by auto
      show ?thesis
      proof (cases "t = 0")
        case True
        then have "next_change ?tz ?cfg now = 0 \<or> ?at + 8 * 24 * hour \<le> next_change ?tz ?cfg now"
          using next_change_far [where tz = ?tz and cfg = ?cfg and loc = loc, OF o(1) assms(3) _ z en] o(2) d by simp
        then show ?thesis using True d assms(1) hit(1) by auto
      next
        case False
        then have "next_change ?tz ?cfg now = t"
          using next_change_same [where tz = ?tz and cfg = ?cfg and loc = loc, OF o(1) assms(3) z en] o(2) hit(4) by auto
        then show ?thesis using assms(1) hit(1) by simp
      qed
    qed
  qed
qed

definition cached_ctl :: ctl where
  "cached_ctl = demo_new\<lparr>cs_cfg := night_config, cs_sched_cache := 22 * hour, cs_sched_cache_at := 22 * hour - 5,
     cs_sched_cache_valid := True\<rparr>"

definition utc_env :: env where
  "utc_env = demo_env\<lparr>ev_tz := (\<lambda>_. Some utc_clock)\<rparr>"

lemma utc_minutes: "minute_zone utc_clock"
proof -
  have d: "truncate_t t minute div minute = t div minute" for t
    by (simp add: truncate_t_def minus_mod_eq_mult_div)
  have e: "x div (k * minute) = x div minute div k" if "0 < k" for x k :: int
    using that by (metis mult.commute zdiv_zmult2_eq less_imp_le)
  have "t div hour = truncate_t t minute div hour" for t
    using e [of 60 t] e [of 60 "truncate_t t minute"] d [of t] by simp
  moreover have "t div (24 * hour) = truncate_t t minute div (24 * hour)" for t
    using e [of 1440 t] e [of 1440 "truncate_t t minute"] d [of t] by simp
  ultimately show ?thesis unfolding minute_zone_def utc_clock_def using d by metis
qed

lemma night_before: "active_in night_config (22 * hour - 5) utc_clock = (cf_default_profile night_config, SrcDefault)"
  by code_simp
lemma night_at: "active_in night_config (22 * hour) utc_clock \<noteq> (cf_default_profile night_config, SrcDefault)"
  by code_simp
lemma night_change: "next_change (\<lambda>_. Some utc_clock) night_config (22 * hour - 5) = 22 * hour"
proof -
  have e: "list_ex sc_enabled (cf_schedules night_config)" by code_simp
  have t: "truncate_t (22 * hour - 5) minute + minute = 22 * hour" by (simp add: truncate_t_def)
  have "next_change (\<lambda>_. Some utc_clock) night_config (22 * hour - 5) =
     next_change_from night_config utc_clock (cf_default_profile night_config, SrcDefault) (22 * hour - 5 + 8 * 24 * hour) (22 * hour)"
    unfolding next_change_def using e t night_before by simp
  also have "\<dots> = 22 * hour" using night_at by (subst next_change_from.simps) simp
  finally show ?thesis .
qed

lemma schedule_cache_correct_witness:
  "fst (next_schedule_change utc_env (22 * hour - 3) cached_ctl) = 22 * hour \<and>
     (22 * hour = next_change (\<lambda>_. Some utc_clock) night_config (22 * hour - 3) \<or> 22 * hour = (0 :: int))"
proof -
  have c: "cache_ok (ev_tz utc_env) cached_ctl" by (simp add: cache_ok_def cached_ctl_def utc_env_def night_change [simplified])
  have r: "next_schedule_change utc_env (22 * hour - 3) cached_ctl = (22 * hour, cached_ctl)"
    by (simp add: next_schedule_change_def cached_ctl_def t_sub_def min_dur_def max_dur_def)
  show ?thesis
    using schedule_cache_correct [OF c _ _ _ r] utc_minutes r by (simp add: cached_ctl_def utc_env_def)
qed

end
