(* ===== verification/Store.thy ===== *)
theory Store
  imports Backend Impact Redact
begin

text \<open>
  Package \<open>internal/store\<close>: the tables of the SQLite database as the SQL statements of the sources use
  them. A table is the list of its rows in the order of its key; an automatic key is one more than the
  largest ever used. A transaction either commits or leaves the database as it was, which is the answer
  \<open>ok\<close> of the database; a body that was encoded decodes to the same value.
\<close>

definition unix_epoch :: time where
  "unix_epoch = 62135596800 * second"

definition unix_seconds :: "time \<Rightarrow> int" where
  "unix_seconds t = (t - unix_epoch) div second"

definition time_of_unix :: "int \<Rightarrow> time" where
  "time_of_unix s = unix_epoch + s * second"

definition unix_ms :: "time \<Rightarrow> int" where
  "unix_ms t = (t - unix_epoch) div millisecond"

subsection \<open>Events\<close>

record event_row =
  sr_id :: int
  sr_time_ms :: int
  sr_event :: event

record event_table =
  tb_rows :: "event_row list"
  tb_seq :: int

definition max_events_limit :: int where
  "max_events_limit = 1001"

definition stamp :: "time \<Rightarrow> event \<Rightarrow> event" where
  "stamp now e = (if ee_time e = 0 then e\<lparr>ee_time := now\<rparr> else e)"

fun insert_events :: "time \<Rightarrow> event list \<Rightarrow> event_table \<Rightarrow> int list \<times> event_table" where
  "insert_events now [] tb = ([], tb)"
| "insert_events now (e # es) tb =
     (let i = tb_seq tb + 1; e' = stamp now e;
          (ids, tb') = insert_events now es
            \<lparr>tb_rows = tb_rows tb @ [\<lparr>sr_id = i, sr_time_ms = unix_ms (ee_time e'), sr_event = e'\<rparr>], tb_seq = i\<rparr>
      in (i # ids, tb'))"

definition append_events :: "bool \<Rightarrow> time \<Rightarrow> event list \<Rightarrow> event_table \<Rightarrow> int list option \<times> event_table" where
  "append_events ok now es tb =
     (if ok then (case insert_events now es tb of (ids, tb') \<Rightarrow> (Some ids, tb')) else (None, tb))"

text \<open>The query of one page. An event type is compared as the text it is stored as.\<close>

record event_query =
  eq_limit :: int
  eq_before_id :: int
  eq_types :: "string list"

definition query_limit :: "int \<Rightarrow> int" where
  "query_limit n = min (if n \<le> 0 then 100 else n) max_events_limit"

definition query_matches :: "(event_type \<Rightarrow> string) \<Rightarrow> event_query \<Rightarrow> event_row \<Rightarrow> bool" where
  "query_matches ty q r = ((0 < eq_before_id q \<longrightarrow> sr_id r < eq_before_id q)
     \<and> (eq_types q \<noteq> [] \<longrightarrow> ty (ee_type (sr_event r)) \<in> set (eq_types q)))"

definition query_events :: "(event_type \<Rightarrow> string) \<Rightarrow> event_query \<Rightarrow> event_table \<Rightarrow> event_row list" where
  "query_events ty q tb = take (nat (query_limit (eq_limit q))) (rev (filter (query_matches ty q) (tb_rows tb)))"

definition prune_by_age :: "time \<Rightarrow> dur \<Rightarrow> event_row list \<Rightarrow> event_row list" where
  "prune_by_age now max_age rows =
     (if 0 < max_age then filter (\<lambda>r. \<not> sr_time_ms r < unix_ms (now - max_age)) rows else rows)"

text \<open>The row at an offset of the rows by descending key, and all that are not newer than it.\<close>

definition prune_by_count :: "int \<Rightarrow> event_row list \<Rightarrow> event_row list" where
  "prune_by_count max_count rows =
     (if 0 < max_count \<and> nat max_count < length rows
      then filter (\<lambda>r. \<not> sr_id r \<le> sr_id (rev rows ! nat max_count)) rows else rows)"

definition prune_events :: "bool \<Rightarrow> time \<Rightarrow> dur \<Rightarrow> int \<Rightarrow> event_table \<Rightarrow> int option \<times> event_table" where
  "prune_events ok now max_age max_count tb =
     (let rows = prune_by_count max_count (prune_by_age now max_age (tb_rows tb))
      in if ok then (Some (int (length (tb_rows tb)) - int (length rows)), tb\<lparr>tb_rows := rows\<rparr>) else (None, tb))"

subsection \<open>The sink\<close>

definition max_batch :: nat where
  "max_batch = 256"

record sink =
  sk_cap :: nat
  sk_queue :: "event list"
  sk_batch :: "event list"
  sk_closed :: bool
  sk_dropped :: nat
  sk_failed :: nat
  sk_table :: event_table

definition new_sink :: "int \<Rightarrow> event_table \<Rightarrow> sink" where
  "new_sink room tb = \<lparr>sk_cap = nat (max room 1), sk_queue = [], sk_batch = [], sk_closed = False, sk_dropped = 0,
     sk_failed = 0, sk_table = tb\<rparr>"

definition sink_emit :: "event \<Rightarrow> sink \<Rightarrow> sink" where
  "sink_emit e s =
     (if sk_closed s \<or> \<not> length (sk_queue s) < sk_cap s then s\<lparr>sk_dropped := sk_dropped s + 1\<rparr>
      else s\<lparr>sk_queue := sk_queue s @ [e]\<rparr>)"

definition sink_close :: "sink \<Rightarrow> sink" where
  "sink_close s = s\<lparr>sk_closed := True\<rparr>"

text \<open>The writer: it takes events while there are some and the batch has room, then writes the batch.\<close>

definition sink_take :: "sink \<Rightarrow> sink option" where
  "sink_take s = (case sk_queue s of
      [] \<Rightarrow> None
    | e # q \<Rightarrow> (if length (sk_batch s) < max_batch then Some (s\<lparr>sk_batch := sk_batch s @ [e], sk_queue := q\<rparr>) else None))"

definition sink_write :: "bool \<Rightarrow> time \<Rightarrow> sink \<Rightarrow> sink option" where
  "sink_write ok now s =
     (if sk_batch s = [] \<or> length (sk_batch s) < max_batch \<and> sk_queue s \<noteq> [] then None
      else Some (case append_events ok now (sk_batch s) (sk_table s) of
          (None, tb) \<Rightarrow> s\<lparr>sk_batch := [], sk_failed := sk_failed s + length (sk_batch s)\<rparr>
        | (Some _, tb) \<Rightarrow> s\<lparr>sk_batch := [], sk_table := tb\<rparr>))"

inductive sink_run :: "sink \<Rightarrow> event list \<Rightarrow> sink \<Rightarrow> bool" where
  run_nil: "sink_run s [] s"
| run_emit: "sink_run s es s1 \<Longrightarrow> sink_run s (es @ [e]) (sink_emit e s1)"
| run_close: "sink_run s es s1 \<Longrightarrow> sink_run s es (sink_close s1)"
| run_take: "sink_run s es s1 \<Longrightarrow> sink_take s1 = Some s2 \<Longrightarrow> sink_run s es s2"
| run_write: "sink_run s es s1 \<Longrightarrow> sink_write ok now s1 = Some s2 \<Longrightarrow> sink_run s es s2"

subsection \<open>Hourly statistics\<close>

record stats =
  hs_loads :: int
  hs_load_total :: flt
  hs_load_max :: flt
  hs_available :: flt
  hs_unavailable :: flt
  hs_drains :: int
  hs_forced :: int
  hs_crashes :: int

definition zero_stats :: stats where
  "zero_stats = \<lparr>hs_loads = 0, hs_load_total = 0, hs_load_max = 0, hs_available = 0, hs_unavailable = 0, hs_drains = 0,
     hs_forced = 0, hs_crashes = 0\<rparr>"

definition load_delta :: "flt \<Rightarrow> stats" where
  "load_delta s = zero_stats\<lparr>hs_loads := 1, hs_load_total := s, hs_load_max := s\<rparr>"

definition hour_key :: "time \<Rightarrow> int" where
  "hour_key t = go_div (unix_seconds t) 3600 * 3600"

definition merge_stats :: "stats \<Rightarrow> stats \<Rightarrow> stats" where
  "merge_stats a d = \<lparr>hs_loads = hs_loads a + hs_loads d, hs_load_total = fadd (hs_load_total a) (hs_load_total d),
     hs_load_max = max (hs_load_max a) (hs_load_max d), hs_available = fadd (hs_available a) (hs_available d),
     hs_unavailable = fadd (hs_unavailable a) (hs_unavailable d), hs_drains = hs_drains a + hs_drains d,
     hs_forced = hs_forced a + hs_forced d, hs_crashes = hs_crashes a + hs_crashes d\<rparr>"

text \<open>Insert a bucket, or add to it: the buckets by ascending hour.\<close>

fun add_stats_at :: "int \<Rightarrow> stats \<Rightarrow> (int \<times> stats) list \<Rightarrow> (int \<times> stats) list" where
  "add_stats_at h d [] = [(h, d)]"
| "add_stats_at h d ((k, a) # xs) =
     (if h < k then (h, d) # (k, a) # xs
      else if h = k then (k, merge_stats a d) # xs
      else (k, a) # add_stats_at h d xs)"

definition add_stats :: "time \<Rightarrow> stats \<Rightarrow> (int \<times> stats) list \<Rightarrow> (int \<times> stats) list" where
  "add_stats t d xs = add_stats_at (hour_key t) d xs"

text \<open>The spans of \<open>AddAvailability\<close>: each ends at the next hour boundary or at the end.\<close>

definition span_end :: "time \<Rightarrow> time \<Rightarrow> time" where
  "span_end t stop = min (time_of_unix (hour_key t + 3600)) stop"

lemma hour_key_next: "t < time_of_unix (hour_key t + 3600)"
proof -
  let ?u = "unix_seconds t"
  have u: "t - unix_epoch < (?u + 1) * second"
    using minus_mod_eq_div_mult [of "t - unix_epoch" second] pos_mod_bound [of second "t - unix_epoch"]
    by (simp add: unix_seconds_def algebra_simps)
  have "?u + 1 \<le> hour_key t + 3600"
  proof (cases "0 \<le> ?u")
    case True
    then have "hour_key t = ?u div 3600 * 3600" by (cases "?u = 0") (simp_all add: hour_key_def go_div_def)
    then show ?thesis using minus_mod_eq_div_mult [of ?u 3600] pos_mod_bound [of 3600 ?u] by linarith
  next
    case False
    then have "hour_key t = - ((- ?u) div 3600 * 3600)" by (simp add: hour_key_def go_div_def)
    then show ?thesis using minus_mod_eq_div_mult [of "- ?u" 3600] pos_mod_sign [of 3600 "- ?u"] by linarith
  qed
  then have "(?u + 1) * second \<le> (hour_key t + 3600) * second" by simp
  then show ?thesis using u by (simp add: time_of_unix_def)
qed

function hour_spans :: "time \<Rightarrow> time \<Rightarrow> (time \<times> time) list" where
  "hour_spans t stop = (if t < stop then (t, span_end t stop) # hour_spans (span_end t stop) stop else [])"
  by pat_completeness auto
termination
  by (relation "measure (\<lambda>(t, stop). nat (stop - t))") (use hour_key_next in \<open>auto simp: span_end_def\<close>)

declare hour_spans.simps [simp del]

definition span_delta :: "bool \<Rightarrow> time \<times> time \<Rightarrow> stats" where
  "span_delta available x =
     (let sec = dur_seconds (t_sub (snd x) (fst x))
      in if available then zero_stats\<lparr>hs_available := sec\<rparr> else zero_stats\<lparr>hs_unavailable := sec\<rparr>)"

definition add_availability :: "bool \<Rightarrow> time \<Rightarrow> time \<Rightarrow> bool \<Rightarrow> (int \<times> stats) list \<Rightarrow> (int \<times> stats) list" where
  "add_availability ok t stop available xs =
     (if ok then fold (\<lambda>x. add_stats (fst x) (span_delta available x)) (hour_spans t stop) xs else xs)"

definition recent_stats :: "time \<Rightarrow> int \<Rightarrow> (int \<times> stats) list \<Rightarrow> (int \<times> stats) list" where
  "recent_stats now n xs =
     (if n \<le> 0 then []
      else filter (\<lambda>(h, _). hour_key now - (n - 1) * 3600 \<le> h \<and> h \<le> hour_key now) xs)"

definition prune_stats :: "time \<Rightarrow> dur \<Rightarrow> (int \<times> stats) list \<Rightarrow> (int \<times> stats) list" where
  "prune_stats now max_age xs =
     (if max_age \<le> 0 then xs else filter (\<lambda>(h, _). \<not> h + 3600 \<le> unix_seconds (now - max_age)) xs)"

subsection \<open>Configuration history\<close>

record config_change =
  cc_id :: int
  cc_time_ms :: int
  cc_actor :: string
  cc_config :: config
  cc_impact :: impact

record change_table =
  ct_rows :: "config_change list"
  ct_seq :: int

definition append_config_change :: "bool \<Rightarrow> time \<Rightarrow> string \<Rightarrow> config \<Rightarrow> impact \<Rightarrow> change_table \<Rightarrow> int option \<times> change_table" where
  "append_config_change ok t actor c im tb =
     (if ok then
        (let i = ct_seq tb + 1 in
         (Some i, \<lparr>ct_rows = ct_rows tb @ [\<lparr>cc_id = i, cc_time_ms = unix_ms t, cc_actor = actor, cc_config = redact c,
            cc_impact = im\<rparr>], ct_seq = i\<rparr>))
      else (None, tb))"

definition config_changes :: "int \<Rightarrow> change_table \<Rightarrow> config_change list" where
  "config_changes limit tb = take (nat (if limit \<le> 0 then 20 else limit)) (rev (ct_rows tb))"

definition max_config_history :: nat where
  "max_config_history = 1000"

definition prune_config_history :: "time \<Rightarrow> dur \<Rightarrow> change_table \<Rightarrow> change_table" where
  "prune_config_history now max_age tb =
     (let cutoff = (if 0 < max_age then unix_ms (now - max_age) else 0);
          old = (\<lambda>r. max_config_history < length (ct_rows tb) \<and> cc_id r \<le> cc_id (rev (ct_rows tb) ! max_config_history))
      in tb\<lparr>ct_rows := filter (\<lambda>r. \<not> (cc_time_ms r < cutoff \<or> old r)) (ct_rows tb)\<rparr>)"

record database =
  db_events :: event_table
  db_stats :: "(int \<times> stats) list"
  db_changes :: change_table
  db_documents :: "string \<rightharpoonup> string"

text \<open>The three prunings in turn; one that fails ends the call.\<close>

definition prune_store :: "bool \<times> bool \<times> bool \<Rightarrow> time \<Rightarrow> retention_cfg \<Rightarrow> database \<Rightarrow> bool \<times> database" where
  "prune_store ok now r db =
     (let age = wrap64 (re_events_days r * (24 * hour)); (ok1, ok2, ok3) = ok in
      case prune_events ok1 now age (re_events_max r) (db_events db) of
        (None, _) \<Rightarrow> (False, db)
      | (Some _, te) \<Rightarrow>
          (let db1 = db\<lparr>db_events := te\<rparr> in
           if \<not> ok2 then (False, db1)
           else (let db2 = db1\<lparr>db_stats := prune_stats now age (db_stats db1)\<rparr> in
                 if \<not> ok3 then (False, db2)
                 else (True, db2\<lparr>db_changes := prune_config_history now age (db_changes db2)\<rparr>))))"

text \<open>\<open>migrate\<close>: each pending migration commits with its version or stops the upgrade; a newer schema is
  refused. \<open>ok i\<close> is whether migration \<open>i\<close> succeeds.\<close>

function migrate_from :: "(nat \<Rightarrow> bool) \<Rightarrow> nat \<Rightarrow> nat \<Rightarrow> nat option \<times> nat" where
  "migrate_from ok n v = (if v < n then (if ok v then migrate_from ok n (v + 1) else (Some (v + 1), v)) else (None, v))"
  by pat_completeness auto
termination by (relation "measure (\<lambda>(ok, n, v). n - v)") auto

declare migrate_from.simps [simp del]

datatype migrate_error = SchemaNewer nat nat | MigrationFailed nat

definition migrate :: "(nat \<Rightarrow> bool) \<Rightarrow> nat \<Rightarrow> nat \<Rightarrow> migrate_error option \<times> nat" where
  "migrate ok n v = (if n < v then (Some (SchemaNewer v n), v)
     else map_prod (map_option MigrationFailed) id (migrate_from ok n v))"

subsection \<open>Documents\<close>

text \<open>\<open>SELECT body\<close> and the upsert of one row, with \<open>encoding/json\<close> as a parameter.\<close>

datatype 'a doc_read = DocNone | DocBad | Doc 'a

definition get_doc :: "(string \<Rightarrow> 'a option) \<Rightarrow> string \<Rightarrow> (string \<rightharpoonup> string) \<Rightarrow> 'a doc_read" where
  "get_doc dec k docs = (case docs k of None \<Rightarrow> DocNone | Some b \<Rightarrow> (case dec b of None \<Rightarrow> DocBad | Some v \<Rightarrow> Doc v))"

definition put_doc :: "('a \<Rightarrow> string) \<Rightarrow> bool \<Rightarrow> string \<Rightarrow> 'a \<Rightarrow> (string \<rightharpoonup> string) \<Rightarrow> bool \<times> (string \<rightharpoonup> string)" where
  "put_doc enc ok k v docs = (if ok then (True, docs(k \<mapsto> enc v)) else (False, docs))"

end
