(* ===== verification/Persister.thy ===== *)
theory Persister
  imports Store Recovery
begin

text \<open>
  Packages \<open>internal/store\<close> (\<open>documents.go\<close>) and \<open>internal/service\<close> (\<open>persister\<close>): the controller's state as
  three documents of the store, and what comes back of it after a restart.
\<close>

record mode_state =
  mst_mode :: mode
  mst_until :: "time option"
  mst_set_by :: string
  mst_set_at :: time
  mst_until_reboot :: bool
  mst_boot_time :: time

record timers_doc =
  td_preemptions :: "time list"
  td_suppressed_at :: time
  td_last_competing_at :: time
  td_last_competing_rule :: rule
  td_crash_count :: int
  td_backoff_attempt :: int
  td_last_crash_at :: time

record runtime_memo =
  rm_footprint_mib :: int
  rm_last_load_seconds :: flt
  rm_measured_at :: time

text \<open>The JSON text of the three documents.\<close>

record doc_codec =
  dc_mode :: "mode_state \<Rightarrow> string"
  dc_mode_of :: "string \<Rightarrow> mode_state option"
  dc_timers :: "timers_doc \<Rightarrow> string"
  dc_timers_of :: "string \<Rightarrow> timers_doc option"
  dc_memo :: "runtime_memo \<Rightarrow> string"
  dc_memo_of :: "string \<Rightarrow> runtime_memo option"

definition key_mode :: string where "key_mode = ''mode''"
definition key_timers :: string where "key_timers = ''timers''"
definition key_runtime :: string where "key_runtime = ''runtime''"

definition mode_doc_of :: "persisted \<Rightarrow> mode_state" where
  "mode_doc_of p = \<lparr>mst_mode = mf_mode (pd_mode p), mst_until = mf_until (pd_mode p), mst_set_by = mf_set_by (pd_mode p),
     mst_set_at = pd_mode_set_at p, mst_until_reboot = pd_until_reboot p, mst_boot_time = 0\<rparr>"

definition timers_doc_of :: "persisted \<Rightarrow> timers_doc" where
  "timers_doc_of p = \<lparr>td_preemptions = tm_preemptions (pd_timers p), td_suppressed_at = tm_suppressed_at (pd_timers p),
     td_last_competing_at = tm_last_competing_at (pd_timers p), td_last_competing_rule = tm_last_competing_rule (pd_timers p),
     td_crash_count = pd_crash_count p, td_backoff_attempt = 0, td_last_crash_at = 0\<rparr>"

definition memo_of :: "time \<Rightarrow> persisted \<Rightarrow> runtime_memo" where
  "memo_of now p = \<lparr>rm_footprint_mib = pd_footprint_mib p, rm_last_load_seconds = pd_last_load_seconds p, rm_measured_at = now\<rparr>"

text \<open>What \<open>encoding/json\<close> documents, on the three documents of a state: a value that was encoded decodes to
  itself.\<close>

definition doc_codec_ok :: "doc_codec \<Rightarrow> time \<Rightarrow> persisted \<Rightarrow> bool" where
  "doc_codec_ok K now p \<longleftrightarrow> dc_mode_of K (dc_mode K (mode_doc_of p)) = Some (mode_doc_of p)
     \<and> dc_timers_of K (dc_timers K (timers_doc_of p)) = Some (timers_doc_of p)
     \<and> dc_memo_of K (dc_memo K (memo_of now p)) = Some (memo_of now p)"

text \<open>Three statements, each of which may fail and ends the call.\<close>

definition save_controller_state ::
  "doc_codec \<Rightarrow> bool \<times> bool \<times> bool \<Rightarrow> time \<Rightarrow> persisted \<Rightarrow> (string \<rightharpoonup> string) \<Rightarrow> bool \<times> (string \<rightharpoonup> string)" where
  "save_controller_state K ok now p docs =
     (let (ok1, ok2, ok3) = ok in
      case put_doc (dc_mode K) ok1 key_mode (mode_doc_of p) docs of
        (False, d1) \<Rightarrow> (False, d1)
      | (True, d1) \<Rightarrow> (case put_doc (dc_timers K) ok2 key_timers (timers_doc_of p) d1 of
            (False, d2) \<Rightarrow> (False, d2)
          | (True, d2) \<Rightarrow> put_doc (dc_memo K) ok3 key_runtime (memo_of now p) d2))"

definition zero_persisted :: persisted where
  "zero_persisted = \<lparr>pd_mode = \<lparr>mf_mode = OtherMode '''', mf_until = None, mf_set_by = ''''\<rparr>, pd_mode_set_at = 0,
     pd_until_reboot = False, pd_boot_time = 0, pd_telemetry_losses = 0, pd_gpu_resets = 0, pd_last_gpu_check = 0,
     pd_timers = zero_timers, pd_crash_count = 0, pd_footprint_mib = 0, pd_last_load_seconds = 0\<rparr>"

definition put_mode_doc :: "mode_state doc_read \<Rightarrow> persisted \<Rightarrow> persisted" where
  "put_mode_doc r p = (case r of Doc m \<Rightarrow> p\<lparr>pd_mode := \<lparr>mf_mode = mst_mode m, mf_until = mst_until m, mf_set_by = mst_set_by m\<rparr>,
     pd_mode_set_at := mst_set_at m, pd_until_reboot := mst_until_reboot m\<rparr> | _ \<Rightarrow> p)"

definition put_timers_doc :: "timers_doc doc_read \<Rightarrow> persisted \<Rightarrow> persisted" where
  "put_timers_doc r p = (case r of Doc t \<Rightarrow> p\<lparr>pd_timers := (pd_timers p)\<lparr>tm_preemptions := td_preemptions t,
       tm_suppressed_at := td_suppressed_at t, tm_last_competing_at := td_last_competing_at t,
       tm_last_competing_rule := td_last_competing_rule t\<rparr>, pd_crash_count := td_crash_count t\<rparr> | _ \<Rightarrow> p)"

definition put_memo_doc :: "runtime_memo doc_read \<Rightarrow> persisted \<Rightarrow> persisted" where
  "put_memo_doc r p = (case r of Doc m \<Rightarrow> p\<lparr>pd_footprint_mib := rm_footprint_mib m,
     pd_last_load_seconds := rm_last_load_seconds m\<rparr> | _ \<Rightarrow> p)"

text \<open>\<open>None\<close> is a document that does not decode; otherwise the state, if there was any document.\<close>

definition load_controller_state :: "doc_codec \<Rightarrow> (string \<rightharpoonup> string) \<Rightarrow> persisted option option" where
  "load_controller_state K docs =
     (let m = get_doc (dc_mode_of K) key_mode docs; t = get_doc (dc_timers_of K) key_timers docs;
          r = get_doc (dc_memo_of K) key_runtime docs
      in if m = DocBad \<or> t = DocBad \<or> r = DocBad then None
         else if m = DocNone \<and> t = DocNone \<and> r = DocNone then Some None
         else Some (Some (put_memo_doc r (put_timers_doc t (put_mode_doc m zero_persisted)))))"

subsection \<open>What survives\<close>

definition survivor :: "persisted \<Rightarrow> persisted" where
  "survivor p = p\<lparr>pd_boot_time := 0, pd_telemetry_losses := 0, pd_gpu_resets := 0, pd_last_gpu_check := 0,
     pd_timers := (pd_timers p)\<lparr>tm_recovery_until := 0, tm_recovery_reason := ''''\<rparr>\<rparr>"

lemma save_writes:
  "save_controller_state K (True, True, True) now p docs =
     (True, docs(key_mode \<mapsto> dc_mode K (mode_doc_of p), key_timers \<mapsto> dc_timers K (timers_doc_of p),
        key_runtime \<mapsto> dc_memo K (memo_of now p)))"
  by (simp add: save_controller_state_def put_doc_def)

lemma load_saved:
  assumes "doc_codec_ok K now p"
  shows "load_controller_state K (docs(key_mode \<mapsto> dc_mode K (mode_doc_of p), key_timers \<mapsto> dc_timers K (timers_doc_of p),
        key_runtime \<mapsto> dc_memo K (memo_of now p))) = Some (Some (survivor p))"
proof -
  have "get_doc (dc_mode_of K) key_mode (docs(key_mode \<mapsto> dc_mode K (mode_doc_of p), key_timers \<mapsto> dc_timers K (timers_doc_of p),
        key_runtime \<mapsto> dc_memo K (memo_of now p))) = Doc (mode_doc_of p)"
    "get_doc (dc_timers_of K) key_timers (docs(key_mode \<mapsto> dc_mode K (mode_doc_of p), key_timers \<mapsto> dc_timers K (timers_doc_of p),
        key_runtime \<mapsto> dc_memo K (memo_of now p))) = Doc (timers_doc_of p)"
    "get_doc (dc_memo_of K) key_runtime (docs(key_mode \<mapsto> dc_mode K (mode_doc_of p), key_timers \<mapsto> dc_timers K (timers_doc_of p),
        key_runtime \<mapsto> dc_memo K (memo_of now p))) = Doc (memo_of now p)"
    using assms by (simp_all add: get_doc_def doc_codec_ok_def key_mode_def key_timers_def key_runtime_def)
  then show ?thesis
    by (simp add: load_controller_state_def Let_def put_mode_doc_def put_timers_doc_def put_memo_doc_def survivor_def
        zero_persisted_def zero_timers_def mode_doc_of_def timers_doc_of_def memo_of_def)
qed

text \<open>What the service's persister brings back of a state it saved: the manual mode, the anti-thrash history,
  the last competing workload, the crash count and the measurements of the last load, whole; but not the
  boot time, the counts of telemetry losses and of driver resets, the time of the last reset check,
  nor the recovery wait and its reason.\<close>

theorem persister_roundtrip:
  assumes "doc_codec_ok K now p" "save_controller_state K ok now p docs = (True, docs')"
  shows "load_controller_state K docs' = Some (Some (p\<lparr>pd_boot_time := 0, pd_telemetry_losses := 0, pd_gpu_resets := 0,
     pd_last_gpu_check := 0, pd_timers := (pd_timers p)\<lparr>tm_recovery_until := 0, tm_recovery_reason := ''''\<rparr>\<rparr>))"
proof -
  have "ok = (True, True, True)"
    using assms(2) by (cases ok) (auto simp: save_controller_state_def put_doc_def split: if_splits)
  then have "docs' = docs(key_mode \<mapsto> dc_mode K (mode_doc_of p), key_timers \<mapsto> dc_timers K (timers_doc_of p),
        key_runtime \<mapsto> dc_memo K (memo_of now p))"
    using assms(2) save_writes by simp
  then show ?thesis using load_saved [OF assms(1)] by (simp add: survivor_def)
qed

definition fixed_codec :: "time \<Rightarrow> persisted \<Rightarrow> doc_codec" where
  "fixed_codec now p = \<lparr>dc_mode = (\<lambda>_. ''m''), dc_mode_of = (\<lambda>_. Some (mode_doc_of p)), dc_timers = (\<lambda>_. ''t''),
     dc_timers_of = (\<lambda>_. Some (timers_doc_of p)), dc_memo = (\<lambda>_. ''r''), dc_memo_of = (\<lambda>_. Some (memo_of now p))\<rparr>"

lemma fixed_codec_ok: "doc_codec_ok (fixed_codec now p) now p"
  by (simp add: doc_codec_ok_def fixed_codec_def)

definition demo_docs :: "string \<rightharpoonup> string" where
  "demo_docs = snd (save_controller_state (fixed_codec 5 demo_persisted) (True, True, True) 5 demo_persisted Map.empty)"

lemma demo_saved: "save_controller_state (fixed_codec 5 demo_persisted) (True, True, True) 5 demo_persisted Map.empty = (True, demo_docs)"
  by (simp add: demo_docs_def save_writes)

theorem persister_roundtrip_witness:
  "\<exists>q. load_controller_state (fixed_codec 5 demo_persisted) demo_docs = Some (Some q) \<and> tm_recovery_until (pd_timers q) = 0
     \<and> pd_gpu_resets q = 0"
  using persister_roundtrip [OF fixed_codec_ok demo_saved] by simp

subsection \<open>A restart through the store\<close>

lemma mode_base [simp]:
  "cs_mode (metric D m c) = cs_mode c" "cs_mode (log_call k c) = cs_mode c" "cs_mode (emit E e c) = cs_mode c"
  by (simp_all add: metric_def log_call_def emit_def Let_def)

lemma mode_wait [simp]: "cs_mode (set_recovery E now d r c) = cs_mode c" "cs_mode (persist D E c) = cs_mode c"
  by (simp_all add: set_recovery_def persist_def log_call_def Let_def)

lemma mode_orphans [simp]: "cs_mode (emit_orphans E now os c) = cs_mode c"
  by (induction os arbitrary: c) simp_all

lemma mode_reconcile [simp]: "cs_mode (reconcile D E now c) = cs_mode c"
  by (simp add: reconcile_def Let_def)

lemma mode_announce [simp]: "cs_mode (announce D E now c) = cs_mode c"
  by (simp add: announce_def Let_def)

lemma mode_restore: "pd_until_reboot p \<Longrightarrow> pd_boot_time p = 0 \<Longrightarrow> cs_mode (restore D E now p c) = cs_mode c"
  by (simp add: restore_def restore_mode_def log_call_def Let_def)

lemma recov_set: "recov (set_recovery E now d r c) = max (recov c) (now + d)"
  by (simp add: set_recovery_def Let_def max_def)



end
