(* ===== verification/Api.thy ===== *)
theory Api
  imports Auth Status Config_Update Store Modelplan
begin

text \<open>
  Package \<open>internal/api\<close>: \<open>handler.go\<close>, \<open>setup.go\<close> and \<open>errors.go\<close>, over the controller, the sign-in codes
  and the fact source. A handler answers a response and the state it leaves; a response keeps its
  document, not its JSON text. The JSON decoder is a parameter that answers how decoding one document
  goes, and whether more follows.
\<close>

definition max_config_body :: int where "max_config_body = 1048576"
definition max_small_body :: int where "max_small_body = 16384"
definition default_events_limit :: int where "default_events_limit = 100"
definition api_max_events_limit :: int where "api_max_events_limit = 1000"
definition max_event_types :: nat where "max_event_types = 64"
definition max_reason_len :: nat where "max_reason_len = 200"
definition max_mode_duration :: dur where "max_mode_duration = 30 * 24 * hour"

text \<open>Error codes beyond those of the access rules.\<close>

definition code_not_found :: string where "code_not_found = ''not_found''"
definition code_method_not_allowed :: string where "code_method_not_allowed = ''method_not_allowed''"
definition code_bad_request :: string where "code_bad_request = ''bad_request''"
definition code_body_too_large :: string where "code_body_too_large = ''body_too_large''"
definition code_invalid_config :: string where "code_invalid_config = ''invalid_config''"
definition code_invalid_mode :: string where "code_invalid_mode = ''invalid_mode''"
definition code_internal :: string where "code_internal = ''internal_error''"
definition code_rejected :: string where "code_rejected = ''rejected''"

subsection \<open>Documents\<close>

record health =
  hl_instance_id :: string
  hl_ok :: bool
  hl_version :: string
  hl_problems :: "gotext list"

record model_file =
  mo_name :: string
  mo_path :: string
  mo_size_bytes :: int
  mo_modified :: time
  mo_architecture :: string

record runtime_install =
  ri_name :: string
  ri_path :: string
  ri_llama_tag :: string
  ri_ollama_version :: string

record store_certificate =
  sc_thumbprint :: string
  sc_subject :: string
  sc_issuer :: string
  sc_dns_names :: "string list"
  sc_not_after :: time
  sc_self_signed :: bool

record setup_info =
  su_data_dir :: string
  su_models_dir :: string
  su_models :: "model_file list"
  su_runtimes :: "runtime_install list"
  su_certificates :: "store_certificate list"
  su_certificates_error :: string

datatype inspect_status = InspectOK | InspectNotFound | InspectUnreadable | InspectNotGGUF | InspectUnsupported
  | InspectInvalid | InspectNotAvailable

record model_inspection =
  in_path :: string
  in_status :: inspect_status
  in_message :: gotext
  in_size_bytes :: int
  in_metadata :: "metadata option"
  in_plan :: "plan option"
  in_gpu_total_mib :: int
  in_compatible_unknown :: bool

datatype payload =
    PError string gotext "field_error list"
  | PHealth health
  | PStatus status owner_status
  | PConfig config string string "field_error list" "field_error list" "impact option"
  | PValid "field_error list"
  | PHistory "history_entry list"
  | PPreview restore_preview
  | PApplications "app_rule list"
  | PEvents "event_row list" int
  | PMode mode_status
  | PAction bool string string gotext
  | PSetup setup_info
  | PInspection model_inspection
  | PRestarting
  | PRegistered time
  | PToken string time
  | PMetrics
  | PEmpty

record response =
  re_status :: int
  re_allow :: string
  re_authenticate :: bool
  re_body :: payload

definition write_json :: "int \<Rightarrow> payload \<Rightarrow> response" where
  "write_json s p = \<lparr>re_status = s, re_allow = '''', re_authenticate = False, re_body = p\<rparr>"

definition write_error :: "int \<Rightarrow> string \<Rightarrow> gotext \<Rightarrow> response" where
  "write_error s c m = write_json s (PError c m [])"

subsection \<open>Request bodies\<close>

datatype json_failure = JsonSyntax int | JsonType string string | JsonUnexpectedEOF | JsonOther string

definition json_err_text :: "json_failure \<Rightarrow> gotext" where
  "json_err_text e = (case e of
      JsonSyntax n \<Rightarrow> Sprintf ''syntax error at offset %d'' [FInt n]
    | JsonType f t \<Rightarrow> Sprintf ''field %q must be %s'' [FStr f, FStr t]
    | JsonUnexpectedEOF \<Rightarrow> lit ''unexpected end of input''
    | JsonOther s \<Rightarrow> Sprintf ''%s'' [FStr (if has_prefix s ''json: unknown field '' then trim_prefix s ''json: '' else s)])"

type_synonym 'a json_decoder = "bool \<Rightarrow> string \<Rightarrow> json_failure + 'a \<times> bool"

definition decode :: "'a json_decoder \<Rightarrow> int \<Rightarrow> 'a \<Rightarrow> http_request \<Rightarrow> bool \<Rightarrow> bool \<Rightarrow> response + 'a" where
  "decode dec limit zero r strict allow_empty = (case rq_body r of
      BodyBroken \<Rightarrow> Inl (write_error 400 code_bad_request (lit ''could not read request body''))
    | BodyBytes b \<Rightarrow>
        (if limit < int (length b)
         then Inl (write_error 413 code_body_too_large (Sprintf ''request body exceeds %d bytes'' [FInt limit]))
         else if trim_space b = '''' then
           (if allow_empty then Inr zero else Inl (write_error 400 code_bad_request (lit ''request body is required'')))
         else (case dec strict b of
             Inl e \<Rightarrow> Inl (write_error 400 code_bad_request (Sprintf ''invalid JSON: %s'' [FText (json_err_text e)]))
           | Inr (v, trailing) \<Rightarrow>
               (if trailing then Inl (write_error 400 code_bad_request (lit ''invalid JSON: trailing data after document''))
                else Inr v))))"

text \<open>A decoded configuration says whether \<open>builtin_rules_seen\<close> was given, a list of applications whether
  it was there at all.\<close>

record json_lib =
  jl_config :: "(config \<times> bool) json_decoder"
  jl_apps :: "app_rule list option json_decoder"
  jl_mode :: "mode_request json_decoder"
  jl_action :: "string json_decoder"
  jl_restore :: "(string \<times> string) json_decoder"
  jl_report :: "agent_report json_decoder"
  jl_code :: "string json_decoder"

subsection \<open>The server\<close>

record 'd api_host =
  ah_digest :: "string \<Rightarrow> 'd"
  ah_lib :: http_lib
  ah_auth :: "'d authenticator"
  ah_json :: json_lib
  ah_parse_duration :: "string \<Rightarrow> dur option"
  ah_next_day :: "time \<Rightarrow> string \<Rightarrow> int \<Rightarrow> time"
  ah_deps :: deps
  ah_platform :: platform
  ah_version :: string
  ah_instance_id :: string
  ah_store_kind :: store_kind
  ah_config_digest :: "config \<Rightarrow> string"
  ah_setup :: "setup_info option"
  ah_inspect :: "(string \<Rightarrow> int \<Rightarrow> model_inspection) option"
  ah_metrics :: bool

text \<open>What the collaborators answer during one request.\<close>

record api_env =
  rx_env :: env
  rx_fresh :: "string \<times> string"
  rx_store :: store_answers
  rx_found :: "string \<Rightarrow> history_config_error + config"
  rx_history :: "load_error + history_entry list"
  rx_file :: "(string \<Rightarrow> file_answer) option"
  rx_events :: "(event_query \<Rightarrow> event_row list option) option"
  rx_random :: "string option"
  rx_restart :: "string option option"
  rx_slot :: bool

record 'd server =
  sv_ctl :: ctl
  sv_sign_in :: "'d sign_in option"
  sv_facts :: "fact_source option"

type_synonym 'd handler = "'d api_host \<Rightarrow> api_env \<Rightarrow> int \<Rightarrow> http_request \<Rightarrow> 'd server \<Rightarrow> response \<times> 'd server"

text \<open>The caller of an audit record.\<close>

definition peer_host :: "http_request \<Rightarrow> string" where
  "peer_host r = (case split_host_port (rq_remote r) of Some (h, _) \<Rightarrow> h | None \<Rightarrow> rq_remote r)"

definition actor :: "http_request \<Rightarrow> string" where
  "actor r = ''api@'' @ peer_host r"

datatype backend_error = BeNotFound | BeConflict | BePrimaryUnusable | BeInvalid "field_error list" | BeOther

definition backend_error_response :: "backend_error \<Rightarrow> response" where
  "backend_error_response e = (case e of
      BeNotFound \<Rightarrow> write_error 404 code_not_found (lit ''configuration version not found'')
    | BeConflict \<Rightarrow> write_error 409 code_rejected (lit ''configuration changed since preview; preview again'')
    | BePrimaryUnusable \<Rightarrow> write_error 409 code_rejected
        (lit ''the saved configuration file is missing or invalid; save a configuration first, then restore'')
    | BeInvalid es \<Rightarrow> write_json 400 (PError code_invalid_config (lit ''configuration is invalid'') es)
    | BeOther \<Rightarrow> write_error 500 code_internal (lit ''internal error; see the service log''))"

definition of_load_error :: "load_error \<Rightarrow> backend_error" where
  "of_load_error e = (case e of InvalidConfig es \<Rightarrow> BeInvalid es | _ \<Rightarrow> BeOther)"

definition of_save_error :: "save_error \<Rightarrow> backend_error" where
  "of_save_error e = (case e of SaveInvalid es \<Rightarrow> BeInvalid es | SaveIO \<Rightarrow> BeOther | SaveHistory l \<Rightarrow> of_load_error l)"

definition of_history_error :: "history_config_error \<Rightarrow> backend_error" where
  "of_history_error e = (case e of ErrHistoryNotFound \<Rightarrow> BeNotFound | HistoryUnreadable l \<Rightarrow> of_load_error l
     | BadVersion l \<Rightarrow> of_load_error l)"

definition of_update_error :: "update_error \<Rightarrow> backend_error" where
  "of_update_error e = (case e of UpdateConflict \<Rightarrow> BeConflict | HistoryUnavailable \<Rightarrow> BeOther
     | UpdateVerify ErrConflict \<Rightarrow> BeConflict | UpdateVerify ErrPrimaryUnusable \<Rightarrow> BePrimaryUnusable
     | UpdateInvalid es \<Rightarrow> BeInvalid es | UpdatePersist s \<Rightarrow> of_save_error s)"

definition of_restore_error :: "restore_error \<Rightarrow> backend_error" where
  "of_restore_error e = (case e of RestoreConflict \<Rightarrow> BeConflict | RestoreUnavailable \<Rightarrow> BeOther
     | RestoreHistory h \<Rightarrow> of_history_error h | RestoreUpdate u \<Rightarrow> of_update_error u)"

subsection \<open>Status and configuration\<close>

definition with_ctl :: "'d server \<Rightarrow> response \<times> ctl \<Rightarrow> response \<times> 'd server" where
  "with_ctl s x = (fst x, s\<lparr>sv_ctl := snd x\<rparr>)"

definition server_status :: "'d api_host \<Rightarrow> api_env \<Rightarrow> 'd server \<Rightarrow> (status \<times> owner_status) \<times> ctl" where
  "server_status H X s = status_of (ah_next_day H) (ah_deps H) (rx_env X) (sv_facts s) (sv_ctl s)"

definition h_health :: "'d handler" where
  "h_health H X limit r s = (case server_status H X s of ((st, _), c) \<Rightarrow>
     (let problems = (if st_config_source st \<noteq> ''primary''
                then [Sprintf ''configuration loaded from %s copy'' [FStr (st_config_source st)]] else [])
            @ (if gf_confidence (gs_facts (st_gpu st)) = ConfidenceNone then [lit ''GPU telemetry unavailable''] else [])
      in with_ctl s (write_json 200 (PHealth \<lparr>hl_instance_id = ah_instance_id H, hl_ok = (problems = []),
           hl_version = ah_version H, hl_problems = problems\<rparr>), c)))"

definition h_status :: "'d handler" where
  "h_status H X limit r s = (case server_status H X s of ((st, ow), c) \<Rightarrow> with_ctl s (write_json 200 (PStatus st ow), c))"

definition h_get_config :: "'d handler" where
  "h_get_config H X limit r s = (case server_status H X s of ((st, _), c) \<Rightarrow>
     with_ctl s (write_json 200 (PConfig (redact (cs_cfg (sv_ctl s))) (cs_cfg_source (sv_ctl s)) (st_config_problem st)
       (st_config_problem_fields st) [] None), c))"

text \<open>The configuration a request asks for: what it leaves out or shows masked comes from the running one.\<close>

definition draft_config :: "config \<times> bool \<Rightarrow> config \<Rightarrow> config" where
  "draft_config d cur = restore_redacted (if snd d then fst d else (fst d)\<lparr>cf_builtin_rules_seen := cf_builtin_rules_seen cur\<rparr>) cur"

definition zero_draft :: "config \<times> bool" where
  "zero_draft = (bare_config, False)"

definition apply_change :: "'d api_host \<Rightarrow> api_env \<Rightarrow> http_request \<Rightarrow> config \<Rightarrow> ctl \<Rightarrow> (update_error + impact \<times> field_error list) \<times> ctl" where
  "apply_change H X r nc c = update_config (rx_env X) (ah_store_kind H) (rx_store X) (rx_fresh X)
     (validate_config (ah_platform H) (rx_file X) nc False c) nc (actor r) '''' '''' c"

definition h_put_config :: "'d handler" where
  "h_put_config H X limit r s = (case decode (jl_config (ah_json H)) limit zero_draft r True False of
      Inl e \<Rightarrow> (e, s)
    | Inr d \<Rightarrow> (case apply_change H X r (draft_config d (cs_cfg (sv_ctl s))) (sv_ctl s) of
        (Inl e, c) \<Rightarrow> with_ctl s (backend_error_response (of_update_error e), c)
      | (Inr (im, warnings), c) \<Rightarrow>
          with_ctl s (write_json 200 (PConfig (redact (cs_cfg c)) (cs_cfg_source c) '''' [] warnings (Some im)), c)))"

definition h_validate_config :: "'d handler" where
  "h_validate_config H X limit r s = (case decode (jl_config (ah_json H)) limit zero_draft r True False of
      Inl e \<Rightarrow> (e, s)
    | Inr d \<Rightarrow> (case validate_config (ah_platform H) (rx_file X) (draft_config d (cs_cfg (sv_ctl s))) False (sv_ctl s) of
        (warnings, errs) \<Rightarrow> (if errs \<noteq> [] then backend_error_response (BeInvalid errs) else write_json 200 (PValid warnings), s)))"

definition h_config_history :: "'d handler" where
  "h_config_history H X limit r s = (if ah_store_kind H \<noteq> HistoryStore then backend_error_response BeOther
     else (case rx_history X of Inl e \<Rightarrow> backend_error_response (of_load_error e) | Inr es \<Rightarrow> write_json 200 (PHistory es)), s)"

definition h_restore_preview :: "'d handler" where
  "h_restore_preview H X limit r s =
     (let i = first_of (rq_query r ''id'') in
      if i = '''' then (write_error 400 code_bad_request (lit ''id is required''), s)
      else with_ctl s (case preview_config_restore (ah_config_digest H) (ah_store_kind H) (fst (rx_fresh X)) (rx_found X i) i (sv_ctl s) of
          (Inl PreviewUnavailable, c) \<Rightarrow> (backend_error_response BeOther, c)
        | (Inl (PreviewHistory e), c) \<Rightarrow> (backend_error_response (of_history_error e), c)
        | (Inr p, c) \<Rightarrow> (write_json 200 (PPreview p), c)))"

definition h_restore_config :: "'d handler" where
  "h_restore_config H X limit r s = (case decode (jl_restore (ah_json H)) limit ('''', '''') r True False of
      Inl e \<Rightarrow> (e, s)
    | Inr (i, revision) \<Rightarrow>
        (if i = '''' \<or> revision = '''' then (write_error 400 code_bad_request (lit ''id and revision are required''), s)
         else with_ctl s (case restore_config (ah_config_digest H) (ah_platform H) (rx_file X) (rx_env X) (ah_store_kind H)
                (rx_store X) (rx_fresh X) (rx_found X i) i revision (actor r) (sv_ctl s) of
             (Inl e, c) \<Rightarrow> (backend_error_response (of_restore_error e), c)
           | (Inr im, c) \<Rightarrow> (write_json 200 (PConfig (redact (cs_cfg c)) (cs_cfg_source c) '''' [] [] (Some im)), c))))"

definition h_get_applications :: "'d handler" where
  "h_get_applications H X limit r s = (write_json 200 (PApplications (cf_applications (cs_cfg (sv_ctl s)))), s)"

definition h_put_applications :: "'d handler" where
  "h_put_applications H X limit r s = (case decode (jl_apps (ah_json H)) limit None r True False of
      Inl e \<Rightarrow> (e, s)
    | Inr None \<Rightarrow> (write_error 400 code_bad_request (Sprintf ''%q is required (use [] for none)'' [FStr ''applications'']), s)
    | Inr (Some rules) \<Rightarrow> (case apply_change H X r ((cs_cfg (sv_ctl s))\<lparr>cf_applications := rules\<rparr>) (sv_ctl s) of
        (Inl e, c) \<Rightarrow> with_ctl s (backend_error_response (of_update_error e), c)
      | (Inr _, c) \<Rightarrow> with_ctl s (write_json 200 (PApplications (cf_applications (cs_cfg c))), c)))"

subsection \<open>Events\<close>

text \<open>A page: one more row than asked for tells whether there is an older one.\<close>

definition positive_int :: "string \<Rightarrow> int option" where
  "positive_int v = (case atoi v of Some n \<Rightarrow> (if n < 1 then None else Some n) | None \<Rightarrow> None)"

definition event_type_filter :: "string list \<Rightarrow> string list" where
  "event_type_filter vs = filter (\<lambda>t. t \<noteq> '''') (map trim_space (concat (map (split_char CHR '','') vs)))"

definition events_page :: "int \<Rightarrow> event_row list \<Rightarrow> event_row list \<times> int" where
  "events_page want evs =
     (if want < int (length evs) then (take (nat want) evs, sr_id (evs ! (nat want - 1))) else (evs, 0))"

definition h_events :: "'d handler" where
  "h_events H X limit r s =
     (let lv = first_of (rq_query r ''limit''); bv = first_of (rq_query r ''before_id'');
          types = event_type_filter (rq_query r ''type'')
      in (if lv \<noteq> '''' \<and> positive_int lv = None then write_error 400 code_bad_request (lit ''limit must be a positive integer'')
          else if bv \<noteq> '''' \<and> positive_int bv = None
          then write_error 400 code_bad_request (lit ''before_id must be a positive integer'')
          else if max_event_types < length types
          then write_error 400 code_bad_request (Sprintf ''at most %d type filters'' [FInt (int max_event_types)])
          else
            (let want = (if lv = '''' then default_events_limit else min (the (positive_int lv)) api_max_events_limit);
                 before = (if bv = '''' then 0 else the (positive_int bv))
             in case rx_events X of
                  None \<Rightarrow> backend_error_response BeOther
                | Some f \<Rightarrow> (case f \<lparr>eq_limit = want + 1, eq_before_id = before, eq_types = types\<rparr> of
                    None \<Rightarrow> backend_error_response BeOther
                  | Some evs \<Rightarrow> (case events_page want evs of (page, next) \<Rightarrow> write_json 200 (PEvents page next)))), s))"

subsection \<open>The manual mode\<close>

text \<open>The reason a duration is refused, or nothing when it is accepted.\<close>

definition valid_duration :: "(string \<Rightarrow> dur option) \<Rightarrow> mode \<Rightarrow> string \<Rightarrow> dur \<Rightarrow> gotext option" where
  "valid_duration parse_dur m d max_ai =
     (if d = '''' then None
      else if d = ''until_reboot'' \<or> d = ''until_tomorrow'' then (if m = ModeAuto then Some (lit ''auto takes no duration'') else None)
      else if m = ModeAuto then Some (lit ''auto takes no duration'')
      else (case parse_dur d of
          None \<Rightarrow> Some (Sprintf ''duration must be a Go duration such as %q or %q, %q, or %q''
             [FStr ''30m'', FStr ''2h'', FStr ''until_reboot'', FStr ''until_tomorrow''])
        | Some v \<Rightarrow>
            (if v \<le> 0 then Some (lit ''duration must be positive'')
             else (let limit = (if m = ModeAIPriority \<and> 0 < max_ai then max_ai else max_mode_duration)
                   in if limit < v then Some (Sprintf ''duration must be at most %s'' [FDur limit]) else None))))"

definition zero_mode_request :: mode_request where
  "zero_mode_request = \<lparr>mr_mode = OtherMode '''', mr_duration = '''', mr_set_by = '''', mr_principal = ''''\<rparr>"

definition mode_request_problem :: "'d api_host \<Rightarrow> config \<Rightarrow> mode_request \<Rightarrow> gotext option" where
  "mode_request_problem H cfg q =
     (if mr_mode q \<notin> {ModeAuto, ModePause, ModeAIPriority}
      then Some (Sprintf ''mode must be %q, %q, or %q'' [FStr ''auto'', FStr ''pause'', FStr ''ai_priority''])
      else (case valid_duration (ah_parse_duration H) (mr_mode q) (mr_duration q) (md_max_ai_priority (cf_modes cfg)) of
          Some m \<Rightarrow> Some m
        | None \<Rightarrow> (if 64 < length (trim_space (mr_set_by q)) then Some (lit ''set_by must be at most 64 characters'') else None)))"

definition api_error_response :: "api_error \<Rightarrow> response" where
  "api_error_response e = (write_error (ae_status e) (ae_code e) (ae_msg e))\<lparr>re_authenticate := (ae_status e = 401)\<rparr>"

definition h_put_mode :: "'d handler" where
  "h_put_mode H X limit r s = (case decode (jl_mode (ah_json H)) limit zero_mode_request r True False of
      Inl e \<Rightarrow> (e, s)
    | Inr q \<Rightarrow> (case mode_request_problem H (cs_cfg (sv_ctl s)) q of
        Some m \<Rightarrow> (write_error 400 code_invalid_mode m, s)
      | None \<Rightarrow>
          (let by = trim_space (mr_set_by q); by' = (if by = '''' then ''api'' else by);
               (p, si) = identify (ah_digest H) (ah_auth H) (ev_now (rx_env X)) r (sv_sign_in s);
               s1 = s\<lparr>sv_sign_in := si\<rparr>
           in if p = PrincipalNone \<and> mr_mode q = ModeAIPriority
              then (api_error_response \<lparr>ae_status = 401, ae_code = code_unauthorized,
                      ae_msg = lit ''AI Priority needs the management or agent token; Pause AI and Auto do not''\<rparr>, s1)
              else with_ctl s1 (case set_mode (ah_parse_duration H) (ah_next_day H) (ah_deps H) (rx_env X)
                     (q\<lparr>mr_set_by := (if p = PrincipalNone then principal_string p else by'), mr_principal := principal_string p\<rparr>)
                     (sv_ctl s1) of
                  (Inl _, c) \<Rightarrow> (backend_error_response BeOther, c)
                | (Inr m, c) \<Rightarrow> (write_json 200 (PMode (mode_status_of c)), c)))))"

subsection \<open>Actions, reports and sign-in\<close>

definition h_action :: "string \<Rightarrow> 'd handler" where
  "h_action name H X limit r s = (case decode (jl_action (ah_json H)) limit '''' r True True of
      Inl e \<Rightarrow> (e, s)
    | Inr given \<Rightarrow>
        (let t = trim_space given; reason = (if t = '''' then ''requested via API'' else t) in
         if max_reason_len < length reason
         then (write_error 400 code_bad_request (Sprintf ''reason must be at most %d characters'' [FInt (int max_reason_len)]), s)
         else with_ctl s (case request_manual (rx_env X) name reason (sv_ctl s) of
             (ErrNotRunning, c) \<Rightarrow> (write_json 200 (PAction False name reason
                (Sprintf ''The AI runtime is not running, so there is nothing to %s. Configuration changes are picked up the next time it loads.''
                   [FStr name])), c)
           | (ManualOk, c) \<Rightarrow> (write_json 202 (PAction True name reason (lit '''')), c))))"

definition zero_report :: agent_report where
  "zero_report = \<lparr>ag_session_id = 0, ag_foreground_pid = 0, ag_foreground_name = '''', ag_foreground_path = '''',
     ag_fullscreen = False, ag_idle_seconds = 0, ag_locked = False\<rparr>"

definition h_agent_report :: "'d handler" where
  "h_agent_report H X limit r s = (case decode (jl_report (ah_json H)) limit zero_report r False False of
      Inl e \<Rightarrow> (e, s)
    | Inr a \<Rightarrow> (write_json 204 PEmpty,
        s\<lparr>sv_facts := map_option (agent_report_received (ev_now (rx_env X)) a) (sv_facts s)\<rparr>))"

definition sign_in_disabled :: response where
  "sign_in_disabled = write_error 404 code_not_found (lit ''sign-in codes are not enabled'')"

definition h_register_sign_in :: "'d handler" where
  "h_register_sign_in H X limit r s = (case sv_sign_in s of
      None \<Rightarrow> (sign_in_disabled, s)
    | Some _ \<Rightarrow> (case identify (ah_digest H) (ah_auth H) (ev_now (rx_env X)) r (sv_sign_in s) of (p, si) \<Rightarrow>
        (if p \<noteq> PrincipalManagement
         then (write_error 403 code_forbidden (lit ''registering a sign-in code needs the management token''), s\<lparr>sv_sign_in := si\<rparr>)
         else (case decode (jl_code (ah_json H)) limit '''' r True False of
             Inl e \<Rightarrow> (e, s\<lparr>sv_sign_in := si\<rparr>)
           | Inr code \<Rightarrow> (case register_code (ah_digest H) (ev_now (rx_env X)) code (the si) of
               (Inl m, si') \<Rightarrow> (write_error 400 code_bad_request (lit m), s\<lparr>sv_sign_in := Some si'\<rparr>)
             | (Inr e, si') \<Rightarrow> (write_json 200 (PRegistered e), s\<lparr>sv_sign_in := Some si'\<rparr>))))))"

definition h_redeem_sign_in :: "'d handler" where
  "h_redeem_sign_in H X limit r s = (case sv_sign_in s of
      None \<Rightarrow> (sign_in_disabled, s)
    | Some si \<Rightarrow>
        (if \<not> has_prefix (to_lower (header_get r ''Content-Type'')) ''application/json''
         then (write_error 415 code_bad_request (lit ''Content-Type must be application/json''), s)
         else (case decode (jl_code (ah_json H)) limit '''' r True False of
             Inl e \<Rightarrow> (e, s)
           | Inr code \<Rightarrow> (case redeem_code (ah_digest H) (ev_now (rx_env X)) code (rx_random X) si of
               (None, si') \<Rightarrow> (write_error 401 code_invalid_token
                   (lit ''sign-in code is not valid or has expired; sign in again from the tray''), s\<lparr>sv_sign_in := Some si'\<rparr>)
             | (Some tok, si') \<Rightarrow> (write_json 200 (PToken tok (ev_now (rx_env X) + session_ttl)), s\<lparr>sv_sign_in := Some si'\<rparr>)))))"

subsection \<open>Setup, metrics and restart\<close>

definition max_inspect_path :: nat where "max_inspect_path = 1024"

definition h_setup :: "'d handler" where
  "h_setup H X limit r s = ((case ah_setup H of
      None \<Rightarrow> write_error 404 code_not_found (lit ''setup information is not available'')
    | Some i \<Rightarrow> write_json 200 (PSetup i)), s)"

definition inspect_context :: "string \<Rightarrow> int option" where
  "inspect_context v = (if v = '''' then Some 0
     else (case atoi v of Some n \<Rightarrow> (if n < 0 \<or> 2 ^ 30 < n then None else Some n) | None \<Rightarrow> None))"

definition h_inspect_model :: "'d handler" where
  "h_inspect_model H X limit r s = ((case ah_inspect H of
      None \<Rightarrow> write_error 404 code_not_found (lit ''model inspection is not available'')
    | Some f \<Rightarrow>
        (let path = first_of (rq_query r ''path'') in
         if path = '''' \<or> max_inspect_path < length path
         then write_error 400 code_bad_request (lit ''path is required and must be under 1024 characters'')
         else (case inspect_context (first_of (rq_query r ''context'')) of
             None \<Rightarrow> write_error 400 code_bad_request (lit ''context must be a whole number of tokens'')
           | Some n \<Rightarrow> (if \<not> rx_slot X
               then write_error 429 code_rejected (lit ''another model is being read; try again in a moment'')
               else write_json 200 (PInspection (f path n)))))), s)"

definition h_restart :: "'d handler" where
  "h_restart H X limit r s = ((case rx_restart X of
      None \<Rightarrow> write_error 404 code_not_found (lit ''restart is not available'')
    | Some (Some e) \<Rightarrow> write_error 409 code_rejected (lit e)
    | Some None \<Rightarrow> write_json 202 PRestarting), s)"

definition h_metrics :: "'d handler" where
  "h_metrics H X limit r s = ((if \<not> ah_metrics H \<or> \<not> cf_metrics_enabled (cs_cfg (sv_ctl s))
      then write_error 404 code_not_found (lit ''metrics are disabled'') else write_json 200 PMetrics), s)"

subsection \<open>Routing\<close>

datatype endpoint = EpHealth | EpStatus | EpGetConfig | EpPutConfig | EpEvents | EpConfigHistory | EpRestorePreview
  | EpRestoreConfig | EpValidateConfig | EpGetApplications | EpPutApplications | EpPutMode | EpDrain | EpReload
  | EpAgentReport | EpSetup | EpInspectModel | EpRestart | EpRegisterSignIn | EpRedeemSignIn | EpMetrics

record route =
  ro_access :: access
  ro_agent :: bool
  ro_limit :: int
  ro_endpoint :: endpoint

definition route_of :: "access \<Rightarrow> bool \<Rightarrow> int \<Rightarrow> endpoint \<Rightarrow> route" where
  "route_of a g l e = \<lparr>ro_access = a, ro_agent = g, ro_limit = l, ro_endpoint = e\<rparr>"

text \<open>Path, and its methods in alphabetical order.\<close>

definition routes :: "(string \<times> (string \<times> route) list) list" where
  "routes =
    [(''/api/v1/health'', [(''GET'', route_of AccessRead True 0 EpHealth)]),
     (''/api/v1/status'', [(''GET'', route_of AccessRead True 0 EpStatus)]),
     (''/api/v1/config'', [(''GET'', route_of AccessRead False 0 EpGetConfig),
        (''PUT'', route_of AccessWrite False max_config_body EpPutConfig)]),
     (''/api/v1/events'', [(''GET'', route_of AccessRead False 0 EpEvents)]),
     (''/api/v1/config/history'', [(''GET'', route_of AccessRead False 0 EpConfigHistory)]),
     (''/api/v1/config/restore-preview'', [(''GET'', route_of AccessRead False 0 EpRestorePreview)]),
     (''/api/v1/config/restore'', [(''POST'', route_of AccessWrite False max_small_body EpRestoreConfig)]),
     (''/api/v1/config/validate'', [(''POST'', route_of AccessWrite False max_config_body EpValidateConfig)]),
     (''/api/v1/applications'', [(''GET'', route_of AccessRead False 0 EpGetApplications),
        (''PUT'', route_of AccessWrite False max_config_body EpPutApplications)]),
     (''/api/v1/mode'', [(''PUT'', route_of AccessModeWrite True max_small_body EpPutMode)]),
     (''/api/v1/drain'', [(''POST'', route_of AccessWrite False max_small_body EpDrain)]),
     (''/api/v1/reload'', [(''POST'', route_of AccessWrite False max_small_body EpReload)]),
     (''/api/v1/agent/report'', [(''POST'', route_of AccessWrite True max_small_body EpAgentReport)]),
     (''/api/v1/setup'', [(''GET'', route_of AccessRead False 0 EpSetup)]),
     (''/api/v1/setup/model'', [(''GET'', route_of AccessRead False 0 EpInspectModel)]),
     (''/api/v1/service/restart'', [(''POST'', route_of AccessWrite False max_small_body EpRestart)]),
     (''/api/v1/signin/codes'', [(''POST'', route_of AccessWrite False max_small_body EpRegisterSignIn)]),
     (''/api/v1/signin/redeem'', [(''POST'', route_of AccessLocal False max_small_body EpRedeemSignIn)]),
     (''/metrics'', [(''GET'', route_of AccessRead False 0 EpMetrics)])]"

fun run_endpoint :: "endpoint \<Rightarrow> 'd handler" where
  "run_endpoint EpHealth = h_health"
| "run_endpoint EpStatus = h_status"
| "run_endpoint EpGetConfig = h_get_config"
| "run_endpoint EpPutConfig = h_put_config"
| "run_endpoint EpEvents = h_events"
| "run_endpoint EpConfigHistory = h_config_history"
| "run_endpoint EpRestorePreview = h_restore_preview"
| "run_endpoint EpRestoreConfig = h_restore_config"
| "run_endpoint EpValidateConfig = h_validate_config"
| "run_endpoint EpGetApplications = h_get_applications"
| "run_endpoint EpPutApplications = h_put_applications"
| "run_endpoint EpPutMode = h_put_mode"
| "run_endpoint EpDrain = h_action ''drain''"
| "run_endpoint EpReload = h_action ''reload''"
| "run_endpoint EpAgentReport = h_agent_report"
| "run_endpoint EpSetup = h_setup"
| "run_endpoint EpInspectModel = h_inspect_model"
| "run_endpoint EpRestart = h_restart"
| "run_endpoint EpRegisterSignIn = h_register_sign_in"
| "run_endpoint EpRedeemSignIn = h_redeem_sign_in"
| "run_endpoint EpMetrics = h_metrics"

definition find_method :: "string \<Rightarrow> (string \<times> route) list \<Rightarrow> route option" where
  "find_method m ms = (case map_of ms m of Some rt \<Rightarrow> Some rt
     | None \<Rightarrow> (if m = ''HEAD'' then map_of ms ''GET'' else None))"

definition serve :: "'d api_host \<Rightarrow> api_env \<Rightarrow> http_request \<Rightarrow> 'd server \<Rightarrow> response \<times> 'd server" where
  "serve H X r s = (case map_of routes (rq_path r) of
      None \<Rightarrow> (write_error 404 code_not_found (lit ''no such endpoint''), s)
    | Some ms \<Rightarrow> (case find_method (rq_method r) ms of
        None \<Rightarrow> ((write_error 405 code_method_not_allowed (lit ''method not allowed''))\<lparr>re_allow := join_with '', '' (map fst ms)\<rparr>, s)
      | Some rt \<Rightarrow> (case authorize (ah_digest H) (ah_lib H) (ah_auth H) (ev_now (rx_env X)) r (ro_access rt) (ro_agent rt)
              (se_loopback_trust (cf_security (cs_cfg (sv_ctl s)))) (sv_sign_in s) of
            (Some e, si) \<Rightarrow> (api_error_response e, s\<lparr>sv_sign_in := si\<rparr>)
          | (None, si) \<Rightarrow> run_endpoint (ro_endpoint rt) H X (if 0 < ro_limit rt then ro_limit rt else max_small_body) r
              (s\<lparr>sv_sign_in := si\<rparr>))))"

subsection \<open>The request log\<close>

datatype log_level = LevelDebug | LevelInfo

definition max_logged_path :: nat where "max_logged_path = 256"

definition log_path :: "http_request \<Rightarrow> string" where
  "log_path r = (if max_logged_path < length (rq_path r) then take max_logged_path (rq_path r) else rq_path r)"

definition request_log_level :: "http_request \<Rightarrow> int \<Rightarrow> log_level" where
  "request_log_level r code =
     (if 400 \<le> code \<or> \<not> loopback_text (peer_host r) then LevelInfo
      else if rq_method r = ''GET'' \<or> rq_method r = ''HEAD'' then LevelDebug
      else if rq_method r = ''POST'' \<and> rq_path r = ''/api/v1/agent/report'' then LevelDebug
      else LevelInfo)"

end
