(* ===== verification/Store_Correct.thy ===== *)
theory Store_Correct
  imports Store
begin

text \<open>
  What the store promises: the sink accounts for every event, keys are never used twice, pruning keeps the
  newest, and the spans of availability tile the time they report.
\<close>

subsection \<open>Appending\<close>

lemma insert_events_rows:
  "\<exists>new. tb_rows (snd (insert_events now es tb)) = tb_rows tb @ new \<and> map sr_event new = map (stamp now) es
     \<and> map sr_id new = fst (insert_events now es tb)"
proof (induction now es tb rule: insert_events.induct)
  case (2 now e es tb)
  define tb' where "tb' = \<lparr>tb_rows = tb_rows tb @ [\<lparr>sr_id = tb_seq tb + 1, sr_time_ms = unix_ms (ee_time (stamp now e)),
    sr_event = stamp now e\<rparr>], tb_seq = tb_seq tb + 1\<rparr>"
  obtain new where n: "tb_rows (snd (insert_events now es tb')) = tb_rows tb' @ new"
    "map sr_event new = map (stamp now) es" "map sr_id new = fst (insert_events now es tb')"
    using "2.IH" [OF refl refl] unfolding tb'_def by blast
  have e: "insert_events now (e # es) tb = ((tb_seq tb + 1) # fst (insert_events now es tb'), snd (insert_events now es tb'))"
    by (simp add: Let_def case_prod_unfold tb'_def)
  show ?case unfolding e using n
    by (intro exI [where x = "\<lparr>sr_id = tb_seq tb + 1, sr_time_ms = unix_ms (ee_time (stamp now e)), sr_event = stamp now e\<rparr> # new"])
      (simp add: tb'_def)
qed simp

lemma stamp_times: "\<forall>e \<in> set es. ee_time e \<noteq> 0 \<Longrightarrow> map (stamp now) es = es"
  by (induction es) (auto simp: stamp_def)

text \<open>Keys ascend and none is beyond the sequence.\<close>

definition table_ok :: "event_table \<Rightarrow> bool" where
  "table_ok tb \<longleftrightarrow> sorted_wrt (<) (map sr_id (tb_rows tb)) \<and> (\<forall>r \<in> set (tb_rows tb). sr_id r \<le> tb_seq tb)"

lemma insert_events_ok:
  "table_ok tb \<Longrightarrow> table_ok (snd (insert_events now es tb)) \<and> tb_seq tb \<le> tb_seq (snd (insert_events now es tb))
     \<and> (\<forall>i \<in> set (fst (insert_events now es tb)). tb_seq tb < i)"
proof (induction now es tb rule: insert_events.induct)
  case (2 now e es tb)
  define tb' where "tb' = \<lparr>tb_rows = tb_rows tb @ [\<lparr>sr_id = tb_seq tb + 1, sr_time_ms = unix_ms (ee_time (stamp now e)),
    sr_event = stamp now e\<rparr>], tb_seq = tb_seq tb + 1\<rparr>"
  have "table_ok tb'" using "2.prems" by (fastforce simp: table_ok_def tb'_def sorted_wrt_append)
  then have n: "table_ok (snd (insert_events now es tb'))" "tb_seq tb' \<le> tb_seq (snd (insert_events now es tb'))"
    "\<forall>i \<in> set (fst (insert_events now es tb')). tb_seq tb' < i"
    using "2.IH" [OF refl refl] unfolding tb'_def by blast+
  have e: "insert_events now (e # es) tb = ((tb_seq tb + 1) # fst (insert_events now es tb'), snd (insert_events now es tb'))"
    by (simp add: Let_def case_prod_unfold tb'_def)
  show ?case unfolding e using n by (auto simp: tb'_def)
qed simp

subsection \<open>The sink\<close>

definition sink_ok :: "event_table \<Rightarrow> event list \<Rightarrow> sink \<Rightarrow> bool" where
  "sink_ok tb es s \<longleftrightarrow> (\<exists>new. tb_rows (sk_table s) = tb_rows tb @ new
     \<and> subseq (map sr_event new @ sk_batch s @ sk_queue s) es
     \<and> length es = length new + sk_failed s + length (sk_batch s) + length (sk_queue s) + sk_dropped s)
     \<and> length (sk_queue s) \<le> sk_cap s \<and> length (sk_batch s) \<le> max_batch"

lemma sink_okI:
  assumes "tb_rows (sk_table s) = tb_rows tb @ new" "subseq (map sr_event new @ sk_batch s @ sk_queue s) es"
    "length es = length new + sk_failed s + length (sk_batch s) + length (sk_queue s) + sk_dropped s"
    "length (sk_queue s) \<le> sk_cap s" "length (sk_batch s) \<le> max_batch"
  shows "sink_ok tb es s"
  using assms unfolding sink_ok_def by blast

lemma sink_emit_ok: "sink_ok tb es s \<Longrightarrow> sink_ok tb (es @ [e]) (sink_emit e s)"
proof -
  assume "sink_ok tb es s"
  then obtain new where n: "tb_rows (sk_table s) = tb_rows tb @ new" "subseq (map sr_event new @ sk_batch s @ sk_queue s) es"
    "length es = length new + sk_failed s + length (sk_batch s) + length (sk_queue s) + sk_dropped s"
    "length (sk_queue s) \<le> sk_cap s" "length (sk_batch s) \<le> max_batch"
    unfolding sink_ok_def by blast
  have "subseq ((map sr_event new @ sk_batch s @ sk_queue s) @ [e]) (es @ [e])"
    using n(2) by (rule list_emb_append_mono) simp
  moreover have "subseq (map sr_event new @ sk_batch s @ sk_queue s) (es @ [e])"
    using n(2) by (rule list_emb_prefix)
  ultimately show ?thesis using n by (intro sink_okI [where new = new]) (auto simp: sink_emit_def)
qed

lemma sink_take_ok: "sink_ok tb es s \<Longrightarrow> sink_take s = Some s' \<Longrightarrow> sink_ok tb es s'"
  unfolding sink_ok_def by (auto simp: sink_take_def split: list.splits if_splits)

lemma subseq_drop_middle: "subseq (xs @ ys @ zs) es \<Longrightarrow> subseq (xs @ zs) es"
  by (rule subseq_order.trans [rotated]) (auto intro: list_emb_append_mono)

lemma sink_write_ok:
  assumes "sink_ok tb es s" "sink_write ok now s = Some s'" "\<forall>e \<in> set es. ee_time e \<noteq> 0"
  shows "sink_ok tb es s'"
proof -
  obtain new where n: "tb_rows (sk_table s) = tb_rows tb @ new" "subseq (map sr_event new @ sk_batch s @ sk_queue s) es"
    "length es = length new + sk_failed s + length (sk_batch s) + length (sk_queue s) + sk_dropped s"
    "length (sk_queue s) \<le> sk_cap s" "length (sk_batch s) \<le> max_batch"
    using assms(1) unfolding sink_ok_def by blast
  show ?thesis
  proof (cases ok)
    case False
    then have "s' = s\<lparr>sk_batch := [], sk_failed := sk_failed s + length (sk_batch s)\<rparr>"
      using assms(2) by (auto simp: sink_write_def append_events_def split: if_splits)
    then show ?thesis using n subseq_drop_middle [OF n(2)] by (intro sink_okI [where new = new]) auto
  next
    case True
    obtain more where m: "tb_rows (snd (insert_events now (sk_batch s) (sk_table s))) = tb_rows (sk_table s) @ more"
      "map sr_event more = map (stamp now) (sk_batch s)"
      using insert_events_rows by blast
    have "set (sk_batch s) \<subseteq> set es" using list_emb_set [OF n(2)] by auto
    then have e: "map sr_event more = sk_batch s" using m(2) stamp_times [of "sk_batch s" now] assms(3) by auto
    have "s' = s\<lparr>sk_batch := [], sk_table := snd (insert_events now (sk_batch s) (sk_table s))\<rparr>"
      using assms(2) True by (auto simp: sink_write_def append_events_def split: if_splits prod.splits)
    moreover have "length more = length (sk_batch s)" using e by (metis length_map)
    ultimately show ?thesis using n m(1) e by (intro sink_okI [where new = "new @ more"]) simp_all
  qed
qed

lemma sink_run_ok: "sink_run s0 es s \<Longrightarrow> s0 = new_sink room tb \<Longrightarrow> \<forall>e \<in> set es. ee_time e \<noteq> 0 \<Longrightarrow> sink_ok tb es s"
proof (induction rule: sink_run.induct)
  case (run_nil s)
  then show ?case by (intro sink_okI [where new = "[]"]) (auto simp: new_sink_def)
next
  case (run_emit s es s1 e)
  then show ?case by (intro sink_emit_ok) auto
next
  case (run_close s es s1)
  then show ?case by (simp add: sink_ok_def sink_close_def)
next
  case (run_take s es s1 s2)
  then show ?case using sink_take_ok by blast
next
  case (run_write s es s1 ok now s2)
  then show ?case using sink_write_ok by blast
qed

text \<open>C16. Every event given to the sink is accounted for, whichever writes fail and however the writer is
  scheduled: it is stored, still waiting, or counted as dropped or failed. What is stored and what
  waits keeps the order of the events, and no more waits than the buffer and one batch hold.\<close>

theorem sink_accounts:
  assumes "sink_run (new_sink room tb) es s" "\<forall>e \<in> set es. ee_time e \<noteq> 0"
  shows "\<exists>new. tb_rows (sk_table s) = tb_rows tb @ new \<and> subseq (map sr_event new @ sk_batch s @ sk_queue s) es
    \<and> length es = length new + length (sk_batch s) + length (sk_queue s) + sk_failed s + sk_dropped s
    \<and> length (sk_queue s) \<le> sk_cap s \<and> length (sk_batch s) \<le> 256"
  using sink_run_ok [OF assms(1) refl assms(2)] by (auto simp: sink_ok_def max_batch_def)

definition demo_event :: event where
  "demo_event = mk_event 1 ServiceStarted NoSeverity (lit '''') []"

definition empty_events :: event_table where
  "empty_events = \<lparr>tb_rows = [], tb_seq = 0\<rparr>"

definition demo_sink :: sink where
  "demo_sink = the (sink_write True 5 (the (sink_take (sink_emit demo_event (sink_emit demo_event (new_sink 1 empty_events))))))"

lemma demo_sink_run: "sink_run (new_sink 1 empty_events) [demo_event, demo_event] demo_sink"
proof -
  let ?s1 = "sink_emit demo_event (sink_emit demo_event (new_sink 1 empty_events))"
  have 1: "sink_run (new_sink 1 empty_events) [demo_event, demo_event] ?s1"
    using run_emit [OF run_emit [OF run_nil]] by simp
  have t: "sink_take ?s1 \<noteq> None" by code_simp
  have w: "sink_write True 5 (the (sink_take ?s1)) \<noteq> None" by code_simp
  show ?thesis unfolding demo_sink_def using run_write [OF run_take [OF 1]] t w by fastforce
qed

theorem sink_accounts_witness:
  "\<exists>new :: event_row list. tb_rows (sk_table demo_sink) = new \<and> 2 = length new + length (sk_batch demo_sink) + length (sk_queue demo_sink)
     + sk_failed demo_sink + sk_dropped demo_sink"
proof -
  have "\<forall>e \<in> set [demo_event, demo_event]. ee_time e \<noteq> 0" by (simp add: demo_event_def mk_event_def)
  then show ?thesis using sink_accounts [OF demo_sink_run] by (auto simp: empty_events_def)
qed

subsection \<open>Pruning\<close>

lemma drop_above:
  assumes "sorted_wrt (<) (map f xs)" "n < length xs"
  shows "filter (\<lambda>r. \<not> (f r :: int) \<le> f (rev xs ! n)) xs = drop (length xs - n) xs"
proof -
  let ?k = "length xs - n"
  have p: "rev xs ! n = xs ! (?k - 1)" using assms(2) by (simp add: rev_nth)
  have lt: "i < j \<Longrightarrow> j < length xs \<Longrightarrow> f (xs ! i) < f (xs ! j)" for i j
    using sorted_wrt_nth_less [OF assms(1), of i j] by simp
  have a: "f x \<le> f (xs ! (?k - 1))" if "x \<in> set (take ?k xs)" for x
  proof -
    obtain i where i: "i < ?k" "i < length xs" "x = xs ! i" using \<open>x \<in> set (take ?k xs)\<close> by (auto simp: in_set_conv_nth)
    show ?thesis
    proof (cases "i = ?k - 1")
      case False
      then have "i < ?k - 1" using i(1) by simp
      then have "f (xs ! i) < f (xs ! (?k - 1))" using assms(2) by (intro lt) simp_all
      then show ?thesis using i(3) by simp
    qed (simp add: i)
  qed
  have b: "f (xs ! (?k - 1)) < f x" if "x \<in> set (drop ?k xs)" for x
  proof -
    obtain i where "i < length xs - ?k" "x = xs ! (?k + i)" using \<open>x \<in> set (drop ?k xs)\<close> by (auto simp: in_set_conv_nth)
    then show ?thesis using lt [of "?k - 1" "?k + i"] assms(2) by simp
  qed
  have "filter (\<lambda>r. \<not> f r \<le> f (xs ! (?k - 1))) (take ?k xs) = []" using a by (simp add: filter_empty_conv)
  moreover have "filter (\<lambda>r. \<not> f r \<le> f (xs ! (?k - 1))) (drop ?k xs) = drop ?k xs"
    using b by (intro filter_True) force
  moreover have "filter (\<lambda>r. \<not> f r \<le> f (xs ! (?k - 1))) xs
      = filter (\<lambda>r. \<not> f r \<le> f (xs ! (?k - 1))) (take ?k xs) @ filter (\<lambda>r. \<not> f r \<le> f (xs ! (?k - 1))) (drop ?k xs)"
    unfolding filter_append [symmetric] append_take_drop_id ..
  ultimately show ?thesis unfolding p by simp
qed

lemma prune_by_count_drop:
  assumes "sorted_wrt (<) (map sr_id xs)"
  shows "prune_by_count k xs = (if 0 < k then drop (length xs - nat k) xs else xs)"
  using drop_above [OF assms, of "nat k"] by (auto simp: prune_by_count_def)

lemma sorted_drop: "sorted_wrt P (map f xs) \<Longrightarrow> sorted_wrt P (map f (drop n xs))"
  by (simp add: drop_map [symmetric] sorted_wrt_drop)

lemma sorted_filter: "sorted_wrt P (map f xs) \<Longrightarrow> sorted_wrt P (map f (filter Q xs))"
  by (induction xs) auto

text \<open>Pruning leaves exactly the newest events: of those not older than the age, the last ones in number,
  in their order; it reports how many rows went. The keys of events appended later are above every key
  the table ever gave out, so no key names two events and paging by key stays valid.\<close>

theorem pruning_keeps_newest:
  assumes "table_ok tb" "prune_events True now max_age k tb = (n, tb')"
    and "insert_events t es tb' = (ids, tb'')"
  shows "tb_rows tb' = (let xs = filter (\<lambda>r. 0 < max_age \<longrightarrow> unix_ms (now - max_age) \<le> sr_time_ms r) (tb_rows tb)
           in if 0 < k then drop (length xs - nat k) xs else xs)
    \<and> n = Some (int (length (tb_rows tb)) - int (length (tb_rows tb')))
    \<and> table_ok tb'' \<and> (\<forall>i \<in> set ids. \<forall>r \<in> set (tb_rows tb). sr_id r < i)"
proof -
  let ?xs = "filter (\<lambda>r. 0 < max_age \<longrightarrow> unix_ms (now - max_age) \<le> sr_time_ms r) (tb_rows tb)"
  have srt: "sorted_wrt (<) (map sr_id (tb_rows tb))" and le: "\<forall>r \<in> set (tb_rows tb). sr_id r \<le> tb_seq tb"
    using assms(1) by (auto simp: table_ok_def)
  have age: "prune_by_age now max_age (tb_rows tb) = ?xs" by (auto simp: prune_by_age_def not_less)
  have rows: "tb_rows tb' = (if 0 < k then drop (length ?xs - nat k) ?xs else ?xs)" and seq: "tb_seq tb' = tb_seq tb"
    and n: "n = Some (int (length (tb_rows tb)) - int (length (tb_rows tb')))"
    using assms(2) prune_by_count_drop [OF sorted_filter [OF srt]] by (auto simp: prune_events_def Let_def age)
  have sub: "set (tb_rows tb') \<subseteq> set (tb_rows tb)"
    unfolding rows by (auto dest: in_set_dropD)
  have "sorted_wrt (<) (map sr_id (tb_rows tb'))"
    unfolding rows using sorted_drop [OF sorted_filter [OF srt]] sorted_filter [OF srt] by simp
  then have ok: "table_ok tb'" using le sub seq by (auto simp: table_ok_def)
  have "table_ok tb''" "\<forall>i \<in> set ids. tb_seq tb' < i" using insert_events_ok [OF ok, of t es] assms(3) by auto
  then show ?thesis using rows n le seq by (fastforce simp: Let_def)
qed

definition two_events :: event_table where
  "two_events = snd (insert_events 5 [demo_event, demo_event] empty_events)"

theorem pruning_keeps_newest_witness:
  "map sr_id (tb_rows (snd (prune_events True 9 0 1 two_events))) = [2] \<and> table_ok (snd (insert_events 7 [demo_event] (snd (prune_events True 9 0 1 two_events))))"
proof -
  have "table_ok empty_events" by (simp add: empty_events_def table_ok_def)
  then have ok: "table_ok two_events" unfolding two_events_def using insert_events_ok by blast
  have m: "map sr_id (tb_rows (snd (prune_events True 9 0 1 two_events))) = [2]" by code_simp
  show ?thesis using pruning_keeps_newest [OF ok prod.collapse [symmetric] prod.collapse [symmetric]] m by blast
qed

subsection \<open>Spans of availability\<close>

fun tiles :: "time \<Rightarrow> time \<Rightarrow> (time \<times> time) list \<Rightarrow> bool" where
  "tiles a b [] = (a = b)"
| "tiles a b ((s, e) # xs) = (s = a \<and> s < e \<and> (\<forall>t. s \<le> t \<and> t < e \<longrightarrow> hour_key t = hour_key s) \<and> tiles e b xs)"

lemma unix_nonneg: "unix_epoch \<le> t \<Longrightarrow> 0 \<le> unix_seconds t"
  by (simp add: unix_seconds_def pos_imp_zdiv_nonneg_iff)

lemma hour_key_nonneg: "0 \<le> unix_seconds t \<Longrightarrow> hour_key t = unix_seconds t div 3600 * 3600"
  by (cases "unix_seconds t = 0") (simp_all add: hour_key_def go_div_def)

lemma same_hour:
  assumes "unix_epoch \<le> s" "s \<le> t" "t < time_of_unix (hour_key s + 3600)"
  shows "hour_key t = hour_key s"
proof -
  have n: "0 \<le> unix_seconds s" "unix_seconds s \<le> unix_seconds t"
    using assms(1,2) unix_nonneg by (auto simp: unix_seconds_def intro: zdiv_mono1)
  have "t - unix_epoch < (hour_key s + 3600) * second" using assms(3) by (simp add: time_of_unix_def)
  moreover have "unix_seconds t * second \<le> t - unix_epoch"
    using minus_mod_eq_div_mult [of "t - unix_epoch" second] pos_mod_sign [of second "t - unix_epoch"]
    unfolding unix_seconds_def by linarith
  ultimately have "unix_seconds t * second < (hour_key s + 3600) * second" by linarith
  then have "unix_seconds t < hour_key s + 3600" by simp
  then have "unix_seconds t div 3600 = unix_seconds s div 3600"
    using n hour_key_nonneg [OF n(1)] zdiv_mono1 [OF n(2), of 3600]
      minus_mod_eq_div_mult [of "unix_seconds t" 3600] pos_mod_sign [of 3600 "unix_seconds t"] by linarith
  then show ?thesis using n by (simp add: hour_key_nonneg)
qed

lemma spans_tile: "unix_epoch \<le> a \<Longrightarrow> a \<le> b \<Longrightarrow> tiles a b (hour_spans a b)"
proof (induction a b rule: hour_spans.induct)
  case (1 t stop)
  show ?case
  proof (cases "t < stop")
    case True
    have e: "t < span_end t stop" "span_end t stop \<le> stop" using True hour_key_next [of t] by (auto simp: span_end_def)
    have "unix_epoch \<le> span_end t stop" using e(1) "1.prems"(1) by linarith
    then have "tiles (span_end t stop) stop (hour_spans (span_end t stop) stop)"
      by (rule "1.IH" [OF True _ e(2)])
    moreover have "hour_key t' = hour_key t" if "t \<le> t'" "t' < span_end t stop" for t'
      by (rule same_hour [OF "1.prems"(1) that(1)]) (use that(2) in \<open>simp add: span_end_def\<close>)
    ultimately have t: "tiles t stop ((t, span_end t stop) # hour_spans (span_end t stop) stop)"
      unfolding tiles.simps using e(1) by blast
    have "hour_spans t stop = (t, span_end t stop) # hour_spans (span_end t stop) stop"
      by (subst hour_spans.simps) (simp only: True if_True)
    then show ?thesis using t by (simp only:)
  next
    case False
    have "hour_spans t stop = []" by (subst hour_spans.simps) (simp only: False if_False)
    then show ?thesis using False "1.prems" by simp
  qed
qed

lemma tiles_sum: "tiles a b xs \<Longrightarrow> (\<Sum>x \<leftarrow> xs. snd x - fst x) = b - a"
  by (induction a b xs rule: tiles.induct) auto

end
