(* ===== verification/Api_Events.thy ===== *)
theory Api_Events
  imports Api Store_Correct
begin

text \<open>
  Paging through the events: the handler of \<open>GET /api/v1/events\<close> and the query of the store together.
  The handler only needs of its reader that it answers the newest matching rows below a key; the
  store's query gives that.
\<close>

text \<open>What a client does: ask for a page, and for the next one until there is none.\<close>

fun walk_pages :: "nat \<Rightarrow> (int \<Rightarrow> event_row list \<times> int) \<Rightarrow> int \<Rightarrow> event_row list" where
  "walk_pages 0 f b = []"
| "walk_pages (Suc n) f b = (case f b of (page, next) \<Rightarrow> page @ (if next = 0 then [] else walk_pages n f next))"

definition below :: "int \<Rightarrow> event_row list \<Rightarrow> event_row list" where
  "below b rows = filter (\<lambda>r. 0 < b \<longrightarrow> sr_id r < b) rows"

text \<open>A reader of a log: its rows, newest first, and what reading some of them below a key answers.\<close>

locale event_reader =
  fixes inv :: "'l \<Rightarrow> bool" and reads :: "'l \<Rightarrow> int \<Rightarrow> int \<Rightarrow> event_row list" and rows :: "'l \<Rightarrow> event_row list"
  assumes newest: "inv l \<Longrightarrow> 0 < n \<Longrightarrow> n \<le> 1001 \<Longrightarrow> reads l n b = take (nat n) (below b (rows l))"
    and descending: "inv l \<Longrightarrow> sorted_wrt (>) (map sr_id (rows l))"
    and positive: "inv l \<Longrightarrow> r \<in> set (rows l) \<Longrightarrow> 0 < sr_id r"
begin

lemma below_rest:
  assumes "inv l" "want < length (below b (rows l))" "0 < want"
  shows "below (sr_id (below b (rows l) ! (want - 1))) (rows l) = drop want (below b (rows l))"
    and "0 < sr_id (below b (rows l) ! (want - 1))"
proof -
  let ?es = "below b (rows l)" and ?k = "sr_id (below b (rows l) ! (want - 1))"
  have srt: "sorted_wrt (>) (map sr_id ?es)" unfolding below_def by (rule sorted_filter [OF descending [OF assms(1)]])
  have gt: "sr_id (?es ! j) < sr_id (?es ! i)" if "i < j" "j < length ?es" for i j
    using sorted_wrt_nth_less [OF srt, of i j] that by simp
  have mem: "?es ! (want - 1) \<in> set ?es" using assms(2,3) by (intro nth_mem) simp
  then show k: "0 < ?k" using positive [OF assms(1)] by (auto simp: below_def)
  have kb: "0 < b \<Longrightarrow> ?k < b" using mem by (auto simp: below_def)
  have "below ?k (rows l) = filter (\<lambda>r. sr_id r < ?k) ?es"
    unfolding below_def filter_filter using k kb by (intro filter_cong) (auto simp: below_def)
  also have "\<dots> = filter (\<lambda>r. sr_id r < ?k) (take want ?es) @ filter (\<lambda>r. sr_id r < ?k) (drop want ?es)"
    unfolding filter_append [symmetric] append_take_drop_id ..
  also have "filter (\<lambda>r. sr_id r < ?k) (take want ?es) = []"
  proof -
    have "\<not> sr_id (?es ! i) < ?k" if "i < want" for i
    proof (cases "i = want - 1")
      case False
      then have "?k < sr_id (?es ! i)" using gt [of i "want - 1"] that assms(2,3) by simp
      then show ?thesis by simp
    qed simp
    then show ?thesis using assms(2) by (auto simp: filter_empty_conv in_set_conv_nth)
  qed
  also have "filter (\<lambda>r. sr_id r < ?k) (drop want ?es) = drop want ?es"
  proof (intro filter_True ballI)
    fix x
    assume "x \<in> set (drop want ?es)"
    then obtain i where "i < length ?es - want" "x = ?es ! (want + i)" by (auto simp: in_set_conv_nth)
    then show "sr_id x < ?k" using gt [of "want - 1" "want + i"] assms(3) by simp
  qed
  finally show "below ?k (rows l) = drop want ?es" by simp
qed

lemma page_form:
  assumes "inv l" "1 \<le> want" "want \<le> 1000"
  shows "events_page want (reads l (want + 1) b) =
    (if nat want < length (below b (rows l)) then (take (nat want) (below b (rows l)), sr_id (below b (rows l) ! (nat want - 1)))
     else (below b (rows l), 0))"
proof -
  have r: "reads l (want + 1) b = take (Suc (nat want)) (below b (rows l))"
    using newest [of l "want + 1" b] assms by (simp add: Suc_nat_eq_nat_zadd1 add.commute)
  have w: "nat want - 1 < Suc (nat want)" "0 < nat want" using assms by simp_all
  show ?thesis unfolding events_page_def r using assms w by (auto simp: nth_take min_def)
qed

lemma walk_all:
  assumes "inv l" "1 \<le> want" "want \<le> 1000" "length (below b (rows l)) < fuel"
  shows "walk_pages fuel (\<lambda>b. events_page want (reads l (want + 1) b)) b = below b (rows l)"
  using assms(4)
proof (induction fuel arbitrary: b)
  case (Suc n)
  show ?case
  proof (cases "nat want < length (below b (rows l))")
    case True
    let ?k = "sr_id (below b (rows l) ! (nat want - 1))"
    have p: "0 < nat want" using assms(2) by simp
    note R = below_rest [OF assms(1) True p]
    have "length (below ?k (rows l)) < n" unfolding R(1) using Suc.prems True p by simp
    then have "walk_pages n (\<lambda>b. events_page want (reads l (want + 1) b)) ?k = drop (nat want) (below b (rows l))"
      using Suc.IH R(1) by simp
    then show ?thesis using True R(2) by (simp add: page_form [OF assms(1-3)])
  next
    case False
    then show ?thesis by (simp add: page_form [OF assms(1-3)])
  qed
qed simp

end

subsection \<open>The store as a reader\<close>

definition typed_rows :: "(event_type \<Rightarrow> string) \<Rightarrow> string list \<Rightarrow> event_table \<Rightarrow> event_row list" where
  "typed_rows ty types tb = rev (filter (\<lambda>r. types \<noteq> [] \<longrightarrow> ty (ee_type (sr_event r)) \<in> set types) (tb_rows tb))"

definition read_page :: "(event_type \<Rightarrow> string) \<Rightarrow> string list \<Rightarrow> event_table \<Rightarrow> int \<Rightarrow> int \<Rightarrow> event_row list" where
  "read_page ty types tb n b = query_events ty \<lparr>eq_limit = n, eq_before_id = b, eq_types = types\<rparr> tb"

lemma read_page_newest:
  "0 < n \<Longrightarrow> n \<le> 1001 \<Longrightarrow> read_page ty types tb n b = take (nat n) (below b (typed_rows ty types tb))"
  by (simp add: read_page_def query_events_def query_limit_def max_events_limit_def below_def typed_rows_def rev_filter
      filter_filter query_matches_def [abs_def] conj_commute)

lemma typed_rows_descending: "table_ok tb \<Longrightarrow> sorted_wrt (>) (map sr_id (typed_rows ty types tb))"
  unfolding typed_rows_def rev_filter
  by (rule sorted_filter) (simp add: table_ok_def sorted_wrt_rev rev_map [symmetric])

text \<open>Keys are positive in a table that grew from the empty one.\<close>

definition keys_positive :: "event_table \<Rightarrow> bool" where
  "keys_positive tb \<longleftrightarrow> 0 \<le> tb_seq tb \<and> (\<forall>r \<in> set (tb_rows tb). 0 < sr_id r)"

lemma insert_keys_positive: "keys_positive tb \<Longrightarrow> keys_positive (snd (insert_events now es tb))"
  by (induction now es tb rule: insert_events.induct) (auto simp: keys_positive_def Let_def case_prod_unfold)

interpretation stored: event_reader "\<lambda>tb. table_ok tb \<and> keys_positive tb" "read_page ty types" "typed_rows ty types" for ty types
proof (unfold_locales, goal_cases)
  case (1 l n b)
  then show ?case by (intro read_page_newest)
next
  case (2 l)
  then show ?case by (intro typed_rows_descending) simp
next
  case (3 l r)
  then show ?case by (auto simp: keys_positive_def typed_rows_def)
qed

text \<open>C15. Paging backwards through the events by the key of the next page shows every event of the asked types
  that the table holds, once each, newest first, and then ends: whatever the page size up to the
  thousand the API allows, no event is skipped or shown twice at a page boundary.\<close>

theorem paging_shows_every_event:
  assumes "table_ok tb" "keys_positive tb" "1 \<le> want" "want \<le> 1000"
  shows "walk_pages (Suc (length (tb_rows tb)))
      (\<lambda>b. events_page want (query_events ty \<lparr>eq_limit = want + 1, eq_before_id = b, eq_types = types\<rparr> tb)) 0
    = rev (filter (\<lambda>r. types \<noteq> [] \<longrightarrow> ty (ee_type (sr_event r)) \<in> set types) (tb_rows tb))"
proof -
  have l: "length (below 0 (typed_rows ty types tb)) < Suc (length (tb_rows tb))"
    by (simp add: below_def typed_rows_def le_imp_less_Suc)
  show ?thesis
    using stored.walk_all [OF _ assms(3,4) l] assms(1,2)
    by (simp add: read_page_def below_def typed_rows_def)
qed

theorem paging_shows_every_event_witness:
  "map sr_id (walk_pages 3 (\<lambda>b. events_page 1 (query_events (\<lambda>_. ''x'') \<lparr>eq_limit = 2, eq_before_id = b, eq_types = []\<rparr> two_events)) 0) = [2, 1]"
proof -
  have "table_ok empty_events" "keys_positive empty_events" by (simp_all add: empty_events_def table_ok_def keys_positive_def)
  then have ok: "table_ok two_events" "keys_positive two_events"
    unfolding two_events_def using insert_events_ok insert_keys_positive by blast+
  have "length (tb_rows two_events) = 2" "map sr_id (rev (tb_rows two_events)) = [2, 1]" by code_simp+
  then show ?thesis using paging_shows_every_event [OF ok, of 1 "\<lambda>_. ''x''" "[]"] by simp
qed

end
