(* ===== verification/Api_Correct.thy ===== *)
theory Api_Correct
  imports Api Auth_Correct Validate_Correct
begin

text \<open>
  What the handlers grant: which requests change the configuration, ask for a drain or reload, or change
  the mode, and what a mode change can ask for.
\<close>

text \<open>What a request is meant to change, and only with authority.\<close>

definition settings :: "ctl \<Rightarrow> config \<times> string \<times> mode_facts" where
  "settings c = (cs_cfg c, cs_manual_pending c, cs_mode c)"

lemma status_settings: "settings (snd (status_of nd D E facts c)) = settings c"
  by (auto simp: status_of_def settings_def Let_def case_prod_unfold next_schedule_change_def)

lemma server_status_settings: "server_status H X s = (x, c) \<Longrightarrow> settings c = settings (sv_ctl s)"
  using status_settings by (metis server_status_def snd_conv)

lemma emit_kept [simp]: "settings (emit E e c) = settings c"
  by (simp add: settings_def emit_def Let_def)

lemma preview_settings: "settings (snd (preview_config_restore dg sk f found i c)) = settings c"
  by (auto simp: preview_config_restore_def revision_locked_def settings_def Let_def split: sum.splits)

lemma with_ctl_ctl [simp]: "sv_ctl (snd (with_ctl s x)) = snd x" "fst (with_ctl s x) = fst x"
  "sv_sign_in (snd (with_ctl s x)) = sv_sign_in s"
  by (simp_all add: with_ctl_def)

lemma status_handlers:
  "settings (sv_ctl (snd (h_health H X limit r s))) = settings (sv_ctl s)"
  "settings (sv_ctl (snd (h_status H X limit r s))) = settings (sv_ctl s)"
  "settings (sv_ctl (snd (h_get_config H X limit r s))) = settings (sv_ctl s)"
  by (cases "server_status H X s"; cases "fst (server_status H X s)"; auto simp: h_health_def h_status_def h_get_config_def
      Let_def dest: server_status_settings)+

lemma preview_handler: "settings (sv_ctl (snd (h_restore_preview H X limit r s))) = settings (sv_ctl s)"
proof -
  have "settings c = settings (sv_ctl s)"
    if "preview_config_restore (ah_config_digest H) (ah_store_kind H) (fst (rx_fresh X)) (rx_found X i) i (sv_ctl s) = (x, c)" for x c i
    using preview_settings that by (metis snd_conv)
  then show ?thesis by (auto simp: h_restore_preview_def Let_def split: prod.splits sum.splits preview_error.splits)
qed

lemma quiet_handlers:
  "sv_ctl (snd (h_config_history H X limit r s)) = sv_ctl s"
  "sv_ctl (snd (h_validate_config H X limit r s)) = sv_ctl s"
  "sv_ctl (snd (h_get_applications H X limit r s)) = sv_ctl s"
  "sv_ctl (snd (h_events H X limit r s)) = sv_ctl s"
  "sv_ctl (snd (h_agent_report H X limit r s)) = sv_ctl s"
  "sv_ctl (snd (h_register_sign_in H X limit r s)) = sv_ctl s"
  "sv_ctl (snd (h_redeem_sign_in H X limit r s)) = sv_ctl s"
  "sv_ctl (snd (h_setup H X limit r s)) = sv_ctl s"
  "sv_ctl (snd (h_inspect_model H X limit r s)) = sv_ctl s"
  "sv_ctl (snd (h_restart H X limit r s)) = sv_ctl s"
  "sv_ctl (snd (h_metrics H X limit r s)) = sv_ctl s"
proof -
  show "sv_ctl (snd (h_validate_config H X limit r s)) = sv_ctl s"
    by (simp add: h_validate_config_def split: sum.split prod.split)
  have keep: "sv_ctl (s\<lparr>sv_sign_in := si\<rparr>) = sv_ctl s" for si by simp
  show "sv_ctl (snd (h_register_sign_in H X limit r s)) = sv_ctl s"
    unfolding h_register_sign_in_def
    by (simp only: snd_conv keep simp_thms split: sum.split prod.split option.split if_split)
  show "sv_ctl (snd (h_redeem_sign_in H X limit r s)) = sv_ctl s"
    unfolding h_redeem_sign_in_def
    by (simp only: snd_conv keep simp_thms split: sum.split prod.split option.split if_split)
  show "sv_ctl (snd (h_agent_report H X limit r s)) = sv_ctl s"
    by (simp add: h_agent_report_def split: sum.split)
qed (simp_all only: h_config_history_def h_get_applications_def h_events_def h_setup_def h_inspect_model_def h_restart_def
    h_metrics_def Let_def snd_conv)

text \<open>A change of the configuration leaves the mode, a change of the mode leaves the rest.\<close>

lemma revision_settings: "settings (snd (revision_locked f c)) = settings c"
  by (simp add: revision_locked_def settings_def Let_def)

lemma check_restore_kept: "check_restore sk sa f ex i c = (e, c') \<Longrightarrow> settings c' = settings c"
  by (auto simp: check_restore_def revision_locked_def settings_def Let_def split: if_splits option.splits)

lemma persist_config_kept: "persist_config E sk sa a c = (e, c') \<Longrightarrow> settings c' = settings c"
  by (auto simp: persist_config_def split: store_kind.splits sum.splits if_splits)

lemma apply_config_mode: "cs_mode (snd (apply_config E f nc a ro c)) = cs_mode c"
  by (simp add: apply_config_def Let_def emit_def)

lemma update_config_mode: "cs_mode (snd (update_config E sk sa fresh v nc a ex ro c)) = cs_mode c"
proof -
  obtain e1 c1 where 1: "check_restore sk sa (fst fresh) ex ro c = (e1, c1)"
    by (cases "check_restore sk sa (fst fresh) ex ro c")
  obtain e2 c2 where 2: "persist_config E sk sa a c1 = (e2, c2)" by (cases "persist_config E sk sa a c1")
  have m: "cs_mode c1 = cs_mode c" "cs_mode c2 = cs_mode c"
    using check_restore_kept [OF 1] persist_config_kept [OF 2] by (simp_all add: settings_def)
  have "cs_mode (emit E e c1) = cs_mode c1" for e by (simp add: emit_def Let_def)
  then show ?thesis using m apply_config_mode [of E "snd fresh" nc a ro c2]
    by (auto simp: update_config_def 1 2 split: option.splits prod.splits)
qed

lemma restore_config_mode: "cs_mode (snd (restore_config dg P ck E sk sa fresh found i rv a c)) = cs_mode c"
proof -
  have "cs_mode c' = cs_mode c" if "update_config E sk sa fresh v nc a ex ro c = (x, c')" for v nc ex ro x c'
    using update_config_mode [of E sk sa fresh v nc a ex ro c] that by simp
  then show ?thesis
    by (auto simp: restore_config_def split: sum.splits list.splits prod.splits)
qed

lemma persist_kept: "settings (persist D E c) = settings c"
  by (simp add: persist_def settings_def log_call_def Let_def)

lemma set_mode_kept:
  assumes "set_mode pd nd D E q c = (x, c')"
  shows "case x of Inl _ \<Rightarrow> c' = c
    | Inr m \<Rightarrow> settings c' = (cs_cfg c, cs_manual_pending c, m) \<and> mf_mode m = mr_mode q
        \<and> (\<exists>b. requested_until pd nd (ev_now E) q (cs_cfg c) = Inr (mf_until m, b))"
proof -
  have w: "settings (c\<lparr>cs_wake := b\<rparr>) = settings c" for c b by (simp add: settings_def)
  show ?thesis using assms
    by (auto simp: set_mode_def Let_def w persist_kept split: sum.splits prod.splits) (simp_all add: settings_def)
qed

lemma request_manual_kept:
  "cs_cfg (snd (request_manual E k r c)) = cs_cfg c" "cs_mode (snd (request_manual E k r c)) = cs_mode c"
  by (simp_all add: request_manual_def emit_def Let_def)

lemma config_handlers_mode:
  "cs_mode (sv_ctl (snd (h_put_config H X limit r s))) = cs_mode (sv_ctl s)"
  "cs_mode (sv_ctl (snd (h_put_applications H X limit r s))) = cs_mode (sv_ctl s)"
  "cs_mode (sv_ctl (snd (h_restore_config H X limit r s))) = cs_mode (sv_ctl s)"
  "cs_mode (sv_ctl (snd (h_action k H X limit r s))) = cs_mode (sv_ctl s)"
proof -
  have a: "cs_mode c' = cs_mode c" if "apply_change H X r nc c = (x, c')" for nc c x c'
    using that update_config_mode unfolding apply_change_def by (metis snd_conv)
  have b: "cs_mode c' = cs_mode c" if "restore_config dg P ck E sk sa fresh found i rv ac c = (x, c')"
    for dg P ck E sk sa fresh found i rv ac c x c'
    using that restore_config_mode by (metis snd_conv)
  have d: "cs_mode c' = cs_mode c" if "request_manual E k rs c = (x, c')" for E k rs c x c'
    using that request_manual_kept(2) by (metis snd_conv)
  show "cs_mode (sv_ctl (snd (h_put_config H X limit r s))) = cs_mode (sv_ctl s)"
    by (auto simp: h_put_config_def dest: a split: sum.splits prod.splits)
  show "cs_mode (sv_ctl (snd (h_put_applications H X limit r s))) = cs_mode (sv_ctl s)"
    by (auto simp: h_put_applications_def dest: a split: sum.splits prod.splits option.splits)
  show "cs_mode (sv_ctl (snd (h_restore_config H X limit r s))) = cs_mode (sv_ctl s)"
    by (auto simp: h_restore_config_def dest: b split: sum.splits prod.splits)
  show "cs_mode (sv_ctl (snd (h_action k H X limit r s))) = cs_mode (sv_ctl s)"
    by (auto simp: h_action_def Let_def dest: d split: sum.splits prod.splits manual_result.splits)
qed

subsection \<open>A change of the mode\<close>

lemma put_mode_settings:
  assumes "h_put_mode H X limit r s = (resp, s')" "settings (sv_ctl s') \<noteq> settings (sv_ctl s)"
  shows "\<exists>q m b. mode_request_problem H (cs_cfg (sv_ctl s)) q = None
    \<and> settings (sv_ctl s') = (cs_cfg (sv_ctl s), cs_manual_pending (sv_ctl s), m) \<and> mf_mode m = mr_mode q
    \<and> requested_until (ah_parse_duration H) (ah_next_day H) (ev_now (rx_env X)) q (cs_cfg (sv_ctl s)) = Inr (mf_until m, b)
    \<and> (bearer r = None \<longrightarrow> mr_mode q \<noteq> ModeAIPriority)"
proof (cases "decode (jl_mode (ah_json H)) limit zero_mode_request r True False")
  case (Inl e)
  then show ?thesis using assms by (simp add: h_put_mode_def)
next
  case (Inr q)
  obtain p si where i: "identify (ah_digest H) (ah_auth H) (ev_now (rx_env X)) r (sv_sign_in s) = (p, si)"
    by (cases "identify (ah_digest H) (ah_auth H) (ev_now (rx_env X)) r (sv_sign_in s)")
  have none: "p = PrincipalNone \<longleftrightarrow> bearer r = None"
    using identify_None_iff [of "ah_digest H" "ah_auth H" "ev_now (rx_env X)" r "sv_sign_in s"] i by simp
  have ok: "mode_request_problem H (cs_cfg (sv_ctl s)) q = None"
    using assms Inr by (auto simp: h_put_mode_def split: option.splits)
  define by' where "by' = (if trim_space (mr_set_by q) = '''' then ''api'' else trim_space (mr_set_by q))"
  define q' where "q' = q\<lparr>mr_set_by := (if p = PrincipalNone then principal_string p else by'), mr_principal := principal_string p\<rparr>"
  have run: "(p = PrincipalNone \<and> mr_mode q = ModeAIPriority \<longrightarrow> sv_ctl s' = sv_ctl s)
    \<and> (\<not> (p = PrincipalNone \<and> mr_mode q = ModeAIPriority) \<longrightarrow>
        sv_ctl s' = snd (set_mode (ah_parse_duration H) (ah_next_day H) (ah_deps H) (rx_env X) q' (sv_ctl s)))"
    using assms(1) by (auto simp: h_put_mode_def Inr ok i Let_def q'_def by'_def with_ctl_def split: prod.splits sum.splits if_splits)
  obtain x c where m: "set_mode (ah_parse_duration H) (ah_next_day H) (ah_deps H) (rx_env X) q' (sv_ctl s) = (x, c)"
    by (cases "set_mode (ah_parse_duration H) (ah_next_day H) (ah_deps H) (rx_env X) q' (sv_ctl s)")
  have ctl: "sv_ctl s' = c" "p = PrincipalNone \<longrightarrow> mr_mode q \<noteq> ModeAIPriority"
    using run m assms(2) by auto
  have u: "requested_until pd nd n q' cfg = requested_until pd nd n q cfg" for pd nd n cfg
  proof -
    have "mr_mode q' = mr_mode q" "mr_duration q' = mr_duration q" by (simp_all add: q'_def)
    then show ?thesis unfolding requested_until_def by presburger
  qed
  show ?thesis
    using set_mode_kept [OF m] assms(2) ok none ctl u by (auto simp: q'_def split: sum.splits)
qed

subsection \<open>Routes\<close>

text \<open>The endpoints that change what a request is meant to change, and how each is guarded.\<close>

definition config_writers :: "endpoint set" where
  "config_writers = {EpPutConfig, EpPutApplications, EpRestoreConfig, EpDrain, EpReload}"

lemma route_guards:
  assumes "map_of routes p = Some ms" "find_method m ms = Some rt"
  shows "ro_endpoint rt \<in> config_writers \<Longrightarrow> ro_access rt = AccessWrite \<and> \<not> ro_agent rt"
    and "ro_endpoint rt = EpPutMode \<Longrightarrow> ro_access rt = AccessModeWrite"
proof -
  have "rt \<in> set (map snd (concat (map snd routes)))"
    using assms by (force simp: find_method_def split: option.splits if_splits dest!: map_of_SomeD)
  then have "(ro_endpoint rt \<in> config_writers \<longrightarrow> ro_access rt = AccessWrite \<and> \<not> ro_agent rt)
      \<and> (ro_endpoint rt = EpPutMode \<longrightarrow> ro_access rt = AccessModeWrite)"
    by (auto simp: routes_def route_of_def config_writers_def)
  then show "ro_endpoint rt \<in> config_writers \<Longrightarrow> ro_access rt = AccessWrite \<and> \<not> ro_agent rt"
    and "ro_endpoint rt = EpPutMode \<Longrightarrow> ro_access rt = AccessModeWrite" by simp_all
qed

lemma quiet_endpoint:
  "ep \<notin> config_writers \<Longrightarrow> ep \<noteq> EpPutMode \<Longrightarrow> settings (sv_ctl (snd (run_endpoint ep H X limit r s))) = settings (sv_ctl s)"
  by (cases ep) (simp_all add: config_writers_def status_handlers preview_handler quiet_handlers)

lemma config_writer_mode:
  "ep \<in> config_writers \<Longrightarrow> cs_mode (sv_ctl (snd (run_endpoint ep H X limit r s))) = cs_mode (sv_ctl s)"
  by (auto simp: config_writers_def config_handlers_mode)

lemma serve_cases:
  assumes "serve H X r s = (resp, s')" "settings (sv_ctl s') \<noteq> settings (sv_ctl s)"
  obtains ms rt si where "map_of routes (rq_path r) = Some ms" "find_method (rq_method r) ms = Some rt"
    "authorize (ah_digest H) (ah_lib H) (ah_auth H) (ev_now (rx_env X)) r (ro_access rt) (ro_agent rt)
       (se_loopback_trust (cf_security (cs_cfg (sv_ctl s)))) (sv_sign_in s) = (None, si)"
    "run_endpoint (ro_endpoint rt) H X (if 0 < ro_limit rt then ro_limit rt else max_small_body) r (s\<lparr>sv_sign_in := si\<rparr>) = (resp, s')"
    "ro_endpoint rt \<in> config_writers \<or> ro_endpoint rt = EpPutMode"
proof -
  obtain ms rt si where g: "map_of routes (rq_path r) = Some ms" "find_method (rq_method r) ms = Some rt"
    "authorize (ah_digest H) (ah_lib H) (ah_auth H) (ev_now (rx_env X)) r (ro_access rt) (ro_agent rt)
       (se_loopback_trust (cf_security (cs_cfg (sv_ctl s)))) (sv_sign_in s) = (None, si)"
    "run_endpoint (ro_endpoint rt) H X (if 0 < ro_limit rt then ro_limit rt else max_small_body) r (s\<lparr>sv_sign_in := si\<rparr>) = (resp, s')"
    using assms by (auto simp: serve_def split: option.splits prod.splits)
  have "ro_endpoint rt \<in> config_writers \<or> ro_endpoint rt = EpPutMode"
  proof (rule ccontr)
    assume "\<not> ?thesis"
    then have "settings (sv_ctl (snd (resp, s'))) = settings (sv_ctl (s\<lparr>sv_sign_in := si\<rparr>))"
      unfolding g(4) [symmetric] by (intro quiet_endpoint) auto
    then show False using assms(2) by simp
  qed
  then show ?thesis using that g by blast
qed

subsection \<open>What a mode request can ask for\<close>

lemma valid_max_ai:
  assumes "validate P cfg = []"
  shows "minute \<le> md_max_ai_priority (cf_modes cfg)" "md_max_ai_priority (cf_modes cfg) \<le> 7 * 24 * hour"
  using validate_sections(5) [OF assms] by (simp_all add: validate_timers_def Let_def)

lemma capped_end:
  assumes "0 \<le> mx" "mx \<le> 7 * 24 * hour" "\<not> mx < t_sub u now" shows "u \<le> now + mx"
proof -
  have "mx < max_dur" using assms(2) by (simp add: max_dur_def time_simps)
  then show ?thesis using assms by (auto simp: t_sub_def)
qed

lemma mode_request_end:
  assumes ok: "mode_request_problem H cfg q = None"
    and run: "requested_until (ah_parse_duration H) (ah_next_day H) now q cfg = Inr (u, b)"
    and valid: "validate P cfg = []"
  shows "case mr_mode q of
       ModeAIPriority \<Rightarrow> (case u of Some u \<Rightarrow> u \<le> now + md_max_ai_priority (cf_modes cfg) \<and> u \<le> now + 7 * 24 * hour | None \<Rightarrow> False)
     | ModePause \<Rightarrow> (case u of
           Some u \<Rightarrow> u = ah_next_day H now (cf_timezone cfg) 8 \<or> now < u \<and> u \<le> now + 30 * 24 * hour | None \<Rightarrow> True)
     | ModeAuto \<Rightarrow> u = None
     | OtherMode _ \<Rightarrow> False"
proof -
  note mx = valid_max_ai [OF valid]
  have pos: "0 \<le> md_max_ai_priority (cf_modes cfg)" using mx(1) by (simp add: time_simps)
  note cap = capped_end [OF pos mx(2)]
  show ?thesis
  proof (cases "mr_mode q")
    case ModeAIPriority
    then have "\<exists>v. u = Some v \<and> v \<le> now + md_max_ai_priority (cf_modes cfg)"
      using run cap by (auto simp: requested_until_def Let_def split: if_splits option.splits)
    then show ?thesis using ModeAIPriority mx(2) by auto
  next
    case ModePause
    then show ?thesis
      using run ok by (auto simp: requested_until_def mode_request_problem_def valid_duration_def max_mode_duration_def Let_def
          split: if_splits option.splits)
  next
    case (OtherMode m)
    then show ?thesis using run by (simp add: requested_until_def)
  next
    case ModeAuto
    then show ?thesis using run by (simp add: requested_until_def Let_def)
  qed
qed

text \<open>C20. Over the API the configuration changes, and a drain or a reload is asked for, only on a request that
  carries the management token or, from a loopback address that addresses the service as this PC, a live
  dashboard session. The agent token changes the mode and nothing else; without any token the mode
  changes only when loopback trust is on, from this PC and past the cross-origin checks, and never to
  AI Priority. Every other request, whatever its method, path, body or headers, changes none of them.\<close>

theorem changes_need_authority:
  assumes "serve H X r s = (resp, s')" "settings (sv_ctl s') \<noteq> settings (sv_ctl s)"
  shows "case fst (identify (ah_digest H) (ah_auth H) (ev_now (rx_env X)) r (sv_sign_in s)) of
      PrincipalManagement \<Rightarrow> True
    | PrincipalSession \<Rightarrow> trusted_loopback r
    | PrincipalAgent \<Rightarrow> cs_cfg (sv_ctl s') = cs_cfg (sv_ctl s) \<and> cs_manual_pending (sv_ctl s') = cs_manual_pending (sv_ctl s)
    | PrincipalNone \<Rightarrow> cs_cfg (sv_ctl s') = cs_cfg (sv_ctl s) \<and> cs_manual_pending (sv_ctl s') = cs_manual_pending (sv_ctl s)
        \<and> se_loopback_trust (cf_security (cs_cfg (sv_ctl s))) \<and> trusted_loopback r \<and> local_write_barrier (ah_lib H) r = None
        \<and> mf_mode (cs_mode (sv_ctl s')) \<noteq> ModeAIPriority
    | _ \<Rightarrow> False"
proof -
  from assms obtain ms rt si where g: "map_of routes (rq_path r) = Some ms" "find_method (rq_method r) ms = Some rt"
    "authorize (ah_digest H) (ah_lib H) (ah_auth H) (ev_now (rx_env X)) r (ro_access rt) (ro_agent rt)
       (se_loopback_trust (cf_security (cs_cfg (sv_ctl s)))) (sv_sign_in s) = (None, si)"
    "run_endpoint (ro_endpoint rt) H X (if 0 < ro_limit rt then ro_limit rt else max_small_body) r (s\<lparr>sv_sign_in := si\<rparr>) = (resp, s')"
    "ro_endpoint rt \<in> config_writers \<or> ro_endpoint rt = EpPutMode" by (rule serve_cases)
  let ?p = "fst (identify (ah_digest H) (ah_auth H) (ev_now (rx_env X)) r (sv_sign_in s))"
  note R = route_guards [OF g(1,2)]
  have a: "ro_access rt \<noteq> AccessLocal" using g(5) R by auto
  have gr: "grants (ah_lib H) r (ro_access rt) (ro_agent rt) (se_loopback_trust (cf_security (cs_cfg (sv_ctl s)))) ?p"
    using arg_cong [OF g(3), of fst] a by (simp add: authorize_granted)
  from g(5) show ?thesis
  proof
    assume "ro_endpoint rt \<in> config_writers"
    then show ?thesis using gr R(1) by (auto simp: grants_def)
  next
    assume e: "ro_endpoint rt = EpPutMode"
    have run: "h_put_mode H X (if 0 < ro_limit rt then ro_limit rt else max_small_body) r (s\<lparr>sv_sign_in := si\<rparr>) = (resp, s')"
      using g(4) by (simp add: e)
    obtain m :: mode_facts where "settings (sv_ctl s') = (cs_cfg (sv_ctl s), cs_manual_pending (sv_ctl s), m)"
      "bearer r = None \<longrightarrow> mf_mode m \<noteq> ModeAIPriority"
      using put_mode_settings [OF run] assms(2) by auto
    then show ?thesis
      using gr R(2) [OF e] identify_None_iff [of "ah_digest H" "ah_auth H" "ev_now (rx_env X)" r "sv_sign_in s"]
      by (auto simp: grants_def settings_def)
  qed
qed

text \<open>C22. Whatever duration a request asks for, AI Priority that was started over the API ends: it is given an end,
  at most the longest AI Priority of the configuration away, which a valid configuration keeps within a
  week. A pause is open-ended (or until reboot), or ends at eight the next morning, or lies a positive
  time of at most thirty days ahead; Auto has no end.\<close>

theorem api_mode_bounded:
  assumes "serve H X r s = (resp, s')" "cs_mode (sv_ctl s') \<noteq> cs_mode (sv_ctl s)"
    and valid: "validate P (cs_cfg (sv_ctl s)) = []"
  shows "let now = ev_now (rx_env X); m = cs_mode (sv_ctl s'); cfg = cs_cfg (sv_ctl s) in
    (case mf_mode m of
       ModeAIPriority \<Rightarrow> (case mf_until m of Some u \<Rightarrow> u \<le> now + md_max_ai_priority (cf_modes cfg) \<and> u \<le> now + 7 * 24 * hour | None \<Rightarrow> False)
     | ModePause \<Rightarrow> (case mf_until m of
           Some u \<Rightarrow> u = ah_next_day H now (cf_timezone cfg) 8 \<or> now < u \<and> u \<le> now + 30 * 24 * hour | None \<Rightarrow> True)
     | ModeAuto \<Rightarrow> mf_until m = None
     | OtherMode _ \<Rightarrow> False)"
proof -
  have ne: "settings (sv_ctl s') \<noteq> settings (sv_ctl s)" using assms(2) by (simp add: settings_def)
  from assms(1) ne obtain ms rt si where "map_of routes (rq_path r) = Some ms" "find_method (rq_method r) ms = Some rt"
    "authorize (ah_digest H) (ah_lib H) (ah_auth H) (ev_now (rx_env X)) r (ro_access rt) (ro_agent rt)
       (se_loopback_trust (cf_security (cs_cfg (sv_ctl s)))) (sv_sign_in s) = (None, si)"
    and g: "run_endpoint (ro_endpoint rt) H X (if 0 < ro_limit rt then ro_limit rt else max_small_body) r
      (s\<lparr>sv_sign_in := si\<rparr>) = (resp, s')" "ro_endpoint rt \<in> config_writers \<or> ro_endpoint rt = EpPutMode"
    by (rule serve_cases)
  have "ro_endpoint rt \<notin> config_writers"
    using config_writer_mode [of "ro_endpoint rt" H X "if 0 < ro_limit rt then ro_limit rt else max_small_body" r
        "s\<lparr>sv_sign_in := si\<rparr>"] assms(2) unfolding g(1) by auto
  then have run: "h_put_mode H X (if 0 < ro_limit rt then ro_limit rt else max_small_body) r (s\<lparr>sv_sign_in := si\<rparr>) = (resp, s')"
    using g by auto
  obtain q b where q: "mode_request_problem H (cs_cfg (sv_ctl s)) q = None" "mf_mode (cs_mode (sv_ctl s')) = mr_mode q"
    "requested_until (ah_parse_duration H) (ah_next_day H) (ev_now (rx_env X)) q (cs_cfg (sv_ctl s)) = Inr (mf_until (cs_mode (sv_ctl s')), b)"
    using put_mode_settings [OF run] ne by (auto simp: settings_def)
  show ?thesis
    using mode_request_end [OF q(1,3) valid] q(2) by simp
qed

subsection \<open>Refused requests\<close>

lemma write_status [simp]: "re_status (write_json n p) = n" "re_status (write_error n c m) = n"
  by (simp_all add: write_json_def write_error_def)

lemma update_config_refused:
  assumes "update_config E sk sa fresh v nc a ex ro c = (Inl e, c')" shows "settings c' = settings c"
proof -
  obtain e1 c1 where 1: "check_restore sk sa (fst fresh) ex ro c = (e1, c1)"
    by (cases "check_restore sk sa (fst fresh) ex ro c")
  obtain e2 c2 where 2: "persist_config E sk sa a c1 = (e2, c2)" by (cases "persist_config E sk sa a c1")
  show ?thesis
    using assms check_restore_kept [OF 1] persist_config_kept [OF 2]
    by (auto simp: update_config_def 1 2 split: option.splits prod.splits if_splits)
qed

lemma restore_config_refused:
  "restore_config dg P ck E sk sa fresh found i rv a c = (Inl e, c') \<Longrightarrow> settings c' = settings c"
  by (auto simp: restore_config_def dest: update_config_refused split: sum.splits list.splits prod.splits if_splits)

lemma with_ctl_cases: "with_ctl s x = (resp, s') \<longleftrightarrow> resp = fst x \<and> s' = s\<lparr>sv_ctl := snd x\<rparr>"
  by (auto simp: with_ctl_def)

lemma config_writer_success:
  assumes "run_endpoint ep H X limit r s = (resp, s')" "ep \<in> config_writers" "settings (sv_ctl s') \<noteq> settings (sv_ctl s)"
  shows "re_status resp < 300"
  using assms
  by (auto simp: config_writers_def h_put_config_def h_put_applications_def h_restore_config_def h_action_def apply_change_def
      with_ctl_cases Let_def dest: update_config_refused restore_config_refused
      split: sum.splits prod.splits option.splits manual_result.splits if_splits)

lemma put_mode_success:
  assumes "h_put_mode H X limit r s = (resp, s')" "settings (sv_ctl s') \<noteq> settings (sv_ctl s)"
  shows "re_status resp < 300"
proof -
  have "settings c' = settings c" if "set_mode pd nd D E q c = (Inl e, c')" for pd nd D E q c e c'
    using set_mode_kept [OF that] by simp
  with assms show ?thesis
    by (auto simp: h_put_mode_def with_ctl_cases Let_def split: sum.splits prod.splits option.splits if_splits)
qed

text \<open>C21. A request that is answered with an error, whichever of the reasons it is, changed nothing: not the
  configuration, not the mode, and it asked for no drain or reload. The API never applies a change and then
  reports that it failed.\<close>

theorem refused_requests_change_nothing:
  assumes "serve H X r s = (resp, s')" "300 \<le> re_status resp"
  shows "cs_cfg (sv_ctl s') = cs_cfg (sv_ctl s) \<and> cs_mode (sv_ctl s') = cs_mode (sv_ctl s)
    \<and> cs_manual_pending (sv_ctl s') = cs_manual_pending (sv_ctl s)"
proof (rule ccontr)
  assume "\<not> ?thesis"
  then have ne: "settings (sv_ctl s') \<noteq> settings (sv_ctl s)" by (auto simp: settings_def)
  from assms(1) ne obtain ms rt si where "map_of routes (rq_path r) = Some ms" "find_method (rq_method r) ms = Some rt"
    "authorize (ah_digest H) (ah_lib H) (ah_auth H) (ev_now (rx_env X)) r (ro_access rt) (ro_agent rt)
       (se_loopback_trust (cf_security (cs_cfg (sv_ctl s)))) (sv_sign_in s) = (None, si)"
    and g: "run_endpoint (ro_endpoint rt) H X (if 0 < ro_limit rt then ro_limit rt else max_small_body) r
      (s\<lparr>sv_sign_in := si\<rparr>) = (resp, s')" "ro_endpoint rt \<in> config_writers \<or> ro_endpoint rt = EpPutMode"
    by (rule serve_cases)
  then have "re_status resp < 300"
    using config_writer_success [OF g(1)] put_mode_success [of H X _ r "s\<lparr>sv_sign_in := si\<rparr>" resp s'] ne by auto
  then show False using assms(2) by simp
qed

definition demo_api :: "string api_host" where
  "demo_api = \<lparr>ah_digest = id, ah_lib = demo_lib, ah_auth = new_authenticator id demo_tokens,
     ah_json = \<lparr>jl_config = (\<lambda>_ _. Inl JsonUnexpectedEOF), jl_apps = (\<lambda>_ _. Inl JsonUnexpectedEOF),
       jl_mode = (\<lambda>_ b. Inr (zero_mode_request\<lparr>mr_mode := (if b = ''p'' then ModePause else ModeAIPriority)\<rparr>, False)),
       jl_action = (\<lambda>_ _. Inl JsonUnexpectedEOF), jl_restore = (\<lambda>_ _. Inl JsonUnexpectedEOF),
       jl_report = (\<lambda>_ _. Inl JsonUnexpectedEOF), jl_code = (\<lambda>_ _. Inl JsonUnexpectedEOF)\<rparr>,
     ah_parse_duration = (\<lambda>_. None), ah_next_day = (\<lambda>now _ _. now + hour), ah_deps = demo_deps, ah_platform = stock,
     ah_version = ''1'', ah_instance_id = ''i'', ah_store_kind = NoStore, ah_config_digest = (\<lambda>_. ''d''), ah_setup = None,
     ah_inspect = None, ah_metrics = False\<rparr>"

definition demo_rx :: api_env where
  "demo_rx = \<lparr>rx_env = demo_env, rx_fresh = (''r1'', ''r2''), rx_store = demo_save, rx_found = (\<lambda>_. Inl ErrHistoryNotFound),
     rx_history = Inr [], rx_file = None, rx_events = None, rx_random = None, rx_restart = None, rx_slot = True\<rparr>"

definition demo_server :: "string server" where
  "demo_server = \<lparr>sv_ctl = demo_ctl, sv_sign_in = None, sv_facts = None\<rparr>"

text \<open>Pause without a token, AI Priority with the agent token, and AI Priority without a token.\<close>

definition demo_pause :: http_request where
  "demo_pause = demo_local_write\<lparr>rq_body := BodyBytes ''p''\<rparr>"

definition demo_boost :: http_request where
  "demo_boost = demo_local_write\<lparr>rq_body := BodyBytes ''a'',
     rq_header := (\<lambda>k. if k = ''Authorization'' then [''Bearer a''] else [])\<rparr>"

lemma demo_pause_served: "cs_mode (sv_ctl (snd (serve demo_api demo_rx demo_pause demo_server)))
    = \<lparr>mf_mode = ModePause, mf_until = None, mf_set_by = ''local''\<rparr>"
  by code_simp

lemma demo_rx_env: "rx_env demo_rx = demo_env"
  by (simp add: demo_rx_def)

lemma demo_boost_served:
  "mf_mode (cs_mode (sv_ctl (snd (serve demo_api demo_rx demo_boost demo_server)))) = ModeAIPriority"
  by code_simp

theorem changes_need_authority_witness:
  "se_loopback_trust (cf_security bare_config) \<and> trusted_loopback demo_pause \<and> local_write_barrier demo_lib demo_pause = None"
proof -
  let ?s = "snd (serve demo_api demo_rx demo_pause demo_server)"
  have run: "serve demo_api demo_rx demo_pause demo_server = (fst (serve demo_api demo_rx demo_pause demo_server), ?s)" by simp
  have ne: "settings (sv_ctl ?s) \<noteq> settings (sv_ctl demo_server)"
    using demo_pause_served by (simp add: settings_def demo_server_def demo_ctl_def new_controller_def auto_mode_def)
  have "bearer demo_pause = None" by code_simp
  then have "identify (ah_digest demo_api) (ah_auth demo_api) (ev_now (rx_env demo_rx)) demo_pause (sv_sign_in demo_server)
      = (PrincipalNone, sv_sign_in demo_server)" by (simp add: identify_def)
  then show ?thesis
    using changes_need_authority [OF run ne]
    by (simp add: demo_server_def demo_ctl_def new_controller_def demo_api_def)
qed

theorem api_mode_bounded_witness:
  "case mf_until (cs_mode (sv_ctl (snd (serve demo_api demo_rx demo_boost demo_server)))) of
     Some u \<Rightarrow> u \<le> ev_now demo_env + 7 * 24 * hour | None \<Rightarrow> False"
proof -
  let ?s = "snd (serve demo_api demo_rx demo_boost demo_server)"
  have run: "serve demo_api demo_rx demo_boost demo_server = (fst (serve demo_api demo_rx demo_boost demo_server), ?s)" by simp
  have ne: "cs_mode (sv_ctl ?s) \<noteq> cs_mode (sv_ctl demo_server)"
    using demo_boost_served by (auto simp: demo_server_def demo_ctl_def new_controller_def auto_mode_def)
  have "validate stock (cs_cfg (sv_ctl demo_server)) = []"
    using bare_valid by (simp add: demo_server_def demo_ctl_def new_controller_def)
  from api_mode_bounded [OF run ne this] show ?thesis
    by (simp add: demo_boost_served demo_rx_env Let_def split: option.splits)
qed

theorem refused_requests_change_nothing_witness:
  "cs_mode (sv_ctl (snd (serve demo_api demo_rx (demo_pause\<lparr>rq_body := BodyBytes ''a''\<rparr>) demo_server))) = auto_mode"
proof -
  let ?r = "demo_pause\<lparr>rq_body := BodyBytes ''a''\<rparr>"
  have st: "re_status (fst (serve demo_api demo_rx ?r demo_server)) = 401" by code_simp
  have run: "serve demo_api demo_rx ?r demo_server = (fst (serve demo_api demo_rx ?r demo_server), snd (serve demo_api demo_rx ?r demo_server))"
    by simp
  show ?thesis
    using refused_requests_change_nothing [OF run] st by (simp add: demo_server_def demo_ctl_def new_controller_def)
qed

end
