(* ===== verification/Usage.thy ===== *)
theory Usage
  imports Net Controller
begin

text \<open>
  Package \<open>internal/proxy\<close>, \<open>usage.go\<close>: what the log line of a request tells about its response. The tap
  keeps the head and the tail of the response whatever its length; the five regular expressions are
  written as scanners, which is what they match: each has one way to match at a position, and the
  matches are taken from the left without overlap.
\<close>

definition usage_head_bytes :: nat where "usage_head_bytes = 4096"
definition usage_tail_bytes :: nat where "usage_tail_bytes = 8192"
definition max_model_len :: nat where "max_model_len = 128"

record usage =
  us_start :: time
  us_streamed :: bool
  us_first_at :: time
  us_head :: string
  us_tail :: string

definition new_usage :: "time \<Rightarrow> usage" where
  "new_usage now = \<lparr>us_start = now, us_streamed = False, us_first_at = 0, us_head = '''', us_tail = ''''\<rparr>"

definition last_bytes :: "nat \<Rightarrow> string \<Rightarrow> string" where
  "last_bytes n b = drop (length b - n) b"

definition usage_observe :: "time \<Rightarrow> string \<Rightarrow> usage \<Rightarrow> usage" where
  "usage_observe now p u =
     (if p = '''' then u
      else (let t = us_tail u @ p in
        u\<lparr>us_first_at := (if us_first_at u = 0 then now else us_first_at u),
          us_head := us_head u @ take (usage_head_bytes - length (us_head u)) p,
          us_tail := (if 2 * usage_tail_bytes < length t then last_bytes usage_tail_bytes t else t)\<rparr>))"

definition tail_bytes :: "usage \<Rightarrow> string" where
  "tail_bytes u = (if usage_tail_bytes < length (us_tail u) then last_bytes usage_tail_bytes (us_tail u) else us_tail u)"

subsection \<open>The regular expressions\<close>

definition re_space :: "char \<Rightarrow> bool" where
  "re_space c \<longleftrightarrow> char_code c \<in> {9, 10, 12, 13, 32}"

text \<open>A quoted key with its colon, then optional spaces.\<close>

definition after_key :: "string \<Rightarrow> string \<Rightarrow> string option" where
  "after_key key b = (let k = CHR 0x22 # key @ [CHR 0x22, CHR '':''] in
     if has_prefix b k then Some (dropWhile re_space (drop (length k) b)) else None)"

definition match_digits :: "string \<Rightarrow> string \<Rightarrow> (string \<times> string) option" where
  "match_digits key b = (case after_key key b of
      None \<Rightarrow> None
    | Some r \<Rightarrow> (let ds = takeWhile is_digit r in if ds = '''' then None else Some (ds, dropWhile is_digit r)))"

text \<open>The text up to the closing quote; a backslash takes any byte but a newline with it.\<close>

fun quoted_text :: "string \<Rightarrow> (string \<times> string) option" where
  "quoted_text [] = None"
| "quoted_text (c # cs) =
     (if c = CHR 0x22 then Some ('''', cs)
      else if c = CHR 0x5C then (case cs of
          [] \<Rightarrow> None
        | d # ds \<Rightarrow> (if d = CHR 0x0A then None else map_option (\<lambda>(t, r). (c # d # t, r)) (quoted_text ds)))
      else map_option (\<lambda>(t, r). (c # t, r)) (quoted_text cs))"

definition match_model :: "string \<Rightarrow> (string \<times> string) option" where
  "match_model b = (case after_key ''model'' b of
      Some (q # r) \<Rightarrow> (if q = CHR 0x22 then quoted_text r else None)
    | _ \<Rightarrow> None)"

text \<open>All matches from the left; the fuel is the length of the text, of which every round takes some.\<close>

fun all_matches :: "nat \<Rightarrow> (string \<Rightarrow> (string \<times> string) option) \<Rightarrow> string \<Rightarrow> string list" where
  "all_matches 0 m b = []"
| "all_matches (Suc n) m b = (case b of
      [] \<Rightarrow> []
    | _ # r \<Rightarrow> (case m b of Some (t, rest) \<Rightarrow> t # all_matches n m rest | None \<Rightarrow> all_matches n m r))"

definition find_all :: "(string \<Rightarrow> (string \<times> string) option) \<Rightarrow> string \<Rightarrow> string list" where
  "find_all m b = all_matches (length b) m b"

text \<open>The last match of the first key that occurs.\<close>

fun last_int :: "string \<Rightarrow> string list \<Rightarrow> int option" where
  "last_int b [] = None"
| "last_int b (k # ks) = (case find_all (match_digits k) b of [] \<Rightarrow> last_int b ks | ms \<Rightarrow> atoi (last ms))"

record usage_attrs =
  ua_model :: "string option"
  ua_prompt_tokens :: "int option"
  ua_completion_tokens :: "int option"
  ua_ttft_ms :: "int option"

text \<open>The attributes from the head and the tail of a response.\<close>

definition model_name :: "string \<Rightarrow> string \<Rightarrow> string option" where
  "model_name head tail =
     (let pick = (case find_all match_model head of
          m # _ \<Rightarrow> Some m
        | [] \<Rightarrow> (case find_all match_model tail of [] \<Rightarrow> None | ms \<Rightarrow> Some (last ms)))
      in map_option (take max_model_len) pick)"

definition attrs :: "usage \<Rightarrow> usage_attrs" where
  "attrs u = (let t = tail_bytes u in
     \<lparr>ua_model = model_name (us_head u) t,
      ua_prompt_tokens = last_int t [''prompt_tokens'', ''prompt_n''],
      ua_completion_tokens = last_int t [''completion_tokens'', ''predicted_n''],
      ua_ttft_ms = (if us_first_at u = 0 then None else Some (milliseconds (t_sub (us_first_at u) (us_start u))))\<rparr>)"

definition streamed_response :: "string \<Rightarrow> bool" where
  "streamed_response content_type = has_prefix (to_lower content_type) ''text/event-stream''"

subsection \<open>What the tap keeps\<close>

lemma last_bytes_append: "n \<le> length b \<Longrightarrow> last_bytes n (a @ b) = last_bytes n b"
  by (simp add: last_bytes_def)

lemma last_bytes_all: "length b \<le> n \<Longrightarrow> last_bytes n b = b"
  by (simp add: last_bytes_def)

lemma length_last_bytes [simp]: "length (last_bytes n b) = min n (length b)"
  by (auto simp: last_bytes_def)

lemma last_bytes_suffix: "\<exists>a. b = a @ last_bytes n b"
  unfolding last_bytes_def by (metis append_take_drop_id)

text \<open>The head is the start of what was seen; the tail is its end, at least the last 8 KiB of it.\<close>

definition tap_ok :: "usage \<Rightarrow> string \<Rightarrow> bool" where
  "tap_ok u b \<longleftrightarrow> us_head u = take usage_head_bytes b \<and> (\<exists>a. b = a @ us_tail u)
     \<and> (us_tail u = b \<or> usage_tail_bytes \<le> length (us_tail u)) \<and> length (us_tail u) \<le> 2 * usage_tail_bytes"

lemma tap_ok_new: "tap_ok (new_usage t) ''''"
  by (simp add: tap_ok_def new_usage_def)

lemma tap_ok_observe:
  assumes "tap_ok u b" shows "tap_ok (usage_observe now p u) (b @ p)"
proof (cases "p = ''''")
  case True
  then show ?thesis using assms by (simp add: usage_observe_def)
next
  case False
  let ?t = "us_tail u @ p" and ?v = "usage_observe now p u"
  have hd: "us_head ?v = take usage_head_bytes (b @ p)"
    using assms False by (auto simp: tap_ok_def usage_observe_def Let_def min_def)
  have tl: "us_tail ?v = (if 2 * usage_tail_bytes < length ?t then last_bytes usage_tail_bytes ?t else ?t)"
    using False by (simp add: usage_observe_def Let_def)
  obtain a where a: "b @ p = a @ ?t" using assms by (auto simp: tap_ok_def)
  obtain a' where a': "?t = a' @ last_bytes usage_tail_bytes ?t" using last_bytes_suffix by blast
  have "b @ p = (a @ a') @ last_bytes usage_tail_bytes ?t" using a a' by (metis append.assoc)
  then have "\<exists>a. b @ p = a @ us_tail ?v" using a tl by metis
  moreover have "us_tail ?v = b @ p \<or> usage_tail_bytes \<le> length (us_tail ?v)"
    using assms tl by (auto simp: tap_ok_def)
  moreover have "length (us_tail ?v) \<le> 2 * usage_tail_bytes"
    using tl by simp
  ultimately show ?thesis using hd by (simp add: tap_ok_def)
qed

lemma tap_ok_tail: "tap_ok u b \<Longrightarrow> tail_bytes u = last_bytes usage_tail_bytes b"
  by (auto simp: tap_ok_def tail_bytes_def last_bytes_append last_bytes_all)

definition observe_all :: "(time \<times> string) list \<Rightarrow> usage \<Rightarrow> usage" where
  "observe_all cs u = fold (\<lambda>(now, p). usage_observe now p) cs u"

lemma observe_all_ok: "tap_ok u b \<Longrightarrow> tap_ok (observe_all cs u) (b @ concat (map snd cs))"
proof (induction cs arbitrary: u b)
  case (Cons c cs)
  then show ?case
    using Cons.IH [OF tap_ok_observe [OF Cons.prems, of "fst c" "snd c"]] by (simp add: observe_all_def case_prod_unfold)
qed (simp add: observe_all_def)

lemma observe_times:
  "us_start (usage_observe now p u) = us_start u"
  "us_first_at (usage_observe now p u) = (if p \<noteq> '''' \<and> us_first_at u = 0 then now else us_first_at u)"
  by (simp_all add: usage_observe_def Let_def)

lemma observe_first:
  "\<forall>(now, p) \<in> set cs. now \<noteq> 0 \<Longrightarrow> us_start (observe_all cs u) = us_start u \<and>
   us_first_at (observe_all cs u) = (if us_first_at u \<noteq> 0 then us_first_at u
     else (case filter (\<lambda>(now, p). p \<noteq> '''') cs of [] \<Rightarrow> 0 | (now, _) # _ \<Rightarrow> now))"
proof (induction cs arbitrary: u)
  case (Cons c cs)
  then have "us_start (observe_all cs (usage_observe (fst c) (snd c) u)) = us_start (usage_observe (fst c) (snd c) u)
    \<and> us_first_at (observe_all cs (usage_observe (fst c) (snd c) u))
      = (if us_first_at (usage_observe (fst c) (snd c) u) \<noteq> 0 then us_first_at (usage_observe (fst c) (snd c) u)
         else (case filter (\<lambda>(now, p). p \<noteq> '''') cs of [] \<Rightarrow> 0 | (now, _) # _ \<Rightarrow> now))"
    by simp
  then show ?case using Cons.prems by (auto simp: observe_all_def observe_times case_prod_unfold)
qed (simp add: observe_all_def)

text \<open>C35. The log line of a request does not depend on how its response arrived: however the body is cut into
  chunks, the model and the token counts are those of its first 4 KiB and last 8 KiB, the time to the first
  byte is that of the first chunk with any, and no more than 20 KiB of the response is ever kept.\<close>

theorem usage_independent_of_chunks:
  fixes cs :: "(time \<times> string) list" and t :: time
  defines "u \<equiv> fold (\<lambda>(now, p). usage_observe now p) cs (new_usage t)" and "b \<equiv> concat (map snd cs)"
  assumes "\<forall>(now, p) \<in> set cs. now \<noteq> 0"
  shows "attrs u = \<lparr>ua_model = model_name (take 4096 b) (drop (length b - 8192) b),
      ua_prompt_tokens = last_int (drop (length b - 8192) b) [''prompt_tokens'', ''prompt_n''],
      ua_completion_tokens = last_int (drop (length b - 8192) b) [''completion_tokens'', ''predicted_n''],
      ua_ttft_ms = (case filter (\<lambda>(_, p). p \<noteq> '''') cs of [] \<Rightarrow> None
         | (now, _) # _ \<Rightarrow> Some (milliseconds (t_sub now t)))\<rparr>
    \<and> length (us_head u) + length (us_tail u) \<le> 20 * 1024"
proof -
  have u: "u = observe_all cs (new_usage t)" by (simp add: u_def observe_all_def)
  have ok: "tap_ok u b" using observe_all_ok [OF tap_ok_new, of cs t] by (simp add: u b_def)
  have nz: "now \<noteq> 0" if "filter (\<lambda>(_, p). p \<noteq> '''') cs = (now, q) # r" for now q r
  proof -
    have "(now, q) \<in> set (filter (\<lambda>(_, p). p \<noteq> '''') cs)" using that by simp
    then show ?thesis using assms(3) by auto
  qed
  have first: "us_start u = t" "us_first_at u = (case filter (\<lambda>(_, p). p \<noteq> '''') cs of [] \<Rightarrow> 0 | (now, _) # _ \<Rightarrow> now)"
    using observe_first [OF assms(3), of "new_usage t"] by (simp_all add: u new_usage_def)
  have tail: "tail_bytes u = drop (length b - 8192) b" and head: "us_head u = take 4096 b"
    using tap_ok_tail [OF ok] ok by (simp_all add: last_bytes_def tap_ok_def usage_tail_bytes_def usage_head_bytes_def)
  have len: "length (us_head u) + length (us_tail u) \<le> 20 * 1024"
    using ok by (auto simp: tap_ok_def usage_tail_bytes_def usage_head_bytes_def)
  show ?thesis
    using first nz len by (auto simp: attrs_def tail head Let_def split: list.split)
qed

definition demo_chunks :: "(time \<times> string) list" where
  "demo_chunks = [(5, CHR 0x22 # ''prompt_tok''), (6, ''ens'' @ [CHR 0x22, CHR '':''] @ '' 12,'')]"

theorem usage_independent_of_chunks_witness:
  "ua_prompt_tokens (attrs (fold (\<lambda>(now, p). usage_observe now p) demo_chunks (new_usage 4))) = Some 12"
proof -
  have h: "\<forall>(now, p) \<in> set demo_chunks. now \<noteq> 0" by (simp add: demo_chunks_def)
  have "last_int (concat (map snd demo_chunks)) [''prompt_tokens'', ''prompt_n''] = Some 12" by code_simp
  moreover have "length (concat (map snd demo_chunks)) - 8192 = 0" by (simp add: demo_chunks_def)
  ultimately show ?thesis using usage_independent_of_chunks [OF h, of 4] by simp
qed

end
