(* ===== verification/Proxy.thy ===== *)
theory Proxy
  imports Usage Api
begin

text \<open>
  Package \<open>internal/proxy\<close>, \<open>proxy.go\<close>: the inference listener. A request is one goroutine; what it does on
  the gate and on the accounting is a sequence of events, and the events of all requests, of their timers
  and of the controller interleave freely. The reverse proxy of the standard library is the source of the
  events of a response: a head, chunks, a failure before the head, a return, or a panic that aborts.
\<close>

record proxy_options =
  px_max_duration :: "dur option"
  px_token :: string
  px_require_token :: bool
  px_condition :: "condition option"

subsection \<open>Who may use the listener\<close>

definition trim_brackets :: "string \<Rightarrow> string" where
  "trim_brackets h = (let b = (\<lambda>c. c = CHR 0x5B \<or> c = CHR 0x5D) in rev (dropWhile b (rev (dropWhile b h))))"

definition loopback_host :: "string \<Rightarrow> bool" where
  "loopback_host hostport =
     (let h = trim_brackets (case split_host_port hostport of Some (h, _) \<Rightarrow> h | None \<Rightarrow> hostport)
      in equal_fold h ''localhost'' \<or> loopback_text h)"

definition loopback_peer :: "http_request \<Rightarrow> bool" where
  "loopback_peer r = (case split_host_port (rq_remote r) of Some (h, _) \<Rightarrow> loopback_text h | None \<Rightarrow> False)"

definition authorized :: "http_request \<Rightarrow> proxy_options \<Rightarrow> bool" where
  "authorized r p =
     (if px_token p \<noteq> '''' \<and> (\<not> loopback_peer r \<or> px_require_token p)
      then (let a = header_get r ''Authorization'' in has_prefix a ''Bearer '' \<and> drop (length ''Bearer '') a = px_token p)
      else loopback_host (rq_host r))"

subsection \<open>Refusals\<close>

record px_error =
  pe_error :: string
  pe_code :: string
  pe_condition :: condition
  pe_reason :: gotext
  pe_retry_after :: "time option"

record px_reply =
  pr_status :: int
  pr_condition :: "condition option"
  pr_retry_after :: "int option"
  pr_body :: px_error

definition plain_error :: "string \<Rightarrow> string \<Rightarrow> px_error" where
  "plain_error e c = \<lparr>pe_error = e, pe_code = c, pe_condition = NoCondition, pe_reason = lit '''', pe_retry_after = None\<rparr>"

definition reject_unavailable :: "time \<Rightarrow> closed \<Rightarrow> px_reply" where
  "reject_unavailable now c =
     \<lparr>pr_status = 503, pr_condition = Some (cd_condition c),
      pr_retry_after = (if cd_retry_after c = 0 then None
        else (let secs = \<lfloor>dur_seconds (t_sub (cd_retry_after c) now)\<rfloor> in if 0 < secs then Some secs else None)),
      pr_body = \<lparr>pe_error = ''inference worker unavailable'', pe_code = ''worker_unavailable'', pe_condition = cd_condition c,
        pe_reason = cd_reason c, pe_retry_after = (if cd_retry_after c = 0 then None else Some (cd_retry_after c))\<rparr>\<rparr>"

subsection \<open>One request\<close>

datatype px_outcome = OutOk | OutUpstreamError | OutClientError | OutForceClosed | OutTimeout

record exchange =
  ex_request :: http_request
  ex_start :: time
  ex_limit :: "dur option"
  ex_status :: int
  ex_tapped :: bool
  ex_usage :: usage
  ex_outcome :: "px_outcome option"

record proxy =
  py_gate :: gate
  py_live :: "(string \<times> exchange) list"
  py_finished :: "(string \<times> px_outcome) list"
  py_rejected :: nat

definition new_proxy :: proxy where
  "new_proxy = \<lparr>py_gate = new_gate, py_live = [], py_finished = [], py_rejected = 0\<rparr>"

datatype px_verdict = Refused px_reply | Forwarded ticket

definition new_exchange :: "proxy_options \<Rightarrow> time \<Rightarrow> http_request \<Rightarrow> exchange" where
  "new_exchange p now r = \<lparr>ex_request = r, ex_start = now,
     ex_limit = (case px_max_duration p of Some d \<Rightarrow> if 0 < d then Some d else None | None \<Rightarrow> None),
     ex_status = 0, ex_tapped = False, ex_usage = new_usage now, ex_outcome = None\<rparr>"

definition arrive :: "proxy_options \<Rightarrow> time \<Rightarrow> http_request \<Rightarrow> proxy \<Rightarrow> px_verdict \<times> proxy" where
  "arrive p now r s =
     (let cond = (case px_condition p of Some c \<Rightarrow> c | None \<Rightarrow> Unavailable) in
      if \<not> has_prefix (rq_path r) ''/v1/''
      then (Refused \<lparr>pr_status = 404, pr_condition = None, pr_retry_after = None, pr_body = plain_error ''not found'' ''not_found''\<rparr>, s)
      else if \<not> authorized r p
      then (Refused \<lparr>pr_status = 401, pr_condition = Some cond, pr_retry_after = None,
              pr_body = plain_error ''inference token required'' ''unauthorized''\<rparr>, s)
      else (case admit now (py_gate s) of
          (Inl c, g) \<Rightarrow> (Refused (reject_unavailable now c), s\<lparr>py_gate := g, py_rejected := py_rejected s + 1\<rparr>)
        | (Inr t, g) \<Rightarrow> (Forwarded t, s\<lparr>py_gate := g, py_live := py_live s @ [(tk_id t, new_exchange p now r)]\<rparr>)))"

text \<open>What goes to the runtime: to the upstream the gate was opened with, without the caller's credential.\<close>

definition forwarded_header :: "http_request \<Rightarrow> string \<Rightarrow> string list" where
  "forwarded_header r k = (if k = ''Authorization'' then [] else rq_header r k)"

definition write_header :: "int \<Rightarrow> exchange \<Rightarrow> exchange" where
  "write_header code x = (if ex_status x = 0 then x\<lparr>ex_status := code\<rparr> else x)"

definition response_head :: "string \<Rightarrow> string \<Rightarrow> int \<Rightarrow> exchange \<Rightarrow> exchange" where
  "response_head content_type encoding code x =
     write_header code (x\<lparr>ex_usage := (ex_usage x)\<lparr>us_streamed := streamed_response content_type\<rparr>, ex_tapped := (encoding = '''')\<rparr>)"

definition response_chunk :: "time \<Rightarrow> string \<Rightarrow> exchange \<Rightarrow> exchange" where
  "response_chunk now b x =
     write_header 200 (if ex_tapped x then x\<lparr>ex_usage := usage_observe now b (ex_usage x)\<rparr> else x)"

text \<open>The outcome of a request whose handler returned, and of one that was cut.\<close>

definition outcome_of_status :: "int \<Rightarrow> px_outcome" where
  "outcome_of_status st = (if 500 \<le> st then OutUpstreamError else if 400 \<le> st then OutClientError else OutOk)"

definition outcome_of_cut :: "cancel_cause option \<Rightarrow> px_outcome" where
  "outcome_of_cut c = (if c = Some ErrMaxDuration then OutTimeout else OutForceClosed)"

definition cause_of :: "string \<Rightarrow> gate \<Rightarrow> cancel_cause option" where
  "cause_of i g = (case map_of (gt_active g) i of Some t \<Rightarrow> tk_cause t | None \<Rightarrow> None)"

definition cancel_request :: "cancel_cause \<Rightarrow> string \<Rightarrow> gate \<Rightarrow> gate" where
  "cancel_request c i g = g\<lparr>gt_active := map (\<lambda>(j, t). (j, if j = i then cancel c t else t)) (gt_active g)\<rparr>"

definition edit_exchange :: "string \<Rightarrow> (exchange \<Rightarrow> exchange) \<Rightarrow> proxy \<Rightarrow> proxy" where
  "edit_exchange i f s = s\<lparr>py_live := map (\<lambda>(j, x). (j, if j = i then f x else x)) (py_live s)\<rparr>"

text \<open>The deferred function: the observer hears of the request, then the gate gives its place back.\<close>

definition account :: "string \<Rightarrow> px_outcome \<Rightarrow> proxy \<Rightarrow> proxy" where
  "account i out s = (edit_exchange i (\<lambda>x. x\<lparr>ex_outcome := Some out\<rparr>) s)\<lparr>py_finished := py_finished s @ [(i, out)]\<rparr>"

definition give_back :: "string \<Rightarrow> proxy \<Rightarrow> proxy" where
  "give_back i s = s\<lparr>py_gate := release i (py_gate s), py_live := filter (\<lambda>(j, _). j \<noteq> i) (py_live s)\<rparr>"

subsection \<open>Events\<close>

datatype px_event = EvArrive proxy_options time http_request
  | EvHead string string string int | EvChunk string time string | EvUpstreamFailed string
  | EvReturned string | EvPanicked string | EvReleased string
  | EvTimer string time | EvClientGone string | EvControl gate_op

definition serving :: "string \<Rightarrow> proxy \<Rightarrow> exchange option" where
  "serving i s = (case map_of (py_live s) i of Some x \<Rightarrow> if ex_outcome x = None then Some x else None | None \<Rightarrow> None)"

definition control_op :: "gate_op \<Rightarrow> bool" where
  "control_op op = (case op of OpAdmit _ \<Rightarrow> False | OpRelease _ \<Rightarrow> False | _ \<Rightarrow> True)"

text \<open>An event that is not possible in a state is \<open>None\<close>.\<close>

definition px_step :: "px_event \<Rightarrow> proxy \<Rightarrow> proxy option" where
  "px_step e s = (case e of
      EvArrive p now r \<Rightarrow> Some (snd (arrive p now r s))
    | EvHead i ct enc code \<Rightarrow> map_option (\<lambda>_. edit_exchange i (response_head ct enc code) s) (serving i s)
    | EvChunk i now b \<Rightarrow> map_option (\<lambda>_. edit_exchange i (response_chunk now b) s) (serving i s)
    | EvUpstreamFailed i \<Rightarrow> map_option (\<lambda>_.
        (let c = cause_of i (py_gate s) in
         if c = Some ErrPreempted \<or> c = Some ErrMaxDuration then account i (outcome_of_cut c) s
         else edit_exchange i (write_header 502) s)) (serving i s)
    | EvReturned i \<Rightarrow> map_option (\<lambda>x. account i (outcome_of_status (ex_status x)) s) (serving i s)
    | EvPanicked i \<Rightarrow> map_option (\<lambda>_. account i (outcome_of_cut (cause_of i (py_gate s))) s) (serving i s)
    | EvReleased i \<Rightarrow> (case map_of (py_live s) i of
          Some x \<Rightarrow> (if ex_outcome x = None then None else Some (give_back i s)) | None \<Rightarrow> None)
    | EvTimer i now \<Rightarrow> (case serving i s of
          Some x \<Rightarrow> (case ex_limit x of
              Some d \<Rightarrow> (if ex_start x + d \<le> now then Some (s\<lparr>py_gate := cancel_request ErrMaxDuration i (py_gate s)\<rparr>) else None)
            | None \<Rightarrow> None)
        | None \<Rightarrow> None)
    | EvClientGone i \<Rightarrow> map_option (\<lambda>_. s\<lparr>py_gate := cancel_request CauseNil i (py_gate s)\<rparr>) (serving i s)
    | EvControl op \<Rightarrow> (if control_op op then Some (s\<lparr>py_gate := fst (gate_step op (py_gate s))\<rparr>) else None))"

fun px_steps :: "px_event list \<Rightarrow> proxy \<Rightarrow> proxy option" where
  "px_steps [] s = Some s"
| "px_steps (e # es) s = (case px_step e s of None \<Rightarrow> None | Some s' \<Rightarrow> px_steps es s')"

subsection \<open>Accounting\<close>

text \<open>Requests are counted by the sequence number of the gate: each is still being served or has been told to
  the observer, once.\<close>

definition unaccounted :: "proxy \<Rightarrow> string list" where
  "unaccounted s = map fst (filter (\<lambda>(_, x). ex_outcome x = None) (py_live s))"

definition px_ok :: "proxy \<Rightarrow> bool" where
  "px_ok s \<longleftrightarrow> gate_ok (py_gate s) \<and> map fst (py_live s) = active_ids (py_gate s)
     \<and> distinct (map fst (py_finished s))
     \<and> (\<forall>i \<in> fst ` set (py_finished s). \<exists>ms n. i = request_id ms n \<and> n \<le> unat (gt_seq (py_gate s)))
     \<and> set (unaccounted s) \<inter> fst ` set (py_finished s) = {}
     \<and> (\<forall>(i, x) \<in> set (py_live s). \<forall>out. ex_outcome x = Some out \<longrightarrow> (i, out) \<in> set (py_finished s))
     \<and> length (py_finished s) + length (unaccounted s) = unat (gt_seq (py_gate s))"

lemma px_ok_new: "px_ok new_proxy"
  by (simp add: px_ok_def new_proxy_def gate_ok_new unaccounted_def active_ids_def) (simp add: new_gate_def)

lemma gate_frame_ok:
  "px_ok s \<Longrightarrow> gate_ok g \<Longrightarrow> active_ids g = active_ids (py_gate s) \<Longrightarrow> gt_seq g = gt_seq (py_gate s) \<Longrightarrow> px_ok (s\<lparr>py_gate := g\<rparr>)"
  by (simp add: px_ok_def unaccounted_def)

lemma cancel_frame:
  assumes "gate_ok g"
  shows "gate_ok (cancel_request c i g) \<and> active_ids (cancel_request c i g) = active_ids g \<and> gt_seq (cancel_request c i g) = gt_seq g"
proof -
  have "tk_id (cancel c t) = tk_id t" for t by (simp add: cancel_def split: option.split)
  moreover have "active_ids (cancel_request c i g) = active_ids g"
    by (simp add: cancel_request_def active_ids_def case_prod_unfold comp_def)
  ultimately show ?thesis
    using assms by (auto simp: gate_ok_def cancel_request_def list_all_iff)
qed

lemma control_frame:
  assumes "gate_ok g" "control_op op"
  shows "gate_ok (fst (gate_step op g)) \<and> active_ids (fst (gate_step op g)) = active_ids g \<and> gt_seq (fst (gate_step op g)) = gt_seq g"
proof -
  have "snd (gate_step op g) = None" using assms(2) by (auto simp: control_op_def gate_step_def split: gate_op.splits)
  then show ?thesis
    using gate_step_silent [OF assms(1), of op "fst (gate_step op g)"] assms(2)
    by (cases op) (auto simp: after_op_def control_op_def prod_eq_iff)
qed

text \<open>An edit that leaves the outcomes alone.\<close>

lemma edit_ok:
  assumes "px_ok s" "\<And>x. ex_outcome (f x) = ex_outcome x" shows "px_ok (edit_exchange i f s)"
proof -
  have "map fst (py_live (edit_exchange i f s)) = map fst (py_live s)"
    by (simp add: edit_exchange_def case_prod_unfold comp_def)
  moreover have "unaccounted (edit_exchange i f s) = unaccounted s"
  proof -
    have "map fst (filter (\<lambda>(_, x). ex_outcome x = None) (map (\<lambda>(j, x). (j, if j = i then f x else x)) xs))
        = map fst (filter (\<lambda>(_, x). ex_outcome x = None) xs)" for xs
      by (induction xs) (auto simp: assms(2) split: if_splits)
    then show ?thesis by (simp add: unaccounted_def edit_exchange_def)
  qed
  moreover have "\<forall>(j, x) \<in> set (py_live (edit_exchange i f s)). \<forall>out. ex_outcome x = Some out \<longrightarrow> (j, out) \<in> set (py_finished s)"
    using assms by (fastforce simp: px_ok_def edit_exchange_def split: if_splits)
  ultimately show ?thesis
    using assms(1) by (simp add: px_ok_def) (simp add: edit_exchange_def)
qed

lemma serving_unaccounted:
  assumes "px_ok s" "serving i s = Some x"
  shows "i \<in> set (unaccounted s)"
  using assms(2) by (force simp: serving_def unaccounted_def split: option.splits if_splits dest: map_of_SomeD)

lemma live_distinct: "px_ok s \<Longrightarrow> distinct (map fst (py_live s))"
  by (simp add: px_ok_def gate_ok_def)

lemma length_without: "distinct xs \<Longrightarrow> i \<in> set xs \<Longrightarrow> Suc (length (filter (\<lambda>j. j \<noteq> i) xs)) = length xs"
proof (induction xs)
  case (Cons x xs)
  have "filter (\<lambda>j. j \<noteq> i) ys = ys" if "i \<notin> set ys" for ys using that by (induction ys) auto
  then show ?case using Cons by (cases "x = i") auto
qed simp

lemma account_ok:
  assumes ok: "px_ok s" and sv: "serving i s = Some x" shows "px_ok (account i out s)"
proof -
  let ?s = "account i out s"
  have d: "distinct (map fst (py_live s))" using live_distinct [OF ok] .
  have i: "i \<in> set (unaccounted s)" using serving_unaccounted [OF ok sv] .
  have live: "map fst (py_live ?s) = map fst (py_live s)" "py_gate ?s = py_gate s" "py_finished ?s = py_finished s @ [(i, out)]"
    by (simp_all add: account_def edit_exchange_def case_prod_unfold comp_def)
  have u: "unaccounted ?s = filter (\<lambda>j. j \<noteq> i) (unaccounted s)"
  proof -
    have "map fst (filter (\<lambda>(_, x). ex_outcome x = None) (map (\<lambda>(j, x). (j, if j = i then x\<lparr>ex_outcome := Some out\<rparr> else x)) xs))
        = filter (\<lambda>j. j \<noteq> i) (map fst (filter (\<lambda>(_, x). ex_outcome x = None) xs))" for xs
      by (induction xs) auto
    then show ?thesis by (simp add: unaccounted_def account_def edit_exchange_def)
  qed
  have du: "distinct (unaccounted s)" using d by (auto simp: unaccounted_def distinct_map intro: inj_on_subset)
  have "length (filter (\<lambda>j. j \<noteq> i) (unaccounted s)) + 1 = length (unaccounted s)"
    using length_without [OF du i] by simp
  then have len: "Suc (length (py_finished s) + length (filter (\<lambda>j. j \<noteq> i) (unaccounted s))) = unat (gt_seq (py_gate s))"
    using ok by (simp add: px_ok_def)
  have "i \<in> set (map fst (py_live s))" using i by (auto simp: unaccounted_def)
  then have "i \<in> set (active_ids (py_gate s))" using ok unfolding px_ok_def by metis
  then have id: "\<exists>ms n. i = request_id ms n \<and> n \<le> unat (gt_seq (py_gate s))" using ok by (simp add: px_ok_def gate_ok_def)
  have new: "i \<notin> fst ` set (py_finished s)" using ok i by (auto simp: px_ok_def)
  have told: "(j, o') \<in> set (py_finished ?s)" if "(j, y) \<in> set (py_live ?s)" "ex_outcome y = Some o'" for j y o'
  proof -
    have "(j, y) \<in> (\<lambda>(j, x). (j, if j = i then x\<lparr>ex_outcome := Some out\<rparr> else x)) ` set (py_live s)"
      using that(1) by (simp add: account_def edit_exchange_def)
    then obtain z where z: "z \<in> set (py_live s)" "(j, y) = (case z of (j, x) \<Rightarrow> (j, if j = i then x\<lparr>ex_outcome := Some out\<rparr> else x))"
      by blast
    obtain x0 where x0: "(j, x0) \<in> set (py_live s)" "y = (if j = i then x0\<lparr>ex_outcome := Some out\<rparr> else x0)"
    proof (cases z)
      case (Pair k x)
      then show ?thesis using z that [of x] by simp
    qed
    show ?thesis
    proof (cases "j = i")
      case True
      then show ?thesis using x0(2) that(2) live(3) by simp
    next
      case False
      then have "(j, o') \<in> set (py_finished s)" using ok x0 that(2) by (force simp: px_ok_def)
      then show ?thesis using live(3) by simp
    qed
  qed
  show ?thesis
    unfolding px_ok_def live(1,2) u
  proof (intro conjI)
    show "set (filter (\<lambda>j. j \<noteq> i) (unaccounted s)) \<inter> fst ` set (py_finished ?s) = {}"
      using ok by (auto simp: live(3) px_ok_def)
    show "\<forall>k \<in> fst ` set (py_finished ?s). \<exists>ms n. k = request_id ms n \<and> n \<le> unat (gt_seq (py_gate s))"
      using ok id by (simp add: live(3) px_ok_def)
    show "length (py_finished ?s) + length (filter (\<lambda>j. j \<noteq> i) (unaccounted s)) = unat (gt_seq (py_gate s))"
      using len by (simp add: live(3))
    show "distinct (map fst (py_finished ?s))" using ok new by (simp add: live(3) px_ok_def)
    show "\<forall>(j, y) \<in> set (py_live ?s). \<forall>o'. ex_outcome y = Some o' \<longrightarrow> (j, o') \<in> set (py_finished ?s)"
      using told by blast
  qed (use ok in \<open>simp_all add: px_ok_def\<close>)
qed

lemma give_back_ok:
  assumes ok: "px_ok s" and x: "map_of (py_live s) i = Some x" "ex_outcome x \<noteq> None" shows "px_ok (give_back i s)"
proof -
  have d: "distinct (map fst (py_live s))" using live_distinct [OF ok] .
  have "gate_step (OpRelease i) (py_gate s) = (release i (py_gate s), None)" by (simp add: gate_step_def)
  from gate_step_silent [OF _ this] ok have g: "gate_ok (release i (py_gate s))" "gt_seq (release i (py_gate s)) = gt_seq (py_gate s)"
    "active_ids (release i (py_gate s)) = filter (\<lambda>j. j \<noteq> i) (active_ids (py_gate s))"
    by (auto simp: px_ok_def after_op_def)
  have live: "map fst (py_live (give_back i s)) = filter (\<lambda>j. j \<noteq> i) (map fst (py_live s))"
    by (simp add: give_back_def filter_map comp_def case_prod_unfold)
  have "i \<notin> set (unaccounted s)"
  proof
    assume "i \<in> set (unaccounted s)"
    then obtain b where "(i, b) \<in> set (py_live s)" "ex_outcome b = None" by (auto simp: unaccounted_def)
    then have "b = x" using eq_key_imp_eq_value [OF d _ map_of_SomeD [OF x(1)]] by blast
    then show False using \<open>ex_outcome b = None\<close> x(2) by simp
  qed
  then have u: "unaccounted (give_back i s) = unaccounted s"
  proof -
    have "map fst (filter (\<lambda>(_, x). ex_outcome x = None) (filter (\<lambda>(j, _). j \<noteq> i) xs))
        = filter (\<lambda>j. j \<noteq> i) (map fst (filter (\<lambda>(_, x). ex_outcome x = None) xs))" for xs :: "(string \<times> exchange) list"
      by (induction xs) auto
    moreover have "filter (\<lambda>j. j \<noteq> i) (unaccounted s) = unaccounted s"
      using \<open>i \<notin> set (unaccounted s)\<close> by (intro filter_True) auto
    ultimately show ?thesis by (simp add: unaccounted_def give_back_def del: filter_filter)
  qed
  have "set (py_live (give_back i s)) \<subseteq> set (py_live s)" by (auto simp: give_back_def)
  moreover have "\<forall>(j, y) \<in> set (py_live s). \<forall>o'. ex_outcome y = Some o' \<longrightarrow> (j, o') \<in> set (py_finished s)"
    using ok by (simp add: px_ok_def)
  ultimately have "\<forall>(j, y) \<in> set (py_live (give_back i s)). \<forall>o'. ex_outcome y = Some o' \<longrightarrow> (j, o') \<in> set (py_finished s)"
    by blast
  moreover have "py_gate (give_back i s) = release i (py_gate s)" "py_finished (give_back i s) = py_finished s"
    by (simp_all add: give_back_def)
  ultimately show ?thesis
    using ok g live u by (simp add: px_ok_def)
qed

lemma arrive_ok:
  assumes ok: "px_ok s" and room: "unat (gt_seq (py_gate s)) + 1 < 2 ^ 64"
  shows "px_ok (snd (arrive p now r s)) \<and> unat (gt_seq (py_gate (snd (arrive p now r s)))) \<le> unat (gt_seq (py_gate s)) + 1"
proof (cases "has_prefix (rq_path r) ''/v1/'' \<and> authorized r p")
  case False
  then show ?thesis using ok by (auto simp: arrive_def Let_def)
next
  case True
  have gk: "gate_ok (py_gate s)" using ok by (simp add: px_ok_def)
  show ?thesis
  proof (cases "gt_open (py_gate s)")
    case False
    then have a: "snd (arrive p now r s) = s\<lparr>py_gate := (py_gate s)\<lparr>gt_rejected := gt_rejected (py_gate s) + 1\<rparr>, py_rejected := py_rejected s + 1\<rparr>"
      using True by (simp add: arrive_def admit_def Let_def)
    have "px_ok (s\<lparr>py_gate := (py_gate s)\<lparr>gt_rejected := gt_rejected (py_gate s) + 1\<rparr>\<rparr>)"
      using gk by (intro gate_frame_ok [OF ok]) (simp_all add: gate_ok_def active_ids_def)
    then show ?thesis by (simp add: a px_ok_def unaccounted_def)
  next
    case opn: True
    from admit_open [OF gk room opn, of now] obtain t g where t: "admit now (py_gate s) = (Inr t, g)"
      "gt_active g = gt_active (py_gate s) @ [(tk_id t, t)]" "tk_id t = request_id (unix_milli now) (unat (gt_seq g))"
      "gt_seq g = gt_seq (py_gate s) + 1" by blast
    have g: "gate_ok g" by (rule gate_ok_admitted [OF gk room t(2,4,3)])
    have sq: "unat (gt_seq g) = unat (gt_seq (py_gate s)) + 1" using seq_next [OF room] t(4) by simp
    have a: "snd (arrive p now r s) = s\<lparr>py_gate := g, py_live := py_live s @ [(tk_id t, new_exchange p now r)]\<rparr>"
      using True t(1) by (simp add: arrive_def Let_def)
    have fresh: "tk_id t \<notin> fst ` set (py_finished s)"
    proof
      assume "tk_id t \<in> fst ` set (py_finished s)"
      then obtain ms n where "tk_id t = request_id ms n" "n \<le> unat (gt_seq (py_gate s))" using ok by (auto simp: px_ok_def)
      then show False using t(3) sq request_id_inj [of "unix_milli now" "unat (gt_seq g)" ms n] by simp
    qed
    have u: "unaccounted (s\<lparr>py_gate := g, py_live := py_live s @ [(tk_id t, new_exchange p now r)]\<rparr>) = unaccounted s @ [tk_id t]"
      by (simp add: unaccounted_def new_exchange_def)
    have old: "\<forall>k \<in> fst ` set (py_finished s). \<exists>ms n. k = request_id ms n \<and> n \<le> unat (gt_seq g)"
      using ok sq unfolding px_ok_def by (metis le_SucI Suc_eq_plus1)
    have "\<forall>(j, x) \<in> set (py_live s @ [(tk_id t, new_exchange p now r)]). \<forall>out. ex_outcome x = Some out \<longrightarrow> (j, out) \<in> set (py_finished s)"
      using ok by (auto simp: px_ok_def new_exchange_def)
    moreover have "map fst (py_live s) = active_ids (py_gate s)" "distinct (map fst (py_finished s))"
      "set (unaccounted s) \<inter> fst ` set (py_finished s) = {}"
      "length (py_finished s) + length (unaccounted s) = unat (gt_seq (py_gate s))" using ok by (simp_all add: px_ok_def)
    ultimately show ?thesis
      unfolding a px_ok_def u using g sq fresh old t(2) by (simp add: active_ids_def)
  qed
qed

lemma px_step_ok:
  assumes ok: "px_ok s" and room: "unat (gt_seq (py_gate s)) + 1 < 2 ^ 64" and st: "px_step e s = Some s'"
  shows "px_ok s' \<and> unat (gt_seq (py_gate s')) \<le> unat (gt_seq (py_gate s)) + 1"
proof -
  have gk: "gate_ok (py_gate s)" using ok by (simp add: px_ok_def)
  have sq: "gt_seq (py_gate (edit_exchange i f s)) = gt_seq (py_gate s)" "gt_seq (py_gate (account i out s)) = gt_seq (py_gate s)"
    "gt_seq (py_gate (give_back i s)) = gt_seq (py_gate s)" for i f out
    by (simp_all add: edit_exchange_def account_def give_back_def release_def signal_gate_def)
  have cut: "px_ok (s\<lparr>py_gate := cancel_request c i (py_gate s)\<rparr>)" "gt_seq (cancel_request c i (py_gate s)) = gt_seq (py_gate s)" for c i
    using cancel_frame [OF gk] gate_frame_ok [OF ok] by auto
  have o: "ex_outcome (response_head ct enc code x) = ex_outcome x" "ex_outcome (response_chunk now b x) = ex_outcome x"
    "ex_outcome (write_header code x) = ex_outcome x" for ct enc code x now b
    by (simp_all add: response_head_def response_chunk_def write_header_def)
  show ?thesis
  proof (cases e)
    case (EvArrive p now r)
    then show ?thesis using st arrive_ok [OF ok room] by (auto simp: px_step_def)
  next
    case (EvControl op)
    then show ?thesis using st control_frame [OF gk, of op] gate_frame_ok [OF ok] by (auto simp: px_step_def split: if_splits)
  next
    case (EvReleased i)
    then show ?thesis using st give_back_ok [OF ok] by (auto simp: px_step_def sq split: option.splits if_splits)
  next
    case (EvTimer i now)
    then show ?thesis using st cut by (auto simp: px_step_def split: option.splits if_splits)
  next
    case (EvClientGone i)
    then show ?thesis using st cut by (auto simp: px_step_def)
  qed (use st in \<open>auto simp: px_step_def sq Let_def intro!: edit_ok [OF ok] account_ok [OF ok] simp: o split: if_splits\<close>)
qed

lemma px_steps_ok:
  "px_ok s \<Longrightarrow> unat (gt_seq (py_gate s)) + length es < 2 ^ 64 \<Longrightarrow> px_steps es s = Some s' \<Longrightarrow> px_ok s'"
proof (induction es arbitrary: s)
  case (Cons e es)
  then obtain t where t: "px_step e s = Some t" "px_steps es t = Some s'" by (auto split: option.splits)
  have "px_ok t \<and> unat (gt_seq (py_gate t)) \<le> unat (gt_seq (py_gate s)) + 1"
    using px_step_ok [OF Cons.prems(1) _ t(1)] Cons.prems(2) by simp
  then show ?case using Cons.IH [OF _ _ t(2)] Cons.prems(2) by simp
qed simp

text \<open>C27. Every request the proxy admits is accounted for once: in any interleaving of requests, responses,
  failures, timeouts, disconnects and operations of the controller (fewer than \<open>2 ^ 64\<close> of them), the
  admitted requests are those told to the observer, each once, and those still being served, and a request
  gives its place in the gate back only after it was accounted for. So when the gate has no active request,
  which is what ends a drain, every request ever admitted has been accounted for.\<close>

theorem requests_accounted_once:
  assumes "px_steps es new_proxy = Some s" "length es < 2 ^ 64"
  shows "distinct (map fst (py_finished s))
    \<and> set (active_ids (py_gate s)) = set (map fst (py_live s))
    \<and> unat (gt_seq (py_gate s)) = length (py_finished s) + length (filter (\<lambda>(_, x). ex_outcome x = None) (py_live s))
    \<and> (gt_active (py_gate s) = [] \<longrightarrow> length (py_finished s) = unat (gt_seq (py_gate s)))"
proof -
  have "unat (gt_seq (py_gate new_proxy)) = 0" by (simp add: new_proxy_def new_gate_def)
  then have ok: "px_ok s" using px_steps_ok [OF px_ok_new _ assms(1)] assms(2) by simp
  have n: "length (unaccounted s) = length (filter (\<lambda>(_, x). ex_outcome x = None) (py_live s))"
    by (simp add: unaccounted_def)
  have e: "py_live s = []" if "gt_active (py_gate s) = []" using ok that by (simp add: px_ok_def active_ids_def)
  show ?thesis using ok n e by (auto simp: px_ok_def)
qed

definition demo_px_options :: proxy_options where
  "demo_px_options = \<lparr>px_max_duration = Some hour, px_token = '''', px_require_token = False, px_condition = None\<rparr>"

definition demo_completion :: http_request where
  "demo_completion = \<lparr>rq_method = ''POST'', rq_path = ''/v1/chat/completions'', rq_remote = ''127.0.0.1:50999'',
     rq_host = ''localhost:8480'', rq_tls = False, rq_header = (\<lambda>_. []), rq_query = (\<lambda>_. []), rq_body = BodyBytes ''''\<rparr>"

definition demo_px_events :: "px_event list" where
  "demo_px_events = [EvControl (OpOpen ''http://127.0.0.1:8081''), EvArrive demo_px_options unix_epoch demo_completion,
     EvHead ''bw-0-1'' ''text/event-stream'' '''' 200, EvControl (OpClose zero_closed), EvReturned ''bw-0-1'', EvReleased ''bw-0-1'']"

lemma demo_id: "gt_seq g = 0 \<Longrightarrow> new_id unix_epoch g = (''bw-0-1'', g\<lparr>gt_seq := 1\<rparr>)"
proof -
  assume g: "gt_seq g = 0"
  have "digit36 0 = CHR ''0''" "digit36 1 = CHR ''1''" by (simp_all add: digit36_def char_of_def bit_iff_odd)
  then have "format36 0 = ''0''" "format36 1 = ''1''" by (simp_all add: format36.simps [of 0] format36.simps [of "Suc 0"])
  moreover have "unix_milli unix_epoch = 0" by (simp add: unix_milli_def unix_epoch_def)
  ultimately show ?thesis using g by (simp add: new_id_def Let_def format_int36_def)
qed

theorem requests_accounted_once_witness:
  "\<exists>s. px_steps demo_px_events new_proxy = Some s \<and> length (py_finished s) = 1"
proof -
  have a: "authorized demo_completion demo_px_options" "has_prefix (rq_path demo_completion) ''/v1/''" by code_simp+
  let ?i = "''bw-0-1''" and ?x = "new_exchange demo_px_options unix_epoch demo_completion"
  let ?g = "open_gate ''http://127.0.0.1:8081'' new_gate"
  obtain t g where g: "admit unix_epoch ?g = (Inr t, g)" "tk_id t = ?i" "gt_active g = [(?i, t)]" "gt_seq g = 1"
    using demo_id [of ?g] by (simp add: open_gate_def new_gate_def signal_gate_def admit_def put_active_def Let_def)
  let ?s2 = "\<lparr>py_gate = g, py_live = [(?i, ?x)], py_finished = [], py_rejected = 0\<rparr>"
  have x: "ex_outcome ?x = None" "ex_status ?x = 0" by (simp_all add: new_exchange_def)
  have 1: "px_step (EvControl (OpOpen ''http://127.0.0.1:8081'')) new_proxy = Some (new_proxy\<lparr>py_gate := ?g\<rparr>)"
    by (simp add: px_step_def control_op_def gate_step_def new_proxy_def)
  have 2: "px_step (EvArrive demo_px_options unix_epoch demo_completion) (new_proxy\<lparr>py_gate := ?g\<rparr>) = Some ?s2"
    using a g by (simp add: px_step_def arrive_def new_proxy_def Let_def)
  have "\<exists>s. px_steps (drop 2 demo_px_events) ?s2 = Some s \<and> gt_active (py_gate s) = [] \<and> gt_seq (py_gate s) = 1"
    using g x by (simp add: demo_px_events_def px_step_def control_op_def gate_step_def close_gate_def serving_def edit_exchange_def
        response_head_def write_header_def account_def give_back_def release_def signal_gate_def)
  moreover have "px_steps demo_px_events new_proxy = px_steps (drop 2 demo_px_events) ?s2"
    by (simp add: demo_px_events_def 1 2)
  ultimately have "(case px_steps demo_px_events new_proxy of
      Some s \<Rightarrow> gt_active (py_gate s) = [] \<and> gt_seq (py_gate s) = 1 | None \<Rightarrow> False)"
    by (auto split: option.splits)
  then obtain s where s: "px_steps demo_px_events new_proxy = Some s" "gt_active (py_gate s) = []" "gt_seq (py_gate s) = 1"
    by (auto split: option.splits)
  have "length demo_px_events < 2 ^ 64" by (simp add: demo_px_events_def)
  from requests_accounted_once [OF s(1) this] s(2) have "length (py_finished s) = unat (gt_seq (py_gate s))" by blast
  then show ?thesis using s by simp
qed

end
