(* ===== verification/Supervisor.thy ===== *)
theory Supervisor
  imports Observe Transition_System "HOL-Library.Multiset"
begin

text \<open>
  Package \<open>internal/winsvc\<close>: \<open>winsvc.go\<close> (the translation of control requests) and \<open>supervisor.go\<close> (the
  \<open>plane\<close> between the control handler of the service control manager and the handler that runs the
  service). The two channels are queues; the goroutines are the control handlers, the supervisor's
  \<open>select\<close> loop and the handler, and their steps interleave freely.
\<close>

definition default_stop_timeout :: dur where "default_stop_timeout = 20 * second"
definition default_shutdown_timeout :: dur where "default_shutdown_timeout = 5 * second"
definition default_preshutdown_timeout :: dur where "default_preshutdown_timeout = 30 * second"
definition default_suspend_budget :: dur where "default_suspend_budget = 1500 * millisecond"
definition event_buffer :: nat where "event_buffer = 64"

datatype event_kind = KindStop | KindShutdown | KindSuspend | KindResume | KindSessionChange

text \<open>\<open>se_done\<close> names the channel a suspend is acknowledged on.\<close>

record svc_event =
  se_kind :: event_kind
  se_deadline :: time
  se_done :: "nat option"
  se_session :: "session_kind option"
  se_session_id :: int

record svc_options =
  so_stop_timeout :: dur
  so_shutdown_timeout :: dur
  so_preshutdown_timeout :: dur

definition with_defaults :: "svc_options \<Rightarrow> svc_options" where
  "with_defaults p = \<lparr>
     so_stop_timeout = (if so_stop_timeout p \<le> 0 then default_stop_timeout else so_stop_timeout p),
     so_shutdown_timeout = (if so_shutdown_timeout p \<le> 0 then default_shutdown_timeout else so_shutdown_timeout p),
     so_preshutdown_timeout = (if so_preshutdown_timeout p \<le> 0 then default_preshutdown_timeout else so_preshutdown_timeout p)\<rparr>"

subsection \<open>Control requests\<close>

definition ctl_stop :: int where "ctl_stop = 0x1"
definition ctl_interrogate :: int where "ctl_interrogate = 0x4"
definition ctl_shutdown :: int where "ctl_shutdown = 0x5"
definition ctl_power_event :: int where "ctl_power_event = 0xD"
definition ctl_session_change :: int where "ctl_session_change = 0xE"
definition ctl_pre_shutdown :: int where "ctl_pre_shutdown = 0xF"
definition pbt_suspend :: int where "pbt_suspend = 0x4"
definition pbt_resume_suspend :: int where "pbt_resume_suspend = 0x7"
definition pbt_resume_automatic :: int where "pbt_resume_automatic = 0x12"

definition pbt_event :: "int \<Rightarrow> event_kind option" where
  "pbt_event t = (if t = pbt_suspend then Some KindSuspend
     else if t = pbt_resume_automatic \<or> t = pbt_resume_suspend then Some KindResume else None)"

definition session_event :: "int \<Rightarrow> session_kind option" where
  "session_event reason = map_of [(1, SessionConsoleConnect), (2, SessionConsoleDisconnect), (3, SessionRemoteConnect),
     (4, SessionRemoteDisconnect), (5, SessionLogon), (6, SessionLogoff), (7, SessionLock), (8, SessionUnlock)] reason"

definition plain_event :: "event_kind \<Rightarrow> time \<Rightarrow> svc_event" where
  "plain_event k d = \<lparr>se_kind = k, se_deadline = d, se_done = None, se_session = None, se_session_id = 0\<rparr>"

definition translate :: "int \<Rightarrow> int \<Rightarrow> int \<Rightarrow> time \<Rightarrow> svc_options \<Rightarrow> dur \<Rightarrow> svc_event option" where
  "translate cmd ty sid now p budget =
     (let p = with_defaults p in
      if cmd = ctl_stop then Some (plain_event KindStop (now + so_stop_timeout p))
      else if cmd = ctl_pre_shutdown then Some (plain_event KindShutdown (now + so_preshutdown_timeout p))
      else if cmd = ctl_shutdown then Some (plain_event KindShutdown (now + so_shutdown_timeout p))
      else if cmd = ctl_power_event then
        map_option (\<lambda>k. plain_event k (if k = KindSuspend then now + budget else 0)) (pbt_event ty)
      else if cmd = ctl_session_change then
        map_option (\<lambda>k. (plain_event KindSessionChange 0)\<lparr>se_session := Some k, se_session_id := sid\<rparr>) (session_event ty)
      else None)"

text \<open>Milliseconds as an unsigned 32-bit number.\<close>

definition wait_hint :: "time \<Rightarrow> time \<Rightarrow> int" where
  "wait_hint deadline now = go_div (max (t_sub deadline now) (2 * second)) millisecond mod 2 ^ 32"

subsection \<open>The plane\<close>

record control_request =
  cr_cmd :: int
  cr_event_type :: int
  cr_session :: int
  cr_at :: time
  cr_done :: "nat option"

datatype scm_phase = StartPending | Running | StopPending | PhaseStopped

text \<open>Phases come in this order.\<close>

definition phase_rank :: "scm_phase \<Rightarrow> nat" where
  "phase_rank f = (case f of StartPending \<Rightarrow> 1 | Running \<Rightarrow> 2 | StopPending \<Rightarrow> 3 | PhaseStopped \<Rightarrow> 4)"

instantiation scm_phase :: linorder
begin

definition less_eq_scm_phase :: "scm_phase \<Rightarrow> scm_phase \<Rightarrow> bool" where
  "less_eq_scm_phase f g \<longleftrightarrow> phase_rank f \<le> phase_rank g"

definition less_scm_phase :: "scm_phase \<Rightarrow> scm_phase \<Rightarrow> bool" where
  "less_scm_phase f g \<longleftrightarrow> phase_rank f < phase_rank g"

instance
  by standard (auto simp: less_eq_scm_phase_def less_scm_phase_def phase_rank_def split: scm_phase.splits)

end

record scm_status =
  sp_phase :: scm_phase
  sp_checkpoint :: "32 word"
  sp_wait_hint :: int
  sp_failed :: bool

definition scm_report :: "scm_phase \<Rightarrow> scm_status" where
  "scm_report f = \<lparr>sp_phase = f, sp_checkpoint = 0, sp_wait_hint = 0, sp_failed = False\<rparr>"

text \<open>The state: the two queues, the supervisor's variables, what it reported, which acknowledgements were given,
  and the suspends the handler has taken and not acknowledged. A suspend is known by the number of its
  channel.\<close>

record plane =
  pl_options :: svc_options
  pl_budget :: dur
  pl_reqs :: "control_request list"
  pl_issued :: nat
  pl_events :: "svc_event list"
  pl_held :: "nat list"
  pl_acked :: "nat list"
  pl_cancelled :: bool
  pl_stopping :: bool
  pl_deadline :: time
  pl_checkpoint :: "32 word"
  pl_last :: scm_status
  pl_reports :: "scm_status list"
  pl_done :: bool

definition new_plane :: "svc_options \<Rightarrow> plane" where
  "new_plane p = \<lparr>pl_options = with_defaults p, pl_budget = default_suspend_budget, pl_reqs = [], pl_issued = 0,
     pl_events = [], pl_held = [], pl_acked = [], pl_cancelled = False, pl_stopping = False, pl_deadline = 0,
     pl_checkpoint = 0, pl_last = scm_report Running,
     pl_reports = [(scm_report StartPending)\<lparr>sp_wait_hint := 10000\<rparr>, scm_report Running], pl_done = False\<rparr>"

definition report_status :: "scm_status \<Rightarrow> plane \<Rightarrow> plane" where
  "report_status st s = s\<lparr>pl_reports := pl_reports s @ [st]\<rparr>"

definition ack :: "nat option \<Rightarrow> plane \<Rightarrow> plane" where
  "ack d s = (case d of None \<Rightarrow> s | Some n \<Rightarrow> s\<lparr>pl_acked := pl_acked s @ [n]\<rparr>)"

definition deliver :: "svc_event \<Rightarrow> plane \<Rightarrow> bool \<times> plane" where
  "deliver e s = (if length (pl_events s) < event_buffer then (True, s\<lparr>pl_events := pl_events s @ [e]\<rparr>) else (False, s))"

definition pending :: "time \<Rightarrow> plane \<Rightarrow> plane" where
  "pending now s =
     (let n = pl_checkpoint s + 1;
          st = \<lparr>sp_phase = StopPending, sp_checkpoint = n, sp_wait_hint = wait_hint (pl_deadline s) now, sp_failed = False\<rparr>
      in report_status st (s\<lparr>pl_checkpoint := n, pl_last := st\<rparr>))"

text \<open>The control handler queues its request when there is room; after the supervisor has returned it is not
  taken in.\<close>

definition control :: "int \<Rightarrow> int \<Rightarrow> int \<Rightarrow> time \<Rightarrow> plane \<Rightarrow> plane option" where
  "control cmd ty sid now s =
     (if pl_done s then Some s
      else if event_buffer \<le> length (pl_reqs s) then None
      else (let suspend = (cmd = ctl_power_event \<and> ty = pbt_suspend);
                r = \<lparr>cr_cmd = cmd, cr_event_type = ty, cr_session = sid, cr_at = now,
                     cr_done = (if suspend then Some (pl_issued s) else None)\<rparr>
            in Some (s\<lparr>pl_reqs := pl_reqs s @ [r], pl_issued := (if suspend then pl_issued s + 1 else pl_issued s)\<rparr>)))"

definition handle_request :: "time \<Rightarrow> control_request \<Rightarrow> plane \<Rightarrow> plane" where
  "handle_request now r s =
     (if cr_cmd r = ctl_interrogate then report_status (pl_last s) s
      else (case translate (cr_cmd r) (cr_event_type r) (cr_session r) (cr_at r) (pl_options s) (pl_budget s) of
          None \<Rightarrow> s
        | Some e0 \<Rightarrow>
            (let e = e0\<lparr>se_done := cr_done r\<rparr> in
             if se_kind e = KindSuspend \<and> pl_stopping s then ack (se_done e) s
             else if se_kind e = KindStop \<or> se_kind e = KindShutdown then
               (if pl_stopping s then
                  (if se_deadline e < pl_deadline s then snd (deliver e (s\<lparr>pl_deadline := se_deadline e\<rparr>)) else s)
                else (snd (deliver e (pending now (s\<lparr>pl_stopping := True, pl_deadline := se_deadline e\<rparr>))))\<lparr>pl_cancelled := True\<rparr>)
             else (case deliver e s of (True, s') \<Rightarrow> s' | (False, s') \<Rightarrow> ack (se_done e) s'))))"

datatype plane_step = DoControl int int int time | DoRequest time | DoTick time | DoHandlerDone bool
  | DoTake | DoAck nat

text \<open>One step: a control handler, a case of the supervisor's \<open>select\<close>, or the handler taking an event or
  acknowledging a suspend it has taken. \<open>DoHandlerDone failed\<close> is the handler returning.\<close>

definition plane_next :: "plane_step \<Rightarrow> plane \<Rightarrow> plane option" where
  "plane_next st s = (case st of
      DoControl cmd ty sid now \<Rightarrow> control cmd ty sid now s
    | DoRequest now \<Rightarrow> (case pl_reqs s of [] \<Rightarrow> None
        | r # rs \<Rightarrow> (if pl_done s then None else Some (handle_request now r (s\<lparr>pl_reqs := rs\<rparr>))))
    | DoTick now \<Rightarrow> (if pl_done s \<or> \<not> pl_stopping s then None else Some (pending now s))
    | DoHandlerDone err \<Rightarrow> (if pl_done s then None
        else Some (report_status \<lparr>sp_phase = PhaseStopped, sp_checkpoint = 0, sp_wait_hint = 0, sp_failed = (err \<and> \<not> pl_stopping s)\<rparr>
               (s\<lparr>pl_done := True\<rparr>)))
    | DoTake \<Rightarrow> (case pl_events s of [] \<Rightarrow> None
        | e # es \<Rightarrow> (if pl_done s then None else Some (s\<lparr>pl_events := es,
             pl_held := (case se_done e of None \<Rightarrow> pl_held s | Some n \<Rightarrow> pl_held s @ [n])\<rparr>)))
    | DoAck n \<Rightarrow> (if n \<in> set (pl_held s) then Some (ack (Some n) (s\<lparr>pl_held := filter (\<lambda>m. m \<noteq> n) (pl_held s)\<rparr>)) else None))"

inductive plane_run :: "svc_options \<Rightarrow> plane_step list \<Rightarrow> plane \<Rightarrow> bool" for p where
  plane_start: "plane_run p [] (new_plane p)"
| plane_step: "plane_run p xs s \<Longrightarrow> plane_next x s = Some s' \<Longrightarrow> plane_run p (xs @ [x]) s'"

inductive_cases plane_run_Nil [elim!]: "plane_run p [] s"

subsection \<open>Startup account, recovery plan\<close>

definition start_name :: "string \<Rightarrow> string option" where
  "start_name account = (if account \<in> {'''', ''LocalSystem'', ''system''} then Some ''LocalSystem'' else None)"

definition recovery_plan :: "(bool \<times> dur) list" where
  "recovery_plan = [(True, 30 * second), (True, 2 * minute), (False, 0)]"

definition recovery_reset_period :: dur where
  "recovery_reset_period = 24 * hour"

subsection \<open>Where a suspend is\<close>

text \<open>Every suspend issued is in exactly one place.\<close>

definition places :: "plane \<Rightarrow> nat list" where
  "places s = List.map_filter cr_done (pl_reqs s) @ List.map_filter se_done (pl_events s) @ pl_held s @ pl_acked s"

lemma places_cong:
  "pl_reqs s = pl_reqs s' \<Longrightarrow> pl_events s = pl_events s' \<Longrightarrow> pl_held s = pl_held s' \<Longrightarrow> pl_acked s = pl_acked s' \<Longrightarrow> places s = places s'"
  by (simp add: places_def)

lemma ack_places: "mset (places (ack d s)) = mset (places s) + mset (case d of None \<Rightarrow> [] | Some n \<Rightarrow> [n])"
  by (simp add: places_def ack_def split: option.split)

lemma collect_append: "List.map_filter f (xs @ ys) = List.map_filter f xs @ List.map_filter f ys"
  by (simp add: List.map_filter_def)

lemma deliver_places:
  "deliver e s = (b, s') \<Longrightarrow> mset (places s') = mset (places s) + (if b then mset (List.map_filter se_done [e]) else {#})"
  by (auto simp: deliver_def places_def collect_append map_filter_simps split: if_splits option.splits)

lemma pending_places: "places (pending now s) = places s"
  by (simp add: places_def pending_def report_status_def Let_def)

text \<open>Only a suspend request has a channel.\<close>

definition plane_ok :: "plane \<Rightarrow> bool" where
  "plane_ok s \<longleftrightarrow> mset (places s) = mset [0..<pl_issued s]
     \<and> (\<forall>r \<in> set (pl_reqs s). cr_done r \<noteq> None \<longrightarrow> cr_cmd r = ctl_power_event \<and> cr_event_type r = pbt_suspend)"

lemmas ctl_defs = ctl_stop_def ctl_interrogate_def ctl_shutdown_def ctl_power_event_def ctl_session_change_def
  ctl_pre_shutdown_def pbt_suspend_def pbt_resume_suspend_def pbt_resume_automatic_def

lemma translate_suspend:
  "translate ctl_power_event pbt_suspend sid now p b = Some (plain_event KindSuspend (now + b))"
  by (simp add: translate_def Let_def ctl_defs pbt_event_def)

lemma translate_stops:
  "translate cmd ty sid now p b = Some e \<Longrightarrow> se_kind e = KindStop \<or> se_kind e = KindShutdown \<Longrightarrow> cmd \<noteq> ctl_power_event"
  by (auto simp: translate_def Let_def ctl_defs pbt_event_def plain_event_def split: if_splits option.splits)

lemma handle_request_frame:
  "pl_reqs (handle_request now r s) = pl_reqs s" "pl_issued (handle_request now r s) = pl_issued s"
  by (auto simp: handle_request_def report_status_def ack_def deliver_def pending_def Let_def split: option.splits)

lemma handle_request_places:
  assumes "cr_done r \<noteq> None \<longrightarrow> cr_cmd r = ctl_power_event \<and> cr_event_type r = pbt_suspend"
  shows "mset (places (handle_request now r s)) = mset (places s) + mset (List.map_filter cr_done [r])"
proof (cases "cr_done r")
  case (Some n)
  then have c: "cr_cmd r = ctl_power_event" "cr_event_type r = pbt_suspend" using assms by auto
  let ?e = "(plain_event KindSuspend (cr_at r + pl_budget s))\<lparr>se_done := Some n\<rparr>"
  obtain b s' where d: "deliver ?e s = (b, s')" by (cases "deliver ?e s")
  have h: "handle_request now r s = (if pl_stopping s then ack (Some n) s else if b then s' else ack (Some n) s')"
  proof -
    have "ctl_power_event \<noteq> ctl_interrogate" by (simp add: ctl_defs)
    then show ?thesis
      unfolding handle_request_def c translate_suspend Some
      using d by (auto simp: Let_def plain_event_def split: bool.split)
  qed
  show ?thesis
    using Some deliver_places [OF d] by (simp add: h ack_places map_filter_simps plain_event_def)
next
  case None
  have "mset (places (handle_request now r s)) = mset (places s)"
  proof (cases "cr_cmd r = ctl_interrogate")
    case True
    then show ?thesis by (simp add: handle_request_def report_status_def places_def)
  next
    case False
    have d: "mset (places (snd (deliver (e\<lparr>se_done := None\<rparr>) s))) = mset (places s)" for e s
      using deliver_places [of "e\<lparr>se_done := None\<rparr>" s] by (cases "deliver (e\<lparr>se_done := None\<rparr>) s") (simp add: map_filter_simps)
    have a: "ack None s = s" for s by (simp add: ack_def)
    have p: "places (s\<lparr>pl_cancelled := True\<rparr>) = places s" "places (s\<lparr>pl_deadline := t\<rparr>) = places s"
      "places (s\<lparr>pl_stopping := True\<rparr>) = places s" for s t by (simp_all add: places_def)
    show ?thesis
    proof (cases "translate (cr_cmd r) (cr_event_type r) (cr_session r) (cr_at r) (pl_options s) (pl_budget s)")
      case None
      then show ?thesis using False by (simp add: handle_request_def)
    next
      case (Some e)
      let ?e = "e\<lparr>se_done := None\<rparr>"
      have u: "(case x of (True, s') \<Rightarrow> s' | (False, s') \<Rightarrow> ack (se_done ?e) s') = snd x" for x
        by (simp add: a split: prod.split bool.split)
      have h: "handle_request now r s = (if se_kind e = KindSuspend \<and> pl_stopping s then s
          else if se_kind e = KindStop \<or> se_kind e = KindShutdown then
            (if pl_stopping s then
               (if se_deadline e < pl_deadline s then snd (deliver ?e (s\<lparr>pl_deadline := se_deadline e\<rparr>)) else s)
             else (snd (deliver ?e (pending now (s\<lparr>pl_stopping := True, pl_deadline := se_deadline e\<rparr>))))\<lparr>pl_cancelled := True\<rparr>)
          else snd (deliver ?e s))"
        unfolding handle_request_def Some \<open>cr_done r = None\<close> option.case Let_def using False by (simp add: a u)
      show ?thesis unfolding h by (simp add: d p pending_places del: svc_event.simps)
    qed
  qed
  then show ?thesis using None by (simp add: map_filter_simps)
qed

lemma new_plane_ok: "plane_ok (new_plane p)"
  by (simp add: plane_ok_def new_plane_def places_def map_filter_simps)

lemma control_ok:
  assumes "plane_ok s" "control cmd ty sid now s = Some s'" shows "plane_ok s'"
  using assms by (auto simp: plane_ok_def control_def places_def collect_append map_filter_simps Let_def simp del: mset_upt
      split: if_splits)

lemma filter_out: "distinct xs \<Longrightarrow> m \<in> set xs \<Longrightarrow> mset xs = add_mset m (mset (filter (\<lambda>k. k \<noteq> m) xs))"
proof (induction xs)
  case (Cons x xs)
  have "filter (\<lambda>k. k \<noteq> m) ys = ys" if "m \<notin> set ys" for ys using that by (induction ys) auto
  then show ?case using Cons by (cases "m = x") auto
qed simp

lemma places_distinct: "plane_ok s \<Longrightarrow> distinct (places s) \<and> set (places s) = {..<pl_issued s}"
  unfolding plane_ok_def by (metis distinct_upt mset_eq_imp_distinct_iff mset_eq_setD atLeast_upt)

lemma mem_collect: "n \<in> set (List.map_filter f ys) \<longleftrightarrow> (\<exists>y \<in> set ys. f y = Some n)"
  by (force simp: List.map_filter_def)

lemma pending_frame: "pl_reqs (pending now s) = pl_reqs s" "pl_issued (pending now s) = pl_issued s"
  by (simp_all add: pending_def report_status_def Let_def)

lemma take_places:
  "mset (places (s\<lparr>pl_events := es, pl_held := (case se_done e of None \<Rightarrow> pl_held s | Some n \<Rightarrow> pl_held s @ [n])\<rparr>)) = mset (places s)"
  if "pl_events s = e # es"
  using that by (cases "se_done e") (simp_all add: places_def map_filter_simps)

lemma plane_okI:
  "plane_ok s \<Longrightarrow> mset (places s') = mset (places s) \<Longrightarrow> pl_issued s' = pl_issued s \<Longrightarrow> set (pl_reqs s') \<subseteq> set (pl_reqs s)
     \<Longrightarrow> plane_ok s'"
  unfolding plane_ok_def by (metis subsetD)

lemma plane_next_ok:
  assumes ok: "plane_ok s" and n: "plane_next x s = Some s'" shows "plane_ok s'"
proof (cases x)
  case (DoControl cmd ty sid now)
  then show ?thesis using control_ok [OF ok] n by (simp add: plane_next_def)
next
  case (DoRequest now)
  then obtain r rs where r: "pl_reqs s = r # rs" "s' = handle_request now r (s\<lparr>pl_reqs := rs\<rparr>)"
    using n by (auto simp: plane_next_def split: list.splits if_splits)
  have c: "cr_done r \<noteq> None \<longrightarrow> cr_cmd r = ctl_power_event \<and> cr_event_type r = pbt_suspend"
    using ok r(1) by (simp add: plane_ok_def)
  have "mset (places (s\<lparr>pl_reqs := rs\<rparr>)) + mset (List.map_filter cr_done [r]) = mset (places s)"
    using r(1) by (cases "cr_done r") (simp_all add: places_def map_filter_simps)
  then have "mset (places s') = mset (places s)"
    unfolding r(2) handle_request_places [OF c] .
  then show ?thesis by (rule plane_okI [OF ok]) (use r in \<open>auto simp: handle_request_frame\<close>)
next
  case (DoTick now)
  then have "s' = pending now s" using n by (simp add: plane_next_def split: if_splits)
  then show ?thesis using plane_okI [OF ok] by (simp add: pending_places pending_frame)
next
  case (DoHandlerDone err)
  then have "s' = report_status \<lparr>sp_phase = PhaseStopped, sp_checkpoint = 0, sp_wait_hint = 0, sp_failed = (err \<and> \<not> pl_stopping s)\<rparr>
      (s\<lparr>pl_done := True\<rparr>)" using n by (simp add: plane_next_def split: if_splits)
  then show ?thesis by (intro plane_okI [OF ok]) (simp_all add: places_def report_status_def)
next
  case DoTake
  then obtain e es where e: "pl_events s = e # es" "s' = s\<lparr>pl_events := es,
      pl_held := (case se_done e of None \<Rightarrow> pl_held s | Some n \<Rightarrow> pl_held s @ [n])\<rparr>"
    using n by (auto simp: plane_next_def split: list.splits if_splits)
  show ?thesis by (rule plane_okI [OF ok]) (use e take_places [OF e(1)] in simp_all)
next
  case (DoAck m)
  then have m: "m \<in> set (pl_held s)" "s' = ack (Some m) (s\<lparr>pl_held := filter (\<lambda>k. k \<noteq> m) (pl_held s)\<rparr>)"
    using n by (auto simp: plane_next_def split: if_splits)
  have "distinct (pl_held s)" using places_distinct [OF ok] by (simp add: places_def)
  note f = filter_out [OF this m(1)]
  show ?thesis by (rule plane_okI [OF ok]) (use f in \<open>simp_all add: m(2) places_def ack_def\<close>)
qed

lemma plane_run_reachable: "plane_run p xs s \<Longrightarrow> reachable (\<lambda>s. s = new_plane p) (\<lambda>s t. \<exists>x. plane_next x s = Some t) s"
  by (induction rule: plane_run.induct) (auto intro: reach_init reach_step)

interpretation plane_places: inductive_invariant "\<lambda>s. s = new_plane p" "\<lambda>s t. \<exists>x. plane_next x s = Some t" plane_ok for p
  by unfold_locales (auto intro: new_plane_ok plane_next_ok)

text \<open>C28. Every suspend notification is acknowledged at most once by the supervisor and the handler together, whatever else
  arrives (a second acknowledgement would crash the service; the handler keeps its contract to acknowledge
  an event it took at most once), and none gets lost: as long as it has not been
  acknowledged it is queued for the supervisor, queued for the handler, or in the handler's hands. So a
  control handler that holds the system back from sleeping waits for one of those three and nothing else.\<close>

theorem suspends_acknowledged_once:
  assumes "plane_run p xs s"
  shows "distinct (pl_acked s) \<and> (\<forall>n < pl_issued s. (n \<in> set (pl_acked s)) \<noteq>
      (n \<in> set (pl_held s) \<or> (\<exists>e \<in> set (pl_events s). se_done e = Some n) \<or> (\<exists>r \<in> set (pl_reqs s). cr_done r = Some n)))"
proof -
  have ok: "plane_ok s" by (rule plane_places.inv_reachable [OF plane_run_reachable [OF assms]])
  have d: "distinct (places s)" "set (places s) = {..<pl_issued s}" using places_distinct [OF ok] by auto
  have "n \<in> set (places s) \<longleftrightarrow> n < pl_issued s" for n using d(2) by simp
  then show ?thesis using d(1) by (simp add: places_def mem_collect disjoint_iff) metis
qed

definition demo_steps :: "plane_step list" where
  "demo_steps = [DoControl 13 4 0 100, DoControl 13 4 0 200, DoRequest 300, DoTake, DoAck 0, DoControl 1 0 0 400, DoRequest 500]"

definition demo_options :: svc_options where
  "demo_options = \<lparr>so_stop_timeout = 0, so_shutdown_timeout = 0, so_preshutdown_timeout = 0\<rparr>"

fun run_steps :: "plane_step list \<Rightarrow> plane \<Rightarrow> plane option" where
  "run_steps [] s = Some s"
| "run_steps (x # xs) s = (case plane_next x s of None \<Rightarrow> None | Some s' \<Rightarrow> run_steps xs s')"

lemma run_steps_run: "plane_run p xs s \<Longrightarrow> run_steps ys s = Some s' \<Longrightarrow> plane_run p (xs @ ys) s'"
proof (induction ys arbitrary: xs s)
  case (Cons y ys)
  then obtain t where "plane_next y s = Some t" "run_steps ys t = Some s'" by (auto split: option.splits)
  then show ?case using Cons.IH [OF plane_run.plane_step [OF Cons.prems(1)]] by simp
qed simp

lemma demo_plane:
  "\<exists>s. plane_run demo_options demo_steps s \<and> pl_issued s = 2 \<and> pl_acked s = [0] \<and> map sp_phase (pl_reports s) = [StartPending, Running]"
proof -
  have "map_option (\<lambda>s. (pl_issued s, pl_acked s, map sp_phase (pl_reports s))) (run_steps demo_steps (new_plane demo_options))
      = Some (2, [0], [StartPending, Running])" by code_simp
  then show ?thesis using run_steps_run [OF plane_run.plane_start, of demo_steps] by fastforce
qed

theorem suspends_acknowledged_once_witness:
  "\<exists>s. plane_run demo_options demo_steps s \<and> 1 \<notin> set (pl_acked s)
     \<and> (1 \<in> set (pl_held s) \<or> (\<exists>e \<in> set (pl_events s). se_done e = Some 1) \<or> (\<exists>r \<in> set (pl_reqs s). cr_done r = Some 1))"
proof -
  obtain s where s: "plane_run demo_options demo_steps s" "pl_issued s = 2" "pl_acked s = [0]" using demo_plane by blast
  have "(1 \<in> set (pl_acked s)) \<noteq>
      (1 \<in> set (pl_held s) \<or> (\<exists>e \<in> set (pl_events s). se_done e = Some 1) \<or> (\<exists>r \<in> set (pl_reqs s). cr_done r = Some 1))"
    using suspends_acknowledged_once [OF s(1)] s(2) by auto
  then show ?thesis using s by (intro exI [of _ s]) simp
qed

subsection \<open>What the service control manager is told\<close>

text \<open>The protocol of its status reports: start pending, running, then stop pending with a checkpoint that goes
  up by one at each report, then stopped; the last report may be repeated when it is asked for. A
  stopped service counts as failed only if it was not stopping.\<close>

definition scm_next :: "scm_status \<Rightarrow> scm_status \<Rightarrow> bool" where
  "scm_next a b = (case sp_phase b of
      StartPending \<Rightarrow> False
    | Running \<Rightarrow> sp_phase a = StartPending \<or> a = b
    | StopPending \<Rightarrow> a = b \<or> sp_phase a = Running \<and> sp_checkpoint b = 1
        \<or> sp_phase a = StopPending \<and> sp_checkpoint b = sp_checkpoint a + 1
    | PhaseStopped \<Rightarrow> sp_phase a = Running \<or> sp_phase a = StopPending \<and> \<not> sp_failed b)"

definition reports_ok :: "plane \<Rightarrow> bool" where
  "reports_ok s \<longleftrightarrow> pl_reports s \<noteq> [] \<and> sp_phase (hd (pl_reports s)) = StartPending \<and> successively scm_next (pl_reports s)
     \<and> (pl_stopping s \<longrightarrow> pl_cancelled s)
     \<and> (if pl_done s then sp_phase (last (pl_reports s)) = PhaseStopped
        else last (pl_reports s) = pl_last s \<and> (if pl_stopping s then sp_phase (pl_last s) = StopPending \<and> sp_checkpoint (pl_last s) = pl_checkpoint s
          else pl_last s = scm_report Running \<and> pl_checkpoint s = 0))"

lemma reports_same:
  "reports_ok s \<Longrightarrow> pl_reports s' = pl_reports s \<Longrightarrow> pl_stopping s' = pl_stopping s \<Longrightarrow> pl_cancelled s' = pl_cancelled s
     \<Longrightarrow> pl_done s' = pl_done s \<Longrightarrow> pl_last s' = pl_last s \<Longrightarrow> pl_checkpoint s' = pl_checkpoint s \<Longrightarrow> reports_ok s'"
  by (simp add: reports_ok_def)

lemma deliver_same:
  "pl_reports (snd (deliver e s)) = pl_reports s" "pl_stopping (snd (deliver e s)) = pl_stopping s"
  "pl_cancelled (snd (deliver e s)) = pl_cancelled s" "pl_done (snd (deliver e s)) = pl_done s"
  "pl_last (snd (deliver e s)) = pl_last s" "pl_checkpoint (snd (deliver e s)) = pl_checkpoint s"
  by (simp_all add: deliver_def)

lemma ack_same:
  "pl_reports (ack d s) = pl_reports s" "pl_stopping (ack d s) = pl_stopping s" "pl_cancelled (ack d s) = pl_cancelled s"
  "pl_done (ack d s) = pl_done s" "pl_last (ack d s) = pl_last s" "pl_checkpoint (ack d s) = pl_checkpoint s"
  by (simp_all add: ack_def split: option.split)

lemma pending_reports:
  assumes "reports_ok s" "\<not> pl_done s" "pl_cancelled s' = True" "pl_stopping s'" "pl_done s' = False"
    "pl_reports s' = pl_reports s @ [st]" "pl_last s' = st" "pl_checkpoint s' = sp_checkpoint st"
    "sp_phase st = StopPending" "sp_checkpoint st = pl_checkpoint s + 1"
  shows "reports_ok s'"
proof -
  have "sp_phase (pl_last s) = Running \<and> pl_checkpoint s = 0 \<or> sp_phase (pl_last s) = StopPending \<and> sp_checkpoint (pl_last s) = pl_checkpoint s"
    using assms(1,2) by (auto simp: reports_ok_def scm_report_def split: if_splits)
  then show ?thesis
    using assms by (auto simp: reports_ok_def successively_append_iff scm_next_def)
qed

lemma request_reports:
  assumes "reports_ok s" "\<not> pl_done s" shows "reports_ok (handle_request now r s)"
proof (cases "cr_cmd r = ctl_interrogate")
  case True
  then show ?thesis using assms
    by (auto simp: handle_request_def reports_ok_def report_status_def successively_append_iff scm_next_def scm_report_def
        split: scm_phase.split if_splits)
next
  case False
  show ?thesis
  proof (cases "translate (cr_cmd r) (cr_event_type r) (cr_session r) (cr_at r) (pl_options s) (pl_budget s)")
    case None
    then show ?thesis using False assms by (simp add: handle_request_def)
  next
    case (Some e0)
    let ?e = "e0\<lparr>se_done := cr_done r\<rparr>"
    have u: "reports_ok (case deliver ?e s of (True, s') \<Rightarrow> s' | (False, s') \<Rightarrow> ack (se_done ?e) s')"
      using deliver_same [of ?e s] by (auto intro!: reports_same [OF assms(1)] simp: ack_same split: prod.split bool.split)
    have v: "reports_ok ((snd (deliver ?e (pending now (s\<lparr>pl_stopping := True, pl_deadline := d\<rparr>))))\<lparr>pl_cancelled := True\<rparr>)" for d
      by (rule pending_reports [OF assms, where st = "\<lparr>sp_phase = StopPending, sp_checkpoint = pl_checkpoint s + 1,
            sp_wait_hint = wait_hint d now, sp_failed = False\<rparr>"])
        (simp_all add: deliver_same pending_def report_status_def Let_def assms(2))
    have w: "reports_ok (snd (deliver ?e (s\<lparr>pl_deadline := d\<rparr>)))" for d
      by (rule reports_same [OF assms(1)]) (simp_all add: deliver_same)
    have k: "reports_ok (ack d s)" for d by (rule reports_same [OF assms(1)]) (simp_all add: ack_same)
    show ?thesis
      unfolding handle_request_def Some option.case Let_def using False assms(1) by (simp add: u v w k del: svc_event.simps)
  qed
qed

lemma next_reports:
  assumes ok: "reports_ok s" and n: "plane_next x s = Some s'" shows "reports_ok s'"
proof (cases x)
  case (DoControl cmd ty sid now)
  then show ?thesis using n
    by (auto simp: plane_next_def control_def Let_def split: if_splits intro!: reports_same [OF ok])
next
  case (DoRequest now)
  then obtain r rs where r: "\<not> pl_done s" "s' = handle_request now r (s\<lparr>pl_reqs := rs\<rparr>)"
    using n by (auto simp: plane_next_def split: list.splits if_splits)
  have "reports_ok (s\<lparr>pl_reqs := rs\<rparr>)" by (rule reports_same [OF ok]) simp_all
  then show ?thesis using request_reports r by simp
next
  case (DoTick now)
  then have t: "\<not> pl_done s" "pl_stopping s" "s' = pending now s" using n by (simp_all add: plane_next_def split: if_splits)
  then show ?thesis
    using ok by (intro pending_reports [OF ok, where st = "pl_last (pending now s)"])
      (auto simp: reports_ok_def pending_def report_status_def Let_def)
next
  case (DoHandlerDone err)
  then have d: "\<not> pl_done s" "s' = report_status \<lparr>sp_phase = PhaseStopped, sp_checkpoint = 0, sp_wait_hint = 0, sp_failed = (err \<and> \<not> pl_stopping s)\<rparr>
      (s\<lparr>pl_done := True\<rparr>)" using n by (simp_all add: plane_next_def split: if_splits)
  then show ?thesis using ok
    by (auto simp: reports_ok_def report_status_def successively_append_iff scm_next_def scm_report_def split: if_splits)
next
  case DoTake
  then show ?thesis using n
    by (auto simp: plane_next_def split: list.splits if_splits intro!: reports_same [OF ok])
next
  case (DoAck m)
  then show ?thesis using n
    by (auto simp: plane_next_def ack_same split: if_splits intro!: reports_same [OF ok])
qed

lemma new_reports: "reports_ok (new_plane p)"
  by (simp add: reports_ok_def new_plane_def scm_next_def scm_report_def)

interpretation plane_reports: inductive_invariant "\<lambda>s. s = new_plane p" "\<lambda>s t. \<exists>x. plane_next x s = Some t" reports_ok for p
  by unfold_locales (auto intro: next_reports new_reports)

lemma protocol_sorted: "successively scm_next rs \<Longrightarrow> sorted (map sp_phase rs)"
proof -
  assume "successively scm_next rs"
  moreover have "sp_phase a \<le> sp_phase b" if "scm_next a b" for a b
    using that by (auto simp: scm_next_def less_eq_scm_phase_def phase_rank_def split: scm_phase.splits)
  ultimately have "successively (\<lambda>a b. sp_phase a \<le> sp_phase b) rs" by (auto intro: successively_mono)
  then have "successively (\<le>) (map sp_phase rs)" by (simp add: successively_map)
  then show ?thesis by (simp add: successively_conv_sorted_wrt transp_def)
qed

text \<open>C29. What the service reports to the service control manager follows its protocol, in every interleaving of
  control requests, timer ticks and the end of the service: start pending, running, then stop pending with
  checkpoints that go up by one, then stopped as the last report, and never a phase that was left; when a stop is pending the context of the
  handler has been cancelled; and the service is reported as failed, which makes Windows restart it, only
  if it ended with an error while no stop had been asked for.\<close>

theorem reports_follow_protocol:
  assumes "plane_run p xs s"
  shows "sp_phase (hd (pl_reports s)) = StartPending \<and> successively scm_next (pl_reports s)
    \<and> sorted (map sp_phase (pl_reports s))
    \<and> (sp_phase (last (pl_reports s)) = StopPending \<longrightarrow> pl_cancelled s)
    \<and> (pl_done s \<longleftrightarrow> sp_phase (last (pl_reports s)) = PhaseStopped)"
proof -
  have "reports_ok s" by (rule plane_reports.inv_reachable [OF plane_run_reachable [OF assms]])
  then show ?thesis using protocol_sorted by (auto simp: reports_ok_def scm_report_def split: if_splits)
qed

theorem reports_follow_protocol_witness:
  "\<exists>s. plane_run demo_options demo_steps s \<and> sp_phase (hd (pl_reports s)) = StartPending \<and> successively scm_next (pl_reports s)"
proof -
  obtain s where s: "plane_run demo_options demo_steps s" using demo_plane by blast
  then show ?thesis using reports_follow_protocol [OF s] by blast
qed

end
