(* ===== verification/Secrets.thy ===== *)
theory Secrets
  imports Auth Config_Update
begin

text \<open>
  Packages \<open>path/filepath\<close> as the sources use it on a system whose separator is the slash, and
  \<open>internal/secrets\<close>: the three bearer tokens of the service and their files. A file system is a map from
  paths to contents; what the system answers to a call is in \<open>ensure_io\<close>.
\<close>

subsection \<open>Paths\<close>

fun clean_segs :: "bool \<Rightarrow> string list \<Rightarrow> string list \<Rightarrow> string list" where
  "clean_segs rooted acc [] = rev acc"
| "clean_segs rooted acc (g # gs) =
     (if g = '''' \<or> g = ''.'' then clean_segs rooted acc gs
      else if g = ''..'' then
        (if acc \<noteq> [] \<and> hd acc \<noteq> ''..'' then clean_segs rooted (tl acc) gs
         else if rooted then clean_segs rooted acc gs
         else clean_segs rooted (g # acc) gs)
      else clean_segs rooted (g # acc) gs)"

definition clean_path :: "string \<Rightarrow> string" where
  "clean_path p =
     (if p = '''' then ''.''
      else (let rooted = has_prefix p ''/''; s = join_with ''/'' (clean_segs rooted [] (split_char CHR ''/'' p))
            in if rooted then CHR ''/'' # s else if s = '''' then ''.'' else s))"

definition join_path :: "string \<Rightarrow> string \<Rightarrow> string" where
  "join_path a b = (if a = '''' then (if b = '''' then '''' else clean_path b) else clean_path (a @ ''/'' @ b))"

definition abs_path :: "string \<Rightarrow> bool" where
  "abs_path p = has_prefix p ''/''"

subsection \<open>Tokens\<close>

definition token_bytes :: nat where "token_bytes = 32"
definition min_token_len :: nat where "min_token_len = 16"

record token_refs =
  tf_management :: string
  tf_inference :: string
  tf_agent :: string

definition files_from :: "security_cfg \<Rightarrow> token_refs" where
  "files_from s = \<lparr>tf_management = se_management_token_file s, tf_inference = se_inference_token_file s,
     tf_agent = se_agent_token_file s\<rparr>"

text \<open>Both separators of a configured path are taken.\<close>

definition resolve :: "string \<Rightarrow> string \<Rightarrow> string" where
  "resolve data_dir ref =
     (let p = map (\<lambda>c. if c = CHR 0x5C then CHR ''/'' else c) ref in if abs_path p then p else join_path data_dir p)"

text \<open>Base64 for URLs, without padding.\<close>

definition b64_digit :: "nat \<Rightarrow> char" where
  "b64_digit d = (if d < 26 then char_of (65 + d) else if d < 52 then char_of (71 + d) else if d < 62 then char_of (d - 4)
     else if d = 62 then CHR ''-'' else CHR ''_'')"

fun raw_url :: "nat list \<Rightarrow> string" where
  "raw_url (a # b # c # r) = b64_digit (a div 4) # b64_digit (a mod 4 * 16 + b div 16)
     # b64_digit (b mod 16 * 4 + c div 64) # b64_digit (c mod 64) # raw_url r"
| "raw_url [a, b] = [b64_digit (a div 4), b64_digit (a mod 4 * 16 + b div 16), b64_digit (b mod 16 * 4)]"
| "raw_url [a] = [b64_digit (a div 4), b64_digit (a mod 4 * 16)]"
| "raw_url [] = []"

datatype token_error = TokenNotExist | TokenUnreadable | TokenTooShort | TokenHasSpace | TokenIO

text \<open>Contents of files are the bytes read; \<open>deny\<close> are paths that exist and cannot be read.\<close>

definition load_token :: "(string \<Rightarrow> bool) \<Rightarrow> (string \<rightharpoonup> string) \<Rightarrow> string \<Rightarrow> token_error + string" where
  "load_token deny fs path =
     (if deny path then Inl TokenUnreadable
      else (case fs path of
          None \<Rightarrow> Inl TokenNotExist
        | Some b \<Rightarrow>
            (let tok = trim_space b in
             if length tok < min_token_len then Inl TokenTooShort
             else if \<exists>c \<in> set tok. char_code c \<in> {9, 10, 13, 32} then Inl TokenHasSpace
             else Inr tok)))"

text \<open>What the system answers while a missing file is created: whether the folder is there, the random bytes,
  whether another process was faster and with what, and whether creating and writing succeed.\<close>

record ensure_io =
  ei_mkdir :: bool
  ei_random :: "nat list option"
  ei_race :: "string option"
  ei_open :: bool
  ei_write :: bool

definition generate :: "ensure_io \<Rightarrow> string option" where
  "generate io = map_option raw_url (ei_random io)"

definition ensure_token ::
  "(string \<Rightarrow> bool) \<Rightarrow> ensure_io \<Rightarrow> string \<Rightarrow> (string \<rightharpoonup> string) \<Rightarrow> (token_error + string) \<times> (string \<rightharpoonup> string)" where
  "ensure_token deny io path fs = (case load_token deny fs path of
      Inr tok \<Rightarrow> (Inr tok, fs)
    | Inl e \<Rightarrow>
        (if e \<noteq> TokenNotExist then (Inl e, fs)
         else if \<not> ei_mkdir io then (Inl TokenIO, fs)
         else (case generate io of
             None \<Rightarrow> (Inl TokenIO, fs)
           | Some tok \<Rightarrow> (case ei_race io of
                 Some b \<Rightarrow> (load_token deny (fs(path \<mapsto> b)) path, fs(path \<mapsto> b))
               | None \<Rightarrow>
                   (if \<not> ei_open io then (Inl TokenIO, fs)
                    else if \<not> ei_write io then (Inl TokenIO, fs(path := None))
                    else (Inr tok, fs(path \<mapsto> tok @ [CHR 0x0A])))))))"

datatype ensure_error = TokenFailed string token_error | TokensNotDistinct

definition ensure_tokens ::
  "(string \<Rightarrow> bool) \<Rightarrow> ensure_io \<times> ensure_io \<times> ensure_io \<Rightarrow> string \<Rightarrow> token_refs \<Rightarrow> (string \<rightharpoonup> string)
     \<Rightarrow> (ensure_error + tokens) \<times> (string \<rightharpoonup> string)" where
  "ensure_tokens deny io dir f fs =
     (let (io1, io2, io3) = io in
      case ensure_token deny io1 (resolve dir (tf_management f)) fs of
        (Inl e, fs1) \<Rightarrow> (Inl (TokenFailed ''management token'' e), fs1)
      | (Inr m, fs1) \<Rightarrow> (case ensure_token deny io2 (resolve dir (tf_inference f)) fs1 of
          (Inl e, fs2) \<Rightarrow> (Inl (TokenFailed ''inference token'' e), fs2)
        | (Inr i, fs2) \<Rightarrow> (case ensure_token deny io3 (resolve dir (tf_agent f)) fs2 of
            (Inl e, fs3) \<Rightarrow> (Inl (TokenFailed ''agent token'' e), fs3)
          | (Inr a, fs3) \<Rightarrow>
              (if m = i \<or> m = a \<or> i = a then (Inl TokensNotDistinct, fs3)
               else (Inr \<lparr>tk_management = m, tk_inference = i, tk_agent = a\<rparr>, fs3)))))"

subsection \<open>Every token is good and stays\<close>

lemma b64_visible: "d < 64 \<Longrightarrow> \<not> space_char (b64_digit d) \<and> char_code (b64_digit d) \<notin> {9, 10, 13, 32}"
proof -
  assume "d < 64"
  then have "32 < (of_char (b64_digit d) :: nat)" by (auto simp: b64_digit_def of_char_of)
  moreover from this have "32 < (of_char (b64_digit d) :: int)" by (metis of_nat_less_iff of_nat_numeral of_nat_of_char)
  ultimately show ?thesis by (simp add: space_char_def char_code_def)
qed

lemma raw_url_visible:
  "\<forall>b \<in> set bs. b < 256 \<Longrightarrow> \<forall>c \<in> set (raw_url bs). \<not> space_char c \<and> char_code c \<notin> {9, 10, 13, 32}"
proof (induction bs rule: raw_url.induct)
  case (1 a b c r)
  have "a div 4 < 64" "a mod 4 * 16 + b div 16 < 64" "b mod 16 * 4 + c div 64 < 64" "c mod 64 < 64"
    using 1(2) by (auto simp: less_mult_imp_div_less)
  then show ?case using 1 b64_visible by auto
next
  case (2 a b)
  have "a div 4 < 64" "a mod 4 * 16 + b div 16 < 64" "b mod 16 * 4 < 64" using 2 by auto
  then show ?case using b64_visible by auto
next
  case (3 a)
  have "a div 4 < 64" "a mod 4 * 16 < 64" using 3 by auto
  then show ?case using b64_visible by auto
qed simp

lemma raw_url_length: "length (raw_url bs) = (4 * length bs + 2) div 3"
  by (induction bs rule: raw_url.induct) auto

lemma trim_visible: "\<forall>c \<in> set s. \<not> space_char c \<Longrightarrow> trim_space (s @ [CHR 0x0A]) = s"
proof -
  assume a: "\<forall>c \<in> set s. \<not> space_char c"
  have nl: "space_char (CHR 0x0A)" by code_simp
  have n: "dropWhile space_char t = t" if "\<forall>c \<in> set t. \<not> space_char c" for t using that by (cases t) auto
  show ?thesis
  proof (cases s)
    case Nil
    then show ?thesis using nl by (simp add: trim_space_def)
  next
    case (Cons c r)
    then have "dropWhile space_char (s @ [CHR 0x0A]) = s @ [CHR 0x0A]" using a by simp
    moreover note nl
    ultimately show ?thesis using a by (simp add: trim_space_def n)
  qed
qed

definition good_token :: "string \<Rightarrow> bool" where
  "good_token t \<longleftrightarrow> min_token_len \<le> length t \<and> (\<forall>c \<in> set t. char_code c \<notin> {9, 10, 13, 32})"

lemma load_good: "load_token deny fs p = Inr t \<Longrightarrow> good_token t"
  by (auto simp: load_token_def good_token_def Let_def split: if_splits option.splits)

definition random_ok :: "ensure_io \<Rightarrow> bool" where
  "random_ok io \<longleftrightarrow> (case ei_random io of Some bs \<Rightarrow> length bs = token_bytes \<and> (\<forall>b \<in> set bs. b < 256) | None \<Rightarrow> True)"

lemma generated_loads:
  assumes "random_ok io" "generate io = Some t" "\<not> deny p"
  shows "load_token deny (fs(p \<mapsto> t @ [CHR 0x0A])) p = Inr t"
proof -
  obtain bs where bs: "t = raw_url bs" "length bs = 32" "\<forall>b \<in> set bs. b < 256"
    using assms by (auto simp: random_ok_def generate_def token_bytes_def)
  have v: "\<forall>c \<in> set t. \<not> space_char c" "\<forall>c \<in> set t. char_code c \<notin> {9, 10, 13, 32}"
    using raw_url_visible [OF bs(3)] bs(1) by auto
  have "length t = 43" using raw_url_length [of bs] bs by simp
  then show ?thesis using v assms(3) by (simp add: load_token_def trim_visible Let_def min_token_len_def)
qed

lemma ensure_loads:
  assumes "random_ok io" "ensure_token deny io p fs = (Inr t, fs')"
  shows "load_token deny fs' p = Inr t \<and> (\<forall>q. fs q \<noteq> None \<longrightarrow> fs' q = fs q)"
proof -
  have "\<not> deny p \<and> fs p = None" if "load_token deny fs p = Inl TokenNotExist"
    using that by (auto simp: load_token_def Let_def split: if_splits option.splits)
  then show ?thesis
    using assms generated_loads [OF assms(1), of _ deny p fs]
    by (auto simp: ensure_token_def split: sum.splits if_splits option.splits)
qed

lemma load_kept: "load_token deny fs p = Inr t \<Longrightarrow> \<forall>q. fs q \<noteq> None \<longrightarrow> fs' q = fs q \<Longrightarrow> load_token deny fs' p = Inr t"
  by (auto simp: load_token_def Let_def split: if_splits option.splits)

text \<open>C30. When the service has its three tokens, they differ from each other, each has at least sixteen
  characters and no white space, and each is what its file holds: the next start, the tray and the agent
  read the same token from it, whether the file was there before, was created with a fresh random token or
  was created by another process at the same moment.\<close>

theorem tokens_distinct_and_stored:
  assumes "ensure_tokens deny (io1, io2, io3) dir f fs = (Inr t, fs')" "random_ok io1" "random_ok io2" "random_ok io3"
  shows "distinct [tk_management t, tk_inference t, tk_agent t]
    \<and> (\<forall>(ref, tok) \<in> {(tf_management f, tk_management t), (tf_inference f, tk_inference t), (tf_agent f, tk_agent t)}.
        load_token deny fs' (resolve dir ref) = Inr tok \<and> 16 \<le> length tok \<and> (\<forall>c \<in> set tok. c \<notin> {CHR '' '', CHR 0x09, CHR 0x0A, CHR 0x0D}))"
proof -
  obtain m fs1 i fs2 a where e: "ensure_token deny io1 (resolve dir (tf_management f)) fs = (Inr m, fs1)"
    "ensure_token deny io2 (resolve dir (tf_inference f)) fs1 = (Inr i, fs2)"
    "ensure_token deny io3 (resolve dir (tf_agent f)) fs2 = (Inr a, fs')"
    and t: "t = \<lparr>tk_management = m, tk_inference = i, tk_agent = a\<rparr>" "m \<noteq> i" "m \<noteq> a" "i \<noteq> a"
    using assms(1) by (auto simp: ensure_tokens_def split: prod.splits sum.splits if_splits)
  note l = ensure_loads [OF assms(2) e(1)] ensure_loads [OF assms(3) e(2)] ensure_loads [OF assms(4) e(3)]
  have m: "load_token deny fs' (resolve dir (tf_management f)) = Inr m"
    using load_kept [OF load_kept [OF l(1) [THEN conjunct1] l(2) [THEN conjunct2]] l(3) [THEN conjunct2]] .
  have i: "load_token deny fs' (resolve dir (tf_inference f)) = Inr i"
    using load_kept [OF l(2) [THEN conjunct1] l(3) [THEN conjunct2]] .
  have g: "16 \<le> length t \<and> (\<forall>c \<in> set t. c \<notin> {CHR '' '', CHR 0x09, CHR 0x0A, CHR 0x0D})" if "good_token t" for t
    using that by (auto simp: good_token_def min_token_len_def char_code_def)
  have "good_token m" "good_token i" "good_token a" using l load_good by blast+
  note v = this [THEN g]
  show ?thesis using m i l(3) t v by simp
qed

definition demo_io :: ensure_io where
  "demo_io = \<lparr>ei_mkdir = True, ei_random = Some (replicate 32 7), ei_race = None, ei_open = True, ei_write = True\<rparr>"

definition demo_files :: token_refs where
  "demo_files = \<lparr>tf_management = ''secrets/m'', tf_inference = ''secrets/i'', tf_agent = ''/run/a''\<rparr>"

definition demo_fs :: "string \<rightharpoonup> string" where
  "demo_fs = [''/data/secrets/i'' \<mapsto> ''inference-token-of-mine'', ''/run/a'' \<mapsto> ''agent-token-of-mine '']"

lemma demo_ensured:
  "\<exists>t. fst (ensure_tokens (\<lambda>_. False) (demo_io, demo_io, demo_io) ''/data'' demo_files demo_fs) = Inr t \<and> tk_agent t = ''agent-token-of-mine''"
proof -
  have "(case fst (ensure_tokens (\<lambda>_. False) (demo_io, demo_io, demo_io) ''/data'' demo_files demo_fs) of
      Inr t \<Rightarrow> tk_agent t = ''agent-token-of-mine'' | Inl _ \<Rightarrow> False)" by code_simp
  then show ?thesis by (auto split: sum.splits)
qed

theorem tokens_distinct_and_stored_witness:
  "load_token (\<lambda>_. False) (snd (ensure_tokens (\<lambda>_. False) (demo_io, demo_io, demo_io) ''/data'' demo_files demo_fs)) (resolve ''/data'' ''/run/a'')
     = Inr ''agent-token-of-mine''"
proof -
  let ?e = "ensure_tokens (\<lambda>_. False) (demo_io, demo_io, demo_io) ''/data'' demo_files demo_fs"
  obtain t where t: "fst ?e = Inr t" "tk_agent t = ''agent-token-of-mine''" using demo_ensured by blast
  then have e: "?e = (Inr t, snd ?e)" by (metis prod.collapse)
  have r: "random_ok demo_io" by (simp add: random_ok_def demo_io_def token_bytes_def)
  show ?thesis
    using tokens_distinct_and_stored [OF e r r r] t(2) by (simp add: demo_files_def)
qed

end
