(* ===== verification/Model_Files.thy ===== *)
theory Model_Files
  imports Secrets Api Gguf
begin

text \<open>
  Package \<open>internal/service\<close>: of \<open>setupinfo.go\<close> which model files are offered, and \<open>modelinspect.go\<close>, which
  file the service reads for a request.
  What the file system answers is a parameter; the answer of a reading operation also says which path was
  touched.
\<close>

subsection \<open>The models folder\<close>

record file_info =
  fi_regular :: bool
  fi_size :: int
  fi_modified :: time

record dir_entry =
  de_name :: string
  de_dir :: bool
  de_info :: "file_info option"

type_synonym dir_reader = "string \<Rightarrow> dir_entry list"

definition is_gguf_path :: "string \<Rightarrow> bool" where
  "is_gguf_path p = equal_fold (file_ext p) ''.gguf''"

definition add_model :: "string \<Rightarrow> file_info option \<Rightarrow> model_file list" where
  "add_model p fi = (case fi of
      None \<Rightarrow> []
    | Some f \<Rightarrow> (if fi_regular f \<and> is_gguf_path p
        then [\<lparr>mo_name = path_base p, mo_path = p, mo_size_bytes = fi_size f, mo_modified = fi_modified f, mo_architecture = ''''\<rparr>]
        else []))"

text \<open>The folder and one level below.\<close>

definition model_files :: "dir_reader \<Rightarrow> string \<Rightarrow> model_file list" where
  "model_files rd dir =
     sort_key (to_lower \<circ> mo_path) (concat (map (\<lambda>e.
       let p = join_path dir (de_name e) in
       if de_dir e then concat (map (\<lambda>se. add_model (join_path p (de_name se)) (de_info se)) (rd p))
       else add_model p (de_info e)) (rd dir)))"

subsection \<open>Inspecting a model\<close>

datatype open_answer = OpenOk file_info string | OpenStatFailed | OpenNotExist | OpenPermission | OpenFailed

record inspect_io =
  ii_lstat :: "string \<Rightarrow> bool option"
  ii_open :: "string \<Rightarrow> open_answer"
  ii_late :: bool

definition same_path :: "string \<Rightarrow> string \<Rightarrow> bool" where
  "same_path a b = (clean_path a = clean_path b)"

definition inspection :: "string \<Rightarrow> plan_gpu \<Rightarrow> model_inspection" where
  "inspection path g = \<lparr>in_path = path, in_status = InspectOK, in_message = lit '''', in_size_bytes = 0, in_metadata = None,
     in_plan = None, in_gpu_total_mib = (if gp_reliable g then gp_total_mib g else 0), in_compatible_unknown = True\<rparr>"

definition refuse_model :: "model_inspection \<Rightarrow> inspect_status \<Rightarrow> gotext \<Rightarrow> model_inspection" where
  "refuse_model out st m = out\<lparr>in_status := st, in_message := m\<rparr>"

definition read_model :: "inspect_io \<Rightarrow> (gguf_error \<Rightarrow> string) \<Rightarrow> string \<Rightarrow> int \<Rightarrow> plan_gpu \<Rightarrow> model_inspection \<Rightarrow> model_inspection" where
  "read_model io text path ctx g out =
     (let no_file = refuse_model out InspectInvalid (lit ''This path is not a regular file.'') in
      if ii_lstat io path = Some False then no_file
      else (case ii_open io path of
          OpenNotExist \<Rightarrow> refuse_model out InspectNotFound (lit ''No file exists at this path.'')
        | OpenPermission \<Rightarrow> refuse_model out InspectUnreadable
            (lit ''Benchwarmer is not allowed to read this file. Move it into the models folder or grant the service account read access.'')
        | OpenFailed \<Rightarrow> refuse_model out InspectUnreadable (lit ''This file could not be opened.'')
        | OpenStatFailed \<Rightarrow> no_file
        | OpenOk fi bytes \<Rightarrow>
            (if \<not> fi_regular fi then no_file
             else (case parse_gguf bytes of
                 Inl ErrNotGGUF \<Rightarrow> refuse_model out InspectNotGGUF
                   (lit ''The file does not start with a GGUF header, so it is not a model llama.cpp can load.'')
               | Inl (ErrUnsupportedVersion v) \<Rightarrow> refuse_model out InspectUnsupported
                   (Sprintf ''This GGUF file uses a format version Benchwarmer cannot read (%s). It may still load; no settings were proposed.''
                     [FStr (text (ErrUnsupportedVersion v))])
               | Inl e \<Rightarrow> refuse_model out InspectInvalid
                   (Sprintf ''The GGUF header could not be read (%s). The file may be damaged or still downloading.'' [FStr (text e)])
               | Inr md \<Rightarrow> out\<lparr>in_size_bytes := fi_size fi, in_metadata := Some md,
                   in_plan := Some (compute \<lparr>pi_meta = md, pi_file_size = fi_size fi, pi_gpu = g, pi_current_context = ctx\<rparr>)\<rparr>))))"

text \<open>The answer, and the path that was read, if any.\<close>

definition inspect_model_file ::
  "inspect_io \<Rightarrow> (gguf_error \<Rightarrow> string) \<Rightarrow> string \<Rightarrow> int \<Rightarrow> plan_gpu \<Rightarrow> string list \<Rightarrow> model_inspection \<times> string option" where
  "inspect_model_file io text path ctx g allowed =
     (let base = inspection path g; refuse = refuse_model base in
      if \<not> abs_path path \<or> CHR 0x00 \<in> set path
      then (refuse InspectInvalid (Sprintf ''The model path must be a full path, such as %s.''
             [FStr (''C:'' @ [CHR 0x5C] @ ''ProgramData'' @ [CHR 0x5C] @ ''Benchwarmer'' @ [CHR 0x5C] @ ''models'' @ [CHR 0x5C] @ ''model.gguf'')]), None)
      else if has_prefix path [CHR 0x5C, CHR 0x5C] \<or> has_prefix path ''//''
      then (refuse InspectInvalid (lit ''Network and device paths are not read. Copy the model into the models folder.''), None)
      else if \<not> is_gguf_path path then (refuse InspectNotGGUF (lit ''This is not a .gguf file.''), None)
      else if \<not> list_ex (\<lambda>a. a \<noteq> '''' \<and> same_path a path) allowed
      then (refuse InspectNotAvailable
             (lit ''This path can be checked after the configuration is saved with it, or if the file is in the models folder.''), None)
      else if ii_late io
      then (refuse InspectUnreadable (lit ''Reading this file took too long, so it was skipped. Check that the path is a local file.''),
            Some (clean_path path))
      else (read_model io text (clean_path path) ctx g base, Some (clean_path path)))"

definition inspect_model ::
  "inspect_io \<Rightarrow> (gguf_error \<Rightarrow> string) \<Rightarrow> dir_reader \<Rightarrow> string \<Rightarrow> config \<Rightarrow> gpu_facts \<Rightarrow> string \<Rightarrow> int \<Rightarrow> model_inspection \<times> string option" where
  "inspect_model io text rd data_dir cfg f path ctx =
     inspect_model_file io text path ctx \<lparr>gp_total_mib = gf_vram_total_mib f, gp_reliable = (gf_confidence f \<noteq> ConfidenceNone)\<rparr>
       (rt_model_path (cf_runtime cfg) # map mo_path (model_files rd (join_path data_dir ''models'')))"

subsection \<open>Clean paths\<close>

lemma clean_segs_rooted:
  "''..'' \<notin> set acc \<and> ''.'' \<notin> set acc \<and> '''' \<notin> set acc \<Longrightarrow> set (clean_segs True acc gs) \<inter> {'''', ''.'', ''..''} = {}"
proof (induction True acc gs rule: clean_segs.induct)
  case (2 acc g gs)
  then show ?case by (cases acc) auto
qed auto

lemma clean_segs_sub: "set (clean_segs r acc gs) \<subseteq> set acc \<union> set gs"
proof (induction r acc gs rule: clean_segs.induct)
  case (2 r acc g gs)
  then show ?case by (cases acc) (auto split: if_splits)
qed auto

lemma split_join:
  "gs \<noteq> [] \<Longrightarrow> \<forall>g \<in> set gs. c \<notin> set g \<Longrightarrow> split_char c (join_with [c] gs) = gs"
proof (induction gs rule: induct_list012)
  case (2 x)
  then show ?case using split_char_single by simp
next
  case (3 x y zs)
  have "split_char c (x @ c # r) = x # split_char c r" if "c \<notin> set x" for x r
    using that by (induction x) auto
  then show ?case using 3 by simp
qed simp

lemma split_no_sep: "g \<in> set (split_char c s) \<Longrightarrow> c \<notin> set g"
  by (induction s arbitrary: g) (auto split: list.splits if_splits)

text \<open>A clean absolute path has no empty, dot or dot-dot segments after its root.\<close>

lemma clean_path_segments:
  assumes "abs_path p"
  obtains gs where "clean_path p = CHR ''/'' # join_with ''/'' gs" "set gs \<inter> {'''', ''.'', ''..''} = {}" "\<forall>g \<in> set gs. CHR ''/'' \<notin> set g"
proof -
  let ?gs = "clean_segs True [] (split_char CHR ''/'' p)"
  have "p \<noteq> ''''" "has_prefix p ''/''" using assms by (auto simp: abs_path_def has_prefix_def)
  then have "clean_path p = CHR ''/'' # join_with ''/'' ?gs" by (simp add: clean_path_def Let_def)
  moreover have "set ?gs \<inter> {'''', ''.'', ''..''} = {}" by (rule clean_segs_rooted) simp
  moreover have "\<forall>g \<in> set ?gs. CHR ''/'' \<notin> set g" using clean_segs_sub [of True "[]"] split_no_sep by fastforce
  ultimately show ?thesis by (rule that)
qed


definition demo_reader :: dir_reader where
  "demo_reader d = (if d = ''/d/models''
     then [\<lparr>de_name = ''m.gguf'', de_dir = False, de_info = Some \<lparr>fi_regular = True, fi_size = 9, fi_modified = 0\<rparr>\<rparr>] else [])"

definition demo_inspect_io :: inspect_io where
  "demo_inspect_io = \<lparr>ii_lstat = (\<lambda>_. None), ii_open = (\<lambda>_. OpenNotExist), ii_late = False\<rparr>"

definition demo_facts :: gpu_facts where
  "demo_facts = \<lparr>gf_confidence = ConfidenceNone, gf_attribution_reasons = [], gf_none_for = 0, gf_healthy_for = 0,
     gf_total_util_pct = 0, gf_own_util_pct = 0, gf_external_util_pct = 0, gf_external_util_trusted = False,
     gf_above_critical_for = 0, gf_above_soft_for = 0, gf_below_soft_for = 0, gf_vram_total_mib = 0,
     gf_vram_used_mib = 0, gf_vram_free_mib = 0, gf_own_vram_mib = 0, gf_external_vram_mib = 0,
     gf_external_vram_growth_mib = 0, gf_temperature_c = None\<rparr>"

lemma demo_listed: "map mo_path (model_files demo_reader (join_path ''/d'' ''models'')) = [''/d/models/m.gguf'']"
  by code_simp

lemma available_read:
  assumes "abs_path p" "CHR 0x00 \<notin> set p" "\<not> has_prefix p [CHR 0x5C, CHR 0x5C]" "\<not> has_prefix p ''//''" "is_gguf_path p"
    "list_ex (\<lambda>a. a \<noteq> '''' \<and> same_path a p) allowed"
  shows "snd (inspect_model_file io text p ctx g allowed) = Some (clean_path p)"
  using assms by (simp add: inspect_model_file_def Let_def)

lemma demo_path:
  "abs_path ''/d/x/../models/m.gguf''" "CHR 0x00 \<notin> set ''/d/x/../models/m.gguf''"
  "\<not> has_prefix ''/d/x/../models/m.gguf'' [CHR 0x5C, CHR 0x5C]" "\<not> has_prefix ''/d/x/../models/m.gguf'' ''//''"
  "is_gguf_path ''/d/x/../models/m.gguf''" "same_path ''/d/models/m.gguf'' ''/d/x/../models/m.gguf''"
  "clean_path ''/d/x/../models/m.gguf'' = ''/d/models/m.gguf''"
  by code_simp+

lemma demo_inspected:
  "snd (inspect_model demo_inspect_io (\<lambda>_. '''') demo_reader ''/d'' default_config demo_facts ''/d/x/../models/m.gguf'' 0)
     = Some ''/d/models/m.gguf''"
  unfolding inspect_model_def demo_listed using demo_path by (subst available_read) simp_all


end
