(* ===== verification/Runtime_Identity.thy ===== *)
theory Runtime_Identity
  imports Secrets
begin

text \<open>
  Package \<open>internal/service\<close>, \<open>runtimeidentity.go\<close>: which installed runtime build is known. The manifest of the
  package names its files with their hashes, and the build is known only when all of them match. SHA-256,
  the decoder of the manifest and the answers of the file system are parameters; the cache of hashes is
  the state.
\<close>

subsection \<open>Hashes of files\<close>

record hash_entry =
  he_size :: int
  he_modified :: time
  he_sum :: string

type_synonym hash_cache = "(string \<times> hash_entry) list"

definition max_hashed :: int where "max_hashed = 2 ^ 28"
definition limit_read :: "string \<Rightarrow> string" where "limit_read b = take (nat max_hashed + 1) b"
definition max_hash_entries :: nat where "max_hash_entries = 512"

record file_stat =
  fs_regular :: bool
  fs_size :: int
  fs_modified :: time

text \<open>A file system as one check sees it: what is at a path before the read, the bytes that were read and
  what is at the path after it. \<open>None\<close> stands for an error.\<close>

record hash_io =
  hi_stat :: "string \<Rightarrow> file_stat option"
  hi_read :: "string \<Rightarrow> string option"
  hi_after :: "string \<Rightarrow> file_stat option"

definition cache_put :: "string \<Rightarrow> hash_entry \<Rightarrow> hash_cache \<Rightarrow> hash_cache" where
  "cache_put p e c = (let c' = if max_hash_entries \<le> length c then [] else c in (p, e) # filter (\<lambda>(q, _). q \<noteq> p) c')"

definition hash_runtime_file :: "(string \<Rightarrow> string) \<Rightarrow> hash_io \<Rightarrow> string \<Rightarrow> hash_cache \<Rightarrow> string \<times> hash_cache" where
  "hash_runtime_file sha io path c = (case hi_stat io path of
      None \<Rightarrow> ('''', c)
    | Some fi \<Rightarrow>
        (if \<not> fs_regular fi \<or> max_hashed < fs_size fi then ('''', c)
         else
           let stale = (case hi_read io path of
               None \<Rightarrow> ('''', c)
             | Some b \<Rightarrow>
                 (let b = limit_read b in
                  if int (length b) \<noteq> fs_size fi then ('''', c)
                  else (case hi_after io path of
                      None \<Rightarrow> ('''', c)
                    | Some after \<Rightarrow>
                        (if fs_size after \<noteq> fs_size fi \<or> fs_modified after \<noteq> fs_modified fi then ('''', c)
                         else (sha b, cache_put path \<lparr>he_size = fs_size fi, he_modified = fs_modified fi, he_sum = sha b\<rparr> c)))))
           in (case map_of c path of
               Some e \<Rightarrow> (if he_size e = fs_size fi \<and> he_modified e = fs_modified fi then (he_sum e, c) else stale)
             | None \<Rightarrow> stale)))"

subsection \<open>The manifest\<close>

record manifest_file =
  mf_path :: string
  mf_sha256 :: string

record runtime_manifest =
  rm_llama_tag :: string
  rm_ollama_version :: string
  rm_files :: "manifest_file list"

definition manifest_limit :: nat where "manifest_limit = 2 ^ 20"
definition manifest_files_limit :: nat where "manifest_files_limit = 256"
definition identity_library :: string where "identity_library = ''libllama-server-impl.dll''"

definition outside_path :: "string \<Rightarrow> bool" where
  "outside_path p = (abs_path p \<or> p = ''.'' \<or> has_prefix (clean_path p) ''../'' \<or> clean_path p = ''..'')"

text \<open>The loop over the files, with the paths seen, the total size and the cache. The total of the source is an
  \<open>int64\<close>; a sum that wraps comes from a file that is over the limit itself, which fails one step later
  with the same answer.\<close>

fun check_files ::
  "(string \<Rightarrow> string) \<Rightarrow> hash_io \<Rightarrow> string \<Rightarrow> manifest_file list \<Rightarrow> string list \<Rightarrow> int \<Rightarrow> hash_cache \<Rightarrow> string list option \<times> hash_cache" where
  "check_files sha io dir [] seen tot c = (Some seen, c)"
| "check_files sha io dir (f # fs) seen tot c =
     (let p = mf_path f; full = join_path dir p in
      if outside_path p \<or> full \<in> set seen then (None, c)
      else (case hi_stat io full of
          None \<Rightarrow> (None, c)
        | Some fi \<Rightarrow>
            (if max_hashed < tot + fs_size fi \<or> length (mf_sha256 f) \<noteq> 64 then (None, c)
             else (case hash_runtime_file sha io full c of (h, c') \<Rightarrow>
               (if h \<noteq> to_lower (mf_sha256 f) then (None, c')
                else check_files sha io dir fs (full # seen) (tot + fs_size fi) c')))))"

text \<open>The last argument of \<open>manifest\<close> is the file \<open>benchwarmer-runtime.json\<close> as it was read, if it could be.\<close>

definition runtime_identity ::
  "(string \<Rightarrow> string) \<Rightarrow> (string \<Rightarrow> runtime_manifest option) \<Rightarrow> hash_io \<Rightarrow> string \<Rightarrow> string \<Rightarrow> hash_cache \<Rightarrow> (string \<times> string) \<times> hash_cache" where
  "runtime_identity sha decode io dir exe c = (let unknown = ('''', '''') in
     case hi_read io (join_path dir ''benchwarmer-runtime.json'') of
      None \<Rightarrow> (unknown, c)
    | Some b \<Rightarrow>
        (if manifest_limit < length b then (unknown, c)
         else (case decode b of
             None \<Rightarrow> (unknown, c)
           | Some m \<Rightarrow>
               (if rm_files m = [] \<or> manifest_files_limit < length (rm_files m) then (unknown, c)
                else (case check_files sha io dir (rm_files m) [] 0 c of
                    (None, c') \<Rightarrow> (unknown, c')
                  | (Some seen, c') \<Rightarrow>
                      (if exe \<in> set seen \<and> join_path dir identity_library \<in> set seen
                       then ((rm_llama_tag m, rm_ollama_version m), c') else (unknown, c')))))))"

subsection \<open>Relative paths stay below their folder\<close>

lemma clean_segs_append: "clean_segs r acc (gs @ hs) = clean_segs r (rev (clean_segs r acc gs)) hs"
  by (induction r acc gs rule: clean_segs.induct) auto

lemma clean_segs_escaped: "hd (clean_segs False (acc @ [''..'']) gs) = ''..'' \<and> clean_segs False (acc @ [''..'']) gs \<noteq> []"
proof (induction gs arbitrary: acc)
  case (Cons g gs)
  show ?case
  proof (cases acc)
    case Nil
    then show ?thesis using Cons.IH [of "[]"] Cons.IH [of "[g]"] by auto
  next
    case c: (Cons x xs)
    then show ?thesis using Cons.IH [of acc] Cons.IH [of xs] Cons.IH [of "g # acc"] by auto
  qed
qed simp

lemma clean_segs_below:
  assumes "clean_segs False acc gs = [] \<or> hd (clean_segs False acc gs) \<noteq> ''..''" "''..'' \<notin> set acc"
  shows "clean_segs True (acc @ base) gs = rev base @ clean_segs False acc gs \<and> ''..'' \<notin> set (clean_segs False acc gs)"
  using assms
proof (induction gs arbitrary: acc)
  case (Cons g gs)
  consider "g = '''' \<or> g = ''.''" | "g = ''..''" "acc = []" | x xs where "g = ''..''" "acc = x # xs" "x \<noteq> ''..''"
    | "g \<noteq> ''''" "g \<noteq> ''.''" "g \<noteq> ''..''"
    using Cons.prems(2) by (cases acc) auto
  then show ?case
  proof cases
    case 2
    then show ?thesis using Cons.prems(1) clean_segs_escaped [of "[]" gs] by simp
  next
    case 3
    then show ?thesis using Cons.IH [of xs] Cons.prems by simp
  next
    case 4
    then show ?thesis using Cons.IH [of "g # acc"] Cons.prems by simp
  qed (use Cons in auto)
qed simp

lemma split_char_app: "split_char c (a @ c # b) = split_char c a @ split_char c b"
  by (induction a) (auto split: list.splits)

lemma join_with_hd: "gs \<noteq> [] \<Longrightarrow> hd gs = ''..'' \<Longrightarrow> join_with ''/'' gs = ''..'' \<or> has_prefix (join_with ''/'' gs) ''../''"
  by (cases gs; cases "tl gs") (auto simp: has_prefix_def)

lemma inside_path:
  assumes "abs_path dir" "\<not> outside_path p"
  defines "ds \<equiv> clean_segs True [] (split_char CHR ''/'' dir)"
  shows "\<exists>gs. join_path dir p = CHR ''/'' # join_with ''/'' (ds @ gs) \<and> ''..'' \<notin> set gs"
proof -
  let ?gs = "clean_segs False [] (split_char CHR ''/'' p)"
  have "?gs = [] \<or> hd ?gs \<noteq> ''..''"
  proof (cases "p = ''''")
    case False
    then have "clean_path p = (if join_with ''/'' ?gs = '''' then ''.'' else join_with ''/'' ?gs)"
      using assms(2) by (simp add: clean_path_def outside_path_def abs_path_def)
    moreover have "\<not> has_prefix '''' ''../''" by (simp add: has_prefix_def)
    ultimately show ?thesis using join_with_hd [of ?gs] assms(2) by (auto simp: outside_path_def split: if_splits)
  qed simp
  from clean_segs_below [OF this, of "rev ds"]
  have "clean_segs True (rev ds) (split_char CHR ''/'' p) = ds @ ?gs" "''..'' \<notin> set ?gs" by auto
  moreover have "dir \<noteq> ''''" "has_prefix (dir @ r) ''/''" for r using assms(1) by (auto simp: abs_path_def has_prefix_def)
  ultimately have "join_path dir p = CHR ''/'' # join_with ''/'' (ds @ ?gs)"
    by (simp add: join_path_def clean_path_def split_char_app clean_segs_append Let_def ds_def)
  then show ?thesis using \<open>''..'' \<notin> set ?gs\<close> by blast
qed

subsection \<open>Known builds\<close>

text \<open>A cache is honest for a file system when an entry that still describes its file holds the hash of the
  bytes that are read there: contents do not change below an unchanged size and modification time.\<close>

definition honest :: "(string \<Rightarrow> string) \<Rightarrow> hash_io \<Rightarrow> hash_cache \<Rightarrow> bool" where
  "honest sha io c \<longleftrightarrow> (\<forall>p e fi. map_of c p = Some e \<longrightarrow> hi_stat io p = Some fi \<longrightarrow> he_size e = fs_size fi \<longrightarrow>
     he_modified e = fs_modified fi \<longrightarrow> (\<exists>b. hi_read io p = Some b \<and> he_sum e = sha (limit_read b)))"

lemma map_of_cache_put: "map_of (cache_put p e c) q = (if q = p then Some e else map_of (if max_hash_entries \<le> length c then [] else c) q)"
proof -
  have "map_of (filter (\<lambda>(q, _). q \<noteq> p) c) q = (if q = p then None else map_of c q)" for c :: hash_cache
    by (induction c) auto
  then show ?thesis by (simp add: cache_put_def Let_def)
qed

lemma hash_runtime_file_honest:
  assumes "hash_runtime_file sha io path c = (h, c')" "honest sha io c"
  shows "honest sha io c'" and "h \<noteq> '''' \<Longrightarrow> \<exists>b. hi_read io path = Some b \<and> h = sha (limit_read b)"
proof -
  have put: "honest sha io (cache_put path \<lparr>he_size = fs_size fi, he_modified = fs_modified fi, he_sum = sha (limit_read b)\<rparr> c)"
    if "hi_stat io path = Some fi" "hi_read io path = Some b" for fi b
    using assms(2) that unfolding honest_def map_of_cache_put by auto
  show "honest sha io c'"
    using assms put unfolding hash_runtime_file_def Let_def by (auto split: option.splits if_splits)
  have cached: "\<exists>b. hi_read io path = Some b \<and> he_sum e = sha (limit_read b)"
    if "map_of c path = Some e" "hi_stat io path = Some fi" "he_size e = fs_size fi" "he_modified e = fs_modified fi" for e fi
    using assms(2) that unfolding honest_def by blast
  show "\<exists>b. hi_read io path = Some b \<and> h = sha (limit_read b)" if "h \<noteq> ''''"
    using assms(1) that cached unfolding hash_runtime_file_def Let_def by (auto split: option.splits if_splits)
qed

lemma cache_put_bounded: "length c \<le> max_hash_entries \<Longrightarrow> length (cache_put p e c) \<le> max_hash_entries"
proof -
  assume "length c \<le> max_hash_entries"
  then show ?thesis
    by (auto simp: cache_put_def Let_def max_hash_entries_def intro: order_trans [OF length_filter_le])
qed

lemma hash_cache_bounded:
  "length c \<le> max_hash_entries \<Longrightarrow> length (snd (hash_runtime_file sha io path c)) \<le> max_hash_entries"
  using cache_put_bounded by (auto simp: hash_runtime_file_def Let_def split: option.split)

definition file_checked :: "(string \<Rightarrow> string) \<Rightarrow> hash_io \<Rightarrow> string \<Rightarrow> manifest_file \<Rightarrow> bool" where
  "file_checked sha io dir f \<longleftrightarrow> \<not> outside_path (mf_path f) \<and>
     (\<exists>b. hi_read io (join_path dir (mf_path f)) = Some b \<and> sha (limit_read b) = to_lower (mf_sha256 f))"

lemma check_files_honest: "honest sha io c \<Longrightarrow> honest sha io (snd (check_files sha io dir fs seen tot c))"
proof (induction sha io dir fs seen tot c rule: check_files.induct)
  case (2 sha io dir f fs seen tot c)
  show ?case
  proof (cases "hash_runtime_file sha io (join_path dir (mf_path f)) c")
    case (Pair h c1)
    then show ?thesis using 2 hash_runtime_file_honest(1) [OF Pair] by (auto simp: Let_def split: option.split)
  qed
qed simp

lemma check_files_step:
  assumes "check_files sha io dir (f # fs) seen tot c = (Some out, c')" "honest sha io c"
  obtains t1 c1 where "file_checked sha io dir f" "join_path dir (mf_path f) \<notin> set seen" "honest sha io c1"
    "check_files sha io dir fs (join_path dir (mf_path f) # seen) t1 c1 = (Some out, c')"
proof (cases "hash_runtime_file sha io (join_path dir (mf_path f)) c")
  case (Pair h c1)
  have f: "\<not> outside_path (mf_path f)" "join_path dir (mf_path f) \<notin> set seen" "length (mf_sha256 f) = 64" "h = to_lower (mf_sha256 f)"
    and rest: "\<exists>t1. check_files sha io dir fs (join_path dir (mf_path f) # seen) t1 c1 = (Some out, c')"
    using assms(1) by (auto simp: Pair Let_def split: option.splits if_splits)
  have "h \<noteq> ''''" using f(3,4) by (auto simp: to_lower_def)
  then have "file_checked sha io dir f" using hash_runtime_file_honest(2) [OF Pair assms(2)] f by (auto simp: file_checked_def)
  then show thesis using that f(2) rest hash_runtime_file_honest(1) [OF Pair assms(2)] by blast
qed

lemma check_files_sound:
  assumes "check_files sha io dir fs seen tot c = (Some out, c')" "honest sha io c"
  shows "(\<forall>f \<in> set fs. file_checked sha io dir f) \<and> out = rev (map (join_path dir \<circ> mf_path) fs) @ seen
    \<and> (distinct seen \<longrightarrow> distinct out)"
  using assms
proof (induction fs arbitrary: seen tot c)
  case (Cons f fs)
  from check_files_step [OF Cons.prems] obtain t1 c1 where s: "file_checked sha io dir f"
    "join_path dir (mf_path f) \<notin> set seen" "honest sha io c1"
    "check_files sha io dir fs (join_path dir (mf_path f) # seen) t1 c1 = (Some out, c')" by blast
  from Cons.IH [OF s(4,3)] show ?case using s(1,2) by (fastforce simp: comp_def)
qed simp

text \<open>C32. A runtime build is known only when its package is complete and unaltered: when a tag or version is given,
  it is what the manifest in the folder says, every file of the manifest lies below the folder, no two are the same
  file, the bytes of each have the manifest's hash, and both the executable and the server library are among them.
  The hashes come through the cache, which stays honest whatever the answer.\<close>

theorem known_build_is_intact:
  assumes "runtime_identity sha decode io dir exe c = ((tag, version), c')"
    and "honest sha io c" and "abs_path dir" and "(tag, version) \<noteq> ('''', '''')"
  shows "honest sha io c' \<and> (\<exists>b m. hi_read io (join_path dir ''benchwarmer-runtime.json'') = Some b \<and> decode b = Some m
     \<and> tag = rm_llama_tag m \<and> version = rm_ollama_version m
     \<and> distinct (map (join_path dir \<circ> mf_path) (rm_files m))
     \<and> {exe, join_path dir identity_library} \<subseteq> (join_path dir \<circ> mf_path) ` set (rm_files m)
     \<and> (\<forall>f \<in> set (rm_files m).
          (\<exists>gs. join_path dir (mf_path f) = CHR ''/'' # join_with ''/'' (clean_segs True [] (split_char CHR ''/'' dir) @ gs) \<and> ''..'' \<notin> set gs)
          \<and> (\<exists>bytes. hi_read io (join_path dir (mf_path f)) = Some bytes \<and> sha (limit_read bytes) = to_lower (mf_sha256 f))))"
proof -
  obtain b m seen where r: "hi_read io (join_path dir ''benchwarmer-runtime.json'') = Some b" "decode b = Some m"
      "check_files sha io dir (rm_files m) [] 0 c = (Some seen, c')" "exe \<in> set seen" "join_path dir identity_library \<in> set seen"
      "tag = rm_llama_tag m" "version = rm_ollama_version m"
    using assms(1,4) by (auto simp: runtime_identity_def Let_def split: option.splits if_splits prod.splits)
  have c: "honest sha io c'" using check_files_honest [OF assms(2), of dir "rm_files m" "[]" 0] by (simp add: r(3))
  from check_files_sound [OF r(3) assms(2)]
  have s: "\<forall>f \<in> set (rm_files m). file_checked sha io dir f" "seen = rev (map (join_path dir \<circ> mf_path) (rm_files m))" "distinct seen"
    by auto
  have "\<forall>f \<in> set (rm_files m). (\<exists>gs. join_path dir (mf_path f) =
      CHR ''/'' # join_with ''/'' (clean_segs True [] (split_char CHR ''/'' dir) @ gs) \<and> ''..'' \<notin> set gs)
    \<and> (\<exists>bytes. hi_read io (join_path dir (mf_path f)) = Some bytes \<and> sha (limit_read bytes) = to_lower (mf_sha256 f))"
    using s(1) inside_path [OF assms(3)] unfolding file_checked_def by blast
  moreover have "distinct (map (join_path dir \<circ> mf_path) (rm_files m))" using s(2,3) by simp
  moreover have "{exe, join_path dir identity_library} \<subseteq> (join_path dir \<circ> mf_path) ` set (rm_files m)" using r(4,5) s(2) by auto
  ultimately show ?thesis using c r(1,2,6,7) by blast
qed

definition demo_manifest :: runtime_manifest where
  "demo_manifest = \<lparr>rm_llama_tag = ''b1'', rm_ollama_version = ''0.1'',
     rm_files = [\<lparr>mf_path = ''s.exe'', mf_sha256 = replicate 64 CHR ''A''\<rparr>,
       \<lparr>mf_path = identity_library, mf_sha256 = replicate 64 CHR ''a''\<rparr>]\<rparr>"

definition demo_sha :: "string \<Rightarrow> string" where "demo_sha b = replicate 64 CHR ''a''"

definition demo_hash_io :: hash_io where
  "demo_hash_io = \<lparr>hi_stat = (\<lambda>_. Some \<lparr>fs_regular = True, fs_size = 1, fs_modified = 0\<rparr>), hi_read = (\<lambda>_. Some ''x''),
     hi_after = (\<lambda>_. Some \<lparr>fs_regular = True, fs_size = 1, fs_modified = 0\<rparr>)\<rparr>"

lemma demo_known_paths:
  "join_path ''/r'' ''s.exe'' = ''/r/s.exe''" "join_path ''/r'' identity_library = ''/r/'' @ identity_library"
  "\<not> outside_path ''s.exe''" "\<not> outside_path identity_library" "to_lower (replicate 64 CHR ''A'') = replicate 64 CHR ''a''"
  "to_lower (replicate 64 CHR ''a'') = replicate 64 CHR ''a''" "identity_library \<noteq> ''s.exe''"
  by code_simp+

lemma demo_known:
  "fst (runtime_identity demo_sha (\<lambda>_. Some demo_manifest) demo_hash_io ''/r'' ''/r/s.exe'' []) = (''b1'', ''0.1'')"
  using demo_known_paths
  by (simp add: runtime_identity_def Let_def demo_hash_io_def manifest_limit_def demo_manifest_def manifest_files_limit_def
    hash_runtime_file_def limit_read_def max_hashed_def demo_sha_def cache_put_def max_hash_entries_def)

theorem known_build_is_intact_witness:
  "{''/r/s.exe'', join_path ''/r'' identity_library} \<subseteq> (join_path ''/r'' \<circ> mf_path) ` set (rm_files demo_manifest)"
proof -
  obtain c' where "runtime_identity demo_sha (\<lambda>_. Some demo_manifest) demo_hash_io ''/r'' ''/r/s.exe'' [] = ((''b1'', ''0.1''), c')"
    using demo_known by (metis prod.collapse)
  moreover have "honest demo_sha demo_hash_io []" "abs_path ''/r''" by (simp_all add: honest_def abs_path_def has_prefix_def)
  ultimately show ?thesis using known_build_is_intact by fastforce
qed

end
