(* ===== verification/Setup_Info.thy ===== *)
theory Setup_Info
  imports Model_Files Runtime_Identity Gguf_Correct
begin

text \<open>
  Package \<open>internal/service\<close>: \<open>gguf.go\<close> (the architecture of a model, from a short look at its header) and
  \<open>setupinfo.go\<close> (what the setup page offers: models, installed runtimes and certificates).
\<close>

subsection \<open>The architecture of a model\<close>

record arch_reader =
  ar_rest :: string
  ar_err :: bool

definition arch_limit :: nat where "arch_limit = 2 ^ 24"
definition arch_max_keys :: nat where "arch_max_keys = 100000"
definition arch_max_str :: nat where "arch_max_str = 2 ^ 20"
definition arch_max_elements :: nat where "arch_max_elements = 1000000"

definition ar_fail :: "arch_reader \<Rightarrow> arch_reader" where
  "ar_fail r = r\<lparr>ar_err := True\<rparr>"

text \<open>A number of \<open>n\<close> bytes; after an error it is zero.\<close>

definition ar_num :: "nat \<Rightarrow> arch_reader \<Rightarrow> nat \<times> arch_reader" where
  "ar_num n r =
     (if ar_err r then (0, r)
      else if length (ar_rest r) < n then (0, \<lparr>ar_rest = [], ar_err = True\<rparr>)
      else (le_nat (take n (ar_rest r)), r\<lparr>ar_rest := drop n (ar_rest r)\<rparr>))"

text \<open>A string; one that is cut short is filled with zero bytes.\<close>

definition ar_str :: "arch_reader \<Rightarrow> string \<times> arch_reader" where
  "ar_str r0 = (case ar_num 8 r0 of (n, r) \<Rightarrow>
     (if arch_max_str < n then ('''', ar_fail r)
      else if ar_err r then (replicate n (CHR 0x00), r)
      else if length (ar_rest r) < n
        then (ar_rest r @ replicate (n - length (ar_rest r)) (CHR 0x00), \<lparr>ar_rest = [], ar_err = True\<rparr>)
      else (take n (ar_rest r), r\<lparr>ar_rest := drop n (ar_rest r)\<rparr>)))"

definition arch_size :: "nat \<Rightarrow> nat option" where
  "arch_size t = map_of [(0, 1), (1, 1), (2, 2), (3, 2), (4, 4), (5, 4), (6, 4), (7, 1), (10, 8), (11, 8), (12, 8)] t"

definition ar_skip_nested :: "nat \<Rightarrow> arch_reader \<Rightarrow> arch_reader" where
  "ar_skip_nested t r = (case arch_size t of
      Some n \<Rightarrow> (if ar_err r then r
        else if length (ar_rest r) < n then \<lparr>ar_rest = [], ar_err = True\<rparr> else r\<lparr>ar_rest := drop n (ar_rest r)\<rparr>)
    | None \<Rightarrow> (if t = 8 then snd (ar_str r) else ar_fail r))"

fun ar_skip_elements :: "nat \<Rightarrow> nat \<Rightarrow> arch_reader \<Rightarrow> arch_reader" where
  "ar_skip_elements 0 t r = r"
| "ar_skip_elements (Suc n) t r = (if ar_err r then r else ar_skip_elements n t (ar_skip_nested t r))"

definition ar_skip :: "nat \<Rightarrow> arch_reader \<Rightarrow> arch_reader" where
  "ar_skip t r =
     (if t = 9 then
        (case ar_num 4 r of (e, r1) \<Rightarrow> (case ar_num 8 r1 of (n, r2) \<Rightarrow>
           (if arch_max_elements < n then ar_fail r2 else ar_skip_elements n e r2)))
      else ar_skip_nested t r)"

fun arch_loop :: "nat \<Rightarrow> arch_reader \<Rightarrow> string" where
  "arch_loop 0 r = ''''"
| "arch_loop (Suc n) r =
     (if ar_err r then ''''
      else (case ar_str r of (k, r1) \<Rightarrow> (case ar_num 4 r1 of (t, r2) \<Rightarrow>
        (if k = ''general.architecture'' \<and> t = 8
         then (case ar_str r2 of (v, r3) \<Rightarrow> if ar_err r3 then '''' else v)
         else arch_loop n (ar_skip t r2)))))"

text \<open>The argument is the contents of the file, if it can be opened.\<close>

definition gguf_architecture :: "string option \<Rightarrow> string" where
  "gguf_architecture f = (case f of
      None \<Rightarrow> ''''
    | Some b \<Rightarrow>
        (let b = take arch_limit b in
         if take 4 b \<noteq> ''GGUF'' then ''''
         else (case ar_num 4 \<lparr>ar_rest = drop 4 b, ar_err = False\<rparr> of (v, r1) \<Rightarrow>
           (case ar_num 8 r1 of (_, r2) \<Rightarrow>
             (case ar_num 8 r2 of (n, r3) \<Rightarrow>
               (if v < 2 \<or> 3 < v \<or> arch_max_keys < n then '''' else arch_loop n r3))))))"

subsection \<open>What the setup page offers\<close>

definition list_models :: "(string \<Rightarrow> string option) \<Rightarrow> dir_reader \<Rightarrow> string \<Rightarrow> model_file list" where
  "list_models opened rd dir = map (\<lambda>m. m\<lparr>mo_architecture := gguf_architecture (opened (mo_path m))\<rparr>) (model_files rd dir)"

definition path_dir :: "string \<Rightarrow> string" where
  "path_dir p = clean_path (rev (dropWhile (\<lambda>c. c \<noteq> CHR ''/'') (rev p)))"

text \<open>The first of the two names that is a regular file.\<close>

definition runtime_exe :: "hash_io \<Rightarrow> string \<Rightarrow> string \<Rightarrow> string option" where
  "runtime_exe io dir name = find (\<lambda>p. case hi_stat io p of Some fi \<Rightarrow> fs_regular fi | None \<Rightarrow> False)
     (map (join_path (join_path (join_path dir ''runtime'') name)) [''llama-server.exe'', ''llama-server''])"

fun list_runtimes_loop ::
  "(string \<Rightarrow> string) \<Rightarrow> (string \<Rightarrow> runtime_manifest option) \<Rightarrow> hash_io \<Rightarrow> string \<Rightarrow> dir_entry list \<Rightarrow> hash_cache
     \<Rightarrow> runtime_install list \<times> hash_cache" where
  "list_runtimes_loop sha dec io dir [] c = ([], c)"
| "list_runtimes_loop sha dec io dir (e # es) c =
     (case (if de_dir e then runtime_exe io dir (de_name e) else None) of
        None \<Rightarrow> list_runtimes_loop sha dec io dir es c
      | Some p \<Rightarrow>
          (case runtime_identity sha dec io (path_dir p) p c of ((tag, version), c1) \<Rightarrow>
            (case list_runtimes_loop sha dec io dir es c1 of (out, c2) \<Rightarrow>
              (\<lparr>ri_name = de_name e, ri_path = p, ri_llama_tag = tag, ri_ollama_version = version\<rparr> # out, c2))))"

definition list_runtimes ::
  "(string \<Rightarrow> string) \<Rightarrow> (string \<Rightarrow> runtime_manifest option) \<Rightarrow> hash_io \<Rightarrow> dir_reader \<Rightarrow> string \<Rightarrow> hash_cache
     \<Rightarrow> runtime_install list \<times> hash_cache" where
  "list_runtimes sha dec io rd dir c =
     (if dir = '''' then ([], c) else list_runtimes_loop sha dec io dir (rd (join_path dir ''runtime'')) c)"

text \<open>The folder of the running executable is \<open>inst\<close>, empty if it is not known; \<open>certs\<close> is what the
  certificate store of the system answers.\<close>

definition setup_info_of ::
  "(string \<Rightarrow> string) \<Rightarrow> (string \<Rightarrow> runtime_manifest option) \<Rightarrow> hash_io \<Rightarrow> (string \<Rightarrow> string option) \<Rightarrow> dir_reader
     \<Rightarrow> string \<Rightarrow> string \<Rightarrow> string + store_certificate list \<Rightarrow> hash_cache \<Rightarrow> setup_info \<times> hash_cache" where
  "setup_info_of sha dec io opened rd data_dir inst certs c =
     (let models = join_path data_dir ''models'';
          (rts, c1) = list_runtimes sha dec io rd inst c
      in (\<lparr>su_data_dir = data_dir, su_models_dir = models, su_models = list_models opened rd models, su_runtimes = rts,
           su_certificates = (case certs of Inr cs \<Rightarrow> cs | Inl _ \<Rightarrow> []),
           su_certificates_error = (case certs of Inl e \<Rightarrow> e | Inr _ \<Rightarrow> '''')\<rparr>, c1))"

subsection \<open>Properties\<close>

text \<open>Only the first 16 MiB are looked at, and only of a file that starts as a model does.\<close>

lemma architecture_prefix: "gguf_architecture (Some b) = gguf_architecture (Some (take arch_limit b))"
  by (simp add: gguf_architecture_def)

lemma architecture_of_models: "gguf_architecture f \<noteq> '''' \<Longrightarrow> \<exists>b. f = Some b \<and> take 4 b = ''GGUF''"
  by (cases f) (auto simp: gguf_architecture_def Let_def arch_limit_def min_def split: if_splits)

text \<open>After an error nothing more is taken from the file, and no architecture is reported.\<close>

lemma ar_err_stays:
  "ar_err r \<Longrightarrow> ar_num n r = (0, r)" "ar_err r \<Longrightarrow> ar_err (ar_skip t r)" "ar_err r \<Longrightarrow> arch_loop k r = ''''"
proof -
  assume e: "ar_err r"
  show n: "ar_num n r = (0, r)" for n using e by (simp add: ar_num_def)
  have s: "ar_err (snd (ar_str r))" using e n by (simp add: ar_str_def arch_max_str_def)
  have "ar_err (ar_skip_nested t r)" for t using e s by (simp add: ar_skip_nested_def ar_fail_def split: option.split)
  moreover have "ar_skip_elements k t r = r" for k t using e by (cases k) simp_all
  ultimately show "ar_err (ar_skip t r)" using e n by (simp add: ar_skip_def ar_fail_def)
  show "arch_loop k r = ''''" using e by (cases k) simp_all
qed

text \<open>What is offered is what is there: models come from the folder, runtimes are regular files below the folder of the
  executable, and the cache of hashes stays honest.\<close>

lemma list_models_paths: "map mo_path (list_models opened rd dir) = map mo_path (model_files rd dir)"
  by (simp add: list_models_def comp_def)

lemma runtime_exe_regular: "runtime_exe io dir name = Some p \<Longrightarrow> \<exists>fi. hi_stat io p = Some fi \<and> fs_regular fi"
  unfolding runtime_exe_def find_Some_iff by (auto split: option.splits)

lemma list_runtimes_regular:
  "r \<in> set (fst (list_runtimes_loop sha dec io dir es c)) \<Longrightarrow>
     \<exists>fi. hi_stat io (ri_path r) = Some fi \<and> fs_regular fi \<and> ri_name r \<in> de_name ` set (filter de_dir es)"
proof (induction es arbitrary: c)
  case (Cons e es)
  show ?case
  proof (cases "if de_dir e then runtime_exe io dir (de_name e) else None")
    case None
    then show ?thesis using Cons by fastforce
  next
    case (Some p)
    then have d: "de_dir e" "runtime_exe io dir (de_name e) = Some p" by (auto split: if_splits)
    then show ?thesis using Cons runtime_exe_regular [OF d(2)] by (fastforce simp: case_prod_unfold)
  qed
qed simp

lemma runtime_identity_honest:
  assumes "honest sha io c" shows "honest sha io (snd (runtime_identity sha dec io dir exe c))"
proof -
  have "honest sha io c'" if "check_files sha io dir fs [] 0 c = (r, c')" for fs r c'
    using check_files_honest [OF assms, of dir fs "[]" 0] by (simp add: that)
  then show ?thesis using assms by (auto simp: runtime_identity_def Let_def split: option.split prod.split)
qed

lemma list_runtimes_honest:
  assumes "honest sha io c" shows "honest sha io (snd (list_runtimes sha dec io rd dir c))"
proof -
  have "honest sha io (snd (list_runtimes_loop sha dec io dir es c))" for es
    using assms
  proof (induction es arbitrary: c)
    case (Cons e es)
    show ?case
    proof (cases "if de_dir e then runtime_exe io dir (de_name e) else None")
      case (Some p)
      then show ?thesis
        using Cons.IH [OF runtime_identity_honest [OF Cons.prems, of dec "path_dir p" p]] by (simp add: case_prod_unfold)
    qed (simp add: Cons)
  qed simp
  then show ?thesis using assms by (simp add: list_runtimes_def)
qed

text \<open>The architecture that a header gives first is read back.\<close>

lemma ar_num_enc: "v < 256 ^ n \<Longrightarrow> ar_num n \<lparr>ar_rest = enc_le n v @ rest, ar_err = False\<rparr> = (v, \<lparr>ar_rest = rest, ar_err = False\<rparr>)"
  by (simp add: ar_num_def)

lemma ar_str_enc:
  "length t \<le> arch_max_str \<Longrightarrow>
     ar_str \<lparr>ar_rest = enc_le 8 (length t) @ t @ rest, ar_err = False\<rparr> = (t, \<lparr>ar_rest = rest, ar_err = False\<rparr>)"
  by (simp add: ar_str_def ar_num_enc arch_max_str_def)

lemma architecture_read_back:
  assumes k: "k = ''general.architecture''" and "length v \<le> arch_max_str"
  shows "arch_loop (Suc n) \<lparr>ar_rest = enc_kv (k, GText v) @ rest, ar_err = False\<rparr> = v"
proof -
  have "length k \<le> arch_max_str" by (simp add: k arch_max_str_def)
  then show ?thesis using assms(2) by (simp add: enc_kv_def enc_str_def ar_str_enc ar_num_enc) (simp add: k)
qed

end
