(* ===== verification/Gpu_Reset.thy ===== *)
theory Gpu_Reset
  imports Secrets
begin

text \<open>
  Package \<open>internal/gpureset\<close>: the watcher that reports the driver's watchdog dumps, as the service polls it.
  Directories are read through a parameter; \<open>None\<close> stands for a directory that cannot be read.
\<close>

text \<open>An entry of a directory: its name, whether it is a directory, and its time if that can be had.\<close>

type_synonym dump_entry = "string \<times> bool \<times> time option"
type_synonym dump_reader = "string \<Rightarrow> dump_entry list option"

record watcher =
  wt_dirs :: "string list"
  wt_seen :: "string \<rightharpoonup> time"
  wt_since :: time

definition default_dirs :: "string \<Rightarrow> string list" where
  "default_dirs sysroot = (if sysroot = '''' then []
     else [join_path (join_path sysroot ''LiveKernelReports'') ''WATCHDOG'', join_path sysroot ''LiveKernelReports''])"

definition is_watchdog_dump :: "string \<Rightarrow> bool" where
  "is_watchdog_dump name = (has_prefix (to_lower name) ''watchdog'' \<and> has_suffix (to_lower name) ''.dmp'')"

definition dump_of :: "string \<Rightarrow> dump_entry \<Rightarrow> gpu_reset list" where
  "dump_of d e = (case e of (name, dir, info) \<Rightarrow>
     if dir \<or> \<not> is_watchdog_dump name then []
     else (case info of None \<Rightarrow> [] | Some t \<Rightarrow> [\<lparr>gr_file = join_path d name, gr_time = t\<rparr>]))"

definition scan_dumps :: "dump_reader \<Rightarrow> string list \<Rightarrow> gpu_reset list" where
  "scan_dumps rd dirs = concat (map (\<lambda>d. case rd d of None \<Rightarrow> [] | Some es \<Rightarrow> concat (map (dump_of d) es)) dirs)"

definition mark_seen :: "gpu_reset \<Rightarrow> (string \<rightharpoonup> time) \<Rightarrow> string \<rightharpoonup> time" where
  "mark_seen r s = s(gr_file r \<mapsto> gr_time r)"

definition new_watcher :: "dump_reader \<Rightarrow> string list \<Rightarrow> watcher" where
  "new_watcher rd dirs = \<lparr>wt_dirs = dirs, wt_seen = fold mark_seen (scan_dumps rd dirs) Map.empty, wt_since = 0\<rparr>"

definition set_since :: "time \<Rightarrow> watcher \<Rightarrow> watcher" where
  "set_since t w = w\<lparr>wt_since := t,
     wt_seen := (\<lambda>f. case wt_seen w f of Some m \<Rightarrow> (if t < m then None else Some m) | None \<Rightarrow> None)\<rparr>"

definition unreadable :: "dump_reader \<Rightarrow> (string \<Rightarrow> bool) \<Rightarrow> watcher \<Rightarrow> string list" where
  "unreadable rd missing w = filter (\<lambda>d. rd d = None \<and> \<not> missing d) (wt_dirs w)"

text \<open>The loop of \<open>Poll\<close> over one scan: what is fresh, and what has been seen afterwards.\<close>

fun fresh_dumps :: "gpu_reset list \<Rightarrow> (string \<rightharpoonup> time) \<Rightarrow> gpu_reset list \<times> (string \<rightharpoonup> time)" where
  "fresh_dumps [] s = ([], s)"
| "fresh_dumps (r # rs) s =
     (if (case s (gr_file r) of Some p \<Rightarrow> \<not> p < gr_time r | None \<Rightarrow> False) then fresh_dumps rs s
      else (case fresh_dumps rs (mark_seen r s) of (out, s') \<Rightarrow> (r # out, s')))"

definition poll :: "dump_reader \<Rightarrow> watcher \<Rightarrow> gpu_reset list \<times> watcher" where
  "poll rd w = (case fresh_dumps (scan_dumps rd (wt_dirs w)) (wt_seen w) of (out, s) \<Rightarrow> (out, w\<lparr>wt_seen := s\<rparr>))"

text \<open>A run: the directory contents at each poll, and what each reported.\<close>

fun polls :: "dump_reader list \<Rightarrow> watcher \<Rightarrow> gpu_reset list \<times> watcher" where
  "polls [] w = ([], w)"
| "polls (rd # rds) w = (case poll rd w of (out, w1) \<Rightarrow> (case polls rds w1 of (outs, w2) \<Rightarrow> (out @ outs, w2)))"

subsection \<open>What is reported\<close>

lemma fresh_dumps_append:
  "fresh_dumps (xs @ ys) s = (case fresh_dumps xs s of (a, s1) \<Rightarrow> (case fresh_dumps ys s1 of (b, s2) \<Rightarrow> (a @ b, s2)))"
  by (induction xs s rule: fresh_dumps.induct) (auto split: prod.splits option.splits)

lemma polls_stream:
  "polls rds w = (case fresh_dumps (concat (map (\<lambda>rd. scan_dumps rd (wt_dirs w)) rds)) (wt_seen w) of (out, s) \<Rightarrow> (out, w\<lparr>wt_seen := s\<rparr>))"
  by (induction rds w rule: polls.induct) (auto simp: poll_def fresh_dumps_append split: prod.splits)

text \<open>The reference: a sighting is news when it is later than every earlier sighting of its file, and later than
  the time that was remembered for the file at the start.\<close>

definition news :: "(string \<rightharpoonup> time) \<Rightarrow> gpu_reset list \<Rightarrow> gpu_reset \<Rightarrow> bool" where
  "news s past r \<longleftrightarrow> (\<forall>q \<in> set past. gr_file q = gr_file r \<longrightarrow> gr_time q < gr_time r) \<and> (\<forall>m. s (gr_file r) = Some m \<longrightarrow> m < gr_time r)"

definition latest_of :: "(string \<rightharpoonup> time) \<Rightarrow> gpu_reset list \<Rightarrow> string \<Rightarrow> time option \<Rightarrow> bool" where
  "latest_of s past f x = (case x of
      None \<Rightarrow> s f = None \<and> (\<forall>q \<in> set past. gr_file q \<noteq> f)
    | Some t \<Rightarrow> (s f = Some t \<or> (\<exists>q \<in> set past. gr_file q = f \<and> gr_time q = t))
        \<and> (\<forall>m. s f = Some m \<longrightarrow> m \<le> t) \<and> (\<forall>q \<in> set past. gr_file q = f \<longrightarrow> gr_time q \<le> t))"

definition latest :: "(string \<rightharpoonup> time) \<Rightarrow> gpu_reset list \<Rightarrow> (string \<rightharpoonup> time) \<Rightarrow> bool" where
  "latest s past s' \<longleftrightarrow> (\<forall>f. latest_of s past f (s' f))"

lemma latest_of_news:
  "latest_of s past (gr_file r) x \<Longrightarrow> news s past r \<longleftrightarrow> (case x of Some p \<Rightarrow> p < gr_time r | None \<Rightarrow> True)"
  by (cases x) (fastforce simp: latest_of_def news_def)+

lemma latest_news: "latest s past s' \<Longrightarrow> news s past r \<longleftrightarrow> (case s' (gr_file r) of Some p \<Rightarrow> p < gr_time r | None \<Rightarrow> True)"
  by (rule latest_of_news) (simp add: latest_def)

lemma latest_of_other: "latest_of s past f x \<Longrightarrow> gr_file r \<noteq> f \<Longrightarrow> latest_of s (r # past) f x"
  by (cases x) (auto simp: latest_of_def)

lemma latest_of_same: "news s past r \<Longrightarrow> latest_of s (r # past) (gr_file r) (Some (gr_time r))"
  by (auto simp: latest_of_def news_def less_imp_le)

lemma latest_of_old:
  "latest_of s past (gr_file r) x \<Longrightarrow> \<not> news s past r \<Longrightarrow> latest_of s (r # past) (gr_file r) x"
  using latest_of_news [of s past r x] by (cases x) (auto simp: latest_of_def)

lemma latest_mark: "latest s past s' \<Longrightarrow> news s past r \<Longrightarrow> latest s (r # past) (mark_seen r s')"
  using latest_of_same latest_of_other unfolding latest_def mark_seen_def by (metis fun_upd_apply)

lemma latest_old: "latest s past s' \<Longrightarrow> \<not> news s past r \<Longrightarrow> latest s (r # past) s'"
  using latest_of_old latest_of_other unfolding latest_def by metis

lemma fresh_is_news: "latest s past s' \<Longrightarrow> fst (fresh_dumps rs s') = nths rs {i. news s (past @ take i rs) (rs ! i)}"
proof (induction rs arbitrary: past s')
  case (Cons r rs)
  have tail: "{j. Suc j \<in> {i. news s (past @ take i (r # rs)) ((r # rs) ! i)}} = {j. news s ((r # past) @ take j rs) (rs ! j)}"
    by (auto simp: news_def)
  show ?case
  proof (cases "news s past r")
    case True
    then have "fresh_dumps (r # rs) s' = (case fresh_dumps rs (mark_seen r s') of (out, s2) \<Rightarrow> (r # out, s2))"
      using latest_news [OF Cons.prems, of r] by (auto split: option.splits)
    then show ?thesis
      using Cons.IH [OF latest_mark [OF Cons.prems True]] True unfolding nths_Cons tail by (simp add: case_prod_unfold)
  next
    case False
    then have "fresh_dumps (r # rs) s' = fresh_dumps rs s'"
      using latest_news [OF Cons.prems, of r] by (auto split: option.splits)
    then show ?thesis
      using Cons.IH [OF latest_old [OF Cons.prems False]] False unfolding nths_Cons tail by simp
  qed
qed simp

lemma news_distinct: "distinct (nths rs {i. news s (past @ take i rs) (rs ! i)}) \<and>
    set past \<inter> set (nths rs {i. news s (past @ take i rs) (rs ! i)}) = {}"
proof (induction rs arbitrary: past)
  case (Cons r rs)
  have tail: "{j. Suc j \<in> {i. news s (past @ take i (r # rs)) ((r # rs) ! i)}} = {j. news s ((r # past) @ take j rs) (rs ! j)}"
    by (auto simp: news_def)
  have "r \<notin> set past" if "news s past r" using that by (auto simp: news_def)
  then show ?case using Cons.IH [of "r # past"] unfolding nths_Cons tail by auto
qed simp

lemma baseline_since: "wt_seen (set_since t w) f = Some m \<Longrightarrow> m \<le> t \<and> wt_seen w f = Some m"
  by (auto simp: set_since_def split: option.splits if_splits)

text \<open>C34. A driver reset is reported once, and none is missed: over any number of polls, whatever the directories
  hold at each, the reports are exactly the sightings of a dump that are later than all earlier sightings of the file
  and than the time it had when the watcher was started; so no dump is reported twice, and one that was there at the
  start is not reported at all unless it was written after the time of the last check that the service passed on.\<close>

theorem resets_reported_once:
  assumes w_def: "w = set_since t (new_watcher rd0 dirs)" and sightings_def: "sightings = concat (map (\<lambda>rd. scan_dumps rd dirs) rds)"
  shows "fst (polls rds w) = nths sightings
      {i. (\<forall>q \<in> set (take i sightings). gr_file q = gr_file (sightings ! i) \<longrightarrow> gr_time q < gr_time (sightings ! i))
        \<and> (\<forall>m. fold mark_seen (scan_dumps rd0 dirs) Map.empty (gr_file (sightings ! i)) = Some m \<longrightarrow> m \<le> t \<longrightarrow> m < gr_time (sightings ! i))}
    \<and> distinct (fst (polls rds w))"
proof -
  have dirs: "wt_dirs w = dirs" by (simp add: w_def set_since_def new_watcher_def)
  have "latest (wt_seen w) [] (wt_seen w)" by (auto simp: latest_def latest_of_def split: option.split)
  from fresh_is_news [OF this, of sightings]
  have run: "fst (polls rds w) = nths sightings {i. news (wt_seen w) ([] @ take i sightings) (sightings ! i)}"
    unfolding polls_stream dirs sightings_def by (simp add: case_prod_unfold)
  have seen: "(\<forall>m. wt_seen w f = Some m \<longrightarrow> m < x) \<longleftrightarrow>
      (\<forall>m. fold mark_seen (scan_dumps rd0 dirs) Map.empty f = Some m \<longrightarrow> m \<le> t \<longrightarrow> m < x)" for f x
    by (auto simp: w_def set_since_def new_watcher_def split: option.splits)
  show ?thesis
    using run news_distinct [of sightings "wt_seen w" "[]"] unfolding news_def seen by simp
qed

definition demo_dumps :: "(string \<times> time) list \<Rightarrow> dump_reader" where
  "demo_dumps ds d = Some (map (\<lambda>(n, t). (n, False, Some t)) ds)"

theorem resets_reported_once_witness:
  "distinct (fst (polls [demo_dumps [(''watchdog-1.dmp'', 5), (''WATCHDOG-2.DMP'', 9)], demo_dumps [(''watchdog-1.dmp'', 12)]]
     (set_since 6 (new_watcher (demo_dumps [(''watchdog-1.dmp'', 5)]) [''/w'']))))"
  using resets_reported_once [OF refl refl] by blast

end
