(* ===== verification/Counters.thy ===== *)
theory Counters
  imports Telemetry Net "HOL-Library.Word"
begin

text \<open>
  Package \<open>internal/telemetry\<close>: \<open>counters.go\<close> (one collection of the GPU performance counters becomes a sample)
  and, of \<open>wingpu_windows.go\<close>, the collector around it: when a collection is primed, which adapter is
  watched and when a sample counts as complete. The answers of the system's counters are parameters.

  A Go map of readings is an association list in the order of its iteration. A reading is a float or NaN; the
  system's counters give no infinities. Converting a float that is not the value of a \<open>uint64\<close> gives what the
  machine gives, the parameter \<open>junk\<close>.
\<close>

subsection \<open>Counter instance names\<close>

record instance_name =
  cn_pid :: nat
  cn_has_pid :: bool
  cn_luid :: string
  cn_phys :: string
  cn_eng :: string
  cn_eng_type :: string

definition cut_prefix :: "string \<Rightarrow> string \<Rightarrow> string option" where
  "cut_prefix p s = (if has_prefix s p then Some (drop (length p) s) else None)"

text \<open>The part before an underscore, and the rest from it on.\<close>

definition until_us :: "string \<Rightarrow> string" where "until_us s = takeWhile (\<lambda>c. c \<noteq> CHR ''_'') s"
definition from_us :: "string \<Rightarrow> string" where "from_us s = dropWhile (\<lambda>c. c \<noteq> CHR ''_'') s"

definition parse_uint32 :: "string \<Rightarrow> nat option" where
  "parse_uint32 s = (case atoi_digits s of
      None \<Rightarrow> None
    | Some n \<Rightarrow> (if n < 2 ^ 32 then Some (nat n) else None))"

definition parse_eng_type :: "instance_name \<Rightarrow> string \<Rightarrow> instance_name" where
  "parse_eng_type i rest = (case cut_prefix ''_engtype_'' rest of Some v \<Rightarrow> i\<lparr>cn_eng_type := v\<rparr> | None \<Rightarrow> i)"

definition parse_eng :: "instance_name \<Rightarrow> string \<Rightarrow> instance_name" where
  "parse_eng i rest = (case cut_prefix ''_eng_'' rest of
      None \<Rightarrow> parse_eng_type i rest
    | Some v \<Rightarrow> (if from_us v = '''' then i\<lparr>cn_eng := v\<rparr> else parse_eng_type (i\<lparr>cn_eng := until_us v\<rparr>) (from_us v)))"

definition parse_phys :: "instance_name \<Rightarrow> string \<Rightarrow> instance_name" where
  "parse_phys i rest = (case cut_prefix ''_phys_'' rest of
      None \<Rightarrow> parse_eng i rest
    | Some v \<Rightarrow> (if from_us v = '''' then i\<lparr>cn_phys := v\<rparr> else parse_eng (i\<lparr>cn_phys := until_us v\<rparr>) (from_us v)))"

definition parse_luid :: "instance_name \<Rightarrow> string \<Rightarrow> instance_name option" where
  "parse_luid i rest = (case cut_prefix ''luid_'' rest of
      None \<Rightarrow> None
    | Some v \<Rightarrow> (if length v < 21 then None else Some (parse_phys (i\<lparr>cn_luid := to_lower (take 21 v)\<rparr>) (drop 21 v))))"

definition parse_instance :: "string \<Rightarrow> instance_name option" where
  "parse_instance s =
     (let i = \<lparr>cn_pid = 0, cn_has_pid = False, cn_luid = '''', cn_phys = '''', cn_eng = '''', cn_eng_type = ''''\<rparr>
      in case cut_prefix ''pid_'' s of
        None \<Rightarrow> parse_luid i s
      | Some v \<Rightarrow>
          (if from_us v = '''' then None
           else (case parse_uint32 (until_us v) of
               None \<Rightarrow> None
             | Some n \<Rightarrow> parse_luid (i\<lparr>cn_pid := n, cn_has_pid := True\<rparr>) (tl (from_us v)))))"

fun str_contains :: "string \<Rightarrow> string \<Rightarrow> bool" where
  "str_contains [] t = (t = [])"
| "str_contains (c # s) t = (has_prefix (c # s) t \<or> str_contains s t)"

definition engine_class :: "string \<Rightarrow> string" where
  "engine_class raw = (let l = to_lower raw in
     if str_contains l ''3d'' \<or> str_contains l ''graphics'' then ''3D''
     else if str_contains l ''compute'' then ''Compute''
     else if str_contains l ''copy'' \<or> str_contains l ''dma'' then ''Copy''
     else if str_contains l ''video'' \<or> str_contains l ''codec'' \<or> str_contains l ''vcn'' then ''Video''
     else if raw = '''' then ''Unknown'' else ''Other'')"

definition hex_digit :: "nat \<Rightarrow> char" where
  "hex_digit n = (if n < 10 then char_of (48 + n) else char_of (87 + n))"

definition hex8 :: "32 word \<Rightarrow> string" where
  "hex8 v = map (\<lambda>i. hex_digit (unat (drop_bit (4 * i) v) mod 16)) [7, 6, 5, 4, 3, 2, 1, 0]"

definition format_luid :: "32 word \<Rightarrow> 32 word \<Rightarrow> string" where
  "format_luid high low = ''0x'' @ hex8 high @ ''_0x'' @ hex8 low"

subsection \<open>One collection\<close>

datatype reading = Num flt | NaN

type_synonym readings = "(string \<times> reading) list"

record raw_counters =
  rw_engine_util :: readings
  rw_proc_dedicated :: readings
  rw_proc_shared :: readings
  rw_adapter_dedicated :: readings
  rw_adapter_shared :: readings

definition to_uint64 :: "(reading \<Rightarrow> nat) \<Rightarrow> reading \<Rightarrow> nat" where
  "to_uint64 junk r = (case r of
      Num v \<Rightarrow> (if 0 \<le> trunc_f v \<and> trunc_f v < 2 ^ 64 then nat (trunc_f v) else junk r)
    | NaN \<Rightarrow> junk r)"

definition impossible :: "reading \<Rightarrow> bool" where
  "impossible r = (case r of Num v \<Rightarrow> v < 0 \<or> 201 / 2 < v | NaN \<Rightarrow> True)"

definition of_luid :: "string \<Rightarrow> string \<Rightarrow> bool" where
  "of_luid luid name = (case parse_instance name of Some i \<Rightarrow> cn_luid i = luid | None \<Rightarrow> False)"

definition of_luid_process :: "string \<Rightarrow> string \<Rightarrow> bool" where
  "of_luid_process luid name = (case parse_instance name of Some i \<Rightarrow> cn_luid i = luid \<and> cn_has_pid i | None \<Rightarrow> False)"

definition the_instance :: "string \<Rightarrow> instance_name" where
  "the_instance name = the (parse_instance name)"

text \<open>The map of a key to a value, made from \<open>d\<close> when it is not there, and updated.\<close>

fun put_with :: "'k \<Rightarrow> 'v \<Rightarrow> ('v \<Rightarrow> 'v) \<Rightarrow> ('k \<times> 'v) list \<Rightarrow> ('k \<times> 'v) list" where
  "put_with k d f [] = [(k, f d)]"
| "put_with k d f ((k', v) # m) = (if k = k' then (k', f v) # m else (k', v) # put_with k d f m)"

definition valid_value :: "reading \<Rightarrow> flt option" where
  "valid_value r = (case r of Num v \<Rightarrow> (if 0 \<le> v then Some v else None) | NaN \<Rightarrow> None)"

text \<open>The adapter with the most memory in use; of equals the smallest identifier.\<close>

definition adapter_usage :: "readings \<Rightarrow> (string \<times> flt) list" where
  "adapter_usage m = fold (\<lambda>(name, r) per. case (parse_instance name, valid_value r) of
      (Some i, Some v) \<Rightarrow> put_with (cn_luid i) 0 (\<lambda>u. fadd u v) per
    | _ \<Rightarrow> per) m []"

definition busiest_luid :: "readings \<Rightarrow> string" where
  "busiest_luid m = fst (fold (\<lambda>(l, v) (best, best_v).
      if best_v < v \<or> (v = best_v \<and> lexordp (\<lambda>a b. char_code a < char_code b) l best) then (l, v) else (best, best_v)) (adapter_usage m) ('''', -1))"

definition total_bytes :: "(reading \<Rightarrow> nat) \<Rightarrow> string \<Rightarrow> readings \<Rightarrow> nat" where
  "total_bytes junk luid m = fold (\<lambda>(name, r) b. if of_luid luid name then u64 (b + to_uint64 junk r) else b) m 0"

definition new_proc :: "nat \<Rightarrow> proc_gpu" where
  "new_proc pid = \<lparr>pg_pid = int pid, pg_name = '''', pg_engine_util = [], pg_engine_by_key = [], pg_dedicated_bytes = 0, pg_shared_bytes = 0\<rparr>"

type_synonym engines = "(string \<times> engine) list"
type_synonym procs = "(nat \<times> proc_gpu) list"

definition engine_key :: "instance_name \<Rightarrow> string" where
  "engine_key i = ''phys_'' @ cn_phys i @ ''_eng_'' @ cn_eng i"

text \<open>The loop over the utilization readings: engines, processes and the number of impossible readings.\<close>

definition add_util :: "string \<Rightarrow> string \<times> reading \<Rightarrow> engines \<times> procs \<times> int \<Rightarrow> engines \<times> procs \<times> int" where
  "add_util luid = (\<lambda>(name, r) (es, ps, bad_n).
     if \<not> of_luid luid name then (es, ps, bad_n)
     else (case r of
         NaN \<Rightarrow> (es, ps, bad_n + 1)
       | Num v \<Rightarrow>
           (if impossible r then (es, ps, bad_n + 1)
            else let i = the_instance name; k = engine_key i
              in (put_with k \<lparr>en_key = k, en_type = engine_class (cn_eng_type i), en_util_pct = 0\<rparr>
                    (\<lambda>e. e\<lparr>en_util_pct := fadd (en_util_pct e) v\<rparr>) es,
                  (if cn_has_pid i then put_with (cn_pid i) (new_proc (cn_pid i))
                    (\<lambda>p. p\<lparr>pg_engine_by_key := put_with k 0 (\<lambda>u. fadd u v) (pg_engine_by_key p)\<rparr>) ps else ps),
                  bad_n))))"

definition add_memory :: "(nat \<Rightarrow> proc_gpu \<Rightarrow> proc_gpu) \<Rightarrow> (reading \<Rightarrow> nat) \<Rightarrow> string \<Rightarrow> readings \<Rightarrow> procs \<Rightarrow> procs" where
  "add_memory upd junk luid m ps = fold (\<lambda>(name, r) ps. if of_luid_process luid name
      then (let pid = cn_pid (the_instance name) in put_with pid (new_proc pid) (upd (to_uint64 junk r)) ps) else ps) m ps"

definition add_dedicated :: "nat \<Rightarrow> proc_gpu \<Rightarrow> proc_gpu" where
  "add_dedicated b p = p\<lparr>pg_dedicated_bytes := u64 (pg_dedicated_bytes p + b)\<rparr>"

definition add_shared :: "nat \<Rightarrow> proc_gpu \<Rightarrow> proc_gpu" where
  "add_shared b p = p\<lparr>pg_shared_bytes := u64 (pg_shared_bytes p + b)\<rparr>"

text \<open>The utilization of a process per engine class. An engine that is not in the map would be a nil
  dereference; \<open>None\<close> says so.\<close>

definition class_util :: "engines \<Rightarrow> proc_gpu \<Rightarrow> proc_gpu option" where
  "class_util es p = (case those (map (\<lambda>(k, v). map_option (\<lambda>e. (en_type e, v)) (map_of es k)) (pg_engine_by_key p)) of
      None \<Rightarrow> None
    | Some cs \<Rightarrow> Some (p\<lparr>pg_engine_util := fold (\<lambda>(c, v). by_type_max c v) cs (pg_engine_util p)\<rparr>))"

definition empty_sample :: sample where
  "empty_sample = \<lparr>sm_time = 0, sm_adapter_luid = '''', sm_adapter_name = '''', sm_dedicated_total_bytes = 0,
     sm_dedicated_used_bytes = 0, sm_shared_used_bytes = 0, sm_has_adapter_instances = False, sm_temperature_c = None,
     sm_power_pct = None, sm_fan_rpm = None, sm_engines = [], sm_processes = [], sm_invalid_readings = 0,
     sm_collect_duration = 0, sm_complete = False, sm_errors = []\<rparr>"

definition from_counters :: "(reading \<Rightarrow> nat) \<Rightarrow> raw_counters \<Rightarrow> string \<Rightarrow> sample option" where
  "from_counters junk rc luid0 =
     (let luid = (if luid0 = '''' then busiest_luid (rw_adapter_dedicated rc) else to_lower luid0);
          (es, ps0, bad_n) = fold (add_util luid) (rw_engine_util rc) ([], [], 0);
          ps = add_memory add_shared junk luid (rw_proc_shared rc) (add_memory add_dedicated junk luid (rw_proc_dedicated rc) ps0)
      in map_option (\<lambda>procs. empty_sample\<lparr>sm_adapter_luid := luid,
            sm_dedicated_used_bytes := total_bytes junk luid (rw_adapter_dedicated rc),
            sm_has_adapter_instances := list_ex (\<lambda>(name, _). of_luid luid name) (rw_adapter_dedicated rc),
            sm_shared_used_bytes := total_bytes junk luid (rw_adapter_shared rc),
            sm_engines := map (\<lambda>(_, e). e\<lparr>en_util_pct := clamp_pct (en_util_pct e)\<rparr>) es,
            sm_processes := procs, sm_invalid_readings := bad_n\<rparr>)
          (those (map (\<lambda>(_, p). class_util es p) ps)))"

subsection \<open>Samples are well formed\<close>

lemma fst_put_with: "fst ` set (put_with k d f m) = insert k (fst ` set m)"
  by (induction k d f m rule: put_with.induct) auto

lemma distinct_put_with: "distinct (map fst m) \<Longrightarrow> distinct (map fst (put_with k d f m))"
proof (induction k d f m rule: put_with.induct)
  case (2 k d f k' v m)
  then show ?case using fst_put_with [of k d f m] by (auto simp: image_def)
qed simp

lemma put_with_all:
  "\<forall>(k, v) \<in> set m. P k v \<Longrightarrow> (\<And>v. P k v \<Longrightarrow> P k (f v)) \<Longrightarrow> P k d \<Longrightarrow> \<forall>(k, v) \<in> set (put_with k d f m). P k v"
  by (induction k d f m rule: put_with.induct) auto

definition proc_ok :: "string set \<Rightarrow> nat \<Rightarrow> proc_gpu \<Rightarrow> bool" where
  "proc_ok ks pid p \<longleftrightarrow> pg_pid p = int pid \<and> fst ` set (pg_engine_by_key p) \<subseteq> ks \<and> distinct (map fst (pg_engine_by_key p))
     \<and> (\<forall>(k, v) \<in> set (pg_engine_by_key p). 0 \<le> v)"

definition engine_ok :: "string \<Rightarrow> engine \<Rightarrow> bool" where
  "engine_ok k e \<longleftrightarrow> en_key e = k \<and> 0 \<le> en_util_pct e"

definition tallies_ok :: "engines \<Rightarrow> procs \<Rightarrow> bool" where
  "tallies_ok es ps \<longleftrightarrow> distinct (map fst es) \<and> (\<forall>(k, e) \<in> set es. engine_ok k e)
     \<and> distinct (map fst ps) \<and> (\<forall>(pid, p) \<in> set ps. proc_ok (fst ` set es) pid p)"

lemma fadd_nonneg: "0 \<le> a \<Longrightarrow> 0 \<le> b \<Longrightarrow> 0 \<le> fadd a b"
  by (simp add: fadd_def fl64.rnd_nonneg)

lemma proc_ok_mono: "proc_ok ks pid p \<Longrightarrow> ks \<subseteq> ks' \<Longrightarrow> proc_ok ks' pid p"
  by (auto simp: proc_ok_def)

lemma new_proc_ok: "proc_ok ks pid (new_proc pid)"
  by (simp add: proc_ok_def new_proc_def)

lemma proc_ok_add:
  assumes "proc_ok ks pid p" "k \<in> ks" "0 \<le> v"
  shows "proc_ok ks pid (p\<lparr>pg_engine_by_key := put_with k 0 (\<lambda>u. fadd u v) (pg_engine_by_key p)\<rparr>)"
  using assms put_with_all [of "pg_engine_by_key p" "\<lambda>_ u. 0 \<le> u" k "\<lambda>u. fadd u v" 0]
  by (simp add: proc_ok_def fst_put_with distinct_put_with fadd_nonneg)

lemma tallies_ok_engine: "tallies_ok es ps \<Longrightarrow> 0 \<le> v \<Longrightarrow>
    tallies_ok (put_with k \<lparr>en_key = k, en_type = t, en_util_pct = 0\<rparr> (\<lambda>e. e\<lparr>en_util_pct := fadd (en_util_pct e) v\<rparr>) es) ps"
  using put_with_all [of es engine_ok k "\<lambda>e. e\<lparr>en_util_pct := fadd (en_util_pct e) v\<rparr>" "\<lparr>en_key = k, en_type = t, en_util_pct = 0\<rparr>"]
    proc_ok_mono [of "fst ` set es"]
  by (auto simp: tallies_ok_def engine_ok_def distinct_put_with fst_put_with fadd_nonneg split_beta subset_insertI)

lemma tallies_ok_proc:
  assumes "tallies_ok es ps" "\<And>p. proc_ok (fst ` set es) pid p \<Longrightarrow> proc_ok (fst ` set es) pid (f p)"
  shows "tallies_ok es (put_with pid (new_proc pid) f ps)"
  using assms put_with_all [of ps "proc_ok (fst ` set es)" pid f "new_proc pid"] new_proc_ok
  by (simp add: tallies_ok_def distinct_put_with)

lemma add_util_ok:
  assumes "tallies_ok es ps"
  shows "case add_util luid x (es, ps, n) of (es', ps', _) \<Rightarrow> tallies_ok es' ps'"
proof (cases x)
  case (Pair name r)
  show ?thesis
  proof (cases "of_luid luid name \<and> \<not> impossible r")
    case True
    then obtain v where r: "r = Num v" "0 \<le> v" by (cases r) (auto simp: impossible_def)
    let ?i = "the_instance name"
    let ?es = "put_with (engine_key ?i) \<lparr>en_key = engine_key ?i, en_type = engine_class (cn_eng_type ?i), en_util_pct = 0\<rparr>
      (\<lambda>e. e\<lparr>en_util_pct := fadd (en_util_pct e) v\<rparr>) es"
    have ok: "tallies_ok ?es ps" by (rule tallies_ok_engine [OF assms r(2)])
    have "tallies_ok ?es (put_with (cn_pid ?i) (new_proc (cn_pid ?i))
        (\<lambda>p. p\<lparr>pg_engine_by_key := put_with (engine_key ?i) 0 (\<lambda>u. fadd u v) (pg_engine_by_key p)\<rparr>) ps)"
      by (rule tallies_ok_proc [OF ok], rule proc_ok_add) (simp_all add: fst_put_with r(2))
    then show ?thesis using True ok by (simp add: Pair r add_util_def Let_def)
  qed (use assms in \<open>auto simp: Pair add_util_def split: reading.split\<close>)
qed

lemma fold_add_util_ok:
  "tallies_ok es ps \<Longrightarrow> case fold (add_util luid) xs (es, ps, n) of (es', ps', _) \<Rightarrow> tallies_ok es' ps'"
proof (induction xs arbitrary: es ps n)
  case (Cons x xs)
  then show ?case using add_util_ok [OF Cons.prems, of luid x n] by (cases "add_util luid x (es, ps, n)") auto
qed simp

lemma add_memory_ok:
  "tallies_ok es ps \<Longrightarrow> (\<And>b pid p. proc_ok (fst ` set es) pid p \<Longrightarrow> proc_ok (fst ` set es) pid (upd b p)) \<Longrightarrow>
   tallies_ok es (add_memory upd junk luid m ps)"
proof (induction m arbitrary: ps)
  case (Cons x m)
  obtain name r where x: "x = (name, r)" by (cases x)
  let ?pid = "cn_pid (the_instance name)"
  have step: "add_memory upd junk luid (x # m) ps = add_memory upd junk luid m
      (if of_luid_process luid name then put_with ?pid (new_proc ?pid) (upd (to_uint64 junk r)) ps else ps)"
    by (simp add: add_memory_def x Let_def)
  have "tallies_ok es (put_with ?pid (new_proc ?pid) (upd (to_uint64 junk r)) ps)"
    by (rule tallies_ok_proc [OF Cons.prems(1)]) (rule Cons.prems(2))
  then show ?case unfolding step using Cons by simp
qed (simp add: add_memory_def)

lemma proc_ok_memory:
  "proc_ok ks pid p \<Longrightarrow> proc_ok ks pid (add_dedicated b p)" "proc_ok ks pid p \<Longrightarrow> proc_ok ks pid (add_shared b p)"
  by (simp_all add: proc_ok_def add_dedicated_def add_shared_def)

lemma those_defined: "(\<And>x. x \<in> set xs \<Longrightarrow> \<exists>y. f x = Some y) \<Longrightarrow> \<exists>ys. those (map f xs) = Some ys \<and> list_all2 (\<lambda>x y. f x = Some y) xs ys"
proof (induction xs)
  case (Cons x xs)
  then obtain y ys where "f x = Some y" "those (map f xs) = Some ys" "list_all2 (\<lambda>x y. f x = Some y) xs ys" by fastforce
  then show ?case by auto
qed simp

lemma class_util_defined: "proc_ok (fst ` set es) pid p \<Longrightarrow> \<exists>q. class_util es p = Some q \<and> pg_pid q = pg_pid p \<and> pg_engine_by_key q = pg_engine_by_key p"
proof -
  assume "proc_ok (fst ` set es) pid p"
  then have "\<exists>e. map_of es k = Some e" if "(k, v) \<in> set (pg_engine_by_key p)" for k v
    using that map_of_eq_None_iff [of es k] by (force simp: proc_ok_def)
  then have "\<exists>ys. those (map (\<lambda>(k, v). map_option (\<lambda>e. (en_type e, v)) (map_of es k)) (pg_engine_by_key p)) = Some ys"
    using those_defined [of "pg_engine_by_key p" "\<lambda>(k, v). map_option (\<lambda>e. (en_type e, v)) (map_of es k)"] by fastforce
  then show ?thesis by (auto simp: class_util_def)
qed

lemma counters_tallied:
  assumes "fold (add_util luid) xs ([], [], 0) = (es, ps, n)"
  shows "tallies_ok es (add_memory add_shared junk luid sh (add_memory add_dedicated junk luid de ps))"
proof -
  have "tallies_ok [] []" by (simp add: tallies_ok_def)
  from fold_add_util_ok [OF this, of luid xs 0] have "tallies_ok es ps" by (simp add: assms)
  then show ?thesis by (intro add_memory_ok proc_ok_memory)
qed

lemma distinct_map_int: "distinct xs \<Longrightarrow> distinct (map int xs)"
  by (simp add: distinct_map)

lemma class_util_all:
  "list_all2 (\<lambda>x q. class_util es (snd x) = Some q) ps qs \<Longrightarrow> \<forall>(pid, p) \<in> set ps. proc_ok (fst ` set es) pid p \<Longrightarrow>
   map pg_pid qs = map int (map fst ps) \<and> (\<forall>q \<in> set qs. fst ` set (pg_engine_by_key q) \<subseteq> fst ` set es)"
proof (induction rule: list_all2_induct)
  case (Cons x ps q qs)
  then obtain pid p where x: "x = (pid, p)" "proc_ok (fst ` set es) pid p" by (cases x) auto
  then obtain q' where "class_util es p = Some q'" "pg_pid q' = pg_pid p" "pg_engine_by_key q' = pg_engine_by_key p"
    using class_util_defined by blast
  then show ?case using Cons x by (simp add: proc_ok_def)
qed simp

text \<open>A collection always gives a sample: no process refers to an engine that is not there, whatever the order in
  which the maps are walked. Its engines are distinct and at most busy, its processes distinct.\<close>

lemma counters_sound:
  obtains s where "from_counters junk rc luid0 = Some s"
    "distinct (map en_key (sm_engines s))" "\<forall>e \<in> set (sm_engines s). 0 \<le> en_util_pct e \<and> en_util_pct e \<le> 100"
    "distinct (map pg_pid (sm_processes s))"
    "\<forall>p \<in> set (sm_processes s). fst ` set (pg_engine_by_key p) \<subseteq> en_key ` set (sm_engines s)"
proof -
  let ?luid = "if luid0 = '''' then busiest_luid (rw_adapter_dedicated rc) else to_lower luid0"
  obtain es ps0 n where u: "fold (add_util ?luid) (rw_engine_util rc) ([], [], 0) = (es, ps0, n)" by (metis prod_cases3)
  let ?ps = "add_memory add_shared junk ?luid (rw_proc_shared rc) (add_memory add_dedicated junk ?luid (rw_proc_dedicated rc) ps0)"
  have ok: "tallies_ok es ?ps" by (rule counters_tallied [OF u])
  then have pok: "proc_ok (fst ` set es) pid p" if "(pid, p) \<in> set ?ps" for pid p using that by (auto simp: tallies_ok_def)
  obtain qs where qs: "those (map (\<lambda>(_, p). class_util es p) ?ps) = Some qs"
    "list_all2 (\<lambda>x q. class_util es (snd x) = Some q) ?ps qs"
    using those_defined [of ?ps "\<lambda>(_, p). class_util es p"] class_util_defined pok by (fastforce simp: split_beta)
  define s where "s = the (from_counters junk rc luid0)"
  have s: "from_counters junk rc luid0 = Some s" "sm_processes s = qs"
    "sm_engines s = map (\<lambda>(_, e). e\<lparr>en_util_pct := clamp_pct (en_util_pct e)\<rparr>) es"
    by (simp_all add: s_def from_counters_def Let_def u qs(1) split del: if_split)
  have keys: "map en_key (sm_engines s) = map fst es"
    using ok by (auto simp: s(3) tallies_ok_def engine_ok_def)
  have procs: "map pg_pid qs = map int (map fst ?ps)" "\<forall>q \<in> set qs. fst ` set (pg_engine_by_key q) \<subseteq> fst ` set es"
    using class_util_all [OF qs(2)] ok unfolding tallies_ok_def by blast+
  show thesis
  proof (rule that [OF s(1)])
    show "distinct (map en_key (sm_engines s))" using ok by (simp add: keys tallies_ok_def)
    show "\<forall>e \<in> set (sm_engines s). 0 \<le> en_util_pct e \<and> en_util_pct e \<le> 100" by (auto simp: s(3) clamp_pct_bounds)
    have "distinct (map fst ?ps)" using ok unfolding tallies_ok_def by blast
    then show "distinct (map pg_pid (sm_processes s))" unfolding s(2) procs(1) by (rule distinct_map_int)
    have "en_key ` set (sm_engines s) = fst ` set es" using arg_cong [OF keys, of set] by simp
    then show "\<forall>p \<in> set (sm_processes s). fst ` set (pg_engine_by_key p) \<subseteq> en_key ` set (sm_engines s)"
      using procs(2) by (simp add: s(2))
  qed
qed

subsection \<open>Other adapters and impossible readings do not count\<close>

definition own_readings :: "string \<Rightarrow> raw_counters \<Rightarrow> raw_counters" where
  "own_readings luid rc = (let own = filter (\<lambda>(name, _). of_luid luid name) in
     \<lparr>rw_engine_util = filter (\<lambda>(_, r). \<not> impossible r) (own (rw_engine_util rc)), rw_proc_dedicated = own (rw_proc_dedicated rc),
      rw_proc_shared = own (rw_proc_shared rc), rw_adapter_dedicated = own (rw_adapter_dedicated rc),
      rw_adapter_shared = own (rw_adapter_shared rc)\<rparr>)"

definition impossible_count :: "string \<Rightarrow> readings \<Rightarrow> int" where
  "impossible_count luid m = int (length (filter (\<lambda>(name, r). of_luid luid name \<and> impossible r) m))"

lemma add_util_filtered:
  "fold (add_util luid) m (es, ps, n) =
     (case fold (add_util luid) (filter (\<lambda>(_, r). \<not> impossible r) (filter (\<lambda>(name, _). of_luid luid name) m)) (es, ps, 0) of
        (es', ps', _) \<Rightarrow> (es', ps', n + impossible_count luid m))"
proof (induction m arbitrary: es ps n)
  case (Cons x m)
  obtain name r where x: "x = (name, r)" by (cases x)
  consider "\<not> of_luid luid name" | "of_luid luid name" "impossible r" | v where "of_luid luid name" "\<not> impossible r" "r = Num v"
    by (cases r) (auto simp: impossible_def)
  then show ?case
  proof cases
    case 2
    then have "add_util luid x (es, ps, n) = (es, ps, n + 1)" by (cases r) (simp_all add: x add_util_def)
    then show ?thesis using 2 Cons.IH by (simp add: x impossible_count_def case_prod_unfold)
  next
    case 3
    then obtain es1 ps1 where "\<And>k. add_util luid x (es, ps, k) = (es1, ps1, k)" by (simp add: x add_util_def Let_def)
    then show ?thesis using 3 Cons.IH [of es1 ps1 n] by (simp add: x impossible_count_def case_prod_unfold)
  qed (use Cons.IH in \<open>simp add: x add_util_def impossible_count_def\<close>)
qed (simp add: impossible_count_def)

lemma of_luid_process_own: "of_luid_process luid name \<Longrightarrow> of_luid luid name"
  by (auto simp: of_luid_def of_luid_process_def split: option.splits)

lemma add_memory_own: "add_memory upd junk luid (filter (\<lambda>(name, _). of_luid luid name) m) ps = add_memory upd junk luid m ps"
  unfolding add_memory_def by (induction m arbitrary: ps) (auto dest: of_luid_process_own)

lemma total_bytes_own: "total_bytes junk luid (filter (\<lambda>(name, _). of_luid luid name) m) = total_bytes junk luid m"
proof -
  have "fold (\<lambda>(name, r) b. if of_luid luid name then u64 (b + to_uint64 junk r) else b) (filter (\<lambda>(name, _). of_luid luid name) m) b
      = fold (\<lambda>(name, r) b. if of_luid luid name then u64 (b + to_uint64 junk r) else b) m b" for b
    by (induction m arbitrary: b) auto
  then show ?thesis by (simp add: total_bytes_def)
qed

lemma own_adapter: "list_ex (\<lambda>(name, _). of_luid luid name) (filter (\<lambda>(name, _). of_luid luid name) m) = list_ex (\<lambda>(name, _). of_luid luid name) m"
  by (induction m) auto

lemma only_own_readings_count:
  assumes "luid \<noteq> ''''"
  shows "from_counters junk rc luid = map_option (\<lambda>s. s\<lparr>sm_invalid_readings := impossible_count (to_lower luid) (rw_engine_util rc)\<rparr>)
    (from_counters junk (own_readings (to_lower luid) rc) luid)"
proof -
  let ?l = "to_lower luid"
  obtain es ps n where f: "fold (add_util ?l) (rw_engine_util (own_readings ?l rc)) ([], [], 0) = (es, ps, n)" by (metis prod_cases3)
  then have g: "fold (add_util ?l) (rw_engine_util rc) ([], [], 0) = (es, ps, impossible_count ?l (rw_engine_util rc))"
    using add_util_filtered [of ?l "rw_engine_util rc" "[]" "[]" 0] by (simp add: own_readings_def Let_def)
  show ?thesis
    unfolding from_counters_def Let_def f g if_not_P [OF assms]
    by (simp add: own_readings_def Let_def add_memory_own total_bytes_own own_adapter option.map_comp comp_def)
qed

subsection \<open>Names are read back\<close>

lemma hex_digit_plain: "n < 16 \<Longrightarrow> hex_digit n \<noteq> CHR ''_'' \<and> lower_char (hex_digit n) = hex_digit n"
proof -
  assume "n < 16"
  then have "n \<in> set [0..<16]" by simp
  moreover have "list_all (\<lambda>n. hex_digit n \<noteq> CHR ''_'' \<and> lower_char (hex_digit n) = hex_digit n) [0..<16]" by code_simp
  ultimately show ?thesis unfolding list_all_iff by blast
qed

lemma format_luid_plain: "length (format_luid h l) = 21" "to_lower (format_luid h l) = format_luid h l"
proof -
  show "length (format_luid h l) = 21" by (simp add: format_luid_def hex8_def)
  have h: "map lower_char (hex8 v) = hex8 v" for v using hex_digit_plain by (simp add: hex8_def)
  have "lower_char CHR ''0'' = CHR ''0''" "lower_char CHR ''x'' = CHR ''x''" "lower_char CHR ''_'' = CHR ''_''" by code_simp+
  then show "to_lower (format_luid h l) = format_luid h l" by (simp add: format_luid_def to_lower_def h)
qed

lemma until_from_us: "CHR ''_'' \<notin> set a \<Longrightarrow> until_us (a @ CHR ''_'' # r) = a \<and> from_us (a @ CHR ''_'' # r) = CHR ''_'' # r"
  by (auto simp: until_us_def from_us_def takeWhile_append dropWhile_append)

lemma cut_prefix_app: "cut_prefix p (p @ s) = Some s"
  by (simp add: cut_prefix_def has_prefix_def)

definition counter_name :: "string \<Rightarrow> string \<Rightarrow> string \<Rightarrow> string \<Rightarrow> string \<Rightarrow> string" where
  "counter_name pid luid phys eng typ =
     ''pid_'' @ pid @ CHR ''_'' # ''luid_'' @ luid @ ''_phys_'' @ phys @ ''_eng_'' @ eng @ ''_engtype_'' @ typ"

lemma parse_phys_full:
  assumes "CHR ''_'' \<notin> set phys" "CHR ''_'' \<notin> set eng"
  shows "parse_phys i (''_phys_'' @ phys @ ''_eng_'' @ eng @ ''_engtype_'' @ typ) = i\<lparr>cn_phys := phys, cn_eng := eng, cn_eng_type := typ\<rparr>"
proof -
  have us: "until_us (phys @ ''_eng_'' @ r) = phys" "from_us (phys @ ''_eng_'' @ r) = ''_eng_'' @ r"
    "until_us (eng @ ''_engtype_'' @ r) = eng" "from_us (eng @ ''_engtype_'' @ r) = ''_engtype_'' @ r" for r
    using until_from_us [OF assms(1)] until_from_us [OF assms(2)] by simp_all
  have e: "parse_eng j (''_eng_'' @ eng @ ''_engtype_'' @ typ) = j\<lparr>cn_eng := eng, cn_eng_type := typ\<rparr>" for j
    unfolding parse_eng_def cut_prefix_app option.case us by (simp add: parse_eng_type_def cut_prefix_app [of "''_engtype_''", simplified])
  show ?thesis unfolding parse_phys_def cut_prefix_app option.case us e by simp
qed

lemma instance_roundtrip:
  assumes "CHR ''_'' \<notin> set phys" "CHR ''_'' \<notin> set eng" "CHR ''_'' \<notin> set pid" "parse_uint32 pid = Some n"
  shows "parse_instance (counter_name pid (format_luid h l) phys eng typ) =
    Some \<lparr>cn_pid = n, cn_has_pid = True, cn_luid = format_luid h l, cn_phys = phys, cn_eng = eng, cn_eng_type = typ\<rparr>"
proof -
  have us: "until_us (pid @ CHR ''_'' # r) = pid" "from_us (pid @ CHR ''_'' # r) = CHR ''_'' # r" for r
    using until_from_us [OF assms(3)] by simp_all
  have luid: "parse_luid i (''luid_'' @ format_luid h l @ r) = Some (parse_phys (i\<lparr>cn_luid := format_luid h l\<rparr>) r)" for i r
    unfolding parse_luid_def cut_prefix_app option.case by (simp add: format_luid_plain)
  show ?thesis
    unfolding parse_instance_def counter_name_def cut_prefix_app option.case us Let_def assms(4) list.sel luid parse_phys_full [OF assms(1,2)]
    by simp
qed

subsection \<open>The collector\<close>

text \<open>One call for the values of a wildcard counter: its result, how many there are, and the items a large enough
  buffer holds.\<close>

record array_answer =
  aa_code :: nat
  aa_count :: nat
  aa_items :: "(string \<times> nat \<times> reading) list"

definition pdh_more_data :: nat where "pdh_more_data = 2147485650"
definition pdh_no_data :: nat where "pdh_no_data = 2147485653"
definition pdh_no_instance :: nat where "pdh_no_instance = 2147485649"

fun add_reading :: "reading \<Rightarrow> reading \<Rightarrow> reading" where
  "add_reading (Num a) (Num b) = Num (fadd a b)"
| "add_reading _ _ = NaN"

definition array_values :: "(string \<times> nat \<times> reading) list \<Rightarrow> readings" where
  "array_values items = fold (\<lambda>(name, status, r) m. if status \<noteq> 0 \<and> status \<noteq> 1 then m else put_with name (Num 0) (\<lambda>x. add_reading x r) m) items []"

text \<open>The loop, from attempt \<open>n\<close>: the first call has no buffer. \<open>Inl\<close> is the code of the error.\<close>

function formatted_array :: "(nat \<Rightarrow> array_answer) \<Rightarrow> nat \<Rightarrow> nat + readings" where
  "formatted_array calls n = (let a = calls n in
     if aa_code a = 0 \<and> (0 < n \<or> aa_count a = 0) then Inr (if aa_count a = 0 then [] else array_values (take (aa_count a) (aa_items a)))
     else if aa_code a = pdh_more_data \<and> n < 4 then formatted_array calls (Suc n)
     else if aa_code a = pdh_no_data \<or> aa_code a = pdh_no_instance then Inr [] else Inl (aa_code a))"
  by pat_completeness auto
termination by (relation "measure (\<lambda>(_, n). 5 - n)") auto

declare formatted_array.simps [simp del]

record pdh_collector =
  pd_open :: bool
  pd_primed :: bool

definition pdh_close :: "pdh_collector \<Rightarrow> pdh_collector" where
  "pdh_close p = p\<lparr>pd_open := False\<rparr>"

definition pdh_build :: "bool \<Rightarrow> pdh_collector \<Rightarrow> bool \<times> pdh_collector" where
  "pdh_build ok p = (if ok then (True, \<lparr>pd_open = True, pd_primed = False\<rparr>) else (False, pdh_close p))"

text \<open>What the system answers to one collection: the text of a failed query, and the arrays of the five counters.\<close>

record pdh_io =
  pq_failure :: "string option"
  pq_engine_util :: "string + readings"
  pq_proc_dedicated :: "string + readings"
  pq_proc_shared :: "string + readings"
  pq_adapter_dedicated :: "string + readings"
  pq_adapter_shared :: "string + readings"

definition ok_readings :: "string + readings \<Rightarrow> readings" where
  "ok_readings a = (case a of Inr m \<Rightarrow> m | Inl _ \<Rightarrow> [])"

definition counter_path :: "string \<Rightarrow> string \<Rightarrow> string" where
  "counter_path set_name counter = [CHR 0x5C] @ set_name @ ''(*)'' @ [CHR 0x5C] @ counter"

definition array_error :: "string \<Rightarrow> string + readings \<Rightarrow> string list" where
  "array_error path a = (case a of Inl e \<Rightarrow> [path @ '': '' @ e] | Inr _ \<Rightarrow> [])"

definition empty_raw :: raw_counters where
  "empty_raw = \<lparr>rw_engine_util = [], rw_proc_dedicated = [], rw_proc_shared = [], rw_adapter_dedicated = [], rw_adapter_shared = []\<rparr>"

definition pdh_collect :: "pdh_io \<Rightarrow> pdh_collector \<Rightarrow> (raw_counters \<times> bool \<times> string option) \<times> pdh_collector" where
  "pdh_collect io p =
     (if \<not> pd_open p then ((empty_raw, False, Some ''pdh query closed''), p)
      else (case pq_failure io of
          Some e \<Rightarrow> ((empty_raw, False, Some e), p)
        | None \<Rightarrow>
            (let errs = array_error (counter_path ''GPU Engine'' ''Utilization Percentage'') (pq_engine_util io)
                 @ array_error (counter_path ''GPU Process Memory'' ''Dedicated Usage'') (pq_proc_dedicated io)
                 @ array_error (counter_path ''GPU Process Memory'' ''Shared Usage'') (pq_proc_shared io)
                 @ array_error (counter_path ''GPU Adapter Memory'' ''Dedicated Usage'') (pq_adapter_dedicated io)
                 @ array_error (counter_path ''GPU Adapter Memory'' ''Shared Usage'') (pq_adapter_shared io);
               raw = \<lparr>rw_engine_util = (if pd_primed p then ok_readings (pq_engine_util io) else []),
                 rw_proc_dedicated = ok_readings (pq_proc_dedicated io), rw_proc_shared = ok_readings (pq_proc_shared io),
                 rw_adapter_dedicated = ok_readings (pq_adapter_dedicated io), rw_adapter_shared = ok_readings (pq_adapter_shared io)\<rparr>
             in ((raw, pd_primed p, if errs = [] then None else Some (join_with ''; '' errs)), p\<lparr>pd_primed := True\<rparr>))))"

record adapter =
  ad_name :: string
  ad_vendor_id :: nat
  ad_luid :: string
  ad_dedicated_bytes :: nat
  ad_software :: bool

fun select_loop :: "string \<Rightarrow> adapter list \<Rightarrow> adapter option \<Rightarrow> adapter option" where
  "select_loop sel [] best = best"
| "select_loop sel (a # as) best =
     (if ad_software a \<or> ad_vendor_id a = 5140 then select_loop sel as best
      else if sel \<noteq> '''' then
        (if to_lower (ad_luid a) = sel \<or> str_contains (to_lower (ad_name a)) sel then Some a else select_loop sel as best)
      else select_loop sel as (case best of
          None \<Rightarrow> Some a
        | Some b \<Rightarrow> if ad_dedicated_bytes b < ad_dedicated_bytes a then Some a else best))"

definition select_adapter :: "adapter list \<Rightarrow> string \<Rightarrow> adapter option" where
  "select_adapter ads selector = select_loop (to_lower selector) ads None"

record windows_collector =
  wc_pdh :: pdh_collector
  wc_adapter :: adapter
  wc_selector :: string

text \<open>The arguments are the adapters the system lists, if it does, and whether opening the query succeeds.\<close>

definition rebuild :: "adapter list option \<Rightarrow> bool \<Rightarrow> windows_collector \<Rightarrow> bool \<times> windows_collector" where
  "rebuild ads ok w = (case ads of
      None \<Rightarrow> (False, w)
    | Some as \<Rightarrow> (case select_adapter as (wc_selector w) of
          None \<Rightarrow> (False, w)
        | Some a \<Rightarrow> (case pdh_build ok (wc_pdh w) of (r, p) \<Rightarrow> (r, w\<lparr>wc_adapter := a, wc_pdh := p\<rparr>))))"

record perf_data =
  pf_temperature_c :: flt
  pf_power_pct :: flt
  pf_fan_rpm :: int

definition add_perf :: "string + perf_data \<Rightarrow> sample \<Rightarrow> sample" where
  "add_perf perf s = (case perf of
      Inl e \<Rightarrow> s\<lparr>sm_errors := sm_errors s @ [''perf data: '' @ e]\<rparr>
    | Inr pd \<Rightarrow> s\<lparr>sm_temperature_c := (if 0 < pf_temperature_c pd then Some (pf_temperature_c pd) else None),
        sm_power_pct := (if 0 < pf_power_pct pd then Some (pf_power_pct pd) else None), sm_fan_rpm := Some (pf_fan_rpm pd)\<rparr>)"

definition flag_incomplete :: "bool \<Rightarrow> string \<Rightarrow> sample \<Rightarrow> sample" where
  "flag_incomplete b e s = (if b then s\<lparr>sm_complete := False, sm_errors := sm_errors s @ [e]\<rparr> else s)"

definition collect :: "(reading \<Rightarrow> nat) \<Rightarrow> time \<Rightarrow> dur \<Rightarrow> pdh_io \<Rightarrow> string + perf_data \<Rightarrow> windows_collector \<Rightarrow> sample option \<times> windows_collector" where
  "collect junk t0 took io perf w = (case pdh_collect io (wc_pdh w) of ((raw, primed, err), p) \<Rightarrow>
     (map_option (\<lambda>s0.
       let s1 = s0\<lparr>sm_time := t0, sm_adapter_name := ad_name (wc_adapter w), sm_dedicated_total_bytes := ad_dedicated_bytes (wc_adapter w),
             sm_complete := (primed \<and> err = None),
             sm_errors := (case err of Some e \<Rightarrow> [e] | None \<Rightarrow> []) @ (if primed then [] else [''priming sample: utilization not yet available''])\<rparr>;
           s2 = flag_incomplete (0 < sm_invalid_readings s1 \<and> sm_engines s1 = []) ''all engine utilization readings were invalid'' s1;
           s3 = flag_incomplete (\<not> sm_has_adapter_instances s2) (''no GPU Adapter Memory instance for adapter LUID '' @ ad_luid (wc_adapter w)) s2
       in (add_perf perf s3)\<lparr>sm_collect_duration := took\<rparr>) (from_counters junk raw (ad_luid (wc_adapter w))), w\<lparr>wc_pdh := p\<rparr>))"

definition answered :: "pdh_io \<Rightarrow> bool" where
  "answered io \<longleftrightarrow> pq_failure io = None \<and> (\<forall>a \<in> {pq_engine_util io, pq_proc_dedicated io, pq_proc_shared io, pq_adapter_dedicated io,
     pq_adapter_shared io}. \<not> isl a)"

lemma pdh_collect_ok:
  assumes "pdh_collect io p = ((raw, True, None), p')"
  shows "pd_open p \<and> pd_primed p \<and> answered io \<and> rw_engine_util raw = ok_readings (pq_engine_util io)
    \<and> rw_adapter_dedicated raw = ok_readings (pq_adapter_dedicated io)"
  using assms
  by (auto simp: pdh_collect_def answered_def array_error_def Let_def split: if_splits option.splits sum.splits)

lemma flag_incomplete_keeps:
  "sm_engines (flag_incomplete b e s) = sm_engines s" "sm_processes (flag_incomplete b e s) = sm_processes s"
  "sm_invalid_readings (flag_incomplete b e s) = sm_invalid_readings s" "sm_has_adapter_instances (flag_incomplete b e s) = sm_has_adapter_instances s"
  "sm_complete (flag_incomplete b e s) \<longleftrightarrow> \<not> b \<and> sm_complete s"
  by (simp_all add: flag_incomplete_def)

lemma add_perf_keeps:
  "sm_engines (add_perf q s) = sm_engines s" "sm_processes (add_perf q s) = sm_processes s"
  "sm_invalid_readings (add_perf q s) = sm_invalid_readings s" "sm_has_adapter_instances (add_perf q s) = sm_has_adapter_instances s"
  "sm_complete (add_perf q s) = sm_complete s"
  by (simp_all add: add_perf_def split: sum.split)

definition explained :: "sample \<Rightarrow> bool" where
  "explained s \<longleftrightarrow> sm_complete s \<or> sm_errors s \<noteq> []"

lemma explained_intros:
  "explained s \<Longrightarrow> explained (flag_incomplete b e s)" "explained s \<Longrightarrow> explained (add_perf q s)"
  "explained s \<Longrightarrow> explained (s\<lparr>sm_collect_duration := d\<rparr>)"
  by (auto simp: explained_def flag_incomplete_def add_perf_def split: sum.split)

lemma from_counters_reads:
  assumes "from_counters junk rc luid = Some s"
  defines "l \<equiv> if luid = '''' then busiest_luid (rw_adapter_dedicated rc) else to_lower luid"
  shows "sm_has_adapter_instances s \<longleftrightarrow> (\<exists>(name, _) \<in> set (rw_adapter_dedicated rc). of_luid l name)"
    and "sm_invalid_readings s = impossible_count l (rw_engine_util rc)"
proof -
  obtain es ps n where f: "fold (add_util l) (rw_engine_util rc) ([], [], 0) = (es, ps, n)" by (metis prod_cases3)
  have "sm_has_adapter_instances s \<longleftrightarrow> list_ex (\<lambda>(name, _). of_luid l name) (rw_adapter_dedicated rc)"
    using assms(1) unfolding from_counters_def Let_def l_def [symmetric] f by auto
  then show "sm_has_adapter_instances s \<longleftrightarrow> (\<exists>(name, _) \<in> set (rw_adapter_dedicated rc). of_luid l name)"
    by (simp add: list_ex_iff)
  have "n = impossible_count l (rw_engine_util rc)"
    using add_util_filtered [of l "rw_engine_util rc" "[]" "[]" 0] by (simp add: f case_prod_unfold)
  then show "sm_invalid_readings s = impossible_count l (rw_engine_util rc)"
    using assms(1) unfolding from_counters_def Let_def l_def [symmetric] f by auto
qed

lemma first_sample_primes:
  assumes "rebuild ads ok w0 = (True, w)"
  shows "\<not> pd_primed (wc_pdh w)"
  using assms by (auto simp: rebuild_def pdh_build_def split: option.splits if_splits prod.splits)

text \<open>C33. A sample the collector calls complete is a real observation: the query was open and primed, so the first
  sample after opening or rebuilding it is never complete, all five counters were answered, one of the answers names
  the watched adapter, and not every utilization reading was impossible. Whatever the counters answer there is a
  sample; its engines are distinct and between idle and fully busy, and the engines of its processes are among
  them. A sample that is not complete says why.\<close>

theorem complete_sample_is_real:
  assumes "ad_luid (wc_adapter w) \<noteq> ''''"
  shows "\<exists>s. fst (collect junk t0 took io perf w) = Some s
    \<and> distinct (map en_key (sm_engines s)) \<and> (\<forall>e \<in> set (sm_engines s). 0 \<le> en_util_pct e \<and> en_util_pct e \<le> 100)
    \<and> (\<forall>p \<in> set (sm_processes s). fst ` set (pg_engine_by_key p) \<subseteq> en_key ` set (sm_engines s))
    \<and> (if sm_complete s
       then pd_open (wc_pdh w) \<and> pd_primed (wc_pdh w) \<and> (\<forall>ads ok w0. rebuild ads ok w0 \<noteq> (True, w)) \<and> answered io
         \<and> (\<exists>(name, _) \<in> set (ok_readings (pq_adapter_dedicated io)). of_luid (to_lower (ad_luid (wc_adapter w))) name)
         \<and> (impossible_count (to_lower (ad_luid (wc_adapter w))) (ok_readings (pq_engine_util io)) = 0 \<or> sm_engines s \<noteq> [])
       else sm_errors s \<noteq> [])"
proof -
  obtain raw primed err p where q: "pdh_collect io (wc_pdh w) = ((raw, primed, err), p)" by (metis prod.collapse)
  obtain s0 where s0: "from_counters junk raw (ad_luid (wc_adapter w)) = Some s0"
    "distinct (map en_key (sm_engines s0))" "\<forall>e \<in> set (sm_engines s0). 0 \<le> en_util_pct e \<and> en_util_pct e \<le> 100"
    "\<forall>p \<in> set (sm_processes s0). fst ` set (pg_engine_by_key p) \<subseteq> en_key ` set (sm_engines s0)"
    by (rule counters_sound)
  note reads = from_counters_reads [OF s0(1), unfolded if_not_P [OF assms]]
  define s where "s = the (fst (collect junk t0 took io perf w))"
  have s: "fst (collect junk t0 took io perf w) = Some s" "sm_engines s = sm_engines s0" "sm_processes s = sm_processes s0"
    "sm_complete s \<longleftrightarrow> sm_has_adapter_instances s0 \<and> \<not> (0 < sm_invalid_readings s0 \<and> sm_engines s0 = []) \<and> primed \<and> err = None"
    by (auto simp: s_def collect_def q s0(1) Let_def flag_incomplete_keeps add_perf_keeps)
  have errs: "sm_errors s \<noteq> []" if "\<not> sm_complete s"
  proof -
    have "explained s" unfolding s_def collect_def q prod.case s0(1) option.map Let_def fst_conv option.sel
      by (intro explained_intros) (auto simp: explained_def split: option.splits)
    then show ?thesis using that by (simp add: explained_def)
  qed
  have real: "pd_open (wc_pdh w) \<and> pd_primed (wc_pdh w) \<and> answered io \<and> rw_engine_util raw = ok_readings (pq_engine_util io)
      \<and> rw_adapter_dedicated raw = ok_readings (pq_adapter_dedicated io)" if "sm_complete s"
  proof -
    have "pdh_collect io (wc_pdh w) = ((raw, True, None), p)" using q that s(4) by simp
    then show ?thesis by (rule pdh_collect_ok)
  qed
  have count: "impossible_count l m \<le> 0 \<longleftrightarrow> impossible_count l m = 0" for l m by (simp add: impossible_count_def)
  show ?thesis
  proof (cases "sm_complete s")
    case True
    then have "\<forall>ads ok w0. rebuild ads ok w0 \<noteq> (True, w)" using real first_sample_primes by blast
    moreover have "(\<exists>(name, _) \<in> set (rw_adapter_dedicated raw). of_luid (to_lower (ad_luid (wc_adapter w))) name)
        \<and> (impossible_count (to_lower (ad_luid (wc_adapter w))) (rw_engine_util raw) = 0 \<or> sm_engines s \<noteq> [])"
      using True s(4) reads count by (simp add: s(2) not_less)
    ultimately show ?thesis using True real s0(2-4) by (intro exI [of _ s]) (simp add: s(1-3))
  next
    case False
    then show ?thesis using errs s0(2-4) by (intro exI [of _ s]) (simp add: s(1-3))
  qed
qed

definition demo_collector :: windows_collector where
  "demo_collector = \<lparr>wc_pdh = \<lparr>pd_open = True, pd_primed = True\<rparr>,
     wc_adapter = \<lparr>ad_name = ''GPU'', ad_vendor_id = 4098, ad_luid = ''0x00000000_0x0000C3F1'', ad_dedicated_bytes = 8, ad_software = False\<rparr>,
     wc_selector = ''''\<rparr>"

definition demo_pdh_io :: pdh_io where
  "demo_pdh_io = \<lparr>pq_failure = Some ''PdhCollectQueryData: 0x1'', pq_engine_util = Inr [(''pid_9_luid_0x00000000_0x0000C3F1_phys_0_eng_3_engtype_Compute'', NaN)],
     pq_proc_dedicated = Inr [], pq_proc_shared = Inr [],
     pq_adapter_dedicated = Inr [(''luid_0x00000000_0x0000C3F1_phys_0'', NaN)], pq_adapter_shared = Inr []\<rparr>"

theorem complete_sample_is_real_witness:
  "\<exists>s. fst (collect (\<lambda>_. 0) 7 1 demo_pdh_io (Inl ''no device'') demo_collector) = Some s \<and> \<not> sm_complete s \<and> sm_errors s \<noteq> []"
proof -
  have "ad_luid (wc_adapter demo_collector) \<noteq> ''''" by (simp add: demo_collector_def)
  moreover have "\<not> answered demo_pdh_io" by (simp add: answered_def demo_pdh_io_def)
  ultimately show ?thesis using complete_sample_is_real [of demo_collector "\<lambda>_. 0" 7 1 demo_pdh_io "Inl ''no device''"] by metis
qed

end
