(* ===== verification/Spec2Isabelle.thy ===== *)
theory Spec2Isabelle
  imports Classify Recovery Defaults_Correct Config_Store_Correct Config_Update Observe_Correct Gguf_Correct Modelplan
    Auth_Correct Status_Correct Persister Api_Events Api_Correct Proxy Supervisor Setup_Info Gpu_Reset Counters
begin

text \<open>
  Benchwarmer lends an idle GPU to a language-model runtime (\<open>llama-server\<close>) and takes it back when the
  user of the machine needs it. It is a Windows service with an HTTP API, an inference proxy and one child
  process, the runtime.

  \<^bold>\<open>How the parts work together.\<close> Each tick the controller (\<open>internal/controller\<close>) takes an observation of the
  GPU, the processes and the session, the observer (\<open>internal/observe\<close>) turns it into facts with durations, the
  policy evaluator (\<open>internal/policy\<close>) decides from the facts, and the controller acts on the decision: it starts
  or stops the runtime, moves the lifecycle (\<open>internal/state\<close>), and opens or closes the gate (\<open>internal/proxy\<close>)
  through which the proxy admits requests. Goroutines that wait for a load or a stop report back through
  channels. The API (\<open>internal/api\<close>) reads the status and changes mode and configuration; the configuration
  (\<open>internal/config\<close>) is validated, versioned and installed atomically; what happened is stored
  (\<open>internal/store\<close>) and what must survive a restart is saved through the persister (\<open>internal/service\<close>). The
  supervisor (\<open>internal/winsvc\<close>) stands between all of this and the service control manager.

  \<^bold>\<open>Theories and the code they model.\<close>

  \<^item> Ground: \<open>Prelude\<close> (Go's time, durations, integers, strings and formatted text), \<open>Float64\<close> (binary64
    rounding, the locale \<open>float_rounding\<close>), \<open>Net\<close> (\<open>net\<close>, \<open>strconv\<close>), \<open>Transition_System\<close> (the locale
    \<open>inductive_invariant\<close>).
  \<^item> Lifecycle and policy: \<open>Lifecycle\<close> (\<open>state.go\<close>), \<open>Schedule\<close> (\<open>schedule.go\<close>), \<open>Policy_Types\<close> and \<open>Policy\<close>
    (\<open>types.go\<close>, \<open>evaluate.go\<close>), \<open>Classify\<close> (\<open>classify.go\<close>). The evaluator is compared with an abstract table
    of verdicts, the glob matcher with the recursive wildcard language, the schedule with intervals of the week.
  \<^item> Observation: \<open>Telemetry\<close> (\<open>sample.go\<close>), \<open>Counters\<close> (\<open>counters.go\<close> and the collector of
    \<open>wingpu_windows.go\<close>), \<open>Gpu_Reset\<close> (\<open>gpureset.go\<close>), \<open>Observe\<close> and \<open>Observe_Correct\<close> (\<open>observe.go\<close>,
    \<open>facts.go\<close>): what the durations, the memory accounting and the application lists mean.
  \<^item> Controller: \<open>Events\<close>, \<open>Controller_State\<close>, \<open>Controller\<close> (\<open>controller.go\<close>, \<open>step.go\<close>, \<open>attribution.go\<close>, one
    definition per method), \<open>Backend\<close> and \<open>Config_Update\<close> (\<open>backend.go\<close>), \<open>Controller_Frame\<close> (what each method
    leaves alone), \<open>Controller_Inv\<close> (the invariant), \<open>Controller_Trace\<close> (the logs), \<open>System\<close> (the controller with
    its goroutines and its clients as one step relation: safety, draining, loading) and \<open>Recovery\<close> (waits after
    faults).
  \<^item> Gate and proxy: \<open>Gate\<close> (\<open>gate.go\<close>, the locale \<open>admission\<close>), \<open>Proxy\<close> (\<open>proxy.go\<close>: events of all requests,
    their timers and the controller interleaved) and \<open>Usage\<close> (\<open>usage.go\<close>).
  \<^item> Configuration: \<open>Config\<close> (\<open>config.go\<close>), \<open>Defaults\<close> and \<open>Defaults_Correct\<close>, \<open>Redact\<close>, \<open>Validate\<close> and
    \<open>Validate_Correct\<close>, \<open>Config_Json\<close>, \<open>Impact\<close> and \<open>Impact_Correct\<close>, \<open>Config_Store\<close> and
    \<open>Config_Store_Correct\<close> (loading, and saving through a crash at any moment).
  \<^item> API: \<open>Sign_In\<close> (\<open>signin.go\<close>), \<open>Auth\<close> and \<open>Auth_Correct\<close> (\<open>auth.go\<close>), \<open>Status\<close> and \<open>Status_Correct\<close>
    (\<open>owner.go\<close> and the status of \<open>backend.go\<close>), \<open>Api\<close>, \<open>Api_Events\<close> and \<open>Api_Correct\<close> (\<open>handler.go\<close>,
    \<open>setup.go\<close>, \<open>errors.go\<close>): routing, every handler, and what a request can change.
  \<^item> Storage: \<open>Store\<close> and \<open>Store_Correct\<close> (\<open>internal/store\<close>), \<open>Persister\<close> (the documents of a restart).
  \<^item> Models: \<open>Gguf\<close> and \<open>Gguf_Correct\<close> (\<open>gguf.go\<close>), \<open>Modelplan\<close> (\<open>modelplan.go\<close>), \<open>Model_Files\<close>
    and \<open>Setup_Info\<close> (\<open>setupinfo.go\<close>, \<open>modelinspect.go\<close>, \<open>service/gguf.go\<close>), \<open>Runtime_Identity\<close>
    (\<open>runtimeidentity.go\<close>).
  \<^item> Service: \<open>Supervisor\<close> (\<open>winsvc.go\<close>, \<open>supervisor.go\<close>), \<open>Secrets\<close> (\<open>secrets.go\<close>).

  State is passed explicitly: a method with a pointer receiver is a function that returns the updated record, and
  its collaborators (clock, adapter, store, event sink) are a record of answers. Locks are not modelled: what
  runs under a lock is one step. Where goroutines matter their steps are a relation (\<open>sys_step\<close>, \<open>px_step\<close>,
  \<open>plane_next\<close>, the operations of the gate) and the properties hold in every interleaving.

  \<^bold>\<open>Abstractions.\<close> A nil slice is the empty list. Time is an integer of nanoseconds, durations saturate as
  \<open>time.Time.Sub\<close> does; 64-bit arithmetic is written out with its wrap-around where a value can reach it
  (\<open>wrap64\<close>, \<open>u64\<close>, \<open>64 word\<close>). Floats are rationals with rounding after each operation. Strings are bytes; letter
  case and white space are those of ASCII, and paths have the slash as separator. Texts for people are a
  format with its arguments (\<open>gotext\<close>), and an owner's text is the leading text of the formatted value.
  \<open>encoding/json\<close>, SHA-256, MIME and URL parsing, the zone database and the answers of the operating system
  are parameters; where a property needs a law of one of them (a decoder reads back what the encoder wrote) the law
  is a hypothesis and the property has a witness with a concrete instance. Tables of the database are lists of rows and a transaction
  is one step. The unstable \<open>sort.Slice\<close> is a stable sort, and an error while reading a model file is a short input. The final
  assignment of \<open>Shutdown\<close>, after the loop has ended, is not a step of \<open>System\<close>.

  \<^bold>\<open>Bounds.\<close> No loop runs on fuel that could run out. Loops of the source that are not structural are functions with
  a termination proof (the scan for the next schedule change is bounded by the minutes of eight days, the loops of the
  header reader by its read budget, the retries of the counter query by five attempts); the matcher of \<open>Usage\<close> is given
  the length of its input, which every match shortens. The statements about the proxy assume fewer than
  \<open>2 ^ 64\<close> events, so that the sequence number of the gate does not wrap.

  \<^bold>\<open>Not modelled.\<close> \<open>internal/runtime/llamacpp\<close>, \<open>procgroup\<close>, \<open>signals\<close> and the COM and driver calls of
  \<open>telemetry\<close> are calls of the operating system, and the controller sees them only through the answers that are its
  parameters. \<open>tlscert\<close>, \<open>provision\<close>, \<open>metrics\<close>, \<open>logfile\<close>, the installation and console parts of \<open>winsvc\<close> and
  the wiring of \<open>service.go\<close> are cryptography, downloads, registration and file handling without logic of their own that
  the properties rest on. The web interface is not Go code; the commands under \<open>cmd\<close> are entry points, hardware probes and test doubles.
\<close>

end
